(* ===== verification/Prelude.thy ===== *)
theory Prelude
  imports Main "HOL-Library.Word"
begin

text \<open>
  Shared vocabulary of the development: results of fallible code and their sequencing,
  overflow-checked machine arithmetic, the environment a NEAR contract method reads,
  promises, sums over the entries of a key-value map, decimal rendering of integers, and the
  two interfaces every contract of the system is shown to satisfy (it keeps an invariant; its
  owner changes only at the owner's own request).
\<close>

named_theorems ovf "equations of the overflow-checked operations"

section \<open>Fallible results\<close>

text \<open>
  A Rust panic aborts the call. \<open>Require\<close> and \<open>Expect\<close> carry the message of a failed
  \<open>require!\<close> and of an \<open>expect\<close> on \<open>None\<close>, \<open>PanicStr\<close> that of \<open>env::panic_str\<close>;
  \<open>Overflow\<close> is an arithmetic overflow (the contracts are built with
  \<open>overflow-checks = true\<close>), \<open>DivByZero\<close> a division by zero.
\<close>

datatype panic = Require string | Expect string | PanicStr string | Overflow | DivByZero

type_synonym 'a res = "panic + 'a"

definition rbind :: "'e + 'a \<Rightarrow> ('a \<Rightarrow> 'e + 'b) \<Rightarrow> 'e + 'b" where
  "rbind m f = (case m of Inl e \<Rightarrow> Inl e | Inr x \<Rightarrow> f x)"

lemma rbind_simps [simp]: "rbind (Inl e) f = Inl e" "rbind (Inr x) f = f x"
  by (simp_all add: rbind_def)

lemma rbind_eq_Inr [simp]: "rbind m f = Inr y \<longleftrightarrow> (\<exists>x. m = Inr x \<and> f x = Inr y)"
  by (cases m) auto

lemma rbind_eq_Inl: "rbind m f = Inl e \<longleftrightarrow> m = Inl e \<or> (\<exists>x. m = Inr x \<and> f x = Inl e)"
  by (cases m) auto

lemma rbind_cong [fundef_cong]:
  "m = m' \<Longrightarrow> (\<And>x. m' = Inr x \<Longrightarrow> f x = g x) \<Longrightarrow> rbind m f = rbind m' g"
  by (cases m') auto

lemma rbind_assoc: "rbind (rbind m f) g = rbind m (\<lambda>x. rbind (f x) g)"
  by (cases m) auto

lemma rbind_Inr_right [simp]: "rbind m Inr = m"
  by (cases m) auto

definition require :: "bool \<Rightarrow> string \<Rightarrow> unit res" where
  "require b msg = (if b then Inr () else Inl (Require msg))"

lemma require_simps [simp]:
  "require True msg = Inr ()" "require False msg = Inl (Require msg)"
  "require b msg = Inr u \<longleftrightarrow> b"
  "require b msg = Inl e \<longleftrightarrow> \<not> b \<and> e = Require msg"
  by (auto simp: require_def)

definition expect :: "'a option \<Rightarrow> string \<Rightarrow> 'a res" where
  "expect x msg = (case x of None \<Rightarrow> Inl (Expect msg) | Some a \<Rightarrow> Inr a)"

lemma expect_simps [simp]:
  "expect None msg = Inl (Expect msg)" "expect (Some a) msg = Inr a"
  "expect x msg = Inr a \<longleftrightarrow> x = Some a"
  "expect x msg = Inl e \<longleftrightarrow> x = None \<and> e = Expect msg"
  by (auto simp: expect_def split: option.splits)

section \<open>Machine integers\<close>

type_synonym u8 = "8 word"
type_synonym u16 = "16 word"
type_synonym u32 = "32 word"
type_synonym u64 = "64 word"
type_synonym u128 = "128 word"
type_synonym u256 = "256 word"

text \<open>Rust's \<open>+\<close>, \<open>-\<close>, \<open>*\<close> and \<open>/\<close> on unsigned integers, with overflow checks on.\<close>

definition add_ov :: "'a::len word \<Rightarrow> 'a word \<Rightarrow> 'a word res" where
  "add_ov a b = (if unat a + unat b < 2 ^ LENGTH('a) then Inr (a + b) else Inl Overflow)"

definition sub_ov :: "'a::len word \<Rightarrow> 'a word \<Rightarrow> 'a word res" where
  "sub_ov a b = (if b \<le> a then Inr (a - b) else Inl Overflow)"

definition mul_ov :: "'a::len word \<Rightarrow> 'a word \<Rightarrow> 'a word res" where
  "mul_ov a b = (if unat a * unat b < 2 ^ LENGTH('a) then Inr (a * b) else Inl Overflow)"

definition div_ov :: "'a::len word \<Rightarrow> 'a word \<Rightarrow> 'a word res" where
  "div_ov a b = (if b = 0 then Inl DivByZero else Inr (a div b))"

text \<open>Each succeeds exactly when its result over the natural numbers fits the width.\<close>

lemma add_ov_Inr [ovf]:
  fixes a b c :: "'a::len word"
  shows "add_ov a b = Inr c \<longleftrightarrow> unat c = unat a + unat b"
proof
  assume "add_ov a b = Inr c"
  then show "unat c = unat a + unat b"
    by (auto simp: add_ov_def unat_word_ariths split: if_splits)
next
  assume eq: "unat c = unat a + unat b"
  then have "unat a + unat b < 2 ^ LENGTH('a)" by (metis unsigned_less)
  moreover from eq have "c = a + b"
    by (metis word_arith_nat_add of_nat_unat ucast_id)
  ultimately show "add_ov a b = Inr c" by (simp add: add_ov_def)
qed

lemma sub_ov_Inr [ovf]:
  fixes a b c :: "'a::len word"
  shows "sub_ov a b = Inr c \<longleftrightarrow> unat a = unat c + unat b"
proof
  assume "sub_ov a b = Inr c"
  then show "unat a = unat c + unat b"
    by (auto simp: sub_ov_def unat_sub word_le_nat_alt split: if_splits)
next
  assume eq: "unat a = unat c + unat b"
  then have "b \<le> a" by (simp add: word_le_nat_alt)
  moreover from eq have "a = c + b"
    by (metis word_arith_nat_add of_nat_unat ucast_id)
  ultimately show "sub_ov a b = Inr c" by (simp add: sub_ov_def)
qed

lemma mul_ov_Inr [ovf]:
  fixes a b c :: "'a::len word"
  shows "mul_ov a b = Inr c \<longleftrightarrow> unat c = unat a * unat b"
proof
  assume "mul_ov a b = Inr c"
  then show "unat c = unat a * unat b"
    by (auto simp: mul_ov_def unat_word_ariths split: if_splits)
next
  assume eq: "unat c = unat a * unat b"
  then have "unat a * unat b < 2 ^ LENGTH('a)" by (metis unsigned_less)
  moreover from eq have "c = a * b"
    by (metis word_arith_nat_mult of_nat_unat ucast_id)
  ultimately show "mul_ov a b = Inr c" by (simp add: mul_ov_def)
qed

lemma div_ov_Inr [ovf]: "div_ov a b = Inr c \<longleftrightarrow> b \<noteq> 0 \<and> c = a div b"
  by (auto simp: div_ov_def)

lemma add_ov_Inl [ovf]:
  fixes a b :: "'a::len word"
  shows "add_ov a b = Inl e \<longleftrightarrow> e = Overflow \<and> 2 ^ LENGTH('a) \<le> unat a + unat b"
  by (auto simp: add_ov_def)

lemma sub_ov_Inl [ovf]:
  fixes a b :: "'a::len word"
  shows "sub_ov a b = Inl e \<longleftrightarrow> e = Overflow \<and> unat a < unat b"
  by (auto simp: sub_ov_def word_le_nat_alt)

lemma mul_ov_Inl [ovf]:
  fixes a b :: "'a::len word"
  shows "mul_ov a b = Inl e \<longleftrightarrow> e = Overflow \<and> 2 ^ LENGTH('a) \<le> unat a * unat b"
  by (auto simp: mul_ov_def)

lemma sub_ov_self_add: "add_ov a b = Inr c \<Longrightarrow> sub_ov c b = Inr a"
  by (simp add: ovf)

lemma unat_ucast_up:
  fixes x :: "'a::len word"
  assumes "LENGTH('a) \<le> LENGTH('b)"
  shows "unat (ucast x :: 'b::len word) = unat x"
proof -
  have "unat x < 2 ^ LENGTH('a)" by (rule unsigned_less)
  also have "(2::nat) ^ LENGTH('a) \<le> 2 ^ LENGTH('b)" using assms by simp
  finally show ?thesis by (simp add: unsigned_ucast_eq take_bit_nat_eq_self)
qed

lemma unat_widen [simp]:
  "unat (ucast (x :: u64) :: u128) = unat x" "unat (ucast (y :: u32) :: u64) = unat y"
  by (simp_all add: unat_ucast_up)

lemma unat_less [intro]: "unat (x :: 'a::len word) < 2 ^ LENGTH('a)"
  by (rule unsigned_less)

lemma unat_eq_0_word [simp]: "unat (x :: 'a::len word) = 0 \<longleftrightarrow> x = 0"
  by (simp add: unat_eq_zero)

section \<open>The environment of a contract call, and promises\<close>

type_synonym account = string

text \<open>
  What a method reads from \<open>near_sdk::env\<close> and, as \<open>unix_secs\<close>, from
  \<open>SystemTime::now().duration_since(UNIX_EPOCH).as_secs()\<close>. \<open>promise_ok\<close> is whether
  \<open>env::promise_result(0)\<close> is \<open>Successful\<close> (only callbacks read it).
\<close>

record near_env =
  predecessor :: account
  current_account :: account
  block_timestamp :: u64
  block_height :: u64
  unix_secs :: u64
  attached_deposit :: u128
  prepaid_gas :: u64
  used_gas :: u64
  promise_ok :: bool

text \<open>
  The guards \<open>near_bindgen\<close> puts in front of a method: one without \<open>#[payable]\<close> refuses an
  attached deposit, a \<open>#[private]\<close> one (here never payable) also refuses foreign callers.
\<close>

definition not_payable :: "near_env \<Rightarrow> unit res" where
  "not_payable env = (if attached_deposit env = 0 then Inr ()
                      else Inl (PanicStr ''Method doesn't accept deposit''))"

definition private_method :: "near_env \<Rightarrow> unit res" where
  "private_method env = (if predecessor env = current_account env then not_payable env
                         else Inl (PanicStr ''Method is private''))"

text \<open>A call environment for concrete runs: who calls, which contract, and when (nanoseconds).\<close>

definition env_at :: "account \<Rightarrow> account \<Rightarrow> u64 \<Rightarrow> bool \<Rightarrow> near_env" where
  "env_at who self now ok =
     \<lparr> predecessor = who, current_account = self, block_timestamp = now, block_height = 100,
       unix_secs = now div 1000000000, attached_deposit = 0, prepaid_gas = 300000000000000,
       used_gas = 0, promise_ok = ok \<rparr>"

text \<open>
  A scheduled cross-contract call: the target account, the method with its arguments, the
  attached deposit, the static gas, and the callback on the scheduling contract itself with the
  callback's gas.
\<close>

record ('m, 'k) promise =
  target :: account
  call_method :: 'm
  deposit :: u128
  gas :: u64
  callback :: "('k \<times> u64) option"

text \<open>
  A contract is run as a sequence of calls. A call that panics leaves the contract as it
  was: the chain discards every change of a failed receipt.
\<close>

definition after :: "('c \<Rightarrow> 's \<Rightarrow> ('s \<times> 'o) res) \<Rightarrow> 'c \<Rightarrow> 's \<Rightarrow> 's" where
  "after ex c s = (case ex c s of Inl _ \<Rightarrow> s | Inr (s', _) \<Rightarrow> s')"

fun run_calls :: "('c \<Rightarrow> 's \<Rightarrow> ('s \<times> 'o) res) \<Rightarrow> 's \<Rightarrow> 'c list \<Rightarrow> 's" where
  "run_calls ex s [] = s"
| "run_calls ex s (c # cs) = run_calls ex (after ex c s) cs"

locale contract =
  fixes exec :: "'c \<Rightarrow> 's \<Rightarrow> ('s \<times> 'o) res"
    and invar :: "'s \<Rightarrow> bool"
  assumes exec_inv: "exec c s = Inr (s', out) \<Longrightarrow> invar s \<Longrightarrow> invar s'"
begin

lemma after_inv: "invar s \<Longrightarrow> invar (after exec c s)"
  by (auto simp: after_def intro: exec_inv split: sum.splits)

lemma run_inv: "invar s \<Longrightarrow> invar (run_calls exec s cs)"
  by (induction cs arbitrary: s) (auto intro: after_inv)

end

text \<open>
  A contract with an owner: only a call made by the owner can change the owner, and the
  privileged calls of anybody else panic.
\<close>

locale owned_contract = contract exec invar
  for exec :: "'c \<Rightarrow> 's \<Rightarrow> ('s \<times> 'o) res" and invar :: "'s \<Rightarrow> bool" +
  fixes owner :: "'s \<Rightarrow> account"
    and caller :: "'c \<Rightarrow> account"
    and privileged :: "'c \<Rightarrow> bool"
  assumes owner_changed_by_owner:
      "exec c s = Inr (s', out) \<Longrightarrow> invar s \<Longrightarrow> caller c \<noteq> owner s \<Longrightarrow> owner s' = owner s"
    and privileged_panics:
      "privileged c \<Longrightarrow> invar s \<Longrightarrow> caller c \<noteq> owner s \<Longrightarrow> \<exists>e. exec c s = Inl e"
begin

lemma after_owner: "invar s \<Longrightarrow> caller c \<noteq> owner s \<Longrightarrow> owner (after exec c s) = owner s"
  by (auto simp: after_def dest: owner_changed_by_owner split: sum.splits)

lemma after_privileged: "privileged c \<Longrightarrow> invar s \<Longrightarrow> caller c \<noteq> owner s \<Longrightarrow> after exec c s = s"
  by (auto simp: after_def dest: privileged_panics split: sum.splits)

lemma run_owner:
  "invar s \<Longrightarrow> (\<forall>c\<in>set cs. caller c \<noteq> owner s) \<Longrightarrow> owner (run_calls exec s cs) = owner s"
  by (induction cs arbitrary: s) (auto simp: after_owner after_inv)

lemma run_privileged:
  "invar s \<Longrightarrow> (\<forall>c\<in>set cs. privileged c \<and> caller c \<noteq> owner s) \<Longrightarrow> run_calls exec s cs = s"
  by (induction cs arbitrary: s) (auto simp: after_privileged)

end

section \<open>Sums over the entries of a map\<close>

definition msum :: "('v \<Rightarrow> nat) \<Rightarrow> ('k \<rightharpoonup> 'v) \<Rightarrow> nat" where
  "msum f m = (\<Sum>k\<in>dom m. f (the (m k)))"

lemma msum_empty [simp]: "msum f Map.empty = 0"
  by (simp add: msum_def)

lemma msum_upd_None:
  "finite (dom m) \<Longrightarrow> m k = None \<Longrightarrow> msum f (m(k \<mapsto> v)) = f v + msum f m"
  unfolding msum_def by (simp add: domIff) (rule sum.cong, auto)

lemma msum_del:
  "finite (dom m) \<Longrightarrow> m k = Some v \<Longrightarrow> msum f m = f v + msum f (m(k := None))"
  unfolding msum_def by (simp add: sum.remove [of "dom m" k] domI)

lemma msum_upd_Some:
  "finite (dom m) \<Longrightarrow> m k = Some w \<Longrightarrow> msum f (m(k \<mapsto> v)) + f w = msum f m + f v"
  using msum_del [of m k w f] msum_upd_None [of "m(k := None)" k f v] by simp

lemma msum_upd_same [simp]:
  "finite (dom m) \<Longrightarrow> m k = Some w \<Longrightarrow> f v = f w \<Longrightarrow> msum f (m(k \<mapsto> v)) = msum f m"
  using msum_upd_Some [of m k w f v] by simp

lemma msum_upd_add:
  "finite (dom m) \<Longrightarrow> m k = Some w \<Longrightarrow> f v = f w + d \<Longrightarrow> msum f (m(k \<mapsto> v)) = msum f m + d"
  using msum_upd_Some [of m k w f v] by simp

lemma msum_ge: "finite (dom m) \<Longrightarrow> m k = Some v \<Longrightarrow> f v \<le> msum f m"
  using msum_del [of m k v f] by simp

section \<open>Rendering integers\<close>

text \<open>Rust's \<open>Display\<close> of an unsigned integer: its decimal digits, without leading zeros.\<close>

fun show_nat :: "nat \<Rightarrow> string" where
  "show_nat n = (if n < 10 then [char_of (48 + n)] else show_nat (n div 10) @ [char_of (48 + n mod 10)])"

declare show_nat.simps [simp del]


section \<open>Strings\<close>

text \<open>Rust's \<open>str::contains\<close>.\<close>

fun contains_str :: "string \<Rightarrow> string \<Rightarrow> bool" where
  "contains_str [] p \<longleftrightarrow> p = []"
| "contains_str (c # cs) p \<longleftrightarrow> take (length p) (c # cs) = p \<or> contains_str cs p"

lemma contains_str_iff: "contains_str s p \<longleftrightarrow> (\<exists>u v. s = u @ p @ v)"
proof (induction s)
  case (Cons c cs)
  show ?case
  proof
    assume "contains_str (c # cs) p"
    then consider "take (length p) (c # cs) = p" | "contains_str cs p" by auto
    then show "\<exists>u v. c # cs = u @ p @ v"
    proof cases
      case 1
      then have "c # cs = [] @ p @ drop (length p) (c # cs)" by (metis append_Nil append_take_drop_id)
      then show ?thesis by blast
    next
      case 2
      with Cons.IH obtain u v where "cs = u @ p @ v" by blast
      then have "c # cs = (c # u) @ p @ v" by simp
      then show ?thesis by blast
    qed
  next
    assume "\<exists>u v. c # cs = u @ p @ v"
    then obtain u v where e: "c # cs = u @ p @ v" by blast
    show "contains_str (c # cs) p"
    proof (cases u)
      case Nil
      with e have "take (length p) (c # cs) = p" by simp
      then show ?thesis by simp
    next
      case (Cons d u')
      with e have "cs = u' @ p @ v" by simp
      with Cons.IH show ?thesis by auto
    qed
  qed
qed auto

text \<open>\<open>str::to_lowercase\<close> on ASCII text, \<open>str::trim\<close>, and the first part of a \<open>split\<close> at a character.\<close>

definition lower :: "string \<Rightarrow> string" where
  "lower = map (\<lambda>c. let n = of_char c :: nat in if 65 \<le> n \<and> n \<le> 90 then char_of (n + 32) else c)"

definition is_space :: "char \<Rightarrow> bool" where
  "is_space c \<longleftrightarrow> c \<in> {CHR '' '', CHR 0x09, CHR 0x0A, CHR 0x0B, CHR 0x0C, CHR 0x0D}"

definition trim :: "string \<Rightarrow> string" where
  "trim s = rev (dropWhile is_space (rev (dropWhile is_space s)))"

definition first_part :: "char \<Rightarrow> string \<Rightarrow> string" where
  "first_part sep s = takeWhile (\<lambda>c. c \<noteq> sep) s"

end
