(* ===== verification/Farming.thy ===== *)
theory Farming
  imports Prelude
begin

text \<open>
  The staking contract of \<^verbatim>\<open>blockchain/src/farming/src/lib.rs\<close>: its state, its entry points and
  callbacks, the arithmetic of rewards, and the asynchronous system the contract forms with the
  token transfers it schedules. \<open>LookupMap\<close> is a finite partial map. A method that schedules
  cross-contract calls returns the promises beside the new state; \<open>exec_farming\<close> is the
  dispatch that \<open>near_bindgen\<close> generates, with the checks it puts before \<open>#[private]\<close> methods.
\<close>

section \<open>State\<close>

record stake_info =
  stake_amount :: u128
  stake_start_time :: u64
  stake_last_claim :: u64
  stake_last_update :: u64

record farming =
  owner_id :: account
  staking_token :: account
  total_staked :: u128
  reward_rate :: u128
  stakes :: "account \<rightharpoonup> stake_info"
  lock_period :: u64
  last_update :: u64

definition LOCK_PERIOD :: u64 where
  "LOCK_PERIOD = 30 * 24 * 60 * 60 * 1000000000"

text \<open>The methods of the token that this contract calls, and its own callbacks.\<close>

datatype ft_method =
    Ft_transfer_call account u128 "string option" string
  | Ft_transfer account u128 "string option"

datatype farming_cb =
    Stake_cb account u128
  | Unstake_cb account u128
  | Claim_cb account u128

type_synonym farming_promise = "(ft_method, farming_cb) promise"

section \<open>Operations\<close>

definition new_farming :: "near_env \<Rightarrow> account \<Rightarrow> farming" where
  "new_farming env token =
     \<lparr> owner_id = predecessor env, staking_token = token, total_staked = 0,
       reward_rate = 1000000000000000000, stakes = Map.empty,
       lock_period = LOCK_PERIOD, last_update = unix_secs env \<rparr>"

definition calculate_reward :: "near_env \<Rightarrow> farming \<Rightarrow> stake_info \<Rightarrow> u128 res" where
  "calculate_reward env self stk =
     rbind (sub_ov (block_timestamp env) (stake_last_claim stk)) (\<lambda>time_elapsed.
     rbind (mul_ov (stake_amount stk) (reward_rate self)) (\<lambda>p.
     rbind (mul_ov p (ucast time_elapsed)) (\<lambda>q.
     div_ov q (100 * 10 ^ 18))))"

text \<open>Every promise of the contract goes to the staking token, with one yocto and a third of the gas.\<close>

definition token_promise :: "near_env \<Rightarrow> farming \<Rightarrow> ft_method \<Rightarrow> farming_cb \<Rightarrow> farming_promise" where
  "token_promise env self m cb =
     \<lparr> target = staking_token self, call_method = m, deposit = 1, gas = prepaid_gas env div 3,
       callback = Some (cb, prepaid_gas env div 3) \<rparr>"

definition stake_msg :: "account \<Rightarrow> string" where
  "stake_msg user_id = ''{\"action\": \"stake\", \"user_id\": \"'' @ user_id @ ''\"}''"

definition stake :: "near_env \<Rightarrow> farming \<Rightarrow> u128 \<Rightarrow> farming_promise res" where
  "stake env self amount =
     rbind (require (0 < amount) ''Amount must be greater than 0'') (\<lambda>_.
     let user_id = predecessor env in
     Inr (token_promise env self
            (Ft_transfer_call (current_account env) amount None (stake_msg user_id))
            (Stake_cb user_id amount)))"

definition stake_callback :: "near_env \<Rightarrow> farming \<Rightarrow> account \<Rightarrow> u128 \<Rightarrow> farming res" where
  "stake_callback env self user_id amount =
     (if promise_ok env then
        rbind (case stakes self user_id of
                 Some user_stake \<Rightarrow>
                   rbind (calculate_reward env self user_stake) (\<lambda>reward.
                   let user_stake = (if 0 < reward
                         then user_stake\<lparr>stake_last_claim := block_timestamp env\<rparr> else user_stake) in
                   rbind (add_ov (stake_amount user_stake) amount) (\<lambda>a.
                   Inr (self\<lparr>stakes := (stakes self)(user_id \<mapsto>
                         user_stake\<lparr>stake_amount := a, stake_last_update := unix_secs env\<rparr>)\<rparr>)))
               | None \<Rightarrow>
                   Inr (self\<lparr>stakes := (stakes self)(user_id \<mapsto>
                         \<lparr>stake_amount = amount, stake_start_time = block_timestamp env,
                          stake_last_claim = block_timestamp env,
                          stake_last_update = unix_secs env\<rparr>)\<rparr>))
          (\<lambda>self. rbind (add_ov (total_staked self) amount) (\<lambda>t.
             Inr (self\<lparr>total_staked := t, last_update := unix_secs env\<rparr>)))
      else Inr self)"

definition claim_rewards :: "near_env \<Rightarrow> farming \<Rightarrow> (farming \<times> farming_promise) res" where
  "claim_rewards env self =
     (let user_id = predecessor env in
      rbind (expect (stakes self user_id) ''No stake found'') (\<lambda>stk.
      rbind (calculate_reward env self stk) (\<lambda>reward.
      rbind (require (0 < reward) ''No rewards to claim'') (\<lambda>_.
      let stk = stk\<lparr>stake_last_claim := block_timestamp env, stake_last_update := unix_secs env\<rparr>;
          self = self\<lparr>stakes := (stakes self)(user_id \<mapsto> stk)\<rparr> in
      Inr (self, token_promise env self
             (Ft_transfer user_id reward
                (Some (''Claim reward '' @ show_nat (unat reward) @ '' DMD'')))
             (Claim_cb user_id reward))))))"

definition claim_callback :: "near_env \<Rightarrow> farming \<Rightarrow> account \<Rightarrow> u128 \<Rightarrow> farming" where
  "claim_callback env self user_id amount =
     (if promise_ok env then self
      else case stakes self user_id of
             Some stk \<Rightarrow> self\<lparr>stakes := (stakes self)(user_id \<mapsto>
                           stk\<lparr>stake_last_claim := stake_last_update stk\<rparr>)\<rparr>
           | None \<Rightarrow> self)"

text \<open>
  \<open>unstake\<close> drops the promise that \<open>claim_rewards\<close> returns, which schedules it: both
  promises leave the contract, the reward transfer first.
\<close>

definition unstake :: "near_env \<Rightarrow> farming \<Rightarrow> u128 \<Rightarrow> (farming \<times> farming_promise list) res" where
  "unstake env self amount =
     (let user_id = predecessor env in
      rbind (expect (stakes self user_id) ''No stake found'') (\<lambda>stk.
      rbind (require (amount \<le> stake_amount stk) ''Insufficient staked amount'') (\<lambda>_.
      let current_time = block_timestamp env in
      rbind (add_ov (stake_start_time stk) (lock_period self)) (\<lambda>unlock.
      rbind (require (unlock \<le> current_time) ''Stake is still locked'') (\<lambda>_.
      rbind (claim_rewards env self) (\<lambda>(self, claim).
      rbind (sub_ov (total_staked self) amount) (\<lambda>t.
      let self = self\<lparr>total_staked := t\<rparr> in
      Inr (self, [claim, token_promise env self
             (Ft_transfer user_id amount (Some ''Unstake from Farming''))
             (Unstake_cb user_id amount)]))))))))"

definition unstake_callback :: "near_env \<Rightarrow> farming \<Rightarrow> account \<Rightarrow> u128 \<Rightarrow> farming res" where
  "unstake_callback env self user_id amount =
     (if promise_ok env then
        rbind (expect (stakes self user_id) ''No stake found'') (\<lambda>stk.
        rbind (sub_ov (stake_amount stk) amount) (\<lambda>a.
        let stk = stk\<lparr>stake_amount := a, stake_last_update := unix_secs env\<rparr>;
            self = (if stake_amount stk = 0
                    then self\<lparr>stakes := (stakes self)(user_id := None)\<rparr>
                    else self\<lparr>stakes := (stakes self)(user_id \<mapsto> stk)\<rparr>) in
        Inr (self\<lparr>last_update := unix_secs env\<rparr>)))
      else rbind (add_ov (total_staked self) amount) (\<lambda>t. Inr (self\<lparr>total_staked := t\<rparr>)))"

definition get_stake :: "farming \<Rightarrow> account \<Rightarrow> stake_info option" where
  "get_stake self account_id = stakes self account_id"

definition get_pending_reward :: "near_env \<Rightarrow> farming \<Rightarrow> account \<Rightarrow> u128 res" where
  "get_pending_reward env self account_id =
     (case stakes self account_id of Some stk \<Rightarrow> calculate_reward env self stk | None \<Rightarrow> Inr 0)"

definition assert_owner :: "near_env \<Rightarrow> farming \<Rightarrow> unit res" where
  "assert_owner env self = require (predecessor env = owner_id self) ''Only owner can call this function''"

definition set_reward_rate :: "near_env \<Rightarrow> farming \<Rightarrow> u128 \<Rightarrow> farming res" where
  "set_reward_rate env self rate =
     rbind (assert_owner env self) (\<lambda>_. Inr (self\<lparr>reward_rate := rate, last_update := unix_secs env\<rparr>))"

definition set_lock_period :: "near_env \<Rightarrow> farming \<Rightarrow> u64 \<Rightarrow> farming res" where
  "set_lock_period env self period =
     rbind (assert_owner env self) (\<lambda>_. Inr (self\<lparr>lock_period := period, last_update := unix_secs env\<rparr>))"

definition transfer_ownership :: "near_env \<Rightarrow> farming \<Rightarrow> account \<Rightarrow> farming res" where
  "transfer_ownership env self new_owner =
     rbind (assert_owner env self) (\<lambda>_. Inr (self\<lparr>owner_id := new_owner, last_update := unix_secs env\<rparr>))"

section \<open>Dispatch\<close>

datatype farming_call =
    Stake u128 | Unstake u128 | Claim_rewards
  | Set_reward_rate u128 | Set_lock_period u64 | Transfer_ownership account
  | Callback farming_cb

fun run_callback :: "near_env \<Rightarrow> farming \<Rightarrow> farming_cb \<Rightarrow> farming res" where
  "run_callback env self (Stake_cb u a) = stake_callback env self u a"
| "run_callback env self (Unstake_cb u a) = unstake_callback env self u a"
| "run_callback env self (Claim_cb u a) = Inr (claim_callback env self u a)"

fun exec_farming :: "near_env \<times> farming_call \<Rightarrow> farming \<Rightarrow> (farming \<times> farming_promise list) res" where
  "exec_farming (env, Stake a) self = rbind (stake env self a) (\<lambda>p. Inr (self, [p]))"
| "exec_farming (env, Unstake a) self = unstake env self a"
| "exec_farming (env, Claim_rewards) self = rbind (claim_rewards env self) (\<lambda>(s, p). Inr (s, [p]))"
| "exec_farming (env, Set_reward_rate r) self = rbind (set_reward_rate env self r) (\<lambda>s. Inr (s, []))"
| "exec_farming (env, Set_lock_period l) self = rbind (set_lock_period env self l) (\<lambda>s. Inr (s, []))"
| "exec_farming (env, Transfer_ownership a) self = rbind (transfer_ownership env self a) (\<lambda>s. Inr (s, []))"
| "exec_farming (env, Callback cb) self =
     rbind (private_method env) (\<lambda>_. rbind (run_callback env self cb) (\<lambda>s. Inr (s, [])))"

section \<open>Rewards\<close>

text \<open>The reward of a stake over the natural numbers, before any width is imposed.\<close>

definition reward_nat :: "near_env \<Rightarrow> farming \<Rightarrow> stake_info \<Rightarrow> nat" where
  "reward_nat env self stk =
     unat (stake_amount stk) * unat (reward_rate self)
       * (unat (block_timestamp env) - unat (stake_last_claim stk))"

lemma calculate_reward_Inr:
  "calculate_reward env self stk = Inr r \<longleftrightarrow>
     unat (stake_last_claim stk) \<le> unat (block_timestamp env)
     \<and> unat (stake_amount stk) * unat (reward_rate self) < 2 ^ 128
     \<and> reward_nat env self stk < 2 ^ 128
     \<and> unat r = reward_nat env self stk div 10 ^ 20"
proof -
  have d: "unat (100 * 10 ^ 18 :: u128) = 10 ^ 20" by simp
  show ?thesis
    by (auto simp: calculate_reward_def reward_nat_def sub_ov_def mul_ov_def div_ov_def rbind_def
          unat_word_ariths unat_sub word_le_nat_alt unat_div d word_unat_eq_iff
        simp del: unat_eq_0_word split: if_splits)
qed

lemma calculate_reward_Inl: "calculate_reward env self stk = Inl e \<Longrightarrow> e = Overflow"
  by (auto simp: calculate_reward_def rbind_eq_Inl ovf div_ov_def split: if_splits)

lemma calculate_reward_overflow:
  "\<not> reward_nat env self stk < 2 ^ 128 \<Longrightarrow> calculate_reward env self stk = Inl Overflow"
  by (cases "calculate_reward env self stk") (auto simp: calculate_reward_Inr dest: calculate_reward_Inl)

lemma calculate_reward_cong:
  "stake_amount a = stake_amount b \<Longrightarrow> stake_last_claim a = stake_last_claim b \<Longrightarrow>
   reward_rate f = reward_rate g \<Longrightarrow> block_timestamp e = block_timestamp e' \<Longrightarrow>
   calculate_reward e f a = calculate_reward e' g b"
  by (simp add: calculate_reward_def)

section \<open>What each operation does to the accounts of the contract\<close>

abbreviation staked :: "farming \<Rightarrow> nat" where
  "staked self \<equiv> msum (\<lambda>x. unat (stake_amount x)) (stakes self)"

abbreviation finite_stakes :: "farming \<Rightarrow> bool" where
  "finite_stakes self \<equiv> finite (dom (stakes self))"

lemma claim_rewards_Inr:
  "claim_rewards env self = Inr (self', p) \<longleftrightarrow>
     (\<exists>stk r. stakes self (predecessor env) = Some stk \<and> calculate_reward env self stk = Inr r \<and> 0 < r
       \<and> self' = self\<lparr>stakes := (stakes self)(predecessor env \<mapsto>
            stk\<lparr>stake_last_claim := block_timestamp env, stake_last_update := unix_secs env\<rparr>)\<rparr>
       \<and> p = token_promise env self
            (Ft_transfer (predecessor env) r (Some (''Claim reward '' @ show_nat (unat r) @ '' DMD'')))
            (Claim_cb (predecessor env) r))"
  by (auto simp: claim_rewards_def Let_def token_promise_def)

lemma unstake_Inr:
  "unstake env self amount = Inr (self', ps) \<longleftrightarrow>
     (\<exists>stk self1 claim. stakes self (predecessor env) = Some stk
       \<and> unat amount \<le> unat (stake_amount stk)
       \<and> unat (stake_start_time stk) + unat (lock_period self) \<le> unat (block_timestamp env)
       \<and> claim_rewards env self = Inr (self1, claim)
       \<and> unat amount \<le> unat (total_staked self)
       \<and> self' = self1\<lparr>total_staked := total_staked self - amount\<rparr>
       \<and> ps = [claim, token_promise env self
             (Ft_transfer (predecessor env) amount (Some ''Unstake from Farming''))
             (Unstake_cb (predecessor env) amount)])"
    (is "?L \<longleftrightarrow> ?R")
proof
  assume ?L
  then show ?R
    by (auto simp: unstake_def Let_def add_ov_def sub_ov_def claim_rewards_Inr token_promise_def
        word_le_nat_alt unat_word_ariths split: if_splits)
next
  assume ?R
  then obtain stk self1 claim where *: "stakes self (predecessor env) = Some stk"
    "unat amount \<le> unat (stake_amount stk)"
    "unat (stake_start_time stk) + unat (lock_period self) \<le> unat (block_timestamp env)"
    "claim_rewards env self = Inr (self1, claim)" "unat amount \<le> unat (total_staked self)"
    "self' = self1\<lparr>total_staked := total_staked self - amount\<rparr>"
    "ps = [claim, token_promise env self
             (Ft_transfer (predecessor env) amount (Some ''Unstake from Farming''))
             (Unstake_cb (predecessor env) amount)]" by auto
  have "unat (block_timestamp env) < 2 ^ LENGTH(64)" by (rule unsigned_less)
  with *(3) have "add_ov (stake_start_time stk) (lock_period self)
      = Inr (stake_start_time stk + lock_period self)"
    and "stake_start_time stk + lock_period self \<le> block_timestamp env"
    by (auto simp: add_ov_def word_le_nat_alt unat_word_ariths)
  with * show ?L
    by (auto simp: unstake_def Let_def sub_ov_def claim_rewards_Inr token_promise_def word_le_nat_alt)
qed

lemma claim_rewards_staked:
  "claim_rewards env self = Inr (self', p) \<Longrightarrow> finite_stakes self \<Longrightarrow>
     staked self' = staked self \<and> total_staked self' = total_staked self \<and> finite_stakes self'
     \<and> owner_id self' = owner_id self \<and> lock_period self' = lock_period self
     \<and> reward_rate self' = reward_rate self"
  by (auto simp: claim_rewards_Inr)

lemma unstake_staked:
  assumes "unstake env self amount = Inr (self', ps)" and "finite_stakes self"
  shows "staked self' = staked self" and "unat (total_staked self) = unat (total_staked self') + unat amount"
    and "finite_stakes self'" and "owner_id self' = owner_id self"
proof -
  from assms(1) obtain self1 claim where c: "claim_rewards env self = Inr (self1, claim)"
    and le: "unat amount \<le> unat (total_staked self)"
    and s': "self' = self1\<lparr>total_staked := total_staked self - amount\<rparr>"
    by (auto simp: unstake_Inr)
  from claim_rewards_staked [OF c assms(2)] s' le
  show "staked self' = staked self" "unat (total_staked self) = unat (total_staked self') + unat amount"
    "finite_stakes self'" "owner_id self' = owner_id self"
    by (auto simp: unat_sub word_le_nat_alt)
qed

lemma stake_callback_staked:
  assumes "stake_callback env self u amount = Inr self'" and "finite_stakes self"
  shows "staked self' = staked self + (if promise_ok env then unat amount else 0)"
    and "unat (total_staked self') = unat (total_staked self) + (if promise_ok env then unat amount else 0)"
    and "finite_stakes self'" and "owner_id self' = owner_id self"
proof -
  show "staked self' = staked self + (if promise_ok env then unat amount else 0)"
  proof (cases "stakes self u")
    case None
    with assms show ?thesis
      by (auto simp: stake_callback_def ovf msum_upd_None split: if_splits)
  next
    case (Some stk)
    with assms show ?thesis
      by (auto simp: stake_callback_def ovf Let_def msum_upd_add split: if_splits)
  qed
  from assms show "unat (total_staked self') = unat (total_staked self) + (if promise_ok env then unat amount else 0)"
    "finite_stakes self'" "owner_id self' = owner_id self"
    by (auto simp: stake_callback_def ovf Let_def split: option.splits if_splits)
qed

lemma unstake_callback_staked:
  assumes "unstake_callback env self u amount = Inr self'" and "finite_stakes self"
  shows "staked self = staked self' + (if promise_ok env then unat amount else 0)"
    and "unat (total_staked self') = unat (total_staked self) + (if promise_ok env then 0 else unat amount)"
    and "finite_stakes self'" and "owner_id self' = owner_id self"
proof -
  show "staked self = staked self' + (if promise_ok env then unat amount else 0)"
  proof (cases "promise_ok env")
    case True
    with assms(1) obtain stk a where stk: "stakes self u = Some stk"
      and a: "unat (stake_amount stk) = unat a + unat amount"
      and s': "self' = (if a = 0 then self\<lparr>stakes := (stakes self)(u := None)\<rparr>
         else self\<lparr>stakes := (stakes self)(u \<mapsto> stk\<lparr>stake_amount := a, stake_last_update := unix_secs env\<rparr>)\<rparr>)
            \<lparr>last_update := unix_secs env\<rparr>"
      by (auto simp: unstake_callback_def ovf Let_def)
    from msum_upd_Some [OF assms(2) stk, of "\<lambda>x. unat (stake_amount x)"
        "stk\<lparr>stake_amount := a, stake_last_update := unix_secs env\<rparr>"]
      msum_del [OF assms(2) stk, of "\<lambda>x. unat (stake_amount x)"] a
    show ?thesis using True s' by auto
  next
    case False
    with assms(1) show ?thesis by (auto simp: unstake_callback_def)
  qed
  from assms show "unat (total_staked self') = unat (total_staked self) + (if promise_ok env then 0 else unat amount)"
    "finite_stakes self'" "owner_id self' = owner_id self"
    by (auto simp: unstake_callback_def ovf Let_def split: if_splits)
qed

lemma claim_callback_staked:
  assumes "finite_stakes self"
  shows "staked (claim_callback env self u amount) = staked self"
    and "total_staked (claim_callback env self u amount) = total_staked self"
    and "finite_stakes (claim_callback env self u amount)"
    and "owner_id (claim_callback env self u amount) = owner_id self"
  using assms by (auto simp: claim_callback_def split: option.splits)

section \<open>The contract as a contract with an owner\<close>

lemmas admin_defs = set_reward_rate_def set_lock_period_def transfer_ownership_def assert_owner_def

fun farming_privileged :: "near_env \<times> farming_call \<Rightarrow> bool" where
  "farming_privileged (env, Set_reward_rate r) = True"
| "farming_privileged (env, Set_lock_period l) = True"
| "farming_privileged (env, Transfer_ownership a) = True"
| "farming_privileged (env, c) = False"

abbreviation caller_of :: "near_env \<times> 'c \<Rightarrow> account" where
  "caller_of c \<equiv> predecessor (fst c)"

lemma run_callback_frame:
  "run_callback env self cb = Inr self' \<Longrightarrow> finite_stakes self \<Longrightarrow>
     finite_stakes self' \<and> owner_id self' = owner_id self"
  by (cases cb) (auto simp: claim_callback_staked
      dest: stake_callback_staked(3,4) unstake_callback_staked(3,4))

lemma exec_farming_finite:
  "exec_farming c self = Inr (self', ps) \<Longrightarrow> finite_stakes self \<Longrightarrow> finite_stakes self'"
  by (induction c self rule: exec_farming.induct)
    (auto simp: admin_defs stake_def Let_def
      dest: claim_rewards_staked unstake_staked(3) run_callback_frame)

lemma exec_farming_owner:
  "exec_farming c self = Inr (self', ps) \<Longrightarrow> finite_stakes self \<Longrightarrow> caller_of c \<noteq> owner_id self \<Longrightarrow>
     owner_id self' = owner_id self"
  by (induction c self rule: exec_farming.induct)
    (auto simp: admin_defs stake_def Let_def
      dest: claim_rewards_staked unstake_staked(4) run_callback_frame)

lemma farming_privileged_panics:
  "farming_privileged c \<Longrightarrow> caller_of c \<noteq> owner_id self \<Longrightarrow> \<exists>e. exec_farming c self = Inl e"
  by (cases c rule: farming_privileged.cases) (auto simp: admin_defs)

interpretation farming_owned: owned_contract exec_farming finite_stakes owner_id caller_of farming_privileged
  by unfold_locales (auto intro: exec_farming_finite exec_farming_owner farming_privileged_panics)

section \<open>The asynchronous system\<close>

text \<open>
  The contract together with the callbacks of the transfers it has scheduled. A step is a call
  by some account, whose promises join the callbacks in flight, or the resolution of one of
  them, in any order: its transfer succeeded or failed, and the callback runs on the contract
  (a panic in it leaves the contract unchanged but consumes the callback). \<open>paid_out\<close> counts the
  principal that successful unstake transfers have sent out.
\<close>

record farming_sys =
  fcontract :: farming
  inflight :: "farming_cb list"
  paid_out :: nat

definition callbacks_of :: "farming_promise list \<Rightarrow> farming_cb list" where
  "callbacks_of ps = concat (map (\<lambda>p. case callback p of None \<Rightarrow> [] | Some (cb, _) \<Rightarrow> [cb]) ps)"

fun unstake_part :: "farming_cb \<Rightarrow> nat" where
  "unstake_part (Unstake_cb u a) = unat a"
| "unstake_part cb = 0"

definition is_user_call :: "farming_call \<Rightarrow> bool" where
  "is_user_call c = (case c of Callback _ \<Rightarrow> False | _ \<Rightarrow> True)"

inductive farming_step :: "farming_sys \<Rightarrow> farming_sys \<Rightarrow> bool" where
  user: "is_user_call c \<Longrightarrow> exec_farming (env, c) (fcontract s) = Inr (f', ps) \<Longrightarrow>
     farming_step s (s\<lparr>fcontract := f', inflight := inflight s @ callbacks_of ps\<rparr>)"
| resolve: "inflight s = xs @ cb # ys \<Longrightarrow> predecessor env = current_account env \<Longrightarrow>
     farming_step s (s\<lparr>fcontract := after exec_farming (env, Callback cb) (fcontract s),
                      inflight := xs @ ys,
                      paid_out := paid_out s + (if promise_ok env then unstake_part cb else 0)\<rparr>)"

inductive farming_reachable :: "farming_sys \<Rightarrow> bool" where
  start: "farming_reachable \<lparr>fcontract = new_farming env token, inflight = [], paid_out = 0\<rparr>"
| step: "farming_reachable s \<Longrightarrow> farming_step s t \<Longrightarrow> farming_reachable t"

definition pending_unstake :: "farming_cb list \<Rightarrow> nat" where
  "pending_unstake q = sum_list (map unstake_part q)"

lemma pending_unstake_simps [simp]:
  "pending_unstake [] = 0" "pending_unstake (cb # q) = unstake_part cb + pending_unstake q"
  "pending_unstake (q @ r) = pending_unstake q + pending_unstake r"
  by (simp_all add: pending_unstake_def)

lemma callbacks_of_simps [simp]:
  "callbacks_of [] = []"
  "callbacks_of (token_promise env self m cb # ps) = cb # callbacks_of ps"
  by (simp_all add: callbacks_of_def token_promise_def)

definition farming_inv :: "farming_sys \<Rightarrow> bool" where
  "farming_inv s \<longleftrightarrow> finite_stakes (fcontract s)
     \<and> unat (total_staked (fcontract s)) + pending_unstake (inflight s) \<le> staked (fcontract s)"

lemma claim_promise: "claim_rewards env self = Inr (self', p) \<Longrightarrow>
   \<exists>r. callbacks_of [p] = [Claim_cb (predecessor env) r]"
  by (auto simp: claim_rewards_Inr)

lemma user_call_inv:
  assumes "exec_farming (env, c) f = Inr (f', ps)" and "is_user_call c" and "finite_stakes f"
    and "unat (total_staked f) + k \<le> staked f"
  shows "unat (total_staked f') + (k + pending_unstake (callbacks_of ps)) \<le> staked f'"
proof (cases c)
  case (Stake a)
  with assms show ?thesis by (auto simp: stake_def Let_def)
next
  case (Unstake a)
  with assms(1) have u: "unstake env f a = Inr (f', ps)" by simp
  then have "pending_unstake (callbacks_of ps) = unat a"
    by (auto simp: unstake_Inr claim_rewards_Inr)
  with unstake_staked [OF u assms(3)] assms(4) show ?thesis by simp
next
  case Claim_rewards
  with assms(1) obtain p where "claim_rewards env f = Inr (f', p)" "ps = [p]" by auto
  with claim_rewards_staked [OF this(1) assms(3)] assms(4) claim_promise [OF this(1)]
  show ?thesis by auto
qed (use assms in \<open>auto simp: admin_defs is_user_call_def\<close>)

lemma callback_inv:
  assumes "finite_stakes f" and "unat (total_staked f) + (unstake_part cb + k) \<le> staked f"
  shows "unat (total_staked (after exec_farming (env, Callback cb) f)) + k
           \<le> staked (after exec_farming (env, Callback cb) f)"
proof (cases "run_callback env f cb")
  case (Inl e)
  with assms show ?thesis by (auto simp: after_def rbind_def split: sum.splits)
next
  case (Inr f')
  show ?thesis
  proof (cases "private_method env = Inr ()")
    case False
    with assms(2) show ?thesis by (auto simp: after_def rbind_def split: sum.splits)
  next
  case True
  with Inr have f': "after exec_farming (env, Callback cb) f = f'"
    by (simp add: after_def)
  show ?thesis
  proof (cases cb)
    case (Stake_cb u a)
    with Inr have "stake_callback env f u a = Inr f'" by simp
    from stake_callback_staked [OF this assms(1)] assms(2) f' show ?thesis by simp
  next
    case (Unstake_cb u a)
    with Inr have "unstake_callback env f u a = Inr f'" by simp
    from unstake_callback_staked [OF this assms(1)] assms(2) f' Unstake_cb
    show ?thesis by (simp split: if_splits)
  next
    case (Claim_cb u a)
    with Inr f' claim_callback_staked [OF assms(1)] assms(2) show ?thesis by auto
  qed
  qed
qed

lemma farming_step_inv: "farming_step s t \<Longrightarrow> farming_inv s \<Longrightarrow> farming_inv t"
proof (induction rule: farming_step.induct)
  case (user c env s f' ps)
  with user_call_inv [of env c "fcontract s" f' ps "pending_unstake (inflight s)"]
  show ?case by (auto simp: farming_inv_def intro: exec_farming_finite)
next
  case (resolve s xs cb ys env)
  with callback_inv [of "fcontract s" cb "pending_unstake (xs @ ys)" env]
    farming_owned.after_inv [of "fcontract s" "(env, Callback cb)"]
  show ?case by (auto simp: farming_inv_def ac_simps)
qed

lemma farming_reachable_inv: "farming_reachable s \<Longrightarrow> farming_inv s"
proof (induction rule: farming_reachable.induct)
  case (start env token)
  show ?case by (simp add: farming_inv_def new_farming_def)
qed (auto intro: farming_step_inv)

text \<open>
  The comment at the rate and the test of the source mean one token per second for a stake of 100
  tokens. The clock counts nanoseconds: the stake earns a token per nanosecond, and from the fourth
  nanosecond on its reward is a panic.
\<close>

lemma reward_of_hundred_tokens:
  assumes "stake_amount stk = 100 * 10 ^ 18" and "reward_rate self = 10 ^ 18" and "stake_last_claim stk = 0"
  shows "block_timestamp env = 1 \<Longrightarrow> calculate_reward env self stk = Inr (10 ^ 18)"
    and "4 \<le> unat (block_timestamp env) \<Longrightarrow> calculate_reward env self stk = Inl Overflow"
proof -
  show "block_timestamp env = 1 \<Longrightarrow> calculate_reward env self stk = Inr (10 ^ 18)"
    using assms by (simp add: calculate_reward_def sub_ov_def mul_ov_def div_ov_def)
  assume t: "4 \<le> unat (block_timestamp env)"
  have "(2 :: nat) ^ 128 \<le> 10 ^ 38 * 4" by simp
  also have "\<dots> \<le> 10 ^ 38 * unat (block_timestamp env)" using t by (rule mult_le_mono2)
  finally have "2 ^ 128 \<le> reward_nat env self stk" using assms by (simp add: reward_nat_def)
  then have "calculate_reward env self stk \<noteq> Inr r" for r by (auto simp: calculate_reward_Inr)
  then show "calculate_reward env self stk = Inl Overflow"
    using calculate_reward_Inl [of env self stk] by (cases "calculate_reward env self stk") auto
qed

section \<open>Properties\<close>


text \<open>C2. In every state the staking system can reach, under any interleaving of user calls and
  of transfer outcomes, the total the contract reports plus the principal of the unstake
  transfers still in flight never exceeds the sum of the recorded stakes.\<close>

theorem farming_reachable_solvent:
  assumes "farming_reachable s"
  shows "unat (total_staked (fcontract s)) + pending_unstake (inflight s) \<le> staked (fcontract s)"
  using farming_reachable_inv [OF assms] by (simp add: farming_inv_def)

theorem farming_reachable_solvent_witness:
  "unat (total_staked (new_farming (env_at ''alice'' ''farm'' 5 False) ''dmd''))
     + pending_unstake [] \<le> staked (new_farming (env_at ''alice'' ''farm'' 5 False) ''dmd'')"
  using farming_reachable_solvent [OF farming_reachable.start] by simp

text \<open>C20. When the transfer of an unstake fails, its callback never panics and undoes exactly
  what the unstake call did to the total: the contract differs from the one before only by the
  reward claim that the unstake made first.\<close>

theorem farming_unstake_refund:
  assumes "unstake env self amount = Inr (self1, ps)" and "\<not> promise_ok env'"
  shows "unstake_callback env' self1 (predecessor env) amount
           = Inr (self1\<lparr>total_staked := total_staked self\<rparr>)
         \<and> (\<exists>claim. claim_rewards env self = Inr (self1\<lparr>total_staked := total_staked self\<rparr>, claim))"
proof -
  from assms(1) obtain self0 claim where c: "claim_rewards env self = Inr (self0, claim)"
    and le: "unat amount \<le> unat (total_staked self)"
    and s1: "self1 = self0\<lparr>total_staked := total_staked self - amount\<rparr>"
    by (auto simp: unstake_Inr)
  from c have t0: "total_staked self0 = total_staked self" by (auto simp: claim_rewards_Inr)
  have "add_ov (total_staked self1) amount = Inr (total_staked self)"
    using le s1 by (simp add: ovf unat_sub word_le_nat_alt)
  then show ?thesis using assms(2) c s1 t0 by (simp add: unstake_callback_def)
qed

text \<open>A stake of 200 tokens (18 decimals) by alice, 30 days and a little old, for concrete runs.\<close>

definition demo_stake :: stake_info where
  "demo_stake = \<lparr>stake_amount = 200 * 10 ^ 18, stake_start_time = 0, stake_last_claim = 0,
                 stake_last_update = 0\<rparr>"

definition small_stake :: stake_info where
  "small_stake = \<lparr>stake_amount = 1000, stake_start_time = 0, stake_last_claim = 0,
                 stake_last_update = 0\<rparr>"

definition demo_farm :: "stake_info \<Rightarrow> u128 \<Rightarrow> farming" where
  "demo_farm stk tot =
     \<lparr> owner_id = ''owner'', staking_token = ''dmd'', total_staked = tot,
       reward_rate = 10 ^ 18, stakes = [''alice'' \<mapsto> stk], lock_period = LOCK_PERIOD,
       last_update = 0 \<rparr>"

abbreviation month_later :: u64 where
  "month_later \<equiv> 2592000000000001"

theorem farming_unstake_refund_witness:
  "\<exists>s1. unstake_callback (env_at ''farm'' ''farm'' (month_later + 1) False) s1 ''alice'' 1000
       = Inr (s1\<lparr>total_staked := 1000\<rparr>)"
proof -
  let ?env = "env_at ''alice'' ''farm'' month_later True"
  have "\<exists>s1 ps. unstake ?env (demo_farm small_stake 1000) 1000 = Inr (s1, ps)"
    by (simp add: unstake_Inr claim_rewards_def calculate_reward_def env_at_def demo_farm_def
        small_stake_def LOCK_PERIOD_def Let_def sub_ov_def mul_ov_def div_ov_def rbind_def)
  then obtain s1 ps where "unstake ?env (demo_farm small_stake 1000) 1000 = Inr (s1, ps)" by blast
  from farming_unstake_refund [OF this, of "env_at ''farm'' ''farm'' (month_later + 1) False"]
  show ?thesis by (auto simp: env_at_def demo_farm_def)
qed

text \<open>With the initial reward rate, a stake of one token or more whose last claim is 341
  nanoseconds old can neither claim nor unstake: the reward product leaves 128 bits, and since
  \<open>unstake\<close> claims first, the principal cannot be withdrawn once the lock period is over.\<close>

lemma farming_overflow_locks_principal:
  assumes "stakes self (predecessor env) = Some stk"
    and "unat (reward_rate self) = 10 ^ 18" and "10 ^ 18 \<le> unat (stake_amount stk)"
    and "unat (stake_last_claim stk) + 341 \<le> unat (block_timestamp env)"
    and "amount \<le> stake_amount stk"
    and "unat (stake_start_time stk) + unat (lock_period self) \<le> unat (block_timestamp env)"
  shows "claim_rewards env self = Inl Overflow \<and> unstake env self amount = Inl Overflow"
proof -
  have "(10 ^ 18 * 10 ^ 18) * 341 \<le> reward_nat env self stk"
    unfolding reward_nat_def using assms(2-4) by (intro mult_mono) auto
  then have "\<not> reward_nat env self stk < 2 ^ 128" by simp
  then have "calculate_reward env self stk = Inl Overflow"
    by (rule calculate_reward_overflow)
  then have c: "claim_rewards env self = Inl Overflow"
    using assms(1) by (simp add: claim_rewards_def)
  have "add_ov (stake_start_time stk) (lock_period self)
      = Inr (stake_start_time stk + lock_period self)"
    and "stake_start_time stk + lock_period self \<le> block_timestamp env"
    using assms(6) unat_less [of "block_timestamp env"]
    by (auto simp: add_ov_def word_le_nat_alt unat_word_ariths)
  with assms(1,5) c show ?thesis by (simp add: unstake_def Let_def)
qed

text \<open>The state of the claim above exists: 200 tokens staked for the whole lock period.\<close>

text \<open>A failed reward transfer does not restore the stake: its callback sets the last-claim
  time, a block timestamp in nanoseconds, to the last-update time, which is in seconds.\<close>

lemma farming_failed_claim_sets_seconds:
  assumes "claim_rewards env self = Inr (self1, p)" and "\<not> promise_ok env'"
  shows "map_option stake_last_claim
           (stakes (claim_callback env' self1 (predecessor env) r) (predecessor env))
         = Some (unix_secs env)"
  using assms by (auto simp: claim_rewards_Inr claim_callback_def)

text \<open>A successful top-up of an existing stake moves the last-claim time to now whenever a
  reward was due, and schedules no transfer: the reward that was pending is forfeited. The
  stake grows by exactly the amount and keeps its start time, so the lock is not extended.\<close>

lemma farming_topup_forfeits_reward:
  assumes "stakes self u = Some stk" and "get_pending_reward env self u = Inr r" and "0 < r"
    and "promise_ok env" and "stake_callback env self u amount = Inr self'"
  shows "\<exists>stk'. stakes self' u = Some stk' \<and> stake_last_claim stk' = block_timestamp env
           \<and> stake_start_time stk' = stake_start_time stk
           \<and> unat (stake_amount stk') = unat (stake_amount stk) + unat amount
           \<and> reward_nat env self' stk' = 0"
  using assms by (auto simp: stake_callback_def get_pending_reward_def Let_def ovf reward_nat_def)

text \<open>The principal of an unstake stays claimable until its callback runs: after one unstake,
  a second one of the same amount is accepted as soon as a new reward has accrued and the
  reported total (which includes other users' stakes) covers it, and when both transfers
  succeed the user has been paid twice.\<close>

lemma farming_unstake_pays_twice:
  assumes u1: "unstake env (fcontract s) amount = Inr (f1, ps1)"
    and same: "predecessor env' = predecessor env" "block_timestamp env \<le> block_timestamp env'"
    and st: "stakes f1 (predecessor env) = Some stk" "calculate_reward env' f1 stk = Inr r" "0 < r"
    and covered: "amount \<le> total_staked f1"
  shows "\<exists>t. farming_step\<^sup>*\<^sup>* s t \<and> paid_out t = paid_out s + 2 * unat amount"
proof -
  let ?u = "predecessor env"
  from u1 st(1) have stk: "unat amount \<le> unat (stake_amount stk)"
      "unat (stake_start_time stk) + unat (lock_period f1) \<le> unat (block_timestamp env)"
    by (auto simp: unstake_Inr claim_rewards_Inr)
  have "\<exists>f2 c2. claim_rewards env' f1 = Inr (f2, c2)"
    using st same by (auto simp: claim_rewards_def Let_def)
  then obtain f2 c2 where c2: "claim_rewards env' f1 = Inr (f2, c2)" by blast
  define f3 where "f3 = f2\<lparr>total_staked := total_staked f1 - amount\<rparr>"
  from c2 st same covered stk have "\<exists>ps2. unstake env' f1 amount = Inr (f3, ps2)"
    by (auto simp: unstake_Inr f3_def word_le_nat_alt)
  then obtain ps2 where u2: "unstake env' f1 amount = Inr (f3, ps2)" by blast
  from u1 obtain r1 where q1: "callbacks_of ps1 = [Claim_cb ?u r1, Unstake_cb ?u amount]"
    by (auto simp: unstake_Inr claim_rewards_Inr)
  from u2 same obtain r2 where q2: "callbacks_of ps2 = [Claim_cb ?u r2, Unstake_cb ?u amount]"
    by (auto simp: unstake_Inr claim_rewards_Inr)
  define s1 where "s1 = s\<lparr>fcontract := f1, inflight := inflight s @ callbacks_of ps1\<rparr>"
  define s2 where "s2 = s1\<lparr>fcontract := f3, inflight := inflight s1 @ callbacks_of ps2\<rparr>"
  have "farming_step s s1" unfolding s1_def
    by (rule farming_step.user [of "Unstake amount" env]) (use u1 in \<open>simp_all add: is_user_call_def\<close>)
  moreover have "farming_step s1 s2" unfolding s2_def
    by (rule farming_step.user [of "Unstake amount" env']) (use u2 in \<open>simp_all add: is_user_call_def s1_def\<close>)
  moreover have "\<exists>s3. farming_step s2 s3 \<and> paid_out s3 = paid_out s + unat amount
      \<and> inflight s3 = inflight s @ [Claim_cb ?u r1, Claim_cb ?u r2, Unstake_cb ?u amount]"
    by (rule exI, rule conjI, rule farming_step.resolve
        [of s2 "inflight s @ [Claim_cb ?u r1]" "Unstake_cb ?u amount"
            "[Claim_cb ?u r2, Unstake_cb ?u amount]" "env_at ''self'' ''self'' 0 True"])
      (simp_all add: s2_def s1_def q1 q2 env_at_def)
  then obtain s3 where "farming_step s2 s3" and s3: "paid_out s3 = paid_out s + unat amount"
      "inflight s3 = inflight s @ [Claim_cb ?u r1, Claim_cb ?u r2, Unstake_cb ?u amount]" by blast
  moreover have "\<exists>s4. farming_step s3 s4 \<and> paid_out s4 = paid_out s + 2 * unat amount"
    by (rule exI, rule conjI, rule farming_step.resolve
        [of s3 "inflight s @ [Claim_cb ?u r1, Claim_cb ?u r2]" "Unstake_cb ?u amount" "[]"
            "env_at ''self'' ''self'' 0 True"])
      (simp_all add: s3 env_at_def)
  ultimately show ?thesis
    by (meson converse_rtranclp_into_rtranclp rtranclp.rtrancl_refl)
qed

text \<open>Alice has staked 1000 of the 2000 units the contract reports; she is paid 2000.\<close>

text \<open>Ownership of the staking contract: whatever calls are made in whatever order, the owner
  is unchanged unless the owner itself made one of them, and administrative calls (reward rate,
  lock period, ownership) made only by others leave the whole contract unchanged.\<close>

lemma farming_owner_safe:
  assumes "finite_stakes self" and "\<forall>c\<in>set cs. caller_of c \<noteq> owner_id self"
  shows "owner_id (run_calls exec_farming self cs) = owner_id self
         \<and> ((\<forall>c\<in>set cs. farming_privileged c) \<longrightarrow> run_calls exec_farming self cs = self)"
  using assms farming_owned.run_owner farming_owned.run_privileged by auto

end
