(* ===== verification/Mining.thy ===== *)
theory Mining
  imports Prelude
begin

text \<open>
  The mining contract of \<^verbatim>\<open>blockchain/src/mining/src/lib.rs\<close>: rewards credited per block to any
  account that calls it, paid out by minting on the token contract, and put back by the callback
  of a failed mint. The second part is the asynchronous system of the contract and the mints in
  flight, with the bound on what one account can ever be paid.
\<close>

section \<open>State and operations\<close>

record mining =
  owner_id :: account
  diamond_token :: account
  reward_rate :: u128
  last_reward_block :: u64
  rewards :: "account \<rightharpoonup> u128"
  last_updates :: "account \<rightharpoonup> u64"
  last_update_time :: u64

datatype token_method = Mint account u128

datatype mining_cb = Claim_reward_cb account u128

type_synonym mining_promise = "(token_method, mining_cb) promise"

definition new_mining :: "near_env \<Rightarrow> account \<Rightarrow> mining" where
  "new_mining env token =
     \<lparr> owner_id = predecessor env, diamond_token = token, reward_rate = 10000000000000000000,
       last_reward_block = block_height env, rewards = Map.empty, last_updates = Map.empty,
       last_update_time = unix_secs env \<rparr>"

definition unwrap_or :: "'a option \<Rightarrow> 'a \<Rightarrow> 'a" where
  "unwrap_or x d = (case x of None \<Rightarrow> d | Some a \<Rightarrow> a)"

lemma unwrap_or_simps [simp]: "unwrap_or None d = d" "unwrap_or (Some a) d = a"
  by (simp_all add: unwrap_or_def)

definition update_rewards :: "near_env \<Rightarrow> mining \<Rightarrow> mining res" where
  "update_rewards env self =
     (let user_id = predecessor env;
          current_block = block_height env;
          last = unwrap_or (last_updates self user_id) (last_reward_block self) in
      rbind (sub_ov current_block last) (\<lambda>blocks_passed.
      if 0 < blocks_passed then
        rbind (mul_ov (ucast blocks_passed) (reward_rate self)) (\<lambda>total_reward.
        rbind (add_ov (unwrap_or (rewards self user_id) 0) total_reward) (\<lambda>new_reward.
        Inr (self\<lparr>rewards := (rewards self)(user_id \<mapsto> new_reward),
                  last_updates := (last_updates self)(user_id \<mapsto> current_block),
                  last_update_time := unix_secs env\<rparr>)))
      else Inr self))"

definition claim_rewards :: "near_env \<Rightarrow> mining \<Rightarrow> (mining \<times> mining_promise) res" where
  "claim_rewards env self =
     (let user_id = predecessor env in
      rbind (update_rewards env self) (\<lambda>self.
      let reward = unwrap_or (rewards self user_id) 0 in
      rbind (require (0 < reward) ''No rewards to claim'') (\<lambda>_.
      Inr (self\<lparr>rewards := (rewards self)(user_id \<mapsto> 0)\<rparr>,
           \<lparr> target = diamond_token self, call_method = Mint user_id reward, deposit = 1,
             gas = prepaid_gas env div 3,
             callback = Some (Claim_reward_cb user_id reward, prepaid_gas env div 3) \<rparr>))))"

definition claim_reward_callback :: "near_env \<Rightarrow> mining \<Rightarrow> account \<Rightarrow> u128 \<Rightarrow> mining res" where
  "claim_reward_callback env self user_id amount =
     (if promise_ok env then Inr self
      else rbind (add_ov (unwrap_or (rewards self user_id) 0) amount) (\<lambda>r.
             Inr (self\<lparr>rewards := (rewards self)(user_id \<mapsto> r)\<rparr>)))"

definition get_pending_reward :: "near_env \<Rightarrow> mining \<Rightarrow> account \<Rightarrow> u128 res" where
  "get_pending_reward env self account_id =
     (let current_reward = unwrap_or (rewards self account_id) 0;
          current_block = block_height env;
          last = unwrap_or (last_updates self account_id) (last_reward_block self) in
      rbind (sub_ov current_block last) (\<lambda>blocks_passed.
      if 0 < blocks_passed then
        rbind (mul_ov (ucast blocks_passed) (reward_rate self)) (\<lambda>additional.
        add_ov current_reward additional)
      else Inr current_reward))"

definition assert_owner :: "near_env \<Rightarrow> mining \<Rightarrow> unit res" where
  "assert_owner env self = require (predecessor env = owner_id self) ''Only owner can call this method''"

definition set_reward_rate :: "near_env \<Rightarrow> mining \<Rightarrow> u128 \<Rightarrow> mining res" where
  "set_reward_rate env self rate = rbind (assert_owner env self) (\<lambda>_. Inr (self\<lparr>reward_rate := rate\<rparr>))"

definition force_update_global_reward :: "near_env \<Rightarrow> mining \<Rightarrow> mining res" where
  "force_update_global_reward env self =
     rbind (assert_owner env self) (\<lambda>_. Inr (self\<lparr>last_reward_block := block_height env\<rparr>))"

definition set_diamond_token :: "near_env \<Rightarrow> mining \<Rightarrow> account \<Rightarrow> mining res" where
  "set_diamond_token env self token =
     rbind (assert_owner env self) (\<lambda>_. Inr (self\<lparr>diamond_token := token\<rparr>))"

definition transfer_ownership :: "near_env \<Rightarrow> mining \<Rightarrow> account \<Rightarrow> mining res" where
  "transfer_ownership env self new_owner =
     rbind (assert_owner env self) (\<lambda>_. Inr (self\<lparr>owner_id := new_owner\<rparr>))"

lemmas admin_defs = set_reward_rate_def force_update_global_reward_def set_diamond_token_def
  transfer_ownership_def assert_owner_def

section \<open>Dispatch\<close>

datatype mining_call =
    Update_rewards | Claim_rewards | Set_reward_rate u128 | Force_update_global_reward
  | Set_diamond_token account | Transfer_ownership account | Callback mining_cb

fun exec_mining :: "near_env \<times> mining_call \<Rightarrow> mining \<Rightarrow> (mining \<times> mining_promise list) res" where
  "exec_mining (env, Update_rewards) self =
     rbind (not_payable env) (\<lambda>_. rbind (update_rewards env self) (\<lambda>s. Inr (s, [])))"
| "exec_mining (env, Claim_rewards) self = rbind (claim_rewards env self) (\<lambda>(s, p). Inr (s, [p]))"
| "exec_mining (env, Set_reward_rate r) self = rbind (set_reward_rate env self r) (\<lambda>s. Inr (s, []))"
| "exec_mining (env, Force_update_global_reward) self =
     rbind (force_update_global_reward env self) (\<lambda>s. Inr (s, []))"
| "exec_mining (env, Set_diamond_token a) self = rbind (set_diamond_token env self a) (\<lambda>s. Inr (s, []))"
| "exec_mining (env, Transfer_ownership a) self = rbind (transfer_ownership env self a) (\<lambda>s. Inr (s, []))"
| "exec_mining (env, Callback (Claim_reward_cb u a)) self =
     rbind (private_method env) (\<lambda>_. rbind (claim_reward_callback env self u a) (\<lambda>s. Inr (s, [])))"

section \<open>What each operation does\<close>

abbreviation caller_of :: "near_env \<times> 'c \<Rightarrow> account" where
  "caller_of c \<equiv> predecessor (fst c)"

abbreviation last_of :: "mining \<Rightarrow> account \<Rightarrow> u64" where
  "last_of self u \<equiv> unwrap_or (last_updates self u) (last_reward_block self)"

abbreviation reward_of :: "mining \<Rightarrow> account \<Rightarrow> u128" where
  "reward_of self u \<equiv> unwrap_or (rewards self u) 0"

lemma word_pos_unat: "(0 < (x :: 'a::len word)) \<longleftrightarrow> 0 < unat x"
  by (simp add: word_less_nat_alt)

lemma update_rewards_Inr:
  assumes "update_rewards env self = Inr self'"
  shows "unat (last_of self (predecessor env)) \<le> unat (block_height env)"
    and "unat (reward_of self' (predecessor env)) = unat (reward_of self (predecessor env))
           + (unat (block_height env) - unat (last_of self (predecessor env))) * unat (reward_rate self)"
    and "last_of self' (predecessor env) = block_height env"
    and "u \<noteq> predecessor env \<Longrightarrow> rewards self' u = rewards self u"
    and "u \<noteq> predecessor env \<Longrightarrow> last_updates self' u = last_updates self u"
    and "owner_id self' = owner_id self \<and> reward_rate self' = reward_rate self
           \<and> last_reward_block self' = last_reward_block self \<and> diamond_token self' = diamond_token self"
    and "self' \<noteq> self \<Longrightarrow> last_updates self' (predecessor env) = Some (block_height env)"
  using assms
  by (auto simp: update_rewards_def Let_def ovf word_pos_unat split: if_splits)
    (auto simp: word_unat_eq_iff)

lemma mining_claim_Inr:
  assumes "claim_rewards env self = Inr (self', p)"
  shows "\<exists>mid r. update_rewards env self = Inr mid \<and> r = reward_of mid (predecessor env) \<and> 0 < r
     \<and> self' = mid\<lparr>rewards := (rewards mid)(predecessor env \<mapsto> 0)\<rparr>
     \<and> call_method p = Mint (predecessor env) r \<and> target p = diamond_token self
     \<and> callback p = Some (Claim_reward_cb (predecessor env) r, prepaid_gas env div 3)"
  using assms by (auto simp: claim_rewards_def Let_def dest: update_rewards_Inr(6))

fun mining_privileged :: "near_env \<times> mining_call \<Rightarrow> bool" where
  "mining_privileged (env, Set_reward_rate r) = True"
| "mining_privileged (env, Force_update_global_reward) = True"
| "mining_privileged (env, Set_diamond_token a) = True"
| "mining_privileged (env, Transfer_ownership a) = True"
| "mining_privileged (env, c) = False"

lemma exec_mining_owner:
  "exec_mining c self = Inr (self', ps) \<Longrightarrow> caller_of c \<noteq> owner_id self \<Longrightarrow> owner_id self' = owner_id self"
  by (induction c self rule: exec_mining.induct)
    (auto simp: admin_defs claim_reward_callback_def split: if_splits
      dest: update_rewards_Inr(6) dest!: mining_claim_Inr)

lemma mining_privileged_panics:
  "mining_privileged c \<Longrightarrow> caller_of c \<noteq> owner_id self \<Longrightarrow> \<exists>e. exec_mining c self = Inl e"
  by (cases c rule: mining_privileged.cases) (auto simp: admin_defs)

interpretation mining_owned:
  owned_contract exec_mining "\<lambda>_. True" owner_id caller_of mining_privileged
  by unfold_locales (auto intro: exec_mining_owner mining_privileged_panics)

section \<open>The asynchronous system\<close>

text \<open>
  The contract, the mint callbacks in flight, and three ghosts of the history: what has been
  minted to each account, the block the contract was created at, and the current block. Block
  heights do not decrease from call to call. \<open>rate_cap\<close> is a bound the reward rate has respected
  throughout: the step for a rate change is restricted to rates within it.
\<close>

record mining_sys =
  mcontract :: mining
  minflight :: "mining_cb list"
  minted :: "account \<Rightarrow> nat"
  genesis :: nat
  height :: nat
  rate_cap :: nat

definition mining_callbacks :: "mining_promise list \<Rightarrow> mining_cb list" where
  "mining_callbacks ps = concat (map (\<lambda>p. case callback p of None \<Rightarrow> [] | Some (cb, _) \<Rightarrow> [cb]) ps)"

fun rate_within :: "nat \<Rightarrow> mining_call \<Rightarrow> bool" where
  "rate_within m (Set_reward_rate r) = (unat r \<le> m)"
| "rate_within m (Callback cb) = False"
| "rate_within m c = True"

inductive mining_step :: "mining_sys \<Rightarrow> mining_sys \<Rightarrow> bool" where
  user: "rate_within (rate_cap s) c \<Longrightarrow> height s \<le> unat (block_height env) \<Longrightarrow>
     exec_mining (env, c) (mcontract s) = Inr (m', ps) \<Longrightarrow>
     mining_step s (s\<lparr>mcontract := m', minflight := minflight s @ mining_callbacks ps,
                      height := unat (block_height env)\<rparr>)"
| resolve: "minflight s = xs @ Claim_reward_cb u a # ys \<Longrightarrow> predecessor env = current_account env \<Longrightarrow>
     height s \<le> unat (block_height env) \<Longrightarrow>
     mining_step s (s\<lparr>mcontract := after exec_mining (env, Callback (Claim_reward_cb u a)) (mcontract s),
                      minflight := xs @ ys, height := unat (block_height env),
                      minted := (if promise_ok env then (minted s)(u := minted s u + unat a) else minted s)\<rparr>)"

inductive mining_reachable :: "mining_sys \<Rightarrow> bool" where
  start: "unat (reward_rate (new_mining env token)) \<le> cap \<Longrightarrow> mining_reachable
     \<lparr>mcontract = new_mining env token, minflight = [], minted = (\<lambda>_. 0),
      genesis = unat (block_height env), height = unat (block_height env), rate_cap = cap\<rparr>"
| step: "mining_reachable s \<Longrightarrow> mining_step s t \<Longrightarrow> mining_reachable t"

fun cb_part :: "account \<Rightarrow> mining_cb \<Rightarrow> nat" where
  "cb_part u (Claim_reward_cb v a) = (if v = u then unat a else 0)"

definition in_flight :: "account \<Rightarrow> mining_cb list \<Rightarrow> nat" where
  "in_flight u q = sum_list (map (cb_part u) q)"

lemma in_flight_simps [simp]:
  "in_flight u [] = 0" "in_flight u (cb # q) = cb_part u cb + in_flight u q"
  "in_flight u (q @ r) = in_flight u q + in_flight u r"
  by (simp_all add: in_flight_def)

lemma mining_callbacks_simps [simp]:
  "mining_callbacks [] = []"
  "callback p = Some (cb, g) \<Longrightarrow> mining_callbacks (p # ps) = cb # mining_callbacks ps"
  by (simp_all add: mining_callbacks_def)

text \<open>What one account has received, will receive, or can still claim.\<close>

definition owed :: "mining_sys \<Rightarrow> account \<Rightarrow> nat" where
  "owed s u = unat (reward_of (mcontract s) u) + in_flight u (minflight s) + minted s u"

definition account_ok :: "mining_sys \<Rightarrow> account \<Rightarrow> bool" where
  "account_ok s u \<longleftrightarrow> (case last_updates (mcontract s) u of
      None \<Rightarrow> owed s u = 0
    | Some b \<Rightarrow> genesis s \<le> unat b \<and> unat b \<le> height s
                \<and> owed s u \<le> rate_cap s * (unat b - genesis s))"

definition mining_inv :: "mining_sys \<Rightarrow> bool" where
  "mining_inv s \<longleftrightarrow> unat (reward_rate (mcontract s)) \<le> rate_cap s
     \<and> genesis s \<le> unat (last_reward_block (mcontract s))
     \<and> unat (last_reward_block (mcontract s)) \<le> height s
     \<and> (\<forall>u. account_ok s u)"

definition credited :: "near_env \<Rightarrow> mining \<Rightarrow> mining \<Rightarrow> mining_cb list \<Rightarrow> account \<Rightarrow> bool" where
  "credited env m m' q u \<longleftrightarrow> last_updates m' u = Some (block_height env)
     \<and> unat (last_of m u) \<le> unat (block_height env)
     \<and> unat (reward_of m' u) + in_flight u q
          = unat (reward_of m u) + (unat (block_height env) - unat (last_of m u)) * unat (reward_rate m)"

definition unaffected :: "mining \<Rightarrow> mining \<Rightarrow> mining_cb list \<Rightarrow> account \<Rightarrow> bool" where
  "unaffected m m' q u \<longleftrightarrow> last_updates m' u = last_updates m u
     \<and> unat (reward_of m' u) + in_flight u q = unat (reward_of m u)"

lemma update_effect:
  assumes "update_rewards env m = Inr m'"
  shows "unaffected m m' [] u \<or> credited env m m' [] u"
proof (cases "u = predecessor env \<and> m' \<noteq> m")
  case True
  with update_rewards_Inr [OF assms] show ?thesis by (auto simp: credited_def)
next
  case False
  with update_rewards_Inr(4,5) [OF assms] show ?thesis by (cases "m' = m") (auto simp: unaffected_def)
qed

lemma claim_effect:
  assumes "claim_rewards env m = Inr (m', p)"
  shows "unaffected m m' (mining_callbacks [p]) u \<or> credited env m m' (mining_callbacks [p]) u"
proof -
  from mining_claim_Inr [OF assms] obtain mid r where mid: "update_rewards env m = Inr mid"
    and r: "r = reward_of mid (predecessor env)"
    and m': "m' = mid\<lparr>rewards := (rewards mid)(predecessor env \<mapsto> 0)\<rparr>"
    and cb: "callback p = Some (Claim_reward_cb (predecessor env) r, prepaid_gas env div 3)" by auto
  have "unat (reward_of m' u) + in_flight u (mining_callbacks [p]) = unat (reward_of mid u)"
    using cb m' r by auto
  moreover have "last_updates m' u = last_updates mid u" by (simp add: m')
  ultimately show ?thesis using update_effect [OF mid, of u]
    by (simp add: unaffected_def credited_def)
qed

lemma exec_user_effect:
  assumes "exec_mining (env, c) m = Inr (m', ps)" and "rate_within cap c" and "unat (reward_rate m) \<le> cap"
  shows "unaffected m m' (mining_callbacks ps) u \<or> credited env m m' (mining_callbacks ps) u"
    and "unat (reward_rate m') \<le> cap"
    and "last_reward_block m' = last_reward_block m \<or> last_reward_block m' = block_height env"
proof -
  have "(unaffected m m' (mining_callbacks ps) u \<or> credited env m m' (mining_callbacks ps) u)
    \<and> unat (reward_rate m') \<le> cap
    \<and> (last_reward_block m' = last_reward_block m \<or> last_reward_block m' = block_height env)"
  proof (cases c)
    case Update_rewards
    with assms(1) have "update_rewards env m = Inr m'" "ps = []" by auto
    with update_rewards_Inr(6) [OF this(1)] update_effect [OF this(1)] assms(3) show ?thesis by auto
  next
    case Claim_rewards
    with assms(1) obtain p where c: "claim_rewards env m = Inr (m', p)" "ps = [p]" by auto
    from mining_claim_Inr [OF c(1)] have "reward_rate m' = reward_rate m \<and> last_reward_block m' = last_reward_block m"
      by (auto dest: update_rewards_Inr(6))
    with claim_effect [OF c(1)] c(2) assms(3) show ?thesis by auto
  qed (use assms in \<open>auto simp: admin_defs unaffected_def\<close>)
  then show "unaffected m m' (mining_callbacks ps) u \<or> credited env m m' (mining_callbacks ps) u"
    "unat (reward_rate m') \<le> cap"
    "last_reward_block m' = last_reward_block m \<or> last_reward_block m' = block_height env" by auto
qed

lemma accrual_bound:
  fixes b g h k r c :: nat
  assumes "k \<le> c * (b - g)" and "g \<le> b" and "b \<le> h" and "r \<le> c"
  shows "k + (h - b) * r \<le> c * (h - g)"
proof -
  have "(h - b) * r \<le> (h - b) * c" using assms(4) by simp
  moreover have "c * (b - g) + (h - b) * c = c * (h - g)"
    using assms(2,3) by (simp add: algebra_simps flip: add_mult_distrib2)
  ultimately show ?thesis using assms(1) by linarith
qed

lemma user_step_inv:
  assumes inv: "mining_inv s" and rate: "rate_within (rate_cap s) c"
    and h: "height s \<le> unat (block_height env)"
    and ex: "exec_mining (env, c) (mcontract s) = Inr (m', ps)"
  shows "mining_inv (s\<lparr>mcontract := m', minflight := minflight s @ mining_callbacks ps,
                      height := unat (block_height env)\<rparr>)" (is "mining_inv ?t")
proof -
  let ?m = "mcontract s" and ?H = "unat (block_height env)"
  from inv have i: "unat (reward_rate ?m) \<le> rate_cap s" "genesis s \<le> unat (last_reward_block ?m)"
    "unat (last_reward_block ?m) \<le> height s" by (auto simp: mining_inv_def)
  note eff = exec_user_effect [OF ex rate i(1)]
  have "account_ok ?t u" for u
  proof -
    from inv have u: "account_ok s u" by (simp add: mining_inv_def)
    from eff(1) [of u] show ?thesis
    proof
      assume un: "unaffected ?m m' (mining_callbacks ps) u"
      then have "owed ?t u = owed s u" by (simp add: owed_def unaffected_def)
      with un u h show ?thesis by (auto simp: unaffected_def account_ok_def split: option.splits)
    next
      assume cr: "credited env ?m m' (mining_callbacks ps) u"
      then have o: "owed ?t u = owed s u + (?H - unat (last_of ?m u)) * unat (reward_rate ?m)"
        by (simp add: owed_def credited_def)
      have "genesis s \<le> unat (last_of ?m u)" "owed s u \<le> rate_cap s * (unat (last_of ?m u) - genesis s)"
        using u i by (auto simp: account_ok_def split: option.splits)
      with accrual_bound [of "owed s u" "rate_cap s" "unat (last_of ?m u)" "genesis s" ?H] cr i(1) o
      have "owed ?t u \<le> rate_cap s * (?H - genesis s)" by (simp add: credited_def)
      with cr i(2,3) h show ?thesis by (auto simp: credited_def account_ok_def)
    qed
  qed
  with eff(2,3) i h show ?thesis by (auto simp: mining_inv_def)
qed

lemma callback_owed:
  assumes "minflight s = xs @ Claim_reward_cb u a # ys"
    and "t = s\<lparr>mcontract := after exec_mining (env, Callback (Claim_reward_cb u a)) (mcontract s),
               minflight := xs @ ys, height := h,
               minted := (if promise_ok env then (minted s)(u := minted s u + unat a) else minted s)\<rparr>"
  shows "owed t v \<le> owed s v" and "last_updates (mcontract t) v = last_updates (mcontract s) v"
    and "reward_rate (mcontract t) = reward_rate (mcontract s)"
    and "last_reward_block (mcontract t) = last_reward_block (mcontract s)"
proof -
  let ?m = "mcontract s"
  have "mcontract t = ?m \<or> (\<not> promise_ok env \<and> (\<exists>r. unat r = unat (reward_of ?m u) + unat a
      \<and> mcontract t = ?m\<lparr>rewards := (rewards ?m)(u \<mapsto> r)\<rparr>))"
    by (auto simp: assms(2) after_def claim_reward_callback_def ovf split: sum.splits if_splits)
  then show "owed t v \<le> owed s v" "last_updates (mcontract t) v = last_updates (mcontract s) v"
    "reward_rate (mcontract t) = reward_rate (mcontract s)"
    "last_reward_block (mcontract t) = last_reward_block (mcontract s)"
    using assms by (auto simp: owed_def)
qed

lemma mining_step_inv: "mining_step s t \<Longrightarrow> mining_inv s \<Longrightarrow> mining_inv t"
proof (induction rule: mining_step.induct)
  case (user s c env m' ps)
  then show ?case by (intro user_step_inv)
next
  case (resolve s xs u a ys env)
  let ?t = "s\<lparr>mcontract := after exec_mining (env, Callback (Claim_reward_cb u a)) (mcontract s),
       minflight := xs @ ys, height := unat (block_height env),
       minted := (if promise_ok env then (minted s)(u := minted s u + unat a) else minted s)\<rparr>"
  have "\<And>v. owed ?t v \<le> owed s v" "\<And>v. last_updates (mcontract ?t) v = last_updates (mcontract s) v"
    "reward_rate (mcontract ?t) = reward_rate (mcontract s)"
    "last_reward_block (mcontract ?t) = last_reward_block (mcontract s)"
    using callback_owed [OF resolve(1) refl] by blast+
  note eff = this
  have "account_ok ?t v" for v
  proof -
    from resolve(4) have "account_ok s v" by (simp add: mining_inv_def)
    with resolve(3) eff(1) [of v] eff(2) [of v] show ?thesis
      unfolding account_ok_def by (auto simp del: if_split split: option.splits)
  qed
  with eff(3,4) resolve(3,4) show ?case by (simp add: mining_inv_def)
qed

lemma mining_reachable_inv: "mining_reachable s \<Longrightarrow> mining_inv s"
proof (induction rule: mining_reachable.induct)
  case (start env token cap)
  then show ?case by (simp add: mining_inv_def account_ok_def new_mining_def owed_def)
qed (auto intro: mining_step_inv)

lemma pending_matches_update:
  "get_pending_reward env self (predecessor env)
     = rbind (update_rewards env self) (\<lambda>self'. Inr (reward_of self' (predecessor env)))"
  by (auto simp: get_pending_reward_def update_rewards_def Let_def rbind_assoc intro!: rbind_cong)

section \<open>Properties\<close>

text \<open>C6. In every reachable state of the mining system, whatever the interleaving of claims, failed
  and successful mints and administrative calls, what one account has been minted, has in
  flight and can still claim is at most the highest reward rate times the blocks elapsed since
  the contract was created.\<close>

theorem mining_issuance_bound:
  assumes "mining_reachable s"
  shows "minted s u + in_flight u (minflight s) + unat (reward_of (mcontract s) u)
           \<le> rate_cap s * (height s - genesis s)"
proof -
  from mining_reachable_inv [OF assms] have ok: "account_ok s u" by (simp add: mining_inv_def)
  show ?thesis
  proof (cases "last_updates (mcontract s) u")
    case None
    with ok show ?thesis by (simp add: account_ok_def owed_def)
  next
    case (Some b)
    with ok have "owed s u \<le> rate_cap s * (unat b - genesis s)" and "unat b \<le> height s"
      by (simp_all add: account_ok_def)
    moreover from this(2) have "rate_cap s * (unat b - genesis s) \<le> rate_cap s * (height s - genesis s)"
      by (simp add: diff_le_mono)
    ultimately have "owed s u \<le> rate_cap s * (height s - genesis s)" by (meson le_trans)
    then show ?thesis by (simp add: owed_def)
  qed
qed

definition demo_env :: "account \<Rightarrow> u64 \<Rightarrow> near_env" where
  "demo_env who h = (env_at who ''mine'' 0 False)\<lparr>block_height := h\<rparr>"

text \<open>A concrete run: created at block 5, alice claims at block 8 and has 30 tokens in flight.\<close>

theorem mining_issuance_bound_witness:
  "\<exists>s. mining_reachable s \<and> in_flight ''alice'' (minflight s) = 30 * 10 ^ 18
       \<and> in_flight ''alice'' (minflight s) \<le> 10 ^ 19 * (8 - 5)"
proof -
  let ?m = "new_mining (demo_env ''owner'' 5) ''dmd''"
  let ?s = "\<lparr>mcontract = ?m, minflight = [], minted = (\<lambda>_. 0), genesis = unat (block_height (demo_env ''owner'' 5)),
      height = unat (block_height (demo_env ''owner'' 5)), rate_cap = 10 ^ 19\<rparr> :: mining_sys"
  have r: "mining_reachable ?s" by (rule mining_reachable.start) (simp add: new_mining_def)
  let ?c = "Claim_rewards"
  have "\<exists>m' p. claim_rewards (demo_env ''alice'' 8) ?m = Inr (m', p)
      \<and> callback p = Some (Claim_reward_cb ''alice'' (30 * 10 ^ 18), 100000000000000)"
    by (simp add: claim_rewards_def update_rewards_def new_mining_def demo_env_def env_at_def Let_def
        sub_ov_def mul_ov_def add_ov_def)
  then obtain m' p where ex: "exec_mining (demo_env ''alice'' 8, ?c) (mcontract ?s) = Inr (m', [p])"
    and p: "callback p = Some (Claim_reward_cb ''alice'' (30 * 10 ^ 18), 100000000000000)" by auto
  let ?t = "?s\<lparr>mcontract := m', minflight := minflight ?s @ mining_callbacks [p],
      height := unat (block_height (demo_env ''alice'' 8))\<rparr>"
  have "mining_step ?s ?t" by (rule mining_step.user [OF _ _ ex]) (simp_all add: demo_env_def)
  with r have t: "mining_reachable ?t" by (rule mining_reachable.step)
  have q: "in_flight ''alice'' (minflight ?t) = 30 * 10 ^ 18" by (simp add: p)
  moreover have "in_flight ''alice'' (minflight ?t) \<le> 10 ^ 19 * (8 - 5)"
    using mining_issuance_bound [OF t, of "''alice''"] by (simp add: demo_env_def)
  ultimately show ?thesis using t by blast
qed

text \<open>C25. The view \<open>get_pending_reward\<close> and the state change \<open>update_rewards\<close> agree for every caller,
  panics included: the view reports exactly the balance the update would store.\<close>

theorem mining_pending_matches_update:
  "get_pending_reward env self (predecessor env)
     = rbind (update_rewards env self) (\<lambda>self'. Inr (reward_of self' (predecessor env)))"
  by (rule pending_matches_update)



text \<open>An account the contract has never seen is credited for every block since the global reward
  block: its first claim, with nothing staked, mints the whole of \<open>blocks * rate\<close> to it.\<close>

lemma mining_fresh_account_reward:
  assumes "last_updates self (predecessor env) = None" and "rewards self (predecessor env) = None"
    and "unat (last_reward_block self) < unat (block_height env)"
    and "0 < reward_rate self"
    and "(unat (block_height env) - unat (last_reward_block self)) * unat (reward_rate self) < 2 ^ 128"
  shows "\<exists>self' p r. claim_rewards env self = Inr (self', p) \<and> call_method p = Mint (predecessor env) r
           \<and> unat r = (unat (block_height env) - unat (last_reward_block self)) * unat (reward_rate self)"
proof -
  let ?b = "block_height env - last_reward_block self"
  let ?r = "ucast ?b * reward_rate self"
  have le: "last_reward_block self \<le> block_height env" and b: "0 < ?b"
    and ub: "unat ?b = unat (block_height env) - unat (last_reward_block self)"
    using assms(3) by (auto simp: word_le_nat_alt word_less_nat_alt unat_sub)
  have r: "unat ?r = (unat (block_height env) - unat (last_reward_block self)) * unat (reward_rate self)"
    using assms(5) ub by (simp add: unat_word_ariths)
  with assms(3,4) have "0 < ?r" by (simp add: word_less_nat_alt)
  moreover have "add_ov 0 ?r = Inr ?r" by (simp add: add_ov_Inr)
  ultimately show ?thesis using assms le b ub r
    by (simp add: claim_rewards_def update_rewards_def Let_def sub_ov_def mul_ov_def)
qed

end
