(* ===== verification/SupplyTracker.thy ===== *)
theory SupplyTracker
  imports Prelude "HOL-Library.AList"
begin

text \<open>
  The per-chain supply book of \<^verbatim>\<open>blockchain/src/diamond_token/src/supply_tracker.rs\<close>. The book is
  iterated over, so it is an association list with distinct keys, in insertion order: an insert
  replaces the entry of a known chain in place and appends a new chain. The locale
  \<open>supply_ledger\<close> is what the token contract relies on; the tracker interprets it.
\<close>

section \<open>The interface the token relies on\<close>

text \<open>
  A book of amounts per chain: \<open>put\<close> overwrites one amount, \<open>amount_of\<close> reads one, \<open>sum_of\<close> is
  the sum of all of them.
\<close>

locale supply_ledger =
  fixes put :: "'t \<Rightarrow> u16 \<Rightarrow> 'x \<Rightarrow> u128 \<Rightarrow> 't"
    and amount_of :: "'t \<Rightarrow> u16 \<Rightarrow> u128 option"
    and sum_of :: "'t \<Rightarrow> nat"
    and good :: "'t \<Rightarrow> bool"
  assumes good_put: "good t \<Longrightarrow> good (put t k x v)"
    and amount_put: "good t \<Longrightarrow> amount_of (put t k x v) = (amount_of t)(k \<mapsto> v)"
    and sum_put_new: "good t \<Longrightarrow> amount_of t k = None \<Longrightarrow> sum_of (put t k x v) = sum_of t + unat v"
    and sum_put_old: "good t \<Longrightarrow> amount_of t k = Some w \<Longrightarrow>
           sum_of (put t k x v) + unat w = sum_of t + unat v"
begin

lemma credit_sum:
  "good t \<Longrightarrow> amount_of t k = Some w \<Longrightarrow> unat v = unat w + d \<Longrightarrow> sum_of (put t k x v) = sum_of t + d"
  using sum_put_old [of t k w x v] by simp

lemma debit_sum:
  "good t \<Longrightarrow> amount_of t k = Some w \<Longrightarrow> unat w = unat v + d \<Longrightarrow> sum_of (put t k x v) + d = sum_of t"
  using sum_put_old [of t k w x v] by simp

lemma amount_le_sum:
  assumes "good t" and "amount_of t k = Some w" shows "unat w \<le> sum_of t"
  using sum_put_old [OF assms, of undefined 0] by simp

text \<open>Moving an amount from one chain to another does not change the sum.\<close>

lemma move_sum:
  assumes "good t" and "amount_of t k = Some a" and "amount_of t l = Some b" and "k \<noteq> l"
    and "unat a = unat a' + d" and "unat b' = unat b + d"
  shows "sum_of (put (put t k x a') l y b') = sum_of t"
proof -
  from debit_sum [OF assms(1,2,5), of x] have "sum_of (put t k x a') + d = sum_of t" .
  moreover have "amount_of (put t k x a') l = Some b"
    using assms by (simp add: amount_put)
  from credit_sum [OF good_put [OF assms(1)] this assms(6), of y]
  have "sum_of (put (put t k x a') l y b') = sum_of (put t k x a') + d" .
  ultimately show ?thesis by simp
qed

end

section \<open>State and operations\<close>

record chain_supply =
  cs_chain_id :: u16
  cs_chain_name :: string
  cs_supply :: u128
  cs_last_updated :: u64

record supply_tracker =
  supplies :: "(u16 \<times> chain_supply) list"
  st_near_chain_id :: u16
  st_max_supply :: u128
  st_owner_id :: account

definition new_tracker :: "u16 \<Rightarrow> u128 \<Rightarrow> account \<Rightarrow> supply_tracker" where
  "new_tracker near_chain_id max_supply owner =
     \<lparr> supplies = [], st_near_chain_id = near_chain_id, st_max_supply = max_supply, st_owner_id = owner \<rparr>"

text \<open>The unconditional part of an update: overwrite the entry of one chain.\<close>

definition put_supply :: "near_env \<Rightarrow> supply_tracker \<Rightarrow> u16 \<Rightarrow> string \<Rightarrow> u128 \<Rightarrow> supply_tracker" where
  "put_supply env self chain_id chain_name supply =
     self\<lparr>supplies := AList.update chain_id
        \<lparr>cs_chain_id = chain_id, cs_chain_name = chain_name, cs_supply = supply,
         cs_last_updated = block_timestamp env\<rparr> (supplies self)\<rparr>"

definition update_chain_supply ::
    "near_env \<Rightarrow> supply_tracker \<Rightarrow> u16 \<Rightarrow> string \<Rightarrow> u128 \<Rightarrow> supply_tracker \<times> bool" where
  "update_chain_supply env self chain_id chain_name supply =
     (if predecessor env \<noteq> st_owner_id self then (self, False)
      else (put_supply env self chain_id chain_name supply, True))"

definition is_authorized_oracle :: "supply_tracker \<Rightarrow> account \<Rightarrow> bool" where
  "is_authorized_oracle self account_id = (account_id = st_owner_id self)"

fun total_from :: "u128 \<Rightarrow> (u16 \<times> chain_supply) list \<Rightarrow> u128 res" where
  "total_from tot [] = Inr tot"
| "total_from tot ((_, s) # rest) = rbind (add_ov tot (cs_supply s)) (\<lambda>t. total_from t rest)"

definition get_total_circulating_supply :: "supply_tracker \<Rightarrow> u128 res" where
  "get_total_circulating_supply self = total_from 0 (supplies self)"

definition can_mint_additional :: "supply_tracker \<Rightarrow> u128 \<Rightarrow> bool res" where
  "can_mint_additional self amount =
     rbind (get_total_circulating_supply self) (\<lambda>current_total.
     rbind (add_ov current_total amount) (\<lambda>t. Inr (t \<le> st_max_supply self)))"

definition get_chain_supply :: "supply_tracker \<Rightarrow> u16 \<Rightarrow> chain_supply option" where
  "get_chain_supply self chain_id = map_of (supplies self) chain_id"

definition get_all_chain_supplies :: "supply_tracker \<Rightarrow> chain_supply list" where
  "get_all_chain_supplies self = map snd (supplies self)"

definition set_near_chain_id :: "near_env \<Rightarrow> supply_tracker \<Rightarrow> u16 \<Rightarrow> supply_tracker res" where
  "set_near_chain_id env self i =
     rbind (require (predecessor env = st_owner_id self) ''Only owner can update NEAR chain ID'')
       (\<lambda>_. Inr (self\<lparr>st_near_chain_id := i\<rparr>))"

definition get_near_chain_id :: "supply_tracker \<Rightarrow> u16" where
  "get_near_chain_id self = st_near_chain_id self"

definition st_get_max_supply :: "supply_tracker \<Rightarrow> u128" where
  "st_get_max_supply self = st_max_supply self"

definition set_max_supply :: "near_env \<Rightarrow> supply_tracker \<Rightarrow> u128 \<Rightarrow> supply_tracker res" where
  "set_max_supply env self m =
     rbind (require (predecessor env = st_owner_id self) ''Only owner can update max supply'')
       (\<lambda>_. Inr (self\<lparr>st_max_supply := m\<rparr>))"

definition st_transfer_ownership :: "near_env \<Rightarrow> supply_tracker \<Rightarrow> account \<Rightarrow> supply_tracker res" where
  "st_transfer_ownership env self new_owner_id =
     rbind (require (predecessor env = st_owner_id self) ''Only owner can transfer ownership'')
       (\<lambda>_. Inr (self\<lparr>st_owner_id := new_owner_id\<rparr>))"

section \<open>The book as a ledger\<close>

definition tracked :: "supply_tracker \<Rightarrow> u16 \<Rightarrow> u128 option" where
  "tracked self k = map_option cs_supply (get_chain_supply self k)"

definition tracked_sum :: "supply_tracker \<Rightarrow> nat" where
  "tracked_sum self = (\<Sum>(k, s)\<leftarrow>supplies self. unat (cs_supply s))"

definition tracker_ok :: "supply_tracker \<Rightarrow> bool" where
  "tracker_ok self \<longleftrightarrow> distinct (map fst (supplies self))"

lemma sum_update_new:
  "k \<notin> fst ` set al \<Longrightarrow>
     (\<Sum>(k, s)\<leftarrow>AList.update k v al. unat (cs_supply s)) = (\<Sum>(k, s)\<leftarrow>al. unat (cs_supply s)) + unat (cs_supply v)"
  by (induction al) auto

lemma sum_update_old:
  "map_of al k = Some w \<Longrightarrow> distinct (map fst al) \<Longrightarrow>
     (\<Sum>(k, s)\<leftarrow>AList.update k v al. unat (cs_supply s)) + unat (cs_supply w)
       = (\<Sum>(k, s)\<leftarrow>al. unat (cs_supply s)) + unat (cs_supply v)"
  by (induction al) (auto simp: update_nonempty)

interpretation tracker: supply_ledger "put_supply env" tracked tracked_sum tracker_ok for env
proof
  fix t k x v w
  assume ok: "tracker_ok t"
  then show "tracker_ok (put_supply env t k x v)"
    by (simp add: tracker_ok_def put_supply_def distinct_update)
  show "tracked (put_supply env t k x v) = (tracked t)(k \<mapsto> v)"
    by (auto simp: tracked_def get_chain_supply_def put_supply_def update_conv')
  show "tracked t k = None \<Longrightarrow> tracked_sum (put_supply env t k x v) = tracked_sum t + unat v"
    using sum_update_new [of k "supplies t"]
    by (simp add: tracked_def get_chain_supply_def tracked_sum_def put_supply_def map_of_eq_None_iff)
  show "tracked t k = Some w \<Longrightarrow>
      tracked_sum (put_supply env t k x v) + unat w = tracked_sum t + unat v"
    using ok sum_update_old [of "supplies t" k]
    by (auto simp: tracked_def get_chain_supply_def tracked_sum_def put_supply_def tracker_ok_def)
qed

lemma total_from_Inr:
  "total_from a es = Inr t \<longleftrightarrow> unat t = unat a + (\<Sum>(k, s)\<leftarrow>es. unat (cs_supply s))"
proof (induction es arbitrary: a)
  case Nil
  then show ?case by (auto simp: word_unat_eq_iff)
next
  case (Cons e es)
  obtain k s where e: "e = (k, s)" by (cases e)
  show ?case
  proof
    assume "total_from a (e # es) = Inr t"
    with e Cons.IH show "unat t = unat a + (\<Sum>(k, s)\<leftarrow>e # es. unat (cs_supply s))"
      by (auto simp: ovf)
  next
    assume t: "unat t = unat a + (\<Sum>(k, s)\<leftarrow>e # es. unat (cs_supply s))"
    have "unat t < 2 ^ LENGTH(128)" by (rule unat_less)
    with t e have "add_ov a (cs_supply s) = Inr (a + cs_supply s)"
      by (simp add: add_ov_def)
    with t e Cons.IH [of "a + cs_supply s"] show "total_from a (e # es) = Inr t"
      by (auto simp: add_ov_Inr intro: exI [of _ "a + cs_supply s"])
  qed
qed

lemma total_supply_Inr: "get_total_circulating_supply self = Inr t \<longleftrightarrow> unat t = tracked_sum self"
  by (simp add: get_total_circulating_supply_def total_from_Inr tracked_sum_def)

lemma get_chain_supply_tracked:
  "get_chain_supply self k = Some cs \<Longrightarrow> tracked self k = Some (cs_supply cs)"
  by (simp add: tracked_def)

lemma put_supply_frame [simp]:
  "st_owner_id (put_supply env self k n v) = st_owner_id self"
  "st_max_supply (put_supply env self k n v) = st_max_supply self"
  "st_near_chain_id (put_supply env self k n v) = st_near_chain_id self"
  by (simp_all add: put_supply_def)

lemma update_chain_supply_frame [simp]:
  "st_owner_id (fst (update_chain_supply env self k n v)) = st_owner_id self"
  "tracker_ok self \<Longrightarrow> tracker_ok (fst (update_chain_supply env self k n v))"
  by (auto simp: update_chain_supply_def tracker.good_put)

end
