(* ===== verification/ModuleManager.thy ===== *)
theory ModuleManager
  imports Prelude
begin

text \<open>
  The module registry of \<^verbatim>\<open>blockchain/src/diamond_token/src/module_manager.rs\<close>: named modules with a
  key vector kept beside the map, the permissions of calling contracts, and the administrators.
  The invariant ties the key vector to the map and keeps the owner an administrator.
\<close>

section \<open>State and operations\<close>

datatype module_status = Active | Paused | Deprecated

record module_info =
  m_name :: string
  m_contract_id :: account
  m_version :: string
  m_status :: module_status
  m_added_timestamp :: u64
  m_last_updated :: u64
  m_metadata :: string

record module_manager =
  modules :: "string \<rightharpoonup> module_info"
  module_keys :: "string list"
  authorized_callers :: "account \<rightharpoonup> string list"
  mm_owner_id :: account
  admins :: "account list"

definition new_manager :: "account \<Rightarrow> account list option \<Rightarrow> module_manager" where
  "new_manager owner init_admins =
     (let admins = (case init_admins of Some admin_list \<Rightarrow> admin_list | None \<Rightarrow> []);
          admins = (if owner \<in> set admins then admins else admins @ [owner]) in
      \<lparr> modules = Map.empty, module_keys = [], authorized_callers = Map.empty,
        mm_owner_id = owner, admins = admins \<rparr>)"

definition is_admin :: "module_manager \<Rightarrow> account \<Rightarrow> bool" where
  "is_admin self account_id = List.member (admins self) account_id"

definition assert_admin :: "near_env \<Rightarrow> module_manager \<Rightarrow> unit res" where
  "assert_admin env self = require (is_admin self (predecessor env)) ''Only admin can perform this action''"

definition add_module :: "near_env \<Rightarrow> module_manager \<Rightarrow> module_info \<Rightarrow> (module_manager \<times> bool) res" where
  "add_module env self m =
     rbind (assert_admin env self) (\<lambda>_.
     Inr (if modules self (m_name m) \<noteq> None then (self, False)
          else (self\<lparr>module_keys := module_keys self @ [m_name m],
                     modules := (modules self)(m_name m \<mapsto> m)\<rparr>, True)))"

definition update_module ::
    "near_env \<Rightarrow> module_manager \<Rightarrow> string \<Rightarrow> module_info \<Rightarrow> (module_manager \<times> bool) res" where
  "update_module env self name m =
     rbind (assert_admin env self) (\<lambda>_.
     Inr (if modules self name = None then (self, False)
          else (self\<lparr>modules := (modules self)(name \<mapsto> m)\<rparr>, True)))"

definition update_module_status ::
    "near_env \<Rightarrow> module_manager \<Rightarrow> string \<Rightarrow> module_status \<Rightarrow> (module_manager \<times> bool) res" where
  "update_module_status env self name status =
     rbind (assert_admin env self) (\<lambda>_.
     Inr (case modules self name of
            Some m \<Rightarrow> (self\<lparr>modules := (modules self)(name \<mapsto>
                          m\<lparr>m_status := status, m_last_updated := block_timestamp env\<rparr>)\<rparr>, True)
          | None \<Rightarrow> (self, False)))"

definition remove_module :: "near_env \<Rightarrow> module_manager \<Rightarrow> string \<Rightarrow> (module_manager \<times> bool) res" where
  "remove_module env self name =
     rbind (assert_admin env self) (\<lambda>_.
     Inr (if modules self name = None then (self, False)
          else (self\<lparr>modules := (modules self)(name := None),
                     module_keys := filter (\<lambda>key. key \<noteq> name) (module_keys self)\<rparr>, True)))"

fun add_permissions :: "string list \<Rightarrow> string list \<Rightarrow> string list" where
  "add_permissions current [] = current"
| "add_permissions current (perm # perms) =
     add_permissions (if List.member current perm then current else current @ [perm]) perms"

definition authorize_caller ::
    "near_env \<Rightarrow> module_manager \<Rightarrow> account \<Rightarrow> string list \<Rightarrow> (module_manager \<times> bool) res" where
  "authorize_caller env self contract_id permissions =
     rbind (assert_admin env self) (\<lambda>_.
     let current = (case authorized_callers self contract_id of None \<Rightarrow> [] | Some ps \<Rightarrow> ps) in
     Inr (self\<lparr>authorized_callers := (authorized_callers self)(contract_id \<mapsto>
            add_permissions current permissions)\<rparr>, True))"

definition revoke_caller ::
    "near_env \<Rightarrow> module_manager \<Rightarrow> account \<Rightarrow> string list option \<Rightarrow> (module_manager \<times> bool) res" where
  "revoke_caller env self contract_id permissions =
     rbind (assert_admin env self) (\<lambda>_.
     Inr (case permissions of
            Some perms \<Rightarrow>
              (case authorized_callers self contract_id of
                 Some current \<Rightarrow>
                   let kept = filter (\<lambda>p. \<not> List.member perms p) current in
                   (if kept = []
                    then self\<lparr>authorized_callers := (authorized_callers self)(contract_id := None)\<rparr>
                    else self\<lparr>authorized_callers := (authorized_callers self)(contract_id \<mapsto> kept)\<rparr>, True)
               | None \<Rightarrow> (self, False))
          | None \<Rightarrow>
              (self\<lparr>authorized_callers := (authorized_callers self)(contract_id := None)\<rparr>,
               authorized_callers self contract_id \<noteq> None)))"

definition has_permission :: "module_manager \<Rightarrow> account \<Rightarrow> string \<Rightarrow> bool" where
  "has_permission self contract_id permission =
     (if List.member (admins self) contract_id then True
      else case authorized_callers self contract_id of
             Some permissions \<Rightarrow> List.member permissions permission
           | None \<Rightarrow> False)"

text \<open>Both listings walk the key vector and unwrap each entry of the map.\<close>

fun list_modules :: "(module_info \<Rightarrow> bool) \<Rightarrow> (string \<rightharpoonup> module_info) \<Rightarrow> string list \<Rightarrow> module_info list res" where
  "list_modules keep ms [] = Inr []"
| "list_modules keep ms (key # keys) =
     rbind (expect (ms key) ''unwrap on None'') (\<lambda>m.
     rbind (list_modules keep ms keys) (\<lambda>rest.
     Inr (if keep m then m # rest else rest)))"

definition get_active_modules :: "module_manager \<Rightarrow> module_info list res" where
  "get_active_modules self = list_modules (\<lambda>m. m_status m = Active) (modules self) (module_keys self)"

definition get_all_modules :: "module_manager \<Rightarrow> module_info list res" where
  "get_all_modules self = list_modules (\<lambda>_. True) (modules self) (module_keys self)"

datatype module_method = Call_function string string

text \<open>The promise of a module call: function name and argument text, no callback.\<close>

definition call_module_function ::
    "near_env \<Rightarrow> module_manager \<Rightarrow> string \<Rightarrow> string \<Rightarrow> string \<Rightarrow> u128 \<Rightarrow> u64
       \<Rightarrow> (module_method, unit) promise res" where
  "call_module_function env self module_name function_name args attached static_gas =
     rbind (assert_admin env self) (\<lambda>_.
     rbind (expect (modules self module_name) ''Module not found'') (\<lambda>m.
     if m_status m \<noteq> Active then Inl (PanicStr ''Module is not active'')
     else Inr \<lparr> target = m_contract_id m, call_method = Call_function function_name args,
                deposit = attached, gas = static_gas, callback = None \<rparr>))"

definition add_admin :: "near_env \<Rightarrow> module_manager \<Rightarrow> account \<Rightarrow> (module_manager \<times> bool) res" where
  "add_admin env self admin_id =
     rbind (require (predecessor env = mm_owner_id self) ''Only owner can add admins'') (\<lambda>_.
     Inr (if List.member (admins self) admin_id then (self, False)
          else (self\<lparr>admins := admins self @ [admin_id]\<rparr>, True)))"

definition remove_admin :: "near_env \<Rightarrow> module_manager \<Rightarrow> account \<Rightarrow> (module_manager \<times> bool) res" where
  "remove_admin env self admin_id =
     rbind (require (predecessor env = mm_owner_id self) ''Only owner can remove admins'') (\<lambda>_.
     rbind (require (admin_id \<noteq> mm_owner_id self) ''Cannot remove owner from admins'') (\<lambda>_.
     let kept = filter (\<lambda>i. i \<noteq> admin_id) (admins self) in
     Inr (self\<lparr>admins := kept\<rparr>, length (admins self) \<noteq> length kept)))"

definition get_admins :: "module_manager \<Rightarrow> account list" where
  "get_admins self = admins self"

definition mm_transfer_ownership :: "near_env \<Rightarrow> module_manager \<Rightarrow> account \<Rightarrow> module_manager res" where
  "mm_transfer_ownership env self new_owner_id =
     rbind (require (predecessor env = mm_owner_id self) ''Only owner can transfer ownership'') (\<lambda>_.
     let self = (if List.member (admins self) new_owner_id then self
                 else self\<lparr>admins := admins self @ [new_owner_id]\<rparr>) in
     Inr (self\<lparr>mm_owner_id := new_owner_id\<rparr>))"

section \<open>Dispatch\<close>

datatype manager_call =
    Add_module module_info | Update_module string module_info | Update_module_status string module_status
  | Remove_module string | Authorize_caller account "string list"
  | Revoke_caller account "string list option" | Add_admin account | Remove_admin account
  | Mm_transfer_ownership account

fun exec_manager :: "near_env \<times> manager_call \<Rightarrow> module_manager \<Rightarrow> (module_manager \<times> bool) res" where
  "exec_manager (env, Add_module m) self = add_module env self m"
| "exec_manager (env, Update_module n m) self = update_module env self n m"
| "exec_manager (env, Update_module_status n st) self = update_module_status env self n st"
| "exec_manager (env, Remove_module n) self = remove_module env self n"
| "exec_manager (env, Authorize_caller c ps) self = authorize_caller env self c ps"
| "exec_manager (env, Revoke_caller c ps) self = revoke_caller env self c ps"
| "exec_manager (env, Add_admin a) self = add_admin env self a"
| "exec_manager (env, Remove_admin a) self = remove_admin env self a"
| "exec_manager (env, Mm_transfer_ownership a) self =
     rbind (mm_transfer_ownership env self a) (\<lambda>s. Inr (s, True))"

section \<open>The registry invariant\<close>

definition registry_ok :: "module_manager \<Rightarrow> bool" where
  "registry_ok self \<longleftrightarrow> distinct (module_keys self) \<and> set (module_keys self) = dom (modules self)
     \<and> mm_owner_id self \<in> set (admins self)"

lemmas manager_defs = add_module_def update_module_def update_module_status_def remove_module_def
  authorize_caller_def revoke_caller_def add_admin_def remove_admin_def mm_transfer_ownership_def
  assert_admin_def is_admin_def Let_def

lemma exec_manager_ok:
  "exec_manager c self = Inr (self', b) \<Longrightarrow> registry_ok self \<Longrightarrow> registry_ok self'"
  by (induction c self rule: exec_manager.induct)
    (auto simp: manager_defs registry_ok_def split: if_splits option.splits)

lemma exec_manager_owner:
  "exec_manager c self = Inr (self', b) \<Longrightarrow> predecessor (fst c) \<noteq> mm_owner_id self \<Longrightarrow>
     mm_owner_id self' = mm_owner_id self"
  by (induction c self rule: exec_manager.induct)
    (auto simp: manager_defs split: if_splits option.splits)

fun manager_privileged :: "near_env \<times> manager_call \<Rightarrow> bool" where
  "manager_privileged (env, Add_admin a) = True"
| "manager_privileged (env, Remove_admin a) = True"
| "manager_privileged (env, Mm_transfer_ownership a) = True"
| "manager_privileged (env, c) = False"

lemma manager_privileged_panics:
  "manager_privileged c \<Longrightarrow> predecessor (fst c) \<noteq> mm_owner_id self \<Longrightarrow> \<exists>e. exec_manager c self = Inl e"
  by (cases c rule: manager_privileged.cases) (auto simp: manager_defs)

interpretation manager_owned:
  owned_contract exec_manager registry_ok mm_owner_id "\<lambda>c. predecessor (fst c)" manager_privileged
  by unfold_locales (auto intro: exec_manager_ok exec_manager_owner manager_privileged_panics)

lemma new_manager_ok: "registry_ok (new_manager owner init_admins)"
  by (auto simp: new_manager_def registry_ok_def Let_def split: option.splits)

lemma list_modules_Inr:
  "set keys \<subseteq> dom ms \<Longrightarrow>
     list_modules keep ms keys = Inr (filter keep (map (\<lambda>key. the (ms key)) keys))"
  by (induction keys) auto

lemma add_permissions_set: "set (add_permissions cur ps) = set cur \<union> set ps"
  by (induction ps arbitrary: cur) auto

lemma add_permissions_distinct: "distinct cur \<Longrightarrow> distinct (add_permissions cur ps)"
  by (induction ps arbitrary: cur) auto

section \<open>Properties\<close>

text \<open>After any sequence of registry calls, the key vector and the module map hold the same
  names, so both listings return without an \<open>unwrap\<close> panic; the active listing holds exactly
  the modules of the map whose status is active, and the owner is still an administrator.\<close>

lemma module_listing_complete:
  fixes owner :: account and init :: "account list option" and cs :: "(near_env \<times> manager_call) list"
  defines "self \<equiv> run_calls exec_manager (new_manager owner init) cs"
  shows "(\<exists>ms. get_active_modules self = Inr ms \<and> set ms = {m \<in> ran (modules self). m_status m = Active})
     \<and> (\<exists>ms. get_all_modules self = Inr ms \<and> length ms = card (dom (modules self))
           \<and> set ms = ran (modules self))
     \<and> is_admin self (mm_owner_id self)"
proof -
  have ok: "registry_ok self"
    unfolding self_def by (rule manager_owned.run_inv [OF new_manager_ok])
  then have keys: "set (module_keys self) = dom (modules self)" "distinct (module_keys self)"
    by (simp_all add: registry_ok_def)
  have rng: "(\<lambda>key. the (modules self key)) ` set (module_keys self) = ran (modules self)"
    unfolding keys by (force simp: ran_def dom_def)
  have "\<exists>ms. get_active_modules self = Inr ms \<and> set ms = {m \<in> ran (modules self). m_status m = Active}"
    using keys rng by (auto simp: get_active_modules_def list_modules_Inr)
  moreover have "\<exists>ms. get_all_modules self = Inr ms \<and> length ms = card (dom (modules self))
           \<and> set ms = ran (modules self)"
    using keys rng distinct_card [OF keys(2)] by (simp add: get_all_modules_def list_modules_Inr)
  moreover have "is_admin self (mm_owner_id self)" using ok by (simp add: registry_ok_def is_admin_def)
  ultimately show ?thesis by blast
qed

text \<open>Granting permissions to a contract and then revoking the same ones leaves it with
  exactly the permissions it had that were not among them; with none left its entry is gone.\<close>

lemma module_grant_revoke:
  assumes "is_admin self (predecessor env)" and "is_admin self (predecessor env')"
    and "\<not> is_admin self c"
  shows "\<exists>self1 self2. authorize_caller env self c ps = Inr (self1, True)
     \<and> revoke_caller env' self1 c (Some ps) = Inr (self2, True)
     \<and> (\<forall>p. has_permission self1 c p \<longleftrightarrow> has_permission self c p \<or> p \<in> set ps)
     \<and> (\<forall>p. has_permission self2 c p \<longleftrightarrow> has_permission self c p \<and> p \<notin> set ps)"
proof -
  let ?cur = "case authorized_callers self c of None \<Rightarrow> [] | Some l \<Rightarrow> l"
  let ?self1 = "self\<lparr>authorized_callers := (authorized_callers self)(c \<mapsto> add_permissions ?cur ps)\<rparr>"
  let ?kept = "filter (\<lambda>p. p \<notin> set ps) (add_permissions ?cur ps)"
  have 1: "authorize_caller env self c ps = Inr (?self1, True)"
    using assms(1) by (simp add: authorize_caller_def assert_admin_def)
  have kept: "set ?kept = set ?cur - set ps" by (auto simp: add_permissions_set)
  let ?self2 = "if ?kept = [] then ?self1\<lparr>authorized_callers := (authorized_callers ?self1)(c := None)\<rparr>
     else ?self1\<lparr>authorized_callers := (authorized_callers ?self1)(c \<mapsto> ?kept)\<rparr>"
  have 2: "revoke_caller env' ?self1 c (Some ps) = Inr (?self2, True)"
    using assms(2) by (simp add: revoke_caller_def assert_admin_def is_admin_def)
  have 3: "has_permission ?self1 c p \<longleftrightarrow> has_permission self c p \<or> p \<in> set ps" for p
    using assms(3) by (auto simp: has_permission_def is_admin_def add_permissions_set split: option.splits)
  have "has_permission ?self2 c p \<longleftrightarrow> p \<in> set ?kept" for p
  proof (cases "?kept = []")
    case True
    then have "has_permission ?self2 c p \<longleftrightarrow> False"
      using assms(3) by (simp only: if_True) (simp add: has_permission_def is_admin_def)
    with True show ?thesis by (simp only: list.set empty_iff)
  next
    case False
    then show ?thesis
      using assms(3) by (simp only: if_False) (simp add: has_permission_def is_admin_def)
  qed
  then have 4: "has_permission ?self2 c p \<longleftrightarrow> has_permission self c p \<and> p \<notin> set ps" for p
    using kept assms(3) by (auto simp: has_permission_def is_admin_def split: option.splits)
  from 1 2 3 4 show ?thesis by blast
qed

definition demo_manager :: module_manager where
  "demo_manager = (new_manager ''owner'' None)\<lparr>authorized_callers := [''farm'' \<mapsto> [''burn'']]\<rparr>"

text \<open>Handing the registry over does not remove the previous owner: it stays an administrator
  until the new owner removes it, and can still add modules after the transfer.\<close>

lemma module_old_owner_keeps_admin:
  assumes "mm_transfer_ownership env self new_owner = Inr self'" and "registry_ok self"
    and "modules self (m_name m) = None"
  shows "mm_owner_id self' = new_owner \<and> is_admin self' (predecessor env)
         \<and> (\<exists>self2. add_module env self' m = Inr (self2, True) \<and> modules self2 (m_name m) = Some m)"
  using assms by (auto simp: mm_transfer_ownership_def add_module_def assert_admin_def is_admin_def
      registry_ok_def Let_def)

end
