(* ===== verification/BridgeMpc.thy ===== *)
theory BridgeMpc
  imports Prelude
begin

text \<open>
  The bridge of \<^verbatim>\<open>blockchain/src/diamond_token/src/bridge.rs\<close>: the parameters and chain
  configurations the token uses, the LayerZero send, and the multi-party controller that collects
  signatures on bridge transactions. Vectors are lists; the first match of a loop that returns is
  a recursive function over the list.
\<close>

section \<open>Bridge data\<close>

record layer_zero_params =
  dest_chain_id :: u16
  adapter_params :: "u8 list"
  fees :: u128

record chain_config =
  cc_remote_chain_id :: u16
  cc_remote_bridge_address :: string
  cc_chain_name :: string
  cc_enabled :: bool
  cc_fee_basis_points :: u32
  cc_min_fee :: u128
  cc_max_fee :: u128
  cc_supply_oracle :: "account option"

record supported_chain =
  sc_chain_id :: u16
  sc_chain_name :: string
  sc_bridge_address :: string
  sc_enabled :: bool

record mpc_transaction =
  tx_id :: string
  from_chain :: u16
  to_chain :: u16
  sender :: string
  receiver :: string
  tx_amount :: u128
  signatures :: "(account \<times> u8 list) list"
  completed :: bool
  timestamp :: u64
  memo :: "string option"

record mpc_controller =
  authorized_signers :: "account list"
  threshold :: u8
  pending_transactions :: "mpc_transaction list"
  supported_chains :: "supported_chain list"
  mpc_owner_id :: account

section \<open>Operations of the controller\<close>

definition new_mpc :: "account list \<Rightarrow> u8 \<Rightarrow> account \<Rightarrow> mpc_controller res" where
  "new_mpc signers t owner =
     rbind (require (0 < t \<and> unat t \<le> length signers) ''Invalid threshold'') (\<lambda>_.
     Inr \<lparr> authorized_signers = signers, threshold = t, pending_transactions = [],
           supported_chains = [], mpc_owner_id = owner \<rparr>)"

definition add_supported_chain ::
    "near_env \<Rightarrow> mpc_controller \<Rightarrow> supported_chain \<Rightarrow> (mpc_controller \<times> bool) res" where
  "add_supported_chain env self chain =
     rbind (require (predecessor env = mpc_owner_id self) ''Only owner can add supported chains'') (\<lambda>_.
     Inr (if list_ex (\<lambda>c. sc_chain_id c = sc_chain_id chain) (supported_chains self) then (self, False)
          else (self\<lparr>supported_chains := supported_chains self @ [chain]\<rparr>, True)))"

fun replace_chain :: "u16 \<Rightarrow> supported_chain \<Rightarrow> supported_chain list \<Rightarrow> supported_chain list \<times> bool" where
  "replace_chain i chain [] = ([], False)"
| "replace_chain i chain (c # cs) =
     (if sc_chain_id c = i then (chain # cs, True)
      else let (cs', b) = replace_chain i chain cs in (c # cs', b))"

definition update_supported_chain ::
    "near_env \<Rightarrow> mpc_controller \<Rightarrow> u16 \<Rightarrow> supported_chain \<Rightarrow> (mpc_controller \<times> bool) res" where
  "update_supported_chain env self i chain =
     rbind (require (predecessor env = mpc_owner_id self) ''Only owner can update supported chains'') (\<lambda>_.
     let (cs, b) = replace_chain i chain (supported_chains self) in
     Inr (self\<lparr>supported_chains := cs\<rparr>, b))"

definition is_chain_supported :: "mpc_controller \<Rightarrow> u16 \<Rightarrow> bool" where
  "is_chain_supported self i = list_ex (\<lambda>c. sc_chain_id c = i \<and> sc_enabled c) (supported_chains self)"

definition get_supported_chains :: "mpc_controller \<Rightarrow> supported_chain list" where
  "get_supported_chains self = supported_chains self"

definition create_transaction ::
    "near_env \<Rightarrow> mpc_controller \<Rightarrow> string \<Rightarrow> u16 \<Rightarrow> u16 \<Rightarrow> string \<Rightarrow> string \<Rightarrow> u128 \<Rightarrow> string option
       \<Rightarrow> (mpc_controller \<times> bool) res" where
  "create_transaction env self i from to sndr rcv amount note =
     rbind (require (\<not> list_ex (\<lambda>tx. tx_id tx = i) (pending_transactions self))
              ''Transaction already exists'') (\<lambda>_.
     rbind (require (is_chain_supported self from \<and> is_chain_supported self to)
              ''Chain not supported'') (\<lambda>_.
     Inr (self\<lparr>pending_transactions := pending_transactions self @
            [\<lparr> tx_id = i, from_chain = from, to_chain = to, sender = sndr, receiver = rcv,
               tx_amount = amount, signatures = [], completed = False,
               timestamp = block_timestamp env, memo = note \<rparr>]\<rparr>, True)))"

text \<open>One signature on a transaction that is not completed: refused if the signer is already there.\<close>

definition sign_tx :: "u8 \<Rightarrow> account \<Rightarrow> u8 list \<Rightarrow> mpc_transaction \<Rightarrow> mpc_transaction \<times> bool" where
  "sign_tx t signer sig tx =
     (if \<not> list_ex (\<lambda>(i, _). i = signer) (signatures tx) then
        let tx = tx\<lparr>signatures := signatures tx @ [(signer, sig)]\<rparr> in
        (if unat t \<le> length (signatures tx) then tx\<lparr>completed := True\<rparr> else tx, True)
      else (tx, False))"

fun sign_in :: "u8 \<Rightarrow> string \<Rightarrow> account \<Rightarrow> u8 list \<Rightarrow> mpc_transaction list
    \<Rightarrow> mpc_transaction list \<times> bool" where
  "sign_in t i signer sig [] = ([], False)"
| "sign_in t i signer sig (tx # txs) =
     (if tx_id tx = i \<and> \<not> completed tx
      then let (tx', b) = sign_tx t signer sig tx in (tx' # txs, b)
      else let (txs', b) = sign_in t i signer sig txs in (tx # txs', b))"

definition sign_transaction ::
    "near_env \<Rightarrow> mpc_controller \<Rightarrow> string \<Rightarrow> u8 list \<Rightarrow> (mpc_controller \<times> bool) res" where
  "sign_transaction env self i sig =
     (let signer_id = predecessor env in
      rbind (require (List.member (authorized_signers self) signer_id) ''Signer not authorized'') (\<lambda>_.
      let (txs, b) = sign_in (threshold self) i signer_id sig (pending_transactions self) in
      Inr (self\<lparr>pending_transactions := txs\<rparr>, b)))"

definition get_transaction :: "mpc_controller \<Rightarrow> string \<Rightarrow> mpc_transaction option" where
  "get_transaction self i = List.find (\<lambda>tx. tx_id tx = i) (pending_transactions self)"

definition get_pending_transactions :: "mpc_controller \<Rightarrow> mpc_transaction list" where
  "get_pending_transactions self = filter (\<lambda>tx. \<not> completed tx) (pending_transactions self)"

definition get_completed_transactions :: "mpc_controller \<Rightarrow> u32 \<Rightarrow> mpc_transaction list" where
  "get_completed_transactions self limit =
     take (unat limit) (rev (filter completed (pending_transactions self)))"

definition add_authorized_signer ::
    "near_env \<Rightarrow> mpc_controller \<Rightarrow> account \<Rightarrow> (mpc_controller \<times> bool) res" where
  "add_authorized_signer env self signer_id =
     rbind (require (predecessor env = mpc_owner_id self) ''Only owner can add signers'') (\<lambda>_.
     Inr (if \<not> List.member (authorized_signers self) signer_id
          then (self\<lparr>authorized_signers := authorized_signers self @ [signer_id]\<rparr>, True)
          else (self, False)))"

definition remove_authorized_signer ::
    "near_env \<Rightarrow> mpc_controller \<Rightarrow> account \<Rightarrow> (mpc_controller \<times> bool) res" where
  "remove_authorized_signer env self signer_id =
     rbind (require (predecessor env = mpc_owner_id self) ''Only owner can remove signers'') (\<lambda>_.
     let initial_len = length (authorized_signers self);
         kept = filter (\<lambda>i. i \<noteq> signer_id) (authorized_signers self) in
     rbind (require (unat (threshold self) \<le> length kept)
              ''Cannot remove signer: would make threshold unachievable'') (\<lambda>_.
     Inr (self\<lparr>authorized_signers := kept\<rparr>, initial_len \<noteq> length kept)))"

definition set_threshold :: "near_env \<Rightarrow> mpc_controller \<Rightarrow> u8 \<Rightarrow> (mpc_controller \<times> bool) res" where
  "set_threshold env self t =
     rbind (require (predecessor env = mpc_owner_id self) ''Only owner can change threshold'') (\<lambda>_.
     rbind (require (0 < t \<and> unat t \<le> length (authorized_signers self)) ''Invalid threshold'') (\<lambda>_.
     Inr (self\<lparr>threshold := t\<rparr>, True)))"

definition get_authorized_signers :: "mpc_controller \<Rightarrow> account list" where
  "get_authorized_signers self = authorized_signers self"

definition get_threshold :: "mpc_controller \<Rightarrow> u8" where
  "get_threshold self = threshold self"

definition mpc_transfer_ownership :: "near_env \<Rightarrow> mpc_controller \<Rightarrow> account \<Rightarrow> mpc_controller res" where
  "mpc_transfer_ownership env self new_owner_id =
     rbind (require (predecessor env = mpc_owner_id self) ''Only owner can transfer ownership'') (\<lambda>_.
     Inr (self\<lparr>mpc_owner_id := new_owner_id\<rparr>))"

section \<open>The LayerZero send\<close>

text \<open>
  The message of a bridge transfer and the arguments of \<open>lz_send\<close>, before they are rendered as
  JSON (the rendering is \<open>serde_json\<close>'s).
\<close>

record bridge_payload =
  bp_from :: account
  bp_to :: string
  bp_amount :: u128

datatype lz_method = Lz_send u16 "u8 list" bridge_payload account "u8 list"

definition as_bytes :: "string \<Rightarrow> u8 list" where
  "as_bytes s = map of_char s"

definition lz_send ::
    "account \<Rightarrow> u16 \<Rightarrow> u8 list \<Rightarrow> bridge_payload \<Rightarrow> account \<Rightarrow> u8 list \<Rightarrow> u128
       \<Rightarrow> (lz_method, unit) promise" where
  "lz_send lz_endpoint dest dest_address payload refund_address params fee =
     \<lparr> target = lz_endpoint, call_method = Lz_send dest dest_address payload refund_address params,
       deposit = fee, gas = 5000000000000, callback = None \<rparr>"

section \<open>Dispatch\<close>

datatype mpc_call =
    Add_supported_chain supported_chain | Update_supported_chain u16 supported_chain
  | Create_transaction string u16 u16 string string u128 "string option"
  | Sign_transaction string "u8 list" | Add_authorized_signer account
  | Remove_authorized_signer account | Set_threshold u8 | Mpc_transfer_ownership account

fun exec_mpc :: "near_env \<times> mpc_call \<Rightarrow> mpc_controller \<Rightarrow> (mpc_controller \<times> bool) res" where
  "exec_mpc (env, Add_supported_chain c) self = add_supported_chain env self c"
| "exec_mpc (env, Update_supported_chain i c) self = update_supported_chain env self i c"
| "exec_mpc (env, Create_transaction i f t s r a m) self = create_transaction env self i f t s r a m"
| "exec_mpc (env, Sign_transaction i sig) self = sign_transaction env self i sig"
| "exec_mpc (env, Add_authorized_signer a) self = add_authorized_signer env self a"
| "exec_mpc (env, Remove_authorized_signer a) self = remove_authorized_signer env self a"
| "exec_mpc (env, Set_threshold t) self = set_threshold env self t"
| "exec_mpc (env, Mpc_transfer_ownership a) self =
     rbind (mpc_transfer_ownership env self a) (\<lambda>s. Inr (s, True))"

section \<open>The controller invariant\<close>

text \<open>
  \<open>A\<close> bounds the accounts that may sign, \<open>m\<close> the thresholds: signatures on a transaction are
  by distinct accounts of \<open>A\<close>, and a completed transaction has at least \<open>m\<close> of them.
\<close>

definition tx_ok :: "account set \<Rightarrow> nat \<Rightarrow> mpc_transaction \<Rightarrow> bool" where
  "tx_ok A m tx \<longleftrightarrow> distinct (map fst (signatures tx)) \<and> fst ` set (signatures tx) \<subseteq> A
     \<and> (completed tx \<longrightarrow> m \<le> length (signatures tx))"

definition mpc_inv :: "account set \<Rightarrow> nat \<Rightarrow> mpc_controller \<Rightarrow> bool" where
  "mpc_inv A m self \<longleftrightarrow> 0 < threshold self \<and> unat (threshold self) \<le> length (authorized_signers self)
     \<and> m \<le> unat (threshold self) \<and> set (authorized_signers self) \<subseteq> A
     \<and> distinct (map tx_id (pending_transactions self))
     \<and> (\<forall>tx\<in>set (pending_transactions self). tx_ok A m tx)"

fun call_within :: "account set \<Rightarrow> nat \<Rightarrow> mpc_call \<Rightarrow> bool" where
  "call_within A m (Add_authorized_signer a) = (a \<in> A)"
| "call_within A m (Set_threshold t) = (m \<le> unat t)"
| "call_within A m c = True"

lemma tx_ok_fresh: "signatures tx = [] \<Longrightarrow> \<not> completed tx \<Longrightarrow> tx_ok A m tx"
  by (simp add: tx_ok_def)

lemma sign_tx_id: "tx_id (fst (sign_tx t signer sig tx)) = tx_id tx"
  by (simp add: sign_tx_def Let_def)

lemma sign_tx_ok:
  "tx_ok A m tx \<Longrightarrow> signer \<in> A \<Longrightarrow> m \<le> unat t \<Longrightarrow> tx_ok A m (fst (sign_tx t signer sig tx))"
  by (fastforce simp: sign_tx_def tx_ok_def Let_def list_ex_iff)

lemma sign_in_ids: "map tx_id (fst (sign_in t i signer sig txs)) = map tx_id txs"
proof (induction t i signer sig txs rule: sign_in.induct)
  case (2 t i signer sig tx txs)
  then show ?case using sign_tx_id [of t signer sig tx] by (auto split: prod.splits)
qed simp

lemma sign_in_set:
  "tx' \<in> set (fst (sign_in t i signer sig txs)) \<Longrightarrow>
     tx' \<in> set txs \<or> (\<exists>tx\<in>set txs. tx_id tx = i \<and> \<not> completed tx \<and> tx' = fst (sign_tx t signer sig tx))"
  by (induction t i signer sig txs rule: sign_in.induct) (auto split: prod.splits if_splits)

lemma sign_in_completed:
  "tx \<in> set txs \<Longrightarrow> completed tx \<Longrightarrow> tx \<in> set (fst (sign_in t i signer sig txs))"
  by (induction t i signer sig txs rule: sign_in.induct) (auto split: prod.splits)

lemmas mpc_defs = add_supported_chain_def update_supported_chain_def create_transaction_def
  sign_transaction_def add_authorized_signer_def remove_authorized_signer_def set_threshold_def
  mpc_transfer_ownership_def Let_def

lemma sign_transaction_inv:
  assumes "sign_transaction env self i sig = Inr (self', b)" and "mpc_inv A m self"
  shows "mpc_inv A m self'"
proof -
  let ?r = "sign_in (threshold self) i (predecessor env) sig (pending_transactions self)"
  from assms(1) have auth: "predecessor env \<in> set (authorized_signers self)"
    and s': "self' = self\<lparr>pending_transactions := fst ?r\<rparr>"
    by (auto simp: sign_transaction_def Let_def split: prod.splits)
  have "tx_ok A m tx" if "tx \<in> set (fst ?r)" for tx
    using sign_in_set [OF that] assms(2) auth by (auto simp: mpc_inv_def intro: sign_tx_ok)
  then show ?thesis using assms(2) s' by (simp add: mpc_inv_def sign_in_ids)
qed

lemma exec_mpc_inv:
  assumes "exec_mpc (env, c) self = Inr (self', b)" and "call_within A m c" and "mpc_inv A m self"
  shows "mpc_inv A m self'"
proof (cases c)
  case (Sign_transaction i sig)
  with assms show ?thesis by (auto intro: sign_transaction_inv)
next
  case (Create_transaction i f t s r a n)
  with assms show ?thesis
    by (auto simp: create_transaction_def mpc_inv_def list_ex_iff tx_ok_fresh)
qed (use assms in \<open>auto simp: mpc_defs mpc_inv_def split: if_splits prod.splits\<close>)

lemma call_within_UNIV [simp]: "call_within UNIV 0 c"
  by (cases c) auto

fun mpc_privileged :: "near_env \<times> mpc_call \<Rightarrow> bool" where
  "mpc_privileged (env, Create_transaction i f t s r a n) = False"
| "mpc_privileged (env, Sign_transaction i sig) = False"
| "mpc_privileged (env, c) = True"

lemma mpc_privileged_panics:
  "mpc_privileged c \<Longrightarrow> predecessor (fst c) \<noteq> mpc_owner_id self \<Longrightarrow> \<exists>e. exec_mpc c self = Inl e"
  by (cases c rule: mpc_privileged.cases) (auto simp: mpc_defs)

lemma exec_mpc_frame:
  "exec_mpc c self = Inr (self', b) \<Longrightarrow> predecessor (fst c) \<noteq> mpc_owner_id self \<Longrightarrow>
     mpc_owner_id self' = mpc_owner_id self \<and> threshold self' = threshold self
     \<and> authorized_signers self' = authorized_signers self"
  by (induction c self rule: exec_mpc.induct) (auto simp: mpc_defs split: prod.splits)

interpretation mpc_owned:
  owned_contract exec_mpc "mpc_inv UNIV 0" mpc_owner_id "\<lambda>c. predecessor (fst c)" mpc_privileged
proof
  show "mpc_inv UNIV 0 s'" if "exec_mpc c s = Inr (s', out)" "mpc_inv UNIV 0 s" for c s s' out
    using exec_mpc_inv [of "fst c" "snd c" s s' out UNIV 0] that by simp
qed (auto dest: exec_mpc_frame mpc_privileged_panics)

lemma new_mpc_inv: "new_mpc signers t owner = Inr self \<Longrightarrow> set signers \<subseteq> A \<Longrightarrow> m \<le> unat t \<Longrightarrow> mpc_inv A m self"
  by (auto simp: new_mpc_def mpc_inv_def)

lemma exec_mpc_keeps_completed:
  assumes "tx \<in> set (pending_transactions self)" and "completed tx"
  shows "tx \<in> set (pending_transactions (after exec_mpc c self))"
proof (cases "exec_mpc c self")
  case (Inr r)
  obtain env d where c: "c = (env, d)" by (cases c)
  show ?thesis
  proof (cases d)
    case (Sign_transaction i sig)
    with Inr c assms sign_in_completed [OF assms, of "threshold self" i "predecessor env" sig]
    show ?thesis by (auto simp: after_def sign_transaction_def Let_def split: prod.splits)
  qed (use Inr c assms in \<open>auto simp: after_def mpc_defs split: prod.splits if_splits\<close>)
qed (use assms in \<open>simp add: after_def\<close>)

section \<open>Calls of the owner and signatures\<close>

text \<open>
  \<open>owner_calls\<close> reads off the history of calls those made by the owner of that moment: the first
  owner, until that account hands the ownership over, then the next one. It does not look at the
  state of the controller.
\<close>

fun owner_calls :: "account \<Rightarrow> (near_env \<times> mpc_call) list \<Rightarrow> mpc_call list" where
  "owner_calls owner [] = []"
| "owner_calls owner ((env, c) # cs) =
     (if predecessor env = owner
      then c # owner_calls (case c of Mpc_transfer_ownership a \<Rightarrow> a | _ \<Rightarrow> owner) cs
      else owner_calls owner cs)"

lemma exec_mpc_owner:
  "exec_mpc (env, c) self = Inr (self', b) \<Longrightarrow> predecessor env = mpc_owner_id self \<Longrightarrow>
     mpc_owner_id self' = (case c of Mpc_transfer_ownership a \<Rightarrow> a | _ \<Rightarrow> mpc_owner_id self)"
  by (cases c) (auto simp: mpc_defs split: prod.splits if_splits)

lemma after_mpc_owner:
  "mpc_owner_id (after exec_mpc (env, c) self) =
     (if predecessor env = mpc_owner_id self
      then (case c of Mpc_transfer_ownership a \<Rightarrow> a | _ \<Rightarrow> mpc_owner_id self) else mpc_owner_id self)"
proof (cases "exec_mpc (env, c) self")
  case (Inl e)
  then show ?thesis by (cases c) (auto simp: after_def mpc_transfer_ownership_def)
next
  case (Inr r)
  obtain s' b where "r = (s', b)" by (cases r)
  with Inr exec_mpc_owner [of env c self s' b] exec_mpc_frame [of "(env, c)" self s' b] show ?thesis
    by (auto simp: after_def)
qed

lemma call_within_calls:
  "\<forall>t'. Set_threshold t' \<in> X \<longrightarrow> m \<le> unat t' \<Longrightarrow> c \<in> X \<Longrightarrow>
     call_within (B \<union> {a. Add_authorized_signer a \<in> X}) m c"
  by (cases c) auto

lemma after_mpc_inv:
  assumes "mpc_inv A m self" and "predecessor env = mpc_owner_id self \<Longrightarrow> call_within A m c"
  shows "mpc_inv A m (after exec_mpc (env, c) self)"
proof (cases "exec_mpc (env, c) self")
  case (Inr r)
  obtain s' b where r: "r = (s', b)" by (cases r)
  have "call_within A m c"
  proof (cases "predecessor env = mpc_owner_id self")
    case False
    with mpc_privileged_panics [of "(env, c)" self] Inr have "\<not> mpc_privileged (env, c)" by auto
    then show ?thesis by (cases c) auto
  qed (rule assms(2))
  with exec_mpc_inv [OF Inr [unfolded r] _ assms(1)] Inr r show ?thesis by (simp add: after_def)
qed (use assms in \<open>simp add: after_def\<close>)

lemma run_mpc_inv:
  "mpc_inv A m self \<Longrightarrow> \<forall>c\<in>set (owner_calls (mpc_owner_id self) cs). call_within A m c \<Longrightarrow>
     mpc_inv A m (run_calls exec_mpc self cs)"
proof (induction cs arbitrary: self)
  case (Cons ec cs)
  obtain env c where ec: "ec = (env, c)" by (cases ec)
  have "mpc_inv A m (after exec_mpc (env, c) self)"
    by (rule after_mpc_inv) (use Cons.prems ec in auto)
  then have "mpc_inv A m (run_calls exec_mpc (after exec_mpc (env, c) self) cs)"
    by (rule Cons.IH) (use Cons.prems(2) ec in \<open>auto simp: after_mpc_owner split: if_splits\<close>)
  with ec show ?case by simp
qed simp

text \<open>\<open>S i\<close>: the accounts that called \<open>sign_transaction\<close> for the transaction \<open>i\<close>.\<close>

definition signed_by :: "(string \<Rightarrow> account set) \<Rightarrow> mpc_controller \<Rightarrow> bool" where
  "signed_by S self \<longleftrightarrow> (\<forall>tx\<in>set (pending_transactions self). fst ` set (signatures tx) \<subseteq> S (tx_id tx))"

lemma sign_tx_signers: "fst ` set (signatures (fst (sign_tx t signer sig tx))) \<subseteq> insert signer (fst ` set (signatures tx))"
  by (auto simp: sign_tx_def Let_def)

lemma exec_mpc_signed:
  assumes "exec_mpc (env, c) self = Inr (self', b)" and "signed_by S self"
    and "\<And>i sig. c = Sign_transaction i sig \<Longrightarrow> predecessor env \<in> S i"
  shows "signed_by S self'"
proof (cases c)
  case (Sign_transaction i sig)
  let ?r = "sign_in (threshold self) i (predecessor env) sig (pending_transactions self)"
  from assms(1) Sign_transaction have s': "self' = self\<lparr>pending_transactions := fst ?r\<rparr>"
    by (auto simp: sign_transaction_def Let_def split: prod.splits)
  have "fst ` set (signatures tx) \<subseteq> S (tx_id tx)" if tx: "tx \<in> set (fst ?r)" for tx
  proof (cases "tx \<in> set (pending_transactions self)")
    case False
    with sign_in_set [OF tx] obtain tx0 where "tx0 \<in> set (pending_transactions self)" "tx_id tx0 = i"
      "tx = fst (sign_tx (threshold self) (predecessor env) sig tx0)" by blast
    with assms(2) assms(3) [OF Sign_transaction] sign_tx_signers [of "threshold self" "predecessor env" sig tx0]
    show ?thesis unfolding signed_by_def by (metis (no_types, lifting) insert_subset order_trans sign_tx_id)
  qed (use assms(2) in \<open>auto simp: signed_by_def\<close>)
  with s' show ?thesis by (simp add: signed_by_def)
qed (use assms(1,2) in \<open>fastforce simp: mpc_defs signed_by_def image_subset_iff split: prod.splits if_splits\<close>)+

lemma run_mpc_signed:
  "signed_by S self \<Longrightarrow> \<forall>(env, c)\<in>set cs. \<forall>i sig. c = Sign_transaction i sig \<longrightarrow> predecessor env \<in> S i \<Longrightarrow>
     signed_by S (run_calls exec_mpc self cs)"
proof (induction cs arbitrary: self)
  case (Cons ec cs)
  obtain env c where ec: "ec = (env, c)" by (cases ec)
  have "signed_by S (after exec_mpc ec self)"
    using Cons.prems ec exec_mpc_signed [of env c self _ _ S] by (auto simp: after_def split: sum.splits)
  with Cons show ?case by simp
qed simp

section \<open>Properties\<close>

text \<open>C5. Quorum: from the creation of the controller on, whatever the calls and callers, as long
  as the owner of the moment asks for no threshold below \<open>m\<close>, every completed transaction carries
  the signatures of at least \<open>m\<close> distinct accounts. Each of them called \<open>sign_transaction\<close> for it
  itself, and each is an initial signer or one whose addition was called by the owner of the
  moment. Calls of anybody else to add signers or to lower the threshold do not count.\<close>

theorem mpc_completed_has_quorum:
  assumes "new_mpc signers t owner = Inr self" and "m \<le> unat t"
    and "\<forall>t'. Set_threshold t' \<in> set (owner_calls owner cs) \<longrightarrow> m \<le> unat t'"
    and "tx \<in> set (pending_transactions (run_calls exec_mpc self cs))" and "completed tx"
  shows "m \<le> card (fst ` set (signatures tx))
         \<and> fst ` set (signatures tx)
             \<subseteq> (set signers \<union> {a. Add_authorized_signer a \<in> set (owner_calls owner cs)})
               \<inter> {a. \<exists>env sig. (env, Sign_transaction (tx_id tx) sig) \<in> set cs \<and> predecessor env = a}"
proof -
  let ?A = "set signers \<union> {a. Add_authorized_signer a \<in> set (owner_calls owner cs)}"
  let ?S = "\<lambda>i. {a. \<exists>env sig. (env, Sign_transaction i sig) \<in> set cs \<and> predecessor env = a}"
  have o: "mpc_owner_id self = owner" and s: "signed_by ?S self"
    using assms(1) by (auto simp: new_mpc_def signed_by_def)
  have "\<forall>c\<in>set (owner_calls owner cs). call_within ?A m c"
    using call_within_calls [OF assms(3)] by blast
  then have "mpc_inv ?A m (run_calls exec_mpc self cs)"
    by (intro run_mpc_inv new_mpc_inv [OF assms(1) _ assms(2)]) (auto simp: o)
  with assms(4,5) have "tx_ok ?A m tx" by (simp add: mpc_inv_def)
  moreover have "fst ` set (signatures tx) \<subseteq> ?S (tx_id tx)"
    using run_mpc_signed [OF s, of cs] assms(4) by (force simp: signed_by_def)
  ultimately show ?thesis using assms(5) distinct_card [of "map fst (signatures tx)"]
    by (simp add: tx_ok_def)
qed

definition demo_chain :: "u16 \<Rightarrow> supported_chain" where
  "demo_chain i = \<lparr>sc_chain_id = i, sc_chain_name = ''c'', sc_bridge_address = ''b'', sc_enabled = True\<rparr>"

text \<open>Two signers out of three: the owner opens two chains, a transfer is created and signed twice.\<close>

definition demo_calls :: "(near_env \<times> mpc_call) list" where
  "demo_calls =
     [(env_at ''owner'' ''mpc'' 1 False, Add_supported_chain (demo_chain 1)),
      (env_at ''owner'' ''mpc'' 2 False, Add_supported_chain (demo_chain 2)),
      (env_at ''eve'' ''mpc'' 3 False, Create_transaction ''t1'' 1 2 ''x'' ''y'' 70 None),
      (env_at ''eve'' ''mpc'' 3 False, Add_authorized_signer ''eve''),
      (env_at ''eve'' ''mpc'' 3 False, Set_threshold 1),
      (env_at ''a'' ''mpc'' 4 False, Sign_transaction ''t1'' [1]),
      (env_at ''a'' ''mpc'' 5 False, Sign_transaction ''t1'' [1]),
      (env_at ''b'' ''mpc'' 6 False, Sign_transaction ''t1'' [2])]"

definition demo_mpc :: mpc_controller where
  "demo_mpc = \<lparr> authorized_signers = [''a'', ''b'', ''c''], threshold = 2, pending_transactions = [],
                supported_chains = [], mpc_owner_id = ''owner'' \<rparr>"

definition demo_tx :: mpc_transaction where
  "demo_tx = \<lparr> tx_id = ''t1'', from_chain = 1, to_chain = 2, sender = ''x'', receiver = ''y'',
               tx_amount = 70, signatures = [(''a'', [1]), (''b'', [2])], completed = True,
               timestamp = 3, memo = None \<rparr>"

lemma demo_mpc_new: "new_mpc [''a'', ''b'', ''c''] 2 ''owner'' = Inr demo_mpc"
  by (simp add: new_mpc_def demo_mpc_def)

lemma demo_run: "pending_transactions (run_calls exec_mpc demo_mpc demo_calls) = [demo_tx]"
  by (simp add: demo_calls_def demo_mpc_def demo_tx_def demo_chain_def after_def mpc_defs env_at_def
      is_chain_supported_def sign_tx_def)

theorem mpc_completed_has_quorum_witness:
  "2 \<le> card (fst ` set (signatures demo_tx))
   \<and> fst ` set (signatures demo_tx)
       \<subseteq> (set [''a'', ''b'', ''c''] \<union> {a. Add_authorized_signer a \<in> set (owner_calls ''owner'' demo_calls)})
         \<inter> {a. \<exists>env sig. (env, Sign_transaction (tx_id demo_tx) sig) \<in> set demo_calls \<and> predecessor env = a}"
proof (rule mpc_completed_has_quorum [OF demo_mpc_new])
  show "\<forall>t'. Set_threshold t' \<in> set (owner_calls ''owner'' demo_calls) \<longrightarrow> 2 \<le> unat t'"
    by (simp add: demo_calls_def env_at_def)
  show "demo_tx \<in> set (pending_transactions (run_calls exec_mpc demo_mpc demo_calls))"
    by (simp add: demo_run)
qed (simp_all add: demo_tx_def)

text \<open>C23. A completed transaction is final: no later call of anybody, the owner included,
  changes it, removes it or adds a signature to it.\<close>

theorem mpc_completed_is_final:
  assumes "tx \<in> set (pending_transactions self)" and "completed tx"
  shows "tx \<in> set (pending_transactions (run_calls exec_mpc self cs))"
  using assms by (induction cs arbitrary: self) (auto intro: exec_mpc_keeps_completed)

theorem mpc_completed_is_final_witness:
  "demo_tx \<in> set (pending_transactions (run_calls exec_mpc (run_calls exec_mpc demo_mpc demo_calls)
     [(env_at ''owner'' ''mpc'' 9 False, Set_threshold 3), (env_at ''c'' ''mpc'' 9 False, Sign_transaction ''t1'' [3])]))"
  by (rule mpc_completed_is_final) (simp_all add: demo_run, simp add: demo_tx_def)

text \<open>The constructor counts signers with their repetitions: a controller whose signer list
  has fewer distinct accounts than its threshold is accepted, and until its owner intervenes no
  transaction of it can ever complete.\<close>

lemma mpc_duplicate_signers_block:
  assumes "new_mpc signers t owner = Inr self" and "card (set signers) < unat t"
    and "\<forall>c\<in>set cs. predecessor (fst c) \<noteq> owner"
  shows "\<forall>tx\<in>set (pending_transactions (run_calls exec_mpc self cs)). \<not> completed tx"
proof -
  let ?P = "\<lambda>s. mpc_inv (set signers) (unat t) s \<and> mpc_owner_id s = owner \<and> threshold s = t
     \<and> authorized_signers s = signers"
  have step: "?P (after exec_mpc c s)" if "?P s" and "predecessor (fst c) \<noteq> owner" for c s
  proof (cases "exec_mpc c s")
    case (Inr r)
    obtain s' b where r: "r = (s', b)" by (cases r)
    have "\<not> mpc_privileged c" using mpc_privileged_panics [of c s] that Inr by auto
    then have "call_within (set signers) (unat t) (snd c)"
      by (cases c rule: mpc_privileged.cases) auto
    then have "mpc_inv (set signers) (unat t) s'"
      using exec_mpc_inv [of "fst c" "snd c" s s' b] Inr r that by simp
    with exec_mpc_frame [of c s s' b] Inr r that show ?thesis by (simp add: after_def)
  qed (use that in \<open>simp add: after_def\<close>)
  have "?P (run_calls exec_mpc self cs)" if "?P self" for self
    using that assms(3) by (induction cs arbitrary: self) (auto simp: step)
  moreover have "?P self" using assms(1) new_mpc_inv [OF assms(1), of "set signers" "unat t"]
    by (auto simp: new_mpc_def)
  ultimately have inv: "mpc_inv (set signers) (unat t) (run_calls exec_mpc self cs)" by blast
  show ?thesis
  proof
    fix tx assume "tx \<in> set (pending_transactions (run_calls exec_mpc self cs))"
    with inv have ok: "tx_ok (set signers) (unat t) tx" by (simp add: mpc_inv_def)
    then have "length (signatures tx) \<le> card (set signers)"
      by (metis List.finite_set card_mono distinct_card length_map list.set_map tx_ok_def)
    with ok assms(2) show "\<not> completed tx" by (auto simp: tx_ok_def)
  qed
qed

end
