(* ===== verification/DiamondToken.thy ===== *)
theory DiamondToken
  imports SupplyTracker ModuleManager BridgeMpc
begin

text \<open>
  The token contract of \<^verbatim>\<open>blockchain/src/diamond_token/src/lib.rs\<close>: its own operations and the
  bridge adapter, over the supply tracker and the module manager. The fungible-token core it
  embeds (\<open>near_contract_standards\<close>) is not part of the repository: it is the parameter \<open>api\<close>,
  and \<open>ft_laws\<close> states what the code relies on. Amounts enter and leave the core as \<open>u128\<close>. The calls
  that the macros of that library export from the contract (\<open>core_call\<close>) are answered by the core too.
\<close>

section \<open>The fungible-token core, a parameter\<close>

text \<open>
  The calls of \<open>impl_fungible_token_core!\<close> and \<open>impl_fungible_token_storage!\<close> that change the core. The
  promises of \<open>ft_transfer_call\<close> are kept by the library; what they lead to is the later call
  \<open>ft_resolve_transfer\<close>.
\<close>

datatype core_call =
    Core_transfer account u128 "string option" | Core_transfer_call account u128 "string option" string
  | Core_resolve_transfer account account u128 | Storage_deposit "account option" "bool option"
  | Storage_withdraw "u128 option" | Storage_unregister "bool option"

record 't ft_api =
  ft_new :: 't
  ft_spec :: string
  ft_register :: "account \<Rightarrow> 't \<Rightarrow> 't res"
  ft_deposit :: "account \<Rightarrow> u128 \<Rightarrow> 't \<Rightarrow> 't res"
  ft_withdraw :: "account \<Rightarrow> u128 \<Rightarrow> 't \<Rightarrow> 't res"
  ft_internal_transfer :: "account \<Rightarrow> account \<Rightarrow> u128 \<Rightarrow> string option \<Rightarrow> 't \<Rightarrow> 't res"
  ft_is_registered :: "'t \<Rightarrow> account \<Rightarrow> bool"
  ft_supply :: "'t \<Rightarrow> u128"
  ft_balance :: "'t \<Rightarrow> account \<Rightarrow> u128"
  ft_core :: "near_env \<Rightarrow> core_call \<Rightarrow> 't \<Rightarrow> 't res"

text \<open>
  Registering and transferring keep the supply; a deposit adds its amount to the supply and to
  one balance; a withdrawal takes it from both; a new token has no supply. The exported calls move
  tokens or burn them (a forced unregistration, a refund to a deleted account), but create none.
\<close>

definition core_creates_none :: "'t ft_api \<Rightarrow> bool" where
  "core_creates_none api \<longleftrightarrow> (\<forall>env c t t'. ft_core api env c t = Inr t' \<longrightarrow> ft_supply api t' \<le> ft_supply api t)"

definition ft_laws :: "'t ft_api \<Rightarrow> bool" where
  "ft_laws api \<longleftrightarrow> unat (ft_supply api (ft_new api)) = 0
     \<and> (\<forall>a t t'. ft_register api a t = Inr t' \<longrightarrow> ft_supply api t' = ft_supply api t
          \<and> (\<forall>b. ft_balance api t' b = ft_balance api t b))
     \<and> (\<forall>a v t t'. ft_deposit api a v t = Inr t' \<longrightarrow>
          unat (ft_supply api t') = unat (ft_supply api t) + unat v
          \<and> (\<forall>b. unat (ft_balance api t' b) = unat (ft_balance api t b) + (if b = a then unat v else 0)))
     \<and> (\<forall>a v t t'. ft_withdraw api a v t = Inr t' \<longrightarrow>
          unat (ft_supply api t) = unat (ft_supply api t') + unat v
          \<and> (\<forall>b. unat (ft_balance api t b) = unat (ft_balance api t' b) + (if b = a then unat v else 0)))
     \<and> (\<forall>a b v m t t'. ft_internal_transfer api a b v m t = Inr t' \<longrightarrow> ft_supply api t' = ft_supply api t)
     \<and> core_creates_none api"

section \<open>State\<close>

record ft_metadata =
  md_spec :: string
  md_name :: string
  md_symbol :: string
  md_icon :: "string option"
  md_reference :: "string option"
  md_reference_hash :: "string option"
  md_decimals :: u8

record 't diamond_token =
  token :: 't
  metadata :: ft_metadata
  owner_id :: account
  max_supply :: u128
  chain_configs :: "u16 \<rightharpoonup> chain_config"
  lz_endpoint :: account
  supply_tracker :: supply_tracker
  near_chain_id :: u16
  module_manager :: module_manager
  last_update :: u64

definition MAX_SUPPLY :: u128 where
  "MAX_SUPPLY = 1000000000000000000000000000"

definition INITIAL_SUPPLY :: u128 where
  "INITIAL_SUPPLY = 250000000000000000000000000"

section \<open>Token operations\<close>

definition new_token :: "'t ft_api \<Rightarrow> near_env \<Rightarrow> account \<Rightarrow> account \<Rightarrow> u16 \<Rightarrow> 't diamond_token res" where
  "new_token api env owner endpoint near_id =
     (let meta = \<lparr> md_spec = ft_spec api, md_name = ''Diamond Token'', md_symbol = ''DMD'', md_icon = None,
                   md_reference = None, md_reference_hash = None, md_decimals = 18 \<rparr>;
          tracker = new_tracker near_id MAX_SUPPLY owner;
          manager = new_manager owner None in
      rbind (ft_register api owner (ft_new api)) (\<lambda>t.
      rbind (ft_deposit api owner INITIAL_SUPPLY t) (\<lambda>t.
      let tracker = fst (update_chain_supply env tracker near_id ''NEAR Protocol'' INITIAL_SUPPLY) in
      Inr \<lparr> token = t, metadata = meta, owner_id = owner, max_supply = MAX_SUPPLY,
            chain_configs = Map.empty, lz_endpoint = endpoint, supply_tracker = tracker,
            near_chain_id = near_id, module_manager = manager, last_update = unix_secs env \<rparr>)))"

definition ft_transfer ::
    "'t ft_api \<Rightarrow> near_env \<Rightarrow> 't diamond_token \<Rightarrow> account \<Rightarrow> u128 \<Rightarrow> string option \<Rightarrow> 't diamond_token res" where
  "ft_transfer api env self receiver_id amount note =
     rbind (ft_internal_transfer api (predecessor env) receiver_id amount note (token self)) (\<lambda>t.
     Inr (self\<lparr>token := t, last_update := unix_secs env\<rparr>))"

definition assert_owner :: "near_env \<Rightarrow> 't diamond_token \<Rightarrow> unit res" where
  "assert_owner env self = require (predecessor env = owner_id self) ''Only owner can call this method''"

text \<open>
  The step shared by minting, burning and the bridge: when the NEAR chain has an entry in the
  tracker, overwrite it with the adjusted amount; the tracker's answer is not looked at.
\<close>

definition adjust_near ::
    "near_env \<Rightarrow> 't diamond_token \<Rightarrow> (u128 \<Rightarrow> u128 res) \<Rightarrow> 't diamond_token res" where
  "adjust_near env self f =
     (case get_chain_supply (supply_tracker self) (near_chain_id self) of
        None \<Rightarrow> Inr self
      | Some cs \<Rightarrow> rbind (f (cs_supply cs)) (\<lambda>new_supply.
          Inr (self\<lparr>supply_tracker := fst (update_chain_supply env (supply_tracker self)
                 (near_chain_id self) (cs_chain_name cs) new_supply)\<rparr>)))"

text \<open>The two caps that minting and bridging in check before they deposit.\<close>

definition check_caps ::
    "'t ft_api \<Rightarrow> 't diamond_token \<Rightarrow> u128 \<Rightarrow> string \<Rightarrow> string \<Rightarrow> unit res" where
  "check_caps api self amount local_msg global_msg =
     rbind (add_ov (ft_supply api (token self)) amount) (\<lambda>s.
     rbind (require (s \<le> max_supply self) local_msg) (\<lambda>_.
     rbind (get_total_circulating_supply (supply_tracker self)) (\<lambda>total_circulating.
     rbind (add_ov total_circulating amount) (\<lambda>g.
     require (g \<le> max_supply self) global_msg))))"

definition mint :: "'t ft_api \<Rightarrow> near_env \<Rightarrow> 't diamond_token \<Rightarrow> account \<Rightarrow> u128 \<Rightarrow> 't diamond_token res" where
  "mint api env self account_id amount =
     rbind (assert_owner env self) (\<lambda>_.
     rbind (check_caps api self amount ''Cannot mint more than max supply''
              ''Cannot mint more than global max supply'') (\<lambda>_.
     rbind (ft_deposit api account_id amount (token self)) (\<lambda>t.
     rbind (adjust_near env (self\<lparr>token := t\<rparr>) (\<lambda>s. add_ov s amount)) (\<lambda>self.
     Inr (self\<lparr>last_update := unix_secs env\<rparr>)))))"

definition burn :: "'t ft_api \<Rightarrow> near_env \<Rightarrow> 't diamond_token \<Rightarrow> u128 \<Rightarrow> 't diamond_token res" where
  "burn api env self amount =
     rbind (ft_withdraw api (predecessor env) amount (token self)) (\<lambda>t.
     rbind (adjust_near env (self\<lparr>token := t\<rparr>) (\<lambda>s. sub_ov s amount)) (\<lambda>self.
     Inr (self\<lparr>last_update := unix_secs env\<rparr>)))"

definition get_max_supply :: "'t diamond_token \<Rightarrow> u128" where
  "get_max_supply self = max_supply self"

definition get_owner :: "'t diamond_token \<Rightarrow> account" where
  "get_owner self = owner_id self"

definition set_lz_endpoint :: "near_env \<Rightarrow> 't diamond_token \<Rightarrow> account \<Rightarrow> 't diamond_token res" where
  "set_lz_endpoint env self endpoint =
     rbind (assert_owner env self) (\<lambda>_.
     Inr (self\<lparr>lz_endpoint := endpoint, last_update := unix_secs env\<rparr>))"

definition get_global_circulating_supply :: "'t diamond_token \<Rightarrow> u128 res" where
  "get_global_circulating_supply self = get_total_circulating_supply (supply_tracker self)"

definition get_near_circulating_supply :: "'t diamond_token \<Rightarrow> u128" where
  "get_near_circulating_supply self =
     (case get_chain_supply (supply_tracker self) (near_chain_id self) of
        Some cs \<Rightarrow> cs_supply cs | None \<Rightarrow> 0)"

definition add_module_admin ::
    "near_env \<Rightarrow> 't diamond_token \<Rightarrow> account \<Rightarrow> ('t diamond_token \<times> bool) res" where
  "add_module_admin env self admin_id =
     rbind (assert_owner env self) (\<lambda>_.
     rbind (add_admin env (module_manager self) admin_id) (\<lambda>(mm, result).
     Inr (self\<lparr>module_manager := mm, last_update := unix_secs env\<rparr>, result)))"

definition token_add_module ::
    "near_env \<Rightarrow> 't diamond_token \<Rightarrow> module_info \<Rightarrow> ('t diamond_token \<times> bool) res" where
  "token_add_module env self m =
     rbind (assert_owner env self) (\<lambda>_.
     rbind (add_module env (module_manager self) m) (\<lambda>(mm, result).
     Inr (self\<lparr>module_manager := mm, last_update := unix_secs env\<rparr>, result)))"

definition token_active_modules :: "'t diamond_token \<Rightarrow> module_info list res" where
  "token_active_modules self = get_active_modules (module_manager self)"

definition transfer_ownership :: "near_env \<Rightarrow> 't diamond_token \<Rightarrow> account \<Rightarrow> 't diamond_token res" where
  "transfer_ownership env self new_owner_id =
     rbind (assert_owner env self) (\<lambda>_.
     rbind (st_transfer_ownership env (supply_tracker self) new_owner_id) (\<lambda>st.
     rbind (mm_transfer_ownership env (module_manager self) new_owner_id) (\<lambda>mm.
     Inr (self\<lparr>supply_tracker := st, module_manager := mm, owner_id := new_owner_id,
               last_update := unix_secs env\<rparr>))))"

definition token_call_module ::
    "near_env \<Rightarrow> 't diamond_token \<Rightarrow> string \<Rightarrow> string \<Rightarrow> string \<Rightarrow> (module_method, unit) promise res" where
  "token_call_module env self module_name function_name args =
     rbind (assert_owner env self) (\<lambda>_.
     rbind (sub_ov (prepaid_gas env) (used_gas env)) (\<lambda>g.
     rbind (sub_ov g 30000000000000) (\<lambda>g.
     call_module_function env (module_manager self) module_name function_name args
       (attached_deposit env) g)))"

section \<open>The bridge adapter\<close>

definition estimate_bridge_fee :: "'t diamond_token \<Rightarrow> u16 \<Rightarrow> u128 \<Rightarrow> u128 res" where
  "estimate_bridge_fee self dest amount =
     (case chain_configs self dest of
        None \<Rightarrow> Inr 0
      | Some config \<Rightarrow>
          rbind (mul_ov amount (ucast (cc_fee_basis_points config))) (\<lambda>p.
          rbind (div_ov p 10000) (\<lambda>fee.
          Inr (if fee < cc_min_fee config then cc_min_fee config
               else if cc_max_fee config < fee then cc_max_fee config
               else fee))))"

definition bridge_out ::
    "'t ft_api \<Rightarrow> near_env \<Rightarrow> 't diamond_token \<Rightarrow> string \<Rightarrow> u128 \<Rightarrow> layer_zero_params
       \<Rightarrow> ('t diamond_token \<times> (lz_method, unit) promise) res" where
  "bridge_out api env self to_addr amount lz =
     (let sender_id = predecessor env in
      rbind (expect (chain_configs self (dest_chain_id lz)) ''Chain not supported'') (\<lambda>config.
      rbind (require (cc_enabled config) ''Bridge to this chain is disabled'') (\<lambda>_.
      rbind (estimate_bridge_fee self (dest_chain_id lz) amount) (\<lambda>fee_amount.
      rbind (require (fee_amount \<le> fees lz)
               (''Insufficient bridge fee. Required: '' @ show_nat (unat fee_amount))) (\<lambda>_.
      rbind (ft_withdraw api sender_id amount (token self)) (\<lambda>t.
      rbind (adjust_near env (self\<lparr>token := t\<rparr>) (\<lambda>s. sub_ov s amount)) (\<lambda>self.
      Inr (self, lz_send (lz_endpoint self) (dest_chain_id lz)
                   (as_bytes (cc_remote_bridge_address config))
                   \<lparr> bp_from = sender_id, bp_to = to_addr, bp_amount = amount \<rparr>
                   sender_id (adapter_params lz) (fees lz)))))))))"

definition bridge_in ::
    "'t ft_api \<Rightarrow> near_env \<Rightarrow> 't diamond_token \<Rightarrow> u16 \<Rightarrow> string \<Rightarrow> account \<Rightarrow> u128
       \<Rightarrow> ('t diamond_token \<times> bool) res" where
  "bridge_in api env self from_chain_id sndr receiver_id amount =
     rbind (require (predecessor env = lz_endpoint self) ''Only LZ endpoint can call this method'') (\<lambda>_.
     rbind (expect (chain_configs self from_chain_id) ''Chain not supported'') (\<lambda>config.
     rbind (require (cc_enabled config) ''Bridge from this chain is disabled'') (\<lambda>_.
     rbind (check_caps api self amount ''Bridge would exceed max supply''
              ''Bridge would exceed global max supply'') (\<lambda>_.
     rbind (if \<not> ft_is_registered api (token self) receiver_id
            then ft_register api receiver_id (token self) else Inr (token self)) (\<lambda>t.
     rbind (ft_deposit api receiver_id amount t) (\<lambda>t.
     rbind (adjust_near env (self\<lparr>token := t\<rparr>) (\<lambda>s. add_ov s amount)) (\<lambda>self.
     Inr (self, True))))))))"

definition set_chain_config ::
    "near_env \<Rightarrow> 't diamond_token \<Rightarrow> u16 \<Rightarrow> chain_config \<Rightarrow> 't diamond_token res" where
  "set_chain_config env self chain_id config =
     rbind (assert_owner env self) (\<lambda>_.
     let self = self\<lparr>chain_configs := (chain_configs self)(chain_id \<mapsto> config)\<rparr> in
     Inr (if get_chain_supply (supply_tracker self) chain_id = None
          then self\<lparr>supply_tracker := fst (update_chain_supply env (supply_tracker self)
                  chain_id (cc_chain_name config) 0)\<rparr>
          else self))"

definition get_chain_config :: "'t diamond_token \<Rightarrow> u16 \<Rightarrow> chain_config option" where
  "get_chain_config self chain_id = chain_configs self chain_id"

definition token_total_circulating :: "'t diamond_token \<Rightarrow> u128 res" where
  "token_total_circulating self = get_total_circulating_supply (supply_tracker self)"

definition get_chain_supplies :: "'t diamond_token \<Rightarrow> (u16 \<times> string \<times> u128) list" where
  "get_chain_supplies self =
     map (\<lambda>s. (cs_chain_id s, cs_chain_name s, cs_supply s)) (get_all_chain_supplies (supply_tracker self))"

definition update_remote_chain_supply ::
    "near_env \<Rightarrow> 't diamond_token \<Rightarrow> u16 \<Rightarrow> u128 \<Rightarrow> 't diamond_token \<times> bool" where
  "update_remote_chain_supply env self chain_id supply =
     (let caller = predecessor env;
          is_authorized = owner_id self = caller
            \<or> (case chain_configs self chain_id of
                 None \<Rightarrow> False
               | Some config \<Rightarrow> (case cc_supply_oracle config of None \<Rightarrow> False | Some orc \<Rightarrow> orc = caller)) in
      if \<not> is_authorized then (self, False)
      else case chain_configs self chain_id of
             Some config \<Rightarrow>
               (self\<lparr>supply_tracker := fst (update_chain_supply env (supply_tracker self)
                       chain_id (cc_chain_name config) supply)\<rparr>, True)
           | None \<Rightarrow> (self, False))"

definition set_supply_oracle ::
    "near_env \<Rightarrow> 't diamond_token \<Rightarrow> u16 \<Rightarrow> account \<Rightarrow> ('t diamond_token \<times> bool) res" where
  "set_supply_oracle env self chain_id orc =
     rbind (assert_owner env self) (\<lambda>_.
     Inr (case chain_configs self chain_id of
            Some config \<Rightarrow>
              (self\<lparr>chain_configs := (chain_configs self)(chain_id \<mapsto> config\<lparr>cc_supply_oracle := Some orc\<rparr>)\<rparr>, True)
          | None \<Rightarrow> (self, False)))"

definition ft_metadata_of :: "'t diamond_token \<Rightarrow> ft_metadata" where
  "ft_metadata_of self = metadata self"

section \<open>Dispatch\<close>

datatype token_call =
    Ft_transfer account u128 "string option" | Mint account u128 | Burn u128 | Set_lz_endpoint account
  | Add_module_admin account | Token_add_module module_info | Transfer_ownership account
  | Bridge_out string u128 layer_zero_params | Bridge_in u16 string account u128
  | Set_chain_config u16 chain_config | Update_remote_chain_supply u16 u128 | Set_supply_oracle u16 account
  | Core_call core_call

fun exec_token :: "'t ft_api \<Rightarrow> near_env \<times> token_call \<Rightarrow> 't diamond_token
    \<Rightarrow> ('t diamond_token \<times> (lz_method, unit) promise list) res" where
  "exec_token api (env, Ft_transfer r a m) self =
     rbind (not_payable env) (\<lambda>_. rbind (ft_transfer api env self r a m) (\<lambda>s. Inr (s, [])))"
| "exec_token api (env, Mint a v) self = rbind (mint api env self a v) (\<lambda>s. Inr (s, []))"
| "exec_token api (env, Burn v) self = rbind (burn api env self v) (\<lambda>s. Inr (s, []))"
| "exec_token api (env, Set_lz_endpoint e) self = rbind (set_lz_endpoint env self e) (\<lambda>s. Inr (s, []))"
| "exec_token api (env, Add_module_admin a) self = rbind (add_module_admin env self a) (\<lambda>(s, _). Inr (s, []))"
| "exec_token api (env, Token_add_module m) self = rbind (token_add_module env self m) (\<lambda>(s, _). Inr (s, []))"
| "exec_token api (env, Transfer_ownership a) self = rbind (transfer_ownership env self a) (\<lambda>s. Inr (s, []))"
| "exec_token api (env, Bridge_out r v lz) self = rbind (bridge_out api env self r v lz) (\<lambda>(s, p). Inr (s, [p]))"
| "exec_token api (env, Bridge_in c sn r v) self = rbind (bridge_in api env self c sn r v) (\<lambda>(s, _). Inr (s, []))"
| "exec_token api (env, Set_chain_config i c) self = rbind (set_chain_config env self i c) (\<lambda>s. Inr (s, []))"
| "exec_token api (env, Update_remote_chain_supply i v) self =
     Inr (fst (update_remote_chain_supply env self i v), [])"
| "exec_token api (env, Set_supply_oracle i a) self = rbind (set_supply_oracle env self i a) (\<lambda>(s, _). Inr (s, []))"
| "exec_token api (env, Core_call c) self =
     rbind (ft_core api env c (token self)) (\<lambda>t. Inr (self\<lparr>token := t\<rparr>, []))"

section \<open>The token invariant\<close>

text \<open>
  The supply respects the cap, the three owner fields agree, and the two embedded components are
  well-formed. The laws of the core are part of it, so that the invariant speaks of one \<open>api\<close>.
\<close>

definition token_inv :: "'t ft_api \<Rightarrow> 't diamond_token \<Rightarrow> bool" where
  "token_inv api self \<longleftrightarrow> ft_laws api
     \<and> unat (ft_supply api (token self)) \<le> unat MAX_SUPPLY
     \<and> max_supply self = MAX_SUPPLY
     \<and> st_owner_id (supply_tracker self) = owner_id self
     \<and> mm_owner_id (module_manager self) = owner_id self
     \<and> tracker_ok (supply_tracker self) \<and> registry_ok (module_manager self)"

lemma ft_lawsD:
  assumes "ft_laws api"
  shows "ft_register api a t = Inr t' \<Longrightarrow> ft_supply api t' = ft_supply api t"
    and "ft_register api a t = Inr t' \<Longrightarrow> ft_balance api t' b = ft_balance api t b"
    and "ft_deposit api a v t = Inr t' \<Longrightarrow> unat (ft_supply api t') = unat (ft_supply api t) + unat v"
    and "ft_deposit api a v t = Inr t' \<Longrightarrow>
       unat (ft_balance api t' b) = unat (ft_balance api t b) + (if b = a then unat v else 0)"
    and "ft_withdraw api a v t = Inr t' \<Longrightarrow> unat (ft_supply api t) = unat (ft_supply api t') + unat v"
    and "ft_withdraw api a v t = Inr t' \<Longrightarrow>
       unat (ft_balance api t b) = unat (ft_balance api t' b) + (if b = a then unat v else 0)"
    and "ft_internal_transfer api a c v m t = Inr t' \<Longrightarrow> ft_supply api t' = ft_supply api t"
    and "unat (ft_supply api (ft_new api)) = 0"
  using assms unfolding ft_laws_def by blast+

lemma ft_core_burns: "ft_laws api \<Longrightarrow> ft_core api env k t = Inr t' \<Longrightarrow> ft_supply api t' \<le> ft_supply api t"
  unfolding ft_laws_def core_creates_none_def by blast

lemma adjust_near_frame:
  "adjust_near env self f = Inr self' \<Longrightarrow>
     \<exists>st. self' = self\<lparr>supply_tracker := st\<rparr> \<and> st_owner_id st = st_owner_id (supply_tracker self)
       \<and> (tracker_ok (supply_tracker self) \<longrightarrow> tracker_ok st)"
  by (force simp: adjust_near_def split: option.splits)

lemma adjust_near_other:
  "adjust_near env self f = Inr self' \<Longrightarrow> predecessor env \<noteq> st_owner_id (supply_tracker self) \<Longrightarrow> self' = self"
  by (auto simp: adjust_near_def update_chain_supply_def split: option.splits)

lemma adjust_near_tracked:
  "adjust_near env self f = Inr self' \<Longrightarrow> predecessor env = st_owner_id (supply_tracker self) \<Longrightarrow>
     tracked (supply_tracker self) (near_chain_id self) = Some w \<Longrightarrow>
     \<exists>v n. f w = Inr v \<and> supply_tracker self' = put_supply env (supply_tracker self) (near_chain_id self) n v"
  by (auto simp: adjust_near_def update_chain_supply_def tracked_def split: option.splits)

lemma check_caps_Inr:
  "check_caps api self v m1 m2 = Inr u \<longleftrightarrow>
     unat (ft_supply api (token self)) + unat v \<le> unat (max_supply self)
     \<and> tracked_sum (supply_tracker self) + unat v \<le> unat (max_supply self)"
    (is "?L \<longleftrightarrow> ?R")
proof
  assume ?L
  then show ?R by (auto simp: check_caps_def ovf total_supply_Inr word_le_nat_alt)
next
  assume r: ?R
  have m: "unat (max_supply self) < 2 ^ LENGTH(128)" by (rule unat_less)
  let ?t = "word_of_nat (tracked_sum (supply_tracker self)) :: u128"
  have t: "unat ?t = tracked_sum (supply_tracker self)"
    using r m by (simp add: unat_of_nat)
  have s1: "add_ov (ft_supply api (token self)) v = Inr (ft_supply api (token self) + v)"
    and s2: "add_ov ?t v = Inr (?t + v)"
    using r m t by (simp_all add: add_ov_def)
  have tot: "get_total_circulating_supply (supply_tracker self) = Inr ?t"
    using t by (simp add: total_supply_Inr)
  show ?L using s1 [unfolded add_ov_Inr] s2 [unfolded add_ov_Inr] r t
    by (simp add: check_caps_def tot s1 s2 word_le_nat_alt)
qed

lemma mint_Inr:
  assumes "mint api env self a v = Inr self'"
  shows "\<exists>t self1. predecessor env = owner_id self
     \<and> unat (ft_supply api (token self)) + unat v \<le> unat (max_supply self)
     \<and> tracked_sum (supply_tracker self) + unat v \<le> unat (max_supply self)
     \<and> ft_deposit api a v (token self) = Inr t
     \<and> adjust_near env (self\<lparr>token := t\<rparr>) (\<lambda>s. add_ov s v) = Inr self1
     \<and> self' = self1\<lparr>last_update := unix_secs env\<rparr>"
  using assms by (auto simp: mint_def assert_owner_def check_caps_Inr)

lemma bridge_in_Inr:
  assumes "bridge_in api env self c sn r v = Inr (self', b)"
  shows "\<exists>t0 t. predecessor env = lz_endpoint self \<and> b
     \<and> unat (ft_supply api (token self)) + unat v \<le> unat (max_supply self)
     \<and> tracked_sum (supply_tracker self) + unat v \<le> unat (max_supply self)
     \<and> (t0 = token self \<or> ft_register api r (token self) = Inr t0)
     \<and> ft_deposit api r v t0 = Inr t
     \<and> adjust_near env (self\<lparr>token := t\<rparr>) (\<lambda>s. add_ov s v) = Inr self'"
  using assms by (auto simp: bridge_in_def check_caps_Inr split: if_splits)

lemma bridge_out_Inr:
  assumes "bridge_out api env self r v lz = Inr (self', p)"
  shows "\<exists>t fee config. chain_configs self (dest_chain_id lz) = Some config \<and> cc_enabled config
     \<and> estimate_bridge_fee self (dest_chain_id lz) v = Inr fee \<and> fee \<le> fees lz
     \<and> ft_withdraw api (predecessor env) v (token self) = Inr t
     \<and> adjust_near env (self\<lparr>token := t\<rparr>) (\<lambda>s. sub_ov s v) = Inr self'
     \<and> target p = lz_endpoint self' \<and> deposit p = fees lz
     \<and> call_method p = Lz_send (dest_chain_id lz) (as_bytes (cc_remote_bridge_address config))
          \<lparr>bp_from = predecessor env, bp_to = r, bp_amount = v\<rparr> (predecessor env) (adapter_params lz)"
  using assms by (auto simp: bridge_out_def Let_def lz_send_def)

text \<open>Depositing within the cap, or withdrawing, and then adjusting the tracker keeps the invariant.\<close>

lemma token_inv_adjust:
  assumes "token_inv api self" and "adjust_near env (self\<lparr>token := t\<rparr>) f = Inr self'"
    and "unat (ft_supply api t) \<le> unat (max_supply self)"
  shows "token_inv api self'" and "owner_id self' = owner_id self" and "token self' = t"
  using assms(1,3) adjust_near_frame [OF assms(2)] by (auto simp: token_inv_def)

lemma token_inv_mint:
  "mint api env self a v = Inr self' \<Longrightarrow> token_inv api self \<Longrightarrow> token_inv api self' \<and> owner_id self' = owner_id self"
proof -
  assume m: "mint api env self a v = Inr self'" and inv: "token_inv api self"
  from mint_Inr [OF m] obtain t self1 where cap: "unat (ft_supply api (token self)) + unat v \<le> unat (max_supply self)"
    and t: "ft_deposit api a v (token self) = Inr t"
    and adj: "adjust_near env (self\<lparr>token := t\<rparr>) (\<lambda>s. add_ov s v) = Inr self1"
    and s': "self' = self1\<lparr>last_update := unix_secs env\<rparr>" by blast
  from inv cap ft_lawsD(3) [OF _ t] have "unat (ft_supply api t) \<le> unat (max_supply self)"
    by (simp add: token_inv_def)
  from token_inv_adjust [OF inv adj this] s' show ?thesis by (auto simp: token_inv_def)
qed

lemma token_inv_withdraw:
  assumes "token_inv api self" and "ft_withdraw api a v (token self) = Inr t"
    and "adjust_near env (self\<lparr>token := t\<rparr>) f = Inr self'"
  shows "token_inv api self' \<and> owner_id self' = owner_id self"
proof -
  have "unat (ft_supply api t) \<le> unat (max_supply self)"
    using assms(1) ft_lawsD(5) [OF _ assms(2)] unfolding token_inv_def by fastforce
  from token_inv_adjust [OF assms(1,3) this] show ?thesis by simp
qed

lemma token_inv_burn:
  "burn api env self v = Inr self' \<Longrightarrow> token_inv api self \<Longrightarrow> token_inv api self' \<and> owner_id self' = owner_id self"
proof -
  assume b: "burn api env self v = Inr self'" and inv: "token_inv api self"
  then obtain t self1 where "ft_withdraw api (predecessor env) v (token self) = Inr t"
    "adjust_near env (self\<lparr>token := t\<rparr>) (\<lambda>s. sub_ov s v) = Inr self1"
    "self' = self1\<lparr>last_update := unix_secs env\<rparr>" by (auto simp: burn_def)
  with token_inv_withdraw [OF inv this(1,2)] show ?thesis by (simp add: token_inv_def)
qed

lemma token_inv_bridge_out:
  "bridge_out api env self r v lz = Inr (self', p) \<Longrightarrow> token_inv api self \<Longrightarrow>
     token_inv api self' \<and> owner_id self' = owner_id self"
  using bridge_out_Inr token_inv_withdraw by metis

lemma token_inv_bridge_in:
  assumes "bridge_in api env self c sn r v = Inr (self', b)" and "token_inv api self"
  shows "token_inv api self' \<and> owner_id self' = owner_id self"
proof -
  from bridge_in_Inr [OF assms(1)] obtain t0 t where
    cap: "unat (ft_supply api (token self)) + unat v \<le> unat (max_supply self)"
    and t0: "t0 = token self \<or> ft_register api r (token self) = Inr t0"
    and t: "ft_deposit api r v t0 = Inr t"
    and adj: "adjust_near env (self\<lparr>token := t\<rparr>) (\<lambda>s. add_ov s v) = Inr self'" by blast
  from assms(2) have laws: "ft_laws api" by (simp add: token_inv_def)
  from t0 ft_lawsD(1) [OF laws] have "ft_supply api t0 = ft_supply api (token self)" by auto
  with ft_lawsD(3) [OF laws t] cap have "unat (ft_supply api t) \<le> unat (max_supply self)" by simp
  from token_inv_adjust [OF assms(2) adj this] show ?thesis by simp
qed

lemma manager_ok_step:
  "add_admin env mm a = Inr (mm', b) \<Longrightarrow> registry_ok mm \<Longrightarrow> registry_ok mm' \<and> mm_owner_id mm' = mm_owner_id mm"
  "add_module env mm m = Inr (mm', b) \<Longrightarrow> registry_ok mm \<Longrightarrow> registry_ok mm' \<and> mm_owner_id mm' = mm_owner_id mm"
  using exec_manager_ok [of "(env, Add_admin a)" mm mm' b] exec_manager_ok [of "(env, Add_module m)" mm mm' b]
  by (auto simp: add_admin_def add_module_def split: if_splits)

lemma mm_transfer_step:
  "mm_transfer_ownership env mm a = Inr mm' \<Longrightarrow> registry_ok mm \<Longrightarrow> registry_ok mm' \<and> mm_owner_id mm' = a"
  using exec_manager_ok [of "(env, Mm_transfer_ownership a)" mm mm' True]
  by (auto simp: mm_transfer_ownership_def Let_def split: if_splits)

lemma exec_token_inv:
  assumes "exec_token api (env, c) self = Inr (self', ps)" and "token_inv api self"
  shows "token_inv api self'" and "predecessor env \<noteq> owner_id self \<Longrightarrow> owner_id self' = owner_id self"
proof -
  have "token_inv api self' \<and> (predecessor env \<noteq> owner_id self \<longrightarrow> owner_id self' = owner_id self)"
  proof (cases c)
    case (Ft_transfer r a m)
    with assms show ?thesis
      by (auto simp: ft_transfer_def token_inv_def dest: ft_lawsD(7))
  next
    case (Core_call k)
    with assms show ?thesis by (auto simp: token_inv_def word_le_nat_alt dest: ft_core_burns)
  next
    case (Transfer_ownership a)
    with assms show ?thesis
      by (auto simp: transfer_ownership_def st_transfer_ownership_def assert_owner_def token_inv_def
          tracker_ok_def dest: mm_transfer_step)
  next
    case (Set_chain_config i cc)
    with assms show ?thesis
      by (auto simp: set_chain_config_def assert_owner_def token_inv_def Let_def)
  next
    case (Update_remote_chain_supply i v)
    with assms show ?thesis
      by (auto simp: update_remote_chain_supply_def token_inv_def Let_def split: option.splits)
  next
    case (Set_supply_oracle i a)
    with assms show ?thesis
      by (auto simp: set_supply_oracle_def assert_owner_def token_inv_def split: option.splits)
  next
    case (Mint a v)
    with assms token_inv_mint show ?thesis by fastforce
  next
    case (Burn v)
    with assms token_inv_burn show ?thesis by fastforce
  next
    case (Bridge_out r v lz)
    with assms token_inv_bridge_out show ?thesis by fastforce
  next
    case (Bridge_in ch sn r v)
    with assms token_inv_bridge_in show ?thesis by fastforce
  qed (use assms in \<open>auto simp: set_lz_endpoint_def add_module_admin_def token_add_module_def
        assert_owner_def token_inv_def dest: manager_ok_step\<close>)
  then show "token_inv api self'" "predecessor env \<noteq> owner_id self \<Longrightarrow> owner_id self' = owner_id self"
    by blast+
qed

fun token_privileged :: "near_env \<times> token_call \<Rightarrow> bool" where
  "token_privileged (env, Mint a v) = True"
| "token_privileged (env, Set_lz_endpoint e) = True"
| "token_privileged (env, Add_module_admin a) = True"
| "token_privileged (env, Token_add_module m) = True"
| "token_privileged (env, Transfer_ownership a) = True"
| "token_privileged (env, Set_chain_config i c) = True"
| "token_privileged (env, Set_supply_oracle i a) = True"
| "token_privileged (env, c) = False"

lemma token_privileged_panics:
  "token_privileged c \<Longrightarrow> predecessor (fst c) \<noteq> owner_id self \<Longrightarrow> \<exists>e. exec_token api c self = Inl e"
  by (cases c rule: token_privileged.cases)
    (auto simp: mint_def set_lz_endpoint_def add_module_admin_def token_add_module_def
      transfer_ownership_def set_chain_config_def set_supply_oracle_def assert_owner_def)

interpretation token_owned:
  owned_contract "exec_token api" "token_inv api" owner_id "\<lambda>c. predecessor (fst c)" token_privileged for api
proof
  fix c s s' out
  show "exec_token api c s = Inr (s', out) \<Longrightarrow> token_inv api s \<Longrightarrow> token_inv api s'"
    by (cases c) (auto dest: exec_token_inv(1))
  show "exec_token api c s = Inr (s', out) \<Longrightarrow> token_inv api s \<Longrightarrow> predecessor (fst c) \<noteq> owner_id s \<Longrightarrow>
      owner_id s' = owner_id s"
    by (cases c) (auto dest: exec_token_inv(2))
qed (auto dest: token_privileged_panics)

lemma new_token_inv:
  assumes "new_token api env owner endpoint near_id = Inr self" and "ft_laws api"
  shows "token_inv api self" and "owner_id self = owner"
proof -
  from assms(1) obtain t0 t where t0: "ft_register api owner (ft_new api) = Inr t0"
    and t: "ft_deposit api owner INITIAL_SUPPLY t0 = Inr t"
    and s: "token self = t" "owner_id self = owner" "max_supply self = MAX_SUPPLY"
      "supply_tracker self = fst (update_chain_supply env (new_tracker near_id MAX_SUPPLY owner)
          near_id ''NEAR Protocol'' INITIAL_SUPPLY)"
      "module_manager self = new_manager owner None"
    by (auto simp: new_token_def Let_def)
  have "unat (ft_supply api t) = unat INITIAL_SUPPLY"
    using ft_lawsD(1,3,8) [OF assms(2)] t0 t by simp
  moreover have "tracker_ok (new_tracker near_id MAX_SUPPLY owner)" by (simp add: tracker_ok_def new_tracker_def)
  ultimately show "token_inv api self" "owner_id self = owner"
    using s assms(2) new_manager_ok [of owner None]
    by (simp_all add: token_inv_def INITIAL_SUPPLY_def MAX_SUPPLY_def new_tracker_def new_manager_def Let_def)
qed

section \<open>A core that satisfies the laws\<close>

text \<open>Balances and supply as the NEAR standard describes them, for the concrete runs below.\<close>

definition ledger_add :: "account \<Rightarrow> u128 \<Rightarrow> (account \<rightharpoonup> u128) \<times> u128 \<Rightarrow> ((account \<rightharpoonup> u128) \<times> u128) res" where
  "ledger_add a v t =
     rbind (expect (fst t a) ''The account is not registered'') (\<lambda>b.
     rbind (add_ov b v) (\<lambda>b'. rbind (add_ov (snd t) v) (\<lambda>s'. Inr ((fst t)(a \<mapsto> b'), s'))))"

definition ledger_sub :: "account \<Rightarrow> u128 \<Rightarrow> (account \<rightharpoonup> u128) \<times> u128 \<Rightarrow> ((account \<rightharpoonup> u128) \<times> u128) res" where
  "ledger_sub a v t =
     rbind (expect (fst t a) ''The account is not registered'') (\<lambda>b.
     rbind (sub_ov b v) (\<lambda>b'. rbind (sub_ov (snd t) v) (\<lambda>s'. Inr ((fst t)(a \<mapsto> b'), s'))))"

definition ledger_transfer ::
  "account \<Rightarrow> account \<Rightarrow> u128 \<Rightarrow> (account \<rightharpoonup> u128) \<times> u128 \<Rightarrow> ((account \<rightharpoonup> u128) \<times> u128) res" where
  "ledger_transfer a b v t =
     rbind (require (a \<noteq> b) ''Sender and receiver should be different'')
       (\<lambda>_. rbind (ledger_sub a v t) (\<lambda>t. ledger_add b v t))"

fun ledger_core :: "near_env \<Rightarrow> core_call \<Rightarrow> (account \<rightharpoonup> u128) \<times> u128 \<Rightarrow> ((account \<rightharpoonup> u128) \<times> u128) res" where
  "ledger_core env (Core_transfer r v m) t = ledger_transfer (predecessor env) r v t"
| "ledger_core env (Core_transfer_call r v m msg) t = ledger_transfer (predecessor env) r v t"
| "ledger_core env (Storage_unregister force) t =
     (case fst t (predecessor env) of
        None \<Rightarrow> Inr t
      | Some b \<Rightarrow> rbind (require (b = 0 \<or> force = Some True) ''The account has a positive balance'')
          (\<lambda>_. rbind (sub_ov (snd t) b) (\<lambda>s. Inr ((fst t)(predecessor env := None), s))))"
| "ledger_core env c t = Inr t"

definition ledger_ft :: "((account \<rightharpoonup> u128) \<times> u128) ft_api" where
  "ledger_ft = \<lparr> ft_new = (Map.empty, 0), ft_spec = ''ft-1.0.0'',
     ft_register = (\<lambda>a t. if fst t a \<noteq> None then Inl (PanicStr ''The account is already registered'')
                          else Inr ((fst t)(a \<mapsto> 0), snd t)),
     ft_deposit = ledger_add, ft_withdraw = ledger_sub,
     ft_internal_transfer = (\<lambda>a b v m t. ledger_transfer a b v t),
     ft_is_registered = (\<lambda>t a. fst t a \<noteq> None),
     ft_supply = snd, ft_balance = (\<lambda>t a. case fst t a of None \<Rightarrow> 0 | Some b \<Rightarrow> b),
     ft_core = ledger_core \<rparr>"

lemma ledger_transfer_supply: "ledger_transfer a b v t = Inr t' \<Longrightarrow> snd t' = snd t"
proof -
  assume "ledger_transfer a b v t = Inr t'"
  then obtain t1 where "ledger_sub a v t = Inr t1" "ledger_add b v t1 = Inr t'"
    by (auto simp: ledger_transfer_def)
  then have "unat (snd t') = unat (snd t)" by (auto simp: ledger_sub_def ledger_add_def ovf)
  then show ?thesis by (simp add: word_unat_eq_iff)
qed

lemma ledger_core_supply: "ledger_core env c t = Inr t' \<Longrightarrow> snd t' \<le> snd t"
  by (induction env c t rule: ledger_core.induct)
    (auto simp: ovf word_le_nat_alt dest: ledger_transfer_supply split: option.splits)

lemma ledger_ft_laws: "ft_laws ledger_ft"
  unfolding ft_laws_def
proof (intro conjI allI impI)
  fix a b v m and t t' :: "(account \<rightharpoonup> u128) \<times> u128"
  assume "ft_internal_transfer ledger_ft a b v m t = Inr t'"
  then show "ft_supply ledger_ft t' = ft_supply ledger_ft t" by (simp add: ledger_ft_def ledger_transfer_supply)
next
  show "core_creates_none ledger_ft" by (simp add: core_creates_none_def ledger_ft_def ledger_core_supply)
qed (auto simp: ledger_ft_def ledger_add_def ledger_sub_def ovf split: option.splits if_splits)

definition demo_token :: "((account \<rightharpoonup> u128) \<times> u128) diamond_token" where
  "demo_token = (case new_token ledger_ft (env_at ''owner'' ''dmd'' 1 False) ''owner'' ''lz'' 1 of
                   Inr s \<Rightarrow> s | Inl _ \<Rightarrow> undefined)"

lemma demo_token_new:
  "new_token ledger_ft (env_at ''owner'' ''dmd'' 1 False) ''owner'' ''lz'' 1 = Inr demo_token"
  by (simp add: demo_token_def new_token_def ledger_ft_def ledger_add_def add_ov_def INITIAL_SUPPLY_def Let_def)

lemma demo_token_simps:
  "token demo_token = ([''owner'' \<mapsto> INITIAL_SUPPLY], INITIAL_SUPPLY)" "owner_id demo_token = ''owner''"
  "max_supply demo_token = MAX_SUPPLY" "lz_endpoint demo_token = ''lz''" "near_chain_id demo_token = 1"
  "chain_configs demo_token = Map.empty"
  "supplies (supply_tracker demo_token) = [(1, \<lparr>cs_chain_id = 1, cs_chain_name = ''NEAR Protocol'',
      cs_supply = INITIAL_SUPPLY, cs_last_updated = 1\<rparr>)]"
  "st_owner_id (supply_tracker demo_token) = ''owner''"
  by (simp_all add: demo_token_def new_token_def ledger_ft_def ledger_add_def add_ov_def INITIAL_SUPPLY_def
      Let_def new_tracker_def update_chain_supply_def put_supply_def env_at_def)

text \<open>The demo token with chain 2 configured: 30 basis points, between 5 and 100000, an oracle.\<close>

definition demo_config :: chain_config where
  "demo_config = \<lparr> cc_remote_chain_id = 2, cc_remote_bridge_address = ''0x'', cc_chain_name = ''BSC'',
     cc_enabled = True, cc_fee_basis_points = 30, cc_min_fee = 5, cc_max_fee = 100000,
     cc_supply_oracle = Some ''orc'' \<rparr>"

definition bridged_token :: "((account \<rightharpoonup> u128) \<times> u128) diamond_token" where
  "bridged_token = demo_token\<lparr>chain_configs := [2 \<mapsto> demo_config], token := ([''owner'' \<mapsto> 900, ''bob'' \<mapsto> 100], 1000)\<rparr>"

lemma bridged_token_inv: "token_inv ledger_ft bridged_token"
  using new_token_inv(1) [OF demo_token_new ledger_ft_laws]
  by (simp add: token_inv_def bridged_token_def ledger_ft_def MAX_SUPPLY_def)

definition demo_lz :: layer_zero_params where
  "demo_lz = \<lparr>dest_chain_id = 2, adapter_params = [], fees = 7\<rparr>"

lemma bob_burn: "\<exists>s1. burn ledger_ft (env_at ''bob'' ''dmd'' 2 False) bridged_token 40 = Inr s1"
  by (simp add: burn_def bridged_token_def ledger_ft_def ledger_sub_def sub_ov_def env_at_def
      adjust_near_def get_chain_supply_def demo_token_simps INITIAL_SUPPLY_def)

lemma bob_bridge_out:
  "\<exists>p. bridge_out ledger_ft (env_at ''bob'' ''dmd'' 2 False) bridged_token ''0xb'' 40 demo_lz
     = Inr (bridged_token\<lparr>token := ([''owner'' \<mapsto> 900, ''bob'' \<mapsto> 60], 960)\<rparr>, p)"
  by (simp add: bridge_out_def estimate_bridge_fee_def bridged_token_def ledger_ft_def ledger_sub_def
      sub_ov_def mul_ov_def div_ov_def env_at_def adjust_near_def get_chain_supply_def demo_token_simps
      INITIAL_SUPPLY_def demo_config_def demo_lz_def Let_def update_chain_supply_def)

lemma bob_bridge_in:
  "\<exists>s2. bridge_in ledger_ft (env_at ''lz'' ''dmd'' 3 False)
     (bridged_token\<lparr>token := ([''owner'' \<mapsto> 900, ''bob'' \<mapsto> 60], 960)\<rparr>) 2 ''0xb'' ''bob'' 40 = Inr (s2, True)"
  by (simp add: bridge_in_def check_caps_def get_total_circulating_supply_def bridged_token_def ledger_ft_def
      ledger_add_def add_ov_def env_at_def adjust_near_def get_chain_supply_def demo_token_simps
      INITIAL_SUPPLY_def MAX_SUPPLY_def demo_config_def)

section \<open>Properties\<close>

text \<open>C3. From its creation on, under any sequence of calls by any accounts (mints, burns, bridge
  transfers in both directions, administration, the calls that the macros export), the token's total supply stays within the
  maximum supply, and the token, its supply tracker and its module manager have one owner.\<close>

theorem token_supply_capped:
  assumes "ft_laws api" and "new_token api env owner endpoint near_id = Inr self"
    and "later = run_calls (exec_token api) self cs"
  shows "ft_supply api (token later) \<le> MAX_SUPPLY \<and> max_supply later = MAX_SUPPLY
         \<and> st_owner_id (supply_tracker later) = owner_id later
         \<and> mm_owner_id (module_manager later) = owner_id later"
  using token_owned.run_inv [OF new_token_inv(1) [OF assms(2,1)], of cs]
  by (simp add: assms(3) token_inv_def word_le_nat_alt)

theorem token_supply_capped_witness:
  "ft_supply ledger_ft (token (run_calls (exec_token ledger_ft) demo_token
      [(env_at ''owner'' ''dmd'' 2 False, Mint ''owner'' 800000000000000000000000000),
       (env_at ''owner'' ''dmd'' 3 False, Mint ''owner'' 1)])) \<le> MAX_SUPPLY"
  using token_supply_capped [OF ledger_ft_laws demo_token_new refl] by blast

text \<open>A mint on a chain without an entry raises the supply alone.\<close>

lemma mint_untracked:
  assumes "mint api env self a v = Inr self'" and "tracked (supply_tracker self) (near_chain_id self) = None"
  shows "supply_tracker self' = supply_tracker self"
  using assms by (auto simp: mint_def adjust_near_def tracked_def split: option.splits)



text \<open>The supply tracker only follows the owner: a burn by any other account lowers the token's
  supply by the amount but leaves the tracker, and so the reported NEAR and global circulating
  supplies, as they were.\<close>

lemma token_burn_not_tracked:
  assumes "token_inv api self" and "burn api env self amount = Inr self'"
    and "predecessor env \<noteq> owner_id self"
  shows "unat (ft_supply api (token self)) = unat (ft_supply api (token self')) + unat amount
         \<and> get_near_circulating_supply self' = get_near_circulating_supply self
         \<and> get_global_circulating_supply self' = get_global_circulating_supply self"
proof -
  from assms(1) have inv: "ft_laws api" "st_owner_id (supply_tracker self) = owner_id self"
    by (simp_all add: token_inv_def)
  from assms(2) obtain t self1 where t: "ft_withdraw api (predecessor env) amount (token self) = Inr t"
    and adj: "adjust_near env (self\<lparr>token := t\<rparr>) (\<lambda>s. sub_ov s amount) = Inr self1"
    and s': "self' = self1\<lparr>last_update := unix_secs env\<rparr>" by (auto simp: burn_def)
  from adjust_near_other [OF adj] inv(2) assms(3) s'
  have "self' = self\<lparr>token := t, last_update := unix_secs env\<rparr>" by simp
  then show ?thesis using ft_lawsD(5) [OF inv(1) t]
    by (simp add: get_near_circulating_supply_def get_global_circulating_supply_def)
qed

text \<open>The same holds for the bridge: tokens bridged in by the endpoint raise the supply but not
  the tracked circulating supply, so the global cap check of the next bridge transfer or mint
  does not see them.\<close>

lemma token_bridge_in_not_tracked:
  assumes "token_inv api self" and "bridge_in api env self c sn r amount = Inr (self', b)"
    and "lz_endpoint self \<noteq> owner_id self"
  shows "unat (ft_supply api (token self')) = unat (ft_supply api (token self)) + unat amount
         \<and> supply_tracker self' = supply_tracker self"
proof -
  from assms(1) have inv: "ft_laws api" "st_owner_id (supply_tracker self) = owner_id self"
    by (simp_all add: token_inv_def)
  from bridge_in_Inr [OF assms(2)] obtain t0 t where e: "predecessor env = lz_endpoint self"
    and t0: "t0 = token self \<or> ft_register api r (token self) = Inr t0"
    and t: "ft_deposit api r amount t0 = Inr t"
    and adj: "adjust_near env (self\<lparr>token := t\<rparr>) (\<lambda>s. add_ov s amount) = Inr self'" by blast
  from adjust_near_other [OF adj] inv(2) assms(3) e have "self' = self\<lparr>token := t\<rparr>" by simp
  moreover have "ft_supply api t0 = ft_supply api (token self)" using t0 ft_lawsD(1) [OF inv(1)] by auto
  ultimately show ?thesis using ft_lawsD(3) [OF inv(1) t] by simp
qed

text \<open>C19. A bridge transfer out followed by the endpoint's transfer of the same amount back to the
  sender restores the total supply and every balance; the message sent in between carries the
  sender, the recipient and exactly the amount that was burned, with a fee that covers the
  estimate.\<close>

theorem token_bridge_roundtrip:
  assumes "token_inv api self"
    and "bridge_out api env self to_addr amount lz = Inr (self1, p)"
    and "bridge_in api env' self1 c sn (predecessor env) amount = Inr (self2, b)"
  shows "ft_supply api (token self2) = ft_supply api (token self)
         \<and> (\<forall>a. ft_balance api (token self2) a = ft_balance api (token self) a)
         \<and> (\<exists>dest address fee. call_method p = Lz_send dest address
              \<lparr>bp_from = predecessor env, bp_to = to_addr, bp_amount = amount\<rparr> (predecessor env) (adapter_params lz)
            \<and> estimate_bridge_fee self dest amount = Inr fee \<and> fee \<le> deposit p)"
proof -
  from assms(1) have laws: "ft_laws api" by (simp add: token_inv_def)
  from bridge_out_Inr [OF assms(2)] obtain t fee and config :: chain_config where
    w: "ft_withdraw api (predecessor env) amount (token self) = Inr t"
    and adj1: "adjust_near env (self\<lparr>token := t\<rparr>) (\<lambda>s. sub_ov s amount) = Inr self1"
    and out: "estimate_bridge_fee self (dest_chain_id lz) amount = Inr fee" "fee \<le> fees lz" "deposit p = fees lz"
      "call_method p = Lz_send (dest_chain_id lz) (as_bytes (cc_remote_bridge_address config))
          \<lparr>bp_from = predecessor env, bp_to = to_addr, bp_amount = amount\<rparr> (predecessor env) (adapter_params lz)"
    by blast
  from bridge_in_Inr [OF assms(3)] obtain t0 t2 where
    t0: "t0 = token self1 \<or> ft_register api (predecessor env) (token self1) = Inr t0"
    and d: "ft_deposit api (predecessor env) amount t0 = Inr t2"
    and adj2: "adjust_near env' (self1\<lparr>token := t2\<rparr>) (\<lambda>s. add_ov s amount) = Inr self2" by blast
  have tok: "token self1 = t" "token self2 = t2"
    using adjust_near_frame [OF adj1] adjust_near_frame [OF adj2] by auto
  have reg: "ft_supply api t0 = ft_supply api t" "ft_balance api t0 a = ft_balance api t a" for a
    using t0 tok ft_lawsD(1,2) [OF laws] by auto
  have "unat (ft_supply api t2) = unat (ft_supply api (token self))"
    using ft_lawsD(3) [OF laws d] ft_lawsD(5) [OF laws w] reg by simp
  moreover have "unat (ft_balance api t2 a) = unat (ft_balance api (token self) a)" for a
    using ft_lawsD(4) [OF laws d, of a] ft_lawsD(6) [OF laws w, of a] reg by simp
  ultimately have "ft_supply api (token self2) = ft_supply api (token self)"
    "\<forall>a. ft_balance api (token self2) a = ft_balance api (token self) a"
    by (simp_all add: tok word_unat_eq_iff)
  moreover have "fee \<le> deposit p" using out by simp
  ultimately show ?thesis using out(1,4) by blast
qed

theorem token_bridge_roundtrip_witness:
  "\<exists>s2 :: ((account \<rightharpoonup> u128) \<times> u128) diamond_token.
     ft_supply ledger_ft (token s2) = 1000 \<and> ft_balance ledger_ft (token s2) ''bob'' = 100"
proof -
  let ?s = "bridged_token\<lparr>token := ([''owner'' \<mapsto> 900, ''bob'' \<mapsto> 60], 960)\<rparr>"
  obtain p where o: "bridge_out ledger_ft (env_at ''bob'' ''dmd'' 2 False) bridged_token ''0xb'' 40 demo_lz = Inr (?s, p)"
    using bob_bridge_out by blast
  obtain s2 where "bridge_in ledger_ft (env_at ''lz'' ''dmd'' 3 False) ?s 2 ''0xb'' ''bob'' 40 = Inr (s2, True)"
    using bob_bridge_in by blast
  then have i: "bridge_in ledger_ft (env_at ''lz'' ''dmd'' 3 False) ?s 2 ''0xb''
      (predecessor (env_at ''bob'' ''dmd'' 2 False)) 40 = Inr (s2, True)" by (simp add: env_at_def)
  have "ft_supply ledger_ft (token bridged_token) = 1000" "ft_balance ledger_ft (token bridged_token) ''bob'' = 100"
    by (simp_all add: bridged_token_def ledger_ft_def)
  with token_bridge_roundtrip [OF bridged_token_inv o i]
  have "ft_supply ledger_ft (token s2) = 1000 \<and> ft_balance ledger_ft (token s2) ''bob'' = 100" by simp
  then show ?thesis by blast
qed

text \<open>The bridge fee lies between the configured minimum and maximum (when these are in
  order) and grows with the amount.\<close>

lemma token_bridge_fee_bounds:
  assumes "chain_configs self dest = Some config" and "cc_min_fee config \<le> cc_max_fee config"
    and "estimate_bridge_fee self dest a = Inr fee_a" and "estimate_bridge_fee self dest b = Inr fee_b"
    and "a \<le> b"
  shows "cc_min_fee config \<le> fee_a \<and> fee_a \<le> cc_max_fee config \<and> fee_a \<le> fee_b"
proof -
  let ?n = "unat (ucast (cc_fee_basis_points config) :: u128)"
  from assms(1,3,4) obtain pa pb where p: "unat pa = unat a * ?n" "unat pb = unat b * ?n"
    and f: "fee_a = (if pa div 10000 < cc_min_fee config then cc_min_fee config
               else if cc_max_fee config < pa div 10000 then cc_max_fee config else pa div 10000)"
      "fee_b = (if pb div 10000 < cc_min_fee config then cc_min_fee config
               else if cc_max_fee config < pb div 10000 then cc_max_fee config else pb div 10000)"
    by (auto simp: estimate_bridge_fee_def ovf)
  from p assms(5) have "pa \<le> pb" by (simp add: word_le_nat_alt)
  then have "pa div 10000 \<le> pb div 10000" by (simp add: word_le_nat_alt unat_div div_le_mono)
  with f assms(2) show ?thesis by auto
qed

text \<open>A supply oracle's report is acknowledged and dropped: when the configured oracle of a
  chain, not being the owner, updates the chain's supply, the call answers \<open>true\<close> and changes
  nothing.\<close>

lemma token_oracle_update_dropped:
  assumes "token_inv api self" and "chain_configs self chain_id = Some config"
    and "cc_supply_oracle config = Some (predecessor env)" and "predecessor env \<noteq> owner_id self"
  shows "update_remote_chain_supply env self chain_id supply = (self, True)"
  using assms by (simp add: update_remote_chain_supply_def update_chain_supply_def token_inv_def)

end
