(* ===== verification/CircuitBreaker.thy ===== *)
theory CircuitBreaker
  imports Prelude
begin

text \<open>
  The two circuit breakers of the bot: the per-endpoint breaker of
  \<^verbatim>\<open>snipebot/src/chain_adapters/retry_policy.rs\<close> with its locks, the breaker of
  \<^verbatim>\<open>common/src/retry_policy.rs\<close> with its reset timer, and the retry loop of
  \<open>ExponentialRetryPolicy\<close> over the first one. Times are milliseconds of a monotone clock, as the
  configuration's comments say. Counters wrap (\<open>fetch_add\<close>, and \<open>+\<close> in release builds).
\<close>

section \<open>The contract of a breaker\<close>

text \<open>
  Calls of a breaker answer a permission (\<open>Some\<close>, for a probe) or nothing (\<open>None\<close>). While it
  is open, no call but the ones that may unblock it changes that, and a probe is refused.
\<close>

fun run_ops :: "('op \<Rightarrow> 's \<Rightarrow> 's \<times> 'r) \<Rightarrow> 's \<Rightarrow> 'op list \<Rightarrow> 's \<times> 'r list" where
  "run_ops ex s [] = (s, [])"
| "run_ops ex s (c # cs) = (let (s', r) = ex c s; (t, rs) = run_ops ex s' cs in (t, r # rs))"

locale breaker =
  fixes exec_op :: "'op \<Rightarrow> 's \<Rightarrow> 's \<times> bool option"
    and is_open :: "'s \<Rightarrow> bool"
    and unblocks :: "'op \<Rightarrow> bool"
  assumes stays_open: "is_open s \<Longrightarrow> \<not> unblocks c \<Longrightarrow> exec_op c s = (s', r) \<Longrightarrow> is_open s'"
    and refuses: "is_open s \<Longrightarrow> \<not> unblocks c \<Longrightarrow> exec_op c s = (s', r) \<Longrightarrow> r \<noteq> Some True"
begin

lemma run_open:
  assumes "is_open s" and "\<forall>c\<in>set cs. \<not> unblocks c" and "run_ops exec_op s cs = (t, rs)"
  shows "is_open t \<and> Some True \<notin> set rs"
  using assms
proof (induction cs arbitrary: s t rs)
  case (Cons c cs)
  obtain s' r where e: "exec_op c s = (s', r)" by (cases "exec_op c s")
  obtain t' rs' where rest: "run_ops exec_op s' cs = (t', rs')" by (cases "run_ops exec_op s' cs")
  from e rest Cons.prems(3) have [simp]: "t = t'" "rs = r # rs'" by simp_all
  from Cons.prems(1,2) e have "is_open s'" "r \<noteq> Some True" by (auto dest: stays_open refuses)
  with Cons.IH [of s' t' rs'] Cons.prems(2) rest show ?case by simp
qed simp

end

section \<open>Read-write locks without waiting\<close>

text \<open>
  \<open>std::sync::RwLock\<close>: \<open>try_read\<close> fails while a write guard is alive, \<open>try_write\<close> while any guard
  is alive, those of the calling thread included. A guard lives to the end of the scope it is
  bound in.
\<close>

record rwlock =
  readers :: nat
  writer :: bool

definition try_read :: "rwlock \<Rightarrow> rwlock option" where
  "try_read l = (if writer l then None else Some (l\<lparr>readers := readers l + 1\<rparr>))"

definition try_write :: "rwlock \<Rightarrow> rwlock option" where
  "try_write l = (if writer l \<or> 0 < readers l then None else Some (l\<lparr>writer := True\<rparr>))"

definition drop_read :: "rwlock \<Rightarrow> rwlock" where
  "drop_read l = l\<lparr>readers := readers l - 1\<rparr>"

definition drop_write :: "rwlock \<Rightarrow> rwlock" where
  "drop_write l = l\<lparr>writer := False\<rparr>"

definition unlocked :: rwlock where
  "unlocked = \<lparr>readers = 0, writer = False\<rparr>"

lemma lock_simps [simp]:
  "try_read unlocked = Some \<lparr>readers = 1, writer = False\<rparr>"
  "try_write unlocked = Some \<lparr>readers = 0, writer = True\<rparr>"
  "try_read l = Some l' \<Longrightarrow> drop_read l' = l"
  "try_write l = Some l' \<Longrightarrow> drop_write l' = l"
  "try_read l = Some l' \<Longrightarrow> try_write l' = None"
  by (auto simp: try_read_def try_write_def unlocked_def drop_read_def drop_write_def split: if_splits)

section \<open>The breaker of an endpoint\<close>

datatype breaker_state = Closed | Open | HalfOpen

record breaker_config =
  error_threshold :: u32
  error_window :: u64
  open_duration :: u64
  half_open_allowed_requests :: u32

record circuit_breaker =
  state :: breaker_state
  error_count :: u64
  last_error_time :: nat
  last_state_change :: nat
  half_open_requests :: u64
  cb_config :: breaker_config
  endpoint_id :: string
  state_lock :: rwlock
  error_time_lock :: rwlock
  state_change_lock :: rwlock

definition new_breaker :: "nat \<Rightarrow> string \<Rightarrow> breaker_config \<Rightarrow> circuit_breaker" where
  "new_breaker now endpoint config =
     \<lparr> state = Closed, error_count = 0, last_error_time = now, last_state_change = now,
       half_open_requests = 0, cb_config = config, endpoint_id = endpoint,
       state_lock = unlocked, error_time_lock = unlocked, state_change_lock = unlocked \<rparr>"

text \<open>
  The branch of \<open>can_execute\<close> for an open breaker whose pause is over, with the read guards of
  \<open>state\<close> and \<open>last_state_change\<close> still alive.
\<close>

definition to_half_open :: "nat \<Rightarrow> circuit_breaker \<Rightarrow> circuit_breaker \<times> bool" where
  "to_half_open now cb =
     (case try_write (state_lock cb) of
        None \<Rightarrow> (cb, False)
      | Some ls \<Rightarrow>
          let cb = cb\<lparr>state_lock := ls, state := HalfOpen\<rparr> in
          (case try_write (state_change_lock cb) of
             Some lc \<Rightarrow>
               (cb\<lparr>last_state_change := now, half_open_requests := 0,
                   state_change_lock := drop_write lc, state_lock := drop_write ls\<rparr>, True)
           | None \<Rightarrow> (cb\<lparr>state_lock := drop_write ls\<rparr>, False)))"

definition can_execute :: "nat \<Rightarrow> circuit_breaker \<Rightarrow> circuit_breaker \<times> bool" where
  "can_execute now cb =
     (case try_read (state_lock cb) of
        None \<Rightarrow> (cb, False)
      | Some l \<Rightarrow>
          let cb = cb\<lparr>state_lock := l\<rparr>;
              (cb, allowed) =
                (case state cb of
                   Closed \<Rightarrow> (cb, True)
                 | Open \<Rightarrow>
                     (case try_read (state_change_lock cb) of
                        None \<Rightarrow> (cb, False)
                      | Some lc \<Rightarrow>
                          let cb = cb\<lparr>state_change_lock := lc\<rparr>;
                              (cb, b) = (if unat (open_duration (cb_config cb)) \<le> now - last_state_change cb
                                         then to_half_open now cb else (cb, False)) in
                          (cb\<lparr>state_change_lock := drop_read (state_change_lock cb)\<rparr>, b))
                 | HalfOpen \<Rightarrow>
                     (cb\<lparr>half_open_requests := half_open_requests cb + 1\<rparr>,
                      half_open_requests cb < ucast (half_open_allowed_requests (cb_config cb)))) in
          (cb\<lparr>state_lock := drop_read (state_lock cb)\<rparr>, allowed))"

text \<open>Both transitions into \<open>Open\<close> of \<open>record_failure\<close>; the read guard is gone by then.\<close>

definition to_open :: "nat \<Rightarrow> circuit_breaker \<Rightarrow> circuit_breaker" where
  "to_open now cb =
     (case try_write (state_lock cb) of
        None \<Rightarrow> cb
      | Some ls \<Rightarrow>
          let cb = cb\<lparr>state := Open\<rparr> in
          (case try_write (state_change_lock cb) of
             Some lc \<Rightarrow> cb\<lparr>last_state_change := now\<rparr>
           | None \<Rightarrow> cb))"

definition record_failure :: "nat \<Rightarrow> circuit_breaker \<Rightarrow> circuit_breaker" where
  "record_failure now cb =
     (let cb = (case try_write (error_time_lock cb) of
                  Some l \<Rightarrow> cb\<lparr>last_error_time := now\<rparr> | None \<Rightarrow> cb);
          current_count = error_count cb;
          cb = cb\<lparr>error_count := error_count cb + 1\<rparr> in
      (case try_read (state_lock cb) of
         None \<Rightarrow> cb
       | Some l \<Rightarrow>
           (case state cb of
              Closed \<Rightarrow>
                if ucast (error_threshold (cb_config cb)) \<le> current_count + 1
                then to_open now cb else cb
            | HalfOpen \<Rightarrow> to_open now cb
            | Open \<Rightarrow> cb)))"

text \<open>
  \<open>record_success\<close> and \<open>reset\<close> wait for their locks (\<open>read().unwrap()\<close>): they run at a moment when
  no other guard is alive.
\<close>

definition record_success :: "nat \<Rightarrow> circuit_breaker \<Rightarrow> circuit_breaker" where
  "record_success now cb =
     (if state cb = HalfOpen \<and> ucast (half_open_allowed_requests (cb_config cb)) \<le> half_open_requests cb
      then cb\<lparr>state := Closed, last_state_change := now, error_count := 0\<rparr> else cb)"

definition reset :: "nat \<Rightarrow> circuit_breaker \<Rightarrow> circuit_breaker" where
  "reset now cb = cb\<lparr>state := Closed, last_state_change := now, error_count := 0\<rparr>"

definition get_state :: "circuit_breaker \<Rightarrow> breaker_state" where
  "get_state cb = state cb"

text \<open>
  The calls, each with the guards other threads hold at that moment (\<open>Contended\<close> puts them in
  place before the call and takes them away after it).
\<close>

datatype breaker_op = Can_execute nat | Record_failure nat | Record_success nat | Reset nat

fun exec_breaker :: "breaker_op \<Rightarrow> circuit_breaker \<Rightarrow> circuit_breaker \<times> bool option" where
  "exec_breaker (Can_execute now) cb = (let (cb', b) = can_execute now cb in (cb', Some b))"
| "exec_breaker (Record_failure now) cb = (record_failure now cb, None)"
| "exec_breaker (Record_success now) cb = (record_success now cb, None)"
| "exec_breaker (Reset now) cb = (reset now cb, None)"

type_synonym guards = "rwlock \<times> rwlock \<times> rwlock"

definition with_guards :: "guards \<Rightarrow> circuit_breaker \<Rightarrow> circuit_breaker" where
  "with_guards g cb = (case g of (s, e, c) \<Rightarrow>
     cb\<lparr>state_lock := s, error_time_lock := e, state_change_lock := c\<rparr>)"

fun exec_contended :: "guards \<times> breaker_op \<Rightarrow> circuit_breaker \<Rightarrow> circuit_breaker \<times> bool option" where
  "exec_contended (g, c) cb =
     (let (cb', r) = exec_breaker c (with_guards g cb) in (with_guards (unlocked, unlocked, unlocked) cb', r))"

fun is_reset :: "guards \<times> breaker_op \<Rightarrow> bool" where
  "is_reset (g, Reset now) \<longleftrightarrow> True"
| "is_reset (g, c) \<longleftrightarrow> False"


lemma with_guards_simps [simp]:
  "state (with_guards g cb) = state cb"
  "with_guards g (with_guards g' cb) = with_guards g cb"
  by (cases g; cases g'; simp add: with_guards_def)+

section \<open>An open breaker stays open\<close>

text \<open>
  \<open>can_execute\<close> asks for the write guard of \<open>state\<close> while its own read guard is alive: the attempt
  to leave the open state fails, whatever the clock says.
\<close>

lemma can_execute_open: "state cb = Open \<Longrightarrow> can_execute now cb = (cb, False)"
  by (auto simp: can_execute_def to_half_open_def Let_def try_read_def try_write_def drop_read_def
      split: option.splits)

lemma can_execute_closed: "state cb = Closed \<Longrightarrow> can_execute now cb = (cb, \<not> writer (state_lock cb))"
  by (auto simp: can_execute_def Let_def try_read_def drop_read_def split: option.splits)

lemma to_open_frame [simp]:
  "cb_config (to_open now cb) = cb_config cb" "error_count (to_open now cb) = error_count cb"
  "state_lock (to_open now cb) = state_lock cb" "error_time_lock (to_open now cb) = error_time_lock cb"
  "state_change_lock (to_open now cb) = state_change_lock cb"
  by (auto simp: to_open_def Let_def split: option.splits)

lemma record_failure_frame [simp]:
  "cb_config (record_failure now cb) = cb_config cb"
  "error_count (record_failure now cb) = error_count cb + 1"
  "state_lock (record_failure now cb) = state_lock cb"
  "error_time_lock (record_failure now cb) = error_time_lock cb"
  "state_change_lock (record_failure now cb) = state_change_lock cb"
  by (auto simp: record_failure_def Let_def split: option.splits breaker_state.splits)

lemma to_open_state: "state (to_open now cb) = (if try_write (state_lock cb) = None then state cb else Open)"
  by (auto simp: to_open_def Let_def split: option.splits)

lemma record_failure_open: "state cb = Open \<Longrightarrow> state (record_failure now cb) = Open"
  by (auto simp: record_failure_def Let_def split: option.splits)

lemma record_success_open: "state cb = Open \<Longrightarrow> record_success now cb = cb"
  by (simp add: record_success_def)

interpretation endpoint_breaker: breaker exec_contended "\<lambda>cb. state cb = Open" is_reset
proof
  fix cb cb' :: circuit_breaker and gc r
  assume a: "state cb = Open" "\<not> is_reset gc" "exec_contended gc cb = (cb', r)"
  obtain g c where gc: "gc = (g, c)" by (cases gc)
  from a have "state cb' = Open \<and> r \<noteq> Some True"
    by (cases c) (auto simp: gc can_execute_open record_failure_open record_success_open)
  then show "state cb' = Open" "r \<noteq> Some True" by simp_all
qed

lemma record_failure_state:
  "state cb \<noteq> HalfOpen \<Longrightarrow> state (record_failure now cb) \<noteq> HalfOpen"
  by (auto simp: record_failure_def Let_def to_open_state split: option.splits breaker_state.splits)

lemma exec_contended_never_half_open:
  "state cb \<noteq> HalfOpen \<Longrightarrow> state (fst (exec_contended (g, c) cb)) \<noteq> HalfOpen"
  by (cases c; cases "state cb")
    (auto simp: can_execute_open can_execute_closed record_failure_state record_success_def reset_def)

lemma run_never_half_open:
  "state cb \<noteq> HalfOpen \<Longrightarrow> state (fst (run_ops exec_contended cb cs)) \<noteq> HalfOpen"
proof (induction cs arbitrary: cb)
  case (Cons gc cs)
  obtain g c where [simp]: "gc = (g, c)" by (cases gc)
  from Cons show ?case
    using exec_contended_never_half_open [of cb g c]
    by (auto simp: split_beta)
qed simp

section \<open>When the breaker trips\<close>

fun is_failure :: "breaker_op \<Rightarrow> bool" where
  "is_failure (Record_failure now) = True"
| "is_failure c = False"

fun resets :: "breaker_op \<Rightarrow> bool" where
  "resets (Reset now) = True"
| "resets c = False"

definition failures :: "breaker_op list \<Rightarrow> nat" where
  "failures cs = length (filter is_failure cs)"

definition threshold_of :: "circuit_breaker \<Rightarrow> nat" where
  "threshold_of cb = max 1 (unat (error_threshold (cb_config cb)))"

definition lock_free :: "circuit_breaker \<Rightarrow> bool" where
  "lock_free cb \<longleftrightarrow> state_lock cb = unlocked \<and> state_change_lock cb = unlocked"

lemma failures_simps [simp]:
  "failures [] = 0" "failures (c # cs) = (if is_failure c then 1 else 0) + failures cs"
  by (simp_all add: failures_def)

lemma run_open_ops:
  "state cb = Open \<Longrightarrow> \<forall>c\<in>set cs. \<not> resets c \<Longrightarrow> state (fst (run_ops exec_breaker cb cs)) = Open"
proof (induction cs arbitrary: cb)
  case (Cons c cs)
  from Cons.prems have "state (fst (exec_breaker c cb)) = Open"
    by (cases c) (auto simp: can_execute_open record_failure_open record_success_open)
  with Cons show ?case by (simp add: split_beta)
qed simp

lemma record_failure_closed:
  assumes "state cb = Closed" and "lock_free cb" and "unat (error_count cb) < threshold_of cb"
  shows "state (record_failure now cb)
           = (if threshold_of cb \<le> unat (error_count cb) + 1 then Open else Closed)"
    and "unat (error_count (record_failure now cb)) = unat (error_count cb) + 1"
proof -
  have "unat (error_threshold (cb_config cb)) < 2 ^ LENGTH(32)" by (rule unsigned_less)
  with assms(3) have small: "unat (error_count cb) + 1 < 2 ^ 64"
    by (simp add: threshold_of_def max_def split: if_splits)
  then have c: "unat (error_count cb + 1) = unat (error_count cb) + 1"
    by (simp add: unat_word_ariths)
  show "state (record_failure now cb)
           = (if threshold_of cb \<le> unat (error_count cb) + 1 then Open else Closed)"
    using assms(1,2) c
    by (auto simp: record_failure_def Let_def to_open_state lock_free_def word_le_nat_alt
        threshold_of_def split: option.splits)
  show "unat (error_count (record_failure now cb)) = unat (error_count cb) + 1"
    using c by simp
qed

lemma run_closed_ops:
  assumes "state cb = Closed" and "lock_free cb" and "unat (error_count cb) < threshold_of cb"
    and "\<forall>c\<in>set cs. \<not> resets c"
  shows "state (fst (run_ops exec_breaker cb cs))
           = (if threshold_of cb \<le> unat (error_count cb) + failures cs then Open else Closed)"
  using assms
proof (induction cs arbitrary: cb)
  case (Cons c cs)
  note IH = Cons.IH and prems = Cons.prems
  show ?case
  proof (cases c)
    case (Record_failure now)
    let ?cb = "record_failure now cb"
    have frame: "threshold_of ?cb = threshold_of cb" "lock_free ?cb"
      using prems(2) by (simp_all add: threshold_of_def lock_free_def)
    show ?thesis
    proof (cases "threshold_of cb \<le> unat (error_count cb) + 1")
      case True
      with record_failure_closed(1) [OF prems(1-3)] have "state ?cb = Open" by simp
      from run_open_ops [OF this] prems(4) True Record_failure show ?thesis
        by (simp add: split_beta)
    next
      case False
      with record_failure_closed [OF prems(1-3)] frame IH [of ?cb] prems(4) Record_failure
      show ?thesis by (simp add: split_beta)
    qed
  qed (use IH [of cb] prems in \<open>auto simp: split_beta can_execute_closed record_success_def\<close>)
qed simp

section \<open>Properties of the endpoint breaker\<close>

text \<open>C26. An open breaker is closed by nothing but a manual reset: whatever probes, failures and
  successes follow, at any times and with any guards held by other threads, it stays open and
  refuses every probe. The half-open state is never entered at all.\<close>

theorem breaker_open_until_reset:
  assumes "state cb = Open" and "\<forall>c\<in>set cs. \<not> is_reset c"
    and "run_ops exec_contended cb cs = (cb', answers)"
  shows "state cb' = Open \<and> Some True \<notin> set answers
         \<and> state (fst (run_ops exec_contended (new_breaker now endpoint config) ds)) \<noteq> HalfOpen"
  using endpoint_breaker.run_open [OF assms] run_never_half_open [of "new_breaker now endpoint config" ds]
  by (simp add: new_breaker_def)

definition demo_breaker :: circuit_breaker where
  "demo_breaker = record_failure 7 (new_breaker 0 ''rpc''
     \<lparr>error_threshold = 1, error_window = 60000, open_duration = 300000, half_open_allowed_requests = 3\<rparr>)"

lemma demo_breaker_open: "state demo_breaker = Open" "lock_free demo_breaker"
  by (simp_all add: demo_breaker_def record_failure_def new_breaker_def to_open_def lock_free_def Let_def)

theorem breaker_open_until_reset_witness:
  "\<exists>cb' answers. run_ops exec_contended demo_breaker
       [((unlocked, unlocked, unlocked), Can_execute 1000000),
        ((unlocked, unlocked, unlocked), Record_success 1000001)] = (cb', answers)
     \<and> state cb' = Open \<and> Some True \<notin> set answers"
proof -
  let ?cs = "[((unlocked, unlocked, unlocked), Can_execute 1000000),
        ((unlocked, unlocked, unlocked), Record_success 1000001)]"
  obtain cb' answers where r: "run_ops exec_contended demo_breaker ?cs = (cb', answers)"
    by (cases "run_ops exec_contended demo_breaker ?cs")
  from breaker_open_until_reset [OF demo_breaker_open(1) _ r] r show ?thesis by simp
qed

text \<open>Between resets the breaker is open exactly when the failures since its creation have
  reached the error threshold (one failure, if the threshold is zero), whatever successes and
  probes come in between and however far apart in time the failures are: neither the error
  window nor a success ever lowers the count.\<close>

lemma breaker_trips_at_threshold:
  assumes "\<forall>c\<in>set cs. \<not> resets c"
  shows "state (fst (run_ops exec_breaker (new_breaker now endpoint config) cs))
           = (if max 1 (unat (error_threshold config)) \<le> failures cs then Open else Closed)"
  using assms run_closed_ops [of "new_breaker now endpoint config" cs]
  by (simp add: new_breaker_def lock_free_def threshold_of_def)

end
