(* ===== verification/Retry.thy ===== *)
theory Retry
  imports CircuitBreaker "HOL-Library.Product_Lexorder"
begin

text \<open>
  The retry loops: the one of \<open>ExponentialRetryPolicy\<close> over its per-endpoint breakers
  (\<^verbatim>\<open>snipebot/src/chain_adapters/retry_policy.rs\<close>), the blockchain retry, the RPC rotation and
  the RPC pool of \<^verbatim>\<open>snipebot/src/chain_adapters/retry.rs\<close>, and the loop and the breaker of
  \<^verbatim>\<open>common/src/retry_policy.rs\<close>. The operation a loop repeats is an argument: its outcome may
  depend on the number of the attempt. Waiting is not modelled beyond the clock a loop reads.
\<close>

section \<open>The retry policy with breakers\<close>

text \<open>The field \<open>backoff_factor\<close> (\<open>f64\<close>), which only the waiting time reads, is left out.\<close>

record retry_config =
  base_retry_interval :: u64
  rc_max_retries :: nat
  max_total_retry_time :: u64
  max_jitter :: u64
  retryable_errors :: "string list"
  rc_circuit_breaker :: breaker_config

definition default_retry_config :: retry_config where
  "default_retry_config =
     \<lparr> base_retry_interval = 1000, rc_max_retries = 3,
       max_total_retry_time = 30000, max_jitter = 500,
       retryable_errors = [''connection'', ''timeout'', ''rate limit'', ''gas too low'', ''nonce''],
       rc_circuit_breaker = \<lparr> error_threshold = 5, error_window = 60000, open_duration = 300000,
                              half_open_allowed_requests = 3 \<rparr> \<rparr>"

datatype 'e retry_error =
    Breaker_open string | Breaker_opened_during_retry
  | Max_retries_reached | Max_time_exceeded | Operation_error 'e

text \<open>
  The loop of \<open>retry_async\<close>: \<open>f k\<close> is the outcome of the attempt after \<open>k\<close> retries, \<open>clock k\<close> the
  time at which it ends and, after the wait, \<open>clock k - start\<close> the total time. The policy's own
  \<open>is_retryable\<close> is not defined in the repository: \<open>retryable\<close> stands for the test of the error's
  \<open>downcast_ref\<close> and of that method. The result carries the breaker and the number of attempts.
\<close>

function retry_loop ::
    "retry_config \<Rightarrow> (nat \<Rightarrow> 'e + 'v) \<Rightarrow> ('e \<Rightarrow> bool) \<Rightarrow> (nat \<Rightarrow> nat) \<Rightarrow> nat \<Rightarrow> nat \<Rightarrow> nat \<Rightarrow> 'e option
       \<Rightarrow> circuit_breaker \<Rightarrow> ('e retry_error + 'v) \<times> circuit_breaker \<times> nat" where
  "retry_loop config f retryable clock start current_retry total_time last_error cb =
     (let last = (\<lambda>d. case last_error of None \<Rightarrow> d | Some e \<Rightarrow> Operation_error e) in
      if rc_max_retries config \<le> current_retry then (Inl (last Max_retries_reached), cb, current_retry)
      else if unat (max_total_retry_time config) \<le> total_time
        then (Inl (last Max_time_exceeded), cb, current_retry)
      else case f current_retry of
             Inr v \<Rightarrow> (Inr v, if 0 < current_retry then record_success (clock current_retry) cb else cb,
                       current_retry + 1)
           | Inl e \<Rightarrow>
               let (cb, allowed) = can_execute (clock current_retry)
                                     (record_failure (clock current_retry) cb) in
               if \<not> allowed then (Inl Breaker_opened_during_retry, cb, current_retry + 1)
               else if \<not> retryable e then (Inl (Operation_error e), cb, current_retry + 1)
               else retry_loop config f retryable clock start (current_retry + 1)
                      (clock current_retry - start) (Some e) cb)"
  by pat_completeness auto
termination
  by (relation "measure (\<lambda>(config, f, r, c, s, n, t, l, b). rc_max_retries config - n)") auto

declare retry_loop.simps [simp del]

record retry_policy =
  rp_config :: retry_config
  circuit_breakers :: "string \<rightharpoonup> circuit_breaker"

definition new_policy :: "retry_config \<Rightarrow> retry_policy" where
  "new_policy config = \<lparr> rp_config = config, circuit_breakers = Map.empty \<rparr>"

definition get_circuit_breaker :: "nat \<Rightarrow> retry_policy \<Rightarrow> string \<Rightarrow> circuit_breaker" where
  "get_circuit_breaker now policy endpoint =
     (case circuit_breakers policy endpoint of
        Some cb \<Rightarrow> cb
      | None \<Rightarrow> new_breaker now endpoint (rc_circuit_breaker (rp_config policy)))"

text \<open>The breaker is shared (\<open>Arc\<close>): what the loop does to it stays in the policy's table.\<close>

definition retry_async ::
    "retry_policy \<Rightarrow> string \<Rightarrow> (nat \<Rightarrow> 'e + 'v) \<Rightarrow> ('e \<Rightarrow> bool) \<Rightarrow> (nat \<Rightarrow> nat) \<Rightarrow> nat
       \<Rightarrow> ('e retry_error + 'v) \<times> retry_policy \<times> nat" where
  "retry_async policy endpoint f retryable clock start =
     (let (cb, allowed) = can_execute start (get_circuit_breaker start policy endpoint);
          put = (\<lambda>cb. policy\<lparr>circuit_breakers := (circuit_breakers policy)(endpoint \<mapsto> cb)\<rparr>) in
      if \<not> allowed then (Inl (Breaker_open endpoint), put cb, 0)
      else let (r, cb, n) = retry_loop (rp_config policy) f retryable clock start 0 0 None cb in
           (r, put cb, n))"

text \<open>The endpoints \<open>update_circuit_breaker_stats\<close> reports as open.\<close>

definition open_endpoints :: "retry_policy \<Rightarrow> string set" where
  "open_endpoints policy =
     {e \<in> dom (circuit_breakers policy). map_option get_state (circuit_breakers policy e) = Some Open}"

section \<open>Attempts are bounded, successes are genuine\<close>

lemma retry_loop_result:
  assumes "retry_loop config f retryable clock start k t l cb = (r, cb', n)" and "k \<le> rc_max_retries config"
  shows "k \<le> n \<and> n \<le> rc_max_retries config
         \<and> (\<forall>v. r = Inr v \<longrightarrow> k < n \<and> f (n - 1) = Inr v)
         \<and> (\<forall>j. k \<le> j \<and> j + 1 < n \<longrightarrow> (\<exists>e. f j = Inl e \<and> retryable e))"
  using assms
proof (induction config f retryable clock start k t l cb arbitrary: r cb' n rule: retry_loop.induct)
  case (1 config f retryable clock start k t l cb)
  note eq = 1(2) [unfolded retry_loop.simps [of config f retryable clock start k t l cb] Let_def]
  consider "rc_max_retries config \<le> k \<or> unat (max_total_retry_time config) \<le> t"
    | v where "k < rc_max_retries config" "t < unat (max_total_retry_time config)" "f k = Inr v"
    | e where "k < rc_max_retries config" "t < unat (max_total_retry_time config)" "f k = Inl e"
    by (cases "f k"; meson not_le)
  then show ?case
  proof cases
    case 1
    with eq "1.prems"(2) show ?thesis by (auto split: if_splits)
  next
    case 2
    with eq show ?thesis by auto
  next
    case 3
    obtain cb1 ok where c: "can_execute (clock k) (record_failure (clock k) cb) = (cb1, ok)"
      by (cases "can_execute (clock k) (record_failure (clock k) cb)")
    show ?thesis
    proof (cases "ok \<and> retryable e")
      case True
      with eq 3 c have rest: "retry_loop config f retryable clock start (k + 1) (clock k - start) (Some e) cb1
          = (r, cb', n)" by simp
      from "1.IH" [OF refl _ _ 3(3) refl c [symmetric] _ _ rest] 3 True
      have "k + 1 \<le> n \<and> n \<le> rc_max_retries config
         \<and> (\<forall>v. r = Inr v \<longrightarrow> k + 1 < n \<and> f (n - 1) = Inr v)
         \<and> (\<forall>j. k + 1 \<le> j \<and> j + 1 < n \<longrightarrow> (\<exists>e. f j = Inl e \<and> retryable e))" by simp
      moreover have "\<exists>e. f j = Inl e \<and> retryable e" if "j = k" for j using 3(3) True that by simp
      moreover have "k \<le> j \<longleftrightarrow> j = k \<or> k + 1 \<le> j" for j by auto
      ultimately show ?thesis by force
    next
      case False
      with eq 3 c show ?thesis by (auto split: if_splits)
    qed
  qed
qed

lemma retry_async_open:
  "state (get_circuit_breaker start policy endpoint) = Open \<Longrightarrow>
     retry_async policy endpoint f retryable clock start
       = (Inl (Breaker_open endpoint),
          policy\<lparr>circuit_breakers := (circuit_breakers policy)(endpoint \<mapsto> get_circuit_breaker start policy endpoint)\<rparr>, 0)"
  by (simp add: retry_async_def can_execute_open)

section \<open>Retrying a blockchain operation\<close>

datatype blockchain_error =
    RPCConnection string | TransactionRejected string | LowGas string | InvalidNonce string
  | InsufficientBalance string | ContractError string | Timeout string | OtherError string

text \<open>The classification by the error's text, the same in the loop and for a JSON-RPC client error.\<close>

definition classify_error :: "string \<Rightarrow> blockchain_error" where
  "classify_error e =
     (if contains_str e ''insufficient funds'' then InsufficientBalance e
      else if contains_str e ''gas required exceeds allowance'' then InsufficientBalance e
      else if contains_str e ''nonce'' then InvalidNonce e
      else if contains_str e ''underpriced'' \<or> contains_str e ''gas price'' then LowGas e
      else if contains_str e ''execution reverted'' then ContractError e
      else if contains_str e ''connection'' \<or> contains_str e ''timeout'' \<or> contains_str e ''rate limit''
        then RPCConnection e
      else OtherError e)"

fun is_retryable :: "blockchain_error \<Rightarrow> bool" where
  "is_retryable (RPCConnection e) = True"
| "is_retryable (LowGas e) = True"
| "is_retryable (InvalidNonce e) = True"
| "is_retryable (Timeout e) = True"
| "is_retryable _ = False"

text \<open>\<open>U256\<close> arithmetic panics on overflow.\<close>

definition adjust_gas_for_retry :: "blockchain_error \<Rightarrow> u256 \<Rightarrow> u256 res" where
  "adjust_gas_for_retry err g =
     (case err of
        LowGas _ \<Rightarrow> rbind (mul_ov g 20) (\<lambda>p. rbind (div_ov p 100) (\<lambda>q. add_ov g q))
      | _ \<Rightarrow> Inr g)"

text \<open>
  The loop of \<open>retry_blockchain_operation\<close>: \<open>f k gas\<close> is the outcome of the attempt after \<open>k\<close>
  failures, called with the gas price \<open>gas\<close>. The second result lists the gas prices of the
  attempts.
\<close>

function retry_blockchain_loop ::
    "(nat \<Rightarrow> u256 option \<Rightarrow> string + 'v) \<Rightarrow> nat \<Rightarrow> nat \<Rightarrow> u256 option
       \<Rightarrow> ((blockchain_error + 'v) \<times> u256 option list) res" where
  "retry_blockchain_loop f max_retries retries g =
     (case f retries g of
        Inr v \<Rightarrow> Inr (Inr v, [g])
      | Inl msg \<Rightarrow>
          let err = classify_error msg; retries = retries + 1 in
          if max_retries \<le> retries \<or> \<not> is_retryable err then Inr (Inl err, [g])
          else rbind (case g of None \<Rightarrow> Inr None
                      | Some p \<Rightarrow> rbind (adjust_gas_for_retry err p) (\<lambda>p. Inr (Some p))) (\<lambda>g'.
               rbind (retry_blockchain_loop f max_retries retries g') (\<lambda>(r, gs). Inr (r, g # gs))))"
  by pat_completeness auto
termination by (relation "measure (\<lambda>(f, m, r, g). m - r)") auto

declare retry_blockchain_loop.simps [simp del]

definition retry_blockchain_operation ::
    "(nat \<Rightarrow> u256 option \<Rightarrow> string + 'v) \<Rightarrow> u256 option \<Rightarrow> nat
       \<Rightarrow> ((blockchain_error + 'v) \<times> u256 option list) res" where
  "retry_blockchain_operation f initial_gas_price max_retries =
     retry_blockchain_loop f (if max_retries = 0 then 3 else max_retries) 0 initial_gas_price"

text \<open>The gas price an attempt with a given one may be followed by.\<close>

fun gas_le :: "u256 option \<Rightarrow> u256 option \<Rightarrow> bool" where
  "gas_le None None = True"
| "gas_le (Some a) (Some b) = (a \<le> b)"
| "gas_le _ _ = False"

lemma gas_le_refl [simp]: "gas_le g g"
  by (cases g) auto

lemma gas_le_trans: "gas_le a b \<Longrightarrow> gas_le b c \<Longrightarrow> gas_le a c"
  by (cases a; cases b; cases c) auto

lemma adjust_gas_le: "adjust_gas_for_retry err g = Inr g' \<Longrightarrow> g \<le> g'"
  by (auto simp: adjust_gas_for_retry_def ovf word_le_nat_alt split: blockchain_error.splits)

lemma retry_blockchain_loop_result:
  assumes "retry_blockchain_loop f m k g = Inr (r, gs)" and "k < m"
  shows "gs \<noteq> [] \<and> hd gs = g \<and> k + length gs \<le> m \<and> sorted_wrt gas_le gs
         \<and> (\<forall>v. r = Inr v \<longleftrightarrow> f (k + length gs - 1) (last gs) = Inr v)
         \<and> (\<forall>i < length gs - 1. \<exists>e. f (k + i) (gs ! i) = Inl e \<and> is_retryable (classify_error e))"
  using assms
proof (induction f m k g arbitrary: r gs rule: retry_blockchain_loop.induct)
  case (1 f m k g)
  note eq = "1.prems"(1) [unfolded retry_blockchain_loop.simps [of f m k g] Let_def]
  show ?case
  proof (cases "f k g")
    case (Inr v)
    with eq 1 show ?thesis by auto
  next
    case (Inl msg)
    show ?thesis
    proof (cases "m \<le> k + 1 \<or> \<not> is_retryable (classify_error msg)")
      case True
      with eq Inl 1 show ?thesis by (auto split: if_splits)
    next
      case False
      with eq Inl obtain g' gs' where
        g': "(case g of None \<Rightarrow> Inr None | Some p \<Rightarrow>
               rbind (adjust_gas_for_retry (classify_error msg) p) (\<lambda>p. Inr (Some p))) = Inr g'"
        and rest: "retry_blockchain_loop f m (k + 1) g' = Inr (r, gs')" and gs: "gs = g # gs'"
        by (auto split: if_splits)
      from g' have le: "gas_le g g'" by (auto dest: adjust_gas_le split: option.splits)
      from "1.IH" [OF Inl refl refl _ g' rest] False
      have IH: "gs' \<noteq> []" "hd gs' = g'" "k + 1 + length gs' \<le> m" "sorted_wrt gas_le gs'"
        "\<forall>v. r = Inr v \<longleftrightarrow> f (k + length gs') (last gs') = Inr v"
        "\<forall>i < length gs' - 1. \<exists>e. f (k + 1 + i) (gs' ! i) = Inl e \<and> is_retryable (classify_error e)"
        by auto
      from IH(1,2,4) le have "\<forall>x\<in>set gs'. gas_le g x"
        by (cases gs') (auto intro: gas_le_trans)
      moreover have "\<exists>e. f (k + i) (gs ! i) = Inl e \<and> is_retryable (classify_error e)"
        if "i < length gs - 1" for i
        using that IH(6) Inl False gs by (cases i) auto
      ultimately show ?thesis using IH gs by auto
    qed
  qed
qed

section \<open>Rotation over RPC endpoints\<close>

definition is_connection_error :: "string \<Rightarrow> bool" where
  "is_connection_error e \<longleftrightarrow>
     contains_str e ''connection'' \<or> contains_str e ''timeout'' \<or> contains_str e ''rate limit''"

text \<open>\<open>f k url\<close>: the outcome of the \<open>k\<close>-th attempt. The second result lists the endpoints tried.\<close>

fun try_backups :: "(nat \<Rightarrow> string \<Rightarrow> string + 'v) \<Rightarrow> nat \<Rightarrow> string list \<Rightarrow> string
    \<Rightarrow> (string + 'v) \<times> string list" where
  "try_backups f k [] primary_error = (Inl primary_error, [])"
| "try_backups f k (url # urls) primary_error =
     (case f k url of
        Inr v \<Rightarrow> (Inr v, [url])
      | Inl e \<Rightarrow> let (r, tried) = try_backups f (k + 1) urls primary_error in (r, url # tried))"

definition with_rpc_rotation ::
    "string \<Rightarrow> string list \<Rightarrow> (nat \<Rightarrow> string \<Rightarrow> string + 'v) \<Rightarrow> (string + 'v) \<times> string list" where
  "with_rpc_rotation primary_url backup_urls f =
     (case f 0 primary_url of
        Inr v \<Rightarrow> (Inr v, [primary_url])
      | Inl e \<Rightarrow>
          if \<not> is_connection_error e then (Inl e, [primary_url])
          else let (r, tried) = try_backups f 1 backup_urls e in (r, primary_url # tried))"

section \<open>The pool of RPC endpoints\<close>

text \<open>
  \<open>probe url\<close> is whether the endpoint answered and the latency in milliseconds; the sort is
  stable and puts the available ones first, by latency. Clock readings are milliseconds, as
  integers: the pool is created an hour in the past. \<open>get_best_url\<close> answers \<open>None\<close> for its error.
\<close>

definition check_rpc_availability ::
    "(string \<Rightarrow> bool \<times> u128) \<Rightarrow> string list \<Rightarrow> (string \<times> bool \<times> u128) list" where
  "check_rpc_availability probe urls =
     sort_key (\<lambda>(url, available, latency). (\<not> available, latency)) (map (\<lambda>url. (url, probe url)) urls)"

record rpc_pool =
  urls :: "(string \<times> u32) list"
  last_checked :: int
  availability :: "(string \<times> bool \<times> u128) list"

definition new_rpc_pool :: "int \<Rightarrow> (string \<times> u32) list \<Rightarrow> rpc_pool" where
  "new_rpc_pool now us = \<lparr> urls = us, last_checked = now - 3600000, availability = [] \<rparr>"

definition check_availability :: "int \<Rightarrow> (string \<Rightarrow> bool \<times> u128) \<Rightarrow> rpc_pool \<Rightarrow> rpc_pool" where
  "check_availability now probe pool =
     pool\<lparr>availability := check_rpc_availability probe (map fst (urls pool)), last_checked := now\<rparr>"

definition get_best_url ::
    "int \<Rightarrow> (string \<Rightarrow> bool \<times> u128) \<Rightarrow> rpc_pool \<Rightarrow> rpc_pool \<times> string option" where
  "get_best_url now probe pool =
     (let pool = (if 600000 < now - last_checked pool then check_availability now probe pool else pool) in
      (pool, case List.find (\<lambda>(url, available, latency). available) (availability pool) of
               Some (url, _) \<Rightarrow> Some url
             | None \<Rightarrow> (case urls pool of (url, w) # _ \<Rightarrow> Some url
                                       | [] \<Rightarrow> None)))"

fun mark_first :: "string \<Rightarrow> (string \<times> bool \<times> u128) list \<Rightarrow> (string \<times> bool \<times> u128) list" where
  "mark_first url [] = []"
| "mark_first url ((u, a, l) # items) =
     (if u = url then (u, False, l) # items else (u, a, l) # mark_first url items)"

definition mark_unavailable :: "string \<Rightarrow> rpc_pool \<Rightarrow> rpc_pool" where
  "mark_unavailable url pool = pool\<lparr>availability := mark_first url (availability pool)\<rparr>"

definition all_urls :: "rpc_pool \<Rightarrow> string list" where
  "all_urls pool = map fst (urls pool)"

lemma try_backups_result:
  "try_backups f k us e = (r, tried) \<Longrightarrow>
     tried = take (length tried) us
     \<and> (case r of
          Inr v \<Rightarrow> tried \<noteq> [] \<and> f (k + length tried - 1) (last tried) = Inr v
                   \<and> (\<forall>i < length tried - 1. \<exists>e'. f (k + i) (tried ! i) = Inl e')
        | Inl e' \<Rightarrow> e' = e \<and> tried = us \<and> (\<forall>i < length us. \<exists>e'. f (k + i) (us ! i) = Inl e'))"
proof (induction us arbitrary: k r tried)
  case (Cons u us)
  show ?case
  proof (cases "f k u")
    case (Inl e0)
    obtain r' tried' where rest: "try_backups f (k + 1) us e = (r', tried')"
      by (cases "try_backups f (k + 1) us e")
    from Cons.prems Inl rest have [simp]: "r = r'" "tried = u # tried'" by simp_all
    have first: "(\<forall>i < length (u # xs). \<exists>e'. f (k + i) ((u # xs) ! i) = Inl e')"
      if "\<forall>i < length xs. \<exists>e'. f (k + 1 + i) (xs ! i) = Inl e'" for xs
      using that Inl by (auto simp: less_Suc_eq_0_disj)
    from Cons.IH [OF rest] Inl show ?thesis
      using first [of us] by (cases r'; cases tried') (auto simp: less_Suc_eq_0_disj)
  qed (use Cons.prems in \<open>auto split: sum.splits\<close>)
qed simp

lemma find_sorted:
  assumes "sorted (map k xs)" and "\<forall>x y. P x \<longrightarrow> k y \<le> k x \<longrightarrow> P y"
  shows "List.find P xs = None \<Longrightarrow> \<forall>x\<in>set xs. \<not> P x"
    and "List.find P xs = Some x \<Longrightarrow> x \<in> set xs \<and> P x \<and> (\<forall>y\<in>set xs. k x \<le> k y)"
proof -
  show "List.find P xs = None \<Longrightarrow> \<forall>x\<in>set xs. \<not> P x" by (simp add: find_None_iff)
  assume "List.find P xs = Some x"
  then show "x \<in> set xs \<and> P x \<and> (\<forall>y\<in>set xs. k x \<le> k y)"
    using assms(1)
  proof (induction xs)
    case (Cons a xs)
    show ?case
    proof (cases "P a")
      case False
      with Cons have "x \<in> set xs" "P x" by auto
      with Cons.prems(2) have "k a \<le> k x" by simp
      with assms(2) \<open>P x\<close> False show ?thesis by blast
    qed (use Cons.prems in auto)
  qed simp
qed

lemma check_rpc_sorted:
  "sorted (map (\<lambda>(u, a, l). (\<not> a, l)) (check_rpc_availability probe us))"
  "set (check_rpc_availability probe us) = (\<lambda>u. (u, probe u)) ` set us"
  by (simp_all add: check_rpc_availability_def)

lemma get_best_url_checked:
  assumes "600000 < now - last_checked pool" and "get_best_url now probe pool = (pool', Some u)"
  shows "u \<in> set (all_urls pool)
         \<and> (\<forall>v\<in>set (all_urls pool). fst (probe v) \<longrightarrow> fst (probe u) \<and> snd (probe u) \<le> snd (probe v))"
proof -
  let ?l = "check_rpc_availability probe (all_urls pool)"
  let ?k = "\<lambda>(u, a, l). (\<not> a, l)"
  let ?P = "\<lambda>(u :: string, a, l :: u128). a"
  have mono: "\<forall>x y. ?P x \<longrightarrow> ?k y \<le> ?k x \<longrightarrow> ?P y" by auto
  note sel = find_sorted [where k = ?k and P = ?P and xs = ?l, OF check_rpc_sorted(1) mono]
  have best: "(case List.find (\<lambda>(url, available, latency). available) ?l of
               Some (url, _) \<Rightarrow> Some url
             | None \<Rightarrow> (case urls pool of (url, w) # _ \<Rightarrow> Some url | [] \<Rightarrow> None)) = Some u"
    using assms by (simp add: get_best_url_def check_availability_def all_urls_def Let_def cong: option.case_cong)
  show ?thesis
  proof (cases "List.find (\<lambda>(url, available, latency). available) ?l")
    case None
    with sel(1) have "\<forall>v\<in>set (all_urls pool). \<not> fst (probe v)"
      by (fastforce simp: check_rpc_sorted(2))
    moreover from best None have "u \<in> set (all_urls pool)"
      by (cases "urls pool") (auto simp: all_urls_def)
    ultimately show ?thesis by blast
  next
    case (Some x)
    with sel(2) have x: "x \<in> set ?l" "?P x" "\<forall>y\<in>set ?l. ?k x \<le> ?k y" by blast+
    from best Some have "u = fst x" by (cases x) simp
    moreover from x(1) obtain v where "v \<in> set (all_urls pool)" "x = (v, probe v)"
      by (auto simp: check_rpc_sorted(2))
    ultimately show ?thesis using x(2,3)
      by (fastforce simp: check_rpc_sorted(2) split_beta)
  qed
qed

section \<open>The shared retry policy and its breaker\<close>

text \<open>
  \<^verbatim>\<open>common/src/retry_policy.rs\<close>. The fields only the waiting time and the logs read
  (\<open>jitter\<close>, \<open>backoff_factor\<close>, \<open>created_at\<close>, \<open>total_time\<close>, \<open>average_retries\<close>) are left out.
\<close>

record shared_retry_config =
  src_max_retries :: u32
  initial_delay :: u64
  max_delay :: u64
  enabled :: bool

record retry_metrics =
  total_retries :: u64
  successful_retries :: u64
  failed_retries :: u64

definition default_shared_config :: shared_retry_config where
  "default_shared_config =
     \<lparr> src_max_retries = 5, initial_delay = 100, max_delay = 10000, enabled = True \<rparr>"

function shared_retry_loop ::
    "(nat \<Rightarrow> 'e + 'v) \<Rightarrow> u32 \<Rightarrow> nat \<Rightarrow> retry_metrics \<Rightarrow> ('e + 'v) \<times> retry_metrics \<times> nat" where
  "shared_retry_loop f max_retries retries m =
     (case f retries of
        Inr v \<Rightarrow> (Inr v, m\<lparr>total_retries := total_retries m + of_nat retries,
                          successful_retries := successful_retries m + 1\<rparr>, retries + 1)
      | Inl e \<Rightarrow>
          if unat max_retries \<le> retries
          then (Inl e, m\<lparr>total_retries := total_retries m + of_nat retries,
                         failed_retries := failed_retries m + 1\<rparr>, retries + 1)
          else shared_retry_loop f max_retries (retries + 1) m)"
  by pat_completeness auto
termination by (relation "measure (\<lambda>(f, n, r, m). unat n - r)") auto

declare shared_retry_loop.simps [simp del]

definition shared_retry ::
    "shared_retry_config \<Rightarrow> (nat \<Rightarrow> 'e + 'v) \<Rightarrow> retry_metrics \<Rightarrow> ('e + 'v) \<times> retry_metrics \<times> nat" where
  "shared_retry config f m =
     (if \<not> enabled config then (f 0, m, 1)
      else shared_retry_loop f (src_max_retries config) 0 m)"

lemma shared_retry_loop_result:
  "shared_retry_loop f n k m = (r, m', calls) \<Longrightarrow> k \<le> unat n \<Longrightarrow>
     k < calls \<and> calls \<le> unat n + 1 \<and> r = f (calls - 1)
     \<and> (\<forall>j. k \<le> j \<and> j + 1 < calls \<longrightarrow> (\<exists>e. f j = Inl e))
     \<and> total_retries m' = total_retries m + of_nat (calls - 1)
     \<and> ((\<exists>e. r = Inl e) \<longrightarrow> calls = unat n + 1)"
proof (induction f n k m arbitrary: r m' calls rule: shared_retry_loop.induct)
  case (1 f n k m)
  note eq = "1.prems"(1) [unfolded shared_retry_loop.simps [of f n k m]]
  show ?case
  proof (cases "f k")
    case (Inl e)
    show ?thesis
    proof (cases "unat n \<le> k")
      case True
      with eq Inl have "r = f k" "calls = k + 1" "total_retries m' = total_retries m + of_nat k" by auto
      moreover from True "1.prems"(2) have "k = unat n" by simp
      ultimately show ?thesis by auto
    next
      case False
      with eq Inl have rest: "shared_retry_loop f n (k + 1) m = (r, m', calls)" by simp
      have "k + 1 \<le> unat n" using False by simp
      from "1.IH" [OF Inl False rest this]
      have IH: "k + 1 < calls" "calls \<le> unat n + 1" "r = f (calls - 1)"
        "\<forall>j. k + 1 \<le> j \<and> j + 1 < calls \<longrightarrow> (\<exists>e. f j = Inl e)"
        "total_retries m' = total_retries m + of_nat (calls - 1)"
        "(\<exists>e. r = Inl e) \<longrightarrow> calls = unat n + 1" by blast+
      have "\<exists>e. f j = Inl e" if "k \<le> j" "j + 1 < calls" for j
        using IH(4) Inl that by (cases "j = k") auto
      moreover from IH(1) have "k < calls" by simp
      ultimately show ?thesis using IH(2,3,5,6) by blast
    qed
  next
    case (Inr v)
    with eq have "r = f k" "calls = k + 1" "total_retries m' = total_retries m + of_nat k" by auto
    moreover from Inr \<open>r = f k\<close> have "\<not> (\<exists>e. r = Inl e)" by simp
    ultimately show ?thesis using "1.prems"(2) by auto
  qed
qed

text \<open>
  The breaker: \<open>on_failure\<close> spawns a task that, \<open>reset_timeout\<close> later, sets the state to half-open
  whatever it is then; \<open>timers\<close> holds the due times of the tasks that have not run.
\<close>

record shared_breaker =
  failure_threshold :: u32
  reset_timeout :: u64
  sb_state :: breaker_state
  timers :: "nat list"

definition new_shared_breaker :: "u32 \<Rightarrow> u64 \<Rightarrow> shared_breaker" where
  "new_shared_breaker threshold timeout =
     \<lparr> failure_threshold = threshold, reset_timeout = timeout, sb_state = Closed, timers = [] \<rparr>"

definition sb_can_execute :: "shared_breaker \<Rightarrow> bool" where
  "sb_can_execute b \<longleftrightarrow> sb_state b \<noteq> Open"

definition on_success :: "shared_breaker \<Rightarrow> shared_breaker" where
  "on_success b = (if sb_state b = HalfOpen then b\<lparr>sb_state := Closed\<rparr> else b)"

definition on_failure :: "nat \<Rightarrow> shared_breaker \<Rightarrow> shared_breaker" where
  "on_failure now b =
     (if sb_state b = Closed
      then b\<lparr>sb_state := Open, timers := timers b @ [now + unat (reset_timeout b)]\<rparr> else b)"

definition run_timer :: "nat \<Rightarrow> shared_breaker \<Rightarrow> shared_breaker" where
  "run_timer now b =
     (case timers b of
        t # ts \<Rightarrow> if t \<le> now then b\<lparr>sb_state := HalfOpen, timers := ts\<rparr> else b
      | [] \<Rightarrow> b)"

datatype shared_op = Probe | Success | Failure nat | Timer nat

fun exec_shared :: "shared_op \<Rightarrow> shared_breaker \<Rightarrow> shared_breaker \<times> bool option" where
  "exec_shared Probe b = (b, Some (sb_can_execute b))"
| "exec_shared Success b = (on_success b, None)"
| "exec_shared (Failure now) b = (on_failure now b, None)"
| "exec_shared (Timer now) b = (run_timer now b, None)"

fun is_timer :: "shared_op \<Rightarrow> bool" where
  "is_timer (Timer now) = True"
| "is_timer c = False"

interpretation shared_policy_breaker: breaker exec_shared "\<lambda>b. sb_state b = Open" is_timer
proof
  fix b b' :: shared_breaker and c r
  assume "sb_state b = Open" "\<not> is_timer c" "exec_shared c b = (b', r)"
  then have "sb_state b' = Open \<and> r \<noteq> Some True"
    by (cases c) (auto simp: on_success_def on_failure_def sb_can_execute_def)
  then show "sb_state b' = Open" "r \<noteq> Some True" by simp_all
qed

section \<open>Properties\<close>

text \<open>C27. A retried operation runs at most \<open>max_retries\<close> times (not once more); a success is the
  outcome of its last attempt, and every attempt before the last failed with a retryable error.
  While the endpoint's breaker is open the operation is not attempted at all.\<close>

theorem retry_async_bounded:
  assumes "retry_async policy endpoint f retryable clock start = (r, policy', n)"
  shows "n \<le> rc_max_retries (rp_config policy)
         \<and> (\<forall>v. r = Inr v \<longrightarrow> 0 < n \<and> f (n - 1) = Inr v)
         \<and> (\<forall>j. j + 1 < n \<longrightarrow> (\<exists>e. f j = Inl e \<and> retryable e))
         \<and> (state (get_circuit_breaker start policy endpoint) = Open
              \<longrightarrow> n = 0 \<and> r = Inl (Breaker_open endpoint))"
proof -
  obtain cb ok where c: "can_execute start (get_circuit_breaker start policy endpoint) = (cb, ok)"
    by (cases "can_execute start (get_circuit_breaker start policy endpoint)")
  have blocked: "n = 0 \<and> r = Inl (Breaker_open endpoint)"
    if "state (get_circuit_breaker start policy endpoint) = Open"
    using retry_async_open [OF that, of f retryable clock] assms by simp
  show ?thesis
  proof (cases ok)
    case True
    obtain r' cb' n' where l: "retry_loop (rp_config policy) f retryable clock start 0 0 None cb = (r', cb', n')"
      by (cases "retry_loop (rp_config policy) f retryable clock start 0 0 None cb")
    with assms c True have "r' = r" "n' = n" by (simp_all add: retry_async_def)
    with retry_loop_result [OF l] blocked show ?thesis by auto
  qed (use assms c blocked in \<open>auto simp: retry_async_def\<close>)
qed

definition demo_policy :: retry_policy where
  "demo_policy = new_policy (default_retry_config\<lparr>rc_max_retries := 3\<rparr>)"

definition flaky :: "nat \<Rightarrow> string + nat" where
  "flaky k = (if k < 2 then Inl ''timeout'' else Inr 42)"

theorem retry_async_bounded_witness:
  "\<exists>r policy' n. retry_async demo_policy ''rpc'' flaky (\<lambda>e. True) (\<lambda>k. 1000 * k) 0 = (r, policy', n)
     \<and> n \<le> 3 \<and> (\<forall>v. r = Inr v \<longrightarrow> 0 < n \<and> flaky (n - 1) = Inr v)"
proof -
  obtain r policy' n where e: "retry_async demo_policy ''rpc'' flaky (\<lambda>e. True) (\<lambda>k. 1000 * k) 0 = (r, policy', n)"
    by (cases "retry_async demo_policy ''rpc'' flaky (\<lambda>e. True) (\<lambda>k. 1000 * k) 0")
  from retry_async_bounded [OF e] e show ?thesis by (auto simp: demo_policy_def new_policy_def)
qed

text \<open>A blockchain operation is tried at least once and at most \<open>max_retries\<close> times (three for
  zero); the offered gas price never falls from one attempt to the next; every attempt but the
  last failed with a retryable error, and the result is a success exactly when the last attempt
  is, with its value.\<close>

lemma retry_blockchain_bounded:
  assumes "retry_blockchain_operation f initial_gas max_retries = Inr (r, gs)"
  shows "gs \<noteq> [] \<and> hd gs = initial_gas \<and> length gs \<le> (if max_retries = 0 then 3 else max_retries)
         \<and> sorted_wrt gas_le gs
         \<and> (\<forall>v. r = Inr v \<longleftrightarrow> f (length gs - 1) (last gs) = Inr v)
         \<and> (\<forall>i < length gs - 1. \<exists>e. f i (gs ! i) = Inl e \<and> is_retryable (classify_error e))"
  using retry_blockchain_loop_result [OF assms [unfolded retry_blockchain_operation_def]] by auto

definition cheap_gas :: "nat \<Rightarrow> u256 option \<Rightarrow> string + nat" where
  "cheap_gas k g = (if k = 0 then Inl ''underpriced'' else Inr 7)"

text \<open>When its last check is more than ten minutes old, the pool probes its endpoints and
  answers one of them; if any endpoint is available, the answer is, and none that is available
  has a lower latency.\<close>

lemma rpc_pool_best_url:
  assumes "600000 < now - last_checked pool" and "get_best_url now probe pool = (pool', Some u)"
  shows "u \<in> set (all_urls pool)
         \<and> (\<forall>v\<in>set (all_urls pool). fst (probe v) \<longrightarrow> fst (probe u) \<and> snd (probe u) \<le> snd (probe v))"
  using get_best_url_checked [OF assms] .

definition demo_probe :: "string \<Rightarrow> bool \<times> u128" where
  "demo_probe url = (url \<noteq> ''a'', if url = ''b'' then 80 else 20)"

text \<open>The shared breaker opens at its first failure, whatever its failure threshold; once its
  timer has made it half-open, no number of failures opens it again.\<close>

lemma shared_breaker_first_failure:
  "(let b = on_failure now (new_shared_breaker threshold timeout);
        h = run_timer (now + unat timeout) b in
    \<not> sb_can_execute b \<and> sb_state h = HalfOpen \<and> sb_can_execute ((on_failure later ^^ n) h))"
proof -
  have "sb_state b = HalfOpen \<Longrightarrow> (on_failure later ^^ n) b = b" for b :: shared_breaker
    by (induction n) (simp_all add: on_failure_def)
  then show ?thesis
    by (simp add: on_failure_def new_shared_breaker_def run_timer_def sb_can_execute_def Let_def)
qed

end
