(* ===== verification/RateLimit.thy ===== *)
theory RateLimit
  imports Prelude
begin

text \<open>
  The fixed-window rate limiters of \<^verbatim>\<open>common/src/middleware/rate_limit.rs\<close> (an async lock, with
  periodic cleanup and the axum middleware around it) and of \<^verbatim>\<open>snipebot/src/rate_limit.rs\<close> (a lock
  that is only tried). Both are shown to satisfy one contract, from which the number of accepted
  requests of a window follows. Times are seconds since the epoch; \<open>now - window_start\<close> is a
  \<open>u64\<close> difference that wraps when the clock has been set back.
\<close>

section \<open>The contract of a window limiter\<close>

text \<open>
  \<open>entry s k\<close> is the counter and the start of the current window of a key. A request opens a new
  window when there is none or the old one is over, is counted while the limit is not reached,
  and is refused without a change otherwise; other keys are not affected.
\<close>

type_synonym window = "nat \<times> u64"

fun admit :: "nat \<Rightarrow> u64 \<Rightarrow> u64 \<Rightarrow> window option \<Rightarrow> window option \<times> bool" where
  "admit limit wsize now None = (Some (1, now), True)"
| "admit limit wsize now (Some (c, start)) =
     (if wsize \<le> now - start then (Some (1, now), True)
      else if c < limit then (Some (c + 1, start), True)
      else (Some (c, start), False))"

text \<open>The answers to a sequence of requests, each with its time and its key.\<close>

fun answers :: "(u64 \<Rightarrow> 'k \<Rightarrow> 's \<Rightarrow> 's \<times> bool) \<Rightarrow> 's \<Rightarrow> (u64 \<times> 'k) list \<Rightarrow> (u64 \<times> 'k \<times> bool) list" where
  "answers check s [] = []"
| "answers check s ((t, k) # rs) = (let (s', b) = check t k s in (t, k, b) # answers check s' rs)"

definition accepted :: "'k \<Rightarrow> (u64 \<times> 'k \<times> bool) list \<Rightarrow> nat" where
  "accepted k as = length (filter (\<lambda>(t, k', b). k' = k \<and> b) as)"

definition requests :: "'k \<Rightarrow> (u64 \<times> 'k) list \<Rightarrow> nat" where
  "requests k rs = length (filter (\<lambda>(t, k'). k' = k) rs)"

lemma accepted_simps [simp]:
  "accepted k [] = 0" "accepted k ((t, k', b) # as) = (if k' = k \<and> b then 1 else 0) + accepted k as"
  by (simp_all add: accepted_def)

lemma requests_simps [simp]:
  "requests k [] = 0" "requests k ((t, k') # rs) = (if k' = k then 1 else 0) + requests k rs"
  by (simp_all add: requests_def)

text \<open>All times of a sequence fall into the window that starts at \<open>start\<close>.\<close>

definition within :: "u64 \<Rightarrow> u64 \<Rightarrow> (u64 \<times> 'k) list \<Rightarrow> bool" where
  "within start wsize rs \<longleftrightarrow> (\<forall>(t, k)\<in>set rs. t - start < wsize)"

locale window_limiter =
  fixes check :: "nat \<Rightarrow> u64 \<Rightarrow> u64 \<Rightarrow> 'k \<Rightarrow> 's \<Rightarrow> 's \<times> bool"
    and entry :: "'s \<Rightarrow> 'k \<Rightarrow> window option"
  assumes check_admit: "check limit wsize now k s = (s', b) \<Longrightarrow> (entry s' k, b) = admit limit wsize now (entry s k)"
    and check_other: "check limit wsize now k s = (s', b) \<Longrightarrow> k' \<noteq> k \<Longrightarrow> entry s' k' = entry s k'"
begin

lemma accepted_running:
  assumes "entry s k = Some (c, start)" and "within start wsize rs"
  shows "accepted k (answers (check limit wsize) s rs) = min (requests k rs) (limit - c)"
  using assms
proof (induction rs arbitrary: s c)
  case (Cons r rs)
  obtain t k' where r: "r = (t, k')" by (cases r)
  obtain s' b where c: "check limit wsize t k' s = (s', b)" by (cases "check limit wsize t k' s")
  from Cons.prems(2) r have t: "\<not> wsize \<le> t - start" and rest: "within start wsize rs"
    by (auto simp: within_def not_le)
  show ?case
  proof (cases "k' = k")
    case True
    from check_admit [OF c] Cons.prems(1) t True
    have "entry s' k = Some (if c < limit then c + 1 else c, start)" "b \<longleftrightarrow> c < limit"
      by (auto split: if_splits)
    with Cons.IH [OF _ rest] c r True show ?thesis by auto
  next
    case False
    from check_other [OF c, of k] Cons.prems(1) False have "entry s' k = Some (c, start)" by simp
    from Cons.IH [OF this rest] c r False show ?thesis by simp
  qed
qed simp

lemma accepted_fresh:
  assumes "entry s k = None \<or> (\<exists>c start. entry s k = Some (c, start) \<and> wsize \<le> t - start)"
    and "within t wsize rs"
  shows "accepted k (answers (check limit wsize) s ((t, k) # rs)) = min (requests k rs + 1) (max 1 limit)"
proof -
  obtain s' b where c: "check limit wsize t k s = (s', b)" by (cases "check limit wsize t k s")
  from check_admit [OF c] assms(1) have "entry s' k = Some (1, t)" "b" by auto
  from accepted_running [OF this(1) assms(2)] this(2) c show ?thesis by (auto simp: min_def max_def)
qed

end

section \<open>The limiter of the common library\<close>

record rate_limit_data =
  rl_count :: nat
  window_start :: u64

type_synonym rate_cache = "string \<rightharpoonup> rate_limit_data"

definition check_rate_limit :: "nat \<Rightarrow> u64 \<Rightarrow> u64 \<Rightarrow> string \<Rightarrow> rate_cache \<Rightarrow> rate_cache \<times> bool" where
  "check_rate_limit limit window_size now key rate_limits =
     (case rate_limits key of
        Some data \<Rightarrow>
          if window_size \<le> now - window_start data
          then (rate_limits(key \<mapsto> \<lparr> rl_count = 1, window_start = now \<rparr>), True)
          else if rl_count data < limit
          then (rate_limits(key \<mapsto> \<lparr> rl_count = rl_count data + 1, window_start = window_start data \<rparr>), True)
          else (rate_limits, False)
      | None \<Rightarrow> (rate_limits(key \<mapsto> \<lparr> rl_count = 1, window_start = now \<rparr>), True))"

record rate_limiter =
  rl_window_size :: u64
  cleanup_interval :: u64
  last_cleanup :: u64

definition new_rate_limiter :: "u64 \<Rightarrow> u64 \<Rightarrow> u64 \<Rightarrow> rate_limiter" where
  "new_rate_limiter now window_size interval =
     \<lparr> rl_window_size = window_size, cleanup_interval = interval, last_cleanup = now \<rparr>"

definition cleanup :: "u64 \<Rightarrow> rate_limiter \<Rightarrow> rate_cache \<Rightarrow> rate_cache" where
  "cleanup now self cache =
     (\<lambda>k. case cache k of
            Some data \<Rightarrow> if now - window_start data < rl_window_size self then Some data else None
          | None \<Rightarrow> None)"

text \<open>\<open>now\<close> is read by the check, \<open>later\<close> for the cleanup; the cache is the global one.\<close>

definition check_limit :: "u64 \<Rightarrow> u64 \<Rightarrow> string \<Rightarrow> nat \<Rightarrow> rate_limiter \<Rightarrow> rate_cache
    \<Rightarrow> rate_limiter \<times> rate_cache \<times> bool" where
  "check_limit now later key limit self cache =
     (let (cache, result) = check_rate_limit limit (rl_window_size self) now key cache in
      if cleanup_interval self < later - last_cleanup self
      then (self\<lparr>last_cleanup := later\<rparr>, cleanup later self cache, result)
      else (self, cache, result))"

text \<open>
  The middlewares: the key of a request comes from the caller's function or is the client's
  address; \<open>next\<close> answers an accepted request.
\<close>

definition rate_limit_middleware ::
    "('req \<Rightarrow> string) \<Rightarrow> nat \<Rightarrow> u64 \<Rightarrow> 'e \<Rightarrow> ('req \<Rightarrow> 'resp) \<Rightarrow> u64 \<Rightarrow> 'req \<Rightarrow> rate_cache
       \<Rightarrow> rate_cache \<times> ('e + 'resp)" where
  "rate_limit_middleware key_extractor limit window_size error_response next_handler now request cache =
     (let (cache, allowed) = check_rate_limit limit window_size now (key_extractor request) cache in
      (cache, if allowed then Inr (next_handler request) else Inl error_response))"

definition ip_rate_limit_middleware ::
    "('req \<Rightarrow> string option) \<Rightarrow> nat \<Rightarrow> u64 \<Rightarrow> 'e \<Rightarrow> ('req \<Rightarrow> 'resp) \<Rightarrow> u64 \<Rightarrow> 'req \<Rightarrow> rate_cache
       \<Rightarrow> rate_cache \<times> ('e + 'resp)" where
  "ip_rate_limit_middleware extract_client_ip limit window_size error_response next_handler now request cache =
     (let ip = (case extract_client_ip request of Some a \<Rightarrow> a | None \<Rightarrow> ''unknown'');
          (cache, allowed) = check_rate_limit limit window_size now ip cache in
      (cache, if allowed then Inr (next_handler request) else Inl error_response))"

definition cache_entry :: "rate_cache \<Rightarrow> string \<Rightarrow> window option" where
  "cache_entry cache k = map_option (\<lambda>d. (rl_count d, window_start d)) (cache k)"

interpretation common_limiter: window_limiter check_rate_limit cache_entry
  by unfold_locales
    (auto simp: check_rate_limit_def cache_entry_def split: option.splits if_splits)

section \<open>The limiter of the bot\<close>

text \<open>
  \<open>clock\<close> is \<open>None\<close> when the system clock lies before the epoch, \<open>locked\<close> whether another thread
  holds the store's lock: both make the check answer \<open>true\<close> without counting.
\<close>

definition snipe_check ::
    "u64 option \<Rightarrow> bool \<Rightarrow> string \<Rightarrow> nat \<Rightarrow> u64 \<Rightarrow> rate_cache \<Rightarrow> rate_cache \<times> bool" where
  "snipe_check clock locked key limit window_seconds store =
     (case clock of
        None \<Rightarrow> (store, True)
      | Some now \<Rightarrow>
          if locked then (store, True)
          else (case store key of
                  Some data \<Rightarrow>
                    if window_seconds \<le> now - window_start data
                    then (store(key \<mapsto> data\<lparr>window_start := now, rl_count := 1\<rparr>), True)
                    else if rl_count data < limit
                    then (store(key \<mapsto> data\<lparr>rl_count := rl_count data + 1\<rparr>), True)
                    else (store, False)
                | None \<Rightarrow> (store(key \<mapsto> \<lparr> rl_count = 1, window_start = now \<rparr>), True)))"

definition cleanup_old_rate_limits :: "u64 option \<Rightarrow> bool \<Rightarrow> rate_cache \<Rightarrow> rate_cache" where
  "cleanup_old_rate_limits clock locked store =
     (case clock of
        None \<Rightarrow> store
      | Some now \<Rightarrow>
          if locked then store
          else (\<lambda>k. case store k of
                      Some data \<Rightarrow> if now - window_start data < 3600 then Some data else None
                    | None \<Rightarrow> None))"

interpretation snipe_limiter: window_limiter
  "\<lambda>limit wsize now key. snipe_check (Some now) False key limit wsize" cache_entry
  by unfold_locales
    (auto simp: snipe_check_def cache_entry_def split: option.splits if_splits)

text \<open>The answers to requests of one key, some of which find the store locked.\<close>

fun snipe_answers :: "string \<Rightarrow> nat \<Rightarrow> u64 \<Rightarrow> rate_cache \<Rightarrow> (u64 \<times> bool) list \<Rightarrow> bool list" where
  "snipe_answers key limit wsize store [] = []"
| "snipe_answers key limit wsize store ((now, locked) # rs) =
     (let (store', b) = snipe_check (Some now) locked key limit wsize store in
      b # snipe_answers key limit wsize store' rs)"

lemma snipe_check_locked [simp]: "snipe_check clock True key limit wsize store = (store, True)"
  by (simp add: snipe_check_def split: option.splits)

lemma snipe_answers_count:
  "length (filter id (snipe_answers key limit wsize store rs))
     = length (filter snd rs)
       + accepted key (answers (\<lambda>t k. snipe_check (Some t) False k limit wsize) store
           (map (\<lambda>(t, l). (t, key)) (filter (Not \<circ> snd) rs)))"
proof (induction rs arbitrary: store)
  case (Cons r rs)
  obtain t l where r: "r = (t, l)" by (cases r)
  obtain store' b where c: "snipe_check (Some t) False key limit wsize store = (store', b)"
    by (cases "snipe_check (Some t) False key limit wsize store")
  from Cons [of store] Cons [of store'] c r show ?case by (cases l) simp_all
qed simp

lemma requests_same [simp]: "requests k (map (\<lambda>(t, l). (t, k)) rs) = length rs"
  by (induction rs) auto

section \<open>Properties\<close>



text \<open>The bot's limiter fails open: in the window its first uncontended request opens, it
  accepts \<open>limit\<close> requests and, besides, every request that finds the store locked.\<close>

lemma snipe_limit_fails_open:
  assumes "store key = None \<or> (\<exists>d. store key = Some d \<and> wsize \<le> t - window_start d)"
    and "\<forall>(u, l)\<in>set rs. u - t < wsize"
  shows "length (filter id (snipe_answers key limit wsize store ((t, False) # rs)))
           = length (filter snd rs) + min (length (filter (Not \<circ> snd) rs) + 1) (max 1 limit)"
proof -
  have w: "within t wsize (map (\<lambda>(t, l). (t, key)) (filter (Not \<circ> snd) rs))"
    using assms(2) by (auto simp: within_def)
  have e: "cache_entry store key = None \<or> (\<exists>c start. cache_entry store key = Some (c, start) \<and> wsize \<le> t - start)"
    using assms(1) by (auto simp: cache_entry_def)
  show ?thesis
    using snipe_limiter.accepted_fresh [OF e w, of limit]
      snipe_answers_count [of key limit wsize store "(t, False) # rs"] by simp
qed

end
