(* ===== verification/NonceManager.thy ===== *)
theory NonceManager
  imports Prelude
begin

text \<open>
  The nonce manager of \<^verbatim>\<open>snipebot/src/chain_adapters/nonce_manager.rs\<close>. Every operation holds the
  global lock, so operations are atomic. Instants are milliseconds of a monotone clock. What
  the provider's \<open>get_transaction_count\<close> answers at the time of a call is an argument, \<open>None\<close> for
  a provider error. The increment of a \<open>U256\<close> panics on overflow.
\<close>

type_synonym address = "160 word"

record nonce_manager =
  nonces :: "address \<rightharpoonup> u256"
  cache_duration :: nat
  last_updates :: "address \<rightharpoonup> nat"

type_synonym chain_view = "address \<Rightarrow> u256 option"

definition new_nonce_manager :: "u64 \<Rightarrow> nonce_manager" where
  "new_nonce_manager cache_seconds =
     \<lparr> nonces = Map.empty, cache_duration = 1000 * unat cache_seconds, last_updates = Map.empty \<rparr>"

definition expired :: "nat \<Rightarrow> nonce_manager \<Rightarrow> address \<Rightarrow> bool" where
  "expired now self addr =
     (case last_updates self addr of Some t \<Rightarrow> cache_duration self < now - t | None \<Rightarrow> True)"

text \<open>The result \<open>None\<close> is the error \<open>get_nonce_from_chain\<close> returns.\<close>

definition get_next_nonce ::
    "nat \<Rightarrow> chain_view \<Rightarrow> address \<Rightarrow> nonce_manager \<Rightarrow> (nonce_manager \<times> u256 option) res" where
  "get_next_nonce now chain addr self =
     (case (if nonces self addr = None \<or> expired now self addr
            then (case chain addr of
                    None \<Rightarrow> None
                  | Some chain_nonce \<Rightarrow>
                      Some (self\<lparr>nonces := (nonces self)(addr \<mapsto> chain_nonce),
                                 last_updates := (last_updates self)(addr \<mapsto> now)\<rparr>))
            else Some self) of
        None \<Rightarrow> Inr (self, None)
      | Some self \<Rightarrow>
          rbind (expect (nonces self addr) ''called `Option::unwrap()` on a `None` value'') (\<lambda>current_nonce.
          rbind (add_ov current_nonce 1) (\<lambda>n.
          Inr (self\<lparr>nonces := (nonces self)(addr \<mapsto> n)\<rparr>, Some current_nonce))))"

definition update_nonce :: "nat \<Rightarrow> address \<Rightarrow> u256 \<Rightarrow> nonce_manager \<Rightarrow> nonce_manager" where
  "update_nonce now addr new_nonce self =
     self\<lparr>nonces := (nonces self)(addr \<mapsto>
            (case nonces self addr of Some nonce \<Rightarrow> max nonce new_nonce | None \<Rightarrow> new_nonce)),
          last_updates := (last_updates self)(addr \<mapsto> now)\<rparr>"

definition reset_nonce ::
    "nat \<Rightarrow> chain_view \<Rightarrow> address \<Rightarrow> nonce_manager \<Rightarrow> nonce_manager \<times> u256 option" where
  "reset_nonce now chain addr self =
     (case chain addr of
        None \<Rightarrow> (self, None)
      | Some chain_nonce \<Rightarrow>
          (self\<lparr>nonces := (nonces self)(addr \<mapsto> chain_nonce),
                last_updates := (last_updates self)(addr \<mapsto> now)\<rparr>, Some chain_nonce))"

definition has_cached_nonce :: "address \<Rightarrow> nonce_manager \<Rightarrow> bool" where
  "has_cached_nonce addr self \<longleftrightarrow> nonces self addr \<noteq> None"

definition cleanup_cache :: "nat \<Rightarrow> nonce_manager \<Rightarrow> nonce_manager" where
  "cleanup_cache now self =
     (let gone = (\<lambda>addr. last_updates self addr \<noteq> None \<and> expired now self addr) in
      self\<lparr>nonces := (\<lambda>addr. if gone addr then None else nonces self addr),
           last_updates := (\<lambda>addr. if gone addr then None else last_updates self addr)\<rparr>)"

datatype nonce_op =
    Get_next chain_view address | Update_nonce address u256 | Reset_nonce chain_view address | Cleanup_cache

text \<open>An operation at a time; the nonce it hands out for sending, with its address.\<close>

fun exec_nonce :: "nat \<times> nonce_op \<Rightarrow> nonce_manager \<Rightarrow> nonce_manager \<times> (address \<times> u256) option" where
  "exec_nonce (now, Get_next chain addr) self =
     (case get_next_nonce now chain addr self of
        Inl e \<Rightarrow> (self, None)
      | Inr (self', r) \<Rightarrow> (self', map_option (Pair addr) r))"
| "exec_nonce (now, Update_nonce addr n) self = (update_nonce now addr n self, None)"
| "exec_nonce (now, Reset_nonce chain addr) self = (fst (reset_nonce now chain addr self), None)"
| "exec_nonce (now, Cleanup_cache) self = (cleanup_cache now self, None)"

fun issued :: "address \<Rightarrow> nonce_manager \<Rightarrow> (nat \<times> nonce_op) list \<Rightarrow> u256 list" where
  "issued addr self [] = []"
| "issued addr self (c # cs) =
     (case exec_nonce c self of
        (self', Some (a, n)) \<Rightarrow> if a = addr then n # issued addr self' cs else issued addr self' cs
      | (self', None) \<Rightarrow> issued addr self' cs)"

fun resets_nonce :: "address \<Rightarrow> nat \<times> nonce_op \<Rightarrow> bool" where
  "resets_nonce addr (now, Reset_nonce chain a) \<longleftrightarrow> a = addr"
| "resets_nonce addr (now, c) \<longleftrightarrow> False"

text \<open>Every operation comes within the cache's duration after \<open>start\<close>, and none resets the address.\<close>

definition fresh_run :: "nat \<Rightarrow> nat \<Rightarrow> address \<Rightarrow> (nat \<times> nonce_op) list \<Rightarrow> bool" where
  "fresh_run start duration addr cs \<longleftrightarrow>
     (\<forall>c\<in>set cs. start \<le> fst c \<and> fst c \<le> start + duration \<and> \<not> resets_nonce addr c)"

text \<open>The cached nonce of an address that was refreshed at \<open>start\<close> or later.\<close>

definition cached_since :: "nat \<Rightarrow> address \<Rightarrow> u256 \<Rightarrow> nonce_manager \<Rightarrow> bool" where
  "cached_since start addr n self \<longleftrightarrow>
     (\<exists>m t. nonces self addr = Some m \<and> n \<le> m \<and> last_updates self addr = Some t \<and> start \<le> t)"

lemma cached_not_expired:
  "cached_since start addr n self \<Longrightarrow> now \<le> start + cache_duration self \<Longrightarrow> \<not> expired now self addr"
  by (auto simp: cached_since_def expired_def)

lemma exec_nonce_duration: "cache_duration (fst (exec_nonce c self)) = cache_duration self"
  by (cases c; cases "snd c")
    (auto simp: get_next_nonce_def update_nonce_def reset_nonce_def cleanup_cache_def Let_def
      split: sum.splits option.splits if_splits)

lemma exec_nonce_cached:
  assumes "cached_since start addr n self" and "start \<le> now" and "now \<le> start + cache_duration self"
    and "\<not> resets_nonce addr (now, c)" and "exec_nonce (now, c) self = (self', out)"
  shows "case out of
           Some (a, k) \<Rightarrow> if a = addr then n \<le> k \<and> k < k + 1 \<and> cached_since start addr (k + 1) self'
                          else cached_since start addr n self'
         | None \<Rightarrow> cached_since start addr n self'"
proof (cases c)
  case (Get_next chain a)
  note fresh = cached_not_expired [OF assms(1,3)]
  show ?thesis
  proof (cases "get_next_nonce now chain a self")
    case (Inl e)
    with Get_next assms show ?thesis by auto
  next
    case (Inr p)
    then obtain s r where p: "get_next_nonce now chain a self = Inr (s, r)" by (cases p) auto
    with Get_next assms(5) have [simp]: "self' = s" "out = map_option (Pair a) r" by simp_all
    show ?thesis
    proof (cases "a = addr")
      case True
      from assms(1) obtain m t where m: "nonces self addr = Some m" "n \<le> m"
        "last_updates self addr = Some t" "start \<le> t" by (auto simp: cached_since_def)
      with p fresh True have "add_ov m 1 = Inr (m + 1)" "r = Some m"
        "s = self\<lparr>nonces := (nonces self)(addr \<mapsto> m + 1)\<rparr>"
        by (auto simp: get_next_nonce_def expect_def add_ov_def split: if_splits)
      moreover from this(1) have "m < m + 1"
        by (simp add: ovf word_less_nat_alt)
      ultimately show ?thesis using m True by (auto simp: cached_since_def)
    next
      case False
      with p have "nonces s addr = nonces self addr" "last_updates s addr = last_updates self addr"
        by (auto simp: get_next_nonce_def split: if_splits option.splits)
      with assms(1) False show ?thesis by (cases r) (auto simp: cached_since_def)
    qed
  qed
next
  case (Update_nonce a k)
  with assms show ?thesis by (cases "a = addr") (auto simp: cached_since_def update_nonce_def max_def)
next
  case (Reset_nonce chain a)
  with assms show ?thesis by (auto simp: cached_since_def reset_nonce_def split: option.splits)
next
  case Cleanup_cache
  with assms cached_not_expired [OF assms(1,3)] show ?thesis
    by (auto simp: cached_since_def cleanup_cache_def Let_def)
qed

lemma issued_increasing:
  assumes "cached_since start addr n self" and "fresh_run start (cache_duration self) addr cs"
  shows "sorted_wrt (<) (issued addr self cs) \<and> (\<forall>k\<in>set (issued addr self cs). n \<le> k)"
  using assms
proof (induction cs arbitrary: self n)
  case (Cons c cs)
  obtain now op where c: "c = (now, op)" by (cases c)
  obtain self' out where e: "exec_nonce (now, op) self = (self', out)" by (cases "exec_nonce (now, op) self")
  from Cons.prems(2) c have in_time: "start \<le> now" "now \<le> start + cache_duration self"
    "\<not> resets_nonce addr (now, op)" by (auto simp: fresh_run_def)
  note st = exec_nonce_cached [OF Cons.prems(1) in_time e]
  have d: "cache_duration self' = cache_duration self" using exec_nonce_duration [of "(now, op)" self] e by simp
  with Cons.prems(2) have run: "fresh_run start (cache_duration self') addr cs" by (simp add: fresh_run_def)
  show ?case
  proof (cases "\<exists>k. out = Some (addr, k)")
    case True
    then obtain k where o: "out = Some (addr, k)" by blast
    with st have "n \<le> k" "k < k + 1" "cached_since start addr (k + 1) self'" by auto
    with Cons.IH [OF this(3) run] e c o show ?thesis by fastforce
  next
    case False
    with st have "cached_since start addr n self'" by (auto split: option.splits if_splits)
    from Cons.IH [OF this run] e c False show ?thesis by (auto split: option.splits)
  qed
qed simp

lemma get_next_refreshed:
  assumes "get_next_nonce now chain addr self = Inr (self', Some n)"
    and "nonces self addr = None \<or> expired now self addr"
  shows "chain addr = Some n \<and> n < n + 1 \<and> cache_duration self' = cache_duration self
         \<and> nonces self' addr = Some (n + 1) \<and> last_updates self' addr = Some now"
proof -
  from assms have c: "chain addr = Some n" and o: "add_ov n 1 = Inr (n + 1)"
    and s: "self' = self\<lparr>nonces := (nonces self)(addr \<mapsto> n + 1), last_updates := (last_updates self)(addr \<mapsto> now)\<rparr>"
    by (auto simp: get_next_nonce_def expect_def add_ov_def split: option.splits if_splits)
  from o have "n < n + 1" by (simp add: ovf word_less_nat_alt)
  with c s show ?thesis by simp
qed

section \<open>Properties\<close>


definition demo_chain_view :: chain_view where
  "demo_chain_view addr = Some 41"

lemma demo_next: "\<exists>s :: nonce_manager. get_next_nonce 1000 demo_chain_view 7 (new_nonce_manager 60) = Inr (s, Some 41)"
  by (simp add: get_next_nonce_def new_nonce_manager_def demo_chain_view_def expect_def add_ov_def)


text \<open>The cache forgets what it handed out: once the duration has passed, the next nonce is the
  chain's count again, so the nonce handed out before is handed out a second time as long as its
  transaction is pending and the chain's count unchanged.\<close>

lemma nonce_reissued_after_expiry:
  assumes "get_next_nonce t chain addr self = Inr (self', Some n)"
    and "nonces self addr = None \<or> expired t self addr"
    and "t + cache_duration self < t'" and "chain' addr = Some n"
  shows "\<exists>self''. get_next_nonce t' chain' addr self' = Inr (self'', Some n)"
proof -
  from get_next_refreshed [OF assms(1,2)] have "n < n + 1" and e: "expired t' self' addr"
    using assms(3) by (auto simp: expired_def)
  from this(1) have "add_ov n 1 = Inr (n + 1)"
    by (auto simp: add_ov_def unat_word_ariths word_less_nat_alt not_less)
  with e assms(4) show ?thesis by (simp add: get_next_nonce_def expect_def)
qed

end
