(* ===== verification/GasOptimizer.thy ===== *)
theory GasOptimizer
  imports Prelude
begin

text \<open>
  The gas optimizer of \<^verbatim>\<open>snipebot/src/trade/gas_optimizer.rs\<close>: its price histories, the estimate of
  the network's congestion, the global price cache, the fee suggestions, the retry prices and
  the priority fee of recent blocks. \<open>U256\<close> arithmetic panics on overflow; differences of \<open>u64\<close>
  times and sums of \<open>u64\<close> percentages wrap (release build). What the RPC provider answers is an
  argument, \<open>None\<close> for an error. The percentages \<open>1.05\<close>, \<open>1.10\<close>, \<open>1.20\<close>, \<open>1.30\<close> times \<open>1000.0\<close>
  are the integers \<open>1050\<close>, \<open>1100\<close>, \<open>1200\<close>, \<open>1300\<close> in \<open>f64\<close> too. \<open>get_optimized_gas_limit\<close> and
  \<open>analyze_gas_trend\<close> compute with \<open>f64\<close> and are left out.
\<close>

section \<open>Data\<close>

datatype network_congestion = Low | Medium | High | VeryHigh

definition GAS_CACHE_DURATION :: u64 where
  "GAS_CACHE_DURATION = 300"

record cached_gas_data =
  cg_chain_id :: u64
  cg_timestamp :: u64
  cg_gas_price :: u256
  cg_priority_fee :: "u256 option"
  cg_base_fee :: "u256 option"
  cg_congestion :: network_congestion

type_synonym gas_cache = "u64 \<rightharpoonup> cached_gas_data"

record gas_config =
  max_gas_price :: u256
  max_boost_percent :: u64
  priority_boost_percent :: u64
  sample_interval :: u64
  history_window :: u64
  enable_dynamic_adjustment :: bool
  adaptive_boost_mode :: bool

definition default_gas_config :: gas_config where
  "default_gas_config =
     \<lparr> max_gas_price = 500000000000, max_boost_percent = 50, priority_boost_percent = 20,
       sample_interval = 30, history_window = 3600, enable_dynamic_adjustment = True,
       adaptive_boost_mode = True \<rparr>"

type_synonym gas_history = "(u64 \<times> u256) list"

record gas_optimizer =
  go_config :: gas_config
  gas_price_history :: gas_history
  base_fee_history :: gas_history
  go_congestion :: network_congestion
  go_last_update :: u64
  go_chain_id :: u64

definition with_config :: "gas_config \<Rightarrow> gas_optimizer" where
  "with_config config =
     \<lparr> go_config = config, gas_price_history = [], base_fee_history = [], go_congestion = Medium,
       go_last_update = 0, go_chain_id = 1 \<rparr>"

definition new_gas_optimizer :: "u256 \<Rightarrow> u64 \<Rightarrow> gas_optimizer" where
  "new_gas_optimizer gas_price_limit boost =
     with_config (default_gas_config\<lparr>max_gas_price := gas_price_limit, max_boost_percent := boost\<rparr>)"

text \<open>
  The provider's answers: the gas price; the base fee of the latest block (\<open>None\<close> when there is
  no block or no answer, \<open>Some None\<close> when the block has none); base fees and rewards of
  \<open>fee_history\<close>.
\<close>

record provider =
  pr_gas_price :: "u256 option"
  pr_latest_block :: "u256 option option"
  pr_fee_history :: "(u256 list \<times> u256 list list) option"

record adapter_config =
  ac_chain_id :: u64
  eip1559_supported :: bool

section \<open>Averages and congestion\<close>

fun sum_u256 :: "u256 \<Rightarrow> u256 list \<Rightarrow> u256 res" where
  "sum_u256 acc [] = Inr acc"
| "sum_u256 acc (x # xs) = rbind (add_ov acc x) (\<lambda>acc. sum_u256 acc xs)"

definition average :: "u256 list \<Rightarrow> u256 res" where
  "average xs = rbind (sum_u256 0 xs) (\<lambda>s. div_ov s (of_nat (length xs)))"

definition abs_diff :: "u256 \<Rightarrow> u256 \<Rightarrow> u256" where
  "abs_diff avg price = (if avg < price then price - avg else avg - price)"

definition growth_rate :: "u256 list \<Rightarrow> u256 res" where
  "growth_rate samples =
     (if 5 \<le> length samples then
        let newest = samples ! 0; oldest = samples ! 4 in
        if 0 < oldest \<and> oldest < newest
        then rbind (mul_ov (newest - oldest) 100) (\<lambda>p. div_ov p oldest)
        else Inr 0
      else Inr 0)"

definition congestion_level :: "u256 \<Rightarrow> u256 \<Rightarrow> network_congestion" where
  "congestion_level growth variance_percent =
     (if 20 < growth \<or> 30 < variance_percent then VeryHigh
      else if 10 < growth \<or> 15 < variance_percent then High
      else if 5 < growth \<or> 5 < variance_percent then Medium
      else Low)"

text \<open>The ten most recent prices, newest first.\<close>

definition recent_samples :: "gas_history \<Rightarrow> u256 list" where
  "recent_samples h = map snd (take (min 10 (length h)) (rev h))"

definition update_network_congestion :: "gas_optimizer \<Rightarrow> gas_optimizer res" where
  "update_network_congestion self =
     (if length (gas_price_history self) < 2 then Inr self
      else
        let samples = recent_samples (gas_price_history self) in
        rbind (average samples) (\<lambda>avg_gas_price.
        rbind (average (map (abs_diff avg_gas_price) samples)) (\<lambda>variance.
        rbind (if 0 < avg_gas_price
               then rbind (mul_ov variance 100) (\<lambda>p. div_ov p avg_gas_price) else Inr 0) (\<lambda>variance_percent.
        rbind (growth_rate samples) (\<lambda>growth.
        Inr (self\<lparr>go_congestion := congestion_level growth variance_percent\<rparr>))))))"

section \<open>Updating the histories and the cache\<close>

definition update_gas_price_cache :: "u64 \<Rightarrow> u256 \<Rightarrow> gas_optimizer \<Rightarrow> gas_cache \<Rightarrow> gas_cache" where
  "update_gas_price_cache now price self cache =
     (let base_fee = (case rev (base_fee_history self) of (t, fee) # _ \<Rightarrow> Some fee | [] \<Rightarrow> None);
          priority_fee = (case base_fee of
                            Some base \<Rightarrow> if base < price then Some (price - base) else None
                          | None \<Rightarrow> None) in
      cache(go_chain_id self \<mapsto>
        \<lparr> cg_chain_id = go_chain_id self, cg_timestamp = now, cg_gas_price = price,
          cg_priority_fee = priority_fee, cg_base_fee = base_fee, cg_congestion = go_congestion self \<rparr>))"

definition prune :: "u64 \<Rightarrow> u64 \<Rightarrow> gas_history \<Rightarrow> gas_history" where
  "prune now win h = dropWhile (\<lambda>(t, _). win < now - t) h"

text \<open>\<open>U256::as_u64\<close> and \<open>as_u128\<close> panic on a value that does not fit.\<close>

definition as_u64 :: "u256 \<Rightarrow> u64 res" where
  "as_u64 x = (if unat x < 2 ^ 64 then Inr (ucast x) else Inl Overflow)"

definition as_u128 :: "u256 \<Rightarrow> u128 res" where
  "as_u128 x = (if unat x < 2 ^ 128 then Inr (ucast x) else Inl Overflow)"

text \<open>The result is \<open>False\<close> when the provider's gas price fails: the pruning has happened by then.\<close>

definition update_gas_price_history ::
    "u64 \<Rightarrow> u64 \<Rightarrow> provider \<Rightarrow> gas_optimizer \<Rightarrow> gas_cache \<Rightarrow> (gas_optimizer \<times> gas_cache \<times> bool) res" where
  "update_gas_price_history current_time cache_time client self cache =
     (if current_time - go_last_update self < sample_interval (go_config self) then Inr (self, cache, True)
      else
        let win = history_window (go_config self);
            self = self\<lparr>go_last_update := current_time,
                        gas_price_history := prune current_time win (gas_price_history self),
                        base_fee_history := prune current_time win (base_fee_history self)\<rparr> in
        (case pr_gas_price client of
           None \<Rightarrow> Inr (self, cache, False)
         | Some price \<Rightarrow>
             let self = self\<lparr>gas_price_history := gas_price_history self @ [(current_time, price)]\<rparr>;
                 self = (case pr_latest_block client of
                           Some (Some base_fee) \<Rightarrow>
                             self\<lparr>base_fee_history := base_fee_history self @ [(current_time, base_fee)]\<rparr>
                         | _ \<Rightarrow> self) in
             rbind (update_network_congestion self) (\<lambda>self.
             let cache = update_gas_price_cache cache_time price self cache in
             rbind (as_u64 price) (\<lambda>_. Inr (self, cache, True)))))"

definition set_chain_id :: "u64 \<Rightarrow> gas_optimizer \<Rightarrow> gas_optimizer" where
  "set_chain_id c self = self\<lparr>go_chain_id := c\<rparr>"

definition set_network_congestion :: "network_congestion \<Rightarrow> gas_optimizer \<Rightarrow> gas_optimizer" where
  "set_network_congestion c self = self\<lparr>go_congestion := c\<rparr>"

definition set_sample_interval :: "u64 \<Rightarrow> gas_optimizer \<Rightarrow> gas_optimizer" where
  "set_sample_interval i self = self\<lparr>go_config := (go_config self)\<lparr>sample_interval := i\<rparr>\<rparr>"

definition set_gas_price_limit :: "u256 \<Rightarrow> gas_optimizer \<Rightarrow> gas_optimizer" where
  "set_gas_price_limit l self = self\<lparr>go_config := (go_config self)\<lparr>max_gas_price := l\<rparr>\<rparr>"

definition set_max_boost_percent :: "u64 \<Rightarrow> gas_optimizer \<Rightarrow> gas_optimizer" where
  "set_max_boost_percent p self = self\<lparr>go_config := (go_config self)\<lparr>max_boost_percent := p\<rparr>\<rparr>"

definition get_network_congestion :: "gas_optimizer \<Rightarrow> network_congestion" where
  "get_network_congestion self = go_congestion self"

definition get_average_gas_price :: "gas_optimizer \<Rightarrow> u256 option res" where
  "get_average_gas_price self =
     (if gas_price_history self = [] then Inr None
      else rbind (average (map snd (gas_price_history self))) (\<lambda>a. Inr (Some a)))"

definition get_average_base_fee :: "gas_optimizer \<Rightarrow> u256 option res" where
  "get_average_base_fee self =
     (if base_fee_history self = [] then Inr None
      else rbind (average (map snd (base_fee_history self))) (\<lambda>a. Inr (Some a)))"

section \<open>Fees\<close>

text \<open>Cached data, fetched when the cache has none younger than the duration (\<open>None\<close>: provider error).\<close>

definition get_cached_gas_data ::
    "u64 \<Rightarrow> provider \<Rightarrow> adapter_config \<Rightarrow> gas_optimizer \<Rightarrow> gas_cache \<Rightarrow> gas_cache \<times> cached_gas_data option" where
  "get_cached_gas_data now pr adapter self cache =
     (let chain = ac_chain_id adapter;
          fetch = (case pr_gas_price pr of
             None \<Rightarrow> (cache, None)
           | Some price \<Rightarrow>
               let base_fee = (if eip1559_supported adapter
                               then (case pr_latest_block pr of Some bf \<Rightarrow> bf | None \<Rightarrow> None) else None);
                   priority_fee = (case base_fee of
                                     Some base \<Rightarrow> if base < price then Some (price - base) else None
                                   | None \<Rightarrow> None);
                   data = \<lparr> cg_chain_id = chain, cg_timestamp = now, cg_gas_price = price,
                            cg_priority_fee = priority_fee, cg_base_fee = base_fee,
                            cg_congestion = go_congestion self \<rparr> in
               (cache(chain \<mapsto> data), Some data)) in
      (case cache chain of
         Some data \<Rightarrow> if now - cg_timestamp data < GAS_CACHE_DURATION then (cache, Some data) else fetch
       | None \<Rightarrow> fetch))"

definition boost_percent :: "network_congestion \<Rightarrow> u64" where
  "boost_percent c = (case c of Low \<Rightarrow> 100 | Medium \<Rightarrow> 120 | High \<Rightarrow> 150 | VeryHigh \<Rightarrow> 200)"

definition base_fee_percent :: "network_congestion \<Rightarrow> u256" where
  "base_fee_percent c = (case c of Low \<Rightarrow> 120 | Medium \<Rightarrow> 130 | High \<Rightarrow> 150 | VeryHigh \<Rightarrow> 200)"

text \<open>The second reward of each block, where there is one: the 50th percentile.\<close>

definition median_rewards :: "u256 list list \<Rightarrow> u256 list" where
  "median_rewards rewards = map (\<lambda>r. r ! 1) (filter (\<lambda>r. 1 < length r) rewards)"

text \<open>The pair is the boosted priority fee and the capped maximum fee, in this order.\<close>

definition get_optimal_eip1559_fees ::
    "u64 \<Rightarrow> provider \<Rightarrow> adapter_config \<Rightarrow> gas_optimizer \<Rightarrow> gas_cache
       \<Rightarrow> (gas_cache \<times> (u256 \<times> u256) option) res" where
  "get_optimal_eip1559_fees now pr adapter self cache =
     (case get_cached_gas_data now pr adapter self cache of
        (cache, None) \<Rightarrow> Inr (cache, None)
      | (cache, Some gas_data) \<Rightarrow>
        (case pr_fee_history pr of
           None \<Rightarrow> Inr (cache, None)
         | Some (base_fees, rewards) \<Rightarrow>
             rbind (if median_rewards rewards \<noteq> [] then average (median_rewards rewards)
                    else (case cg_priority_fee gas_data of Some pf \<Rightarrow> Inr pf | None \<Rightarrow> Inr 1500000000)) (\<lambda>priority_fee.
             let boost_factor = min (boost_percent (cg_congestion gas_data))
                                    (100 + priority_boost_percent (go_config self)) in
             rbind (mul_ov priority_fee (ucast boost_factor)) (\<lambda>p.
             rbind (div_ov p 100) (\<lambda>boosted_priority_fee.
             rbind (if base_fees \<noteq> [] \<or> cg_base_fee gas_data \<noteq> None then
                      let latest_base_fee = (if base_fees \<noteq> [] then last base_fees
                                             else (case cg_base_fee gas_data of Some b \<Rightarrow> b | None \<Rightarrow> 0)) in
                      rbind (mul_ov latest_base_fee (base_fee_percent (cg_congestion gas_data))) (\<lambda>q.
                      rbind (div_ov q 100) (\<lambda>b. add_ov b boosted_priority_fee))
                    else Inr (cg_gas_price gas_data)) (\<lambda>max_fee.
             let capped_max_fee = (if max_gas_price (go_config self) < max_fee
                                   then max_gas_price (go_config self) else max_fee) in
             Inr (cache, Some (boosted_priority_fee, capped_max_fee))))))))"

definition legacy_multiplier :: "network_congestion \<Rightarrow> u64" where
  "legacy_multiplier c = (case c of Low \<Rightarrow> 1050 | Medium \<Rightarrow> 1100 | High \<Rightarrow> 1200 | VeryHigh \<Rightarrow> 1300)"

text \<open>On a chain with EIP-1559 the first component of the pair is returned.\<close>

definition get_optimal_gas_price ::
    "u64 \<Rightarrow> provider \<Rightarrow> adapter_config \<Rightarrow> gas_optimizer \<Rightarrow> gas_cache \<Rightarrow> (gas_cache \<times> u256 option) res" where
  "get_optimal_gas_price now pr adapter self cache =
     (if eip1559_supported adapter
      then rbind (get_optimal_eip1559_fees now pr adapter self cache) (\<lambda>(cache, fees).
             Inr (cache, map_option (\<lambda>(max_fee, _). max_fee) fees))
      else (case pr_gas_price pr of
              None \<Rightarrow> Inr (cache, None)
            | Some current_gas_price \<Rightarrow>
                rbind (as_u128 current_gas_price) (\<lambda>g.
                let optimal_gas = g * ucast (legacy_multiplier (go_congestion self)) div 1000 in
                Inr (cache, Some (ucast optimal_gas)))))"

record tx_request =
  tx_gas_price :: "u256 option"
  tx_max_priority_fee :: "u256 option"
  tx_max_fee :: "u256 option"

definition optimize_transaction ::
    "u64 \<Rightarrow> provider \<Rightarrow> adapter_config \<Rightarrow> gas_optimizer \<Rightarrow> gas_cache \<Rightarrow> tx_request
       \<Rightarrow> (gas_cache \<times> tx_request option) res" where
  "optimize_transaction now pr adapter self cache tx =
     (if eip1559_supported adapter
      then rbind (get_optimal_eip1559_fees now pr adapter self cache) (\<lambda>(cache, fees).
             Inr (cache, map_option (\<lambda>(priority_fee, max_fee).
               tx\<lparr>tx_max_priority_fee := Some priority_fee, tx_max_fee := Some max_fee\<rparr>) fees))
      else rbind (get_optimal_gas_price now pr adapter self cache) (\<lambda>(cache, price).
             Inr (cache, map_option (\<lambda>g. tx\<lparr>tx_gas_price := Some g\<rparr>) price)))"

definition retry_increase :: "u32 \<Rightarrow> u256" where
  "retry_increase retry_count =
     (if retry_count = 1 then 20 else if retry_count = 2 then 50 else if retry_count = 3 then 100 else 200)"

definition get_optimized_gas_price :: "gas_optimizer \<Rightarrow> u32 \<Rightarrow> u256 option \<Rightarrow> u256 res" where
  "get_optimized_gas_price self retry_count current_gas_price =
     (let base_price = (case current_gas_price of
             Some price \<Rightarrow> price
           | None \<Rightarrow> (case rev (gas_price_history self) of (t, price) # _ \<Rightarrow> price | [] \<Rightarrow> 50000000000)) in
      if retry_count = 0 then Inr base_price
      else rbind (mul_ov base_price (100 + retry_increase retry_count)) (\<lambda>p.
           rbind (div_ov p 100) (\<lambda>new_price.
           Inr (if max_gas_price (go_config self) < new_price
                then max_gas_price (go_config self) else new_price))))"

definition get_current_gas_price ::
    "u64 \<Rightarrow> provider \<Rightarrow> adapter_config \<Rightarrow> gas_cache \<Rightarrow> gas_cache \<times> u256 option" where
  "get_current_gas_price now pr adapter cache =
     (let chain = ac_chain_id adapter;
          fetch = (case pr_gas_price pr of
             None \<Rightarrow> (cache, None)
           | Some price \<Rightarrow>
               (cache(chain \<mapsto> \<lparr> cg_chain_id = chain, cg_timestamp = now, cg_gas_price = price,
                  cg_priority_fee = None, cg_base_fee = None, cg_congestion = Medium \<rparr>), Some price)) in
      (case cache chain of
         Some data \<Rightarrow> if now - cg_timestamp data < GAS_CACHE_DURATION
                      then (cache, Some (cg_gas_price data)) else fetch
       | None \<Rightarrow> fetch))"

definition cleanup_gas_cache :: "u64 \<Rightarrow> gas_cache \<Rightarrow> gas_cache" where
  "cleanup_gas_cache now cache =
     (\<lambda>c. case cache c of
            Some data \<Rightarrow> if now - cg_timestamp data < GAS_CACHE_DURATION * 2 then Some data else None
          | None \<Rightarrow> None)"

section \<open>The priority fee of recent blocks\<close>

definition saturating_add :: "u256 \<Rightarrow> u256 \<Rightarrow> u256" where
  "saturating_add a b = (if unat a + unat b < 2 ^ 256 then a + b else - 1)"

fun sumU256_from :: "u256 \<Rightarrow> u256 list \<Rightarrow> u256" where
  "sumU256_from s [] = s"
| "sumU256_from s (v # vs) = sumU256_from (saturating_add s v) vs"

definition sumU256 :: "u256 list \<Rightarrow> u256" where
  "sumU256 values = sumU256_from 0 values"

definition avgU256 :: "u256 list \<Rightarrow> u256" where
  "avgU256 values = (if values = [] then 0 else sumU256 values div of_nat (length values))"

text \<open>What a transaction pays above the base fee: \<open>min (max_fee - base_fee) priority_fee\<close>, or nothing.\<close>

definition effective_priority :: "u256 \<Rightarrow> u256 \<Rightarrow> u256 \<Rightarrow> u256" where
  "effective_priority base_fee max_fee priority_fee =
     (if max_fee \<le> base_fee then 0
      else let available = max_fee - base_fee in
           if available < priority_fee then available else priority_fee)"

text \<open>
  Blocks and transactions as the provider answers them (\<open>None\<close> outside is an error, inside a
  missing one); a transaction is its maximum fee and its maximum priority fee.
\<close>

record 'h gas_block =
  gb_base_fee :: "u256 option"
  gb_transactions :: "'h list"

fun block_fees :: "('h \<Rightarrow> (u256 option \<times> u256 option) option option) \<Rightarrow> u256 \<Rightarrow> 'h list \<Rightarrow> u256 list option" where
  "block_fees get_tx base_fee [] = Some []"
| "block_fees get_tx base_fee (h # hs) =
     (case get_tx h of
        None \<Rightarrow> None
      | Some tx \<Rightarrow>
          let fee = (case tx of
                       Some (Some max_fee, Some priority_fee) \<Rightarrow>
                         (let e = effective_priority base_fee max_fee priority_fee in if e \<noteq> 0 then [e] else [])
                     | _ \<Rightarrow> []) in
          map_option ((@) fee) (block_fees get_tx base_fee hs))"

fun scan_blocks ::
    "(u64 \<Rightarrow> 'h gas_block option option) \<Rightarrow> ('h \<Rightarrow> (u256 option \<times> u256 option) option option)
       \<Rightarrow> u64 \<Rightarrow> u64 list \<Rightarrow> u256 list option" where
  "scan_blocks get_block get_tx latest [] = Some []"
| "scan_blocks get_block get_tx latest (i # is) =
     (if latest \<le> i then Some []
      else case get_block (latest - i) of
             None \<Rightarrow> None
           | Some block \<Rightarrow>
               (case (case block of
                        Some b \<Rightarrow> (case gb_base_fee b of
                                     Some base_fee \<Rightarrow> block_fees get_tx base_fee (gb_transactions b)
                                   | None \<Rightarrow> Some [])
                      | None \<Rightarrow> Some []) of
                  None \<Rightarrow> None
                | Some fees \<Rightarrow> map_option ((@) fees) (scan_blocks get_block get_tx latest is)))"

definition calculate_priority_fee ::
    "u64 \<Rightarrow> string \<Rightarrow> u64 option \<Rightarrow> (u64 \<Rightarrow> 'h gas_block option option)
       \<Rightarrow> ('h \<Rightarrow> (u256 option \<times> u256 option) option option) \<Rightarrow> (string \<rightharpoonup> u256 \<times> u64)
       \<Rightarrow> (string \<rightharpoonup> u256 \<times> u64) \<times> u256 option" where
  "calculate_priority_fee now cache_key latest_block get_block get_tx cache =
     (let fetch = (case latest_block of
             None \<Rightarrow> (cache, None)
           | Some latest \<Rightarrow>
               (case scan_blocks get_block get_tx latest [0, 1, 2, 3, 4, 5, 6, 7, 8, 9] of
                  None \<Rightarrow> (cache, None)
                | Some priority_fees \<Rightarrow>
                    let result = (if priority_fees = [] then 1000000000
                                  else sumU256 priority_fees div of_nat (length priority_fees)) in
                    (cache(cache_key \<mapsto> (result, now)), Some result))) in
      (case cache cache_key of
         Some (v, t) \<Rightarrow> if now - t < 60 then (cache, Some v) else fetch
       | None \<Rightarrow> fetch))"

section \<open>The histories keep a sorted window\<close>

definition history_ok :: "u64 \<Rightarrow> gas_history \<Rightarrow> bool" where
  "history_ok now h \<longleftrightarrow> sorted (map fst h) \<and> (\<forall>(t, p)\<in>set h. t \<le> now)"

definition recent_part :: "u64 \<Rightarrow> u64 \<Rightarrow> gas_history \<Rightarrow> gas_history" where
  "recent_part now win h = filter (\<lambda>(t, p). now - t \<le> win) h"

lemma word_diff_antimono:
  fixes a b n :: "'a::len word"
  assumes "a \<le> b" and "b \<le> n"
  shows "n - b \<le> n - a"
proof -
  from assms have "a \<le> n" by (rule order_trans)
  with assms show ?thesis by (simp add: word_le_nat_alt unat_sub)
qed

lemma prune_recent: "history_ok now h \<Longrightarrow> prune now win h = recent_part now win h"
proof (induction h)
  case (Cons x h)
  obtain t p where x: "x = (t, p)" by (cases x)
  from Cons.prems have ok: "history_ok now h" by (auto simp: history_ok_def)
  have "now - t' \<le> win" if "now - t \<le> win" and "(t', p') \<in> set h" for t' p'
  proof -
    from Cons.prems that(2) x have "t \<le> t'" "t' \<le> now" by (force simp: history_ok_def)+
    from word_diff_antimono [OF this] that(1) show ?thesis by (rule order_trans)
  qed
  then have "now - t \<le> win \<Longrightarrow> recent_part now win h = h"
    by (auto simp: recent_part_def intro: filter_True)
  with Cons.IH [OF ok] x show ?case
    by (auto simp: prune_def recent_part_def not_less not_le)
qed (simp add: prune_def recent_part_def)

lemma history_ok_recent: "history_ok now h \<Longrightarrow> history_ok now (recent_part now win h)"
  by (auto simp: history_ok_def recent_part_def intro: sorted_filter)

lemma history_ok_snoc: "history_ok now h \<Longrightarrow> history_ok now (h @ [(now, p)])"
  by (auto simp: history_ok_def sorted_append)

lemma history_ok_later: "history_ok now h \<Longrightarrow> now \<le> later \<Longrightarrow> history_ok later h"
  by (auto simp: history_ok_def)

lemma update_congestion_frame:
  "update_network_congestion self = Inr self' \<Longrightarrow>
     gas_price_history self' = gas_price_history self \<and> base_fee_history self' = base_fee_history self
     \<and> go_config self' = go_config self"
  by (auto simp: update_network_congestion_def Let_def split: if_splits)

text \<open>The percentage of the base price that the \<open>k\<close>-th retry offers.\<close>

definition retry_factor :: "nat \<Rightarrow> nat" where
  "retry_factor k = (if k = 0 then 100 else if k = 1 then 120 else if k = 2 then 150
                     else if k = 3 then 200 else 300)"

lemma retry_factor_mono: "k \<le> l \<Longrightarrow> retry_factor k \<le> retry_factor l"
  by (auto simp: retry_factor_def)

lemma retry_factor_bounds: "100 \<le> retry_factor k" "retry_factor k \<le> 300"
  by (simp_all add: retry_factor_def)

lemma retry_increase_factor: "n \<noteq> 0 \<Longrightarrow> unat (100 + retry_increase n) = retry_factor (unat n)"
proof -
  have e: "unat n = unat k \<longleftrightarrow> n = k" for k by (simp only: word_unat_eq_iff)
  show "n \<noteq> 0 \<Longrightarrow> unat (100 + retry_increase n) = retry_factor (unat n)"
    using e [of 1] e [of 2] e [of 3] by (simp add: retry_increase_def retry_factor_def)
qed

lemma retry_price_exact:
  assumes "unat base * 300 < 2 ^ 256" and "base \<le> max_gas_price (go_config self)"
  shows "\<exists>g. get_optimized_gas_price self n (Some base) = Inr g
           \<and> unat g = min (unat (max_gas_price (go_config self))) (unat base * retry_factor (unat n) div 100)"
proof (cases "n = 0")
  case True
  with assms(2) show ?thesis
    by (simp add: get_optimized_gas_price_def word_le_nat_alt min_def retry_factor_def)
next
  case False
  let ?k = "100 + retry_increase n"
  from retry_factor_bounds(2) have "unat base * unat ?k \<le> unat base * 300"
    by (simp only: retry_increase_factor [OF False] mult_le_mono2)
  from le_less_trans [OF this assms(1)] have m: "mul_ov base ?k = Inr (base * ?k)"
    by (simp add: mul_ov_def)
  then have "unat (base * ?k) = unat base * retry_factor (unat n)"
    by (simp only: mul_ov_Inr retry_increase_factor [OF False])
  then have "unat (base * ?k div 100) = unat base * retry_factor (unat n) div 100"
    by (simp only: unat_div_distrib) simp
  moreover from m False have "get_optimized_gas_price self n (Some base)
      = Inr (if max_gas_price (go_config self) < base * ?k div 100
             then max_gas_price (go_config self) else base * ?k div 100)"
    by (simp add: get_optimized_gas_price_def div_ov_def Let_def)
  ultimately obtain q where "unat q = unat base * retry_factor (unat n) div 100"
    and "get_optimized_gas_price self n (Some base)
           = Inr (if max_gas_price (go_config self) < q then max_gas_price (go_config self) else q)" by blast
  then show ?thesis
    by (cases "max_gas_price (go_config self) < q") (simp_all add: word_less_nat_alt)
qed

section \<open>Properties\<close>

text \<open>The suggested maximum fee never exceeds the configured gas price limit, and it covers the
  suggested priority fee unless the limit cuts it off or the fee history has no base fee: then
  the limit itself can lie below the priority fee the transaction offers.\<close>

lemma gas_fees_capped:
  assumes "get_optimal_eip1559_fees now pr adapter self cache = Inr (cache', Some (priority, fee))"
    and "pr_fee_history pr = Some (base_fees, rewards)" and "base_fees \<noteq> []"
  shows "fee \<le> max_gas_price (go_config self)
         \<and> (priority \<le> fee \<or> fee = max_gas_price (go_config self) \<and> fee < priority)"
proof -
  obtain cache0 data where g: "get_cached_gas_data now pr adapter self cache = (cache0, Some data)"
    using assms(1) by (cases "get_cached_gas_data now pr adapter self cache")
      (auto simp: get_optimal_eip1559_fees_def split: option.splits)
  from assms(1) [unfolded get_optimal_eip1559_fees_def g assms(2)] assms(3)
  obtain b m where "add_ov b priority = Inr m"
    and "fee = (if max_gas_price (go_config self) < m then max_gas_price (go_config self) else m)"
    by (auto simp: Let_def)
  then show ?thesis by (auto simp: ovf word_le_nat_alt word_less_nat_alt)
qed

definition demo_provider :: provider where
  "demo_provider = \<lparr> pr_gas_price = Some 30000000000, pr_latest_block = Some (Some 20000000000),
     pr_fee_history = Some ([20000000000], [[1, 2000000000, 3]]) \<rparr>"

definition demo_adapter :: adapter_config where
  "demo_adapter = \<lparr> ac_chain_id = 1, eip1559_supported = True \<rparr>"

text \<open>Retry prices escalate: from a price within the limit, with no overflow, the price of a
  retry is never below it, never below that of an earlier retry, and never above the limit.\<close>

lemma retry_gas_price_escalates:
  assumes "unat base * 300 < 2 ^ 256" and "base \<le> max_gas_price (go_config self)" and "n \<le> n'"
  shows "\<exists>g g'. get_optimized_gas_price self n (Some base) = Inr g
           \<and> get_optimized_gas_price self n' (Some base) = Inr g'
           \<and> base \<le> g \<and> g \<le> g' \<and> g' \<le> max_gas_price (go_config self)"
proof -
  let ?p = "\<lambda>n. unat base * retry_factor (unat n) div 100"
  obtain g g' where g: "get_optimized_gas_price self n (Some base) = Inr g"
      "unat g = min (unat (max_gas_price (go_config self))) (?p n)"
    and g': "get_optimized_gas_price self n' (Some base) = Inr g'"
      "unat g' = min (unat (max_gas_price (go_config self))) (?p n')"
    using retry_price_exact [OF assms(1,2)] by blast
  have "?p n \<le> ?p n'"
    using assms(3) by (intro div_le_mono mult_le_mono2 retry_factor_mono) (simp add: word_le_nat_alt)
  moreover have "unat base * 100 div 100 \<le> ?p n"
    by (intro div_le_mono mult_le_mono2 retry_factor_bounds)
  ultimately show ?thesis using g g' assms(2) by (auto simp: word_le_nat_alt min_def)
qed

text \<open>The price history is a sorted window: an update that is due keeps exactly the samples
  that are at most \<open>history_window\<close> seconds old, in order, and appends the provider's price with
  the current time when there is one; the same holds of the base fees, and both histories are
  ready for the next update.\<close>

lemma gas_history_window:
  assumes "update_gas_price_history now t pr self cache = Inr (self', cache', ok)"
    and "history_ok now (gas_price_history self)" and "history_ok now (base_fee_history self)"
    and "sample_interval (go_config self) \<le> now - go_last_update self"
  shows "gas_price_history self' = recent_part now (history_window (go_config self)) (gas_price_history self)
           @ (case pr_gas_price pr of Some price \<Rightarrow> [(now, price)] | None \<Rightarrow> [])
         \<and> (ok \<longleftrightarrow> pr_gas_price pr \<noteq> None)
         \<and> history_ok now (gas_price_history self') \<and> history_ok now (base_fee_history self')"
proof -
  let ?w = "history_window (go_config self)"
  note p = prune_recent [OF assms(2), of ?w] prune_recent [OF assms(3), of ?w]
  note ok = history_ok_recent [OF assms(2), of ?w] history_ok_recent [OF assms(3), of ?w]
  from assms(4) have due: "\<not> now - go_last_update self < sample_interval (go_config self)" by simp
  show ?thesis
  proof (cases "pr_gas_price pr")
    case None
    with assms(1) due p ok show ?thesis by (auto simp: update_gas_price_history_def Let_def)
  next
    case (Some price)
    with assms(1) due p have f: "gas_price_history self' = recent_part now ?w (gas_price_history self) @ [(now, price)]"
      "ok" "base_fee_history self' = recent_part now ?w (base_fee_history self)
         @ (case pr_latest_block pr of Some (Some b) \<Rightarrow> [(now, b)] | _ \<Rightarrow> [])"
      by (auto simp: update_gas_price_history_def Let_def dest!: update_congestion_frame split: option.splits)
    with ok Some show ?thesis by (auto intro: history_ok_snoc split: option.splits)
  qed
qed

end
