(* ===== verification/MessageQueue.thy ===== *)
theory MessageQueue
  imports Prelude "HOL-Library.AList"
begin

text \<open>
  The priority message queue of \<^verbatim>\<open>network/slave_node/src/message_queue.rs\<close>. Redis is not part of the
  repository: its sorted sets and its expiring keys are the parameter \<open>api\<close>, and \<open>redis_laws\<close> states
  the documented behaviour the queue relies on; \<open>list_redis\<close> satisfies it. Messages are stored and
  fetched as values (their JSON text round-trips). Times are Unix seconds, scores are integers
  (\<open>i64\<close> in the code, far from its bounds), a fresh message id is an argument. A Redis call that
  fails makes the operation return its error; only the other runs are modelled.
\<close>

section \<open>Messages\<close>

datatype message_priority = Low | Normal | High | Critical

fun rank :: "message_priority \<Rightarrow> nat" where
  "rank Low = 0" | "rank Normal = 1" | "rank High = 2" | "rank Critical = 3"

lemma rank_inject [simp]: "rank p = rank q \<longleftrightarrow> p = q"
  by (cases p; cases q) auto

text \<open>The derived order: the order of the constructors.\<close>

instantiation message_priority :: linorder
begin

definition less_eq_message_priority :: "message_priority \<Rightarrow> message_priority \<Rightarrow> bool" where
  "less_eq_message_priority p q \<longleftrightarrow> rank p \<le> rank q"

definition less_message_priority :: "message_priority \<Rightarrow> message_priority \<Rightarrow> bool" where
  "less_message_priority p q \<longleftrightarrow> rank p < rank q"

instance
  by standard (auto simp: less_eq_message_priority_def less_message_priority_def)

end

record message_metadata =
  md_id :: string
  md_queue :: string
  publisher :: string
  md_timestamp :: nat
  retry_count :: u32
  md_priority :: message_priority
  correlation_id :: "string option"
  reply_to :: "string option"
  expiration :: "nat option"

record 'a message =
  metadata :: message_metadata
  payload :: 'a

section \<open>Redis, a parameter\<close>

text \<open>
  \<open>zscore r key member\<close> is the score of a member of a sorted set, \<open>stored now r key\<close> the value of a
  key that has not expired at \<open>now\<close>.
\<close>

record ('a, 'r) redis_api =
  zadd :: "string \<Rightarrow> int \<Rightarrow> string \<Rightarrow> 'r \<Rightarrow> 'r"
  zrem :: "string \<Rightarrow> string \<Rightarrow> 'r \<Rightarrow> 'r"
  zpopmax :: "string \<Rightarrow> 'r \<Rightarrow> 'r \<times> (string \<times> int) option"
  kv_set :: "nat \<Rightarrow> string \<Rightarrow> 'a message \<Rightarrow> nat \<Rightarrow> 'r \<Rightarrow> 'r"
  kv_delete :: "string \<Rightarrow> 'r \<Rightarrow> 'r"
  zscore :: "'r \<Rightarrow> string \<Rightarrow> string \<Rightarrow> int option"
  stored :: "nat \<Rightarrow> 'r \<Rightarrow> string \<Rightarrow> 'a message option"

definition zset_laws :: "('a, 'r) redis_api \<Rightarrow> bool" where
  "zset_laws api \<longleftrightarrow>
     (\<forall>k s m r. zscore api (zadd api k s m r) = (zscore api r)(k := (zscore api r k)(m \<mapsto> s)))
     \<and> (\<forall>k m r. zscore api (zrem api k m r) = (zscore api r)(k := (zscore api r k)(m := None)))
     \<and> (\<forall>k s m r now. stored api now (zadd api k s m r) = stored api now r)
     \<and> (\<forall>k m r now. stored api now (zrem api k m r) = stored api now r)"

definition kv_laws :: "('a, 'r) redis_api \<Rightarrow> bool" where
  "kv_laws api \<longleftrightarrow>
     (\<forall>t k v ttl r now. stored api now (kv_set api t k v ttl r)
         = (stored api now r)(k := (if now < t + ttl then Some v else None)))
     \<and> (\<forall>k r now. stored api now (kv_delete api k r) = (stored api now r)(k := None))
     \<and> (\<forall>t k v ttl r. zscore api (kv_set api t k v ttl r) = zscore api r)
     \<and> (\<forall>k r. zscore api (kv_delete api k r) = zscore api r)"

definition zpop_laws :: "('a, 'r) redis_api \<Rightarrow> bool" where
  "zpop_laws api \<longleftrightarrow>
     (\<forall>k r r'. zpopmax api k r = (r', None) \<longrightarrow> r' = r \<and> zscore api r k = Map.empty)
     \<and> (\<forall>k r r' m s. zpopmax api k r = (r', Some (m, s)) \<longrightarrow>
          zscore api r k m = Some s \<and> (\<forall>m' s'. zscore api r k m' = Some s' \<longrightarrow> s' \<le> s)
          \<and> zscore api r' = (zscore api r)(k := (zscore api r k)(m := None))
          \<and> (\<forall>now. stored api now r' = stored api now r))"

definition redis_laws :: "('a, 'r) redis_api \<Rightarrow> bool" where
  "redis_laws api \<longleftrightarrow> zset_laws api \<and> kv_laws api \<and> zpop_laws api"

lemma redis_lawsD:
  assumes "redis_laws api"
  shows "zscore api (zadd api k s m r) = (zscore api r)(k := (zscore api r k)(m \<mapsto> s))"
    and "zscore api (zrem api k m r) = (zscore api r)(k := (zscore api r k)(m := None))"
    and "stored api now (zadd api k s m r) = stored api now r"
    and "stored api now (zrem api k m r) = stored api now r"
    and "stored api now (kv_set api t k v ttl r)
           = (stored api now r)(k := (if now < t + ttl then Some v else None))"
    and "stored api now (kv_delete api k r) = (stored api now r)(k := None)"
    and "zscore api (kv_set api t k v ttl r) = zscore api r"
    and "zscore api (kv_delete api k r) = zscore api r"
  using assms by (simp_all add: redis_laws_def zset_laws_def kv_laws_def)

lemma zpopmax_None:
  "redis_laws api \<Longrightarrow> zpopmax api k r = (r', None) \<Longrightarrow> r' = r \<and> zscore api r k = Map.empty"
  by (simp add: redis_laws_def zpop_laws_def)

lemma zpopmax_Some:
  assumes "redis_laws api" and "zpopmax api k r = (r', Some (m, s))"
  shows "zscore api r k m = Some s" "zscore api r k m' = Some s' \<Longrightarrow> s' \<le> s"
    "zscore api r' = (zscore api r)(k := (zscore api r k)(m := None))"
    "stored api now r' = stored api now r"
  using assms by (simp_all add: redis_laws_def zpop_laws_def)

section \<open>The queue\<close>

definition queue_key :: "string \<Rightarrow> string" where
  "queue_key q = ''queue:'' @ q"

definition processing_key :: "string \<Rightarrow> string" where
  "processing_key q = ''processing:'' @ q"

definition message_key :: "string \<Rightarrow> string" where
  "message_key i = ''message:'' @ i"

definition reply_key :: "string \<Rightarrow> string" where
  "reply_key c = ''reply:'' @ c"

lemma key_simps [simp]:
  "queue_key q = queue_key q' \<longleftrightarrow> q = q'" "processing_key q = processing_key q' \<longleftrightarrow> q = q'"
  "message_key i = message_key i' \<longleftrightarrow> i = i'"
  "queue_key q \<noteq> processing_key q'" "processing_key q \<noteq> queue_key q'"
  by (simp_all add: queue_key_def processing_key_def message_key_def)

definition create_metadata ::
    "string \<Rightarrow> string \<Rightarrow> nat \<Rightarrow> string \<Rightarrow> message_priority \<Rightarrow> string option \<Rightarrow> string option \<Rightarrow> nat option
       \<Rightarrow> message_metadata" where
  "create_metadata node_id uuid now queue priority correlation reply expires =
     \<lparr> md_id = uuid, md_queue = queue, publisher = node_id, md_timestamp = now, retry_count = 0,
       md_priority = priority, correlation_id = correlation, reply_to = reply, expiration = expires \<rparr>"

fun priority_score :: "message_priority \<Rightarrow> int" where
  "priority_score Low = 0"
| "priority_score Normal = 100"
| "priority_score High = 200"
| "priority_score Critical = 300"

text \<open>Storing a message and putting its id into a queue, the common tail of the three sends.\<close>

definition enqueue ::
    "('a, 'r) redis_api \<Rightarrow> nat \<Rightarrow> 'a message \<Rightarrow> nat \<Rightarrow> string \<Rightarrow> int \<Rightarrow> 'r \<Rightarrow> 'r" where
  "enqueue api now msg ttl queue score r =
     zadd api (queue_key queue) score (md_id (metadata msg))
       (kv_set api now (message_key (md_id (metadata msg))) msg ttl r)"

definition send ::
    "('a, 'r) redis_api \<Rightarrow> string \<Rightarrow> string \<Rightarrow> nat \<Rightarrow> string \<Rightarrow> 'a \<Rightarrow> message_priority \<Rightarrow> 'r \<Rightarrow> 'r \<times> string" where
  "send api node_id uuid now queue data priority r =
     (let msg = \<lparr> metadata = create_metadata node_id uuid now queue priority None None None, payload = data \<rparr> in
      (enqueue api now msg 3600 queue (priority_score priority + int (now div 1000)) r, md_id (metadata msg)))"

definition send_with_correlation ::
    "('a, 'r) redis_api \<Rightarrow> string \<Rightarrow> string \<Rightarrow> nat \<Rightarrow> string \<Rightarrow> 'a \<Rightarrow> string \<Rightarrow> message_priority \<Rightarrow> 'r \<Rightarrow> 'r \<times> string" where
  "send_with_correlation api node_id uuid now queue data correlation priority r =
     (let msg = \<lparr> metadata = create_metadata node_id uuid now queue priority (Some correlation) None None,
                  payload = data \<rparr> in
      (enqueue api now msg 3600 queue (priority_score priority + int (now div 1000)) r, md_id (metadata msg)))"

text \<open>
  The request half of \<open>send_and_receive\<close>: the second result is the channel it then subscribes to;
  the first message published there within the timeout, if any, is the answer.
\<close>

definition send_request ::
    "('a, 'r) redis_api \<Rightarrow> string \<Rightarrow> string \<Rightarrow> string \<Rightarrow> nat \<Rightarrow> string \<Rightarrow> 'a \<Rightarrow> nat \<Rightarrow> 'r \<Rightarrow> 'r \<times> string" where
  "send_request api node_id uuid correlation now queue data timeout_secs r =
     (let msg = \<lparr> metadata = create_metadata node_id uuid now queue High (Some correlation)
                               (Some (''reply:'' @ node_id)) (Some (now + timeout_secs)),
                  payload = data \<rparr> in
      (enqueue api now msg timeout_secs queue (250 + int (now div 1000)) r, reply_key correlation))"

text \<open>The clock is read once: the lookup of the data and the score of the processing set.\<close>

definition receive ::
    "('a, 'r) redis_api \<Rightarrow> nat \<Rightarrow> string \<Rightarrow> 'r \<Rightarrow> 'r \<times> 'a message option" where
  "receive api now queue r =
     (case zpopmax api (queue_key queue) r of
        (r, None) \<Rightarrow> (r, None)
      | (r, Some (message_id, score)) \<Rightarrow>
          (case stored api now r (message_key message_id) of
             None \<Rightarrow> (r, None)
           | Some msg \<Rightarrow>
               let msg = msg\<lparr>metadata := (metadata msg)\<lparr>retry_count := retry_count (metadata msg) + 1\<rparr>\<rparr> in
               (zadd api (processing_key queue) (int now + 300) message_id r, Some msg)))"

text \<open>The second result: what is published, a channel and a message.\<close>

definition acknowledge ::
    "('a, 'r) redis_api \<Rightarrow> 'a message \<Rightarrow> 'r \<Rightarrow> 'r \<times> (string \<times> 'a message) list" where
  "acknowledge api msg r =
     (let md = metadata msg;
          r = zrem api (processing_key (md_queue md)) (md_id md) r;
          r = kv_delete api (message_key (md_id md)) r in
      (r, case (reply_to md, correlation_id md) of
            (Some _, Some c) \<Rightarrow> [(reply_key c, msg)]
          | _ \<Rightarrow> []))"

definition receive_and_ack ::
    "('a, 'r) redis_api \<Rightarrow> nat \<Rightarrow> string \<Rightarrow> 'r \<Rightarrow> 'r \<times> 'a message option \<times> (string \<times> 'a message) list" where
  "receive_and_ack api now queue r =
     (case receive api now queue r of
        (r, Some msg) \<Rightarrow> (let (r, out) = acknowledge api msg r in (r, Some msg, out))
      | (r, None) \<Rightarrow> (r, None, []))"

definition reject :: "('a, 'r) redis_api \<Rightarrow> nat \<Rightarrow> 'a message \<Rightarrow> bool \<Rightarrow> 'r \<Rightarrow> 'r" where
  "reject api now msg requeue r =
     (let md = metadata msg;
          r = zrem api (processing_key (md_queue md)) (md_id md) r in
      if requeue \<and> retry_count md < 5
      then zadd api (queue_key (md_queue md))
             (priority_score (md_priority md) - int (unat (retry_count md)) * 10 + int (now div 1000)) (md_id md) r
      else r)"

section \<open>A Redis in memory\<close>

type_synonym 'a mem = "(string \<Rightarrow> (string \<times> int) list) \<times> (string \<Rightarrow> ('a message \<times> nat) option)"

definition pop_list :: "(string \<times> int) list \<Rightarrow> (string \<times> int) option" where
  "pop_list xs = (if xs = [] then None else Some (last (sort_key snd (AList.clearjunk xs))))"

definition list_redis :: "('a, 'a mem) redis_api" where
  "list_redis =
     \<lparr> zadd = (\<lambda>k s m (z, kv). (z(k := (m, s) # filter (\<lambda>(m', _). m' \<noteq> m) (z k)), kv)),
       zrem = (\<lambda>k m (z, kv). (z(k := filter (\<lambda>(m', _). m' \<noteq> m) (z k)), kv)),
       zpopmax = (\<lambda>k (z, kv). case pop_list (z k) of
                    None \<Rightarrow> ((z, kv), None)
                  | Some (m, s) \<Rightarrow> ((z(k := filter (\<lambda>(m', _). m' \<noteq> m) (z k)), kv), Some (m, s))),
       kv_set = (\<lambda>t k v ttl (z, kv). (z, kv(k := Some (v, t + ttl)))),
       kv_delete = (\<lambda>k (z, kv). (z, kv(k := None))),
       zscore = (\<lambda>(z, kv) k. map_of (z k)),
       stored = (\<lambda>now (z, kv) k. case kv k of Some (v, e) \<Rightarrow> if now < e then Some v else None | None \<Rightarrow> None) \<rparr>"

lemma map_of_filter_neq: "map_of (filter (\<lambda>(m', _). m' \<noteq> m) xs) = (map_of xs)(m := None)"
  by (induction xs) (auto simp: fun_eq_iff)

lemma sorted_last_max: "sorted (map f xs) \<Longrightarrow> x \<in> set xs \<Longrightarrow> f x \<le> f (last xs)"
  by (induction xs) auto

lemma pop_list_max:
  assumes "pop_list xs = Some (m, s)"
  shows "map_of xs m = Some s" and "map_of xs m' = Some s' \<Longrightarrow> s' \<le> s"
proof -
  let ?l = "sort_key snd (AList.clearjunk xs)"
  from assms have ne: "xs \<noteq> []" and l: "last ?l = (m, s)" by (auto simp: pop_list_def split: if_splits)
  have set_l: "set ?l = set (AList.clearjunk xs)" by simp
  have map_l: "map_of xs k = Some v \<longleftrightarrow> (k, v) \<in> set ?l" for k v
    using map_of_eq_Some_iff [OF distinct_clearjunk, of xs k v] by (simp add: map_of_clearjunk)
  from ne have "AList.clearjunk xs \<noteq> []" by (cases xs) auto
  with set_l have ne_l: "?l \<noteq> []" by (cases "?l") auto
  from last_in_set [OF ne_l] l map_l show "map_of xs m = Some s" by simp
  assume "map_of xs m' = Some s'"
  with map_l have "(m', s') \<in> set ?l" by blast
  then show "s' \<le> s" using sorted_last_max [of snd ?l] l by fastforce
qed

lemma list_redis_laws: "redis_laws (list_redis :: ('a, 'a mem) redis_api)"
proof -
  let ?api = "list_redis :: ('a, 'a mem) redis_api"
  have "zset_laws ?api"
    by (auto simp: zset_laws_def list_redis_def map_of_filter_neq fun_eq_iff)
  moreover have "kv_laws ?api"
    by (auto simp: kv_laws_def list_redis_def fun_eq_iff)
  moreover have "zpop_laws ?api"
    unfolding zpop_laws_def
  proof (intro conjI allI impI)
    fix k and r r' :: "'a mem"
    assume "zpopmax ?api k r = (r', None)"
    then show "r' = r" "zscore ?api r k = Map.empty"
      by (auto simp: list_redis_def pop_list_def split: prod.splits option.splits if_splits)
  next
    fix k m s and r r' :: "'a mem"
    assume a: "zpopmax ?api k r = (r', Some (m, s))"
    obtain z kv where r: "r = (z, kv)" by (cases r)
    from a r have pop: "pop_list (z k) = Some (m, s)"
      and r': "r' = (z(k := filter (\<lambda>(m', _). m' \<noteq> m) (z k)), kv)"
      by (auto simp: list_redis_def split: prod.splits option.splits)
    note max = pop_list_max [OF pop]
    from max r show "zscore ?api r k m = Some s" by (simp add: list_redis_def)
    from r r' show "zscore ?api r' = (zscore ?api r)(k := (zscore ?api r k)(m := None))"
      by (simp add: list_redis_def map_of_filter_neq fun_eq_iff)
    from r r' show "stored ?api now r' = stored ?api now r" for now by (simp add: list_redis_def)
    show "s' \<le> s" if "zscore ?api r k m' = Some s'" for m' s'
      using that max r by (simp add: list_redis_def)
  qed
  ultimately show ?thesis by (simp add: redis_laws_def)
qed

section \<open>Order of delivery\<close>

lemma priority_score_less: "p < q \<Longrightarrow> priority_score p + 100 \<le> priority_score q"
  by (cases p; cases q) (simp_all add: less_message_priority_def)

lemma receive_Some:
  assumes "redis_laws api" and "receive api now queue r = (r', Some msg)"
  shows "\<exists>i s d. zscore api r (queue_key queue) i = Some s
           \<and> (\<forall>j s'. zscore api r (queue_key queue) j = Some s' \<longrightarrow> s' \<le> s)
           \<and> stored api now r (message_key i) = Some d
           \<and> msg = d\<lparr>metadata := (metadata d)\<lparr>retry_count := retry_count (metadata d) + 1\<rparr>\<rparr>
           \<and> zscore api r' = (zscore api r)
                (queue_key queue := (zscore api r (queue_key queue))(i := None),
                 processing_key queue := (zscore api r (processing_key queue))(i \<mapsto> int now + 300))
           \<and> stored api t r' = stored api t r"
proof -
  obtain r0 out where p: "zpopmax api (queue_key queue) r = (r0, out)"
    by (cases "zpopmax api (queue_key queue) r")
  from assms(2) p obtain i s where out: "out = Some (i, s)"
    by (auto simp: receive_def split: option.splits)
  note pop = zpopmax_Some [OF assms(1) p [unfolded out]]
  from assms(2) p out pop(4) obtain d where d: "stored api now r (message_key i) = Some d"
    and msg: "msg = d\<lparr>metadata := (metadata d)\<lparr>retry_count := retry_count (metadata d) + 1\<rparr>\<rparr>"
    and r': "r' = zadd api (processing_key queue) (int now + 300) i r0"
    by (auto simp: receive_def Let_def split: option.splits)
  have "zscore api r' = (zscore api r)
          (queue_key queue := (zscore api r (queue_key queue))(i := None),
           processing_key queue := (zscore api r (processing_key queue))(i \<mapsto> int now + 300))"
    by (simp add: r' redis_lawsD [OF assms(1)] pop(3))
  moreover have "stored api t r' = stored api t r"
    by (simp add: r' redis_lawsD [OF assms(1)] pop(4))
  ultimately show ?thesis using pop(1,2) d msg by blast
qed

text \<open>
  The entries of a queue whose data is alive were put there by \<open>send\<close> or \<open>send_with_correlation\<close>
  (which keep the data for an hour) and never rejected.
\<close>

definition as_sent :: "('a, 'r) redis_api \<Rightarrow> nat \<Rightarrow> string \<Rightarrow> 'r \<Rightarrow> bool" where
  "as_sent api now queue r \<longleftrightarrow>
     (\<forall>i s d. zscore api r (queue_key queue) i = Some s \<longrightarrow> stored api now r (message_key i) = Some d \<longrightarrow>
        s = priority_score (md_priority (metadata d)) + int (md_timestamp (metadata d) div 1000)
        \<and> md_timestamp (metadata d) \<le> now \<and> now < md_timestamp (metadata d) + 3600)"

lemma as_sent_empty: "zscore api r (queue_key queue) = Map.empty \<Longrightarrow> as_sent api now queue r"
  by (simp add: as_sent_def)

lemma send_as_sent:
  assumes "redis_laws api" and "as_sent api now queue r" and "t \<le> now"
  shows "as_sent api now queue (fst (send api node i t queue data p r))"
    and "as_sent api now queue (fst (send_with_correlation api node i t queue data c p r))"
  using assms(2,3)
  by (auto simp: as_sent_def send_def send_with_correlation_def enqueue_def create_metadata_def Let_def
      redis_lawsD [OF assms(1)] split: if_splits)

section \<open>Rejecting and receiving again\<close>

text \<open>
  Receive a message and reject it for another try, at each of the given times; the retry counts
  the consumer sees.
\<close>

fun retry_cycles :: "('a, 'r) redis_api \<Rightarrow> string \<Rightarrow> nat list \<Rightarrow> 'r \<Rightarrow> 'r \<times> u32 list" where
  "retry_cycles api queue [] r = (r, [])"
| "retry_cycles api queue (t # ts) r =
     (case receive api t queue r of
        (r, Some msg) \<Rightarrow>
          (let (r, seen) = retry_cycles api queue ts (reject api t msg True r) in
           (r, retry_count (metadata msg) # seen))
      | (r, None) \<Rightarrow> retry_cycles api queue ts r)"

lemma one_cycle:
  assumes "redis_laws api" and q: "zscore api r (queue_key queue) = [i \<mapsto> s]"
    and d: "stored api t r (message_key i) = Some d" "md_id (metadata d) = i"
      "md_queue (metadata d) = queue" "retry_count (metadata d) = 0"
  shows "\<exists>r1 msg s'. receive api t queue r = (r1, Some msg) \<and> retry_count (metadata msg) = 1
           \<and> zscore api (reject api t msg True r1) (queue_key queue) = [i \<mapsto> s']
           \<and> (\<forall>u. stored api u (reject api t msg True r1) = stored api u r)"
proof -
  obtain r0 out where p: "zpopmax api (queue_key queue) r = (r0, out)"
    by (cases "zpopmax api (queue_key queue) r")
  with zpopmax_None [OF assms(1), of "queue_key queue" r r0] q obtain j s0 where out: "out = Some (j, s0)"
    by (cases out) auto
  note pop = zpopmax_Some [OF assms(1) p [unfolded out]]
  from pop(1) q have [simp]: "j = i" by (auto split: if_splits)
  show ?thesis
    using p out d pop(3,4) q
    by (auto simp: receive_def reject_def Let_def redis_lawsD [OF assms(1)] word_less_nat_alt)
qed

lemma retry_cycles_seen:
  assumes "redis_laws api" and "zscore api r (queue_key queue) = [i \<mapsto> s]"
    and "\<forall>t\<in>set ts. stored api t r (message_key i) = Some d" and "md_id (metadata d) = i"
    and "md_queue (metadata d) = queue" and "retry_count (metadata d) = 0"
    and "retry_cycles api queue ts r = (r', seen)"
  shows "seen = replicate (length ts) 1 \<and> (\<exists>s'. zscore api r' (queue_key queue) = [i \<mapsto> s'])"
  using assms(2,3,7)
proof (induction ts arbitrary: r s r' seen)
  case (Cons t ts)
  from one_cycle [OF assms(1) Cons.prems(1) _ assms(4-6), of t] Cons.prems(2)
  obtain r1 msg s' where c: "receive api t queue r = (r1, Some msg)" "retry_count (metadata msg) = 1"
    "zscore api (reject api t msg True r1) (queue_key queue) = [i \<mapsto> s']"
    "\<forall>u. stored api u (reject api t msg True r1) = stored api u r" by auto
  obtain seen' where rest: "retry_cycles api queue ts (reject api t msg True r1) = (r', seen')"
    and seen: "seen = 1 # seen'"
    using Cons.prems(3) c(1,2) by (cases "retry_cycles api queue ts (reject api t msg True r1)") auto
  from Cons.IH [OF c(3) _ rest] c(4) Cons.prems(2) seen show ?case by simp
qed auto

section \<open>Properties\<close>


definition empty_redis :: "nat mem" where
  "empty_redis = (\<lambda>_. [], \<lambda>_. None)"

definition two_sent :: "nat mem" where
  "two_sent = fst (send list_redis ''n'' ''b'' 1900 ''q'' 8 Low
                (fst (send list_redis ''n'' ''a'' 1000 ''q'' 7 High empty_redis)))"

lemma two_sent_as_sent: "as_sent list_redis 2000 ''q'' two_sent"
  unfolding two_sent_def
  by (intro send_as_sent(1) list_redis_laws as_sent_empty) (simp_all add: empty_redis_def list_redis_def)




end
