(* ===== verification/Subscription.thy ===== *)
theory Subscription
  imports Prelude
begin

text \<open>
  The subscription manager of \<^verbatim>\<open>common/src/subscription.rs\<close>: a vector of subscriptions searched by
  user. Times are seconds since the epoch; sums of \<open>u64\<close> wrap. An error is \<open>Inl\<close> of its kind: the
  messages are not kept. The HTTP handlers only call the bot and are left out.
\<close>

section \<open>Model\<close>

text \<open>
  The levels come from \<open>crate::user_subscription\<close>, which no file declares. Its constructors are those
  that \<open>check_subscription_limits\<close> and \<open>get_subscription_config\<close> match without a wildcard, so there
  are no others; the file copies a level after moving it and \<^verbatim>\<open>snipebot.rs\<close> compares levels with \<open><\<close>.
  The enum of \<^verbatim>\<open>common/src/user.rs\<close>, which has a fourth level and neither copies nor compares, is
  another type (\<open>user_level\<close> of the theory of users).
\<close>

datatype subscription_level = Free | Premium | VIP

datatype trade_type = AutoTrade | ManualTrade | SnipeTrade

datatype subscription_error = Not_found string | Expired string | Not_supported

record user_subscription =
  su_user :: string
  su_level :: subscription_level
  start_date :: u64
  end_date :: u64

text \<open>The field \<open>max_slippage_percent\<close> (\<open>f64\<close>) of the configuration is left out.\<close>

record trade_config =
  max_simultaneous_trades :: nat
  max_daily_trades :: nat
  min_trade_interval_seconds :: u64
  allowed_chains :: "string list"
  max_gas_price_gwei :: u64

record subscription_manager =
  subscription_config :: trade_config
  current_user_level :: subscription_level
  active_subscriptions :: "user_subscription list"

definition new_subscription :: "u64 \<Rightarrow> string \<Rightarrow> subscription_level \<Rightarrow> u64 \<Rightarrow> user_subscription" where
  "new_subscription now user level duration_days =
     \<lparr> su_user = user, su_level = level, start_date = now, end_date = now + duration_days * 24 * 60 * 60 \<rparr>"

definition is_active :: "u64 \<Rightarrow> user_subscription \<Rightarrow> bool" where
  "is_active now s \<longleftrightarrow> now \<le> end_date s"

definition remaining_days :: "u64 \<Rightarrow> user_subscription \<Rightarrow> u64" where
  "remaining_days now s = (if end_date s < now then 0 else (end_date s - now) div (24 * 60 * 60))"

definition extend :: "u64 \<Rightarrow> user_subscription \<Rightarrow> user_subscription" where
  "extend additional_days s = s\<lparr>end_date := end_date s + additional_days * 24 * 60 * 60\<rparr>"

definition default_trade_config :: trade_config where
  "default_trade_config =
     \<lparr> max_simultaneous_trades = 1, max_daily_trades = 5, min_trade_interval_seconds = 3600,
       allowed_chains = [''ethereum'', ''bsc''], max_gas_price_gwei = 100 \<rparr>"

definition new_subscription_manager :: subscription_manager where
  "new_subscription_manager =
     \<lparr> subscription_config = default_trade_config, current_user_level = Free, active_subscriptions = [] \<rparr>"

definition set_subscription_config :: "trade_config \<Rightarrow> subscription_manager \<Rightarrow> subscription_manager" where
  "set_subscription_config config self = self\<lparr>subscription_config := config\<rparr>"

text \<open>\<open>iter_mut().find(..)\<close>: the first subscription of the user is changed, \<open>None\<close> when there is none.\<close>

fun modify_first ::
    "string \<Rightarrow> (user_subscription \<Rightarrow> user_subscription) \<Rightarrow> user_subscription list \<Rightarrow> user_subscription list option" where
  "modify_first user f [] = None"
| "modify_first user f (s # ss) =
     (if su_user s = user then Some (f s # ss) else map_option ((#) s) (modify_first user f ss))"

definition update_user_level ::
    "u64 \<Rightarrow> string \<Rightarrow> subscription_level \<Rightarrow> subscription_manager \<Rightarrow> subscription_manager" where
  "update_user_level now user level self =
     self\<lparr>active_subscriptions :=
       (case modify_first user (\<lambda>s. s\<lparr>su_level := level\<rparr>) (active_subscriptions self) of
          Some ss \<Rightarrow> ss
        | None \<Rightarrow> active_subscriptions self @ [new_subscription now user level 30])\<rparr>"

definition get_user_subscription :: "string \<Rightarrow> subscription_manager \<Rightarrow> user_subscription option" where
  "get_user_subscription user self = List.find (\<lambda>s. su_user s = user) (active_subscriptions self)"

definition extend_subscription ::
    "string \<Rightarrow> u64 \<Rightarrow> subscription_manager \<Rightarrow> subscription_error + subscription_manager" where
  "extend_subscription user additional_days self =
     (case modify_first user (extend additional_days) (active_subscriptions self) of
        Some ss \<Rightarrow> Inr (self\<lparr>active_subscriptions := ss\<rparr>)
      | None \<Rightarrow> Inl (Not_found user))"

definition check_subscription_limits ::
    "u64 \<Rightarrow> string \<Rightarrow> trade_type \<Rightarrow> subscription_manager \<Rightarrow> subscription_error + unit" where
  "check_subscription_limits now user trade self =
     (case get_user_subscription user self of
        Some s \<Rightarrow>
          if \<not> is_active now s then Inl (Expired user)
          else (case su_level s of
                  Free \<Rightarrow> (case trade of AutoTrade \<Rightarrow> Inl Not_supported
                                     | ManualTrade \<Rightarrow> Inr () | SnipeTrade \<Rightarrow> Inr ())
                | Premium \<Rightarrow> Inr ()
                | VIP \<Rightarrow> Inr ())
      | None \<Rightarrow> Inl (Not_found user))"

definition get_subscription_config :: "subscription_level \<Rightarrow> subscription_manager \<Rightarrow> trade_config" where
  "get_subscription_config level self =
     (case level of
        Free \<Rightarrow> (subscription_config self)
                  \<lparr>max_simultaneous_trades := 1, max_daily_trades := 3, allowed_chains := [''ethereum'']\<rparr>
      | Premium \<Rightarrow> (subscription_config self)\<lparr>max_simultaneous_trades := 3, max_daily_trades := 10\<rparr>
      | VIP \<Rightarrow> subscription_config self)"

definition cleanup_expired_subscriptions :: "u64 \<Rightarrow> subscription_manager \<Rightarrow> subscription_manager" where
  "cleanup_expired_subscriptions now self =
     self\<lparr>active_subscriptions := filter (\<lambda>s. now \<le> end_date s) (active_subscriptions self)\<rparr>"

datatype subscription_op =
    Update_level u64 string subscription_level | Extend string u64 | Cleanup u64 | Set_config trade_config

fun exec_subscription :: "subscription_op \<Rightarrow> subscription_manager \<Rightarrow> subscription_manager" where
  "exec_subscription (Update_level now user level) self = update_user_level now user level self"
| "exec_subscription (Extend user days) self =
     (case extend_subscription user days self of Inl e \<Rightarrow> self | Inr self' \<Rightarrow> self')"
| "exec_subscription (Cleanup now) self = cleanup_expired_subscriptions now self"
| "exec_subscription (Set_config c) self = set_subscription_config c self"

section \<open>The abstract manager: a map from users to subscriptions\<close>

fun abstract_op :: "subscription_op \<Rightarrow> (string \<rightharpoonup> user_subscription) \<Rightarrow> (string \<rightharpoonup> user_subscription)" where
  "abstract_op (Update_level now user level) m =
     m(user \<mapsto> (case m user of Some s \<Rightarrow> s\<lparr>su_level := level\<rparr>
                              | None \<Rightarrow> new_subscription now user level 30))"
| "abstract_op (Extend user days) m =
     (case m user of Some s \<Rightarrow> m(user \<mapsto> extend days s) | None \<Rightarrow> m)"
| "abstract_op (Cleanup now) m =
     (\<lambda>u. case m u of Some s \<Rightarrow> if now \<le> end_date s then Some s else None | None \<Rightarrow> None)"
| "abstract_op (Set_config c) m = m"

definition abs_map :: "subscription_manager \<Rightarrow> (string \<rightharpoonup> user_subscription)" where
  "abs_map self = (\<lambda>u. get_user_subscription u self)"

definition users_distinct :: "subscription_manager \<Rightarrow> bool" where
  "users_distinct self \<longleftrightarrow> distinct (map su_user (active_subscriptions self))"

lemma modify_first_find:
  assumes "\<And>s. su_user (f s) = su_user s"
  shows "case modify_first user f ss of
           Some ss' \<Rightarrow> (\<lambda>u. List.find (\<lambda>s. su_user s = u) ss')
                = (\<lambda>u. List.find (\<lambda>s. su_user s = u) ss)
                    (user := map_option f (List.find (\<lambda>s. su_user s = user) ss))
              \<and> map su_user ss' = map su_user ss \<and> List.find (\<lambda>s. su_user s = user) ss \<noteq> None
         | None \<Rightarrow> List.find (\<lambda>s. su_user s = user) ss = None"
proof (induction ss)
  case (Cons a ss)
  then show ?case by (auto simp: assms fun_eq_iff split: option.splits)
qed simp

lemma find_filter_distinct:
  assumes "distinct (map su_user ss)"
  shows "List.find (\<lambda>s. su_user s = u) (filter P ss)
           = (case List.find (\<lambda>s. su_user s = u) ss of Some s \<Rightarrow> if P s then Some s else None | None \<Rightarrow> None)"
  using assms
proof (induction ss)
  case (Cons a ss)
  have "u \<notin> su_user ` set ss \<Longrightarrow> List.find (\<lambda>s. su_user s = u) (filter P ss) = None"
    by (auto simp: find_None_iff)
  with Cons show ?case by auto
qed simp

lemma find_append_None:
  "List.find P xs = None \<Longrightarrow> List.find P (xs @ ys) = List.find P ys"
  by (induction xs) (auto split: if_splits)

lemma find_append_Some:
  "List.find P xs = Some x \<Longrightarrow> List.find P (xs @ ys) = Some x"
  by (induction xs) (auto split: if_splits)

lemma su_user_new [simp]: "su_user (new_subscription now user level d) = user"
  by (simp add: new_subscription_def)

lemma exec_subscription_refines:
  assumes "users_distinct self"
  shows "abs_map (exec_subscription c self) = abstract_op c (abs_map self)
         \<and> users_distinct (exec_subscription c self)"
proof (cases c)
  case (Update_level now user level)
  let ?f = "\<lambda>s. s\<lparr>su_level := level\<rparr>" and ?ss = "active_subscriptions self"
  show ?thesis
  proof (cases "modify_first user ?f ?ss")
    case (Some ss')
    with modify_first_find [of ?f user ?ss] assms Update_level show ?thesis
      by (auto simp: update_user_level_def abs_map_def get_user_subscription_def users_distinct_def)
  next
    case None
    with modify_first_find [of ?f user ?ss] have n: "List.find (\<lambda>s. su_user s = user) ?ss = None" by simp
    have "List.find (\<lambda>s. su_user s = u) (?ss @ [new_subscription now user level 30])
        = (if u = user then Some (new_subscription now user level 30) else List.find (\<lambda>s. su_user s = u) ?ss)" for u
      using n by (cases "List.find (\<lambda>s. su_user s = u) ?ss")
        (auto simp: find_append_None find_append_Some)
    with None n assms Update_level show ?thesis
      by (auto simp: update_user_level_def abs_map_def get_user_subscription_def users_distinct_def
          fun_eq_iff) (auto simp: find_None_iff)
  qed
next
  case (Extend user days)
  with modify_first_find [of "extend days" user "active_subscriptions self"] assms show ?thesis
    by (auto simp: extend_subscription_def extend_def abs_map_def get_user_subscription_def users_distinct_def
        split: option.splits)
next
  case (Cleanup now)
  with assms show ?thesis
    by (auto simp: cleanup_expired_subscriptions_def abs_map_def get_user_subscription_def users_distinct_def
        find_filter_distinct distinct_map_filter)
qed (use assms in \<open>simp add: set_subscription_config_def abs_map_def get_user_subscription_def users_distinct_def\<close>)

lemma run_subscription_refines:
  "users_distinct self \<Longrightarrow>
     abs_map (fold exec_subscription cs self) = fold abstract_op cs (abs_map self)
     \<and> users_distinct (fold exec_subscription cs self)"
  by (induction cs arbitrary: self) (auto simp: exec_subscription_refines)

section \<open>Properties\<close>

text \<open>C39. The vector implements a map: after any sequence of operations on a new manager the lookup
  of every user answers what the same operations on a map from users to subscriptions give, and
  no user has two entries. A trade is then permitted exactly to a user whose subscription has not
  ended, auto-trading excepted on the free level. In particular an active user of the free level
  may snipe without limit, where a comment of the code promises three snipes a day. (A change of
  level does not move the end date: an expired user stays expired.)\<close>

theorem subscription_refines_map:
  "(let self = fold exec_subscription cs new_subscription_manager; m = fold abstract_op cs Map.empty in
    (\<forall>u. get_user_subscription u self = m u)
    \<and> distinct (map su_user (active_subscriptions self))
    \<and> (\<forall>now u t. check_subscription_limits now u t self = Inr () \<longleftrightarrow>
         (\<exists>s. m u = Some s \<and> now \<le> end_date s \<and> \<not> (su_level s = Free \<and> t = AutoTrade))))"
proof -
  have "users_distinct new_subscription_manager" "abs_map new_subscription_manager = Map.empty"
    by (simp_all add: users_distinct_def abs_map_def new_subscription_manager_def get_user_subscription_def)
  with run_subscription_refines [of new_subscription_manager cs]
  have r: "abs_map (fold exec_subscription cs new_subscription_manager) = fold abstract_op cs Map.empty"
    "users_distinct (fold exec_subscription cs new_subscription_manager)" by simp_all
  then have "get_user_subscription u (fold exec_subscription cs new_subscription_manager)
      = fold abstract_op cs Map.empty u" for u
    by (simp add: abs_map_def fun_eq_iff)
  with r(2) show ?thesis
    by (auto simp: Let_def users_distinct_def check_subscription_limits_def is_active_def
        split: option.splits subscription_level.splits trade_type.splits)
qed

end
