(* ===== verification/Users.thy ===== *)
theory Users
  imports Prelude "HOL-Library.AList"
begin

text \<open>
  Users and their subscriptions, \<^verbatim>\<open>common/src/user.rs\<close>. The user table is a \<open>HashMap\<close> by id: an
  association list whose order stands for the (unspecified) order of iteration. The file it is
  saved to is part of the state; each operation says how its file access ends. The
  password functions of the bcrypt and argon2 crates are the parameter \<open>crypto\<close>, with the laws
  \<open>crypto_laws\<close>. Fresh ids, salts and the time are arguments; JSON settings are kept as text; an
  error is its kind, without the message. Sums of \<open>u64\<close> wrap.
\<close>

section \<open>Subscriptions\<close>

datatype user_role = Admin | User_role

datatype user_level = Free | Basic | Premium | VIP

record subscription =
  us_level :: user_level
  us_start :: u64
  us_expiry :: u64
  us_active :: bool

definition new_user_subscription :: "u64 \<Rightarrow> user_level \<Rightarrow> u64 \<Rightarrow> subscription" where
  "new_user_subscription now level days =
     \<lparr> us_level = level, us_start = now, us_expiry = now + days * 86400, us_active = True \<rparr>"

definition sub_is_active :: "u64 \<Rightarrow> subscription \<Rightarrow> bool" where
  "sub_is_active now s \<longleftrightarrow> us_active s \<and> now < us_expiry s"

definition sub_extend :: "u64 \<Rightarrow> u64 \<Rightarrow> subscription \<Rightarrow> subscription" where
  "sub_extend now days s =
     (if us_expiry s < now
      then s\<lparr>us_start := now, us_expiry := now + days * 86400\<rparr>
      else s\<lparr>us_expiry := us_expiry s + days * 86400\<rparr>)\<lparr>us_active := True\<rparr>"

definition sub_update_level :: "user_level \<Rightarrow> subscription \<Rightarrow> subscription" where
  "sub_update_level level s = s\<lparr>us_level := level\<rparr>"

definition sub_remaining_days :: "u64 \<Rightarrow> subscription \<Rightarrow> u64" where
  "sub_remaining_days now s =
     (if \<not> sub_is_active now s then 0
      else if us_expiry s \<le> now then 0 else (us_expiry s - now) div 86400)"

definition sub_deactivate :: "subscription \<Rightarrow> subscription" where
  "sub_deactivate s = s\<lparr>us_active := False\<rparr>"

definition sub_reactivate :: "subscription \<Rightarrow> subscription" where
  "sub_reactivate s = s\<lparr>us_active := True\<rparr>"

section \<open>Users\<close>

record user_info =
  ui_username :: string
  ui_email :: string
  ui_role :: string
  ui_wallets :: "string list"
  ui_last_login :: "nat option"

record user =
  user_id :: string
  username :: string
  email :: string
  password_hash :: string
  created_at :: nat
  updated_at :: nat
  last_login :: "nat option"
  api_key :: "string option"
  roles :: "string list"
  settings :: "string \<rightharpoonup> string"
  subscription_id :: "string option"
  role :: "user_role option"
  wallets :: "string list"
  active :: bool
  subscription :: "subscription option"

text \<open>
  \<open>bc_hash\<close> and \<open>bc_verify\<close> are bcrypt's, \<open>ar_hash\<close> is argon2's with a salt; \<open>None\<close> is an error.
  A bcrypt hash verifies its password; bcrypt rejects a string of argon2's format.
\<close>

record crypto =
  bc_hash :: "string \<Rightarrow> string option"
  bc_verify :: "string \<Rightarrow> string \<Rightarrow> bool option"
  ar_hash :: "string \<Rightarrow> string \<Rightarrow> string option"

definition crypto_laws :: "crypto \<Rightarrow> bool" where
  "crypto_laws c \<longleftrightarrow>
     (\<forall>p h. bc_hash c p = Some h \<longrightarrow> bc_verify c p h = Some True)
     \<and> (\<forall>salt p h q. ar_hash c salt p = Some h \<longrightarrow> bc_verify c q h = None)"

definition new_user ::
    "crypto \<Rightarrow> string \<Rightarrow> string \<Rightarrow> u64 \<Rightarrow> string \<Rightarrow> string \<Rightarrow> string \<Rightarrow> user option" where
  "new_user c uuid key now name mail password =
     map_option (\<lambda>h. \<lparr> user_id = uuid, username = name, email = mail, password_hash = h,
        created_at = unat now, updated_at = unat now, last_login = None, api_key = Some key,
        roles = [''user''], settings = Map.empty, subscription_id = None, role = Some User_role,
        wallets = [], active = True, subscription = Some (new_user_subscription now Free 365) \<rparr>)
       (bc_hash c password)"

definition verify_password :: "crypto \<Rightarrow> string \<Rightarrow> user \<Rightarrow> bool" where
  "verify_password c password u =
     (case bc_verify c password (password_hash u) of Some r \<Rightarrow> r | None \<Rightarrow> False)"

definition set_password :: "crypto \<Rightarrow> string \<Rightarrow> nat \<Rightarrow> string \<Rightarrow> user \<Rightarrow> user option" where
  "set_password c salt now password u =
     map_option (\<lambda>h. u\<lparr>password_hash := h, updated_at := now\<rparr>) (ar_hash c salt password)"

definition update_last_login :: "nat \<Rightarrow> user \<Rightarrow> user" where
  "update_last_login now u = u\<lparr>last_login := Some now\<rparr>"

definition regenerate_api_key :: "string \<Rightarrow> nat \<Rightarrow> user \<Rightarrow> user" where
  "regenerate_api_key key now u = u\<lparr>api_key := Some key, updated_at := now\<rparr>"

definition has_wallet_access :: "string \<Rightarrow> user \<Rightarrow> bool" where
  "has_wallet_access wallet u \<longleftrightarrow> role u = Some Admin \<or> List.member (wallets u) wallet"

definition has_active_subscription :: "u64 \<Rightarrow> user \<Rightarrow> bool" where
  "has_active_subscription now u =
     (case subscription u of Some s \<Rightarrow> sub_is_active now s | None \<Rightarrow> False)"

definition update_subscription :: "u64 \<Rightarrow> user_level \<Rightarrow> u64 \<Rightarrow> user \<Rightarrow> user" where
  "update_subscription now level days u =
     u\<lparr>subscription := Some (case subscription u of
          Some s \<Rightarrow> if sub_is_active now s then sub_update_level level (sub_extend now days s)
                    else new_user_subscription now level days
        | None \<Rightarrow> new_user_subscription now level days),
       updated_at := unat now\<rparr>"

definition add_wallet :: "nat \<Rightarrow> string \<Rightarrow> user \<Rightarrow> user" where
  "add_wallet now wallet u =
     (if \<not> List.member (wallets u) wallet then u\<lparr>wallets := wallets u @ [wallet], updated_at := now\<rparr> else u)"

definition remove_wallet :: "nat \<Rightarrow> string \<Rightarrow> user \<Rightarrow> user" where
  "remove_wallet now wallet u = u\<lparr>wallets := filter (\<lambda>a. a \<noteq> wallet) (wallets u), updated_at := now\<rparr>"

definition to_user_info :: "user \<Rightarrow> user_info" where
  "to_user_info u =
     \<lparr> ui_username = username u, ui_email = email u,
       ui_role = (case roles u of r # _ \<Rightarrow> r | [] \<Rightarrow> ''user''),
       ui_wallets = wallets u, ui_last_login = last_login u \<rparr>"

section \<open>The user manager\<close>

type_synonym user_table = "(string \<times> user) list"

text \<open>
  \<open>File::create\<close> truncates the file before the new contents are written: a write that fails after
  it leaves a file no later load can parse.
\<close>

datatype file_access = Access_ok | Open_failed | Write_failed

datatype table_file = Absent | Saved user_table | Corrupt

record user_manager =
  users :: user_table
  user_file :: table_file

datatype user_error = Duplicate | Invalid_credentials | User_not_found | Hash_failed | Io_failed | No_subscription

definition save :: "file_access \<Rightarrow> user_manager \<Rightarrow> user_manager \<times> (user_error + unit)" where
  "save io self =
     (case io of
        Access_ok \<Rightarrow> (self\<lparr>user_file := Saved (users self)\<rparr>, Inr ())
      | Open_failed \<Rightarrow> (self, Inl Io_failed)
      | Write_failed \<Rightarrow> (self\<lparr>user_file := Corrupt\<rparr>, Inl Io_failed))"

definition admin_user :: "crypto \<Rightarrow> string \<Rightarrow> string \<Rightarrow> u64 \<Rightarrow> user option" where
  "admin_user c uuid key now =
     map_option (\<lambda>h. \<lparr> user_id = uuid, username = ''admin'', email = ''admin@example.com'', password_hash = h,
        created_at = unat now, updated_at = unat now, last_login = None, api_key = Some key,
        roles = [''admin''], settings = Map.empty, subscription_id = None, role = Some Admin,
        wallets = [], active = True, subscription = Some (new_user_subscription now VIP 365) \<rparr>)
       (bc_hash c ''admin123'')"

text \<open>\<open>UserManager::new\<close>: loads the file when there is one, else creates and saves the administrator.\<close>

definition new_user_manager ::
    "crypto \<Rightarrow> file_access \<Rightarrow> string \<Rightarrow> string \<Rightarrow> u64 \<Rightarrow> table_file \<Rightarrow> user_error + user_manager" where
  "new_user_manager c io uuid key now file =
     (case file of
        Saved t \<Rightarrow> if io = Access_ok then Inr \<lparr> users = t, user_file = file \<rparr> else Inl Io_failed
      | Corrupt \<Rightarrow> Inl Io_failed
      | Absent \<Rightarrow>
          (case admin_user c uuid key now of
             None \<Rightarrow> Inl Hash_failed
           | Some u \<Rightarrow>
               (case save io \<lparr> users = [(user_id u, u)], user_file = Absent \<rparr> of
                  (m, Inr _) \<Rightarrow> Inr m
                | (m, Inl e) \<Rightarrow> Inl e)))"

definition add_user :: "file_access \<Rightarrow> user \<Rightarrow> user_manager \<Rightarrow> user_manager \<times> (user_error + unit)" where
  "add_user io u self =
     (if list_ex (\<lambda>(_, v). username v = username u \<or> email v = email u) (users self)
      then (self, Inl Duplicate)
      else save io (self\<lparr>users := AList.update (user_id u) u (users self)\<rparr>))"

definition get_user :: "string \<Rightarrow> user_manager \<Rightarrow> user option" where
  "get_user i self = map_of (users self) i"

definition get_user_by_username :: "string \<Rightarrow> user_manager \<Rightarrow> user option" where
  "get_user_by_username name self = map_option snd (List.find (\<lambda>(_, u). username u = name) (users self))"

definition get_user_by_email :: "string \<Rightarrow> user_manager \<Rightarrow> user option" where
  "get_user_by_email mail self = map_option snd (List.find (\<lambda>(_, u). email u = mail) (users self))"

text \<open>The operations that change one user: found by its id, changed, and the table saved.\<close>

definition modify_user ::
    "file_access \<Rightarrow> string \<Rightarrow> (user \<Rightarrow> user option) \<Rightarrow> user_manager \<Rightarrow> user_manager \<times> (user_error + unit)" where
  "modify_user io i f self =
     (case map_of (users self) i of
        None \<Rightarrow> (self, Inl User_not_found)
      | Some u \<Rightarrow>
          (case f u of
             None \<Rightarrow> (self, Inl Hash_failed)
           | Some u' \<Rightarrow> save io (self\<lparr>users := AList.update i u' (users self)\<rparr>)))"

definition authenticate ::
    "crypto \<Rightarrow> file_access \<Rightarrow> nat \<Rightarrow> string \<Rightarrow> string \<Rightarrow> user_manager \<Rightarrow> user_manager \<times> (user_error + user)" where
  "authenticate c io now name password self =
     (case List.find (\<lambda>(_, u). username u = name \<and> verify_password c password u \<and> active u) (users self) of
        None \<Rightarrow> (self, Inl Invalid_credentials)
      | Some (_, u) \<Rightarrow>
          (case modify_user io (user_id u) (\<lambda>u. Some (update_last_login now u)) self of
             (self, Inl e) \<Rightarrow> (self, Inl e)
           | (self, Inr _) \<Rightarrow> (self, case map_of (users self) (user_id u) of
                                        Some u \<Rightarrow> Inr u | None \<Rightarrow> Inl User_not_found)))"

definition update_user :: "file_access \<Rightarrow> nat \<Rightarrow> string \<Rightarrow> (user \<Rightarrow> user) \<Rightarrow> user_manager \<Rightarrow> user_manager \<times> (user_error + unit)" where
  "update_user io now i update_fn self = modify_user io i (\<lambda>u. Some ((update_fn u)\<lparr>updated_at := now\<rparr>)) self"

definition delete_user :: "file_access \<Rightarrow> string \<Rightarrow> user_manager \<Rightarrow> user_manager \<times> (user_error + unit)" where
  "delete_user io i self =
     (if map_of (users self) i \<noteq> None then save io (self\<lparr>users := AList.delete i (users self)\<rparr>)
      else (self, Inl User_not_found))"

definition change_password ::
    "crypto \<Rightarrow> file_access \<Rightarrow> string \<Rightarrow> nat \<Rightarrow> string \<Rightarrow> string \<Rightarrow> string \<Rightarrow> user_manager \<Rightarrow> user_manager \<times> (user_error + unit)" where
  "change_password c io salt now name old_password new_password self =
     (case List.find (\<lambda>(_, u). username u = name \<and> verify_password c old_password u) (users self) of
        None \<Rightarrow> (self, Inl Invalid_credentials)
      | Some (_, u) \<Rightarrow> modify_user io (user_id u) (set_password c salt now new_password) self)"

definition reset_password ::
    "crypto \<Rightarrow> file_access \<Rightarrow> string \<Rightarrow> nat \<Rightarrow> string \<Rightarrow> string \<Rightarrow> user_manager \<Rightarrow> user_manager \<times> (user_error + unit)" where
  "reset_password c io salt now i new_password self = modify_user io i (set_password c salt now new_password) self"

definition assign_wallet :: "file_access \<Rightarrow> nat \<Rightarrow> string \<Rightarrow> string \<Rightarrow> user_manager \<Rightarrow> user_manager \<times> (user_error + unit)" where
  "assign_wallet io now i wallet self = modify_user io i (\<lambda>u. Some (add_wallet now wallet u)) self"

definition unassign_wallet :: "file_access \<Rightarrow> nat \<Rightarrow> string \<Rightarrow> string \<Rightarrow> user_manager \<Rightarrow> user_manager \<times> (user_error + unit)" where
  "unassign_wallet io now i wallet self = modify_user io i (\<lambda>u. Some (remove_wallet now wallet u)) self"

definition update_user_subscription ::
    "file_access \<Rightarrow> u64 \<Rightarrow> string \<Rightarrow> user_level \<Rightarrow> u64 \<Rightarrow> user_manager \<Rightarrow> user_manager \<times> (user_error + unit)" where
  "update_user_subscription io now i level days self =
     modify_user io i (\<lambda>u. Some (update_subscription now level days u)) self"

definition get_all_users :: "user_manager \<Rightarrow> user list" where
  "get_all_users self = map snd (users self)"

definition get_subscription_of :: "string \<Rightarrow> user_manager \<Rightarrow> user_error + subscription" where
  "get_subscription_of name self =
     (case get_user_by_username name self of
        Some u \<Rightarrow> (case subscription u of Some s \<Rightarrow> Inr s | None \<Rightarrow> Inl No_subscription)
      | None \<Rightarrow> Inl User_not_found)"

section \<open>The table's invariant\<close>

definition users_ok :: "user_manager \<Rightarrow> bool" where
  "users_ok self \<longleftrightarrow> distinct (map fst (users self)) \<and> (\<forall>(i, u)\<in>set (users self). user_id u = i)
     \<and> distinct (map (username \<circ> snd) (users self)) \<and> distinct (map (email \<circ> snd) (users self))"

lemma map_update_same:
  "map_of t i = Some u \<Longrightarrow> g u' = g u \<Longrightarrow> distinct (map fst t) \<Longrightarrow>
     map (g \<circ> snd) (AList.update i u' t) = map (g \<circ> snd) t"
  by (induction t) (auto split: if_splits)

lemma set_update_distinct:
  "distinct (map fst t) \<Longrightarrow> set (AList.update i u t) = {(j, v). (j, v) \<in> set t \<and> j \<noteq> i} \<union> {(i, u)}"
proof (induction t)
  case (Cons a t)
  obtain k w where a: "a = (k, w)" by (cases a)
  from Cons.prems a have "k \<notin> fst ` set t" by simp
  with Cons a show ?case by (cases "k = i") (auto intro: rev_image_eqI)
qed simp

lemma map_of_ok: "users_ok self \<Longrightarrow> map_of (users self) i = Some u \<longleftrightarrow> (i, u) \<in> set (users self)"
  by (simp add: users_ok_def map_of_eq_Some_iff)

lemma users_ok_name:
  assumes "users_ok self" and "(i, u) \<in> set (users self)" and "(j, v) \<in> set (users self)"
    and "username u = username v"
  shows "i = j \<and> u = v"
proof -
  from assms(1) have "inj_on (username \<circ> snd) (set (users self))"
    by (simp add: users_ok_def distinct_map)
  from inj_onD [OF this, of "(i, u)" "(j, v)"] assms show ?thesis by simp
qed

lemma users_ok_modify:
  assumes "users_ok self" and "map_of (users self) i = Some u"
    and "user_id u' = user_id u" "username u' = username u" "email u' = email u"
  shows "users_ok (self\<lparr>users := AList.update i u' (users self)\<rparr>)"
proof -
  from assms(1) have d: "distinct (map fst (users self))" by (simp add: users_ok_def)
  from assms(1,2) have "user_id u = i" by (auto simp: users_ok_def dest: map_of_SomeD)
  with assms(1,3) have "\<forall>(j, v)\<in>set (AList.update i u' (users self)). user_id v = j"
    by (auto simp: users_ok_def set_update_distinct)
  with assms(1) map_update_same [OF assms(2) _ d, of username u'] map_update_same [OF assms(2) _ d, of email u']
    assms(4,5) d
  show ?thesis by (simp add: users_ok_def distinct_update)
qed

lemma save_frame [simp]: "users (fst (save io self)) = users self"
  by (cases io) (simp_all add: save_def)

lemma users_ok_save [simp]: "users_ok (fst (save io self)) = users_ok self"
  by (simp add: users_ok_def)

lemma save_Inr: "save io self = (m, Inr ()) \<Longrightarrow> user_file m = Saved (users m) \<and> users m = users self"
  by (auto simp: save_def split: file_access.splits)

lemma modify_user_ok:
  assumes "users_ok self" and "\<And>u u'. f u = Some u' \<Longrightarrow>
      user_id u' = user_id u \<and> username u' = username u \<and> email u' = email u"
    and "modify_user io i f self = (m, r)"
  shows "users_ok m \<and> (r = Inr () \<longrightarrow> user_file m = Saved (users m))"
  using assms(3)
proof (cases "map_of (users self) i")
  case (Some u)
  show ?thesis
  proof (cases "f u")
    case (Some u')
    let ?s = "self\<lparr>users := AList.update i u' (users self)\<rparr>"
    from assms(3) Some \<open>map_of (users self) i = Some u\<close> have m: "save io ?s = (m, r)"
      by (simp add: modify_user_def)
    from users_ok_modify [OF assms(1) \<open>map_of (users self) i = Some u\<close>] assms(2) [OF Some]
    have "users_ok ?s" by blast
    with m have "users_ok m" by (metis fst_conv users_ok_save)
    with m show ?thesis by (auto dest: save_Inr)
  qed (use assms(1,3) Some in \<open>auto simp: modify_user_def\<close>)
qed (use assms(1) in \<open>auto simp: modify_user_def\<close>)

datatype user_op =
    Add user | Delete string | Login nat string string | Change_password string nat string string string
  | Reset_password string nat string string | Assign_wallet nat string string
  | Unassign_wallet nat string string | Set_subscription u64 string user_level u64

fun exec_user :: "crypto \<Rightarrow> file_access \<times> user_op \<Rightarrow> user_manager \<Rightarrow> user_manager \<times> (user_error + unit)" where
  "exec_user c (io, Add u) self = add_user io u self"
| "exec_user c (io, Delete i) self = delete_user io i self"
| "exec_user c (io, Login now n p) self =
     (case authenticate c io now n p self of (m, Inl e) \<Rightarrow> (m, Inl e) | (m, Inr u) \<Rightarrow> (m, Inr ()))"
| "exec_user c (io, Change_password salt now n p q) self = change_password c io salt now n p q self"
| "exec_user c (io, Reset_password salt now i q) self = reset_password c io salt now i q self"
| "exec_user c (io, Assign_wallet now i w) self = assign_wallet io now i w self"
| "exec_user c (io, Unassign_wallet now i w) self = unassign_wallet io now i w self"
| "exec_user c (io, Set_subscription now i l d) self = update_user_subscription io now i l d self"

lemma set_password_frame:
  "set_password c salt now q u = Some u' \<Longrightarrow> user_id u' = user_id u \<and> username u' = username u \<and> email u' = email u"
  by (auto simp: set_password_def)

lemma add_user_ok:
  assumes "users_ok self" and "add_user io u self = (m, r)"
  shows "users_ok m \<and> (r = Inr () \<longrightarrow> user_file m = Saved (users m))"
proof (cases "list_ex (\<lambda>(_, v). username v = username u \<or> email v = email u) (users self)")
  case False
  let ?t = "AList.update (user_id u) u (users self)"
  from False assms(2) have m: "save io (self\<lparr>users := ?t\<rparr>) = (m, r)" by (simp add: add_user_def)
  have d: "distinct (map fst (users self))" using assms(1) by (simp add: users_ok_def)
  have fresh: "\<forall>(j, v)\<in>set (users self). username v \<noteq> username u \<and> email v \<noteq> email u"
    using False by (auto simp: list_ex_iff)
  have dist: "distinct (map (g \<circ> snd) (AList.update i u t))"
    if "distinct (map (g \<circ> snd) t)" "\<forall>(j, v)\<in>set t. g v \<noteq> g u" for g :: "user \<Rightarrow> string" and t i
    using that
  proof (induction t)
    case (Cons a t)
    have sub: "set (AList.update i u t) \<subseteq> insert (i, u) (set t)" by (induction t) auto
    from image_mono [OF this, of "g \<circ> snd"] Cons.prems
    have "(g \<circ> snd) a \<notin> (g \<circ> snd) ` set (AList.update i u t)"
      by (cases a) auto
    moreover have "g u \<notin> (g \<circ> snd) ` set t" using Cons.prems(2) by auto
    ultimately show ?case using Cons by (cases a) simp
  qed simp
  from fresh have "\<forall>(j, v)\<in>set (users self). username v \<noteq> username u"
    "\<forall>(j, v)\<in>set (users self). email v \<noteq> email u" by auto
  with dist [of username "users self" "user_id u"] dist [of email "users self" "user_id u"] assms(1)
  have "distinct (map (username \<circ> snd) ?t)" "distinct (map (email \<circ> snd) ?t)"
    by (simp_all add: users_ok_def)
  with assms(1) d have "users_ok (self\<lparr>users := ?t\<rparr>)"
    by (auto simp: users_ok_def distinct_update set_update_distinct)
  with m have "users_ok m" by (metis fst_conv users_ok_save)
  with m show ?thesis by (auto dest: save_Inr)
qed (use assms in \<open>auto simp: add_user_def\<close>)

lemma delete_user_ok:
  assumes "users_ok self" and "delete_user io i self = (m, r)"
  shows "users_ok m \<and> (r = Inr () \<longrightarrow> user_file m = Saved (users m))"
proof (cases "map_of (users self) i = None")
  case False
  let ?s = "self\<lparr>users := AList.delete i (users self)\<rparr>"
  from False assms(2) have m: "save io ?s = (m, r)" by (simp add: delete_user_def)
  from assms(1) have "users_ok ?s"
    by (auto simp: users_ok_def AList.delete_eq distinct_map_filter)
  with m have "users_ok m" by (metis fst_conv users_ok_save)
  with m show ?thesis by (auto dest: save_Inr)
qed (use assms in \<open>auto simp: delete_user_def\<close>)

lemma authenticate_ok:
  assumes "users_ok self" and "authenticate c io now n p self = (m, r)"
  shows "users_ok m \<and> (\<forall>u. r = Inr u \<longrightarrow> user_file m = Saved (users m))"
proof -
  have frame: "users_ok m' \<and> (r' = Inr () \<longrightarrow> user_file m' = Saved (users m'))"
    if "modify_user io i (\<lambda>u. Some (update_last_login now u)) self = (m', r')" for i m' r'
    by (rule modify_user_ok [OF assms(1) _ that]) (auto simp: update_last_login_def)
  show ?thesis
    using assms(1,2) frame
    by (auto simp: authenticate_def split: option.splits prod.splits sum.splits)
qed

lemma change_password_ok:
  assumes "users_ok self" and "change_password c io salt now n p q self = (m, r)"
  shows "users_ok m \<and> (r = Inr () \<longrightarrow> user_file m = Saved (users m))"
proof (cases "List.find (\<lambda>(_, u). username u = n \<and> verify_password c p u) (users self)")
  case None
  with assms show ?thesis by (auto simp: change_password_def)
next
  case (Some a)
  with assms(2) have "modify_user io (user_id (snd a)) (set_password c salt now q) self = (m, r)"
    by (simp add: change_password_def case_prod_beta)
  from modify_user_ok [OF assms(1) set_password_frame this] show ?thesis .
qed

lemma update_op_ok:
  assumes "users_ok self" and "modify_user io i (\<lambda>u. Some (g u)) self = (m, r)"
    and "\<And>u. user_id (g u) = user_id u \<and> username (g u) = username u \<and> email (g u) = email u"
  shows "users_ok m \<and> (r = Inr () \<longrightarrow> user_file m = Saved (users m))"
  by (rule modify_user_ok [OF assms(1) _ assms(2)]) (use assms(3) in blast)

lemma exec_user_ok:
  assumes "users_ok self" and "exec_user c iop self = (m, r)"
  shows "users_ok m \<and> (r = Inr () \<longrightarrow> user_file m = Saved (users m))"
proof -
  obtain io op where iop: "iop = (io, op)" by (cases iop)
  note run = assms(2) [unfolded iop]
  show ?thesis
  proof (cases op)
    case (Login now n p)
    obtain m' r' where a: "authenticate c io now n p self = (m', r')" by fastforce
    from authenticate_ok [OF assms(1) a] run Login a show ?thesis
      by (cases r') auto
  next
    case (Change_password salt now n p q)
    with run show ?thesis by (simp add: change_password_ok [OF assms(1)])
  next
    case (Reset_password salt now i q)
    with run have "modify_user io i (set_password c salt now q) self = (m, r)"
      by (simp add: reset_password_def)
    from modify_user_ok [OF assms(1) set_password_frame this] show ?thesis .
  next
    case (Assign_wallet now i w)
    with run have "modify_user io i (\<lambda>u. Some (add_wallet now w u)) self = (m, r)"
      by (simp add: assign_wallet_def)
    from update_op_ok [OF assms(1) this] show ?thesis by (simp add: add_wallet_def)
  next
    case (Unassign_wallet now i w)
    with run have "modify_user io i (\<lambda>u. Some (remove_wallet now w u)) self = (m, r)"
      by (simp add: unassign_wallet_def)
    from update_op_ok [OF assms(1) this] show ?thesis by (simp add: remove_wallet_def)
  next
    case (Set_subscription now i l d)
    with run have "modify_user io i (\<lambda>u. Some (update_subscription now l d u)) self = (m, r)"
      by (simp add: update_user_subscription_def)
    from update_op_ok [OF assms(1) this] show ?thesis by (simp add: update_subscription_def)
  next
    case (Add u)
    with run show ?thesis by (simp add: add_user_ok [OF assms(1)])
  next
    case (Delete i)
    with run show ?thesis by (simp add: delete_user_ok [OF assms(1)])
  qed
qed

lemma run_user_ok:
  "users_ok self \<Longrightarrow> users_ok (fold (\<lambda>iop s. fst (exec_user c iop s)) iops self)"
proof (induction iops arbitrary: self)
  case (Cons iop iops)
  obtain m r where e: "exec_user c iop self = (m, r)" by (cases "exec_user c iop self")
  from exec_user_ok [OF Cons.prems e] Cons.IH [of m] e show ?case by simp
qed simp

lemma new_user_manager_ok:
  "new_user_manager c io uuid key now Absent = Inr m \<Longrightarrow> users_ok m"
  by (auto simp: new_user_manager_def admin_user_def users_ok_def save_def split: option.splits file_access.splits)

lemma find_name:
  assumes "users_ok self" and "(i, u) \<in> set (users self)" and "username u = n" and "\<not> P u"
  shows "List.find (\<lambda>(_, u). username u = n \<and> P u) (users self) = None"
  unfolding find_None_iff using users_ok_name [OF assms(1) assms(2)] assms(3,4) by fastforce

lemma modify_user_stored:
  assumes "modify_user io i f self = (m, Inr ())" and "map_of (users self) i = Some u"
  shows "\<exists>u'. f u = Some u' \<and> (i, u') \<in> set (users m)"
  using assms by (auto simp: modify_user_def update_conv' intro!: map_of_SomeD split: option.splits dest!: save_Inr)

section \<open>Properties\<close>


definition test_crypto :: crypto where
  "test_crypto = \<lparr> bc_hash = (\<lambda>p. Some (''$2b$'' @ p)),
     bc_verify = (\<lambda>q h. if take 4 h = ''$2b$'' then Some (drop 4 h = q) else None),
     ar_hash = (\<lambda>salt p. Some (''$argon2id$'' @ salt @ p)) \<rparr>"

lemma test_crypto_laws: "crypto_laws test_crypto"
  by (simp add: crypto_laws_def test_crypto_def)


text \<open>C38. After a successful change of password, every later login of that user fails, with the old
  password, the new one and any other: the new hash is argon2's, and a login verifies with bcrypt.\<close>

theorem password_change_locks_out:
  assumes "crypto_laws c" and "users_ok self"
    and "change_password c io salt now name old_password new_password self = (m, Inr ())"
  shows "authenticate c io' now' name p m = (m, Inl Invalid_credentials)"
proof -
  from assms(3) obtain i u where f: "List.find (\<lambda>(_, u). username u = name \<and> verify_password c old_password u) (users self) = Some (i, u)"
    and mo: "modify_user io (user_id u) (set_password c salt now new_password) self = (m, Inr ())"
    by (auto simp: change_password_def split: option.splits)
  from f have iu: "(i, u) \<in> set (users self)" "username u = name"
    by (auto simp: find_Some_iff) (metis nth_mem)
  with assms(2) have "map_of (users self) (user_id u) = Some u"
    by (auto simp: map_of_ok) (auto simp: users_ok_def)
  from modify_user_stored [OF mo this] obtain u' where u': "set_password c salt now new_password u = Some u'"
    "(user_id u, u') \<in> set (users m)" by blast
  have "users_ok m" using modify_user_ok [OF assms(2) set_password_frame mo] by simp
  moreover have "username u' = name" using set_password_frame [OF u'(1)] iu(2) by simp
  moreover have "\<not> (verify_password c p u' \<and> active u')"
    using u'(1) assms(1) by (auto simp: set_password_def verify_password_def crypto_laws_def)
  ultimately show ?thesis
    using find_name [of m "user_id u" u' name "\<lambda>u. verify_password c p u \<and> active u"] u'(2)
    by (simp add: authenticate_def)
qed

theorem password_change_locks_out_witness:
  "\<exists>m0 m :: user_manager. new_user_manager test_crypto Access_ok ''a1'' ''k1'' 10 Absent = Inr m0
     \<and> change_password test_crypto Access_ok ''s'' 20 ''admin'' ''admin123'' ''new'' m0 = (m, Inr ())
     \<and> authenticate test_crypto Access_ok 30 ''admin'' ''new'' m = (m, Inl Invalid_credentials)"
proof -
  obtain m0 where m0: "new_user_manager test_crypto Access_ok ''a1'' ''k1'' 10 Absent = Inr m0"
    by (simp add: new_user_manager_def admin_user_def test_crypto_def save_def)
  then have "snd (change_password test_crypto Access_ok ''s'' 20 ''admin'' ''admin123'' ''new'' m0) = Inr ()"
    by (auto simp: new_user_manager_def admin_user_def test_crypto_def save_def change_password_def
        verify_password_def modify_user_def set_password_def)
  then obtain m where m: "change_password test_crypto Access_ok ''s'' 20 ''admin'' ''admin123'' ''new'' m0 = (m, Inr ())"
    by (cases "change_password test_crypto Access_ok ''s'' 20 ''admin'' ''admin123'' ''new'' m0") simp
  from password_change_locks_out [OF test_crypto_laws new_user_manager_ok [OF m0] m] m0 m show ?thesis
    by blast
qed

end
