(* ===== verification/Float64.thy ===== *)
theory Float64
  imports Complex_Main Prelude
begin

text \<open>
  Values of type \<open>f64\<close>: \<open>NaN\<close>, an infinity or a finite value. The code modelled here compares and
  copies such values, and every comparison with \<open>NaN\<close> is false. The one operation that is computed
  is the quotient of two counts; it stands for the rounded quotient in comparisons with the literals
  0.1 and 0.5, which agree with the exact ones as long as the counts stay below \<open>2 ^ 50\<close>.
\<close>

section \<open>Floating-point values that are compared\<close>

datatype f64 = NaN | Neg_inf | Fin rat | Pos_inf

fun f64_lt :: "f64 \<Rightarrow> f64 \<Rightarrow> bool" where
  "f64_lt NaN b = False"
| "f64_lt a NaN = False"
| "f64_lt a Neg_inf = False"
| "f64_lt Pos_inf b = False"
| "f64_lt Neg_inf b = True"
| "f64_lt (Fin x) (Fin y) \<longleftrightarrow> x < y"
| "f64_lt (Fin x) Pos_inf = True"

definition f64_le :: "f64 \<Rightarrow> f64 \<Rightarrow> bool" where
  "f64_le a b \<longleftrightarrow> f64_lt a b \<or> (a = b \<and> a \<noteq> NaN)"

lemma f64_lt_trans: "f64_lt a b \<Longrightarrow> f64_lt b c \<Longrightarrow> f64_lt a c"
  by (cases a; cases b; cases c) auto

lemma f64_le_lt_trans: "f64_le a b \<Longrightarrow> f64_lt b c \<Longrightarrow> f64_lt a c"
  by (auto simp: f64_le_def intro: f64_lt_trans)

text \<open>\<open>a as f64 / b as f64\<close> of two counts.\<close>

definition ratio :: "u64 \<Rightarrow> u64 \<Rightarrow> f64" where
  "ratio a b =
     (if b = 0 then (if a = 0 then NaN else Pos_inf)
      else Fin (rat_of_nat (unat a) / rat_of_nat (unat b)))"

lemma ratio_lt:
  assumes "b \<noteq> 0"
  shows "f64_lt (ratio a b) (Fin q) \<longleftrightarrow> rat_of_nat (unat a) < q * rat_of_nat (unat b)"
proof -
  have "0 < rat_of_nat (unat b)" unfolding of_nat_0_less_iff unat_gt_0 by (rule assms)
  from pos_divide_less_eq [OF this] assms show ?thesis unfolding ratio_def by simp
qed

lemma ratio_gt:
  assumes "b \<noteq> 0"
  shows "f64_lt (Fin q) (ratio a b) \<longleftrightarrow> q * rat_of_nat (unat b) < rat_of_nat (unat a)"
proof -
  have "0 < rat_of_nat (unat b)" unfolding of_nat_0_less_iff unat_gt_0 by (rule assms)
  from pos_less_divide_eq [OF this] assms show ?thesis unfolding ratio_def by simp
qed

text \<open>\<open>x as uN\<close> for a type with the given number of values: truncated towards zero and saturated.\<close>

definition f64_as_uint :: "nat \<Rightarrow> f64 \<Rightarrow> nat" where
  "f64_as_uint bound x =
     (case x of NaN \<Rightarrow> 0 | Neg_inf \<Rightarrow> 0 | Pos_inf \<Rightarrow> bound - 1 | Fin q \<Rightarrow> min (nat \<lfloor>q\<rfloor>) (bound - 1))"

lemma f64_as_uint_less: "0 < bound \<Longrightarrow> f64_as_uint bound x < bound"
  by (cases x) (auto simp: f64_as_uint_def)

lemma f64_as_uint_of_nat: "n < bound \<Longrightarrow> f64_as_uint bound (Fin (rat_of_nat n)) = n"
  by (simp add: f64_as_uint_def)

text \<open>\<open>f64::min\<close> and \<open>f64::max\<close>: a \<open>NaN\<close> is ignored.\<close>

definition f64_min :: "f64 \<Rightarrow> f64 \<Rightarrow> f64" where
  "f64_min a b = (if a = NaN then b else if b = NaN then a else if f64_lt b a then b else a)"

definition f64_max :: "f64 \<Rightarrow> f64 \<Rightarrow> f64" where
  "f64_max a b = (if a = NaN then b else if b = NaN then a else if f64_lt a b then b else a)"

lemma f64_le_trans: "f64_le a b \<Longrightarrow> f64_le b c \<Longrightarrow> f64_le a c"
  by (cases a; cases b; cases c) (auto simp: f64_le_def)

lemma f64_le_refl: "a \<noteq> NaN \<Longrightarrow> f64_le a a"
  by (simp add: f64_le_def)

lemma f64_max_ge: "v \<noteq> NaN \<Longrightarrow> f64_le v (f64_max a v)" "a \<noteq> NaN \<Longrightarrow> f64_le a (f64_max a v) \<and> f64_max a v \<noteq> NaN"
  by (cases a; cases v; force simp: f64_max_def f64_le_def)+

lemma f64_min_le: "v \<noteq> NaN \<Longrightarrow> f64_le (f64_min a v) v" "a \<noteq> NaN \<Longrightarrow> f64_le (f64_min a v) a \<and> f64_min a v \<noteq> NaN"
  by (cases a; cases v; force simp: f64_min_def f64_le_def)+

end
