(* ===== verification/TokenTracker.thy ===== *)
theory TokenTracker
  imports Float64 "HOL-Library.AList"
begin

text \<open>
  The token status tracker of \<^verbatim>\<open>snipebot/src/trade/token_status.rs\<close>: the safety level of a token and
  the cache of tracked tokens. The \<open>HashMap\<close> is an association list, whose order stands for the
  unspecified order of iteration; the locks are not poisoned. What the chain adapter and the risk
  analyzer answer are arguments. The list of holders of a status is left out.\<close>

section \<open>Status and classification\<close>

datatype token_safety = Green | Yellow | Red

record tax_info =
  buy_tax :: f64
  sell_tax :: f64
  transfer_tax :: f64
  min_hold_time :: "u64 option"

record token_status =
  ts_address :: string
  ts_symbol :: string
  ts_name :: string
  ts_decimals :: u8
  price_usd :: f64
  price_native :: f64
  market_cap :: f64
  total_supply :: string
  circulating_supply :: string
  holders_count :: u64
  liquidity :: f64
  volume_24h :: f64
  price_change_24h :: f64
  pair_address :: "string option"
  ts_router_address :: string
  ts_last_updated :: u64
  safety_level :: token_safety
  audit_score :: "u8 option"
  liquidity_locked :: "bool option"
  is_contract_verified :: bool
  has_dangerous_functions :: bool
  dangerous_functions :: "string list"
  pending_tx_count :: u32
  ts_tax_info :: "tax_info option"

text \<open>The field of the risk analysis that the classification reads.\<close>

record risk_analysis =
  risk_score :: f64

definition classify_token :: "token_status \<Rightarrow> risk_analysis option \<Rightarrow> token_safety" where
  "classify_token status analysis =
     (case analysis of
        Some a \<Rightarrow>
          if f64_lt (risk_score a) (Fin 35) then Green
          else if f64_lt (risk_score a) (Fin 75) then Yellow
          else Red
      | None \<Rightarrow>
          if \<not> is_contract_verified status \<or> has_dangerous_functions status then Red
          else
            let by_liquidity =
              (if f64_lt (liquidity status) (Fin 5000) then Red
               else if f64_lt (liquidity status) (Fin 50000) then Yellow
               else Green)
            in (case ts_tax_info status of
                  Some tax \<Rightarrow>
                    if f64_lt (Fin 20) (buy_tax tax) \<or> f64_lt (Fin 20) (sell_tax tax) then Red
                    else if f64_lt (Fin 10) (buy_tax tax) \<or> f64_lt (Fin 10) (sell_tax tax) then Yellow
                    else by_liquidity
                | None \<Rightarrow> by_liquidity))"

text \<open>The levels in the order of danger.\<close>

fun danger :: "token_safety \<Rightarrow> nat" where
  "danger Green = 0"
| "danger Yellow = 1"
| "danger Red = 2"

section \<open>The tracked tokens\<close>

record 'v cache_entry =
  entry_value :: 'v
  entry_expires :: u64

definition new_entry :: "u64 \<Rightarrow> 'v \<Rightarrow> u64 \<Rightarrow> 'v cache_entry" where
  "new_entry now v ttl = \<lparr> entry_value = v, entry_expires = now + ttl \<rparr>"

definition entry_expired :: "u64 \<Rightarrow> 'v cache_entry \<Rightarrow> bool" where
  "entry_expired now e \<longleftrightarrow> entry_expires e \<le> now"

record token_tracker =
  tracked_tokens :: "(string \<times> token_status cache_entry) list"
  min_alert_percent :: f64
  max_tokens :: nat

definition new_tracker :: token_tracker where
  "new_tracker = \<lparr> tracked_tokens = [], min_alert_percent = Fin 5, max_tokens = 1000 \<rparr>"

definition set_min_alert_percent :: "f64 \<Rightarrow> token_tracker \<Rightarrow> token_tracker" where
  "set_min_alert_percent percent self = self\<lparr>min_alert_percent := percent\<rparr>"

text \<open>
  The status of a token is a placeholder (the code says so); \<open>valid\<close> tells whether the address
  parses.
\<close>

definition get_token_status :: "u64 \<Rightarrow> bool \<Rightarrow> string \<Rightarrow> token_status option" where
  "get_token_status now valid token =
     (if valid then
        Some \<lparr> ts_address = token, ts_symbol = ''TEMP'', ts_name = ''Temporary Token'', ts_decimals = 18,
               price_usd = Fin 0, price_native = Fin 0, market_cap = Fin 0, total_supply = ''0'',
               circulating_supply = ''0'', holders_count = 0, liquidity = Fin 0, volume_24h = Fin 0,
               price_change_24h = Fin 0, pair_address = None, ts_router_address = [], ts_last_updated = now,
               safety_level = Yellow, audit_score = None, liquidity_locked = None, is_contract_verified = False,
               has_dangerous_functions = False, dangerous_functions = [], pending_tx_count = 0,
               ts_tax_info = None \<rparr>
      else None)"

definition add_token :: "u64 \<Rightarrow> bool \<Rightarrow> string \<Rightarrow> token_tracker \<Rightarrow> token_tracker \<times> bool" where
  "add_token now valid token self =
     (case get_token_status now valid token of
        None \<Rightarrow> (self, False)
      | Some status \<Rightarrow>
          (self\<lparr>tracked_tokens := AList.update token (new_entry now status 300) (tracked_tokens self)\<rparr>, True))"

definition remove_token :: "string \<Rightarrow> token_tracker \<Rightarrow> token_tracker \<times> bool" where
  "remove_token token self =
     (self\<lparr>tracked_tokens := AList.delete token (tracked_tokens self)\<rparr>,
      map_of (tracked_tokens self) token \<noteq> None)"

definition get_token :: "string \<Rightarrow> token_tracker \<Rightarrow> token_status option" where
  "get_token token self = map_option entry_value (map_of (tracked_tokens self) token)"

definition get_from_cache :: "u64 \<Rightarrow> string \<Rightarrow> token_tracker \<Rightarrow> token_status option" where
  "get_from_cache now key self =
     (case map_of (tracked_tokens self) key of
        Some e \<Rightarrow> if \<not> entry_expired now e then Some (entry_value e) else None
      | None \<Rightarrow> None)"

definition cleanup_cache :: "u64 \<Rightarrow> token_tracker \<Rightarrow> token_tracker" where
  "cleanup_cache now self =
     self\<lparr>tracked_tokens :=
       fold AList.delete (map fst (filter (\<lambda>(_, e). entry_expired now e) (tracked_tokens self))) (tracked_tokens self)\<rparr>"

definition update_pending_tx_count :: "string \<Rightarrow> u32 \<Rightarrow> token_tracker \<Rightarrow> token_tracker option" where
  "update_pending_tx_count token count self =
     (case map_of (tracked_tokens self) token of
        Some e \<Rightarrow> Some (self\<lparr>tracked_tokens :=
                    AList.update token (e\<lparr>entry_value := (entry_value e)\<lparr>pending_tx_count := count\<rparr>\<rparr>) (tracked_tokens self)\<rparr>)
      | None \<Rightarrow> None)"

definition too_old :: "u64 \<Rightarrow> u64 \<Rightarrow> token_status cache_entry \<Rightarrow> bool" where
  "too_old now age e \<longleftrightarrow>
     ts_last_updated (entry_value e) < now \<and> age < now - ts_last_updated (entry_value e)"

definition cleanup_old_tokens :: "u64 \<Rightarrow> u64 \<Rightarrow> token_tracker \<Rightarrow> token_tracker \<times> nat" where
  "cleanup_old_tokens current_time max_age self =
     (let old = map fst (filter (\<lambda>(_, e). too_old current_time max_age e) (tracked_tokens self))
      in (self\<lparr>tracked_tokens := fold AList.delete old (tracked_tokens self)\<rparr>, length old))"

text \<open>\<open>sort_by_key\<close> is a stable sort.\<close>

definition reduce_cache_size :: "nat \<Rightarrow> token_tracker \<Rightarrow> token_tracker \<times> nat" where
  "reduce_cache_size tsize self =
     (let current = length (tracked_tokens self) in
      if current \<le> tsize then (self, 0)
      else
        let with_time = map (\<lambda>(a, e). (a, ts_last_updated (entry_value e))) (tracked_tokens self);
            sorted = sort_key snd with_time;
            to_remove = current - tsize
        in (self\<lparr>tracked_tokens := fold AList.delete (map fst (take to_remove sorted)) (tracked_tokens self)\<rparr>,
            to_remove))"

section \<open>Lemmas\<close>

lemma fold_delete: "fold AList.delete ks t = filter (\<lambda>(k, _). k \<notin> set ks) t"
  by (induction ks arbitrary: t) (auto simp: AList.delete_eq intro: filter_cong)

definition tracker_ok :: "token_tracker \<Rightarrow> bool" where
  "tracker_ok self \<longleftrightarrow> distinct (map fst (tracked_tokens self))"

lemma tracker_ok_filter:
  "tracker_ok self \<Longrightarrow> tracker_ok (self\<lparr>tracked_tokens := filter P (tracked_tokens self)\<rparr>)"
  by (simp add: tracker_ok_def distinct_map_filter)

lemma length_filter_keys:
  assumes "distinct (map fst t)" and "distinct ks" and "set ks \<subseteq> set (map fst t)"
  shows "length (filter (\<lambda>(k, _). k \<notin> set ks) t) = length t - length ks"
proof -
  let ?in = "filter (\<lambda>(k, _). k \<in> set ks) t"
  have "distinct (map fst ?in)" using assms(1) by (rule distinct_map_filter)
  moreover have "set (map fst ?in) = set ks" using assms(3) by force
  ultimately have "length (map fst ?in) = length ks"
    using assms(2) by (metis distinct_card)
  moreover have "length ?in + length (filter (\<lambda>(k, _). k \<notin> set ks) t) = length t"
    using sum_length_filter_compl [of "\<lambda>(k, _). k \<in> set ks" t]
    by (simp add: case_prod_unfold)
  ultimately show ?thesis by simp
qed

lemma sort_key_take_le:
  assumes "x \<in> set (take n (sort_key f xs))" and "y \<in> set (drop n (sort_key f xs))"
  shows "f x \<le> f y"
proof -
  have "sorted (map f (sort_key f xs))" by simp
  then have "sorted (map f (take n (sort_key f xs)) @ map f (drop n (sort_key f xs)))"
    by (metis append_take_drop_id map_append)
  with assms show ?thesis by (auto simp: sorted_append)
qed

lemma sorted_keys_le:
  fixes time :: "'e \<Rightarrow> 'b :: linorder"
  assumes "distinct (map fst t)" and "(k, e) \<in> set t" and "(k', e') \<in> set t"
    and "k \<notin> set (map fst (take m (sort_key snd (map (\<lambda>(a, e). (a, time e)) t))))"
    and "k' \<in> set (map fst (take m (sort_key snd (map (\<lambda>(a, e). (a, time e)) t))))"
  shows "time e' \<le> time e"
proof -
  obtain s where s: "s = sort_key snd (map (\<lambda>(a, e). (a, time e)) t)" by simp
  note mem = assms(4,5) [folded s]
  have set_s: "set s = (\<lambda>(a, e). (a, time e)) ` set t" by (simp add: s)
  have split: "set s = set (take m s) \<union> set (drop m s)" by (metis append_take_drop_id set_append)
  from set_s assms(2) have "(k, time e) \<in> set s" by force
  with mem(1) split have new: "(k, time e) \<in> set (drop m s)" by force
  from mem(2) obtain x where x: "(k', x) \<in> set (take m s)" by auto
  with set_s split obtain e1 where "(k', e1) \<in> set t" "x = time e1" by fastforce
  with assms(1,3) have "x = time e'" by (metis eq_key_imp_eq_value)
  with sort_key_take_le [of "(k', x)" m snd "map (\<lambda>(a, e). (a, time e)) t" "(k, time e)"] x new s
  show ?thesis by simp
qed

section \<open>Properties\<close>

text \<open>Shrinking the cache removes exactly as many tokens as are over the tsize, all others stay
  as they are, and no token that stays was updated earlier than one that is removed.\<close>

lemma tracker_reduce_keeps_newest:
  assumes "tracker_ok self" and "reduce_cache_size tsize self = (self', n)"
  shows "length (tracked_tokens self') = min tsize (length (tracked_tokens self))
         \<and> n = length (tracked_tokens self) - tsize
         \<and> tracker_ok self'
         \<and> (\<exists>removed. set (tracked_tokens self') \<union> removed = set (tracked_tokens self)
              \<and> (\<forall>(k, e)\<in>set (tracked_tokens self'). \<forall>(k', e')\<in>removed.
                   k \<noteq> k' \<and> ts_last_updated (entry_value e') \<le> ts_last_updated (entry_value e)))"
proof (cases "length (tracked_tokens self) \<le> tsize")
  case True
  with assms show ?thesis by (auto simp: reduce_cache_size_def intro!: exI [of _ "{}"])
next
  case False
  let ?t = "tracked_tokens self" and ?m = "length (tracked_tokens self) - tsize"
  let ?g = "\<lambda>(a, e). (a, ts_last_updated (entry_value e))"
  let ?s = "sort_key snd (map ?g ?t)"
  let ?r = "map fst (take ?m ?s)"
  have keys: "map fst (map ?g ?t) = map fst ?t" by (simp add: case_prod_beta comp_def)
  from assms(1) have d: "distinct (map fst ?t)" by (simp add: tracker_ok_def)
  have ks: "set (map fst ?s) = set (map fst ?t)" unfolding keys [symmetric] by (simp add: image_image)
  have "card (set (map fst ?s)) = length (map fst ?s)" using distinct_card [OF d] unfolding ks by simp
  then have ds: "distinct (map fst ?s)" by (rule card_distinct)
  have dr: "distinct ?r" using distinct_take [OF ds, of ?m] by (simp only: take_map)
  have rs: "set ?r \<subseteq> set (map fst ?t)" unfolding ks [symmetric] take_map [symmetric] by (rule set_take_subset)
  from False assms(2) have self': "tracked_tokens self' = filter (\<lambda>(k, _). k \<notin> set ?r) ?t" and n: "n = ?m"
    by (auto simp: reduce_cache_size_def Let_def fold_delete)
  have len: "length ?r = ?m" by simp
  have "tracker_ok self'" using tracker_ok_filter [OF assms(1)] self' by (simp add: tracker_ok_def)
  moreover have "length (tracked_tokens self') = min tsize (length ?t)"
    using length_filter_keys [OF d dr rs] self' len False by simp
  moreover obtain R where R: "R = set ?r" by simp
  have le: "ts_last_updated (entry_value e') \<le> ts_last_updated (entry_value e)"
    if "(k, e) \<in> set ?t" "k \<notin> R" "(k', e') \<in> set ?t" "k' \<in> R" for k e k' e'
    by (rule sorted_keys_le [OF d that(1,3) that(2,4) [unfolded R]])
  have set': "set (tracked_tokens self') = {(k, e) \<in> set ?t. k \<notin> R}" unfolding self' R by auto
  have "set (tracked_tokens self') \<union> {(k, e) \<in> set ?t. k \<in> R} = set ?t" unfolding set' by auto
  moreover have "\<forall>(k, e)\<in>set (tracked_tokens self'). \<forall>(k', e')\<in>{(k, e) \<in> set ?t. k \<in> R}.
      k \<noteq> k' \<and> ts_last_updated (entry_value e') \<le> ts_last_updated (entry_value e)"
    unfolding set' using le by blast
  ultimately show ?thesis using n by blast
qed

definition demo_status :: "string \<Rightarrow> u64 \<Rightarrow> token_status" where
  "demo_status a t =
     \<lparr> ts_address = a, ts_symbol = a, ts_name = a, ts_decimals = 18, price_usd = Fin 1, price_native = Fin 1,
       market_cap = Fin 0, total_supply = ''0'', circulating_supply = ''0'', holders_count = 0,
       liquidity = Fin 60000, volume_24h = Fin 0, price_change_24h = Fin 0, pair_address = None,
       ts_router_address = [], ts_last_updated = t, safety_level = Green, audit_score = None, liquidity_locked = None, is_contract_verified = True, has_dangerous_functions = False,
       dangerous_functions = [], pending_tx_count = 0, ts_tax_info = None \<rparr>"

definition demo_tracker :: token_tracker where
  "demo_tracker = \<lparr> tracked_tokens = map (\<lambda>(a, t). (a, new_entry t (demo_status a t) 300))
     [(''a'', 30), (''b'', 10), (''c'', 20)], min_alert_percent = Fin 5, max_tokens = 1000 \<rparr>"

text \<open>With an analysis the level is monotone in the risk score and a score that is no number is
  dangerous. A tracked token that was never analysed carries the placeholder status, which
  is always dangerous: it is not verified.\<close>

lemma classify_token_by_risk:
  "(\<forall>a b st st'. \<not> (f64_le (risk_score a) (risk_score b)
        \<and> danger (classify_token st' (Some b)) < danger (classify_token st (Some a))))
   \<and> (\<forall>a st. classify_token st (Some (a\<lparr>risk_score := NaN\<rparr>)) = Red)
   \<and> (\<forall>now valid t. case get_token_status now valid t of
        Some st \<Rightarrow> valid \<and> classify_token st None = Red | None \<Rightarrow> \<not> valid)"
proof (intro conjI allI)
  fix a b :: risk_analysis and st st'
  show "\<not> (f64_le (risk_score a) (risk_score b)
        \<and> danger (classify_token st' (Some b)) < danger (classify_token st (Some a)))"
    using f64_le_lt_trans [of "risk_score a" "risk_score b" "Fin 35"]
      f64_le_lt_trans [of "risk_score a" "risk_score b" "Fin 75"]
    by (auto simp: classify_token_def)
qed (auto simp: classify_token_def get_token_status_def)

end
