(* ===== verification/Mempool.thy ===== *)
theory Mempool
  imports TokenTracker
begin

text \<open>
  The mempool watcher of \<^verbatim>\<open>snipebot/src/trade/mempool.rs\<close>: the stream of pending transactions, the
  analysis of a transaction's input data, the messages sent, and the tracker. The bodies of the
  tracker's operations and of the extraction functions are the stubs of the code; its maps of large
  transactions and of token metrics, which nothing fills either, are left out. A transaction's
  input is a list of bytes; the conversion of an amount to USD (\<open>f64\<close> arithmetic) is the parameter
  \<open>usd\<close>. Addresses are ASCII. A send on the channel may fail, which is only logged.
\<close>

section \<open>Tracker\<close>

record pending_swap =
  swap_hash :: string
  swap_token :: string
  is_buy :: bool
  amount_usd :: f64
  swap_gas_price :: u256
  swap_timestamp :: u64

record arbitrage_opportunity =
  arb_token :: string
  exchange1 :: string
  price1 :: f64
  exchange2 :: string
  price2 :: f64
  potential_profit_percent :: f64
  arb_timestamp :: u64

record sandwich_opportunity =
  sw_token :: string
  victim_tx_hash :: string
  sw_amount_usd :: f64
  estimated_price_impact :: f64
  potential_profit :: f64
  sw_timestamp :: u64

record mempool_tracker =
  pending_swaps :: "string \<rightharpoonup> pending_swap list"
  arbitrage_opportunities :: "arbitrage_opportunity list"
  sandwich_opportunities :: "sandwich_opportunity list"
  min_large_tx_amount :: f64
  max_items_per_token :: nat

definition new_mempool_tracker :: "f64 \<Rightarrow> mempool_tracker" where
  "new_mempool_tracker min_amount =
     \<lparr> pending_swaps = Map.empty, arbitrage_opportunities = [], sandwich_opportunities = [],
       min_large_tx_amount = min_amount, max_items_per_token = 100 \<rparr>"

text \<open>The stubs: their bodies are empty or answer \<open>None\<close>.\<close>

definition add_pending_swap :: "pending_swap \<Rightarrow> mempool_tracker \<Rightarrow> mempool_tracker" where
  "add_pending_swap swap self = self"

definition cleanup_old_data :: "u64 \<Rightarrow> mempool_tracker \<Rightarrow> mempool_tracker" where
  "cleanup_old_data max_age self = self"

definition get_best_arbitrage_opportunity :: "mempool_tracker \<Rightarrow> arbitrage_opportunity option" where
  "get_best_arbitrage_opportunity self = None"

definition get_best_sandwich_opportunity :: "mempool_tracker \<Rightarrow> sandwich_opportunity option" where
  "get_best_sandwich_opportunity self = None"

definition extract_token_address_from_path :: "string \<Rightarrow> string option" where
  "extract_token_address_from_path input_str = None"

definition extract_token_address_for_sell :: "string \<Rightarrow> string option" where
  "extract_token_address_for_sell input_str = None"

definition extract_amount_from_sell_input :: "string \<Rightarrow> string option" where
  "extract_amount_from_sell_input input_str = None"

section \<open>Analysis of a transaction\<close>

record mempool_tx =
  tx_hash :: string
  tx_to :: "string option"
  tx_input :: "u8 list option"
  tx_value :: u256
  tx_gas_price :: "u256 option"

definition hex_digit :: "nat \<Rightarrow> char" where
  "hex_digit d = (if d < 10 then char_of (48 + d) else char_of (87 + d))"

definition hex_encode :: "u8 list \<Rightarrow> string" where
  "hex_encode bs = concat (map (\<lambda>b. [hex_digit (unat b div 16), hex_digit (unat b mod 16)]) bs)"

definition from_hex_digit :: "char \<Rightarrow> nat option" where
  "from_hex_digit c =
     (let n = of_char c :: nat in
      if 48 \<le> n \<and> n < 58 then Some (n - 48)
      else if 97 \<le> n \<and> n < 103 then Some (n - 87)
      else if 65 \<le> n \<and> n < 71 then Some (n - 55) else None)"

text \<open>\<open>u128::from_str_radix(_, 16)\<close>.\<close>

definition u128_from_hex :: "string \<Rightarrow> u128 option" where
  "u128_from_hex s =
     (let s' = (case s of c # cs \<Rightarrow> if c = CHR ''+'' then cs else s | [] \<Rightarrow> []);
          step = (\<lambda>acc c. Option.bind acc (\<lambda>n. map_option (\<lambda>d. 16 * n + d) (from_hex_digit c)));
          value = foldl step (Some 0) s'
      in if s' = [] then None
         else Option.bind value (\<lambda>n. if n < 2 ^ 128 then Some (word_of_nat n) else None))"

definition is_buy_input :: "string \<Rightarrow> bool" where
  "is_buy_input s \<longleftrightarrow> take 8 s = ''7ff36ab5'' \<or> take 8 s = ''b6f9de95'' \<or> contains_str s ''ETHForTokens''"

definition is_sell_input :: "string \<Rightarrow> bool" where
  "is_sell_input s \<longleftrightarrow> take 8 s = ''791ac947'' \<or> take 8 s = ''18cbafe5'' \<or> contains_str s ''TokensForETH''"

text \<open>
  \<open>_analyze_transaction_internal\<close>. \<open>as_u64\<close> panics above 64 bits; \<open>usd\<close> converts wei to USD at the
  fixed price of the code.
\<close>

definition analyze_transaction_internal ::
    "(nat \<Rightarrow> f64) \<Rightarrow> mempool_tx \<Rightarrow> (string \<times> bool \<times> f64) option res" where
  "analyze_transaction_internal usd tx =
     (case tx_input tx of
        None \<Rightarrow> Inr None
      | Some input \<Rightarrow>
          if length input < 4 then Inr None
          else let s = hex_encode input in
            if length s < 140 then Inr None
            else if is_buy_input s \<or> is_sell_input s then
              (case (if is_buy_input s then extract_token_address_from_path s
                     else extract_token_address_for_sell s) of
                 None \<Rightarrow> Inr None
               | Some addr \<Rightarrow>
                   rbind (if is_buy_input s
                          then (if unat (tx_value tx) < 2 ^ 64 then Inr (usd (unat (tx_value tx))) else Inl Overflow)
                          else (case extract_amount_from_sell_input s of
                                  Some a \<Rightarrow> (case u128_from_hex a of Some n \<Rightarrow> Inr (usd (unat n)) | None \<Rightarrow> Inr (Fin 0))
                                | None \<Rightarrow> Inr (Fin 0)))
                     (\<lambda>amount. Inr (Some (addr, is_buy_input s, amount))))
            else Inr None)"

section \<open>The watcher\<close>

record mempool_watcher =
  watching_tokens :: "string list"
  mempool_tracker_of :: "mempool_tracker option"
  counter :: u32

datatype service_message =
    Pending_swap_msg pending_swap
  | Large_transaction string bool f64
  | Arbitrage_opportunity arbitrage_opportunity
  | Sandwich_opportunity sandwich_opportunity

definition new_watcher :: mempool_watcher where
  "new_watcher = \<lparr> watching_tokens = [], mempool_tracker_of = Some (new_mempool_tracker (Fin 1000)), counter = 0 \<rparr>"

definition add_tokens_to_watch :: "string list \<Rightarrow> mempool_watcher \<Rightarrow> mempool_watcher" where
  "add_tokens_to_watch tokens self =
     self\<lparr>watching_tokens :=
       fold (\<lambda>t ws. if \<not> List.member ws t then ws @ [t] else ws) tokens (watching_tokens self)\<rparr>"

text \<open>
  What the stream and the provider answer for one pending hash. \<open>Analysis_timeout\<close>: the analysis
  did not end within a second.
\<close>

datatype mempool_event =
    Stream_error
  | Lookup_timeout
  | Lookup_error
  | Not_found
  | Analysis_timeout mempool_tx
  | Found mempool_tx

definition swap_messages :: "mempool_watcher \<Rightarrow> pending_swap \<Rightarrow> service_message list" where
  "swap_messages self swap =
     (if List.member (watching_tokens self) (swap_token swap)
      then Pending_swap_msg swap
        # (if f64_le (Fin 10000) (amount_usd swap)
           then [Large_transaction (swap_token swap) (is_buy swap) (amount_usd swap)] else [])
      else [])"

text \<open>The transaction part of one round: the tracker (a local variable) and the messages.\<close>

definition handle_tx ::
    "(nat \<Rightarrow> f64) \<Rightarrow> string \<Rightarrow> u64 \<Rightarrow> mempool_watcher \<Rightarrow> mempool_tracker \<Rightarrow> mempool_event
       \<Rightarrow> (mempool_tracker \<times> service_message list) res" where
  "handle_tx usd router now self tracker ev =
     (case ev of
        Found tx \<Rightarrow>
          (case tx_to tx of
             Some recipient \<Rightarrow>
               if lower recipient = lower router then
                 rbind (analyze_transaction_internal usd tx) (\<lambda>r.
                   case r of
                     Some (addr, buy, amount) \<Rightarrow>
                       let swap = \<lparr> swap_hash = tx_hash tx, swap_token = addr, is_buy = buy, amount_usd = amount,
                                    swap_gas_price = (case tx_gas_price tx of Some g \<Rightarrow> g | None \<Rightarrow> 0),
                                    swap_timestamp = now \<rparr>
                       in Inr (add_pending_swap swap tracker, swap_messages self swap)
                   | None \<Rightarrow> Inr (tracker, []))
               else Inr (tracker, [])
           | None \<Rightarrow> Inr (tracker, []))
      | _ \<Rightarrow> Inr (tracker, []))"

definition opportunity_messages :: "mempool_tracker \<Rightarrow> service_message list" where
  "opportunity_messages tracker =
     (case get_best_arbitrage_opportunity tracker of
        Some a \<Rightarrow> if f64_le (Fin 1) (potential_profit_percent a) then [Arbitrage_opportunity a] else []
      | None \<Rightarrow> [])
     @ (case get_best_sandwich_opportunity tracker of
          Some s \<Rightarrow> if f64_le (Fin 50) (potential_profit s) then [Sandwich_opportunity s] else []
        | None \<Rightarrow> [])"

text \<open>\<open>process_transactions\<close> over the events of a stream that ends, each with the time it is handled at.\<close>

fun process_events ::
    "(nat \<Rightarrow> f64) \<Rightarrow> string \<Rightarrow> mempool_watcher \<Rightarrow> mempool_tracker \<Rightarrow> (u64 \<times> mempool_event) list
       \<Rightarrow> (mempool_watcher \<times> service_message list) res" where
  "process_events usd router self tracker [] = Inr (self, [])"
| "process_events usd router self tracker ((now, ev) # evs) =
     rbind (handle_tx usd router now self tracker ev) (\<lambda>(tracker, ms).
       let self = self\<lparr>counter := counter self + 1\<rparr>;
           tracker = (if counter self mod 100 = 0 then cleanup_old_data 300 tracker else tracker)
       in rbind (process_events usd router self tracker evs) (\<lambda>(self, ms').
            Inr (self, ms @ opportunity_messages tracker @ ms')))"

definition process_transactions ::
    "(nat \<Rightarrow> f64) \<Rightarrow> string \<Rightarrow> mempool_watcher \<Rightarrow> (u64 \<times> mempool_event) list
       \<Rightarrow> (mempool_watcher \<times> service_message list) res" where
  "process_transactions usd router self evs = process_events usd router self (new_mempool_tracker (Fin 1000)) evs"

definition check_mempool :: "string list \<Rightarrow> mempool_watcher \<Rightarrow> pending_swap list" where
  "check_mempool order self =
     (case mempool_tracker_of self of
        Some tracker \<Rightarrow> concat (map (\<lambda>t. case pending_swaps tracker t of Some ss \<Rightarrow> ss | None \<Rightarrow> []) order)
      | None \<Rightarrow> [])"

section \<open>Lemmas\<close>

lemma analyze_none [simp]: "analyze_transaction_internal usd tx = Inr None"
  by (simp add: analyze_transaction_internal_def extract_token_address_from_path_def
      extract_token_address_for_sell_def Let_def split: option.splits)

lemma process_events_silent:
  "process_events usd router self tracker evs
     = Inr (self\<lparr>counter := counter self + word_of_nat (length evs)\<rparr>, [])"
proof (induction evs arbitrary: self tracker)
  case (Cons a evs)
  obtain now ev where a: "a = (now, ev)" by (cases a)
  have "handle_tx usd router now self tracker ev = Inr (tracker, [])"
    by (simp add: handle_tx_def split: mempool_event.splits option.splits)
  then show ?case
    by (simp add: a Cons.IH Let_def opportunity_messages_def get_best_arbitrage_opportunity_def
        get_best_sandwich_opportunity_def add.assoc)
qed simp

inductive watcher_reachable :: "(nat \<Rightarrow> f64) \<Rightarrow> string \<Rightarrow> mempool_watcher \<Rightarrow> bool" for usd router where
  watch_new: "watcher_reachable usd router new_watcher"
| watch_add: "watcher_reachable usd router w \<Longrightarrow> watcher_reachable usd router (add_tokens_to_watch ts w)"
| watch_run: "watcher_reachable usd router w \<Longrightarrow> process_transactions usd router w evs = Inr (w', ms)
    \<Longrightarrow> watcher_reachable usd router w'"

lemma watcher_tracker:
  "watcher_reachable usd router w \<Longrightarrow> mempool_tracker_of w = Some (new_mempool_tracker (Fin 1000))"
  by (induction rule: watcher_reachable.induct)
    (auto simp: new_watcher_def add_tokens_to_watch_def process_transactions_def process_events_silent)

section \<open>Properties\<close>

text \<open>The watcher is silent: whatever the stream delivers, \<open>process_transactions\<close> only counts the
  rounds and sends no message, and no swap is ever pending in the tracker that the bot reads.
  (The extraction of the token address is a stub, the swaps are recorded in a local tracker, and
  recording them is a stub too.)\<close>

lemma mempool_watcher_silent:
  assumes "watcher_reachable usd router w"
  shows "process_transactions usd router w evs = Inr (w\<lparr>counter := counter w + word_of_nat (length evs)\<rparr>, [])
         \<and> check_mempool order w = []"
  using watcher_tracker [OF assms]
  by (simp add: process_transactions_def process_events_silent check_mempool_def new_mempool_tracker_def)

end
