(* ===== verification/AutoTrade.thy ===== *)
theory AutoTrade
  imports Subscription TokenTracker Mempool
begin

text \<open>
  The trading decisions of the bot, \<^verbatim>\<open>snipebot/src/snipebot.rs\<close>: the configuration of a subscription
  level, the automatic trades by safety level, front runs and sandwiches, and the manual sale.

  What leaves the bot (an order on the chain, an alert, a stop loss handed to the trade manager) is
  an \<open>order\<close>; an action is a function from the orders so far to the orders after it and its
  result. Everything the bot asks (the chain adapter, the analyzer, the trade manager, the methods
  the file calls but no file defines, such as \<open>buy_token\<close>) is answered by a \<open>world\<close>, whose answers
  may depend on the orders so far. Amounts parsed by the ethers library are answers as well.
\<close>

section \<open>Orders, results and actions\<close>

record trade_result =
  tr_success :: bool
  tr_gas_used :: "u64 option"
  tr_gas_price :: u64

datatype order =
    Buy_token string u256
  | Sell_percent string u8
  | Emergency_sell string
  | Buy_with_amount string string
  | Buy_optimized string string "u256 option"
  | Front_run string u256 u256 u64
  | Sandwich_bundle string
  | Approve string u256 u64
  | Sell_tokens string u256 u256 u64 u64
  | Schedule_sell string u64
  | Profit_and_stop string f64 f64
  | Trailing_stop string f64 f64
  | Reserve_alert f64
  | Record_trade bool
  | Optimized_trade string string string

datatype trade_error =
    Wrong_mode | Low_reserve | Red_refused | Strategy_disabled | No_large_orders | No_opportunity
  | Front_run_failed | Ai_refused | Bad_amount | Bad_percent | No_balance | Unsupported_action | External | Panic

type_synonym 'a action = "order list \<Rightarrow> order list \<times> (trade_error + 'a)"

definition act_return :: "'a \<Rightarrow> 'a action" where
  "act_return x os = (os, Inr x)"

definition act_fail :: "trade_error \<Rightarrow> 'a action" where
  "act_fail e os = (os, Inl e)"

definition act_bind :: "'a action \<Rightarrow> ('a \<Rightarrow> 'b action) \<Rightarrow> 'b action" where
  "act_bind m f os = (case m os of (os', Inl e) \<Rightarrow> (os', Inl e) | (os', Inr x) \<Rightarrow> f x os')"

definition emit :: "order \<Rightarrow> unit action" where
  "emit x os = (os @ [x], Inr ())"

text \<open>An answer of the world; \<open>None\<close> is an error, passed on.\<close>

definition ask :: "(order list \<Rightarrow> 'a option) \<Rightarrow> 'a action" where
  "ask f os = (os, case f os of Some x \<Rightarrow> Inr x | None \<Rightarrow> Inl External)"

definition lift_res :: "'a res \<Rightarrow> 'a action" where
  "lift_res r os = (os, case r of Inl _ \<Rightarrow> Inl Panic | Inr x \<Rightarrow> Inr x)"

section \<open>Configuration\<close>

datatype bot_mode = Manual | Auto

record yellow_strategy =
  buy_on_large_orders :: bool
  min_large_order_usd :: f64
  sell_after_minutes :: u64
  ys_take_profit :: f64
  ys_stop_loss :: f64
  ys_sandwich :: bool
  use_mempool_data :: bool

record green_strategy =
  front_run_orders :: bool
  min_order_size_usd :: f64
  use_trailing_stop :: bool
  trailing_stop_percent :: f64
  gs_take_profit :: f64
  continue_buying_threshold_usd :: f64
  gs_sandwich :: bool

record auto_trade_config =
  enabled :: bool
  reserve_percent :: f64
  red_token_strategy :: bool
  yellow :: yellow_strategy
  green :: green_strategy
  sell_before_large_sells :: bool
  min_large_sell_usd :: f64
  rebuy_after_mempool_activity :: bool
  use_mev_strategies :: bool
  arbitrage_min_profit_percent :: f64
  max_gas_boost_percent :: u64
  ai_confidence_threshold :: f64
  cycle_interval_seconds :: u64
  auto_tuning_enabled :: bool

definition default_auto_trade_config :: auto_trade_config where
  "default_auto_trade_config =
     \<lparr> enabled = False, reserve_percent = Fin 25, red_token_strategy = False,
       yellow = \<lparr> buy_on_large_orders = True, min_large_order_usd = Fin 5000, sell_after_minutes = 5,
                  ys_take_profit = Fin 25, ys_stop_loss = Fin 10, ys_sandwich = True, use_mempool_data = True \<rparr>,
       green = \<lparr> front_run_orders = True, min_order_size_usd = Fin 10000, use_trailing_stop = True,
                 trailing_stop_percent = Fin 15, gs_take_profit = Fin 30,
                 continue_buying_threshold_usd = Fin 10000, gs_sandwich = True \<rparr>,
       sell_before_large_sells = True, min_large_sell_usd = Fin 1000, rebuy_after_mempool_activity = True,
       use_mev_strategies = True, arbitrage_min_profit_percent = Fin 1, max_gas_boost_percent = 200,
       ai_confidence_threshold = Fin (6 / 10), cycle_interval_seconds = 3600, auto_tuning_enabled = True \<rparr>"

text \<open>The configuration of the levels: the fields the update reads; no file defines their types.\<close>

record level_config =
  lc_enabled :: bool
  allow_yellow_tokens :: bool
  auto_sell_minutes :: u64
  lc_take_profit :: f64
  lc_stop_loss :: f64
  use_gas_optimizer :: bool
  lc_sandwich :: bool
  use_mempool_watching :: bool
  use_front_run :: bool
  use_trailing_stop_loss :: bool
  lc_trailing_percent :: f64

record levels_config =
  free_config :: level_config
  premium_config :: level_config
  vip_config :: level_config

text \<open>Of the bot the fields these decisions read; components that are only called are present or not.\<close>

record bot =
  mode :: bot_mode
  user_level :: subscription_level
  auto_config :: "auto_trade_config option"
  level_configs :: levels_config
  watcher :: "mempool_watcher option"
  has_tracker :: bool
  has_optimizer :: bool
  has_trade_manager :: bool
  has_service_tx :: bool
  wallet_selected :: bool

definition set_auto_trade_config :: "auto_trade_config \<Rightarrow> bot \<Rightarrow> bot" where
  "set_auto_trade_config config self = self\<lparr>auto_config := Some config\<rparr>"

definition switch_mode :: "bot_mode \<Rightarrow> bot \<Rightarrow> bot" where
  "switch_mode m self = (if mode self = m then self else self\<lparr>mode := m\<rparr>)"

definition config_for_level :: "bot \<Rightarrow> auto_trade_config" where
  "config_for_level self =
     (let d = default_auto_trade_config in
      case user_level self of
        Free \<Rightarrow>
          let c = free_config (level_configs self) in
          d\<lparr>enabled := lc_enabled c, red_token_strategy := False,
            yellow := (yellow d)\<lparr>buy_on_large_orders := allow_yellow_tokens c, sell_after_minutes := auto_sell_minutes c,
                                 ys_sandwich := False, use_mempool_data := False\<rparr>,
            green := (green d)\<lparr>front_run_orders := False, use_trailing_stop := False, gs_sandwich := False\<rparr>,
            use_mev_strategies := False\<rparr>
      | Premium \<Rightarrow>
          let c = premium_config (level_configs self) in
          d\<lparr>enabled := lc_enabled c, red_token_strategy := False,
            yellow := (yellow d)\<lparr>buy_on_large_orders := allow_yellow_tokens c, sell_after_minutes := auto_sell_minutes c,
                                 ys_take_profit := lc_take_profit c, ys_stop_loss := lc_stop_loss c,
                                 ys_sandwich := False, use_mempool_data := True\<rparr>,
            max_gas_boost_percent := (if use_gas_optimizer c \<and> has_optimizer self then 150 else max_gas_boost_percent d),
            green := (green d)\<lparr>front_run_orders := False, gs_sandwich := False\<rparr>,
            use_mev_strategies := False\<rparr>
      | VIP \<Rightarrow>
          let c = vip_config (level_configs self) in
          d\<lparr>enabled := lc_enabled c, red_token_strategy := False,
            yellow := (yellow d)\<lparr>buy_on_large_orders := allow_yellow_tokens c, ys_sandwich := lc_sandwich c,
                                 use_mempool_data := use_mempool_watching c,
                                 ys_take_profit := lc_take_profit c, ys_stop_loss := lc_stop_loss c\<rparr>,
            green := (green d)\<lparr>front_run_orders := use_front_run c, use_trailing_stop := use_trailing_stop_loss c,
                               trailing_stop_percent := lc_trailing_percent c, gs_sandwich := lc_sandwich c,
                               gs_take_profit := lc_take_profit c\<rparr>,
            use_mev_strategies := True, max_gas_boost_percent := 200\<rparr>)"

definition update_auto_trade_config_for_subscription :: "bot \<Rightarrow> bot" where
  "update_auto_trade_config_for_subscription self = self\<lparr>auto_config := Some (config_for_level self)\<rparr>"

definition set_user_level :: "subscription_level \<Rightarrow> bot \<Rightarrow> bot" where
  "set_user_level level self = update_auto_trade_config_for_subscription (self\<lparr>user_level := level\<rparr>)"

section \<open>The world and the analysis of a token\<close>

record bot_analysis = risk_analysis +
  ra_verified :: bool
  ra_dangerous :: "string list"

record ai_decision =
  should_buy :: bool
  confidence :: f64
  prediction :: string

record recommendation =
  rc_token :: string
  rc_action :: string
  rc_confidence :: f64

text \<open>The last six answers are those of the trading cycle; optimised parameters are passed on unread.\<close>

record world =
  w_status :: "order list \<Rightarrow> string \<Rightarrow> token_status option"
  w_analysis :: "order list \<Rightarrow> string \<Rightarrow> bot_analysis option"
  w_locked :: "order list \<Rightarrow> string \<Rightarrow> bool option"
  w_reserve :: "order list \<Rightarrow> f64 option"
  w_parse_ether :: "string \<Rightarrow> u256 option"
  w_amounts :: "order list \<Rightarrow> string \<Rightarrow> u256 \<Rightarrow> u256 list option"
  w_receipt :: "order list \<Rightarrow> u64 option option"
  w_outcome :: "order list \<Rightarrow> trade_result option"
  w_done :: "order list \<Rightarrow> unit option"
  w_native_balance :: "order list \<Rightarrow> u256 option"
  w_sandwich_swaps :: "order list \<Rightarrow> string \<Rightarrow> u256 \<Rightarrow> (pending_swap \<times> u256) list option"
  w_optimal_gas :: "order list \<Rightarrow> u256 option"
  w_ai :: "order list \<Rightarrow> string \<Rightarrow> ai_decision option"
  w_discover :: "order list \<Rightarrow> unit option"
  w_update_tracked :: "order list \<Rightarrow> unit option"
  w_recommendations :: "order list \<Rightarrow> recommendation list option"
  w_optimize :: "order list \<Rightarrow> string \<Rightarrow> string \<Rightarrow> f64 \<Rightarrow> string option"
  w_tune :: "order list \<Rightarrow> unit option"
  w_has_position :: "order list \<Rightarrow> string \<Rightarrow> bool option"

definition score_level :: "f64 \<Rightarrow> token_safety" where
  "score_level score =
     (if f64_lt score (Fin 60) then Green else if f64_lt score (Fin 80) then Yellow else Red)"

text \<open>\<open>count_pending_txs_for_token\<close> is a stub that answers 0.\<close>

definition analyze_token :: "world \<Rightarrow> bot \<Rightarrow> string \<Rightarrow> token_status action" where
  "analyze_token w self token =
     act_bind (ask (\<lambda>os. w_status w os token)) (\<lambda>status.
     act_bind (ask (\<lambda>os. w_analysis w os token)) (\<lambda>risk.
     let status = status\<lparr>ts_tax_info :=
           Some \<lparr> buy_tax = Fin 0, sell_tax = Fin 0, transfer_tax = Fin 0, min_hold_time = None \<rparr>\<rparr>;
         status = status\<lparr>safety_level :=
           (if has_tracker self then classify_token status (Some (risk_analysis.truncate risk))
            else score_level (risk_score risk))\<rparr>;
         status = status\<lparr>is_contract_verified := ra_verified risk,
           has_dangerous_functions := (ra_dangerous risk \<noteq> []), dangerous_functions := ra_dangerous risk\<rparr>
     in act_bind (ask (\<lambda>os. w_locked w os token)) (\<lambda>locked.
          let status = status\<lparr>liquidity_locked := Some locked\<rparr>
          in act_return (if watcher self \<noteq> None then status\<lparr>pending_tx_count := 0\<rparr> else status))))"

section \<open>Parts of a trade\<close>

definition check_reserve_balance :: "world \<Rightarrow> bot \<Rightarrow> bool action" where
  "check_reserve_balance w self =
     act_bind (ask (w_reserve w)) (\<lambda>current.
       let percent = (case auto_config self of Some c \<Rightarrow> reserve_percent c | None \<Rightarrow> Fin 25) in
       if f64_lt current percent
       then act_bind (if has_service_tx self then emit (Reserve_alert current) else act_return ())
              (\<lambda>_. act_return False)
       else act_return True)"

definition get_large_orders_in_mempool :: "bot \<Rightarrow> string \<Rightarrow> f64 \<Rightarrow> pending_swap list" where
  "get_large_orders_in_mempool self token min_usd =
     (case watcher self of
        Some watch \<Rightarrow>
          (case mempool_tracker_of watch of
             Some tracker \<Rightarrow>
               (case pending_swaps tracker token of
                  Some swaps \<Rightarrow> filter (\<lambda>s. is_buy s \<and> f64_le min_usd (amount_usd s)) swaps
                | None \<Rightarrow> [])
           | None \<Rightarrow> [])
      | None \<Rightarrow> [])"

definition check_large_orders_in_mempool :: "bot \<Rightarrow> string \<Rightarrow> f64 \<Rightarrow> bool" where
  "check_large_orders_in_mempool self token min_usd \<longleftrightarrow>
     watcher self \<noteq> None \<and> get_large_orders_in_mempool self token min_usd \<noteq> []"

text \<open>\<open>as_u64\<close> panics above 64 bits; \<open>U256\<close> operators panic on overflow.\<close>

definition as_u64 :: "u256 \<Rightarrow> u64 res" where
  "as_u64 x = (if unat x < 2 ^ 64 then Inr (ucast x) else Inl Overflow)"

definition front_run_transaction :: "world \<Rightarrow> bot \<Rightarrow> pending_swap \<Rightarrow> string \<Rightarrow> trade_result action" where
  "front_run_transaction w self swap amount =
     act_bind (lift_res (rbind (mul_ov (swap_gas_price swap) 110) (\<lambda>g. div_ov g 100))) (\<lambda>gas.
     act_bind (case w_parse_ether w amount of Some a \<Rightarrow> act_return a | None \<Rightarrow> act_fail Bad_amount) (\<lambda>amount_in.
     act_bind (ask (\<lambda>os. w_amounts w os (swap_token swap) amount_in)) (\<lambda>amounts.
     act_bind (if amounts = [] then act_fail External else act_return (last amounts)) (\<lambda>amount_out.
     act_bind (lift_res (rbind (mul_ov amount_out 99) (\<lambda>m. div_ov m 100))) (\<lambda>amount_out_min.
     act_bind (lift_res (as_u64 gas)) (\<lambda>gas64.
     act_bind (emit (Front_run (swap_token swap) amount_in amount_out_min gas64)) (\<lambda>_.
     act_bind (ask (w_receipt w)) (\<lambda>receipt.
     act_return \<lparr> tr_success = (receipt \<noteq> None), tr_gas_used = receipt, tr_gas_price = gas64 \<rparr>))))))))"

text \<open>The order of the levels is that of their declaration.\<close>

definition level_rank :: "subscription_level \<Rightarrow> nat" where
  "level_rank l = (case l of Free \<Rightarrow> 0 | Premium \<Rightarrow> 1 | VIP \<Rightarrow> 2)"

instantiation subscription_level :: linorder
begin

definition less_eq_subscription_level :: "subscription_level \<Rightarrow> subscription_level \<Rightarrow> bool" where
  "l \<le> l' \<longleftrightarrow> level_rank l \<le> level_rank l'"

definition less_subscription_level :: "subscription_level \<Rightarrow> subscription_level \<Rightarrow> bool" where
  "l < l' \<longleftrightarrow> level_rank l < level_rank l'"

instance
  by standard (auto simp: less_eq_subscription_level_def less_subscription_level_def level_rank_def
      split: subscription_level.splits)

end

definition find_sandwich_opportunity :: "world \<Rightarrow> bot \<Rightarrow> string \<Rightarrow> pending_swap option action" where
  "find_sandwich_opportunity w self token =
     (if user_level self < Premium then act_return None
      else
        act_bind (ask (w_native_balance w)) (\<lambda>balance.
        let min_amount = balance div 10 in
        if min_amount = 0 then act_return None
        else if \<not> wallet_selected self then act_fail External
        else
          act_bind (ask (\<lambda>os. w_sandwich_swaps w os token min_amount)) (\<lambda>swaps.
          act_return (map_option fst (List.find (\<lambda>(_, v). min_amount \<le> v) swaps)))))"

definition sell_percent :: "world \<Rightarrow> string \<Rightarrow> u8 \<Rightarrow> trade_result action" where
  "sell_percent w token percent = act_bind (emit (Sell_percent token percent)) (\<lambda>_. ask (w_outcome w))"

definition execute_sandwich_strategy :: "world \<Rightarrow> bot \<Rightarrow> string \<Rightarrow> trade_result action" where
  "execute_sandwich_strategy w self token =
     act_bind (find_sandwich_opportunity w self token) (\<lambda>opp.
       case opp of
         None \<Rightarrow> act_fail No_opportunity
       | Some swap \<Rightarrow>
           act_bind (front_run_transaction w self swap ''0.05'') (\<lambda>front.
           if \<not> tr_success front then act_fail Front_run_failed
           else act_bind (sell_percent w token 100) (\<lambda>back.
             act_return
               \<lparr> tr_success = (tr_success front \<and> tr_success back),
                 tr_gas_used = Some ((case tr_gas_used front of Some g \<Rightarrow> g | None \<Rightarrow> 0)
                                     + (case tr_gas_used back of Some g \<Rightarrow> g | None \<Rightarrow> 0)),
                 tr_gas_price = (tr_gas_price front + tr_gas_price back) div 2 \<rparr>)))"

text \<open>The stop price, a product of \<open>f64\<close>, is left out.\<close>

definition activate_trailing_stop_loss :: "world \<Rightarrow> bot \<Rightarrow> string \<Rightarrow> f64 \<Rightarrow> trade_result action" where
  "activate_trailing_stop_loss w self token percent =
     act_bind (analyze_token w self token) (\<lambda>status.
     act_bind (if has_trade_manager self
               then act_bind (emit (Trailing_stop token (price_usd status) percent)) (\<lambda>_. ask (w_done w))
               else act_return ()) (\<lambda>_.
     act_return \<lparr> tr_success = True, tr_gas_used = None, tr_gas_price = 0 \<rparr>))"

definition set_take_profit_stop_loss :: "world \<Rightarrow> bot \<Rightarrow> string \<Rightarrow> f64 \<Rightarrow> f64 \<Rightarrow> unit action" where
  "set_take_profit_stop_loss w self token take_profit stop_loss =
     (if has_trade_manager self
      then act_bind (emit (Profit_and_stop token take_profit stop_loss)) (\<lambda>_. ask (w_done w))
      else act_return ())"

definition optimize_gas :: "world \<Rightarrow> u256 action" where
  "optimize_gas w os = (os, Inr (case w_optimal_gas w os of Some p \<Rightarrow> p | None \<Rightarrow> 5000000000))"

definition execute_sandwich_strategy_with_percent :: "world \<Rightarrow> bot \<Rightarrow> string \<Rightarrow> trade_result action" where
  "execute_sandwich_strategy_with_percent w self token =
     (case watcher self of
        Some watch \<Rightarrow>
          (case mempool_tracker_of watch of
             Some tracker \<Rightarrow>
               (case get_best_sandwich_opportunity tracker of
                  Some opp \<Rightarrow>
                    if sw_token opp = token
                    then act_bind (ask (w_native_balance w)) (\<lambda>_.
                         act_bind (emit (Sandwich_bundle token)) (\<lambda>_. ask (w_outcome w)))
                    else act_fail No_opportunity
                | None \<Rightarrow> act_fail No_opportunity)
           | None \<Rightarrow> act_fail No_opportunity)
      | None \<Rightarrow> act_fail No_opportunity)"

section \<open>Automatic trades\<close>

text \<open>\<open>str::parse::<u8>\<close>: decimal digits after an optional plus sign, at most 255.\<close>

definition parse_u8 :: "string \<Rightarrow> u8 option" where
  "parse_u8 s =
     (let ds = (case s of c # cs \<Rightarrow> if c = CHR ''+'' then cs else s | [] \<Rightarrow> []);
          digit = (\<lambda>c. of_char c - 48 :: nat);
          value = foldl (\<lambda>n c. 10 * n + digit c) 0 ds
      in if ds \<noteq> [] \<and> list_all (\<lambda>c. 48 \<le> (of_char c :: nat) \<and> (of_char c :: nat) < 58) ds \<and> value < 256
         then Some (word_of_nat value) else None)"

definition ordinary_trade :: "world \<Rightarrow> string \<Rightarrow> string \<Rightarrow> string \<Rightarrow> trade_result action" where
  "ordinary_trade w token amount act =
     (if act = ''buy'' then
        (case w_parse_ether w amount of
           Some a \<Rightarrow> act_bind (emit (Buy_token token a)) (\<lambda>_. ask (w_outcome w))
         | None \<Rightarrow> act_fail Bad_amount)
      else if act = ''sell'' then
        sell_percent w token (case parse_u8 amount of Some p \<Rightarrow> p | None \<Rightarrow> 100)
      else if act = ''emergency_sell'' then act_bind (emit (Emergency_sell token)) (\<lambda>_. ask (w_outcome w))
      else act_fail Unsupported_action)"

definition yellow_trade :: "world \<Rightarrow> bot \<Rightarrow> string \<Rightarrow> string \<Rightarrow> string \<Rightarrow> trade_result action" where
  "yellow_trade w self token amount act =
     (case auto_config self of
        None \<Rightarrow> ordinary_trade w token amount act
      | Some c \<Rightarrow>
          if act = ''buy'' then
            (if \<not> buy_on_large_orders (yellow c) then act_fail Strategy_disabled
             else if \<not> check_large_orders_in_mempool self token (min_large_order_usd (yellow c))
             then act_fail No_large_orders
             else ordinary_trade w token amount act)
          else if act = ''sandwich'' then
            (if \<not> ys_sandwich (yellow c) then act_fail Strategy_disabled
             else execute_sandwich_strategy w self token)
          else ordinary_trade w token amount act)"

definition green_trade :: "world \<Rightarrow> bot \<Rightarrow> string \<Rightarrow> string \<Rightarrow> string \<Rightarrow> trade_result action" where
  "green_trade w self token amount act =
     (case auto_config self of
        None \<Rightarrow> ordinary_trade w token amount act
      | Some c \<Rightarrow>
          if act = ''buy'' then
            (if \<not> front_run_orders (green c) then act_fail Strategy_disabled
             else (case get_large_orders_in_mempool self token (min_order_size_usd (green c)) of
                     [] \<Rightarrow> act_fail No_large_orders
                   | swap # _ \<Rightarrow> front_run_transaction w self swap amount))
          else if act = ''tsl'' then
            (if \<not> use_trailing_stop (green c) then act_fail Strategy_disabled
             else activate_trailing_stop_loss w self token (trailing_stop_percent (green c)))
          else if act = ''sandwich'' then
            (if \<not> gs_sandwich (green c) then act_fail Strategy_disabled
             else execute_sandwich_strategy w self token)
          else ordinary_trade w token amount act)"

definition auto_trade :: "world \<Rightarrow> bot \<Rightarrow> string \<Rightarrow> string \<Rightarrow> string \<Rightarrow> trade_result action" where
  "auto_trade w self token amount act =
     (if mode self \<noteq> Auto then act_fail Wrong_mode
      else
        act_bind (analyze_token w self token) (\<lambda>status.
        act_bind (if act = ''buy'' then check_reserve_balance w self else act_return True) (\<lambda>reserve.
        if \<not> reserve then act_fail Low_reserve
        else (case safety_level status of
                Red \<Rightarrow> act_fail Red_refused
              | Yellow \<Rightarrow> yellow_trade w self token amount act
              | Green \<Rightarrow> green_trade w self token amount act))))"

definition buy_with_amount :: "world \<Rightarrow> string \<Rightarrow> string \<Rightarrow> trade_result action" where
  "buy_with_amount w token amount = act_bind (emit (Buy_with_amount token amount)) (\<lambda>_. ask (w_outcome w))"

definition buy_optimized :: "world \<Rightarrow> string \<Rightarrow> string \<Rightarrow> u256 option \<Rightarrow> trade_result action" where
  "buy_optimized w token amount price = act_bind (emit (Buy_optimized token amount price)) (\<lambda>_. ask (w_outcome w))"

text \<open>\<open>act_when\<close>: a step taken on a condition, whose error is passed on.\<close>

definition act_when :: "bool \<Rightarrow> 'a action \<Rightarrow> unit action" where
  "act_when b m = (if b then act_bind m (\<lambda>_. act_return ()) else act_return ())"

definition free_trade :: "world \<Rightarrow> bot \<Rightarrow> string \<Rightarrow> trade_result action" where
  "free_trade w self token =
     act_bind (buy_with_amount w token ''0.05'') (\<lambda>result.
     act_bind (act_when (tr_success result) (emit (Schedule_sell token 30))) (\<lambda>_.
     act_return result))"

definition premium_trade :: "world \<Rightarrow> bot \<Rightarrow> auto_trade_config \<Rightarrow> string \<Rightarrow> trade_result action" where
  "premium_trade w self c token =
     act_bind (if has_optimizer self then act_bind (optimize_gas w) (\<lambda>g. act_return (Some g)) else act_return None) (\<lambda>gas.
     act_bind (ask (\<lambda>os. w_ai w os token)) (\<lambda>ai.
     if f64_le (Fin (6 / 10)) (confidence ai) \<and> should_buy ai then
       act_bind (buy_optimized w token ''0.1'' gas) (\<lambda>result.
       act_bind (act_when (tr_success result)
         (set_take_profit_stop_loss w self token (ys_take_profit (yellow c)) (ys_stop_loss (yellow c)))) (\<lambda>_.
       act_return result))
     else act_fail Ai_refused))"

text \<open>The attempt of a sandwich, whose failure ends the search without a trade.\<close>

definition vip_sandwich :: "world \<Rightarrow> bot \<Rightarrow> auto_trade_config \<Rightarrow> string \<Rightarrow> trade_result action" where
  "vip_sandwich w self c token os =
     (if ys_sandwich (yellow c) \<or> gs_sandwich (green c)
      then (case execute_sandwich_strategy_with_percent w self token os of
              (os', Inr result) \<Rightarrow> (os', Inr result)
            | (os', Inl _) \<Rightarrow> (os', Inl No_opportunity))
      else (os, Inl No_opportunity))"

definition trail_if_used :: "world \<Rightarrow> bot \<Rightarrow> auto_trade_config \<Rightarrow> string \<Rightarrow> trade_result \<Rightarrow> trade_result action" where
  "trail_if_used w self c token result =
     act_bind (act_when (tr_success result \<and> use_trailing_stop (green c))
       (activate_trailing_stop_loss w self token (trailing_stop_percent (green c)))) (\<lambda>_.
     act_return result)"

definition vip_trade :: "world \<Rightarrow> bot \<Rightarrow> auto_trade_config \<Rightarrow> string \<Rightarrow> trade_result action" where
  "vip_trade w self c token =
     (let large = (if use_mempool_data (yellow c)
                   then get_large_orders_in_mempool self token (min_order_size_usd (green c)) else []) in
      if large \<noteq> [] \<and> front_run_orders (green c)
      then act_bind (front_run_transaction w self (hd large) ''0.2'') (trail_if_used w self c token)
      else
        act_bind (ask (\<lambda>os. w_ai w os token)) (\<lambda>ai.
        if f64_le (Fin (7 / 10)) (confidence ai) \<and> should_buy ai then
          act_bind (optimize_gas w) (\<lambda>gas.
          act_bind (buy_optimized w token ''0.3'' (Some gas)) (trail_if_used w self c token))
        else if f64_le (Fin (7 / 10)) (confidence ai) \<and> prediction ai = ''pump_soon''
        then buy_with_amount w token ''0.5''
        else vip_sandwich w self c token))"

definition auto_trade_by_safety :: "world \<Rightarrow> bot \<Rightarrow> string \<Rightarrow> trade_result action" where
  "auto_trade_by_safety w self token =
     act_bind (analyze_token w self token) (\<lambda>status.
       if safety_level status = Red then act_fail Red_refused
       else (case auto_config self of
               None \<Rightarrow> act_fail No_opportunity
             | Some c \<Rightarrow>
                 (case user_level self of
                    Free \<Rightarrow> free_trade w self token
                  | Premium \<Rightarrow> premium_trade w self c token
                  | VIP \<Rightarrow> vip_trade w self c token)))"

section \<open>Trades without a look at the safety level\<close>

text \<open>
  The task of \<open>schedule_auto_sell\<close> once its minutes have passed: an error of either question is only
  logged. \<open>self.config.auto_trade_enabled\<close> and the configuration of the cycle are arguments: the
  loop reads \<open>self.auto_trade_config\<close> without the \<open>Option\<close> the field has. It ends with the first
  error only, so its number of rounds is the fuel; the pauses are left out.
\<close>

definition scheduled_sell :: "world \<Rightarrow> string \<Rightarrow> unit action" where
  "scheduled_sell w token os =
     (if w_has_position w os token = Some True
      then (fst (sell_percent w token 100 os), Inr ()) else (os, Inr ()))"

definition execute_recommendation :: "world \<Rightarrow> auto_trade_config \<Rightarrow> recommendation \<Rightarrow> unit action" where
  "execute_recommendation w c rc =
     act_when (f64_le (ai_confidence_threshold c) (rc_confidence rc))
       (act_bind (ask (\<lambda>os. w_optimize w os (rc_token rc) (rc_action rc) (rc_confidence rc))) (\<lambda>params.
        act_bind (emit (Optimized_trade (rc_token rc) (rc_action rc) params)) (\<lambda>_.
        ask (w_outcome w))))"

fun execute_recommendations :: "world \<Rightarrow> auto_trade_config \<Rightarrow> recommendation list \<Rightarrow> unit action" where
  "execute_recommendations w c [] = act_return ()"
| "execute_recommendations w c (rc # rcs) =
     act_bind (execute_recommendation w c rc) (\<lambda>_. execute_recommendations w c rcs)"

definition auto_trade_cycle :: "world \<Rightarrow> auto_trade_config \<Rightarrow> unit action" where
  "auto_trade_cycle w c =
     act_bind (ask (w_discover w)) (\<lambda>_.
     act_bind (ask (w_update_tracked w)) (\<lambda>_.
     act_bind (ask (w_recommendations w)) (\<lambda>rcs.
     act_bind (execute_recommendations w c rcs) (\<lambda>_.
     act_when (auto_tuning_enabled c) (ask (w_tune w))))))"

fun start_auto_trade_cycle :: "nat \<Rightarrow> world \<Rightarrow> auto_trade_config \<Rightarrow> unit action" where
  "start_auto_trade_cycle 0 w c = act_return ()"
| "start_auto_trade_cycle (Suc n) w c =
     act_bind (auto_trade_cycle w c) (\<lambda>_. start_auto_trade_cycle n w c)"

definition start_cycle_if_auto :: "bool \<Rightarrow> bot \<Rightarrow> nat \<Rightarrow> world \<Rightarrow> auto_trade_config \<Rightarrow> unit action" where
  "start_cycle_if_auto auto_trade_enabled self n w c =
     act_when (auto_trade_enabled \<and> mode self = Auto) (start_auto_trade_cycle n w c)"

section \<open>Manual sale\<close>

definition sat_mul :: "u256 \<Rightarrow> u256 \<Rightarrow> u256" where
  "sat_mul a b = (if unat a * unat b < 2 ^ 256 then a * b else - 1)"

definition percent_price :: "u256 \<Rightarrow> u64 \<Rightarrow> u256" where
  "percent_price price percent = (if 0 < percent then sat_mul price (ucast percent) div 100 else price)"

text \<open>
  \<open>balance\<close>, \<open>gas_price\<close> and \<open>allowance\<close> are the answers of the chain adapter, in the order they are
  asked; \<open>now\<close> is the clock, whose sum with 300 wraps.
\<close>

definition manual_sell ::
    "world \<Rightarrow> bot \<Rightarrow> u256 option \<Rightarrow> u256 option \<Rightarrow> u256 option \<Rightarrow> u64 \<Rightarrow> string \<Rightarrow> u8 \<Rightarrow> u64 \<Rightarrow> bool action" where
  "manual_sell w self balance gas_price allowance now token percent gas_percent =
     (if mode self \<noteq> Manual then act_fail Wrong_mode
      else if percent = 0 \<or> 100 < percent then act_fail Bad_percent
      else
        act_bind (ask (\<lambda>_. balance)) (\<lambda>balance.
        if balance = 0 then act_fail No_balance
        else
          let amount = sat_mul balance (ucast percent) div 100 in
          act_bind (ask (\<lambda>_. gas_price)) (\<lambda>price.
          let gas = percent_price price gas_percent in
          act_bind (ask (\<lambda>_. allowance)) (\<lambda>allowance.
          act_bind (if allowance < amount
                    then act_bind (lift_res (as_u64 gas)) (\<lambda>g.
                         act_bind (emit (Approve token (- 1) g)) (\<lambda>_. ask (w_done w)))
                    else act_return ()) (\<lambda>_.
          act_bind (lift_res (as_u64 gas)) (\<lambda>g.
          act_bind (emit (Sell_tokens token amount 0 (now + 300) g)) (\<lambda>_.
          act_bind (ask (w_receipt w)) (\<lambda>receipt.
          act_bind (emit (Record_trade (receipt \<noteq> None))) (\<lambda>_.
          act_return (receipt \<noteq> None))))))))))"

section \<open>Recovery from deadlocks\<close>

datatype deadlock_source = Token_tracker | Trade_manager | Mempool_watcher | AI_module | Monte_equilibrium

text \<open>The difference of the clock and the last lock time is one of \<open>u64\<close>, which wraps.\<close>

definition check_deadlock_recovery_needed :: "u64 \<Rightarrow> u64 \<Rightarrow> u64 \<Rightarrow> deadlock_source \<Rightarrow> bool" where
  "check_deadlock_recovery_needed now last_token last_trade src =
     (case src of
        Token_tracker \<Rightarrow> 60 < now - last_token
      | Trade_manager \<Rightarrow> 60 < now - last_trade
      | _ \<Rightarrow> False)"

section \<open>Lemmas\<close>

named_theorems act

lemma act_return_run [act]: "act_return x os = (os, Inr x)"
  by (simp add: act_return_def)

lemma act_fail_run [act]: "act_fail e os = (os, Inl e)"
  by (simp add: act_fail_def)

lemma emit_run [act]: "emit x os = (os @ [x], Inr ())"
  by (simp add: emit_def)

lemma act_bind_assoc: "act_bind (act_bind m f) g = act_bind m (\<lambda>x. act_bind (f x) g)"
  by (rule ext) (simp add: act_bind_def split: prod.splits sum.splits)

lemma act_bindE:
  assumes "act_bind m f os = (os', r)"
  obtains (fail) e where "m os = (os', Inl e)" "r = Inl e"
    | (next_step) x os1 where "m os = (os1, Inr x)" "f x os1 = (os', r)"
proof (cases "m os")
  case (Pair os1 s)
  with assms that show ?thesis by (cases s) (simp_all add: act_bind_def)
qed

text \<open>
  An action stays within a set of orders when every order it adds is in the set; the rules follow
  its construction.
\<close>

definition stays :: "(order \<Rightarrow> bool) \<Rightarrow> 'a action \<Rightarrow> bool" where
  "stays P m \<longleftrightarrow> (\<forall>os. \<exists>added. fst (m os) = os @ added \<and> list_all P added)"

named_theorems stays_intros

lemma stays_return [stays_intros]: "stays P (act_return x)"
  by (simp add: stays_def act_return_def)

lemma stays_fail [stays_intros]: "stays P (act_fail e)"
  by (simp add: stays_def act_fail_def)

lemma stays_ask [stays_intros]: "stays P (ask f)"
  by (simp add: stays_def ask_def)

lemma stays_lift [stays_intros]: "stays P (lift_res r)"
  by (simp add: stays_def lift_res_def)

lemma stays_gas [stays_intros]: "stays P (optimize_gas w)"
  by (simp add: stays_def optimize_gas_def)

lemma stays_emit [stays_intros]: "P x \<Longrightarrow> stays P (emit x)"
  by (simp add: stays_def emit_def)

lemma stays_bind [stays_intros]:
  assumes "stays P m" and "\<And>x. stays P (f x)"
  shows "stays P (act_bind m f)"
  unfolding stays_def
proof
  fix os
  from assms(1) obtain added where m: "fst (m os) = os @ added" "list_all P added" by (auto simp: stays_def)
  show "\<exists>added. fst (act_bind m f os) = os @ added \<and> list_all P added"
  proof (cases "m os")
    case (Pair os' r)
    show ?thesis
    proof (cases r)
      case (Inr x)
      from assms(2) [of x] obtain more where "fst (f x os') = os' @ more" "list_all P more"
        by (auto simp: stays_def)
      with m Pair Inr show ?thesis by (auto simp: act_bind_def)
    qed (use m Pair in \<open>auto simp: act_bind_def\<close>)
  qed
qed

lemma stays_if [stays_intros]: "(b \<Longrightarrow> stays P m) \<Longrightarrow> (\<not> b \<Longrightarrow> stays P m') \<Longrightarrow> stays P (if b then m else m')"
  by simp

lemma stays_option [stays_intros]:
  "(x = None \<Longrightarrow> stays P m) \<Longrightarrow> (\<And>y. x = Some y \<Longrightarrow> stays P (f y)) \<Longrightarrow>
     stays P (case x of None \<Rightarrow> m | Some y \<Rightarrow> f y)"
  by (cases x) simp_all

lemma stays_when [stays_intros]: "(b \<Longrightarrow> stays P m) \<Longrightarrow> stays P (act_when b m)"
  by (simp add: act_when_def stays_intros)

lemma staysD: "stays P m \<Longrightarrow> m os = (os', r) \<Longrightarrow> \<exists>added. os' = os @ added \<and> list_all P added"
  unfolding stays_def by (metis fst_conv)

lemma analyze_token_silent: "fst (analyze_token w self token os) = os"
  by (simp add: analyze_token_def act_bind_def ask_def Let_def act_return_def
      split: option.splits prod.splits sum.splits)

lemma analyze_token_level:
  assumes "snd (analyze_token w self token os) = Inr status"
  shows "\<exists>a. w_analysis w os token = Some a \<and> (\<not> f64_lt (risk_score a) (Fin 80) \<longrightarrow> safety_level status = Red)"
proof -
  from assms obtain a where a: "w_analysis w os token = Some a"
    by (auto simp: analyze_token_def act_bind_def ask_def split: option.splits)
  have "f64_lt s (Fin 80)" if "f64_lt s (Fin x)" "x \<le> 80" for s x
    using that by (cases s) auto
  then have "score_level (risk_score a) = Red \<and> classify_token st (Some (risk_analysis.truncate a)) = Red"
    if "\<not> f64_lt (risk_score a) (Fin 80)" for st
    using that by (auto simp: score_level_def classify_token_def risk_analysis.truncate_def)
  with a assms show ?thesis
    by (auto simp: analyze_token_def act_bind_def ask_def Let_def act_return_def split: option.splits if_splits)
qed

fun is_alert :: "order \<Rightarrow> bool" where
  "is_alert (Reserve_alert x) = True"
| "is_alert _ = False"

lemma stays_reserve [stays_intros]: "stays is_alert (check_reserve_balance w self)"
  unfolding check_reserve_balance_def Let_def by (intro stays_intros) simp

lemma auto_trade_refused:
  assumes "\<And>status os'. analyze_token w self token os = (os', Inr status) \<Longrightarrow> safety_level status = Red"
  shows "\<exists>e alerts. auto_trade w self token amount act os = (os @ alerts, Inl e) \<and> list_all is_alert alerts"
proof -
  obtain r where a: "analyze_token w self token os = (os, r)"
    using analyze_token_silent [of w self token os] by (metis prod.collapse)
  let ?check = "if act = ''buy'' then check_reserve_balance w self else act_return True"
  have "stays is_alert ?check" by (intro stays_intros)
  then obtain alerts r' where c: "?check os = (os @ alerts, r')" "list_all is_alert alerts"
    by (metis staysD prod.collapse)
  show ?thesis
  proof (cases r)
    case (Inr status)
    with assms a have red: "safety_level status = Red" by blast
    show ?thesis
    proof (cases "mode self = Auto")
      case True
      with a Inr red have "auto_trade w self token amount act os =
          act_bind ?check (\<lambda>reserve. if \<not> reserve then act_fail Low_reserve else act_fail Red_refused) os"
        by (simp add: auto_trade_def act_bind_def [of "analyze_token w self token"] cong: if_cong)
      with c show ?thesis by (cases r') (auto simp: act_bind_def act_fail_def)
    qed (auto simp: auto_trade_def act_fail_def)
  qed (use a in \<open>auto simp: auto_trade_def act_bind_def act_fail_def\<close>)
qed

fun is_mev :: "order \<Rightarrow> bool" where
  "is_mev (Front_run t a m g) = True"
| "is_mev (Sandwich_bundle t) = True"
| "is_mev _ = False"

lemma stays_safety [stays_intros]:
  "stays P m1 \<Longrightarrow> stays P m2 \<Longrightarrow> stays P m3 \<Longrightarrow> stays P (case l of Green \<Rightarrow> m1 | Yellow \<Rightarrow> m2 | Red \<Rightarrow> m3)"
  by (cases l) simp_all

lemma stays_analyze [stays_intros]: "stays P (analyze_token w self token)"
  unfolding stays_def using analyze_token_silent by auto

lemma stays_ordinary:
  "stays (\<lambda>x. \<not> is_mev x) (ordinary_trade w token amount act)"
  unfolding ordinary_trade_def sell_percent_def by (intro stays_intros) simp_all

lemma stays_reserve_mev: "stays (\<lambda>x. \<not> is_mev x) (check_reserve_balance w self)"
  unfolding check_reserve_balance_def Let_def by (intro stays_intros) simp

lemma stays_trailing: "stays (\<lambda>x. \<not> is_mev x) (activate_trailing_stop_loss w self token percent)"
  unfolding activate_trailing_stop_loss_def by (intro stays_intros) simp

lemma config_below_vip:
  assumes "user_level self \<noteq> VIP"
  shows "\<not> front_run_orders (green (config_for_level self)) \<and> \<not> gs_sandwich (green (config_for_level self))
         \<and> \<not> ys_sandwich (yellow (config_for_level self))"
  using assms by (cases "user_level self") (simp_all add: config_for_level_def Let_def)

lemma stays_auto_trade:
  assumes "auto_config self = Some c" and "\<not> front_run_orders (green c)" "\<not> gs_sandwich (green c)"
    "\<not> ys_sandwich (yellow c)"
  shows "stays (\<lambda>x. \<not> is_mev x) (auto_trade w self token amount act)"
proof -
  have "stays (\<lambda>x. \<not> is_mev x) (yellow_trade w self token amount act)"
    unfolding yellow_trade_def assms(1) option.case using assms(4)
    by (intro stays_intros stays_ordinary) simp_all
  moreover have "stays (\<lambda>x. \<not> is_mev x) (green_trade w self token amount act)"
    unfolding green_trade_def assms(1) option.case using assms(2,3)
    by (intro stays_intros stays_ordinary stays_trailing) simp_all
  ultimately show ?thesis
    unfolding auto_trade_def by (intro stays_intros stays_reserve_mev)
qed

lemma stays_by_safety:
  assumes "user_level self \<noteq> VIP"
  shows "stays (\<lambda>x. \<not> is_mev x) (auto_trade_by_safety w self token)"
proof -
  have "stays (\<lambda>x. \<not> is_mev x) (free_trade w self token)"
    unfolding free_trade_def buy_with_amount_def by (intro stays_intros) simp_all
  moreover have "stays (\<lambda>x. \<not> is_mev x) (premium_trade w self c token)" for c
    unfolding premium_trade_def buy_optimized_def set_take_profit_stop_loss_def
    by (intro stays_intros) simp_all
  ultimately have "stays (\<lambda>x. \<not> is_mev x)
      (case user_level self of Free \<Rightarrow> free_trade w self token
        | Premium \<Rightarrow> premium_trade w self c token | VIP \<Rightarrow> vip_trade w self c token)" for c
    using assms by (cases "user_level self") simp_all
  then show ?thesis unfolding auto_trade_by_safety_def by (intro stays_intros)
qed

lemma div_percent_le:
  assumes "unat (p :: u256) \<le> 100"
  shows "unat (sat_mul b p div 100) \<le> unat b
         \<and> (unat b * unat p < 2 ^ 256 \<longrightarrow> unat (sat_mul b p div 100) = unat b * unat p div 100)"
proof (cases "unat b * unat p < 2 ^ 256")
  case True
  then have "unat (b * p) = unat b * unat p" by (simp add: unat_word_ariths)
  with True have e: "unat (sat_mul b p div 100) = unat b * unat p div 100"
    by (simp add: sat_mul_def unat_div)
  have "unat b * unat p \<le> unat b * 100" using assms by simp
  then have "unat b * unat p div 100 \<le> unat b" by (metis div_le_mono div_mult_self_is_m zero_less_numeral)
  with e show ?thesis by simp
next
  case False
  then have "unat (sat_mul b p div 100) = (2 ^ 256 - 1) div 100" by (simp add: sat_mul_def unat_div)
  moreover from False assms have "2 ^ 256 \<le> unat b * 100"
    by (meson le_trans mult_le_mono2 not_less)
  ultimately show ?thesis using False by simp
qed

section \<open>Properties\<close>

text \<open>C4. The two entry points that look at the safety level, \<open>auto_trade\<close> and \<open>auto_trade_by_safety\<close>,
  refuse a token whose risk score is not below 80 (one that is no number included), whatever the
  level of the user, the configuration and the rest of the world: both end in an error, and
  nothing but an alert leaves the bot. (The trading cycle and the scheduled sale do not look at
  it: \<open>cycle_trades_on_confidence\<close>, \<open>scheduled_sell_unchecked\<close>.)\<close>

theorem risky_token_refused:
  assumes "w_analysis w os token = Some a" and "\<not> f64_lt (risk_score a) (Fin 80)"
  shows "(\<exists>e alerts. auto_trade w self token amount act os = (os @ alerts, Inl e) \<and> list_all is_alert alerts)
         \<and> (\<exists>e. auto_trade_by_safety w self token os = (os, Inl e))"
proof -
  have red: "safety_level status = Red" if "analyze_token w self token os = (os', Inr status)" for status os'
    using analyze_token_level [of w self token os status] that assms by auto
  have "\<exists>e. auto_trade_by_safety w self token os = (os, Inl e)"
  proof (cases "analyze_token w self token os")
    case (Pair os' r)
    with analyze_token_silent [of w self token os] have "os' = os" by simp
    with Pair red show ?thesis
      by (cases r) (auto simp: auto_trade_by_safety_def act_bind_def act_fail_def)
  qed
  with auto_trade_refused [of w self token os amount act] red show ?thesis by blast
qed

definition demo_world :: "f64 \<Rightarrow> u256 \<Rightarrow> world" where
  "demo_world score g =
     \<lparr> w_status = (\<lambda>_ t. Some (demo_status t 1)),
       w_analysis = (\<lambda>_ _. Some \<lparr> risk_score = score, ra_verified = True, ra_dangerous = [] \<rparr>),
       w_locked = (\<lambda>_ _. Some True), w_reserve = (\<lambda>_. Some (Fin 50)), w_parse_ether = (\<lambda>_. Some 100),
       w_amounts = (\<lambda>_ _ a. Some [a, 200]), w_receipt = (\<lambda>_. Some (Some 21000)),
       w_outcome = (\<lambda>_. Some \<lparr> tr_success = True, tr_gas_used = None, tr_gas_price = 1 \<rparr>),
       w_done = (\<lambda>_. Some ()), w_native_balance = (\<lambda>_. Some 1000), w_sandwich_swaps = (\<lambda>_ _ _. Some []),
       w_optimal_gas = (\<lambda>_. Some g),
       w_ai = (\<lambda>_ _. Some \<lparr> should_buy = True, confidence = Fin 1, prediction = ''neutral'' \<rparr>),
       w_discover = (\<lambda>_. Some ()), w_update_tracked = (\<lambda>_. Some ()),
       w_recommendations = (\<lambda>_. Some [\<lparr> rc_token = ''t'', rc_action = ''buy'', rc_confidence = Fin 1 \<rparr>]),
       w_optimize = (\<lambda>_ _ _ _. Some ''{}''), w_tune = (\<lambda>_. Some ()), w_has_position = (\<lambda>_ _. Some True) \<rparr>"

definition demo_level :: level_config where
  "demo_level =
     \<lparr> lc_enabled = True, allow_yellow_tokens = True, auto_sell_minutes = 30, lc_take_profit = Fin 20,
       lc_stop_loss = Fin 10, use_gas_optimizer = True, lc_sandwich = True, use_mempool_watching = True,
       use_front_run = True, use_trailing_stop_loss = True, lc_trailing_percent = Fin 5 \<rparr>"

definition demo_bot :: "bot_mode \<Rightarrow> bot" where
  "demo_bot m =
     \<lparr> mode = m, user_level = Free, auto_config = None,
       level_configs = \<lparr> free_config = demo_level, premium_config = demo_level, vip_config = demo_level \<rparr>,
       watcher = Some new_watcher, has_tracker = True, has_optimizer = True, has_trade_manager = True,
       has_service_tx = True, wallet_selected = True \<rparr>"

theorem risky_token_refused_witness:
  "\<exists>e. auto_trade_by_safety (demo_world (Fin 90) 5) (set_user_level VIP (demo_bot Auto)) ''t'' [] = ([], Inl e)"
  using risky_token_refused [of "demo_world (Fin 90) 5" "[]" "''t''"
      "\<lparr> risk_score = Fin 90, ra_verified = True, ra_dangerous = [] \<rparr>" "set_user_level VIP (demo_bot Auto)" "''1''" "''buy''"]
  by (simp add: demo_world_def)

text \<open>
  The trading cycle asks nothing about the safety of a token: the first recommendation that reaches
  the threshold of confidence is traded whatever the analysis says, and the scheduled sale sells
  whatever token is held.
\<close>

lemma cycle_ignores_analysis:
  "start_auto_trade_cycle n (w\<lparr>w_status := s, w_analysis := a, w_locked := l\<rparr>) c = start_auto_trade_cycle n w c"
proof -
  let ?w = "w\<lparr>w_status := s, w_analysis := a, w_locked := l\<rparr>"
  have "execute_recommendations ?w c rcs = execute_recommendations w c rcs" for rcs
    by (induction rcs) (simp_all add: execute_recommendation_def)
  then have "auto_trade_cycle ?w c = auto_trade_cycle w c" by (simp add: auto_trade_cycle_def)
  then show ?thesis by (induction n) simp_all
qed

lemma stays_recommendations: "stays (\<lambda>_. True) (execute_recommendations w c rcs)"
  by (induction rcs) (auto simp: execute_recommendation_def intro!: stays_intros)

lemma cycle_trades_on_confidence:
  assumes "w_discover w os = Some ()" "w_update_tracked w os = Some ()"
    and "w_recommendations w os = Some (rc # rcs)" and "f64_le (ai_confidence_threshold c) (rc_confidence rc)"
    and "w_optimize w os (rc_token rc) (rc_action rc) (rc_confidence rc) = Some params"
  shows "\<exists>more. fst (auto_trade_cycle w c os) = os @ Optimized_trade (rc_token rc) (rc_action rc) params # more"
proof -
  let ?os = "os @ [Optimized_trade (rc_token rc) (rc_action rc) params]"
  have one: "execute_recommendation w c rc os
      = (?os, case w_outcome w ?os of None \<Rightarrow> Inl External | Some _ \<Rightarrow> Inr ())"
    using assms(4,5)
    by (simp add: execute_recommendation_def act_when_def act_bind_def ask_def emit_def act_return_def
        split: option.splits)
  have "stays (\<lambda>_. True) (act_bind (execute_recommendations w c rcs) (\<lambda>_. act_when (auto_tuning_enabled c) (ask (w_tune w))))"
    by (intro stays_intros stays_recommendations)
  then obtain more where
    "fst (act_bind (execute_recommendations w c rcs) (\<lambda>_. act_when (auto_tuning_enabled c) (ask (w_tune w))) ?os)
       = ?os @ more" unfolding stays_def by (metis (no_types, lifting))
  with assms(1-3) one show ?thesis
    by (cases "w_outcome w ?os") (auto simp: auto_trade_cycle_def act_bind_def ask_def split: prod.splits sum.splits)
qed

lemma scheduled_sell_unchecked:
  "w_has_position w os token = Some True \<Longrightarrow> fst (scheduled_sell w token os) = os @ [Sell_percent token 100]"
  by (simp add: scheduled_sell_def sell_percent_def act_bind_def emit_def ask_def)

lemma risky_token_traded_by_cycle:
  "fst (start_cycle_if_auto True (demo_bot Auto) 1 (demo_world (Fin 90) 5) default_auto_trade_config [])
     = [Optimized_trade ''t'' ''buy'' ''{}'']"
  by (simp add: start_cycle_if_auto_def demo_bot_def auto_trade_cycle_def execute_recommendation_def act_when_def
      act_bind_def ask_def emit_def act_return_def demo_world_def default_auto_trade_config_def f64_le_def)

text \<open>The action ``buy'' of \<open>auto_trade\<close> never trades once the bot has a trading configuration: with
  the repository's mempool watcher in any reachable state, or without one, it ends in an error
  and no order leaves the bot.\<close>

lemma auto_buy_never_trades:
  assumes "auto_config self = Some c"
    and "case watcher self of Some w0 \<Rightarrow> watcher_reachable usd router w0 | None \<Rightarrow> True"
  shows "\<exists>e alerts. auto_trade w self token amount ''buy'' os = (os @ alerts, Inl e) \<and> list_all is_alert alerts"
proof -
  have none: "get_large_orders_in_mempool self token x = []" for x
    using assms(2) watcher_tracker
    by (auto simp: get_large_orders_in_mempool_def new_mempool_tracker_def split: option.splits)
  obtain r where a: "analyze_token w self token os = (os, r)"
    using analyze_token_silent [of w self token os] by (metis prod.collapse)
  obtain alerts r' where chk: "check_reserve_balance w self os = (os @ alerts, r')" "list_all is_alert alerts"
    by (metis staysD [OF stays_reserve] prod.collapse)
  show ?thesis
  proof (cases "mode self = Auto")
    case True
    with a chk assms(1) show ?thesis
      by (cases r; cases r')
        (auto simp: auto_trade_def act_bind_def act_fail_def yellow_trade_def green_trade_def none
          check_large_orders_in_mempool_def split: token_safety.splits)
  qed (auto simp: auto_trade_def act_fail_def)
qed

text \<open>Front runs and sandwiches are reserved to the highest level: after a user's level is set to
  another one, no automatic trade sends such an order, whatever the world answers and whatever is
  pending in the mempool.\<close>

lemma mev_only_for_vip:
  assumes "level \<noteq> VIP" and "bot' = set_user_level level self"
  shows "(\<exists>sent. fst (auto_trade w bot' token amount act os) = os @ sent \<and> list_all (\<lambda>x. \<not> is_mev x) sent)
    \<and> (\<exists>sent. fst (auto_trade_by_safety w bot' token os) = os @ sent \<and> list_all (\<lambda>x. \<not> is_mev x) sent)"
proof -
  let ?self = "self\<lparr>user_level := level\<rparr>"
  have "user_level bot' \<noteq> VIP" and c: "auto_config bot' = Some (config_for_level ?self)"
    using assms by (simp_all add: set_user_level_def update_auto_trade_config_for_subscription_def)
  with stays_by_safety [of bot' w token] config_below_vip [of ?self] assms(1)
    stays_auto_trade [OF c, of w token amount act]
  show ?thesis by (simp add: stays_def)
qed

text \<open>A manual sale that succeeds sells the asked percentage of the balance, rounded down, and never
  more than the balance; an approval precedes it exactly when the allowance is below the amount,
  and the outcome is recorded. (Above \<open>2\<^sup>256 / percent\<close> the product saturates: less than the percentage
  is sold.)\<close>

lemma manual_sell_exact:
  assumes "manual_sell w self balance price allowance now token percent gas_percent os = (os', Inr ok)"
  shows "\<exists>b p a amount g. balance = Some b \<and> price = Some p \<and> allowance = Some a
           \<and> mode self = Manual \<and> b \<noteq> 0 \<and> 1 \<le> unat percent \<and> unat percent \<le> 100
           \<and> os' = os @ (if a < amount then [Approve token (- 1) g] else [])
                     @ [Sell_tokens token amount 0 (now + 300) g, Record_trade ok]
           \<and> unat amount \<le> unat b
           \<and> (if unat b * unat percent < 2 ^ 256 then unat amount = unat b * unat percent div 100
              else unat amount = (2 ^ 256 - 1) div 100)
           \<and> unat g = unat (percent_price p gas_percent)"
proof -
  from assms have m: "mode self = Manual" "percent \<noteq> 0" "\<not> 100 < percent"
    by (auto simp: manual_sell_def act_fail_def split: if_splits)
  from assms m obtain b where b: "balance = Some b" "b \<noteq> 0"
    by (auto simp: manual_sell_def act_bind_def ask_def act_fail_def split: option.splits if_splits)
  let ?amount = "sat_mul b (ucast percent) div 100"
  from assms m b obtain p a where p: "price = Some p" and a: "allowance = Some a"
    by (auto simp: manual_sell_def act_bind_def ask_def Let_def split: option.splits)
  let ?g = "percent_price p gas_percent"
  from assms m b p a have small: "unat ?g < 2 ^ 64"
    by (auto simp: manual_sell_def act_bind_def ask_def Let_def lift_res_def as_u64_def act_return_def emit_def
        split: if_splits option.splits)
  from assms m b p a small
  have os': "os' = os @ (if a < ?amount then [Approve token (- 1) (ucast ?g)] else [])
                     @ [Sell_tokens token ?amount 0 (now + 300) (ucast ?g), Record_trade ok]"
    by (auto simp: manual_sell_def act_bind_def ask_def Let_def lift_res_def as_u64_def act_return_def emit_def
        split: if_splits option.splits)
  have up: "unat (ucast percent :: u256) = unat percent" by (rule unat_ucast_up) simp
  from m(3) have le: "unat percent \<le> 100" by (simp add: word_less_nat_alt)
  have ge: "1 \<le> unat percent" using m(2) by (metis One_nat_def Suc_leI unat_gt_0)
  have g: "unat (ucast ?g :: u64) = unat ?g" using small by (simp add: unsigned_ucast_eq take_bit_nat_eq_self)
  have big: "unat ?amount = (2 ^ 256 - 1) div 100" if "\<not> unat b * unat percent < 2 ^ 256"
    using that up by (simp add: sat_mul_def unat_div)
  have amount: "unat ?amount \<le> unat b"
    "if unat b * unat percent < 2 ^ 256 then unat ?amount = unat b * unat percent div 100
     else unat ?amount = (2 ^ 256 - 1) div 100"
    using div_percent_le [of "ucast percent" b] up le big by presburger+
  show ?thesis using m(1) b p a os' le ge amount g by blast
qed

text \<open>A front run that is sent bids the victim's gas price raised by ten percent, rounded down, and
  demands at least 99 percent of the quoted amount, rounded down; it reports success exactly when a
  receipt came back. A price or a quote that overflows is a panic before anything is sent.\<close>

lemma front_run_prices:
  assumes "front_run_transaction w self swap amount os = (os', r)"
  shows "os' = os \<and> (\<exists>e. r = Inl e)
    \<or> (\<exists>a m g q. os' = os @ [Front_run (swap_token swap) a m g]
         \<and> w_parse_ether w amount = Some a \<and> unat g = unat (swap_gas_price swap) * 110 div 100
         \<and> (\<exists>qs. w_amounts w os (swap_token swap) a = Some qs \<and> qs \<noteq> [] \<and> q = last qs)
         \<and> unat m = unat q * 99 div 100
         \<and> (case r of Inr res \<Rightarrow> tr_gas_price res = g \<and> w_receipt w os' = Some (tr_gas_used res)
              \<and> tr_success res = (tr_gas_used res \<noteq> None)
            | Inl e \<Rightarrow> w_receipt w os' = None \<and> e = External))"
  using assms unfolding front_run_transaction_def
  by (elim act_bindE)
    (auto simp: lift_res_def ask_def act_return_def act_fail_def emit_def as_u64_def ovf unat_div
      unsigned_ucast_eq take_bit_nat_eq_self split: option.splits if_splits sum.splits)

definition demo_swap :: pending_swap where
  "demo_swap = \<lparr> swap_hash = ''h'', swap_token = ''t'', is_buy = True, amount_usd = Fin 20000,
     swap_gas_price = 10, swap_timestamp = 1 \<rparr>"

end
