(* ===== verification/Caches.thy ===== *)
theory Caches
  imports TokenTracker "HOL-Library.AList"
begin

text \<open>
  The caches of the common library: the bounded cache of \<^verbatim>\<open>common/src/cache.rs\<close> (its \<open>AsyncCache\<close> has
  the same operations over asynchronous locks) and the LRU cache of \<^verbatim>\<open>common/cache.rs\<close>. What every
  user relies on is the interface \<open>ttl_cache\<close>: an answer is the value stored last under the key, not
  removed since and not expired.

  The serialisers (serde_json, bincode) are the parameters \<open>codec\<close> and \<open>entry_codec\<close> with the laws that
  what was written is read back (for an entry this includes its expiry, which the code excludes from
  serialisation by an attribute that does not compile for its type); the LRU map is that of the lru
  crate, the parameter \<open>lru_api\<close> with the laws \<open>lru_laws\<close>. Locks are not poisoned and an operation is
  one step. A hash map is an association list.
\<close>

section \<open>The interface\<close>

record ('c, 'v) cache_api =
  c_get :: "u64 \<Rightarrow> string \<Rightarrow> 'c \<Rightarrow> 'c \<times> 'v option"
  c_set :: "u64 \<Rightarrow> string \<Rightarrow> 'v \<Rightarrow> u64 \<Rightarrow> 'c \<Rightarrow> 'c \<times> bool"
  c_remove :: "string \<Rightarrow> 'c \<Rightarrow> 'c"
  c_clear :: "'c \<Rightarrow> 'c"
  c_cleanup :: "u64 \<Rightarrow> 'c \<Rightarrow> 'c"

datatype 'v cache_op = Get u64 string | Set u64 string 'v u64 | Remove string | Clear | Cleanup u64

text \<open>
  A run of operations, with the specification beside it: the map of what was stored last under
  each key and when it expires.
\<close>

fun exec_cache :: "('c, 'v) cache_api \<Rightarrow> 'v cache_op \<Rightarrow> 'c \<times> (string \<rightharpoonup> 'v \<times> u64) \<Rightarrow> 'c \<times> (string \<rightharpoonup> 'v \<times> u64)" where
  "exec_cache api (Get now k) (c, m) = (fst (c_get api now k c), m)"
| "exec_cache api (Set now k v ttl) (c, m) =
     (case c_set api now k v ttl c of (c', ok) \<Rightarrow> (c', if ok then m(k \<mapsto> (v, now + ttl)) else m))"
| "exec_cache api (Remove k) (c, m) = (c_remove api k c, m(k := None))"
| "exec_cache api Clear (c, m) = (c_clear api c, Map.empty)"
| "exec_cache api (Cleanup now) (c, m) = (c_cleanup api now c, m)"

definition run_cache :: "('c, 'v) cache_api \<Rightarrow> 'v cache_op list \<Rightarrow> 'c \<Rightarrow> 'c \<times> (string \<rightharpoonup> 'v \<times> u64)" where
  "run_cache api ops c = fold (exec_cache api) ops (c, Map.empty)"

locale ttl_cache =
  fixes api :: "('c, 'v) cache_api"
    and invar :: "'c \<Rightarrow> bool"
    and stored :: "'c \<Rightarrow> string \<Rightarrow> ('v \<times> u64) option"
    and expired :: "u64 \<Rightarrow> u64 \<Rightarrow> bool"
  assumes get_answer: "invar c \<Longrightarrow> c_get api now k c = (c', Some v) \<Longrightarrow>
      \<exists>e. stored c k = Some (v, e) \<and> \<not> expired now e"
    and get_keeps: "invar c \<Longrightarrow> invar (fst (c_get api now k c)) \<and> stored (fst (c_get api now k c)) \<subseteq>\<^sub>m stored c"
    and set_keeps: "invar c \<Longrightarrow> c_set api now k v ttl c = (c', ok) \<Longrightarrow>
      invar c' \<and> stored c' \<subseteq>\<^sub>m (if ok then (stored c)(k \<mapsto> (v, now + ttl)) else stored c)"
    and remove_keeps: "invar c \<Longrightarrow> invar (c_remove api k c) \<and> stored (c_remove api k c) \<subseteq>\<^sub>m (stored c)(k := None)"
    and clear_keeps: "invar c \<Longrightarrow> invar (c_clear api c) \<and> stored (c_clear api c) = Map.empty"
    and cleanup_keeps: "invar c \<Longrightarrow> invar (c_cleanup api now c) \<and> stored (c_cleanup api now c) \<subseteq>\<^sub>m stored c"
begin

lemma exec_refines:
  assumes "invar c" and "stored c \<subseteq>\<^sub>m m" and "exec_cache api cop (c, m) = (c', m')"
  shows "invar c' \<and> stored c' \<subseteq>\<^sub>m m'"
proof (cases cop)
  case (Get now k)
  with assms get_keeps [OF assms(1), of now k] show ?thesis by (auto intro: map_le_trans)
next
  case (Set now k v ttl)
  obtain c1 ok where s: "c_set api now k v ttl c = (c1, ok)" by (cases "c_set api now k v ttl c")
  note set_keeps [OF assms(1) s]
  then have "invar c1 \<and> stored c1 \<subseteq>\<^sub>m (if ok then m(k \<mapsto> (v, now + ttl)) else m)"
    using map_le_trans [OF _ map_le_upd [OF assms(2)], of "stored c1" k "Some (v, now + ttl)"]
      map_le_trans [OF _ assms(2), of "stored c1"] by (cases ok) simp_all
  with Set s assms(3) show ?thesis by simp
next
  case (Remove k)
  with assms(3) remove_keeps [OF assms(1), of k] map_le_upd [OF assms(2), of k None]
  show ?thesis by (auto intro: map_le_trans)
next
  case Clear
  with assms clear_keeps [OF assms(1)] show ?thesis by (auto simp: map_le_def)
next
  case (Cleanup now)
  with assms cleanup_keeps [OF assms(1), of now] show ?thesis by (auto intro: map_le_trans)
qed

lemma fold_refines:
  "invar c \<Longrightarrow> stored c \<subseteq>\<^sub>m m \<Longrightarrow> fold (exec_cache api) ops (c, m) = (c', m') \<Longrightarrow>
     invar c' \<and> stored c' \<subseteq>\<^sub>m m'"
proof (induction ops arbitrary: c m)
  case (Cons cop ops)
  obtain c1 m1 where e: "exec_cache api cop (c, m) = (c1, m1)" by (cases "exec_cache api cop (c, m)")
  from exec_refines [OF Cons.prems(1,2) e] Cons.IH [of c1 m1] Cons.prems(3) e show ?case by simp
qed simp

text \<open>The client's lemma: no answer is stale.\<close>

lemma never_stale:
  assumes "invar c0" and "stored c0 = Map.empty" and "run_cache api ops c0 = (c, m)"
    and "c_get api now k c = (c', Some v)"
  shows "\<exists>e. m k = Some (v, e) \<and> \<not> expired now e"
proof -
  from fold_refines [OF assms(1), of Map.empty ops c m] assms(2,3)
  have "invar c" "stored c \<subseteq>\<^sub>m m" by (simp_all add: run_cache_def)
  with get_answer [OF _ assms(4)] show ?thesis by (force simp: map_le_def dom_def)
qed

end

section \<open>The bounded cache\<close>

record 'v codec =
  ser :: "'v \<Rightarrow> string option"
  de :: "string \<Rightarrow> 'v option"

definition codec_laws :: "'v codec \<Rightarrow> bool" where
  "codec_laws cd \<longleftrightarrow> (\<forall>v s. ser cd v = Some s \<longrightarrow> de cd s = Some v)"

record cache_config =
  default_ttl :: u64
  max_size :: nat
  cleanup_interval :: u64

definition default_cache_config :: cache_config where
  "default_cache_config = \<lparr> default_ttl = 300, max_size = 10000, cleanup_interval = 3600 \<rparr>"

record basic_cache =
  bc_entries :: "(string \<times> string) list"
  bc_expirations :: "(string \<times> u64) list"
  bc_config :: cache_config

definition new_basic_cache :: "cache_config option \<Rightarrow> basic_cache" where
  "new_basic_cache config =
     \<lparr> bc_entries = [], bc_expirations = [],
       bc_config = (case config of Some c \<Rightarrow> c | None \<Rightarrow> default_cache_config) \<rparr>"

definition is_full :: "basic_cache \<Rightarrow> bool" where
  "is_full c \<longleftrightarrow> max_size (bc_config c) \<le> length (bc_entries c)"

definition bc_remove :: "string \<Rightarrow> basic_cache \<Rightarrow> basic_cache" where
  "bc_remove key c =
     c\<lparr>bc_entries := AList.delete key (bc_entries c), bc_expirations := AList.delete key (bc_expirations c)\<rparr>"

definition bc_clear :: "basic_cache \<Rightarrow> basic_cache" where
  "bc_clear c = c\<lparr>bc_entries := [], bc_expirations := []\<rparr>"

definition bc_cleanup :: "u64 \<Rightarrow> basic_cache \<Rightarrow> basic_cache" where
  "bc_cleanup now c = fold bc_remove (map fst (filter (\<lambda>(_, e). e < now) (bc_expirations c))) c"

text \<open>\<open>Inl\<close>: the stored text does not parse as the type asked for.\<close>

definition bc_get :: "'v codec \<Rightarrow> u64 \<Rightarrow> string \<Rightarrow> basic_cache \<Rightarrow> basic_cache \<times> (unit + 'v option)" where
  "bc_get cd now key c =
     (let is_expired = (case map_of (bc_expirations c) key of Some e \<Rightarrow> e < now | None \<Rightarrow> True) in
      if is_expired then (bc_remove key c, Inr None)
      else (c, case map_of (bc_entries c) key of
                 Some s \<Rightarrow> (case de cd s of Some v \<Rightarrow> Inr (Some v) | None \<Rightarrow> Inl ())
               | None \<Rightarrow> Inr None))"

datatype set_error = Cache_full | Not_serialisable

definition bc_set :: "'v codec \<Rightarrow> u64 \<Rightarrow> string \<Rightarrow> 'v \<Rightarrow> u64 \<Rightarrow> basic_cache \<Rightarrow> basic_cache \<times> (set_error + unit)" where
  "bc_set cd now key v ttl c =
     (let c = (if is_full c then bc_cleanup now c else c) in
      if is_full c then (c, Inl Cache_full)
      else (case ser cd v of
              None \<Rightarrow> (c, Inl Not_serialisable)
            | Some s \<Rightarrow> (c\<lparr>bc_entries := AList.update key s (bc_entries c),
                           bc_expirations := AList.update key (now + ttl) (bc_expirations c)\<rparr>, Inr ())))"

definition bc_len :: "basic_cache \<Rightarrow> nat" where
  "bc_len c = length (bc_entries c)"

text \<open>The cache as an instance of the interface; an error of \<open>get\<close> is no answer.\<close>

definition basic_api :: "'v codec \<Rightarrow> (basic_cache, 'v) cache_api" where
  "basic_api cd =
     \<lparr> c_get = (\<lambda>now k c. case bc_get cd now k c of (c', Inr r) \<Rightarrow> (c', r) | (c', Inl _) \<Rightarrow> (c', None)),
       c_set = (\<lambda>now k v ttl c. case bc_set cd now k v ttl c of (c', r) \<Rightarrow> (c', r = Inr ())),
       c_remove = bc_remove, c_clear = bc_clear, c_cleanup = bc_cleanup \<rparr>"

text \<open>The two maps have the same keys, once each, and the bound holds.\<close>

definition bc_ok :: "basic_cache \<Rightarrow> bool" where
  "bc_ok c \<longleftrightarrow> distinct (map fst (bc_entries c)) \<and> distinct (map fst (bc_expirations c))
     \<and> set (map fst (bc_entries c)) = set (map fst (bc_expirations c))
     \<and> length (bc_entries c) \<le> max_size (bc_config c)"

definition bc_stored :: "'v codec \<Rightarrow> basic_cache \<Rightarrow> string \<Rightarrow> ('v \<times> u64) option" where
  "bc_stored cd c k =
     (case (map_of (bc_entries c) k, map_of (bc_expirations c) k) of
        (Some s, Some e) \<Rightarrow> map_option (\<lambda>v. (v, e)) (de cd s)
      | _ \<Rightarrow> None)"

lemma length_delete_le: "length (AList.delete k t) \<le> length t"
  by (simp add: AList.delete_eq)

lemma bc_remove_ok: "bc_ok c \<Longrightarrow> bc_ok (bc_remove k c)"
  using length_delete_le [of k "bc_entries c"]
  by (simp add: bc_ok_def bc_remove_def AList.delete_keys distinct_removeAll del: set_map)

lemma bc_stored_remove: "bc_stored cd (bc_remove k c) = (bc_stored cd c)(k := None)"
  by (rule ext) (simp add: bc_stored_def bc_remove_def delete_conv' split: option.splits)

lemma bc_config_remove [simp]: "bc_config (bc_remove k c) = bc_config c"
  by (simp add: bc_remove_def)

lemma fold_remove:
  "bc_ok c \<Longrightarrow> bc_ok (fold bc_remove ks c) \<and> bc_config (fold bc_remove ks c) = bc_config c
     \<and> bc_stored cd (fold bc_remove ks c) = (\<lambda>k. if k \<in> set ks then None else bc_stored cd c k)"
  by (induction ks arbitrary: c) (auto simp: bc_remove_ok bc_stored_remove fun_eq_iff)

lemma bc_cleanup_ok: "bc_ok c \<Longrightarrow> bc_ok (bc_cleanup now c)"
  by (simp add: bc_cleanup_def fold_remove)

lemma bc_stored_cleanup:
  assumes "bc_ok c"
  shows "bc_stored cd (bc_cleanup now c) k
           = (case bc_stored cd c k of Some (v, e) \<Rightarrow> if e < now then None else Some (v, e) | None \<Rightarrow> None)"
proof -
  let ?ks = "map fst (filter (\<lambda>(_, e). e < now) (bc_expirations c))"
  have "k \<in> set ?ks \<longleftrightarrow> (\<exists>e. map_of (bc_expirations c) k = Some e \<and> e < now)"
    using assms by (auto simp: bc_ok_def map_of_eq_Some_iff image_iff)
  with fold_remove [OF assms, where ks = ?ks and cd = cd] show ?thesis
    by (auto simp: bc_cleanup_def bc_stored_def split: option.splits)
qed

lemma length_update_key:
  "length (AList.update k v t) = (if k \<in> set (map fst t) then length t else Suc (length t))"
  by (induction t) auto

lemma bc_update_ok:
  assumes "bc_ok c" and "\<not> is_full c"
  shows "bc_ok (c\<lparr>bc_entries := AList.update k s (bc_entries c),
                 bc_expirations := AList.update k e (bc_expirations c)\<rparr>)"
proof -
  have "set (map fst (AList.update k s (bc_entries c))) = set (map fst (AList.update k e (bc_expirations c)))"
    using assms(1) by (simp add: bc_ok_def AList.update_keys del: set_map)
  moreover have "length (AList.update k s (bc_entries c)) \<le> max_size (bc_config c)"
    using assms by (simp add: bc_ok_def is_full_def length_update_key)
  ultimately show ?thesis using assms(1) by (simp add: bc_ok_def distinct_update)
qed

lemma bc_set_cases:
  assumes "bc_ok c" and "bc_set cd now k v ttl c = (c', r)"
  obtains (failed) e where "r = Inl e" "c' = c \<or> c' = bc_cleanup now c" "bc_ok c'"
  | (stored_new) c1 s where "r = Inr ()" "c1 = c \<or> c1 = bc_cleanup now c" "ser cd v = Some s" "bc_ok c1"
      "c' = c1\<lparr>bc_entries := AList.update k s (bc_entries c1),
               bc_expirations := AList.update k (now + ttl) (bc_expirations c1)\<rparr>" "bc_ok c'"
proof -
  obtain c1 where c1: "c1 = (if is_full c then bc_cleanup now c else c)" by simp
  then have or: "c1 = c \<or> c1 = bc_cleanup now c" by simp
  then have ok: "bc_ok c1" using assms(1) bc_cleanup_ok by blast
  have set: "(if is_full c1 then (c1, Inl Cache_full)
      else (case ser cd v of None \<Rightarrow> (c1, Inl Not_serialisable)
        | Some s \<Rightarrow> (c1\<lparr>bc_entries := AList.update k s (bc_entries c1),
                        bc_expirations := AList.update k (now + ttl) (bc_expirations c1)\<rparr>, Inr ()))) = (c', r)"
    unfolding c1 by (rule assms(2) [unfolded bc_set_def Let_def])
  show ?thesis
  proof (cases "is_full c1 \<or> ser cd v = None")
    case True
    with set or ok that(1) show ?thesis by (auto split: if_splits)
  next
    case False
    then obtain s where "ser cd v = Some s" by blast
    with False set or ok bc_update_ok [OF ok, where k = k and s = s and e = "now + ttl"] that(2) show ?thesis by auto
  qed
qed

lemma bc_stored_update:
  assumes "codec_laws cd" and "ser cd v = Some s"
  shows "bc_stored cd (c\<lparr>bc_entries := AList.update k s (bc_entries c),
                         bc_expirations := AList.update k e (bc_expirations c)\<rparr>) = (bc_stored cd c)(k \<mapsto> (v, e))"
proof -
  have "de cd s = Some v" using assms by (simp add: codec_laws_def)
  then show ?thesis by (auto simp: fun_eq_iff bc_stored_def update_conv')
qed

lemma bc_cleanup_le: "bc_ok c \<Longrightarrow> bc_stored cd (bc_cleanup now c) \<subseteq>\<^sub>m bc_stored cd c"
  by (auto simp: map_le_def bc_stored_cleanup split: option.splits if_splits prod.splits)

lemma bc_remove_le: "bc_ok c \<Longrightarrow> bc_stored cd (bc_remove k c) \<subseteq>\<^sub>m bc_stored cd c"
  by (simp add: bc_stored_remove map_le_def)

lemma basic_ttl:
  assumes "codec_laws cd"
  shows "ttl_cache (basic_api cd) bc_ok (bc_stored cd) (\<lambda>now e. e < now)"
proof
  fix c now k c' v
  assume "c_get (basic_api cd) now k c = (c', Some v)"
  then show "\<exists>e. bc_stored cd c k = Some (v, e) \<and> \<not> e < now"
    by (auto simp: basic_api_def bc_get_def bc_stored_def Let_def split: option.splits if_splits sum.splits prod.splits)
next
  fix c now k
  assume "bc_ok c"
  then show "bc_ok (fst (c_get (basic_api cd) now k c))
      \<and> bc_stored cd (fst (c_get (basic_api cd) now k c)) \<subseteq>\<^sub>m bc_stored cd c"
    using bc_remove_ok bc_remove_le
    by (auto simp: basic_api_def bc_get_def Let_def split: option.splits sum.splits)
next
  fix c now k v ttl c' ok
  assume ok: "bc_ok c" and set: "c_set (basic_api cd) now k v ttl c = (c', ok)"
  obtain r where r: "bc_set cd now k v ttl c = (c', r)" "ok = (r = Inr ())"
    using set by (auto simp: basic_api_def split: prod.splits)
  show "bc_ok c' \<and> bc_stored cd c' \<subseteq>\<^sub>m (if ok then (bc_stored cd c)(k \<mapsto> (v, now + ttl)) else bc_stored cd c)"
  proof (cases rule: bc_set_cases [OF ok r(1), case_names failed stored_new])
    case (failed e)
    with r(2) bc_cleanup_le [OF ok, of cd now] show ?thesis by auto
  next
    case (stored_new c1 s)
    then have "bc_stored cd c1 \<subseteq>\<^sub>m bc_stored cd c" using bc_cleanup_le [OF ok, of cd now] by auto
    with stored_new r(2) bc_stored_update [OF assms, of v s] show ?thesis by (simp add: map_le_upd)
  qed
next
  fix c k
  assume "bc_ok c"
  then show "bc_ok (c_remove (basic_api cd) k c)
      \<and> bc_stored cd (c_remove (basic_api cd) k c) \<subseteq>\<^sub>m (bc_stored cd c)(k := None)"
    by (simp add: basic_api_def bc_remove_ok bc_stored_remove)
next
  fix c
  assume "bc_ok c"
  then show "bc_ok (c_clear (basic_api cd) c) \<and> bc_stored cd (c_clear (basic_api cd) c) = Map.empty"
    by (auto simp: basic_api_def bc_clear_def bc_ok_def bc_stored_def)
next
  fix c now
  assume "bc_ok c"
  then show "bc_ok (c_cleanup (basic_api cd) now c)
      \<and> bc_stored cd (c_cleanup (basic_api cd) now c) \<subseteq>\<^sub>m bc_stored cd c"
    by (simp add: basic_api_def bc_cleanup_ok bc_cleanup_le)
qed

section \<open>The plain cache\<close>

text \<open>
  \<open>BasicCache\<close> of \<^verbatim>\<open>common/cache.rs\<close>: a hash map of serialised entries, an expired one stays until
  a cleanup. A cleanup reads an entry as one with the unit value, \<open>dec_unit\<close>, of which nothing is
  assumed. \<open>Inl\<close>: an entry does not parse, or a value has no serialisation.
\<close>

record 'v entry_codec =
  enc :: "'v cache_entry \<Rightarrow> string option"
  dec :: "string \<Rightarrow> 'v cache_entry option"
  dec_unit :: "string \<Rightarrow> unit cache_entry option"

definition entry_laws :: "'v entry_codec \<Rightarrow> bool" where
  "entry_laws cd \<longleftrightarrow> (\<forall>e s. enc cd e = Some s \<longrightarrow> dec cd s = Some e)"

definition text_expired :: "'v entry_codec \<Rightarrow> u64 \<Rightarrow> string \<Rightarrow> bool" where
  "text_expired cd now s = (case dec_unit cd s of Some e \<Rightarrow> entry_expired now e | None \<Rightarrow> True)"

record hash_cache =
  hc_entries :: "(string \<times> string) list"

definition hc_get :: "'v entry_codec \<Rightarrow> u64 \<Rightarrow> string \<Rightarrow> hash_cache \<Rightarrow> unit + 'v option" where
  "hc_get cd now key c =
     (case map_of (hc_entries c) key of
        Some s \<Rightarrow> (case dec cd s of
                     Some e \<Rightarrow> Inr (if entry_expired now e then None else Some (entry_value e))
                   | None \<Rightarrow> Inl ())
      | None \<Rightarrow> Inr None)"

definition hc_store :: "'v entry_codec \<Rightarrow> u64 \<Rightarrow> string \<Rightarrow> 'v \<Rightarrow> u64 \<Rightarrow> hash_cache \<Rightarrow> hash_cache \<times> (unit + unit)" where
  "hc_store cd now key v ttl c =
     (case enc cd (new_entry now v ttl) of
        Some s \<Rightarrow> (c\<lparr>hc_entries := AList.update key s (hc_entries c)\<rparr>, Inr ())
      | None \<Rightarrow> (c, Inl ()))"

definition hc_remove :: "string \<Rightarrow> hash_cache \<Rightarrow> hash_cache" where
  "hc_remove key c = c\<lparr>hc_entries := AList.delete key (hc_entries c)\<rparr>"

definition hc_clear :: "hash_cache \<Rightarrow> hash_cache" where
  "hc_clear c = c\<lparr>hc_entries := []\<rparr>"

definition hc_cleanup :: "'v entry_codec \<Rightarrow> u64 \<Rightarrow> hash_cache \<Rightarrow> hash_cache" where
  "hc_cleanup cd now c = c\<lparr>hc_entries := filter (\<lambda>(_, s). \<not> text_expired cd now s) (hc_entries c)\<rparr>"

text \<open>The cache as an instance of the interface; an error of \<open>get\<close> is no answer.\<close>

definition answer :: "unit + 'v option \<Rightarrow> 'v option" where
  "answer r = (case r of Inr a \<Rightarrow> a | Inl _ \<Rightarrow> None)"

definition hash_api :: "'v entry_codec \<Rightarrow> (hash_cache, 'v) cache_api" where
  "hash_api cd =
     \<lparr> c_get = (\<lambda>now k c. (c, answer (hc_get cd now k c))),
       c_set = (\<lambda>now k v ttl c. map_prod id (\<lambda>r. r = Inr ()) (hc_store cd now k v ttl c)),
       c_remove = hc_remove, c_clear = hc_clear, c_cleanup = hc_cleanup cd \<rparr>"

text \<open>What a list of entries holds, under a way to read one.\<close>

definition read_entry :: "('s \<Rightarrow> 'v cache_entry option) \<Rightarrow> 's \<Rightarrow> ('v \<times> u64) option" where
  "read_entry d s = map_option (\<lambda>e. (entry_value e, entry_expires e)) (d s)"

definition entries_map :: "('s \<Rightarrow> 'v cache_entry option) \<Rightarrow> (string \<times> 's) list \<Rightarrow> string \<Rightarrow> ('v \<times> u64) option" where
  "entries_map d t k = Option.bind (map_of t k) (read_entry d)"

lemma read_new_entry: "d s = Some (new_entry now v ttl) \<Longrightarrow> read_entry d s = Some (v, now + ttl)"
  by (simp add: read_entry_def new_entry_def)

lemma entries_map_update: "entries_map d (AList.update k s t) = (entries_map d t)(k := read_entry d s)"
  by (auto simp: entries_map_def update_conv')

lemma entries_map_delete: "entries_map d (AList.delete k t) = (entries_map d t)(k := None)"
  by (auto simp: entries_map_def delete_conv')

lemma entries_map_Nil [simp]: "entries_map d [] = Map.empty"
  by (simp add: entries_map_def fun_eq_iff)

lemma entries_map_le:
  assumes "\<And>k s. map_of t' k = Some s \<Longrightarrow> map_of t k = Some s"
  shows "entries_map d t' \<subseteq>\<^sub>m entries_map d t"
proof (unfold map_le_def, intro ballI)
  fix k
  assume "k \<in> dom (entries_map d t')"
  then obtain s where "map_of t' k = Some s" by (auto simp: entries_map_def bind_eq_Some_conv)
  with assms [OF this] show "entries_map d t' k = entries_map d t k" by (simp add: entries_map_def)
qed

lemma entries_map_filter: "distinct (map fst t) \<Longrightarrow> entries_map d (filter P t) \<subseteq>\<^sub>m entries_map d t"
  by (rule entries_map_le) (auto dest!: map_of_SomeD simp: map_of_eq_Some_iff)

lemma entries_map_answer:
  assumes "map_of t k = Some s" and "d s = Some e" and "\<not> entry_expired now e"
  shows "\<exists>x. entries_map d t k = Some (entry_value e, x) \<and> \<not> x \<le> now"
  using assms by (simp add: entries_map_def read_entry_def entry_expired_def)

lemma hash_ttl:
  assumes "entry_laws cd"
  shows "ttl_cache (hash_api cd) (\<lambda>c. distinct (map fst (hc_entries c)))
    (\<lambda>c. entries_map (dec cd) (hc_entries c)) (\<lambda>now e. e \<le> now)"
proof
  fix c now k v c'
  assume "c_get (hash_api cd) now k c = (c', Some v)"
  then show "\<exists>e. entries_map (dec cd) (hc_entries c) k = Some (v, e) \<and> \<not> e \<le> now"
    by (auto simp: hash_api_def hc_get_def answer_def intro: entries_map_answer
        split: option.splits if_splits)
next
  fix c now k v ttl c' ok
  assume "distinct (map fst (hc_entries c))" and "c_set (hash_api cd) now k v ttl c = (c', ok)"
  moreover have "dec cd s = Some e" if "enc cd e = Some s" for e s
    using assms that by (simp add: entry_laws_def)
  ultimately show "distinct (map fst (hc_entries c'))
      \<and> entries_map (dec cd) (hc_entries c')
          \<subseteq>\<^sub>m (if ok then (entries_map (dec cd) (hc_entries c))(k \<mapsto> (v, now + ttl))
              else entries_map (dec cd) (hc_entries c))"
    by (auto simp: hash_api_def hc_store_def entries_map_update read_new_entry distinct_update
        split: option.splits)
qed (auto simp: hash_api_def hc_remove_def hc_clear_def hc_cleanup_def
    entries_map_delete distinct_delete entries_map_filter distinct_map_filter)

text \<open>The tracker of tokens implements the same trait, with its entries in memory.\<close>

definition store_in_cache :: "u64 \<Rightarrow> string \<Rightarrow> token_status \<Rightarrow> u64 \<Rightarrow> token_tracker \<Rightarrow> token_tracker" where
  "store_in_cache now key v ttl self =
     self\<lparr>tracked_tokens := AList.update key (new_entry now v ttl) (tracked_tokens self)\<rparr>"

definition remove_from_tracker :: "string \<Rightarrow> token_tracker \<Rightarrow> token_tracker" where
  "remove_from_tracker key self = self\<lparr>tracked_tokens := AList.delete key (tracked_tokens self)\<rparr>"

definition clear_tracker :: "token_tracker \<Rightarrow> token_tracker" where
  "clear_tracker self = self\<lparr>tracked_tokens := []\<rparr>"

definition tracker_api :: "(token_tracker, token_status) cache_api" where
  "tracker_api =
     \<lparr> c_get = (\<lambda>now k c. (c, get_from_cache now k c)), c_set = (\<lambda>now k v ttl c. (store_in_cache now k v ttl c, True)),
       c_remove = remove_from_tracker, c_clear = clear_tracker, c_cleanup = cleanup_cache \<rparr>"

interpretation tracker: ttl_cache tracker_api tracker_ok "\<lambda>c. entries_map Some (tracked_tokens c)" "\<lambda>now e. e \<le> now"
proof
  fix c now k v c'
  assume "c_get tracker_api now k c = (c', Some v)"
  then show "\<exists>e. entries_map Some (tracked_tokens c) k = Some (v, e) \<and> \<not> e \<le> now"
    by (auto simp: tracker_api_def get_from_cache_def intro: entries_map_answer split: option.splits if_splits)
qed (auto simp: tracker_api_def store_in_cache_def remove_from_tracker_def clear_tracker_def cleanup_cache_def
    tracker_ok_def fold_delete entries_map_update read_new_entry entries_map_delete distinct_update distinct_delete
    entries_map_filter distinct_map_filter)

section \<open>The LRU cache\<close>

text \<open>
  The operations of the lru crate's map: \<open>lru_iter\<close> lists the entries, the most recently used first;
  \<open>put\<close> and \<open>get\<close> move their entry to the front, and \<open>put\<close> drops the last one beyond the capacity.
\<close>

record ('l, 'v) lru_api =
  lru_new :: "nat \<Rightarrow> 'l"
  lru_cap :: "'l \<Rightarrow> nat"
  lru_iter :: "'l \<Rightarrow> (string \<times> 'v) list"
  lru_get :: "string \<Rightarrow> 'l \<Rightarrow> 'l"
  lru_put :: "string \<Rightarrow> 'v \<Rightarrow> 'l \<Rightarrow> 'l"
  lru_pop :: "string \<Rightarrow> 'l \<Rightarrow> 'l"
  lru_clear :: "'l \<Rightarrow> 'l"

definition lru_laws :: "('l, 'v) lru_api \<Rightarrow> bool" where
  "lru_laws api \<longleftrightarrow>
     (\<forall>n. lru_cap api (lru_new api n) = n \<and> lru_iter api (lru_new api n) = [])
     \<and> (\<forall>l. distinct (map fst (lru_iter api l)) \<and> length (lru_iter api l) \<le> lru_cap api l)
     \<and> (\<forall>k l. lru_cap api (lru_get api k l) = lru_cap api l
          \<and> lru_iter api (lru_get api k l)
              = (case map_of (lru_iter api l) k of
                   Some v \<Rightarrow> (k, v) # filter (\<lambda>(j, _). j \<noteq> k) (lru_iter api l) | None \<Rightarrow> lru_iter api l))
     \<and> (\<forall>k v l. lru_cap api (lru_put api k v l) = lru_cap api l
          \<and> lru_iter api (lru_put api k v l)
              = take (lru_cap api l) ((k, v) # filter (\<lambda>(j, _). j \<noteq> k) (lru_iter api l)))
     \<and> (\<forall>k l. lru_cap api (lru_pop api k l) = lru_cap api l
          \<and> lru_iter api (lru_pop api k l) = filter (\<lambda>(j, _). j \<noteq> k) (lru_iter api l))
     \<and> (\<forall>l. lru_cap api (lru_clear api l) = lru_cap api l \<and> lru_iter api (lru_clear api l) = [])"

record 'l lru_cache =
  lc_capacity :: "nat option"
  lc_ttl :: u64
  lc_entries :: 'l

definition new_lru_cache :: "('l, string) lru_api \<Rightarrow> nat option \<Rightarrow> u64 \<Rightarrow> 'l lru_cache option" where
  "new_lru_cache api capacity ttl =
     (let n = (case capacity of Some n \<Rightarrow> n | None \<Rightarrow> 1000) in
      if n = 0 then None
      else Some \<lparr> lc_capacity = capacity, lc_ttl = ttl, lc_entries = lru_new api n \<rparr>)"

definition lru_update_config ::
    "('l, string) lru_api \<Rightarrow> nat option \<Rightarrow> u64 \<Rightarrow> 'l lru_cache \<Rightarrow> 'l lru_cache option" where
  "lru_update_config api capacity ttl c =
     (let entries =
        (case capacity of
           Some n \<Rightarrow>
             if n \<noteq> (case lc_capacity c of Some m \<Rightarrow> m | None \<Rightarrow> 0)
             then (if n = 0 then None
                   else Some (fold (\<lambda>(k, v). lru_put api k v) (lru_iter api (lc_entries c)) (lru_new api n)))
             else Some (lc_entries c)
         | None \<Rightarrow> Some (lc_entries c))
      in map_option (\<lambda>l. \<lparr> lc_capacity = capacity, lc_ttl = ttl, lc_entries = l \<rparr>) entries)"

definition lru_lookup ::
    "('l, string) lru_api \<Rightarrow> 'v entry_codec \<Rightarrow> u64 \<Rightarrow> string \<Rightarrow> 'l lru_cache \<Rightarrow> 'l lru_cache \<times> (unit + 'v option)" where
  "lru_lookup api cd now key c =
     (let l = lru_get api key (lc_entries c) in
      case map_of (lru_iter api (lc_entries c)) key of
        Some s \<Rightarrow>
          (case dec cd s of
             None \<Rightarrow> (c\<lparr>lc_entries := l\<rparr>, Inl ())
           | Some e \<Rightarrow> if entry_expired now e then (c\<lparr>lc_entries := lru_pop api key l\<rparr>, Inr None)
                       else (c\<lparr>lc_entries := l\<rparr>, Inr (Some (entry_value e))))
      | None \<Rightarrow> (c\<lparr>lc_entries := l\<rparr>, Inr None))"

definition lru_store ::
    "('l, string) lru_api \<Rightarrow> 'v entry_codec \<Rightarrow> u64 \<Rightarrow> string \<Rightarrow> 'v \<Rightarrow> u64 \<Rightarrow> 'l lru_cache \<Rightarrow> 'l lru_cache \<times> (unit + unit)" where
  "lru_store api cd now key v ttl c =
     (case enc cd (new_entry now v ttl) of
        Some s \<Rightarrow> (c\<lparr>lc_entries := lru_put api key s (lc_entries c)\<rparr>, Inr ())
      | None \<Rightarrow> (c, Inl ()))"

definition lru_remove :: "('l, string) lru_api \<Rightarrow> string \<Rightarrow> 'l lru_cache \<Rightarrow> 'l lru_cache" where
  "lru_remove api key c = c\<lparr>lc_entries := lru_pop api key (lc_entries c)\<rparr>"

definition lru_clear_all :: "('l, string) lru_api \<Rightarrow> 'l lru_cache \<Rightarrow> 'l lru_cache" where
  "lru_clear_all api c = c\<lparr>lc_entries := lru_clear api (lc_entries c)\<rparr>"

definition lru_cleanup :: "('l, string) lru_api \<Rightarrow> 'v entry_codec \<Rightarrow> u64 \<Rightarrow> 'l lru_cache \<Rightarrow> 'l lru_cache" where
  "lru_cleanup api cd now c =
     c\<lparr>lc_entries := fold (lru_pop api) (map fst (filter (\<lambda>(_, s). text_expired cd now s) (lru_iter api (lc_entries c))))
                       (lc_entries c)\<rparr>"

text \<open>\<open>BlockchainCache\<close>: the LRU cache under the configured time to live, errors dropped; a key is
  given by its debug text.\<close>

definition new_blockchain_cache :: "('l, string) lru_api \<Rightarrow> nat \<Rightarrow> u64 \<Rightarrow> 'l lru_cache option" where
  "new_blockchain_cache api capacity ttl_seconds = new_lru_cache api (Some capacity) ttl_seconds"

definition blockchain_get ::
    "('l, string) lru_api \<Rightarrow> 'v entry_codec \<Rightarrow> u64 \<Rightarrow> string \<Rightarrow> 'l lru_cache \<Rightarrow> 'l lru_cache \<times> 'v option" where
  "blockchain_get api cd now key c =
     (case lru_lookup api cd now key c of
        (c', Inr (Some v)) \<Rightarrow> (c', Some v)
      | (c', _) \<Rightarrow> (c', None))"

definition blockchain_insert ::
    "('l, string) lru_api \<Rightarrow> 'v entry_codec \<Rightarrow> u64 \<Rightarrow> string \<Rightarrow> 'v \<Rightarrow> 'l lru_cache \<Rightarrow> 'l lru_cache" where
  "blockchain_insert api cd now key v c = fst (lru_store api cd now key v (lc_ttl c) c)"

definition lru_cache_api :: "('l, string) lru_api \<Rightarrow> 'v entry_codec \<Rightarrow> ('l lru_cache, 'v) cache_api" where
  "lru_cache_api api cd =
     \<lparr> c_get = (\<lambda>now k c. map_prod id answer (lru_lookup api cd now k c)),
       c_set = (\<lambda>now k v ttl c. map_prod id (\<lambda>r. r = Inr ()) (lru_store api cd now k v ttl c)),
       c_remove = lru_remove api, c_clear = lru_clear_all api, c_cleanup = lru_cleanup api cd \<rparr>"

lemma lru_lawsD:
  assumes "lru_laws api"
  shows "lru_cap api (lru_new api n) = n" "lru_iter api (lru_new api n) = []"
    "distinct (map fst (lru_iter api l))"
    "lru_iter api (lru_get api k l) = (case map_of (lru_iter api l) k of
        Some v \<Rightarrow> (k, v) # filter (\<lambda>(j, _). j \<noteq> k) (lru_iter api l) | None \<Rightarrow> lru_iter api l)"
    "lru_cap api (lru_put api k v l) = lru_cap api l"
    "lru_iter api (lru_put api k v l) = take (lru_cap api l) ((k, v) # filter (\<lambda>(j, _). j \<noteq> k) (lru_iter api l))"
    "lru_iter api (lru_pop api k l) = filter (\<lambda>(j, _). j \<noteq> k) (lru_iter api l)"
    "lru_iter api (lru_clear api l) = []" "length (lru_iter api l) \<le> lru_cap api l"
  using assms by (simp_all add: lru_laws_def)

lemma entries_map_pop: "entries_map d (filter (\<lambda>(j, _). j \<noteq> k) t) = (entries_map d t)(k := None)"
proof -
  have "filter (\<lambda>(j, _). j \<noteq> k) t = AList.delete k t"
    unfolding AList.delete_eq by (rule filter_cong) auto
  then show ?thesis by (simp add: entries_map_delete)
qed

lemma entries_map_front:
  "entries_map d ((k, s) # filter (\<lambda>(j, _). j \<noteq> k) t) = (entries_map d t)(k := read_entry d s)"
proof -
  have "entries_map d ((k, s) # t') = (entries_map d t')(k := read_entry d s)" for t'
    by (auto simp: entries_map_def)
  then show ?thesis by (simp add: entries_map_pop)
qed

lemma entries_map_take: "distinct (map fst t) \<Longrightarrow> entries_map d (take n t) \<subseteq>\<^sub>m entries_map d t"
proof (rule entries_map_le)
  fix k s
  assume "distinct (map fst t)" and "map_of (take n t) k = Some s"
  then show "map_of t k = Some s" by (auto simp: map_of_eq_Some_iff dest!: map_of_SomeD in_set_takeD)
qed

lemma entries_map_lru_get:
  assumes "lru_laws api"
  shows "entries_map d (lru_iter api (lru_get api k l)) = entries_map d (lru_iter api l)"
proof (cases "map_of (lru_iter api l) k")
  case (Some s)
  then have "entries_map d (lru_iter api l) k = read_entry d s"
    by (simp add: entries_map_def)
  with Some show ?thesis by (auto simp: lru_lawsD(4) [OF assms] entries_map_front fun_upd_idem)
qed (simp add: lru_lawsD(4) [OF assms])

lemma entries_map_lru_put:
  assumes "lru_laws api"
  shows "entries_map d (lru_iter api (lru_put api k s l)) \<subseteq>\<^sub>m (entries_map d (lru_iter api l))(k := read_entry d s)"
proof -
  have "distinct (map fst ((k, s) # filter (\<lambda>(j, _). j \<noteq> k) (lru_iter api l)))"
    using lru_lawsD(3) [OF assms, of l] by (auto simp: distinct_map_filter)
  from entries_map_take [OF this] show ?thesis
    by (simp only: lru_lawsD(6) [OF assms] entries_map_front)
qed

lemma entries_map_pops:
  assumes "lru_laws api"
  shows "entries_map d (lru_iter api (fold (lru_pop api) ks l)) \<subseteq>\<^sub>m entries_map d (lru_iter api l)"
proof (induction ks arbitrary: l)
  case (Cons k ks)
  have "entries_map d (lru_iter api (lru_pop api k l)) \<subseteq>\<^sub>m entries_map d (lru_iter api l)"
    by (simp add: lru_lawsD(7) [OF assms] entries_map_pop map_le_def)
  with Cons.IH [of "lru_pop api k l"] show ?case by (auto intro: map_le_trans)
qed simp

abbreviation lru_stored :: "('l, string) lru_api \<Rightarrow> 'v entry_codec \<Rightarrow> 'l lru_cache \<Rightarrow> string \<Rightarrow> ('v \<times> u64) option" where
  "lru_stored api cd c \<equiv> entries_map (dec cd) (lru_iter api (lc_entries c))"

lemma lru_ttl:
  assumes "lru_laws api" and "entry_laws cd"
  shows "ttl_cache (lru_cache_api api cd) (\<lambda>_. True) (lru_stored api cd) (\<lambda>now e. e \<le> now)"
proof
  fix c now k c' v
  assume "c_get (lru_cache_api api cd) now k c = (c', Some v)"
  then show "\<exists>e. lru_stored api cd c k = Some (v, e) \<and> \<not> e \<le> now"
    by (auto simp: lru_cache_api_def lru_lookup_def answer_def Let_def intro: entries_map_answer
        split: option.splits if_splits)
next
  fix c now k
  have "entries_map (dec cd) (lru_iter api (lru_pop api k (lru_get api k l))) \<subseteq>\<^sub>m entries_map (dec cd) (lru_iter api l)" for l
    by (simp add: lru_lawsD(7) [OF assms(1)] entries_map_pop entries_map_lru_get [OF assms(1)] map_le_def)
  then show "True \<and> lru_stored api cd (fst (c_get (lru_cache_api api cd) now k c)) \<subseteq>\<^sub>m lru_stored api cd c"
    by (simp add: lru_cache_api_def lru_lookup_def Let_def entries_map_lru_get [OF assms(1)] split: option.splits)
next
  fix c now k v ttl c' ok
  assume set: "c_set (lru_cache_api api cd) now k v ttl c = (c', ok)"
  show "True \<and> lru_stored api cd c'
      \<subseteq>\<^sub>m (if ok then (lru_stored api cd c)(k \<mapsto> (v, now + ttl)) else lru_stored api cd c)"
  proof (cases "enc cd (new_entry now v ttl)")
    case None
    with set show ?thesis by (auto simp: lru_cache_api_def lru_store_def)
  next
    case (Some s)
    then have "read_entry (dec cd) s = Some (v, now + ttl)"
      using assms(2) by (intro read_new_entry) (simp add: entry_laws_def)
    with Some set entries_map_lru_put [OF assms(1), of "dec cd" k s "lc_entries c"] show ?thesis
      by (auto simp: lru_cache_api_def lru_store_def)
  qed
next
  fix c k
  show "True \<and> lru_stored api cd (c_remove (lru_cache_api api cd) k c) \<subseteq>\<^sub>m (lru_stored api cd c)(k := None)"
    by (simp add: lru_cache_api_def lru_remove_def lru_lawsD(7) [OF assms(1)] entries_map_pop)
next
  fix c
  show "True \<and> lru_stored api cd (c_clear (lru_cache_api api cd) c) = Map.empty"
    by (simp add: lru_cache_api_def lru_clear_all_def lru_lawsD(8) [OF assms(1)])
next
  fix c now
  show "True \<and> lru_stored api cd (c_cleanup (lru_cache_api api cd) now c) \<subseteq>\<^sub>m lru_stored api cd c"
    by (simp add: lru_cache_api_def lru_cleanup_def entries_map_pops [OF assms(1)])
qed

lemma filter_fresh_key: "k \<notin> set (map fst t) \<Longrightarrow> filter (\<lambda>(j, _). j \<noteq> k) t = t"
  by (induction t) auto

lemma take_take_append: "take n (xs @ take n ys) = take n (xs @ ys)"
  by (simp add: take_append)

lemma fold_lru_put:
  assumes "lru_laws api"
  shows "distinct (map fst (xs @ lru_iter api l)) \<Longrightarrow>
    lru_iter api (fold (\<lambda>(k, v). lru_put api k v) xs l) = take (lru_cap api l) (rev xs @ lru_iter api l)"
proof (induction xs arbitrary: l)
  case Nil
  show ?case using lru_lawsD(9) [OF assms, of l] by simp
next
  case (Cons x xs)
  obtain k v where x: "x = (k, v)" by (cases x)
  let ?l = "lru_put api k v l" and ?t = "lru_iter api l"
  have k: "k \<notin> set (map fst ?t)" "k \<notin> set (map fst xs)"
    and d: "distinct (map fst xs)" "set (map fst xs) \<inter> set (map fst ?t) = {}"
    using Cons.prems unfolding x by simp_all
  have it: "lru_iter api ?l = take (lru_cap api l) ((k, v) # ?t)"
    by (simp only: lru_lawsD(6) [OF assms] filter_fresh_key [OF k(1)])
  have "set (map fst (lru_iter api ?l)) \<subseteq> insert k (set (map fst ?t))"
    unfolding it by (auto dest!: in_set_takeD)
  with k(2) d(2) have "set (map fst xs) \<inter> set (map fst (lru_iter api ?l)) = {}" by blast
  with d(1) lru_lawsD(3) [OF assms, of ?l] have "distinct (map fst (xs @ lru_iter api ?l))"
    by (simp only: map_append distinct_append)
  from Cons.IH [OF this] show ?case
    by (simp add: x it lru_lawsD(5) [OF assms] take_take_append)
qed

lemma lru_update_iter:
  assumes "lru_laws api" and "lru_update_config api (Some n) ttl c = Some c'" and "lc_capacity c \<noteq> Some n"
    and "0 < n"
  shows "lru_iter api (lc_entries c') = take n (rev (lru_iter api (lc_entries c)))"
proof -
  have "n \<noteq> (case lc_capacity c of Some m \<Rightarrow> m | None \<Rightarrow> 0)"
    using assms(3,4) by (auto split: option.splits)
  with assms(2,4) have "lc_entries c' = fold (\<lambda>(k, v). lru_put api k v) (lru_iter api (lc_entries c)) (lru_new api n)"
    by (auto simp: lru_update_config_def)
  with fold_lru_put [OF assms(1), of "lru_iter api (lc_entries c)" "lru_new api n"]
  show ?thesis by (simp add: lru_lawsD(1,2) [OF assms(1)] lru_lawsD(3) [OF assms(1)])
qed

lemma bc_ok_new: "bc_ok (new_basic_cache config)"
  by (simp add: bc_ok_def new_basic_cache_def)

lemma bc_get_ok: "bc_ok c \<Longrightarrow> bc_ok (fst (bc_get cd now k c))"
  by (simp add: bc_get_def Let_def bc_remove_ok)

lemma bc_clear_ok: "bc_ok (bc_clear c)"
  by (simp add: bc_ok_def bc_clear_def)

lemma exec_basic_ok:
  assumes "bc_ok c"
  shows "bc_ok (fst (exec_cache (basic_api cd) cop (c, m)))"
proof (cases cop)
  case (Get now k)
  with bc_get_ok [OF assms, of cd now k] show ?thesis
    by (cases "bc_get cd now k c") (auto simp: basic_api_def split: sum.splits)
next
  case (Set now k v ttl)
  obtain c' r where "bc_set cd now k v ttl c = (c', r)" by (cases "bc_set cd now k v ttl c")
  with Set show ?thesis
    by (cases rule: bc_set_cases [OF assms \<open>bc_set cd now k v ttl c = (c', r)\<close>]) (auto simp: basic_api_def)
qed (use assms in \<open>auto simp: basic_api_def bc_remove_ok bc_cleanup_ok bc_clear_ok\<close>)

lemma run_basic_ok: "bc_ok c \<Longrightarrow> bc_ok (fst (fold (exec_cache (basic_api cd)) ops (c, m)))"
proof (induction ops arbitrary: c m)
  case (Cons cop ops)
  with Cons.IH [of "fst (exec_cache (basic_api cd) cop (c, m))" "snd (exec_cache (basic_api cd) cop (c, m))"]
  show ?case by (simp add: exec_basic_ok)
qed simp

text \<open>The laws have a model: a list of entries under a capacity.\<close>

definition list_entries :: "nat \<times> (string \<times> 'v) list \<Rightarrow> (string \<times> 'v) list" where
  "list_entries l = take (fst l) (AList.clearjunk (snd l))"

definition list_lru :: "(nat \<times> (string \<times> 'v) list, 'v) lru_api" where
  "list_lru =
     \<lparr> lru_new = (\<lambda>n. (n, [])), lru_cap = fst, lru_iter = list_entries,
       lru_get = (\<lambda>k l. (fst l, case map_of (list_entries l) k of
                    Some v \<Rightarrow> (k, v) # filter (\<lambda>(j, _). j \<noteq> k) (list_entries l) | None \<Rightarrow> list_entries l)),
       lru_put = (\<lambda>k v l. (fst l, (k, v) # filter (\<lambda>(j, _). j \<noteq> k) (list_entries l))),
       lru_pop = (\<lambda>k l. (fst l, filter (\<lambda>(j, _). j \<noteq> k) (list_entries l))),
       lru_clear = (\<lambda>l. (fst l, [])) \<rparr>"

lemma list_entries_distinct: "distinct (map fst (list_entries l))"
  by (simp add: list_entries_def take_map [symmetric] distinct_clearjunk)

lemma list_entries_length: "length (list_entries l) \<le> fst l"
  by (simp add: list_entries_def)

lemma list_entries_id: "distinct (map fst t) \<Longrightarrow> list_entries (n, t) = take n t"
  by (simp add: list_entries_def distinct_clearjunk_id)

lemma front_distinct:
  "distinct (map fst t) \<Longrightarrow> distinct (map fst ((k, v) # filter (\<lambda>(j, _). j \<noteq> k) t))"
  by (auto simp: distinct_map_filter)

lemma front_length:
  assumes "map_of t k = Some v"
  shows "length ((k, v) # filter (\<lambda>(j, _). j \<noteq> k) t) \<le> length t"
proof -
  have "length (filter (\<lambda>(j, _). j \<noteq> k) t) < length t"
    by (rule length_filter_less [OF map_of_SomeD [OF assms]]) simp
  then show ?thesis by simp
qed

lemma list_lru_laws: "lru_laws list_lru"
proof -
  note d = list_entries_distinct and n = list_entries_length
  have pop: "list_entries (fst l, filter (\<lambda>(j, _). j \<noteq> k) (list_entries l)) = filter (\<lambda>(j, _). j \<noteq> k) (list_entries l)"
    for k and l :: "nat \<times> (string \<times> 'a) list"
    using le_trans [OF length_filter_le n] by (simp add: list_entries_id distinct_map_filter d)
  have get: "list_entries (fst l, (k, v) # filter (\<lambda>(j, _). j \<noteq> k) (list_entries l))
      = (k, v) # filter (\<lambda>(j, _). j \<noteq> k) (list_entries l)"
    if "map_of (list_entries l) k = Some v" for k v and l :: "nat \<times> (string \<times> 'a) list"
    using le_trans [OF front_length [OF that] n]
    by (simp only: list_entries_id [OF front_distinct [OF d]] take_all)
  have put: "list_entries (fst l, (k, v) # filter (\<lambda>(j, _). j \<noteq> k) (list_entries l))
      = take (fst l) ((k, v) # filter (\<lambda>(j, _). j \<noteq> k) (list_entries l))"
    for k v and l :: "nat \<times> (string \<times> 'a) list"
    by (rule list_entries_id [OF front_distinct [OF d]])
  have same: "list_entries (fst l, list_entries l) = list_entries l" for l :: "nat \<times> (string \<times> 'a) list"
    using n by (simp add: list_entries_id d)
  have shorter: "Suc (length (filter (\<lambda>(j, _). j \<noteq> k) (list_entries l))) \<le> fst l"
    if "\<exists>v. (k, v) \<in> set (list_entries l)" for k and l :: "nat \<times> (string \<times> 'a) list"
  proof -
    from that obtain v where "(k, v) \<in> set (list_entries l)" by blast
    then have "length (filter (\<lambda>(j, _). j \<noteq> k) (list_entries l)) < length (list_entries l)"
      by (rule length_filter_less) simp
    with n [of l] show ?thesis by simp
  qed
  have none: "list_entries (n, []) = []" for n by (simp add: list_entries_def)
  show ?thesis unfolding lru_laws_def list_lru_def
    by (intro conjI allI) (simp_all add: d n pop get put same none shorter split: option.split)
qed

section \<open>Properties\<close>


text \<open>A codec of entries with the boolean value: the expiry in unary, then the value.\<close>

definition unary_codec :: "bool entry_codec" where
  "unary_codec =
     \<lparr> enc = (\<lambda>e. Some ((if entry_value e then CHR ''t'' else CHR ''f'') # replicate (unat (entry_expires e)) CHR ''i'')),
       dec = (\<lambda>s. case s of c # r \<Rightarrow> Some \<lparr> entry_value = (c = CHR ''t''), entry_expires = of_nat (length r) \<rparr> | [] \<Rightarrow> None),
       dec_unit = (\<lambda>s. None) \<rparr>"

lemma unary_laws: "entry_laws unary_codec"
  by (auto simp: entry_laws_def unary_codec_def intro!: cache_entry.equality)


text \<open>The bounded cache never holds more entries than its configured maximum, and its two maps
  keep the same keys, once each, whatever the operations.\<close>

lemma bounded_cache_within_size:
  fixes cd :: "'v codec"
  shows "let c = fst (run_cache (basic_api cd) ops (new_basic_cache config))
         in bc_len c \<le> max_size (bc_config c) \<and> bc_ok c"
  using run_basic_ok [OF bc_ok_new, of cd ops config Map.empty]
  by (simp add: Let_def run_cache_def bc_len_def bc_ok_def)

text \<open>Shrinking the LRU cache by \<open>update_config\<close> keeps the least recently used entries, in
  reverse order of use, and drops the most recently used ones: the entries are reinserted the most
  recent first, so the later ones evict them.\<close>

lemma lru_shrink_keeps_oldest:
  assumes "lru_laws api" and "lru_update_config api (Some n) ttl c = Some c'" and "lc_capacity c \<noteq> Some n"
    and "0 < n"
  shows "lru_iter api (lc_entries c') = take n (rev (lru_iter api (lc_entries c)))"
  by (rule lru_update_iter [OF assms])

end
