(* ===== verification/ConnectionPool.thy ===== *)
theory ConnectionPool
  imports Float64
begin

text \<open>
  The pool of RPC connections of \<^verbatim>\<open>snipebot/src/chain_adapters/connection_pool.rs\<close>: the health of an
  endpoint, the round-robin choice among primary and backup endpoints under a bound on concurrent
  requests, health checks, and the manager with one pool per chain.

  Parameters: what an endpoint answers to a probe, whether another task returns a permit while one is
  awaited (\<open>freed\<close>), the clock, and the running mean of latencies (\<open>mean\<close>, which decides nothing).
  The provider of an endpoint is determined by its URL. The cache and the retry policy a pool also
  stores play no part in its operations.
\<close>

section \<open>Health of an endpoint\<close>

datatype endpoint_status = Healthy | Degraded | Down

record endpoint_info =
  ep_url :: string
  ep_status :: endpoint_status
  avg_latency :: f64
  last_check :: u64
  error_rate :: f64
  success_count :: u64
  error_count :: u64
  ep_priority :: u32
  concurrent_limit :: nat

definition new_endpoint :: "string \<Rightarrow> u32 \<Rightarrow> nat \<Rightarrow> endpoint_info" where
  "new_endpoint url priority limit =
     \<lparr> ep_url = url, ep_status = Healthy, avg_latency = Fin 0, last_check = 0, error_rate = Fin 0,
       success_count = 0, error_count = 0, ep_priority = priority, concurrent_limit = limit \<rparr>"

type_synonym mean = "f64 \<Rightarrow> u64 \<Rightarrow> f64 \<Rightarrow> f64"

definition note_success :: "mean \<Rightarrow> u64 \<Rightarrow> f64 \<Rightarrow> endpoint_info \<Rightarrow> endpoint_info" where
  "note_success mean now latency_ms i =
     (let successes = success_count i + 1;
          total_requests = successes + error_count i;
          rate = ratio (error_count i) total_requests
      in i\<lparr>success_count := successes,
           avg_latency := mean (avg_latency i) total_requests latency_ms,
           error_rate := rate,
           last_check := now,
           ep_status := (if ep_status i = Degraded \<and> f64_lt rate (Fin (1 / 10)) then Healthy
                         else ep_status i)\<rparr>)"

definition note_error :: "u64 \<Rightarrow> endpoint_info \<Rightarrow> endpoint_info" where
  "note_error now i =
     (let errors = error_count i + 1;
          total_requests = success_count i + errors;
          rate = ratio errors total_requests
      in i\<lparr>error_count := errors,
           error_rate := rate,
           last_check := now,
           ep_status := (if f64_lt (Fin (1 / 2)) rate then Down
                         else if f64_lt (Fin (1 / 10)) rate then Degraded
                         else ep_status i)\<rparr>)"

definition is_available :: "endpoint_info \<Rightarrow> bool" where
  "is_available i \<longleftrightarrow> ep_status i \<noteq> Down"

section \<open>The pool\<close>

text \<open>The semaphore of an endpoint is the number of permits handed out of its \<open>concurrent_limit\<close>.\<close>

record pooled_endpoint =
  info :: endpoint_info
  in_use :: nat
  last_used :: u64

record pool_config =
  idle_timeout :: u64
  health_check_interval :: u64
  reconnect_attempts :: nat
  max_connections :: nat
  connection_timeout :: u64
  request_timeout :: u64

definition default_pool_config :: pool_config where
  "default_pool_config =
     \<lparr> idle_timeout = 300, health_check_interval = 60, reconnect_attempts = 3, max_connections = 10,
       connection_timeout = 5000, request_timeout = 30000 \<rparr>"

record connection_pool =
  primary_endpoints :: "pooled_endpoint list"
  backup_endpoints :: "pooled_endpoint list"
  next_primary_index :: nat
  next_backup_index :: nat
  pool_conf :: pool_config
  pool_chain_id :: u64

text \<open>\<open>probe\<close>: the URL parses and the endpoint answers within five seconds.\<close>

definition create_endpoint :: "(string \<Rightarrow> bool) \<Rightarrow> u64 \<Rightarrow> string \<Rightarrow> u32 \<Rightarrow> nat \<Rightarrow> pooled_endpoint option" where
  "create_endpoint probe now url priority max_concurrent =
     (if probe url
      then Some \<lparr> info = new_endpoint url priority max_concurrent, in_use = 0, last_used = now \<rparr>
      else None)"

fun create_endpoints :: "(string \<Rightarrow> bool) \<Rightarrow> u64 \<Rightarrow> nat \<Rightarrow> nat \<Rightarrow> string list \<Rightarrow> pooled_endpoint list" where
  "create_endpoints probe now max_concurrent i [] = []"
| "create_endpoints probe now max_concurrent i (url # urls) =
     (case create_endpoint probe now url (of_nat i) max_concurrent of
        Some endpoint \<Rightarrow> endpoint # create_endpoints probe now max_concurrent (Suc i) urls
      | None \<Rightarrow> create_endpoints probe now max_concurrent (Suc i) urls)"

definition new_pool ::
    "(string \<Rightarrow> bool) \<Rightarrow> u64 \<Rightarrow> u64 \<Rightarrow> string list \<Rightarrow> string list \<Rightarrow> pool_config \<Rightarrow> connection_pool option" where
  "new_pool probe now chain_id primary_urls backup_urls config =
     (let primary = create_endpoints probe now (max_connections config) 0 primary_urls in
      if primary = [] then None
      else Some \<lparr> primary_endpoints = primary,
                  backup_endpoints = create_endpoints probe now (max_connections config) 100 backup_urls,
                  next_primary_index = 0, next_backup_index = 0, pool_conf = config,
                  pool_chain_id = chain_id \<rparr>)"

text \<open>
  Acquiring a permit: one is free, or one comes back before the timeout (and is handed on).
\<close>

definition can_acquire :: "(string \<Rightarrow> bool) \<Rightarrow> pooled_endpoint \<Rightarrow> bool" where
  "can_acquire freed e \<longleftrightarrow>
     in_use e < concurrent_limit (info e) \<or> (0 < in_use e \<and> freed (ep_url (info e)))"

definition take_permit :: "u64 \<Rightarrow> pooled_endpoint \<Rightarrow> pooled_endpoint" where
  "take_permit now e =
     e\<lparr>in_use := (if in_use e < concurrent_limit (info e) then in_use e + 1 else in_use e), last_used := now\<rparr>"

definition usable :: "(string \<Rightarrow> bool) \<Rightarrow> pooled_endpoint \<Rightarrow> bool" where
  "usable freed e \<longleftrightarrow> is_available (info e) \<and> can_acquire freed e"

text \<open>The loop over one list: the next index, and the endpoint chosen.\<close>

fun scan :: "(pooled_endpoint \<Rightarrow> bool) \<Rightarrow> pooled_endpoint list \<Rightarrow> nat \<Rightarrow> nat \<Rightarrow> nat \<times> nat option" where
  "scan ok es 0 nxt = (nxt, None)"
| "scan ok es (Suc n) nxt =
     (let index = nxt; nxt' = (nxt + 1) mod length es in
      if ok (es ! index) then (nxt', Some index) else scan ok es n nxt')"

text \<open>
  A guard names the list and the position of its endpoint; the weak reference it holds was made
  from a strong one that \<open>get_provider\<close> drops when it returns, so it never upgrades.
\<close>

datatype slot = Primary nat | Backup nat

record provider_guard =
  endpoint_copy :: endpoint_info
  slot :: slot
  upgrades :: bool

definition get_provider ::
    "(string \<Rightarrow> bool) \<Rightarrow> u64 \<Rightarrow> connection_pool \<Rightarrow> connection_pool \<times> provider_guard option" where
  "get_provider freed now p =
     (case scan (usable freed) (primary_endpoints p) (length (primary_endpoints p)) (next_primary_index p) of
        (n, Some i) \<Rightarrow>
          (p\<lparr>next_primary_index := n,
             primary_endpoints := (primary_endpoints p)[i := take_permit now (primary_endpoints p ! i)]\<rparr>,
           Some \<lparr> endpoint_copy = info (primary_endpoints p ! i), slot = Primary i, upgrades = False \<rparr>)
      | (n, None) \<Rightarrow>
          (case scan (usable freed) (backup_endpoints p) (length (backup_endpoints p)) (next_backup_index p) of
             (m, Some i) \<Rightarrow>
               (p\<lparr>next_primary_index := n, next_backup_index := m,
                  backup_endpoints := (backup_endpoints p)[i := take_permit now (backup_endpoints p ! i)]\<rparr>,
                Some \<lparr> endpoint_copy = info (backup_endpoints p ! i), slot = Backup i, upgrades = False \<rparr>)
           | (m, None) \<Rightarrow> (p\<lparr>next_primary_index := n, next_backup_index := m\<rparr>, None)))"

text \<open>Dropping a guard returns its permit.\<close>

fun drop_guard :: "slot \<Rightarrow> connection_pool \<Rightarrow> connection_pool" where
  "drop_guard (Primary i) p =
     p\<lparr>primary_endpoints := (primary_endpoints p)[i := (primary_endpoints p ! i)\<lparr>in_use := in_use (primary_endpoints p ! i) - 1\<rparr>]\<rparr>"
| "drop_guard (Backup i) p =
     p\<lparr>backup_endpoints := (backup_endpoints p)[i := (backup_endpoints p ! i)\<lparr>in_use := in_use (backup_endpoints p ! i) - 1\<rparr>]\<rparr>"

text \<open>The first endpoint with the URL, the primary ones first.\<close>

fun update_first :: "string \<Rightarrow> (endpoint_info \<Rightarrow> endpoint_info) \<Rightarrow> pooled_endpoint list \<Rightarrow> pooled_endpoint list option" where
  "update_first url f [] = None"
| "update_first url f (e # es) =
     (if ep_url (info e) = url then Some (e\<lparr>info := f (info e)\<rparr> # es) else map_option ((#) e) (update_first url f es))"

definition record_in :: "string \<Rightarrow> (endpoint_info \<Rightarrow> endpoint_info) \<Rightarrow> connection_pool \<Rightarrow> connection_pool" where
  "record_in url f p =
     (case update_first url f (primary_endpoints p) of
        Some es \<Rightarrow> p\<lparr>primary_endpoints := es\<rparr>
      | None \<Rightarrow> (case update_first url f (backup_endpoints p) of
                   Some es \<Rightarrow> p\<lparr>backup_endpoints := es\<rparr>
                 | None \<Rightarrow> p))"

definition pool_record_success :: "mean \<Rightarrow> u64 \<Rightarrow> string \<Rightarrow> f64 \<Rightarrow> connection_pool \<Rightarrow> connection_pool" where
  "pool_record_success mean now url latency_ms p = record_in url (note_success mean now latency_ms) p"

definition pool_record_error :: "u64 \<Rightarrow> string \<Rightarrow> connection_pool \<Rightarrow> connection_pool" where
  "pool_record_error now url p = record_in url (note_error now) p"

text \<open>\<open>answers\<close>: the latency of the endpoint's answer, if it came in time.\<close>

definition health_check_endpoint :: "mean \<Rightarrow> u64 \<Rightarrow> (string \<Rightarrow> f64 option) \<Rightarrow> pooled_endpoint \<Rightarrow> pooled_endpoint" where
  "health_check_endpoint mean now answers e =
     (case answers (ep_url (info e)) of
        Some latency \<Rightarrow> e\<lparr>info := note_success mean now latency (info e)\<rparr>
      | None \<Rightarrow> e\<lparr>info := note_error now (info e)\<rparr>)"

definition health_check_all :: "mean \<Rightarrow> u64 \<Rightarrow> (string \<Rightarrow> f64 option) \<Rightarrow> connection_pool \<Rightarrow> connection_pool" where
  "health_check_all mean now answers p =
     p\<lparr>primary_endpoints := map (health_check_endpoint mean now answers) (primary_endpoints p),
       backup_endpoints := map (health_check_endpoint mean now answers) (backup_endpoints p)\<rparr>"

definition get_endpoints_info :: "connection_pool \<Rightarrow> endpoint_info list" where
  "get_endpoints_info p = map info (primary_endpoints p) @ map info (backup_endpoints p)"

datatype add_error = Already_exists | Not_responding | No_pool

definition add_endpoint :: "(string \<Rightarrow> bool) \<Rightarrow> u64 \<Rightarrow> string \<Rightarrow> bool \<Rightarrow> connection_pool \<Rightarrow> connection_pool \<times> (add_error + unit)" where
  "add_endpoint probe now url is_primary p =
     (if url \<in> (\<lambda>e. ep_url (info e)) ` set (primary_endpoints p) then (p, Inl Already_exists)
      else if url \<in> (\<lambda>e. ep_url (info e)) ` set (backup_endpoints p) then (p, Inl Already_exists)
      else
        let priority = (if is_primary then of_nat (length (primary_endpoints p))
                        else of_nat (length (backup_endpoints p) + 100))
        in case create_endpoint probe now url priority (max_connections (pool_conf p)) of
             None \<Rightarrow> (p, Inl Not_responding)
           | Some e \<Rightarrow>
               if is_primary then (p\<lparr>primary_endpoints := primary_endpoints p @ [e]\<rparr>, Inr ())
               else (p\<lparr>backup_endpoints := backup_endpoints p @ [e]\<rparr>, Inr ()))"

text \<open>\<open>operation\<close> gives the result of the request at the endpoint, and its latency.\<close>

definition with_provider ::
    "mean \<Rightarrow> (string \<Rightarrow> bool) \<Rightarrow> u64 \<Rightarrow> (string \<Rightarrow> ('e + 'r) \<times> f64) \<Rightarrow> connection_pool \<Rightarrow> connection_pool \<times> ('e option + 'r)" where
  "with_provider mean freed now operation p =
     (case get_provider freed now p of
        (p, None) \<Rightarrow> (p, Inl None)
      | (p, Some guard) \<Rightarrow>
          (let url = ep_url (endpoint_copy guard) in
           case operation url of
             (Inr r, latency) \<Rightarrow> (drop_guard (slot guard) (pool_record_success mean now url latency p), Inr r)
           | (Inl e, latency) \<Rightarrow> (drop_guard (slot guard) (pool_record_error now url p), Inl (Some e))))"

definition report_error :: "u64 \<Rightarrow> provider_guard \<Rightarrow> connection_pool \<Rightarrow> connection_pool" where
  "report_error now guard p =
     (if upgrades guard then pool_record_error now (ep_url (endpoint_copy guard)) p else p)"

definition report_success :: "mean \<Rightarrow> u64 \<Rightarrow> f64 \<Rightarrow> provider_guard \<Rightarrow> connection_pool \<Rightarrow> connection_pool" where
  "report_success mean now latency_ms guard p =
     (if upgrades guard then pool_record_success mean now (ep_url (endpoint_copy guard)) latency_ms p else p)"

text \<open>\<open>None\<close> is a request that outlasts the timeout.\<close>

definition with_timeout ::
    "u64 \<Rightarrow> (string \<Rightarrow> ('e + 'r) option) \<Rightarrow> provider_guard \<Rightarrow> connection_pool \<Rightarrow> connection_pool \<times> ('e option + 'r)" where
  "with_timeout now operation guard p =
     (case operation (ep_url (endpoint_copy guard)) of
        Some (Inr r) \<Rightarrow> (p, Inr r)
      | Some (Inl e) \<Rightarrow> (p, Inl (Some e))
      | None \<Rightarrow> (if upgrades guard then pool_record_error now (ep_url (endpoint_copy guard)) p else p, Inl None))"

section \<open>One pool per chain\<close>

type_synonym pool_manager = "u64 \<rightharpoonup> connection_pool"

definition get_or_create_pool ::
    "(string \<Rightarrow> bool) \<Rightarrow> u64 \<Rightarrow> u64 \<Rightarrow> string list \<Rightarrow> string list \<Rightarrow> pool_config option \<Rightarrow> pool_manager
       \<Rightarrow> pool_manager \<times> connection_pool option" where
  "get_or_create_pool probe now chain_id primary_urls backup_urls config pools =
     (case pools chain_id of
        Some p \<Rightarrow> (pools, Some p)
      | None \<Rightarrow>
          (case new_pool probe now chain_id primary_urls backup_urls
                  (case config of Some c \<Rightarrow> c | None \<Rightarrow> default_pool_config) of
             None \<Rightarrow> (pools, None)
           | Some p \<Rightarrow> (pools(chain_id \<mapsto> p), Some p)))"

definition get_pool :: "u64 \<Rightarrow> pool_manager \<Rightarrow> connection_pool option" where
  "get_pool chain_id pools = pools chain_id"

definition manager_add_endpoint ::
    "(string \<Rightarrow> bool) \<Rightarrow> u64 \<Rightarrow> u64 \<Rightarrow> string \<Rightarrow> bool \<Rightarrow> pool_manager \<Rightarrow> pool_manager \<times> (add_error + unit)" where
  "manager_add_endpoint probe now chain_id url is_primary pools =
     (case pools chain_id of
        None \<Rightarrow> (pools, Inl No_pool)
      | Some p \<Rightarrow> (case add_endpoint probe now url is_primary p of (p', r) \<Rightarrow> (pools(chain_id \<mapsto> p'), r)))"

definition get_pools_info :: "pool_manager \<Rightarrow> u64 \<Rightarrow> endpoint_info list option" where
  "get_pools_info pools chain_id = map_option get_endpoints_info (pools chain_id)"

section \<open>The choice\<close>

text \<open>The loop looks through the positions from \<open>nxt\<close> on, wrapping around.\<close>

definition positions :: "nat \<Rightarrow> nat \<Rightarrow> nat \<Rightarrow> nat list" where
  "positions l n nxt = map (\<lambda>j. (nxt + j) mod l) [0..<n]"

lemma positions_Suc: "nxt < l \<Longrightarrow> positions l (Suc n) nxt = nxt # positions l n ((nxt + 1) mod l)"
  by (simp add: positions_def upt_rec [of 0] map_Suc_upt [symmetric] comp_def mod_simps del: upt_Suc map_Suc_upt)

lemma step_in_range: "nxt < l \<Longrightarrow> (m :: nat) mod l < l"
  by (cases l) simp_all

lemma scan_find:
  assumes "nxt < length es"
  shows "scan ok es n nxt
    = (case find (\<lambda>i. ok (es ! i)) (positions (length es) n nxt) of
         Some i \<Rightarrow> ((i + 1) mod length es, Some i)
       | None \<Rightarrow> ((nxt + n) mod length es, None))"
  using assms
proof (induction n arbitrary: nxt)
  case 0
  then show ?case by (simp add: positions_def)
next
  case (Suc n)
  have "(nxt + 1) mod length es < length es" by (rule step_in_range [OF Suc.prems])
  from Suc.IH [OF this] Suc.prems show ?case
    by (simp add: positions_Suc Let_def mod_simps split: option.split)
qed

lemma map_positions: "nxt < length es \<Longrightarrow> map ((!) es) (positions (length es) (length es) nxt) = rotate nxt es"
  by (rule nth_equalityI) (simp_all add: positions_def nth_rotate add.commute)

lemma find_map: "find P (map f xs) = map_option f (find (\<lambda>x. P (f x)) xs)"
  by (induction xs) auto

lemma find_positions:
  assumes "nxt < length es"
  shows "map_option ((!) es) (find (\<lambda>i. ok (es ! i)) (positions (length es) (length es) nxt)) = find ok (rotate nxt es)"
  by (simp add: map_positions [OF assms, symmetric] find_map)

lemma scan_in_range:
  assumes "nxt < length es" and "scan ok es n nxt = (m, r)"
  shows "m < length es" and "r = Some i \<Longrightarrow> i < length es \<and> ok (es ! i)"
proof -
  have pos: "0 < length es" using assms(1) by auto
  show "m < length es" using assms pos by (auto simp: scan_find split: option.splits)
  assume "r = Some i"
  with assms have "find (\<lambda>i. ok (es ! i)) (positions (length es) n nxt) = Some i"
    by (auto simp: scan_find split: option.splits)
  then show "i < length es \<and> ok (es ! i)"
    using pos by (auto simp: find_Some_iff positions_def)
qed

lemma find_append: "find P (xs @ ys) = (case find P xs of None \<Rightarrow> find P ys | r \<Rightarrow> r)"
  by (induction xs) auto

text \<open>An index is within its list, or the list is empty and the index is 0.\<close>

definition cursor_ok :: "nat \<Rightarrow> 'a list \<Rightarrow> bool" where
  "cursor_ok n es \<longleftrightarrow> n < length es \<or> (es = [] \<and> n = 0)"

definition cursors_ok :: "connection_pool \<Rightarrow> bool" where
  "cursors_ok p \<longleftrightarrow> cursor_ok (next_primary_index p) (primary_endpoints p)
     \<and> cursor_ok (next_backup_index p) (backup_endpoints p)"

lemma scan_choice:
  assumes "cursor_ok nxt es"
  shows "map_option ((!) es) (snd (scan ok es (length es) nxt)) = find ok (rotate nxt es)"
proof (cases "es = []")
  case False
  with assms have n: "nxt < length es" by (simp add: cursor_ok_def)
  have "snd (scan ok es (length es) nxt) = find (\<lambda>i. ok (es ! i)) (positions (length es) (length es) nxt)"
    by (simp add: scan_find [OF n] split: option.split)
  with find_positions [OF n, of ok] show ?thesis by simp
qed simp

section \<open>Permits and guards\<close>

text \<open>
  The operations on a pool and the guards in circulation, in any order.
\<close>

datatype pool_op =
    Acquire "string \<Rightarrow> bool" u64
  | Drop nat
  | Record_success u64 string f64
  | Record_error u64 string
  | Health_check u64 "string \<Rightarrow> f64 option"
  | Add_endpoint "string \<Rightarrow> bool" u64 string bool

text \<open>A permit handed on (\<open>freed\<close>) is one that some guard of the same endpoint gave up.\<close>

definition hand_on :: "connection_pool \<Rightarrow> slot \<Rightarrow> slot list \<Rightarrow> slot list" where
  "hand_on p s guards =
     (let e = (case s of Primary i \<Rightarrow> primary_endpoints p ! i | Backup i \<Rightarrow> backup_endpoints p ! i)
      in if in_use e < concurrent_limit (info e) then guards else remove1 s guards)"

fun exec_pool :: "mean \<Rightarrow> pool_op \<Rightarrow> connection_pool \<times> slot list \<Rightarrow> connection_pool \<times> slot list" where
  "exec_pool mean (Acquire freed now) (p, guards) =
     (case get_provider freed now p of
        (p', Some g) \<Rightarrow> (p', slot g # hand_on p (slot g) guards)
      | (p', None) \<Rightarrow> (p', guards))"
| "exec_pool mean (Drop k) (p, guards) =
     (if k < length guards then (drop_guard (guards ! k) p, remove1 (guards ! k) guards) else (p, guards))"
| "exec_pool mean (Record_success now url latency) (p, guards) = (pool_record_success mean now url latency p, guards)"
| "exec_pool mean (Record_error now url) (p, guards) = (pool_record_error now url p, guards)"
| "exec_pool mean (Health_check now answers) (p, guards) = (health_check_all mean now answers p, guards)"
| "exec_pool mean (Add_endpoint probe now url is_primary) (p, guards) = (fst (add_endpoint probe now url is_primary p), guards)"

text \<open>Every endpoint has as many permits out as there are guards on it, and no more than its limit.\<close>

definition slots_ok :: "nat \<Rightarrow> (nat \<Rightarrow> slot) \<Rightarrow> pooled_endpoint list \<Rightarrow> slot list \<Rightarrow> bool" where
  "slots_ok limit mk es guards \<longleftrightarrow>
     (\<forall>i<length es. in_use (es ! i) = count_list guards (mk i) \<and> in_use (es ! i) \<le> limit
        \<and> concurrent_limit (info (es ! i)) = limit)
     \<and> (\<forall>i. mk i \<in> set guards \<longrightarrow> i < length es)"

definition permits_ok :: "connection_pool \<times> slot list \<Rightarrow> bool" where
  "permits_ok s \<longleftrightarrow> cursors_ok (fst s)
     \<and> slots_ok (max_connections (pool_conf (fst s))) Primary (primary_endpoints (fst s)) (snd s)
     \<and> slots_ok (max_connections (pool_conf (fst s))) Backup (backup_endpoints (fst s)) (snd s)"

lemma permits_okI:
  "cursors_ok p \<Longrightarrow> slots_ok (max_connections (pool_conf p)) Primary (primary_endpoints p) guards
     \<Longrightarrow> slots_ok (max_connections (pool_conf p)) Backup (backup_endpoints p) guards \<Longrightarrow> permits_ok (p, guards)"
  by (simp add: permits_ok_def)

lemma count_remove1: "count_list (remove1 x xs) y = (if x = y then count_list xs y - 1 else count_list xs y)"
proof (induction xs)
  case (Cons a xs)
  have "x \<in> set xs \<Longrightarrow> 0 < count_list xs x" using count_list_0_iff [of xs x] by auto
  with Cons show ?case by (auto simp: remove1_idem)
qed simp

lemma slots_other:
  assumes "slots_ok limit mk es guards" and "\<And>i. mk i \<noteq> s"
  shows "slots_ok limit mk es (s # guards)" and "slots_ok limit mk es (remove1 s guards)"
  using assms by (auto simp: slots_ok_def count_remove1 dest: in_set_remove1 notin_set_remove1)

definition same_permits :: "pooled_endpoint \<Rightarrow> pooled_endpoint \<Rightarrow> bool" where
  "same_permits e e' \<longleftrightarrow> in_use e' = in_use e \<and> concurrent_limit (info e') = concurrent_limit (info e)"

lemma slots_same:
  assumes "slots_ok limit mk es guards" and "list_all2 same_permits es es'"
  shows "slots_ok limit mk es' guards"
proof -
  have "length es' = length es" using assms(2) by (simp add: list_all2_lengthD)
  with assms(1) list_all2_nthD [OF assms(2)] show ?thesis
    unfolding slots_ok_def same_permits_def by metis
qed

lemma slots_take:
  assumes "slots_ok limit mk es guards" and "i < length es" and "inj mk" and "can_acquire freed (es ! i)"
  shows "slots_ok limit mk (es[i := take_permit now (es ! i)])
           (mk i # (if in_use (es ! i) < limit then guards else remove1 (mk i) guards))"
  using assms by (auto simp: slots_ok_def nth_list_update take_permit_def can_acquire_def count_remove1
      inj_eq dest: notin_set_remove1)

lemma slots_drop:
  assumes "slots_ok limit mk es guards" and "mk i \<in> set guards" and "inj mk"
  shows "slots_ok limit mk (es[i := (es ! i)\<lparr>in_use := in_use (es ! i) - 1\<rparr>]) (remove1 (mk i) guards)"
  using assms by (auto simp: slots_ok_def nth_list_update count_remove1 inj_eq dest: notin_set_remove1)

lemma slots_append:
  assumes "slots_ok limit mk es guards" and "mk (length es) \<notin> set guards" and "in_use e = 0"
    and "concurrent_limit (info e) = limit"
  shows "slots_ok limit mk (es @ [e]) guards"
  using assms by (auto simp: slots_ok_def nth_append count_list_0_iff less_Suc_eq)

lemma update_first_same:
  "update_first url f es = Some es' \<Longrightarrow> (\<And>i. concurrent_limit (f i) = concurrent_limit i) \<Longrightarrow> list_all2 same_permits es es'"
proof (induction es arbitrary: es')
  case (Cons e es)
  have refl: "list_all2 same_permits es es" by (rule list.rel_refl) (simp add: same_permits_def)
  have hd: "same_permits e e" "same_permits e (e\<lparr>info := f (info e)\<rparr>)"
    by (simp_all add: same_permits_def Cons.prems(2))
  from Cons refl hd show ?case by (auto split: if_splits)
qed simp

lemma note_limit [simp]:
  "concurrent_limit (note_success mean now l i) = concurrent_limit i" "concurrent_limit (note_error now i) = concurrent_limit i"
  "ep_url (note_success mean now l i) = ep_url i" "ep_url (note_error now i) = ep_url i"
  by (simp_all add: note_success_def note_error_def Let_def)

lemma record_in_ok:
  assumes "permits_ok (p, guards)" and "\<And>i. concurrent_limit (f i) = concurrent_limit i"
  shows "permits_ok (record_in url f p, guards)"
  using assms(1) slots_same [OF _ update_first_same [OF _ assms(2)]]
    list_all2_lengthD [OF update_first_same [OF _ assms(2)]]
  by (fastforce simp: permits_ok_def record_in_def cursors_ok_def cursor_ok_def split: option.splits)

lemma scan_cursor:
  assumes "cursor_ok nxt es" and "scan ok es (length es) nxt = (m, r)"
  shows "cursor_ok m es" and "r = Some i \<Longrightarrow> i < length es \<and> ok (es ! i)"
proof -
  have "cursor_ok m es \<and> (r = Some i \<longrightarrow> i < length es \<and> ok (es ! i))"
  proof (cases "es = []")
    case True
    with assms show ?thesis by (auto simp: cursor_ok_def)
  next
    case False
    with assms(1) have "nxt < length es" by (simp add: cursor_ok_def)
    with scan_in_range [OF this assms(2)] show ?thesis by (simp add: cursor_ok_def)
  qed
  then show "cursor_ok m es" and "r = Some i \<Longrightarrow> i < length es \<and> ok (es ! i)" by simp_all
qed

lemma cursor_length:
  "cursor_ok n (es[i := e]) = cursor_ok n es" "cursor_ok n (map f es) = cursor_ok n es"
  by (auto simp: cursor_ok_def)

lemma inj_slot [simp]: "inj Primary" "inj Backup"
  by (simp_all add: inj_def)

lemma permits_ok_iff:
  "permits_ok (p, guards) \<longleftrightarrow>
     cursor_ok (next_primary_index p) (primary_endpoints p) \<and> cursor_ok (next_backup_index p) (backup_endpoints p)
     \<and> slots_ok (max_connections (pool_conf p)) Primary (primary_endpoints p) guards
     \<and> slots_ok (max_connections (pool_conf p)) Backup (backup_endpoints p) guards"
  by (simp add: permits_ok_def cursors_ok_def)

lemma slots_other_take:
  "slots_ok limit mk es guards \<Longrightarrow> (\<And>i. mk i \<noteq> s) \<Longrightarrow> slots_ok limit mk es (s # (if b then guards else remove1 s guards))"
  by (simp add: slots_other)

lemma get_provider_ok:
  assumes ok: "permits_ok (p, guards)" and get: "get_provider freed now p = (p', r)"
  shows "permits_ok (p', case r of Some g \<Rightarrow> slot g # hand_on p (slot g) guards | None \<Rightarrow> guards)"
proof -
  let ?l = "max_connections (pool_conf p)" and ?ps = "primary_endpoints p" and ?bs = "backup_endpoints p"
  obtain n i where s: "scan (usable freed) ?ps (length ?ps) (next_primary_index p) = (n, i)" by fastforce
  obtain m j where t: "scan (usable freed) ?bs (length ?bs) (next_backup_index p) = (m, j)" by fastforce
  from ok have c: "cursor_ok (next_primary_index p) ?ps" "cursor_ok (next_backup_index p) ?bs"
    and sl: "slots_ok ?l Primary ?ps guards" "slots_ok ?l Backup ?bs guards"
    unfolding permits_ok_iff by simp_all
  note n = scan_cursor [OF c(1) s] and m = scan_cursor [OF c(2) t]
  consider (primary) k where "i = Some k" | (backup) k where "i = None" "j = Some k" | (none) "i = None" "j = None"
    by (cases i; cases j) auto
  then show ?thesis
  proof cases
    case (primary k)
    with n(2) have k: "k < length ?ps" "can_acquire freed (?ps ! k)" by (simp_all add: usable_def)
    let ?g = "Primary k # (if in_use (?ps ! k) < ?l then guards else remove1 (Primary k) guards)"
    have "concurrent_limit (info (?ps ! k)) = ?l" using sl(1) k(1) unfolding slots_ok_def by blast
    then have "Primary k # hand_on p (Primary k) guards = ?g" by (simp add: hand_on_def)
    moreover have "slots_ok ?l Primary (?ps[k := take_permit now (?ps ! k)]) ?g"
      by (rule slots_take [OF sl(1) k(1) _ k(2)]) simp
    moreover have "slots_ok ?l Backup ?bs ?g" by (rule slots_other_take [OF sl(2)]) simp
    moreover note get n(1) c(2)
    ultimately show ?thesis
      by (simp add: get_provider_def s primary permits_ok_iff del: if_split)
         (auto simp: cursor_length)
  next
    case (backup k)
    with m(2) have k: "k < length ?bs" "can_acquire freed (?bs ! k)" by (simp_all add: usable_def)
    let ?g = "Backup k # (if in_use (?bs ! k) < ?l then guards else remove1 (Backup k) guards)"
    have "concurrent_limit (info (?bs ! k)) = ?l" using sl(2) k(1) unfolding slots_ok_def by blast
    then have "Backup k # hand_on p (Backup k) guards = ?g" by (simp add: hand_on_def)
    moreover have "slots_ok ?l Backup (?bs[k := take_permit now (?bs ! k)]) ?g"
      by (rule slots_take [OF sl(2) k(1) _ k(2)]) simp
    moreover have "slots_ok ?l Primary ?ps ?g" by (rule slots_other_take [OF sl(1)]) simp
    moreover note get n(1) m(1)
    ultimately show ?thesis
      by (simp add: get_provider_def s t backup permits_ok_iff del: if_split)
         (auto simp: cursor_length)
  next
    case none
    with get s t n(1) m(1) sl show ?thesis by (simp add: get_provider_def permits_ok_iff) auto
  qed
qed

lemma drop_guard_ok:
  assumes "permits_ok (p, guards)" and "s \<in> set guards"
  shows "permits_ok (drop_guard s p, remove1 s guards)"
proof (cases s)
  case (Primary i)
  note assms [unfolded permits_ok_iff Primary]
  with slots_drop [of _ Primary "primary_endpoints p" guards i] slots_other(2) [of _ Backup _ guards s]
  show ?thesis by (simp add: Primary permits_ok_iff cursor_length)
next
  case (Backup i)
  note assms [unfolded permits_ok_iff Backup]
  with slots_drop [of _ Backup "backup_endpoints p" guards i] slots_other(2) [of _ Primary _ guards s]
  show ?thesis by (simp add: Backup permits_ok_iff cursor_length)
qed

lemma health_check_ok:
  assumes "permits_ok (p, guards)"
  shows "permits_ok (health_check_all mean now answers p, guards)"
proof -
  have "same_permits e (health_check_endpoint mean now answers e)" for e
    by (simp add: same_permits_def health_check_endpoint_def split: option.split)
  then have "list_all2 same_permits es (map (health_check_endpoint mean now answers) es)" for es
    by (simp add: list_all2_conv_all_nth)
  with assms show ?thesis unfolding permits_ok_iff
    by (simp add: cursor_length health_check_all_def) (blast intro: slots_same)
qed

lemma add_endpoint_ok:
  assumes "permits_ok (p, guards)"
  shows "permits_ok (fst (add_endpoint probe now url is_primary p), guards)"
proof -
  have ends: "Primary (length (primary_endpoints p)) \<notin> set guards" "Backup (length (backup_endpoints p)) \<notin> set guards"
    using assms unfolding permits_ok_iff slots_ok_def by blast+
  have more: "cursor_ok n es \<Longrightarrow> cursor_ok n (es @ [e])" for n es and e :: pooled_endpoint
    by (auto simp: cursor_ok_def)
  have new: "create_endpoint probe now url prio l = Some e \<Longrightarrow> in_use e = 0 \<and> concurrent_limit (info e) = l" for prio l e
    by (auto simp: create_endpoint_def new_endpoint_def split: if_splits)
  obtain prio where prio: "(if is_primary then of_nat (length (primary_endpoints p))
      else of_nat (length (backup_endpoints p) + 100) :: u32) = prio" by simp
  show ?thesis
  proof (cases "url \<in> (\<lambda>e. ep_url (info e)) ` (set (primary_endpoints p) \<union> set (backup_endpoints p))")
    case True
    then have "fst (add_endpoint probe now url is_primary p) = p" unfolding add_endpoint_def by auto
    with assms show ?thesis by simp
  next
    case False
    then have add: "add_endpoint probe now url is_primary p
        = (case create_endpoint probe now url prio (max_connections (pool_conf p)) of
             None \<Rightarrow> (p, Inl Not_responding)
           | Some e \<Rightarrow>
               if is_primary then (p\<lparr>primary_endpoints := primary_endpoints p @ [e]\<rparr>, Inr ())
               else (p\<lparr>backup_endpoints := backup_endpoints p @ [e]\<rparr>, Inr ()))"
      unfolding add_endpoint_def Let_def prio image_Un Un_iff by (simp only: if_False de_Morgan_disj)
    show ?thesis
    proof (cases "create_endpoint probe now url prio (max_connections (pool_conf p))")
      case None
      with assms show ?thesis by (simp add: add)
    next
      case (Some e)
      then have "fst (add_endpoint probe now url is_primary p)
          = (if is_primary then p\<lparr>primary_endpoints := primary_endpoints p @ [e]\<rparr>
             else p\<lparr>backup_endpoints := backup_endpoints p @ [e]\<rparr>)" by (simp add: add)
      with assms ends new [OF Some] show ?thesis unfolding permits_ok_iff
        by (simp add: more slots_append)
    qed
  qed
qed

lemma exec_pool_ok: "permits_ok s \<Longrightarrow> permits_ok (exec_pool mean pop s)"
proof (cases s; cases pop)
  fix p guards freed now
  assume "permits_ok s" "s = (p, guards)" "pop = Acquire freed now"
  with get_provider_ok [of p guards freed now] show ?thesis by (auto split: prod.splits option.splits)
qed (auto simp: drop_guard_ok health_check_ok add_endpoint_ok record_in_ok pool_record_success_def pool_record_error_def)

lemma run_pool_ok: "permits_ok s \<Longrightarrow> permits_ok (fold (exec_pool mean) ops s)"
  by (induction ops arbitrary: s) (simp_all add: exec_pool_ok)

lemma create_endpoints_fresh:
  "e \<in> set (create_endpoints probe now limit i urls) \<Longrightarrow> in_use e = 0 \<and> concurrent_limit (info e) = limit"
  by (induction urls arbitrary: i) (auto simp: create_endpoint_def new_endpoint_def split: if_splits)

lemma new_pool_ok:
  assumes "new_pool probe now chain_id primary_urls backup_urls config = Some p"
  shows "permits_ok (p, [])"
proof -
  have "cursor_ok 0 es" for es :: "pooled_endpoint list" by (auto simp: cursor_ok_def)
  with assms show ?thesis
    by (auto simp: new_pool_def Let_def permits_ok_def cursors_ok_def slots_ok_def split: if_splits
        dest!: create_endpoints_fresh [OF nth_mem])
qed

section \<open>Health\<close>

lemma note_success_Down: "ep_status i = Down \<Longrightarrow> ep_status (note_success mean now l i) = Down"
  by (simp add: note_success_def Let_def)

lemma successes_Down: "ep_status i = Down \<Longrightarrow> ep_status (fold (\<lambda>(now, l). note_success mean now l) xs i) = Down"
  by (induction xs arbitrary: i) (auto simp: note_success_Down)

lemma successes_counts:
  "success_count (fold (\<lambda>(now, l). note_success mean now l) xs i) = success_count i + of_nat (length xs)
   \<and> error_count (fold (\<lambda>(now, l). note_success mean now l) xs i) = error_count i"
  by (induction xs arbitrary: i) (auto simp: note_success_def Let_def)

section \<open>The manager\<close>

text \<open>The use of the manager, one call at a time.\<close>

datatype manager_op =
    Create "string \<Rightarrow> bool" u64 u64 "string list" "string list" "pool_config option"
  | Add "string \<Rightarrow> bool" u64 u64 string bool
  | Request u64 "string \<Rightarrow> bool" u64 "string \<Rightarrow> (unit + unit) \<times> f64"
  | Check u64 u64 "string \<Rightarrow> f64 option"

fun exec_manager :: "mean \<Rightarrow> manager_op \<Rightarrow> pool_manager \<Rightarrow> pool_manager" where
  "exec_manager mean (Create probe now c ps bs config) m = fst (get_or_create_pool probe now c ps bs config m)"
| "exec_manager mean (Add probe now c url is_primary) m = fst (manager_add_endpoint probe now c url is_primary m)"
| "exec_manager mean (Request c freed now operation) m =
     (case get_pool c m of Some p \<Rightarrow> m(c \<mapsto> fst (with_provider mean freed now operation p)) | None \<Rightarrow> m)"
| "exec_manager mean (Check c now answers) m =
     (case get_pool c m of Some p \<Rightarrow> m(c \<mapsto> health_check_all mean now answers p) | None \<Rightarrow> m)"

definition pool_typed :: "u64 \<Rightarrow> connection_pool \<Rightarrow> bool" where
  "pool_typed c p \<longleftrightarrow> pool_chain_id p = c \<and> primary_endpoints p \<noteq> [] \<and> permits_ok (p, [])"

lemma update_first_Nil: "update_first url f es = Some es' \<Longrightarrow> es' = [] \<longleftrightarrow> es = []"
  by (cases es) (auto split: if_splits)

lemma keeps_shape:
  "pool_chain_id (record_in url f p) = pool_chain_id p"
  "primary_endpoints (record_in url f p) = [] \<longleftrightarrow> primary_endpoints p = []"
  "pool_chain_id (drop_guard s p) = pool_chain_id p"
  "primary_endpoints (drop_guard s p) = [] \<longleftrightarrow> primary_endpoints p = []"
  "pool_chain_id (fst (get_provider freed now p)) = pool_chain_id p"
  "primary_endpoints (fst (get_provider freed now p)) = [] \<longleftrightarrow> primary_endpoints p = []"
  by (auto simp: record_in_def get_provider_def update_first_Nil split: option.splits prod.splits) (cases s; simp)+

lemma with_provider_typed:
  assumes "pool_typed c p"
  shows "pool_typed c (fst (with_provider mean freed now operation p))"
proof -
  obtain p' r where g: "get_provider freed now p = (p', r)" by fastforce
  with assms keeps_shape(5,6) [of freed now p] get_provider_ok [OF _ g, of "[]"]
  have p': "pool_chain_id p' = c" "primary_endpoints p' \<noteq> []"
    and ok: "permits_ok (p', case r of Some g \<Rightarrow> slot g # hand_on p (slot g) [] | None \<Rightarrow> [])"
    by (auto simp: pool_typed_def)
  show ?thesis
  proof (cases r)
    case None
    with g p' ok show ?thesis by (simp add: with_provider_def pool_typed_def)
  next
    case (Some guard)
    then have "permits_ok (p', [slot guard])" using ok by (simp add: hand_on_def Let_def split: if_splits)
    then have "permits_ok (record_in url f p', [slot guard])" if "\<And>i. concurrent_limit (f i) = concurrent_limit i" for url f
      by (rule record_in_ok [OF _ that])
    from drop_guard_ok [OF this, of _ "slot guard"]
    have "permits_ok (drop_guard (slot guard) (record_in url f p'), [])" if "\<And>i. concurrent_limit (f i) = concurrent_limit i" for url f
      using that by simp
    with g Some p' show ?thesis
      by (simp add: with_provider_def pool_typed_def Let_def keeps_shape pool_record_success_def pool_record_error_def
          split: prod.split sum.split)
  qed
qed

lemma exec_manager_typed:
  assumes "\<And>c p. m c = Some p \<Longrightarrow> pool_typed c p" and "exec_manager mean mop m c = Some p"
  shows "pool_typed c p"
proof (cases mop)
  case (Create probe now d ps bs config)
  have new: "pool_typed d q" if "new_pool probe now d ps bs cfg = Some q" for cfg q
    using new_pool_ok [OF that] that by (auto simp: pool_typed_def new_pool_def Let_def split: if_splits)
  show ?thesis
  proof (cases "m d")
    case None
    with Create assms new show ?thesis
      by (cases "c = d") (auto simp: get_or_create_pool_def split: option.splits)
  qed (use Create assms in \<open>simp add: get_or_create_pool_def\<close>)
next
  case (Add probe now d url is_primary)
  have add: "pool_typed d (fst (add_endpoint probe now url is_primary q))" if "pool_typed d q" for q
    using that add_endpoint_ok [of q "[]" probe now url is_primary]
    by (auto simp: pool_typed_def add_endpoint_def Let_def split: option.splits if_splits)
  show ?thesis
  proof (cases "m d")
    case (Some q)
    with Add assms add [of q] show ?thesis
      by (cases "c = d") (auto simp: manager_add_endpoint_def split: prod.splits)
  qed (use Add assms in \<open>simp add: manager_add_endpoint_def\<close>)
next
  case (Request d freed now operation)
  with assms with_provider_typed [of d _ mean freed now operation] show ?thesis
    by (cases "c = d"; cases "m d") (auto simp: get_pool_def)
next
  case (Check d now answers)
  have "pool_typed d (health_check_all mean now answers q)" if "pool_typed d q" for q
    using that health_check_ok [of q "[]" mean now answers] by (simp add: pool_typed_def health_check_all_def)
  with Check assms show ?thesis by (cases "c = d"; cases "m d") (auto simp: get_pool_def)
qed

lemma run_manager_typed:
  "(\<And>c p. m c = Some p \<Longrightarrow> pool_typed c p) \<Longrightarrow> fold (exec_manager mean) ops m c = Some p \<Longrightarrow> pool_typed c p"
proof (induction ops arbitrary: m)
  case (Cons mop ops)
  from Cons.IH [of "exec_manager mean mop m"] exec_manager_typed [of m mean mop] Cons.prems show ?case
    by simp
qed simp

lemma unat_small: "n < 100 \<Longrightarrow> unat (of_nat n :: u64) = n"
  by (simp add: unat_of_nat take_bit_nat_eq_self)

lemma note_error_Degraded:
  assumes "error_count i = 1" and "success_count i = of_nat n" and "2 \<le> n" and "n < 18"
  shows "ep_status (note_error now i) = Degraded"
proof -
  obtain w where w: "success_count i + (error_count i + 1) = w" by simp
  have two: "error_count i + 1 = (2 :: u64)" using assms(1) by simp
  have "w = of_nat (n + 2)" using w [symmetric] assms(1,2) by simp
  then have n: "unat w = n + 2" using assms(4) by (simp only: unat_small)
  then have nz: "w \<noteq> 0" by auto
  have "unat (2 :: u64) = 2" by simp
  with n assms(3,4) have "\<not> f64_lt (Fin (1 / 2)) (ratio 2 w)" "f64_lt (Fin (1 / 10)) (ratio 2 w)"
    unfolding ratio_gt [OF nz] by simp_all
  then show ?thesis unfolding note_error_def Let_def w unfolding two by simp
qed

section \<open>Properties\<close>

text \<open>In every reachable state the pool answers with the first usable endpoint (not down, and
  with a permit in time) in round-robin order, all primary endpoints before any backup; it fails
  exactly when no endpoint is usable.\<close>

lemma pool_round_robin:
  assumes "new_pool probe t chain_id primary_urls backup_urls config = Some p0"
    and "fold (exec_pool mean) ops (p0, []) = (p, guards)"
  shows "map_option endpoint_copy (snd (get_provider freed now p))
    = map_option info (find (usable freed) (rotate (next_primary_index p) (primary_endpoints p)
        @ rotate (next_backup_index p) (backup_endpoints p)))"
proof -
  have "cursor_ok (next_primary_index p) (primary_endpoints p)" "cursor_ok (next_backup_index p) (backup_endpoints p)"
    using run_pool_ok [OF new_pool_ok [OF assms(1)], of mean ops] unfolding assms(2) permits_ok_iff by simp_all
  from this [THEN scan_choice [of _ _ "usable freed"], symmetric] show ?thesis
    by (auto simp: get_provider_def find_append split: option.splits prod.splits)
qed

text \<open>C31. However requests, returns, health checks and new endpoints interleave, no endpoint ever
  has more guards in circulation than the configured maximum.\<close>

theorem pool_permits_bounded:
  assumes "new_pool probe t chain_id primary_urls backup_urls config = Some p0"
    and "fold (exec_pool mean) ops (p0, []) = (p, guards)"
  shows "count_list guards s \<le> max_connections (pool_conf p)"
proof -
  have ok: "slots_ok (max_connections (pool_conf p)) Primary (primary_endpoints p) guards"
    "slots_ok (max_connections (pool_conf p)) Backup (backup_endpoints p) guards"
    using run_pool_ok [OF new_pool_ok [OF assms(1)], of mean ops] unfolding assms(2) permits_ok_iff by simp_all
  show ?thesis
  proof (cases "s \<in> set guards")
    case True
    with ok show ?thesis unfolding slots_ok_def by (cases s) metis+
  qed (simp add: count_list_0_iff)
qed

text \<open>An endpoint whose first request fails is down, and stays down whatever number of health
  checks succeed; a second failure after two to seventeen successes makes it available again.\<close>

lemma endpoint_revived_by_failure:
  assumes "i = fold (\<lambda>(t, l). note_success mean t l) successes (note_error now (new_endpoint url priority limit))"
    and "2 \<le> length successes" and "length successes < 18"
  shows "\<not> is_available i \<and> is_available (note_error later i)"
proof -
  let ?e = "note_error now (new_endpoint url priority limit)"
  have e: "ep_status ?e = Down" "success_count ?e = 0" "error_count ?e = 1"
    by (simp_all add: note_error_def new_endpoint_def Let_def ratio_def)
  have "ep_status (note_error later i) = Degraded"
    using successes_counts [of mean successes ?e] assms e by (intro note_error_Degraded) simp_all
  with successes_Down [OF e(1)] assms(1) show ?thesis by (simp add: is_available_def)
qed

text \<open>What a guard reports is lost: its timeouts, errors and successes never reach the pool,
  since the strong reference its weak one was made from is gone when the guard is returned.\<close>

lemma guard_reports_lost:
  assumes "get_provider freed now p = (p', Some g)"
  shows "fst (with_timeout t operation g q) = q \<and> report_error t g q = q \<and> report_success mean t l g q = q"
proof -
  have "\<not> upgrades g" using assms by (auto simp: get_provider_def split: option.splits prod.splits)
  then show ?thesis by (simp add: with_timeout_def report_error_def report_success_def split: option.split sum.split)
qed

text \<open>C32. Whatever calls the manager has served, the pool it holds for a chain was made for that
  chain, has a primary endpoint and positions within its lists, and no permit is left out once the
  requests are over.\<close>

theorem manager_pools_typed:
  assumes "fold (exec_manager mean) ops Map.empty c = Some p"
  shows "pool_chain_id p = c \<and> primary_endpoints p \<noteq> [] \<and> permits_ok (p, [])"
  using run_manager_typed [OF _ assms] by (simp add: pool_typed_def)

section \<open>Concrete runs\<close>

definition demo_mean :: mean where
  "demo_mean avg n l = l"

definition demo_pool :: connection_pool where
  "demo_pool = the (new_pool (\<lambda>url. url \<noteq> ''dead'') 0 1 [''a'', ''dead'', ''b''] [''c'']
     (default_pool_config\<lparr>max_connections := 1\<rparr>))"

definition demo_ops :: "pool_op list" where
  "demo_ops = [Acquire (\<lambda>_. False) 1, Record_error 2 ''b'']"

lemma demo_pool_new:
  "new_pool (\<lambda>url. url \<noteq> ''dead'') 0 1 [''a'', ''dead'', ''b''] [''c''] (default_pool_config\<lparr>max_connections := 1\<rparr>)
     = Some demo_pool"
  by (simp add: demo_pool_def new_pool_def Let_def create_endpoint_def)

text \<open>One primary endpoint is busy, the other is down: the backup answers.\<close>

theorem pool_permits_bounded_witness:
  "count_list (snd (fold (exec_pool demo_mean) demo_ops (demo_pool, []))) (Primary 0)
     \<le> max_connections (pool_conf (fst (fold (exec_pool demo_mean) demo_ops (demo_pool, []))))"
  by (rule pool_permits_bounded [OF demo_pool_new prod.collapse [symmetric]])

theorem manager_pools_typed_witness:
  "\<exists>p. fold (exec_manager demo_mean) [Create (\<lambda>_. True) 0 56 [''a''] [] None] Map.empty 56 = Some p
     \<and> pool_chain_id p = 56"
proof -
  obtain p where p: "fold (exec_manager demo_mean) [Create (\<lambda>_. True) 0 56 [''a''] [] None] Map.empty 56 = Some p"
    by (simp add: get_or_create_pool_def new_pool_def Let_def create_endpoint_def)
  with manager_pools_typed [OF p] show ?thesis by blast
qed

end
