(* ===== verification/Auth.thy ===== *)
theory Auth
  imports Prelude
begin

text \<open>
  Authentication of \<^verbatim>\<open>common/src/middleware/auth.rs\<close> (tokens, the list of revoked tokens, the
  middlewares for API keys, tokens and roles) and the middleware chain of
  \<^verbatim>\<open>common/src/middleware/core.rs\<close>.

  The jsonwebtoken crate is the parameter \<open>jwt\<close>: a token made with a secret decodes with that secret to
  its claims as long as its expiry has not passed, and a token contains a dot. The fresh identifier
  (\<open>jti\<close>) and chrono's date arithmetic (\<open>add_hours\<close>) are parameters too. Times are seconds. A request
  is its map of headers.
\<close>

section \<open>Tokens\<close>

record claims =
  sub :: string
  role :: string
  wallet_ids :: "string list"
  exp_time :: u64
  nbf :: u64
  iat :: u64
  jti :: string

datatype user_role = User | Admin | System

definition role_from :: "string \<Rightarrow> user_role" where
  "role_from r = (if lower r = ''admin'' then Admin else if lower r = ''system'' then System else User)"

fun role_name :: "user_role \<Rightarrow> string" where
  "role_name Admin = ''admin''"
| "role_name System = ''system''"
| "role_name User = ''user''"

record jwt =
  encode_jwt :: "string \<Rightarrow> claims \<Rightarrow> string option"
  decode_jwt :: "u64 \<Rightarrow> string \<Rightarrow> string \<Rightarrow> claims option"

definition jwt_laws :: "jwt \<Rightarrow> bool" where
  "jwt_laws api \<longleftrightarrow>
     (\<forall>secret c t now. encode_jwt api secret c = Some t \<longrightarrow> now \<le> exp_time c \<longrightarrow> decode_jwt api now secret t = Some c)
     \<and> (\<forall>secret c t. encode_jwt api secret c = Some t \<longrightarrow> CHR ''.'' \<in> set t)"

text \<open>
  The secret of the functions that make and read tokens is the environment variable \<open>JWT_SECRET\<close>, with
  a default; \<open>env\<close> is that variable. The API's middleware has a secret of its own, from its
  configuration (\<open>jwt_secret\<close> of \<open>jwt_middleware\<close>).
\<close>

definition env_secret :: "string option \<Rightarrow> string" where
  "env_secret env = (case env of Some s \<Rightarrow> s | None \<Rightarrow> ''your-secret-key'')"

definition create_jwt_token ::
    "jwt \<Rightarrow> (u64 \<Rightarrow> u64 \<Rightarrow> u64) \<Rightarrow> string option \<Rightarrow> string \<Rightarrow> u64 \<Rightarrow> string \<Rightarrow> user_role \<Rightarrow> string list \<Rightarrow> u64 \<Rightarrow> string option" where
  "create_jwt_token api add_hours env uuid now user_id r wallets duration_hours =
     encode_jwt api (env_secret env)
       \<lparr> sub = user_id, role = role_name r, wallet_ids = wallets, exp_time = add_hours now duration_hours,
         nbf = now, iat = now, jti = uuid \<rparr>"

definition decode_jwt_token :: "jwt \<Rightarrow> string option \<Rightarrow> u64 \<Rightarrow> string \<Rightarrow> claims option" where
  "decode_jwt_token api env now token = decode_jwt api now (env_secret env) token"

section \<open>Revoked tokens\<close>

record token_blacklist =
  blacklisted_tokens :: "string \<rightharpoonup> u64"
  last_cleanup :: u64

definition new_blacklist :: "u64 \<Rightarrow> token_blacklist" where
  "new_blacklist now = \<lparr> blacklisted_tokens = Map.empty, last_cleanup = now \<rparr>"

definition bl_cleanup :: "u64 \<Rightarrow> token_blacklist \<Rightarrow> token_blacklist" where
  "bl_cleanup now b =
     b\<lparr>blacklisted_tokens :=
        (\<lambda>j. case blacklisted_tokens b j of Some e \<Rightarrow> if now < e then Some e else None | None \<Rightarrow> None)\<rparr>"

definition bl_add_token :: "u64 \<Rightarrow> string \<Rightarrow> u64 \<Rightarrow> token_blacklist \<Rightarrow> token_blacklist" where
  "bl_add_token now j e b =
     (let b = b\<lparr>blacklisted_tokens := (blacklisted_tokens b)(j \<mapsto> e)\<rparr> in
      if 3600 < now - last_cleanup b then (bl_cleanup now b)\<lparr>last_cleanup := now\<rparr> else b)"

definition is_blacklisted :: "string \<Rightarrow> token_blacklist \<Rightarrow> bool" where
  "is_blacklisted j b \<longleftrightarrow> j \<in> dom (blacklisted_tokens b)"

definition logout :: "jwt \<Rightarrow> string option \<Rightarrow> u64 \<Rightarrow> string \<Rightarrow> token_blacklist \<Rightarrow> token_blacklist option" where
  "logout api env now token b =
     (case decode_jwt_token api env now token of
        Some c \<Rightarrow> Some (bl_add_token now (jti c) (exp_time c) b)
      | None \<Rightarrow> None)"

section \<open>Requests\<close>

text \<open>A header value is text or bytes that are not; header names are in lower case, as the http crate
  keeps them.\<close>

datatype header_value = Text string | Not_text

type_synonym request = "string \<rightharpoonup> header_value"

definition to_str :: "header_value option \<Rightarrow> string option" where
  "to_str h = (case h of Some (Text s) \<Rightarrow> Some s | _ \<Rightarrow> None)"

definition extract_client_ip :: "request \<Rightarrow> string option" where
  "extract_client_ip request =
     (case to_str (request ''x-forwarded-for'') of
        Some s \<Rightarrow> Some (trim (first_part (CHR '','') s))
      | None \<Rightarrow> to_str (request ''x-real-ip''))"

text \<open>The middlewares answer whether the request goes on.\<close>

definition api_key_middleware :: "(string \<Rightarrow> bool) \<Rightarrow> request \<Rightarrow> bool" where
  "api_key_middleware api_key_validator request =
     (case to_str (request ''x-api-key'') of Some key \<Rightarrow> api_key_validator key | None \<Rightarrow> False)"

definition strip_prefix :: "string \<Rightarrow> string \<Rightarrow> string option" where
  "strip_prefix p s = (if take (length p) s = p then Some (drop (length p) s) else None)"

datatype auth_error = InvalidToken string | BlacklistedToken | RateLimitExceeded

record jwt_middleware =
  jwt_secret :: string
  blacklist_checker :: "string \<Rightarrow> bool"
  rate_limit_checker :: "string \<Rightarrow> nat \<Rightarrow> bool"

definition into_middleware :: "jwt \<Rightarrow> u64 \<Rightarrow> jwt_middleware \<Rightarrow> request \<Rightarrow> auth_error + claims" where
  "into_middleware api now m request =
     rbind (case request ''authorization'' of
              Some v \<Rightarrow>
                (case strip_prefix ''Bearer '' (case v of Text s \<Rightarrow> s | Not_text \<Rightarrow> []) of
                   Some token \<Rightarrow> Inr token
                 | None \<Rightarrow> Inl (InvalidToken ''Invalid token format''))
            | None \<Rightarrow> Inl (InvalidToken ''No authorization header'')) (\<lambda>token.
       if blacklist_checker m token then Inl BlacklistedToken
       else
         let rate_limit_key =
           (case extract_client_ip request of Some ip \<Rightarrow> ip | None \<Rightarrow> ''unknown'') @ '':'' @ token
         in if \<not> rate_limit_checker m rate_limit_key 100 then Inl RateLimitExceeded
            else (case decode_jwt api now (jwt_secret m) token of
                    Some c \<Rightarrow> Inr c
                  | None \<Rightarrow> Inl (InvalidToken ''Token invalid'')))"

definition role_middleware :: "string list \<Rightarrow> claims option \<Rightarrow> bool" where
  "role_middleware required_roles c =
     (case c of Some c \<Rightarrow> list_ex (\<lambda>r. role c = r) required_roles | None \<Rightarrow> False)"

text \<open>
  The token middleware as the API configures it, with the secret of its configuration. The handlers of
  the administrative routes check the role in the claims themselves; the middleware \<open>admin_auth\<close>,
  which would accept the system as well, is attached to no route.
\<close>

definition api_middleware :: "string \<Rightarrow> (string \<Rightarrow> nat \<Rightarrow> bool) \<Rightarrow> token_blacklist \<Rightarrow> jwt_middleware" where
  "api_middleware secret rate_ok b =
     \<lparr> jwt_secret = secret, blacklist_checker = (\<lambda>j. is_blacklisted j b), rate_limit_checker = rate_ok \<rparr>"

definition admin_auth :: "claims option \<Rightarrow> bool" where
  "admin_auth c = role_middleware [''admin'', ''system''] c"

datatype api_error = Unauthorized auth_error | Forbidden

definition admin_handler_check :: "claims \<Rightarrow> api_error + unit" where
  "admin_handler_check c = (if role c \<noteq> ''admin'' then Inl Forbidden else Inr ())"

definition admin_route :: "jwt \<Rightarrow> u64 \<Rightarrow> jwt_middleware \<Rightarrow> request \<Rightarrow> api_error + claims" where
  "admin_route api now m request =
     (case into_middleware api now m request of
        Inl e \<Rightarrow> Inl (Unauthorized e)
      | Inr c \<Rightarrow> rbind (admin_handler_check c) (\<lambda>_. Inr c))"

section \<open>The middleware chain\<close>

record user_info =
  ui_id :: string
  ui_username :: string
  ui_roles :: "string list"
  ui_permissions :: "string list"

text \<open>An attribute of a request has any type; the chain only reads texts.\<close>

datatype attribute = Text_attribute string | Other_attribute

record request_ctx =
  ctx_path :: string
  ctx_method :: string
  ctx_user :: "user_info option"
  request_id :: string
  client_ip :: "string option"
  attributes :: "string \<rightharpoonup> attribute"

definition new_ctx :: "string \<Rightarrow> string \<Rightarrow> string \<Rightarrow> request_ctx" where
  "new_ctx uuid path meth =
     \<lparr> ctx_path = path, ctx_method = meth, ctx_user = None, request_id = uuid, client_ip = None,
       attributes = Map.empty \<rparr>"

definition set_attribute :: "string \<Rightarrow> attribute \<Rightarrow> request_ctx \<Rightarrow> request_ctx" where
  "set_attribute key v ctx = ctx\<lparr>attributes := (attributes ctx)(key \<mapsto> v)\<rparr>"

definition get_text_attribute :: "string \<Rightarrow> request_ctx \<Rightarrow> string option" where
  "get_text_attribute key ctx = (case attributes ctx key of Some (Text_attribute s) \<Rightarrow> Some s | _ \<Rightarrow> None)"

datatype outcome = Continue | Stop "string + unit"

type_synonym middleware = "request_ctx \<Rightarrow> request_ctx \<times> outcome"

fun execute_chain :: "middleware list \<Rightarrow> request_ctx \<Rightarrow> request_ctx \<times> (string + unit)" where
  "execute_chain [] ctx = (ctx, Inr ())"
| "execute_chain (m # ms) ctx =
     (case m ctx of
        (ctx', Continue) \<Rightarrow> execute_chain ms ctx'
      | (ctx', Stop r) \<Rightarrow> (ctx', r))"

record auth_middleware =
  am_jwt_secret :: string
  required_roles :: "string list option"

definition validate_token :: "auth_middleware \<Rightarrow> string \<Rightarrow> string + user_info" where
  "validate_token am token =
     (if token = ''invalid'' then Inl ''Invalid token''
      else Inr \<lparr> ui_id = ''user123'', ui_username = ''testuser'', ui_roles = [''user'', ''admin''],
                 ui_permissions = [''read'', ''write''] \<rparr>)"

definition process_auth :: "auth_middleware \<Rightarrow> middleware" where
  "process_auth am ctx =
     (case get_text_attribute ''auth_token'' ctx of
        None \<Rightarrow> (ctx, Stop (Inl ''No auth token provided''))
      | Some token \<Rightarrow>
          (case validate_token am token of
             Inl e \<Rightarrow> (ctx, Stop (Inl e))
           | Inr user \<Rightarrow>
               if (case required_roles am of
                     Some rs \<Rightarrow> \<not> list_ex (\<lambda>r. r \<in> set (ui_roles user)) rs
                   | None \<Rightarrow> False)
               then (ctx, Stop (Inl ''Insufficient permissions''))
               else (ctx\<lparr>ctx_user := Some user\<rparr>, Continue)))"

definition process_rate_limit :: middleware where
  "process_rate_limit ctx =
     (case ctx_user ctx of
        Some u \<Rightarrow> (ctx, Continue)
      | None \<Rightarrow> (case client_ip ctx of
                   Some ip \<Rightarrow> (ctx, Continue)
                 | None \<Rightarrow> (ctx, Stop (Inl ''No client identifier for rate limiting''))))"

definition process_logging :: middleware where
  "process_logging ctx = (ctx, Continue)"

definition process_cors :: middleware where
  "process_cors ctx = (ctx, Continue)"

section \<open>Lemmas\<close>

lemma jwt_lawsD:
  assumes "jwt_laws api" and "encode_jwt api secret c = Some t"
  shows "now \<le> exp_time c \<Longrightarrow> decode_jwt api now secret t = Some c" and "CHR ''.'' \<in> set t"
  using assms unfolding jwt_laws_def by blast+

lemma strip_prefix_eq: "strip_prefix p s = Some t \<longleftrightarrow> s = p @ t"
  by (auto simp: strip_prefix_def) (metis append_take_drop_id)

text \<open>An entry stays while tokens are added before its expiry.\<close>

lemma add_token_keeps:
  assumes "blacklisted_tokens b j = Some e" and "now < e" and "j' = j \<longrightarrow> e' = e"
  shows "blacklisted_tokens (bl_add_token now j' e' b) j = Some e"
  using assms by (auto simp: bl_add_token_def bl_cleanup_def Let_def)

lemma add_token_new: "now < e \<Longrightarrow> blacklisted_tokens (bl_add_token now j e b) j = Some e"
  by (simp add: bl_add_token_def bl_cleanup_def Let_def)

fun revoke_all :: "(u64 \<times> string \<times> u64) list \<Rightarrow> token_blacklist \<Rightarrow> token_blacklist" where
  "revoke_all [] b = b"
| "revoke_all ((now, j, e) # rs) b = revoke_all rs (bl_add_token now j e b)"

lemma revoke_all_keeps:
  "blacklisted_tokens b j = Some e \<Longrightarrow> (\<forall>(now, j', e')\<in>set rs. now < e \<and> (j' = j \<longrightarrow> e' = e))
     \<Longrightarrow> blacklisted_tokens (revoke_all rs b) j = Some e"
  by (induction rs arbitrary: b) (auto simp: add_token_keeps)

text \<open>Only identifiers that were revoked are on the list.\<close>

lemma revoked_keys: "dom (blacklisted_tokens (revoke_all rs b)) \<subseteq> dom (blacklisted_tokens b) \<union> (fst \<circ> snd) ` set rs"
proof (induction rs b rule: revoke_all.induct)
  case (2 now j e rs b)
  have "dom (blacklisted_tokens (bl_add_token now j e b)) \<subseteq> insert j (dom (blacklisted_tokens b))"
    by (auto simp: bl_add_token_def bl_cleanup_def Let_def split: if_splits option.splits)
  with 2 show ?case by auto
qed simp

text \<open>A middleware that stops the chain with an error is final.\<close>

lemma execute_chain_error:
  "execute_chain ms ctx = (ctx', Inl e) \<Longrightarrow> execute_chain (ms @ ns) ctx = (ctx', Inl e)"
  by (induction ms arbitrary: ctx) (auto split: prod.splits outcome.splits)

lemma access_iff:
  "into_middleware api now m request = Inr c \<longleftrightarrow>
     (\<exists>t. request ''authorization'' = Some (Text (''Bearer '' @ t)) \<and> \<not> blacklist_checker m t
        \<and> rate_limit_checker m ((case extract_client_ip request of Some ip \<Rightarrow> ip | None \<Rightarrow> ''unknown'') @ '':'' @ t) 100
        \<and> decode_jwt api now (jwt_secret m) t = Some c)"
proof -
  have none: "strip_prefix ''Bearer '' [] = None" by (simp add: strip_prefix_def)
  have bearer: "strip_prefix ''Bearer '' (''Bearer '' @ t) = Some t" for t by (simp only: strip_prefix_eq)
  show ?thesis
    by (auto simp: into_middleware_def none bearer [simplified] strip_prefix_eq Let_def split: option.splits header_value.splits if_splits)
qed

section \<open>Properties\<close>

text \<open>The token middleware lets a request through with claims exactly if its authorization header
  is a bearer token that is not on the list it checks, within the rate limit of its client and
  token, and decodes to these claims.\<close>

lemma token_access_exact:
  "into_middleware api now m request = Inr c \<longleftrightarrow>
     (\<exists>t. request ''authorization'' = Some (Text (''Bearer '' @ t)) \<and> \<not> blacklist_checker m t
        \<and> rate_limit_checker m ((case extract_client_ip request of Some ip \<Rightarrow> ip | None \<Rightarrow> ''unknown'') @ '':'' @ t) 100
        \<and> decode_jwt api now (jwt_secret m) t = Some c)"
  by (rule access_iff)

text \<open>C16. A token issued to a user passes the API's middleware until it expires, with that user, role and
  wallets, when the API is configured with the secret of the environment, the token is not on the
  list the middleware checks and the rate limit is kept. The handlers of the administrative routes
  then serve it exactly if it was issued for an administrator: a token of the system is refused
  like one of a user.\<close>

theorem issued_token_authorises:
  assumes "jwt_laws api"
    and "create_jwt_token api add_hours env uuid now user_id r wallets hours = Some t"
    and "jwt_secret m = env_secret env"
    and "request ''authorization'' = Some (Text (''Bearer '' @ t))" and "\<not> blacklist_checker m t"
    and "rate_limit_checker m ((case extract_client_ip request of Some ip \<Rightarrow> ip | None \<Rightarrow> ''unknown'') @ '':'' @ t) 100"
    and "later \<le> add_hours now hours"
  shows "\<exists>c. into_middleware api later m request = Inr c \<and> sub c = user_id \<and> role_from (role c) = r
           \<and> wallet_ids c = wallets
           \<and> admin_route api later m request = (if r = Admin then Inr c else Inl Forbidden)"
proof -
  obtain c where c: "encode_jwt api (env_secret env) c = Some t" "sub c = user_id" "role c = role_name r"
    "exp_time c = add_hours now hours" "wallet_ids c = wallets"
    using assms(2) by (simp add: create_jwt_token_def)
  with jwt_lawsD(1) [OF assms(1) c(1), of later] assms(3,7)
  have "decode_jwt api later (jwt_secret m) t = Some c" by simp
  then have m: "into_middleware api later m request = Inr c" using assms(4-6) unfolding access_iff by auto
  have "role_from (role_name r) = r" and "admin_handler_check c = (if r = Admin then Inr () else Inl Forbidden)"
    using c(3) by (cases r; simp add: role_from_def lower_def admin_handler_check_def)+
  with c m show ?thesis by (auto simp: admin_route_def)
qed

text \<open>What the unused middleware would accept and the handlers refuse.\<close>

lemma system_refused_by_handlers:
  "role c = role_name System \<Longrightarrow> admin_auth (Some c) \<and> admin_handler_check c = Inl Forbidden"
  by (simp add: admin_auth_def role_middleware_def admin_handler_check_def)

text \<open>A logged-out token stays on the list as long as it has not expired, whatever tokens are
  revoked afterwards and however often the list is cleaned up.\<close>

lemma revoked_token_remembered:
  assumes "logout api env now t b = Some b'" and "decode_jwt_token api env now t = Some c"
    and "now < exp_time c"
    and "\<forall>(later, j, e)\<in>set revoked. later < exp_time c \<and> (j = jti c \<longrightarrow> e = exp_time c)"
  shows "is_blacklisted (jti c) (revoke_all revoked b')"
proof -
  have "b' = bl_add_token now (jti c) (exp_time c) b" using assms(1,2) by (simp add: logout_def)
  then have "blacklisted_tokens b' (jti c) = Some (exp_time c)" using add_token_new [OF assms(3)] by simp
  from revoke_all_keeps [OF this assms(4)] show ?thesis by (auto simp: is_blacklisted_def)
qed

text \<open>C17. Logging out has no effect on the API: its middleware looks up the token itself in a list
  whose keys are identifiers of tokens, so a token that was just logged out is still accepted with
  all its rights until it expires.\<close>

theorem logout_without_effect:
  assumes "jwt_laws api" and "encode_jwt api (env_secret env) c = Some t" and "now \<le> later" and "later \<le> exp_time c"
    and "\<forall>j\<in>insert (jti c) (dom (blacklisted_tokens b)). CHR ''.'' \<notin> set j"
    and "request ''authorization'' = Some (Text (''Bearer '' @ t))"
  shows "\<exists>b'. logout api env now t b = Some b'
           \<and> into_middleware api later (api_middleware (env_secret env) (\<lambda>_ _. True) b') request = Inr c"
proof -
  have dec: "decode_jwt api now (env_secret env) t = Some c" "decode_jwt api later (env_secret env) t = Some c"
    using jwt_lawsD(1) [OF assms(1,2)] assms(3,4) by auto
  let ?b = "bl_add_token now (jti c) (exp_time c) b"
  have "dom (blacklisted_tokens ?b) \<subseteq> insert (jti c) (dom (blacklisted_tokens b))"
    by (auto simp: bl_add_token_def bl_cleanup_def Let_def split: if_splits option.splits)
  with jwt_lawsD(2) [OF assms(1,2)] assms(5) have "\<not> is_blacklisted t ?b" by (auto simp: is_blacklisted_def)
  with dec assms(6) show ?thesis
    by (auto simp: logout_def decode_jwt_token_def access_iff api_middleware_def)
qed

text \<open>The authentication middleware of the chain accepts every token except one fixed word, and
  makes its bearer the same user, who is an administrator.\<close>

lemma any_token_is_admin:
  assumes "get_text_attribute ''auth_token'' ctx = Some token" and "token \<noteq> ''invalid''"
    and "required_roles am = None \<or> required_roles am = Some rs \<and> ''admin'' \<in> set rs"
  shows "\<exists>u. execute_chain [process_auth am, process_rate_limit, process_logging, process_cors] ctx
               = (ctx\<lparr>ctx_user := Some u\<rparr>, Inr ())
             \<and> ui_username u = ''testuser'' \<and> ''admin'' \<in> set (ui_roles u)"
  using assms by (auto simp: process_auth_def validate_token_def process_rate_limit_def process_logging_def
      process_cors_def list_ex_iff)

section \<open>Concrete runs\<close>

definition demo_claims :: claims where
  "demo_claims = \<lparr> sub = ''ann'', role = ''admin'', wallet_ids = [], exp_time = 5000, nbf = 1000, iat = 1000, jti = ''id1'' \<rparr>"

definition demo_jwt :: jwt where
  "demo_jwt =
     \<lparr> encode_jwt = (\<lambda>secret c. if secret = ''s'' \<and> c = demo_claims then Some ''h.p.s'' else None),
       decode_jwt = (\<lambda>now secret t. if secret = ''s'' \<and> t = ''h.p.s'' \<and> now \<le> 5000 then Some demo_claims else None) \<rparr>"

lemma demo_jwt_laws: "jwt_laws demo_jwt"
  by (simp add: jwt_laws_def demo_jwt_def demo_claims_def)

definition demo_request :: request where
  "demo_request = [''authorization'' \<mapsto> Text ''Bearer h.p.s'']"

theorem issued_token_authorises_witness:
  "admin_route demo_jwt 4000 (api_middleware ''s'' (\<lambda>_ _. True) (new_blacklist 0)) demo_request = Inr demo_claims"
proof -
  let ?m = "api_middleware ''s'' (\<lambda>_ _. True) (new_blacklist 0)"
  have "create_jwt_token demo_jwt (\<lambda>now h. now + 1000 * h) (Some ''s'') ''id1'' 1000 ''ann'' Admin [] 4 = Some ''h.p.s''"
    by (simp add: create_jwt_token_def demo_jwt_def demo_claims_def env_secret_def)
  from issued_token_authorises [OF demo_jwt_laws this, of ?m demo_request 4000]
  have "\<exists>c. into_middleware demo_jwt 4000 ?m demo_request = Inr c \<and> admin_route demo_jwt 4000 ?m demo_request = Inr c"
    by (auto simp: demo_request_def api_middleware_def is_blacklisted_def new_blacklist_def env_secret_def)
  moreover have "into_middleware demo_jwt 4000 ?m demo_request = Inr c \<Longrightarrow> c = demo_claims" for c
    by (auto simp: access_iff demo_jwt_def split: if_splits)
  ultimately show ?thesis by auto
qed

theorem logout_without_effect_witness:
  "\<exists>b'. logout demo_jwt (Some ''s'') 2000 ''h.p.s'' (new_blacklist 0) = Some b'
     \<and> into_middleware demo_jwt 3000 (api_middleware (env_secret (Some ''s'')) (\<lambda>_ _. True) b') demo_request = Inr demo_claims"
  by (rule logout_without_effect [OF demo_jwt_laws])
    (simp_all add: demo_jwt_def demo_claims_def new_blacklist_def demo_request_def env_secret_def)

end
