(* ===== verification/Security.thy ===== *)
theory Security
  imports Prelude
begin

text \<open>
  The basic security service of \<^verbatim>\<open>common/src/security.rs\<close>: encryption, decryption, signature and
  verification, each an exclusive or of the data with a repeated key. An empty key makes the index
  computation panic as soon as there is a byte to process.
\<close>

unbundle bit_operations_syntax

section \<open>The service\<close>

record security_config =
  encryption_key :: "u8 list"
  signing_key :: "u8 list"

text \<open>The loop all four operations share.\<close>

definition xor_loop :: "u8 list \<Rightarrow> u8 list \<Rightarrow> u8 list res" where
  "xor_loop key data =
     (if key = [] \<and> data \<noteq> [] then Inl DivByZero
      else Inr (map (\<lambda>(i, byte). byte XOR key ! (i mod length key)) (List.enumerate 0 data)))"

definition encrypt :: "security_config \<Rightarrow> u8 list \<Rightarrow> u8 list res" where
  "encrypt config data = xor_loop (encryption_key config) data"

definition decrypt :: "security_config \<Rightarrow> u8 list \<Rightarrow> u8 list res" where
  "decrypt config data = xor_loop (encryption_key config) data"

definition sign :: "security_config \<Rightarrow> u8 list \<Rightarrow> u8 list res" where
  "sign config data = xor_loop (signing_key config) data"

definition verify :: "security_config \<Rightarrow> u8 list \<Rightarrow> u8 list \<Rightarrow> bool res" where
  "verify config data signature = rbind (xor_loop (signing_key config) data) (\<lambda>expected. Inr (expected = signature))"

section \<open>Lemmas\<close>

lemma xor_loop_Inr:
  "xor_loop key data = Inr r \<longleftrightarrow>
     (data = [] \<or> key \<noteq> []) \<and> length r = length data \<and> (\<forall>i<length data. r ! i = data ! i XOR key ! (i mod length key))"
proof -
  let ?xs = "map (\<lambda>(i, byte). byte XOR key ! (i mod length key)) (List.enumerate 0 data)"
  have "r = ?xs \<longleftrightarrow> length r = length data \<and> (\<forall>i<length data. r ! i = data ! i XOR key ! (i mod length key))"
    unfolding list_eq_iff_nth_eq [of r] by (auto simp: nth_enumerate_eq)
  moreover have "xor_loop key data = Inr r \<longleftrightarrow> (data = [] \<or> key \<noteq> []) \<and> r = ?xs"
    unfolding xor_loop_def by (cases "key = [] \<and> data \<noteq> []") auto
  ultimately show ?thesis by blast
qed

lemma xor_loop_twice: "xor_loop key data = Inr r \<Longrightarrow> xor_loop key r = Inr data"
  by (auto simp: xor_loop_Inr xor.assoc)

text \<open>What an observer of one signature computes for another message.\<close>

definition forge :: "u8 list \<Rightarrow> u8 list \<Rightarrow> u8 list \<Rightarrow> u8 list" where
  "forge data signature other = map2 (XOR) other (map2 (XOR) data signature)"

lemma sign_forge:
  assumes "sign config data = Inr s" and "length other \<le> length data"
  shows "sign config other = Inr (forge data s other)"
proof -
  from assms(1) have s: "data = [] \<or> signing_key config \<noteq> []" "length s = length data"
    "\<forall>i<length data. s ! i = data ! i XOR signing_key config ! (i mod length (signing_key config))"
    by (simp_all add: sign_def xor_loop_Inr)
  with assms(2) have "other = [] \<or> signing_key config \<noteq> []" by auto
  moreover have "data ! i XOR s ! i = signing_key config ! (i mod length (signing_key config))" if "i < length other" for i
    using s(3) that assms(2) by (simp add: xor.assoc [symmetric])
  ultimately show ?thesis using s(2) assms(2) by (simp add: sign_def xor_loop_Inr forge_def)
qed

section \<open>Properties\<close>

text \<open>Decryption undoes encryption; the only failure is an empty key with data to encrypt, which
  panics.\<close>

lemma security_roundtrip:
  "rbind (encrypt config data) (decrypt config)
     = (if encryption_key config = [] \<and> data \<noteq> [] then Inl DivByZero else Inr data)"
proof (cases "xor_loop (encryption_key config) data")
  case (Inl e)
  then show ?thesis by (auto simp: encrypt_def xor_loop_def split: if_splits)
next
  case (Inr r)
  moreover from Inr have "\<not> (encryption_key config = [] \<and> data \<noteq> [])" by (simp only: xor_loop_Inr) blast
  ultimately show ?thesis using xor_loop_twice [OF Inr] by (simp add: encrypt_def decrypt_def del: de_Morgan_conj)
qed

text \<open>A signature protects nothing: from one signed message anyone computes, without the key,
  a signature that verifies for any message no longer than it.\<close>

lemma signature_forgeable:
  assumes "sign config data = Inr s" and "length other \<le> length data"
  shows "verify config other (forge data s other) = Inr True"
  using sign_forge [OF assms] by (simp add: verify_def sign_def)

end
