(* ===== verification/Texts.thy ===== *)
theory Texts
  imports Prelude
begin

text \<open>
  Parsing and splitting of texts as Rust does it: unsigned integers, \<open>split\<close>, and the search for a
  text in one that is built around a number.
\<close>

section \<open>Unsigned integers\<close>

definition is_digit :: "char \<Rightarrow> bool" where
  "is_digit c \<longleftrightarrow> 48 \<le> (of_char c :: nat) \<and> (of_char c :: nat) < 58"

definition digits_value :: "string \<Rightarrow> nat" where
  "digits_value = foldl (\<lambda>n c. 10 * n + (of_char c - 48)) 0"

text \<open>\<open>str::parse\<close> of an unsigned type with the given bound: digits after an optional plus sign.\<close>

definition parse_uint :: "nat \<Rightarrow> string \<Rightarrow> nat option" where
  "parse_uint bound s =
     (let ds = (case s of c # cs \<Rightarrow> if c = CHR ''+'' then cs else s | [] \<Rightarrow> [])
      in if ds \<noteq> [] \<and> list_all is_digit ds \<and> digits_value ds < bound then Some (digits_value ds) else None)"

lemma digit_char [simp]: "n < 10 \<Longrightarrow> is_digit (char_of (48 + n))" "n < 10 \<Longrightarrow> of_char (char_of (48 + n :: nat)) = 48 + n"
  by (simp_all add: is_digit_def)

lemma show_nat_digits: "show_nat n \<noteq> [] \<and> list_all is_digit (show_nat n) \<and> digits_value (show_nat n) = n"
proof (induction n rule: less_induct)
  case (less n)
  show ?case
  proof (cases "n < 10")
    case True
    then show ?thesis by (subst (1 2 3) show_nat.simps) (simp add: digits_value_def)
  next
    case False
    then have "n div 10 < n" "n mod 10 < 10" by simp_all
    with less.IH [of "n div 10"] False show ?thesis
      by (subst (1 2 3) show_nat.simps) (simp add: digits_value_def)
  qed
qed

lemma is_digit_not: "\<not> is_digit (CHR ''+'')" "\<not> is_digit (CHR ''.'')" "\<not> is_digit (CHR '' '')"
  by (simp_all add: is_digit_def)

lemma parse_show: "n < bound \<Longrightarrow> parse_uint bound (show_nat n) = Some n"
  using show_nat_digits [of n] is_digit_not(1)
  by (auto simp: parse_uint_def Let_def split: list.splits)

section \<open>Splitting\<close>

text \<open>\<open>split\<close> at a character: all parts, and at least one.\<close>

fun split_on :: "char \<Rightarrow> string \<Rightarrow> string list" where
  "split_on sep [] = [[]]"
| "split_on sep (c # cs) =
     (if c = sep then [] # split_on sep cs
      else case split_on sep cs of p # ps \<Rightarrow> (c # p) # ps | [] \<Rightarrow> [[c]])"

lemma split_on_first: "sep \<notin> set p \<Longrightarrow> split_on sep (p @ sep # s) = p # split_on sep s"
  by (induction p) auto

lemma split_on_last: "sep \<notin> set p \<Longrightarrow> split_on sep p = [p]"
  by (induction p) auto

text \<open>\<open>split(p).nth(1)\<close> for a text \<open>p\<close>: what lies between its first two occurrences.\<close>

fun after_first :: "string \<Rightarrow> string \<Rightarrow> string option" where
  "after_first p [] = None"
| "after_first p (c # cs) =
     (if take (length p) (c # cs) = p then Some (drop (length p) (c # cs)) else after_first p cs)"

fun before_first :: "string \<Rightarrow> string \<Rightarrow> string" where
  "before_first p [] = []"
| "before_first p (c # cs) = (if take (length p) (c # cs) = p then [] else c # before_first p cs)"

definition split_second :: "string \<Rightarrow> string \<Rightarrow> string option" where
  "split_second p s = map_option (before_first p) (after_first p s)"

text \<open>Splitting and joining are inverse to each other.\<close>

fun join_with :: "char \<Rightarrow> string list \<Rightarrow> string" where
  "join_with sep [] = []"
| "join_with sep [p] = p"
| "join_with sep (p # ps) = p @ sep # join_with sep ps"

lemma split_on_not_Nil [simp]: "split_on sep s \<noteq> []"
  by (cases s) (auto split: list.split)

lemma join_split: "join_with sep (split_on sep s) = s"
proof (induction s)
  case (Cons c s)
  then show ?case by (cases "split_on sep s") (auto simp: neq_Nil_conv split: list.splits, (cases "tl (split_on sep s)"; auto)+)
qed simp

lemma split_parts: "\<forall>p\<in>set (split_on sep s). sep \<notin> set p"
  by (induction s) (auto split: list.splits)

lemma split_join: "ps \<noteq> [] \<Longrightarrow> \<forall>p\<in>set ps. sep \<notin> set p \<Longrightarrow> split_on sep (join_with sep ps) = ps"
  by (induction sep ps rule: join_with.induct) (auto simp: split_on_last split_on_first)

lemma split_on_iff:
  "split_on sep s = ps \<longleftrightarrow> ps \<noteq> [] \<and> (\<forall>p\<in>set ps. sep \<notin> set p) \<and> s = join_with sep ps"
  using split_join join_split split_parts split_on_not_Nil by metis

text \<open>A text of digits without a leading zero is the rendering of its value.\<close>

lemma show_digits:
  "s \<noteq> [] \<Longrightarrow> list_all is_digit s \<Longrightarrow> length s = 1 \<or> hd s \<noteq> CHR ''0'' \<Longrightarrow> show_nat (digits_value s) = s"
proof (induction s rule: rev_induct)
  case (snoc c s)
  have v: "digits_value (s @ [c]) = 10 * digits_value s + (of_char c - 48)" by (simp add: digits_value_def)
  have c: "of_char c - 48 < (10 :: nat)" "char_of (48 + (of_char c - 48 :: nat)) = c"
    using snoc.prems(2) by (auto simp: is_digit_def)
  show ?case
  proof (cases "s = []")
    case True
    with v c show ?thesis by (subst show_nat.simps) (simp add: digits_value_def)
  next
    case False
    then have hd: "hd s \<noteq> CHR ''0''" using snoc.prems(3) by simp
    with snoc.IH False snoc.prems(2) have IH: "show_nat (digits_value s) = s" by simp
    have "digits_value s \<noteq> 0"
    proof
      assume "digits_value s = 0"
      moreover have "show_nat 0 = ''0''" by code_simp
      ultimately have "s = ''0''" using IH by metis
      with hd show False by simp
    qed
    then have "\<not> digits_value (s @ [c]) < 10" using v by simp
    moreover have "digits_value (s @ [c]) div 10 = digits_value s" "digits_value (s @ [c]) mod 10 = of_char c - 48"
      using v c(1) by simp_all
    ultimately show ?thesis using IH c(2) by (subst show_nat.simps) simp
  qed
qed simp

lemma digits_no: "c \<in> set (show_nat n) \<Longrightarrow> is_digit c"
  using show_nat_digits [of n] by (simp add: list_all_iff)

lemma show_nat_head: "length (show_nat n) = 1 \<or> hd (show_nat n) \<noteq> CHR ''0''"
proof (induction n rule: less_induct)
  case (less n)
  show ?case
  proof (cases "n < 10")
    case True
    then show ?thesis by (subst show_nat.simps) simp
  next
    case False
    then have n: "show_nat n = show_nat (n div 10) @ [char_of (48 + n mod 10)]" by (subst show_nat.simps) simp
    have ne: "show_nat (n div 10) \<noteq> []" using show_nat_digits by blast
    show ?thesis
    proof (cases "n div 10 < 10")
      case True
      obtain k where k: "k = n div 10" by simp
      with True False have "k < 10" "0 < k" by auto
      then have "of_char (char_of (48 + n div 10)) \<noteq> (48 :: nat)" unfolding k [symmetric] by simp
      moreover have "show_nat (n div 10) = [char_of (48 + n div 10)]"
        using \<open>k < 10\<close> unfolding k [symmetric] by (subst show_nat.simps) simp
      moreover have "of_char (CHR ''0'') = (48 :: nat)" by simp
      ultimately show ?thesis using n by (metis append_Cons list.sel(1))
    next
      case big: False
      then have "length (show_nat (n div 10)) \<noteq> 1"
        by (subst show_nat.simps) (use show_nat_digits [of "n div 10 div 10"] in simp)
      with less.IH [of "n div 10"] False have "hd (show_nat (n div 10)) \<noteq> CHR ''0''" by simp
      with n ne show ?thesis by simp
    qed
  qed
qed

section \<open>Searching around a number\<close>

text \<open>A text without digits is found in \<open>u @ ds @ v\<close> only within \<open>u\<close> or within \<open>v\<close>.\<close>

lemma contains_str_around:
  assumes "ds \<noteq> []" and "list_all is_digit ds" and "p \<noteq> []" and "list_all (\<lambda>c. \<not> is_digit c) p"
  shows "contains_str (u @ ds @ v) p \<longleftrightarrow> contains_str u p \<or> contains_str v p"
proof
  assume "contains_str (u @ ds @ v) p"
  then obtain a b where e: "u @ ds @ v = a @ p @ b" by (auto simp: contains_str_iff)
  obtain d where d: "d \<in> set ds" "is_digit d" using assms(1,2) by (cases ds) auto
  have nop: "\<And>c. c \<in> set p \<Longrightarrow> \<not> is_digit c" using assms(4) by (simp add: list_all_iff)
  show "contains_str u p \<or> contains_str v p"
  proof (cases "length a + length p \<le> length u")
    case True
    have "take (length a + length p) (u @ ds @ v) = a @ p" unfolding e by simp
    with True have "take (length a + length p) u = a @ p" by simp
    then have "u = a @ p @ drop (length a + length p) u" by (metis append_assoc append_take_drop_id)
    then show ?thesis by (auto simp: contains_str_iff)
  next
    case False
    show ?thesis
    proof (cases "length u + length ds \<le> length a")
      case True
      have "drop (length u + length ds) (u @ ds @ v) = drop (length u + length ds) a @ p @ b"
        unfolding e using True by simp
      then have "v = drop (length u + length ds) a @ p @ b" by simp
      then show ?thesis by (auto simp: contains_str_iff)
    next
      case inside: False
      obtain i where i: "length a \<le> i" "i < length a + length p" "length u \<le> i" "i < length u + length ds"
      proof (cases "length a \<le> length u")
        case True
        from True False assms(1) show ?thesis by (intro that [of "length u"]) auto
      next
        case a: False
        from a inside assms(3) show ?thesis by (intro that [of "length a"]) auto
      qed
      have "i - length a < length p" "i - length u < length ds" using i by linarith+
      then have "(a @ p @ b) ! i = p ! (i - length a)" using i(1) by (simp add: nth_append)
      moreover have "(u @ ds @ v) ! i = ds ! (i - length u)"
        using i(3) \<open>i - length u < length ds\<close> by (simp add: nth_append)
      ultimately have "p ! (i - length a) = ds ! (i - length u)" using e by simp
      moreover have "\<not> is_digit (p ! (i - length a))" using i by (intro nop nth_mem) simp
      moreover have "is_digit (ds ! (i - length u))" using i assms(2) by (simp add: list_all_length)
      ultimately show ?thesis by simp
    qed
  qed
next
  assume "contains_str u p \<or> contains_str v p"
  then obtain a b where "u = a @ p @ b \<or> v = a @ p @ b" by (auto simp: contains_str_iff)
  then show "contains_str (u @ ds @ v) p"
  proof
    assume "u = a @ p @ b"
    then have "u @ ds @ v = a @ p @ (b @ ds @ v)" by simp
    then show ?thesis unfolding contains_str_iff by blast
  next
    assume "v = a @ p @ b"
    then have "u @ ds @ v = (u @ ds @ a) @ p @ b" by simp
    then show ?thesis unfolding contains_str_iff by blast
  qed
qed

lemma contains_str_number:
  "p \<noteq> [] \<Longrightarrow> list_all (\<lambda>c. \<not> is_digit c) p
     \<Longrightarrow> contains_str (u @ show_nat n @ v) p \<longleftrightarrow> contains_str u p \<or> contains_str v p"
  using show_nat_digits [of n] by (intro contains_str_around) simp_all

end
