(* ===== verification/ChainErrors.thy ===== *)
theory ChainErrors
  imports Texts
begin

text \<open>
  Errors of the chain adapters: the error type of \<^verbatim>\<open>snipebot/src/chain_adapters/interfaces.rs\<close>, its
  texts, its classification from texts there and in \<^verbatim>\<open>error_handler.rs\<close>, and what is retried. A hash
  is its text; whether a text is one is the parameter \<open>parse_hash\<close>.
\<close>

section \<open>The errors and their texts\<close>

datatype chain_error =
    ConnectionError string
  | TimeoutError u64
  | RateLimitExceeded string
  | TransactionError string
  | GasEstimationError string
  | NonceError string
  | InvalidChainId u64
  | UnsupportedOperation string
  | ContractCallError string
  | TokenError string
  | ABIDecodeError string
  | CircuitBreakerTriggered string
  | ProviderNotAvailable
  | WalletNotConfigured
  | UserCancelled
  | UnsupportedChain u64
  | InvalidAddress string
  | ContractError string
  | ApprovalError string
  | InsufficientBalance string
  | InvalidSignature string
  | BlockNotFound string
  | ReceiptNotFound string
  | InsufficientGas string
  | Revert string
  | Underpriced
  | GasCap
  | TransactionNotFound string
  | ContractNotFound string
  | MaxRetryReached string
  | Unknown string

fun display :: "chain_error \<Rightarrow> string" where
  "display (ConnectionError m) = ''Connection error: '' @ m"
| "display (TimeoutError n) = ''Request timed out after '' @ show_nat (unat n) @ '' ms''"
| "display (RateLimitExceeded m) = ''Rate limit exceeded for endpoint: '' @ m"
| "display (TransactionError m) = ''Transaction error: '' @ m"
| "display (GasEstimationError m) = ''Gas estimation failed: '' @ m"
| "display (NonceError m) = ''Nonce error: '' @ m"
| "display (InvalidChainId n) = ''Invalid chain ID: '' @ show_nat (unat n)"
| "display (UnsupportedOperation m) = ''Unsupported operation: '' @ m"
| "display (ContractCallError m) = ''Contract call error: '' @ m"
| "display (TokenError m) = ''Token error: '' @ m"
| "display (ABIDecodeError m) = ''ABI decode error: '' @ m"
| "display (CircuitBreakerTriggered m) = ''Circuit breaker triggered: '' @ m"
| "display ProviderNotAvailable = ''Provider not available''"
| "display WalletNotConfigured = ''Wallet not configured''"
| "display UserCancelled = ''Cancelled by user''"
| "display (UnsupportedChain n) = ''Unsupported chain: '' @ show_nat (unat n)"
| "display (InvalidAddress m) = ''Invalid address: '' @ m"
| "display (ContractError m) = ''Contract error: '' @ m"
| "display (ApprovalError m) = ''Approval error: '' @ m"
| "display (InsufficientBalance m) = ''Insufficient balance: '' @ m"
| "display (InvalidSignature m) = ''Invalid signature: '' @ m"
| "display (BlockNotFound m) = ''Block not found: '' @ m"
| "display (ReceiptNotFound h) = ''Transaction receipt not found: '' @ h"
| "display (InsufficientGas m) = ''Insufficient gas: '' @ m"
| "display (Revert m) = ''Transaction reverted: '' @ m"
| "display Underpriced = ''Transaction underpriced''"
| "display GasCap = ''Gas price exceeds cap''"
| "display (TransactionNotFound m) = ''Transaction not found: '' @ m"
| "display (ContractNotFound m) = ''Contract not found: '' @ m"
| "display (MaxRetryReached m) = ''Maximum retry attempts reached: '' @ m"
| "display (Unknown m) = ''Unknown error: '' @ m"

section \<open>Classification\<close>

text \<open>The digits up to the first other character, as a \<open>u64\<close>.\<close>

definition extract_chain_id :: "string \<Rightarrow> u64 option" where
  "extract_chain_id s =
     (case (case split_second ''chain id '' s of
              Some i \<Rightarrow> Some i
            | None \<Rightarrow> (case split_second ''chain: '' s of Some i \<Rightarrow> Some i | None \<Rightarrow> split_second ''chainId: '' s)) of
        Some i \<Rightarrow> map_option of_nat (parse_uint (2 ^ 64) (if list_all is_digit i then i else takeWhile is_digit i))
      | None \<Rightarrow> None)"

text \<open>An error that already is one of the chain is passed on; any other by its text.\<close>

definition classify :: "(string \<Rightarrow> string option) \<Rightarrow> string \<Rightarrow> chain_error" where
  "classify parse_hash s =
     (let has = contains_str s in
      if has ''could not connect to server'' \<or> has ''connection error'' then ConnectionError s
      else if has ''rate limit'' then RateLimitExceeded s
      else if has ''nonce too low'' \<or> has ''nonce'' then NonceError s
      else if has ''gas required exceeds'' \<or> has ''gas price'' then GasEstimationError s
      else if has ''timeout'' then TimeoutError 30000
      else if has ''transaction'' then TransactionError s
      else if has ''contract call'' \<or> has ''execution reverted'' then ContractCallError s
      else if has ''token'' then TokenError s
      else if has ''decode'' \<or> has ''encode'' then ABIDecodeError s
      else if has ''unsupported chain'' then
        (case extract_chain_id s of Some i \<Rightarrow> UnsupportedChain i | None \<Rightarrow> UnsupportedOperation s)
      else if has ''invalid address'' then InvalidAddress s
      else if has ''insufficient funds'' \<or> has ''insufficient balance'' then InsufficientBalance s
      else if has ''approval'' then ApprovalError s
      else if has ''signature'' then InvalidSignature s
      else if has ''block not found'' then BlockNotFound s
      else if has ''receipt not found'' then
        (case Option.bind (split_second ''receipt not found for '' s) parse_hash of
           Some h \<Rightarrow> ReceiptNotFound h
         | None \<Rightarrow> TransactionError s)
      else if has ''reverted'' then Revert s
      else if has ''underpriced'' then Underpriced
      else if has ''gas required exceeds'' then InsufficientGas s
      else if has ''gas cap'' then GasCap
      else if has ''max retry'' then MaxRetryReached s
      else if has ''rpc'' then ConnectionError s
      else Unknown s)"

definition from_anyhow :: "(string \<Rightarrow> string option) \<Rightarrow> chain_error + string \<Rightarrow> chain_error" where
  "from_anyhow parse_hash err = (case err of Inl e \<Rightarrow> e | Inr s \<Rightarrow> classify parse_hash s)"

fun is_gas_related :: "chain_error \<Rightarrow> bool" where
  "is_gas_related (GasEstimationError m) = True"
| "is_gas_related (InsufficientGas m) = True"
| "is_gas_related Underpriced = True"
| "is_gas_related GasCap = True"
| "is_gas_related _ = False"

fun is_retryable :: "chain_error \<Rightarrow> bool" where
  "is_retryable (ConnectionError m) = True"
| "is_retryable (TimeoutError n) = True"
| "is_retryable (RateLimitExceeded m) = True"
| "is_retryable ProviderNotAvailable = True"
| "is_retryable Underpriced = True"
| "is_retryable _ = False"

text \<open>The second classification, of \<^verbatim>\<open>error_handler.rs\<close>.\<close>

definition parse_error_message :: "string \<Rightarrow> chain_error" where
  "parse_error_message s =
     (let has = contains_str s in
      if has ''insufficient funds'' \<or> has ''gas required exceeds allowance'' then InsufficientGas s
      else if has ''nonce too low'' \<or> has ''nonce too high'' then NonceError s
      else if has ''underpriced'' \<or> has ''gas price too low'' then Underpriced
      else if has ''reverted'' then Revert s
      else if has ''connection'' \<or> has ''network'' then ConnectionError s
      else if has ''timed out'' \<or> has ''timeout'' then TimeoutError 30000
      else if has ''rate limit'' \<or> has ''too many requests'' then RateLimitExceeded s
      else if has ''not found'' \<and> has ''block'' then BlockNotFound s
      else if has ''not found'' \<and> has ''transaction'' then TransactionNotFound s
      else if has ''not found'' \<and> has ''contract'' then ContractNotFound s
      else if has ''circuit breaker'' then CircuitBreakerTriggered s
      else if has ''max retry'' \<or> has ''retry limit'' then MaxRetryReached s
      else if has ''invalid transaction'' then TransactionError s
      else if has ''gas cap'' \<or> has ''gas limit exceeded'' then GasCap
      else Unknown s)"

text \<open>The number of attempts in the text of a \<open>MaxRetryReached\<close>: the word after the first \<open>after\<close>.\<close>

fun retry_count :: "chain_error \<Rightarrow> nat option" where
  "retry_count (MaxRetryReached m) =
     (case split_second ''after'' m of
        Some s \<Rightarrow> parse_uint (2 ^ 64) (hd (split_on (CHR '' '') (trim s)))
      | None \<Rightarrow> None)"
| "retry_count _ = None"

section \<open>Properties\<close>

text \<open>Classifying by text loses what can be retried: a text that mentions a transaction and none of
  the five earlier words is a transaction error, which is not retried, whatever it says further on;
  so a replacement that was underpriced is not retried by one classification and retried by the
  other.\<close>

lemma transaction_text_not_retried:
  assumes "contains_str s ''transaction''"
    and "\<not> (contains_str s ''could not connect to server'' \<or> contains_str s ''connection error'' \<or> contains_str s ''rate limit''
          \<or> contains_str s ''nonce'' \<or> contains_str s ''gas required exceeds'' \<or> contains_str s ''gas price'' \<or> contains_str s ''timeout'')"
    and "contains_str s ''underpriced''"
    and "\<not> (contains_str s ''insufficient funds'' \<or> contains_str s ''nonce too low'' \<or> contains_str s ''nonce too high'')"
  shows "\<not> is_retryable (from_anyhow parse_hash (Inr s)) \<and> is_retryable (parse_error_message s)"
proof -
  have "contains_str s ''gas required exceeds'' \<or> \<not> contains_str s ''gas required exceeds allowance''"
  proof (cases "contains_str s ''gas required exceeds allowance''")
    case True
    then obtain u v where "s = u @ ''gas required exceeds allowance'' @ v" by (auto simp: contains_str_iff)
    then have "s = u @ ''gas required exceeds'' @ ('' allowance'' @ v)" by simp
    then show ?thesis unfolding contains_str_iff by blast
  qed simp
  moreover have "contains_str s ''nonce'' \<or> \<not> contains_str s ''nonce too low''" using assms(4) by blast
  ultimately show ?thesis using assms
    by (simp add: from_anyhow_def classify_def parse_error_message_def Let_def del: contains_str.simps)
qed

text \<open>A timeout can be retried, but not once it has gone through its own text: the classification
  looks for another word than the text contains, and the error handler's only finds the word.\<close>

lemma timeout_lost_in_text:
  "is_retryable (TimeoutError n)
   \<and> from_anyhow parse_hash (Inr (display (TimeoutError n))) = Unknown (display (TimeoutError n))
   \<and> parse_error_message (display (TimeoutError n)) = TimeoutError 30000"
proof -
  have has: "contains_str (display (TimeoutError n)) p
      \<longleftrightarrow> contains_str ''Request timed out after '' p \<or> contains_str '' ms'' p"
    if "p \<noteq> []" "list_all (\<lambda>c. \<not> is_digit c) p" for p
    unfolding display.simps by (rule contains_str_number [OF that])
  show ?thesis
    by (simp add: from_anyhow_def classify_def parse_error_message_def Let_def has is_digit_def del: display.simps)
qed

text \<open>The classification by text never yields an insufficient gas error: its branch asks for a text
  that an earlier branch has taken.\<close>

lemma insufficient_gas_unreachable: "from_anyhow parse_hash (Inr s) \<noteq> InsufficientGas m"
  by (simp add: from_anyhow_def classify_def Let_def split: option.splits)

end
