(* ===== verification/Extensions.thy ===== *)
theory Extensions
  imports Texts
begin

text \<open>
  Extensions of a slave node, \<^verbatim>\<open>network/slave_node/src/extension_system.rs\<close>: version numbers and their
  compatibility, and the mempool monitor with its statistics, alerts, messages and configuration.
  The monitor invents its data (the code says so): the random numbers are arguments. The periodic
  task is a sequence of \<open>monitor_chain\<close> steps. \<open>f64\<close> values are left out. A statistics record is
  serialised by the parameter \<open>to_vec\<close>.
\<close>

section \<open>Versions\<close>

record version =
  major :: u32
  minor :: u32
  patch :: u32

definition version_to_string :: "version \<Rightarrow> string" where
  "version_to_string v =
     show_nat (unat (major v)) @ ''.'' @ show_nat (unat (minor v)) @ ''.'' @ show_nat (unat (patch v))"

datatype version_error = Invalid_format | Not_a_number

definition parse_u32 :: "string \<Rightarrow> version_error + u32" where
  "parse_u32 s = (case parse_uint (2 ^ 32) s of Some n \<Rightarrow> Inr (of_nat n) | None \<Rightarrow> Inl Not_a_number)"

definition version_from_string :: "string \<Rightarrow> version_error + version" where
  "version_from_string s =
     (case split_on (CHR ''.'') s of
        [a, b, c] \<Rightarrow>
          rbind (parse_u32 a) (\<lambda>ma. rbind (parse_u32 b) (\<lambda>mi. rbind (parse_u32 c) (\<lambda>pa.
            Inr \<lparr> major = ma, minor = mi, patch = pa \<rparr>)))
      | _ \<Rightarrow> Inl Invalid_format)"

definition is_compatible_with :: "version \<Rightarrow> version \<Rightarrow> bool" where
  "is_compatible_with self other =
     (if major self \<noteq> major other then False
      else if minor self < minor other then False
      else True)"

section \<open>The mempool monitor\<close>

datatype congestion_level = Low | Medium | High | Extreme

record gas_price_stats =
  avg_gas_price :: u64
  min_gas_price :: u64
  max_gas_price :: u64
  median_gas_price :: u64

record mempool_stats =
  stats_chain :: u64
  pending_transactions :: u64
  gas_stats :: gas_price_stats
  congestion :: congestion_level
  stats_timestamp :: u64

record monitor_config =
  monitor_interval_sec :: u64
  alert_threshold :: u64
  chains_to_monitor :: "u64 list"

definition default_monitor_config :: monitor_config where
  "default_monitor_config =
     \<lparr> monitor_interval_sec = 30, alert_threshold = 5000, chains_to_monitor = [1, 56, 137] \<rparr>"

text \<open>The context an extension is initialised with; the monitor writes to its storage.\<close>

record mempool_monitor =
  mon_config :: monitor_config
  context_storage :: "(string \<rightharpoonup> string) option"
  mon_stats :: "u64 \<rightharpoonup> mempool_stats"
  running :: bool

definition new_monitor :: mempool_monitor where
  "new_monitor =
     \<lparr> mon_config = default_monitor_config, context_storage = None, mon_stats = Map.empty, running = False \<rparr>"

text \<open>\<open>r4\<close> is a random \<open>i64\<close>; the conversion of the negative remainder to \<open>u64\<close> wraps.\<close>

definition fetch_mempool_stats ::
    "u64 \<Rightarrow> u64 \<Rightarrow> u64 \<Rightarrow> u64 \<Rightarrow> int \<Rightarrow> u64 \<Rightarrow> mempool_stats" where
  "fetch_mempool_stats r1 r2 r3 chain_id r4 now =
     (let pending_tx =
            (if chain_id = 1 then 3000 + r1 mod 5000
             else if chain_id = 56 then 8000 + r1 mod 10000
             else if chain_id = 137 then 4000 + r1 mod 3000
             else 1000 + r1 mod 2000);
          min_gas = 10 + r2 mod 30;
          max_gas = min_gas + 50 + r3 mod 100;
          avg_gas = min_gas + (max_gas - min_gas) div 2;
          median_gas = avg_gas + word_of_int ((if r4 < 0 then - (- r4 mod 20) else r4 mod 20) - 10)
      in \<lparr> stats_chain = chain_id, pending_transactions = pending_tx,
           gas_stats = \<lparr> avg_gas_price = avg_gas, min_gas_price = min_gas, max_gas_price = max_gas,
                         median_gas_price = median_gas \<rparr>,
           congestion = (if pending_tx < 2000 then Low else if pending_tx < 5000 then Medium
                         else if pending_tx < 10000 then High else Extreme),
           stats_timestamp = now \<rparr>)"

definition check_and_alert :: "(mempool_stats \<Rightarrow> string) \<Rightarrow> mempool_stats \<Rightarrow> mempool_monitor \<Rightarrow> mempool_monitor" where
  "check_and_alert to_vec stats self =
     (if alert_threshold (mon_config self) < pending_transactions stats
      then (case context_storage self of
              Some storage \<Rightarrow>
                self\<lparr>context_storage := Some (storage
                  (''alert:'' @ show_nat (unat (stats_chain stats)) @ '':'' @ show_nat (unat (stats_timestamp stats))
                     \<mapsto> to_vec stats))\<rparr>
            | None \<Rightarrow> self)
      else self)"

text \<open>
  \<open>clone\<close> makes the copy the monitoring task works on: same configuration, no context. A step of
  the task for a chain updates the shared statistics and then checks for an alert on the copy.
\<close>

definition clone_monitor :: "mempool_monitor \<Rightarrow> mempool_monitor" where
  "clone_monitor self = self\<lparr>context_storage := None, mon_stats := Map.empty\<rparr>"

definition monitor_chain ::
    "(mempool_stats \<Rightarrow> string) \<Rightarrow> mempool_stats \<Rightarrow> mempool_monitor \<times> mempool_monitor \<Rightarrow> mempool_monitor \<times> mempool_monitor" where
  "monitor_chain to_vec chain_stats s =
     (case s of (self, task) \<Rightarrow>
        (self\<lparr>mon_stats := (mon_stats self)(stats_chain chain_stats \<mapsto> chain_stats)\<rparr>,
         check_and_alert to_vec chain_stats task))"

definition init_monitor :: "monitor_config option \<Rightarrow> (string \<rightharpoonup> string) \<Rightarrow> mempool_monitor \<Rightarrow> mempool_monitor" where
  "init_monitor config storage self =
     (let self = self\<lparr>context_storage := Some storage\<rparr>
      in case config of Some c \<Rightarrow> self\<lparr>mon_config := c\<rparr> | None \<Rightarrow> self)"

definition start_monitoring :: "mempool_monitor \<Rightarrow> mempool_monitor \<times> mempool_monitor" where
  "start_monitoring self = (let self = self\<lparr>running := True\<rparr> in (self, clone_monitor self))"

definition stop_monitoring :: "mempool_monitor \<Rightarrow> mempool_monitor" where
  "stop_monitoring self = self\<lparr>running := False\<rparr>"

datatype reply = All_stats "u64 \<rightharpoonup> mempool_stats" | Chain_stats mempool_stats

definition starts_with :: "string \<Rightarrow> string \<Rightarrow> bool" where
  "starts_with p s \<longleftrightarrow> take (length p) s = p"

definition handle_message :: "string \<Rightarrow> mempool_monitor \<Rightarrow> reply option" where
  "handle_message message self =
     (if message = ''get_stats'' then Some (All_stats (mon_stats self))
      else if starts_with ''get_chain_stats:'' message then
        (case split_on (CHR '':'') message of
           a # b # ps \<Rightarrow>
             (case parse_uint (2 ^ 64) b of
                Some chain_id \<Rightarrow> map_option Chain_stats (mon_stats self (of_nat chain_id))
              | None \<Rightarrow> None)
         | _ \<Rightarrow> None)
      else None)"

text \<open>The second result: the monitoring task was started again.\<close>

definition update_config :: "monitor_config option \<Rightarrow> mempool_monitor \<Rightarrow> mempool_monitor \<times> bool" where
  "update_config config self =
     (case config of
        Some c \<Rightarrow>
          (let restart_required = (monitor_interval_sec (mon_config self) \<noteq> monitor_interval_sec c
                                   \<or> chains_to_monitor (mon_config self) \<noteq> chains_to_monitor c);
               self = self\<lparr>mon_config := c\<rparr>
           in if restart_required \<and> running self
              then (fst (start_monitoring (stop_monitoring self)), True) else (self, False))
      | None \<Rightarrow> (self, False))"

section \<open>Lemmas\<close>

lemma no_dot: "CHR ''.'' \<notin> set (show_nat n)" "CHR '':'' \<notin> set (show_nat n)"
  using show_nat_digits [of n] by (auto simp: list_all_iff is_digit_def dest!: bspec)

lemma parse_u32_show: "parse_u32 (show_nat (unat (w :: u32))) = Inr w"
proof -
  have "unat w < 2 ^ 32" using unsigned_less [of w] by simp
  from parse_show [OF this] show ?thesis by (simp add: parse_u32_def)
qed

text \<open>Compatibility is a preorder, and blind to the patch number.\<close>

lemma compatibility_preorder:
  "is_compatible_with v v"
  "is_compatible_with u v \<Longrightarrow> is_compatible_with v w \<Longrightarrow> is_compatible_with u w"
  "is_compatible_with (u\<lparr>patch := p\<rparr>) (v\<lparr>patch := q\<rparr>) = is_compatible_with u v"
  by (auto simp: is_compatible_with_def split: if_splits)

lemma rem_bound:
  fixes r :: int
  shows "- 19 \<le> (if r < 0 then - (- r mod 20) else r mod 20) \<and> (if r < 0 then - (- r mod 20) else r mod 20) \<le> 19"
  using pos_mod_bound [of 20 r] pos_mod_sign [of 20 r] pos_mod_bound [of 20 "- r"] pos_mod_sign [of 20 "- r"]
  by auto

lemma unat_add_small: "unat a + unat b < 2 ^ 64 \<Longrightarrow> unat (a + b :: u64) = unat a + unat b"
  by (simp add: unat_add_lem [where 'a = 64, simplified, symmetric])

lemma unat_mod_less: "0 < unat b \<Longrightarrow> unat (a mod b :: u64) < unat b"
  by (simp add: unat_mod_distrib)

lemma unat_add_int:
  assumes "0 \<le> int (unat a) + k" and "int (unat a) + k < 2 ^ 64"
  shows "unat (a + word_of_int k :: u64) = nat (int (unat a) + k)"
proof -
  have "a + word_of_int k = word_of_int (int (unat a) + k)" by (simp add: uint_nat [symmetric] word_of_int_uint)
  moreover have "uint (word_of_int z :: u64) = z mod 2 ^ 64" for z by (simp add: unsigned_of_int take_bit_eq_mod)
  ultimately have "uint (a + word_of_int k) = (int (unat a) + k) mod 2 ^ 64" by (simp only:)
  with assms have "uint (a + word_of_int k) = int (unat a) + k" by simp
  then show ?thesis by (metis unat_eq_nat_uint)
qed

text \<open>The gas prices as numbers: no sum wraps around.\<close>

lemma gas_prices_nat:
  fixes r2 r3 :: u64
  defines "m \<equiv> 10 + r2 mod 30"
  defines "g \<equiv> m + 50 + r3 mod 100"
  shows "unat m \<le> unat (m + (g - m) div 2)" "35 \<le> unat (m + (g - m) div 2) \<and> unat (m + (g - m) div 2) < 1000"
    "unat (m + (g - m) div 2) \<le> unat g"
proof -
  have x: "unat (r2 mod 30) < 30" and y: "unat (r3 mod 100) < 100"
    using unat_mod_less [of 30 r2] unat_mod_less [of 100 r3] by simp_all
  have m: "unat m = 10 + unat (r2 mod 30)" unfolding m_def using x by (subst unat_add_small) simp_all
  have "unat (m + 50) = unat m + 50" using m x by (subst unat_add_small) simp_all
  then have g: "unat g = unat m + 50 + unat (r3 mod 100)" unfolding g_def using m x y by (subst unat_add_small) simp_all
  have "m \<le> g" using g by (simp add: word_le_nat_alt)
  then have "unat ((g - m) div 2) = (50 + unat (r3 mod 100)) div 2" using g by (simp add: unat_div_distrib unat_sub)
  moreover from this have "unat (m + (g - m) div 2) = unat m + unat ((g - m) div 2)"
    using m x y by (subst unat_add_small) simp_all
  ultimately show "unat m \<le> unat (m + (g - m) div 2)" "35 \<le> unat (m + (g - m) div 2) \<and> unat (m + (g - m) div 2) < 1000"
    "unat (m + (g - m) div 2) \<le> unat g"
    using m g x y by linarith+
qed

lemma median_near:
  assumes "35 \<le> unat a \<and> unat a < 1000" and "- 29 \<le> k" and "k \<le> 9"
  shows "unat a \<le> unat (a + word_of_int k :: u64) + 29 \<and> unat (a + word_of_int k) \<le> unat a + 9"
proof -
  have "0 \<le> int (unat a) + k" "int (unat a) + k < 1009" using assms by linarith+
  moreover from this(2) have "int (unat a) + k < 2 ^ 64" by (rule less_trans) simp
  ultimately have "unat (a + word_of_int k) = nat (int (unat a) + k)" by (intro unat_add_int)
  with assms show ?thesis by linarith
qed

text \<open>What the step of the task for a chain leaves alone.\<close>

lemma run_monitor_storage:
  "context_storage task = None \<Longrightarrow>
     context_storage (fst (fold (monitor_chain to_vec) sts (self, task))) = context_storage self
     \<and> context_storage (snd (fold (monitor_chain to_vec) sts (self, task))) = None"
proof (induction sts arbitrary: self task)
  case (Cons st sts)
  have "context_storage (check_and_alert to_vec st task) = None"
    using Cons.prems by (simp add: check_and_alert_def)
  with Cons.IH [OF this, of "self\<lparr>mon_stats := (mon_stats self)(stats_chain st \<mapsto> st)\<rparr>"] show ?case
    by (simp add: monitor_chain_def)
qed simp

section \<open>Properties\<close>

text \<open>Printing and parsing a version gives it back.\<close>

lemma version_roundtrip: "version_from_string (version_to_string v) = Inr v"
proof -
  have "split_on (CHR ''.'') (version_to_string v)
      = [show_nat (unat (major v)), show_nat (unat (minor v)), show_nat (unat (patch v))]"
    unfolding version_to_string_def by (simp add: split_on_first split_on_last no_dot)
  then show ?thesis by (simp add: version_from_string_def parse_u32_show)
qed

text \<open>The average gas price of the statistics lies between the least and the greatest; the median
  lies between 29 below and 9 above the average, whatever the random numbers.\<close>

lemma gas_stats_bounds:
  "let g = gas_stats (fetch_mempool_stats r1 r2 r3 chain_id r4 now)
   in min_gas_price g \<le> avg_gas_price g \<and> avg_gas_price g \<le> max_gas_price g
      \<and> unat (avg_gas_price g) \<le> unat (median_gas_price g) + 29
      \<and> unat (median_gas_price g) \<le> unat (avg_gas_price g) + 9"
proof -
  let ?m = "10 + r2 mod 30" and ?k = "(if r4 < 0 then - (- r4 mod 20) else r4 mod 20) - 10"
  let ?M = "?m + 50 + r3 mod 100"
  let ?a = "?m + (?M - ?m) div 2"
  note b = gas_prices_nat [of r2 r3]
  have k: "- 29 \<le> ?k" "?k \<le> 9" using rem_bound [of r4] by auto
  from median_near [OF b(2) k]
  have "unat ?a \<le> unat (?a + word_of_int ?k) + 29" "unat (?a + word_of_int ?k) \<le> unat ?a + 9" by blast+
  moreover have "?m \<le> ?a" "?a \<le> ?M" using b by (simp_all add: word_le_nat_alt)
  ultimately show ?thesis unfolding fetch_mempool_stats_def Let_def
    by (simp only: mempool_stats.simps gas_price_stats.simps)
qed

text \<open>No alert is ever stored: the task checks for alerts on a copy of the monitor that has no
  context.\<close>

lemma monitor_alerts_lost:
  "context_storage (fst (fold (monitor_chain to_vec) sts (start_monitoring self))) = context_storage self"
  using run_monitor_storage [of "snd (start_monitoring self)" to_vec sts "fst (start_monitoring self)"]
  by (simp add: start_monitoring_def clone_monitor_def Let_def)

end
