(* ===== verification/Registries.thy ===== *)
theory Registries
  imports ConnectionPool
begin

text \<open>
  The two registries of chain adapters: \<^verbatim>\<open>chain_registry.rs\<close> (adapters, what is known of them,
  chain configurations and watchers by chain id) and \<^verbatim>\<open>adapter_registry.rs\<close> (adapters by name, once
  as they are and once wrapped for their kind of chain).

  An adapter is a placeholder or one of the implementations, the type \<open>'a\<close>, of which only the type's
  name and the outcome of asking for the block number matter; they are parameters. Watchers, retry
  policies and the remaining fields of a configuration are only stored.
\<close>

section \<open>The interface of a keyed registry\<close>

text \<open>
  Registering is refused for a key in use, removing for one that is not; a lookup answers what was
  registered.
\<close>

locale keyed_registry =
  fixes register :: "'k \<Rightarrow> 'v \<Rightarrow> 'r \<Rightarrow> 'r option"
    and unregister :: "'k \<Rightarrow> 'r \<Rightarrow> 'r option"
    and lookup :: "'r \<Rightarrow> 'k \<Rightarrow> 'v option"
  assumes register_None: "register k v r = None \<longleftrightarrow> lookup r k \<noteq> None"
    and register_lookup: "register k v r = Some r' \<Longrightarrow> lookup r' = (lookup r)(k \<mapsto> v)"
    and unregister_None: "unregister k r = None \<longleftrightarrow> lookup r k = None"
    and unregister_lookup: "unregister k r = Some r' \<Longrightarrow> lookup r' = (lookup r)(k := None)"
begin

lemma register_twice: "register k v r = Some r' \<Longrightarrow> register k w r' = None"
  by (simp add: register_None register_lookup)

lemma register_unregister:
  assumes "register k v r = Some r'"
  shows "\<exists>r''. unregister k r' = Some r'' \<and> lookup r'' = lookup r"
proof -
  have l: "lookup r' = (lookup r)(k \<mapsto> v)" by (rule register_lookup [OF assms])
  then obtain r'' where u: "unregister k r' = Some r''" using unregister_None [of k r'] by auto
  have "lookup r k = None" using assms register_None [of k v r] by auto
  with unregister_lookup [OF u] l have "lookup r'' = lookup r" by auto
  with u show ?thesis by blast
qed

end

section \<open>The chain registry\<close>

datatype adapter_status = Active | Degraded_adapter | Inactive

record adapter_info =
  ai_chain_id :: u64
  ai_name :: string
  adapter_type :: string
  ai_status :: adapter_status
  uptime :: u64
  successful_requests :: u64
  failed_requests :: u64
  available_endpoints :: nat
  active_requests :: nat
  average_response_time :: f64

record chain_config =
  cc_chain_id :: u64
  cc_name :: string
  chain_type :: string
  primary_rpc_urls :: "string list"
  backup_rpc_urls :: "string list"
  connection_pool_config :: "pool_config option"

datatype 'a adapter = Placeholder u64 string chain_config | Implemented 'a

record ('a, 'w, 'p) chain_registry =
  adapters :: "u64 \<rightharpoonup> 'a adapter"
  adapter_infos :: "u64 \<rightharpoonup> adapter_info"
  chain_configs :: "u64 \<rightharpoonup> chain_config"
  watchers :: "u64 \<rightharpoonup> 'w"
  default_retry_policy :: 'p

definition new_registry :: "'p \<Rightarrow> ('a, 'w, 'p) chain_registry" where
  "new_registry policy =
     \<lparr> adapters = Map.empty, adapter_infos = Map.empty, chain_configs = Map.empty, watchers = Map.empty,
       default_retry_policy = policy \<rparr>"

fun get_type :: "('a \<Rightarrow> string) \<Rightarrow> 'a adapter \<Rightarrow> string" where
  "get_type type_of (Placeholder c n conf) = ''Placeholder''"
| "get_type type_of (Implemented a) = type_of a"

definition register_adapter ::
    "('a \<Rightarrow> string) \<Rightarrow> u64 \<Rightarrow> 'a adapter \<Rightarrow> ('a, 'w, 'p) chain_registry \<Rightarrow> ('a, 'w, 'p) chain_registry option" where
  "register_adapter type_of chain_id adapter self =
     (if chain_id \<in> dom (adapters self) then None
      else
        let chain_name = (case chain_configs self chain_id of
                            Some cfg \<Rightarrow> cc_name cfg
                          | None \<Rightarrow> ''Chain-'' @ show_nat (unat chain_id));
            ai = \<lparr> ai_chain_id = chain_id, ai_name = chain_name, adapter_type = get_type type_of adapter,
                     ai_status = Active, uptime = 0, successful_requests = 0, failed_requests = 0,
                     available_endpoints = 0, active_requests = 0, average_response_time = Fin 0 \<rparr>
        in Some (self\<lparr>adapters := (adapters self)(chain_id \<mapsto> adapter),
                       adapter_infos := (adapter_infos self)(chain_id \<mapsto> ai)\<rparr>))"

definition register_watcher :: "u64 \<Rightarrow> 'w \<Rightarrow> ('a, 'w, 'p) chain_registry \<Rightarrow> ('a, 'w, 'p) chain_registry option" where
  "register_watcher chain_id watcher self =
     (if chain_id \<in> dom (watchers self) then None
      else Some (self\<lparr>watchers := (watchers self)(chain_id \<mapsto> watcher)\<rparr>))"

definition add_chain_config :: "chain_config \<Rightarrow> ('a, 'w, 'p) chain_registry \<Rightarrow> ('a, 'w, 'p) chain_registry" where
  "add_chain_config config self =
     (let chain_id = cc_chain_id config;
          self = (case adapter_infos self chain_id of
                    Some ai \<Rightarrow>
                      self\<lparr>adapter_infos := (adapter_infos self)(chain_id \<mapsto> ai\<lparr>ai_name := cc_name config\<rparr>)\<rparr>
                  | None \<Rightarrow> self)
      in self\<lparr>chain_configs := (chain_configs self)(chain_id \<mapsto> config)\<rparr>)"

definition get_adapter :: "u64 \<Rightarrow> ('a, 'w, 'p) chain_registry \<Rightarrow> 'a adapter option" where
  "get_adapter chain_id self = adapters self chain_id"

definition get_watcher :: "u64 \<Rightarrow> ('a, 'w, 'p) chain_registry \<Rightarrow> 'w option" where
  "get_watcher chain_id self = watchers self chain_id"

definition get_chain_config :: "u64 \<Rightarrow> ('a, 'w, 'p) chain_registry \<Rightarrow> chain_config option" where
  "get_chain_config chain_id self = chain_configs self chain_id"

definition get_all_adapter_info :: "('a, 'w, 'p) chain_registry \<Rightarrow> adapter_info set" where
  "get_all_adapter_info self = ran (adapter_infos self)"

definition get_adapter_info :: "u64 \<Rightarrow> ('a, 'w, 'p) chain_registry \<Rightarrow> adapter_info option" where
  "get_adapter_info chain_id self = adapter_infos self chain_id"

definition update_adapter_info ::
    "u64 \<Rightarrow> adapter_info \<Rightarrow> ('a, 'w, 'p) chain_registry \<Rightarrow> ('a, 'w, 'p) chain_registry option" where
  "update_adapter_info chain_id ai self =
     (if chain_id \<notin> dom (adapter_infos self) then None
      else Some (self\<lparr>adapter_infos := (adapter_infos self)(chain_id \<mapsto> ai)\<rparr>))"

definition get_supported_chains :: "('a, 'w, 'p) chain_registry \<Rightarrow> u64 set" where
  "get_supported_chains self = dom (adapters self)"

definition unregister_adapter :: "u64 \<Rightarrow> ('a, 'w, 'p) chain_registry \<Rightarrow> ('a, 'w, 'p) chain_registry option" where
  "unregister_adapter chain_id self =
     (if chain_id \<notin> dom (adapters self) then None
      else Some (self\<lparr>adapters := (adapters self)(chain_id := None),
                       adapter_infos := (adapter_infos self)(chain_id := None)\<rparr>))"

definition unregister_watcher :: "u64 \<Rightarrow> ('a, 'w, 'p) chain_registry \<Rightarrow> ('a, 'w, 'p) chain_registry option" where
  "unregister_watcher chain_id self =
     (if chain_id \<notin> dom (watchers self) then None
      else Some (self\<lparr>watchers := (watchers self)(chain_id := None)\<rparr>))"

definition set_default_retry_policy :: "'p \<Rightarrow> ('a, 'w, 'p) chain_registry \<Rightarrow> ('a, 'w, 'p) chain_registry" where
  "set_default_retry_policy policy self = self\<lparr>default_retry_policy := policy\<rparr>"

text \<open>\<open>answers\<close>: whether an implementation answers with a block number; a placeholder never does.\<close>

fun get_block_number :: "('a \<Rightarrow> bool) \<Rightarrow> 'a adapter \<Rightarrow> bool" where
  "get_block_number answers (Placeholder c n conf) = False"
| "get_block_number answers (Implemented a) = answers a"

definition check_adapter_connection ::
    "('a \<Rightarrow> bool) \<Rightarrow> u64 \<Rightarrow> ('a, 'w, 'p) chain_registry \<Rightarrow> ('a, 'w, 'p) chain_registry \<times> bool" where
  "check_adapter_connection answers chain_id self =
     (case get_adapter chain_id self of
        None \<Rightarrow> (self, False)
      | Some adapter \<Rightarrow>
          (let ok = get_block_number answers adapter;
               self = (case adapter_infos self chain_id of
                         Some ai \<Rightarrow>
                           self\<lparr>adapter_infos := (adapter_infos self)(chain_id \<mapsto>
                             (if ok then ai\<lparr>ai_status := Active, successful_requests := successful_requests ai + 1\<rparr>
                              else ai\<lparr>ai_status := Degraded_adapter, failed_requests := failed_requests ai + 1\<rparr>))\<rparr>
                       | None \<Rightarrow> self)
           in (self, ok)))"

text \<open>The connection pools are those of the global manager of theory \<open>ConnectionPool\<close>.\<close>

definition init_adapter_from_config ::
    "('a \<Rightarrow> string) \<Rightarrow> (string \<Rightarrow> bool) \<Rightarrow> u64 \<Rightarrow> u64 \<Rightarrow> ('a, 'w, 'p) chain_registry \<times> pool_manager
       \<Rightarrow> (('a, 'w, 'p) chain_registry \<times> pool_manager) \<times> bool" where
  "init_adapter_from_config type_of probe now chain_id s =
     (case s of (self, pools) \<Rightarrow>
       (case get_chain_config chain_id self of
          None \<Rightarrow> ((self, pools), False)
        | Some config \<Rightarrow>
            (case get_or_create_pool probe now chain_id (primary_rpc_urls config) (backup_rpc_urls config)
                    (connection_pool_config config) pools of
               (pools', None) \<Rightarrow> ((self, pools'), False)
             | (pools', Some p) \<Rightarrow>
                 (case register_adapter type_of chain_id (Placeholder chain_id (cc_name config) config) self of
                    Some self' \<Rightarrow> ((self', pools'), True)
                  | None \<Rightarrow> ((self, pools'), False)))))"

text \<open>\<open>factory::create_adapter\<close> panics for the two known types of chains and refuses every other.\<close>

definition create_adapter :: "u64 \<Rightarrow> ('a, 'w, 'p) chain_registry \<Rightarrow> (string + 'a adapter) res" where
  "create_adapter chain_id self =
     (case get_chain_config chain_id self of
        None \<Rightarrow> Inr (Inl ''No configuration found'')
      | Some config \<Rightarrow>
          if chain_type config = ''evm'' then Inl (PanicStr ''EVM adapter creation not implemented'')
          else if chain_type config = ''non-evm'' then Inl (PanicStr ''Non-EVM adapter creation not implemented'')
          else Inr (Inl ''Unsupported chain type''))"

interpretation adapter_reg: keyed_registry "register_adapter type_of" unregister_adapter adapters
  by unfold_locales (auto simp: register_adapter_def unregister_adapter_def Let_def split: if_splits)

interpretation watcher_reg: keyed_registry register_watcher unregister_watcher watchers
  by unfold_locales (auto simp: register_watcher_def unregister_watcher_def split: if_splits)

section \<open>The registry by name\<close>

record 'a adapter_registry =
  named_adapters :: "string \<rightharpoonup> 'a"
  ethereum_adapters :: "string \<rightharpoonup> 'a"
  bsc_adapters :: "string \<rightharpoonup> 'a"
  avalanche_adapters :: "string \<rightharpoonup> 'a"
  base_adapters :: "string \<rightharpoonup> 'a"
  arbitrum_adapters :: "string \<rightharpoonup> 'a"
  optimism_adapters :: "string \<rightharpoonup> 'a"
  polygon_adapters :: "string \<rightharpoonup> 'a"
  monad_adapters :: "string \<rightharpoonup> 'a"
  custom_adapters :: "string \<rightharpoonup> 'a"

definition new_adapter_registry :: "'a adapter_registry" where
  "new_adapter_registry =
     \<lparr> named_adapters = Map.empty, ethereum_adapters = Map.empty, bsc_adapters = Map.empty,
       avalanche_adapters = Map.empty, base_adapters = Map.empty, arbitrum_adapters = Map.empty,
       optimism_adapters = Map.empty, polygon_adapters = Map.empty, monad_adapters = Map.empty,
       custom_adapters = Map.empty \<rparr>"

definition register_plain :: "string \<Rightarrow> 'a \<Rightarrow> 'a adapter_registry \<Rightarrow> 'a adapter_registry" where
  "register_plain name adapter r = r\<lparr>named_adapters := (named_adapters r)(name \<mapsto> adapter)\<rparr>"

definition register_ethereum :: "string \<Rightarrow> 'a \<Rightarrow> 'a adapter_registry \<Rightarrow> 'a adapter_registry" where
  "register_ethereum name adapter r = r\<lparr>ethereum_adapters := (ethereum_adapters r)(name \<mapsto> adapter)\<rparr>"

definition register_bsc :: "string \<Rightarrow> 'a \<Rightarrow> 'a adapter_registry \<Rightarrow> 'a adapter_registry" where
  "register_bsc name adapter r = r\<lparr>bsc_adapters := (bsc_adapters r)(name \<mapsto> adapter)\<rparr>"

definition register_avalanche :: "string \<Rightarrow> 'a \<Rightarrow> 'a adapter_registry \<Rightarrow> 'a adapter_registry" where
  "register_avalanche name adapter r = r\<lparr>avalanche_adapters := (avalanche_adapters r)(name \<mapsto> adapter)\<rparr>"

definition register_base :: "string \<Rightarrow> 'a \<Rightarrow> 'a adapter_registry \<Rightarrow> 'a adapter_registry" where
  "register_base name adapter r = r\<lparr>base_adapters := (base_adapters r)(name \<mapsto> adapter)\<rparr>"

definition register_arbitrum :: "string \<Rightarrow> 'a \<Rightarrow> 'a adapter_registry \<Rightarrow> 'a adapter_registry" where
  "register_arbitrum name adapter r = r\<lparr>arbitrum_adapters := (arbitrum_adapters r)(name \<mapsto> adapter)\<rparr>"

definition register_optimism :: "string \<Rightarrow> 'a \<Rightarrow> 'a adapter_registry \<Rightarrow> 'a adapter_registry" where
  "register_optimism name adapter r = r\<lparr>optimism_adapters := (optimism_adapters r)(name \<mapsto> adapter)\<rparr>"

definition register_polygon :: "string \<Rightarrow> 'a \<Rightarrow> 'a adapter_registry \<Rightarrow> 'a adapter_registry" where
  "register_polygon name adapter r = r\<lparr>polygon_adapters := (polygon_adapters r)(name \<mapsto> adapter)\<rparr>"

definition register_monad :: "string \<Rightarrow> 'a \<Rightarrow> 'a adapter_registry \<Rightarrow> 'a adapter_registry" where
  "register_monad name adapter r = r\<lparr>monad_adapters := (monad_adapters r)(name \<mapsto> adapter)\<rparr>"

definition register_custom :: "string \<Rightarrow> 'a \<Rightarrow> 'a adapter_registry \<Rightarrow> 'a adapter_registry" where
  "register_custom name adapter r = r\<lparr>custom_adapters := (custom_adapters r)(name \<mapsto> adapter)\<rparr>"

text \<open>The match on the name in lower case, the same in both places.\<close>

definition register_wrapped :: "string \<Rightarrow> 'a \<Rightarrow> 'a adapter_registry \<Rightarrow> 'a adapter_registry" where
  "register_wrapped chain_name adapter r =
     (let n = lower chain_name in
      if n = ''ethereum'' then register_ethereum chain_name adapter r
      else if n = ''bsc'' then register_bsc chain_name adapter r
      else if n = ''avalanche'' then register_avalanche chain_name adapter r
      else if n = ''base'' then register_base chain_name adapter r
      else if n = ''arbitrum'' then register_arbitrum chain_name adapter r
      else if n = ''optimism'' then register_optimism chain_name adapter r
      else if n = ''polygon'' then register_polygon chain_name adapter r
      else if n = ''monad'' then register_monad chain_name adapter r
      else register_custom chain_name adapter r)"

text \<open>
  The program has two such registries: the global one, and the one of \<open>get_registry_internal\<close>.
\<close>

record 'a registries =
  global_registry :: "'a adapter_registry"
  internal_registry :: "'a adapter_registry"

definition start_registries :: "'a registries" where
  "start_registries = \<lparr> global_registry = new_adapter_registry, internal_registry = new_adapter_registry \<rparr>"

definition get_chain_adapter :: "string \<Rightarrow> 'a registries \<Rightarrow> 'a option" where
  "get_chain_adapter chain_name s = named_adapters (global_registry s) chain_name"

definition add_wallet_to_adapter :: "string \<Rightarrow> 'wallet \<Rightarrow> 'a registries \<Rightarrow> 'a registries option" where
  "add_wallet_to_adapter chain_name wallet s =
     (case named_adapters (global_registry s) chain_name of
        None \<Rightarrow> None
      | Some adapter \<Rightarrow> Some (s\<lparr>global_registry := register_wrapped chain_name adapter (global_registry s)\<rparr>))"

definition register_by_name :: "string \<Rightarrow> 'a \<Rightarrow> 'a registries \<Rightarrow> 'a registries" where
  "register_by_name chain_name adapter s =
     s\<lparr>internal_registry :=
        register_wrapped chain_name adapter (register_plain chain_name adapter (internal_registry s))\<rparr>"

section \<open>Runs\<close>

datatype ('a, 'w, 'p) registry_op =
    Register u64 "'a adapter"
  | Watch u64 'w
  | Configure chain_config
  | Update_info u64 adapter_info
  | Unregister u64
  | Unwatch u64
  | Check u64 "'a \<Rightarrow> bool"
  | Init u64 "string \<Rightarrow> bool" u64
  | Set_policy 'p

fun exec_registry ::
    "('a \<Rightarrow> string) \<Rightarrow> ('a, 'w, 'p) registry_op \<Rightarrow> ('a, 'w, 'p) chain_registry \<times> pool_manager
       \<Rightarrow> ('a, 'w, 'p) chain_registry \<times> pool_manager" where
  "exec_registry ty (Register c a) (r, m) = (case register_adapter ty c a r of Some r' \<Rightarrow> r' | None \<Rightarrow> r, m)"
| "exec_registry ty (Watch c w) (r, m) = (case register_watcher c w r of Some r' \<Rightarrow> r' | None \<Rightarrow> r, m)"
| "exec_registry ty (Configure conf) (r, m) = (add_chain_config conf r, m)"
| "exec_registry ty (Update_info c i) (r, m) = (case update_adapter_info c i r of Some r' \<Rightarrow> r' | None \<Rightarrow> r, m)"
| "exec_registry ty (Unregister c) (r, m) = (case unregister_adapter c r of Some r' \<Rightarrow> r' | None \<Rightarrow> r, m)"
| "exec_registry ty (Unwatch c) (r, m) = (case unregister_watcher c r of Some r' \<Rightarrow> r' | None \<Rightarrow> r, m)"
| "exec_registry ty (Check c answers) (r, m) = (fst (check_adapter_connection answers c r), m)"
| "exec_registry ty (Init c probe now) s = fst (init_adapter_from_config ty probe now c s)"
| "exec_registry ty (Set_policy p) (r, m) = (set_default_retry_policy p r, m)"

text \<open>
  Every adapter has its information and the other way round; the adapters the registry made itself
  are placeholders of their chain, with a pool.
\<close>

definition registry_ok :: "('a, 'w, 'p) chain_registry \<times> pool_manager \<Rightarrow> bool" where
  "registry_ok s \<longleftrightarrow> (\<forall>c. adapters (fst s) c = None \<longleftrightarrow> adapter_infos (fst s) c = None)
     \<and> (\<forall>c k. chain_configs (fst s) c = Some k \<longrightarrow> cc_chain_id k = c)"

lemma register_adapter_ok:
  assumes "registry_ok (r, m)" and "register_adapter ty c a r = Some r'"
  shows "registry_ok (r', m')"
  using assms by (simp add: registry_ok_def register_adapter_def Let_def split: if_splits) auto

lemma check_ok: "registry_ok (r, m) \<Longrightarrow> registry_ok (fst (check_adapter_connection answers c r), m')"
  by (simp add: registry_ok_def check_adapter_connection_def Let_def get_adapter_def split: option.splits)

lemma pools_irrelevant: "registry_ok (r, m) \<Longrightarrow> registry_ok (r, m')"
  by (simp add: registry_ok_def)

lemma init_ok: "registry_ok s \<Longrightarrow> registry_ok (fst (init_adapter_from_config ty probe now c s))"
  by (auto simp: init_adapter_from_config_def split: prod.splits option.splits
      intro: register_adapter_ok pools_irrelevant)

lemma exec_registry_ok:
  assumes "registry_ok s"
  shows "registry_ok (exec_registry ty rop s)"
proof -
  obtain r m where s: "s = (r, m)" by (cases s)
  note ok = assms [unfolded s]
  show ?thesis
  proof (cases rop)
    case (Register c a)
    with ok show ?thesis by (auto simp: s split: option.splits intro: register_adapter_ok)
  next
    case (Configure conf)
    with ok show ?thesis by (auto simp: s registry_ok_def add_chain_config_def Let_def split: option.splits)
  next
    case (Check c answers)
    with check_ok [OF ok] show ?thesis by (simp add: s)
  next
    case (Init c probe now)
    with init_ok [OF assms] show ?thesis by simp
  next
    case (Update_info c i)
    with ok show ?thesis by (auto simp: s registry_ok_def update_adapter_info_def split: option.splits if_splits)
  next
    case (Unregister c)
    with ok show ?thesis by (auto simp: s registry_ok_def unregister_adapter_def split: option.splits if_splits)
  qed (use ok in \<open>auto simp: s registry_ok_def register_watcher_def
      unregister_watcher_def set_default_retry_policy_def split: option.splits if_splits\<close>)
qed

lemma run_registry_ok: "registry_ok s \<Longrightarrow> registry_ok (fold (exec_registry ty) ops s)"
  by (induction ops arbitrary: s) (simp_all add: exec_registry_ok)

lemma new_registry_ok: "registry_ok (new_registry policy, m)"
  by (simp add: registry_ok_def new_registry_def)

lemma register_by_name_global: "global_registry (fold (\<lambda>(n, a). register_by_name n a) regs s) = global_registry s"
  by (induction regs arbitrary: s) (auto simp: register_by_name_def)

text \<open>In its own registry a name is found, as it is and under its kind of chain.\<close>

lemma register_by_name_internal:
  "named_adapters (internal_registry (register_by_name n a s)) n = Some a"
  "lower n = ''bsc'' \<Longrightarrow> bsc_adapters (internal_registry (register_by_name n a s)) n = Some a"
  "lower n = ''ethereum'' \<Longrightarrow> ethereum_adapters (internal_registry (register_by_name n a s)) n = Some a"
  by (simp_all add: register_by_name_def register_wrapped_def register_plain_def Let_def register_bsc_def
      register_ethereum_def register_avalanche_def register_base_def register_arbitrum_def
      register_optimism_def register_polygon_def register_monad_def register_custom_def)

section \<open>Properties\<close>

text \<open>After any operations a chain has an adapter exactly if it has the information on one, and the
  configuration stored for a chain is one of that chain.\<close>

lemma registry_consistent:
  "let r = fst (fold (exec_registry ty) ops (new_registry policy, pools))
   in (get_adapter c r = None \<longleftrightarrow> get_adapter_info c r = None)
      \<and> map_option cc_chain_id (get_chain_config c r) \<in> {None, Some c}"
  using run_registry_ok [OF new_registry_ok, of ty ops policy pools]
  by (cases "get_chain_config c (fst (fold (exec_registry ty) ops (new_registry policy, pools)))")
    (auto simp: registry_ok_def Let_def get_adapter_def get_adapter_info_def get_chain_config_def)

text \<open>An adapter the registry makes from a configuration never connects: it is a placeholder, and
  every check of its connection fails and marks it degraded.\<close>

lemma initialised_adapter_never_connects:
  assumes "init_adapter_from_config ty probe now c (r, pools) = ((r', pools'), True)"
  shows "\<exists>r''. check_adapter_connection answers c r' = (r'', False)
           \<and> map_option ai_status (get_adapter_info c r'') = Some Degraded_adapter"
  using assms
  by (auto simp: init_adapter_from_config_def register_adapter_def check_adapter_connection_def get_adapter_def
      get_adapter_info_def Let_def split: option.splits prod.splits if_splits)

text \<open>No adapter registered by name is ever found by name: registrations go to one registry and
  lookups to another, so adding a wallet to an adapter fails as well.\<close>

lemma registered_by_name_never_found:
  "let s = fold (\<lambda>(n, a). register_by_name n a) regs start_registries
   in get_chain_adapter name s = None \<and> add_wallet_to_adapter name wallet s = None"
  using register_by_name_global [of regs start_registries]
  by (simp add: Let_def get_chain_adapter_def add_wallet_to_adapter_def start_registries_def new_adapter_registry_def)

definition demo_config :: chain_config where
  "demo_config = \<lparr> cc_chain_id = 56, cc_name = ''bsc'', chain_type = ''evm'', primary_rpc_urls = [''a''],
                    backup_rpc_urls = [], connection_pool_config = None \<rparr>"

end
