(* ===== verification/WalletStorage.thy ===== *)
theory WalletStorage
  imports Prelude
begin

text \<open>
  The encrypted wallet files of \<^verbatim>\<open>wallet/src/secure_storage.rs\<close>. A file holds a nonce of 12 bytes
  followed by the AES-GCM encryption of the wallet's JSON text, bound to the wallet's address; the
  key is the SHA-256 digest of the password and the storage's salt. Cipher, digest, password hash and
  JSON codec are third-party code, gathered in the parameter \<open>crypto\<close>; what the code relies on is
  \<open>codec_laws\<close>. The disk is a map from path texts to contents, and what the operating system answers
  to a write, a read or a removal is an argument.
\<close>

unbundle bit_operations_syntax

section \<open>Data\<close>

datatype security_error =
    EncryptionError string | DecryptionError string | IoError string
  | PasswordError string | FormatError string | KeyDerivationError string

datatype storage_error = Security_failed security_error | Failed string

record encrypted_data =
  ciphertext :: "u8 list"
  ed_nonce :: "u8 list"
  ed_salt :: "u8 list"
  ed_version :: u8

record wallet_info =
  wi_address :: string
  encrypted_private_key :: "encrypted_data option"
  encrypted_mnemonic :: "encrypted_data option"
  wi_chain_id :: u64
  wi_created_at :: u64
  wi_last_used :: u64
  wi_balance :: "string option"
  wi_name :: "string option"
  wi_tags :: "string list"
  wi_is_hardware :: bool

record safe_wallet_view =
  sv_address :: string
  sv_chain_id :: u64
  sv_created_at :: u64
  sv_last_used :: u64
  sv_balance :: "string option"
  has_private_key :: bool
  has_mnemonic :: bool
  sv_name :: "string option"
  sv_tags :: "string list"
  sv_is_hardware :: bool

definition to_safe_view :: "wallet_info \<Rightarrow> safe_wallet_view" where
  "to_safe_view w =
     \<lparr> sv_address = wi_address w, sv_chain_id = wi_chain_id w, sv_created_at = wi_created_at w,
       sv_last_used = wi_last_used w, sv_balance = wi_balance w,
       has_private_key = (encrypted_private_key w \<noteq> None), has_mnemonic = (encrypted_mnemonic w \<noteq> None),
       sv_name = wi_name w, sv_tags = wi_tags w, sv_is_hardware = wi_is_hardware w \<rparr>"

record storage_config =
  wallet_dir :: string
  wallet_filename :: string
  encryption_salt :: string

definition default_storage_config :: storage_config where
  "default_storage_config =
     \<lparr> wallet_dir = ''.wallets'', wallet_filename = ''wallets.json'', encryption_salt = ''diamond'' \<rparr>"

record encryption_key =
  key_id :: string
  key_bytes :: "u8 list"
  key_created_at :: u64

text \<open>The field \<open>wallet_cache\<close> is created empty and used by no operation.\<close>

record secure_wallet_storage =
  storage_path :: string
  storage_salt :: "u8 list"
  loaded_wallets :: "string \<rightharpoonup> wallet_info"
  current_key :: encryption_key

text \<open>
  The third-party code: the digest; the cipher made from a key, its encryption and decryption (key,
  nonce, associated data, message); the JSON codec of one wallet and of a list of wallets; the text
  encoding of a salt and the Argon2 hash of a password under it.
\<close>

record 'c crypto =
  sha256 :: "u8 list \<Rightarrow> u8 list"
  new_cipher :: "u8 list \<Rightarrow> 'c option"
  seal :: "'c \<Rightarrow> u8 list \<Rightarrow> u8 list \<Rightarrow> u8 list \<Rightarrow> u8 list option"
  unseal :: "'c \<Rightarrow> u8 list \<Rightarrow> u8 list \<Rightarrow> u8 list \<Rightarrow> u8 list option"
  to_json :: "wallet_info \<Rightarrow> u8 list option"
  from_json :: "u8 list \<Rightarrow> wallet_info option"
  list_from_json :: "u8 list \<Rightarrow> wallet_info list option"
  encode_b64 :: "u8 list \<Rightarrow> string option"
  argon2id :: "string \<Rightarrow> string \<Rightarrow> u8 list option"

text \<open>
  Decryption is the inverse of encryption under the same key, nonce and associated data, and accepts
  nothing else; a wallet survives its JSON text.
\<close>

definition codec_laws :: "'c crypto \<Rightarrow> bool" where
  "codec_laws cr \<longleftrightarrow>
     (\<forall>c n a m x. unseal cr c n a x = Some m \<longleftrightarrow> seal cr c n a m = Some x) \<and>
     (\<forall>w m. to_json cr w = Some m \<longrightarrow> from_json cr m = Some w)"

section \<open>Paths\<close>

text \<open>\<open>Path::join\<close> on Unix: an absolute second part replaces the first.\<close>

definition path_join :: "string \<Rightarrow> string \<Rightarrow> string" where
  "path_join base p =
     (if take 1 p = ''/'' then p
      else if base = [] \<or> last base = CHR ''/'' then base @ p else base @ ''/'' @ p)"

definition get_file_path :: "secure_wallet_storage \<Rightarrow> string \<Rightarrow> string" where
  "get_file_path st identifier = path_join (storage_path st) (identifier @ ''.bin'')"

section \<open>Construction\<close>

definition as_bytes :: "string \<Rightarrow> u8 list" where
  "as_bytes = map of_char"

text \<open>A slice \<open>xs[0..n]\<close> panics when the vector is shorter.\<close>

definition slice_to :: "nat \<Rightarrow> 'a list \<Rightarrow> 'a list res" where
  "slice_to n xs =
     (if n \<le> length xs then Inr (take n xs)
      else Inl (PanicStr (''range end index '' @ show_nat n @ '' out of range for slice of length '' @ show_nat (length xs))))"

definition mix_salt :: "u8 list \<Rightarrow> u8 list \<Rightarrow> u8 list" where
  "mix_salt random_salt s =
     (let k = min (length s) 8 in map2 (XOR) (take k random_salt) (take k s) @ drop k random_salt)"

definition generate_encryption_key :: "'c crypto \<Rightarrow> u8 list \<Rightarrow> string \<Rightarrow> u8 list \<Rightarrow> (storage_error + u8 list) res" where
  "generate_encryption_key cr random_salt password s =
     (case encode_b64 cr (mix_salt random_salt s) of
        None \<Rightarrow> Inr (Inl (Failed ''Failed to encode salt''))
      | Some salt_str \<Rightarrow>
          (case argon2id cr password salt_str of
             None \<Rightarrow> Inr (Inl (Failed ''Failed to hash password''))
           | Some hash_bytes \<Rightarrow> rbind (slice_to 32 hash_bytes) (\<lambda>k. Inr (Inr k))))"

definition load_wallets :: "'c crypto \<Rightarrow> u8 list option \<Rightarrow> storage_error + wallet_info list" where
  "load_wallets cr contents =
     (case contents of
        None \<Rightarrow> Inl (Failed ''Failed to read wallet file'')
      | Some file_content \<Rightarrow>
          (case list_from_json cr file_content of
             None \<Rightarrow> Inl (Failed ''Failed to parse wallet data'')
           | Some wallet_data \<Rightarrow> Inr wallet_data))"

definition wallets_on_disk :: "'c crypto \<Rightarrow> u8 list option \<Rightarrow> string \<rightharpoonup> wallet_info" where
  "wallets_on_disk cr contents =
     (case load_wallets cr contents of
        Inl _ \<Rightarrow> Map.empty
      | Inr ws \<Rightarrow> foldl (\<lambda>m w. m(wi_address w \<mapsto> w)) Map.empty ws)"

text \<open>
  \<open>new\<close>: \<open>dir_ok\<close> is whether the directory could be created, \<open>readable\<close> whether the wallet file can be
  read if it exists, \<open>random_id\<close> and \<open>random_salt\<close> the random draws.
\<close>

type_synonym disk = "string \<rightharpoonup> u8 list"

definition new_storage ::
  "'c crypto \<Rightarrow> bool \<Rightarrow> bool \<Rightarrow> disk \<Rightarrow> string \<Rightarrow> u8 list \<Rightarrow> u64 \<Rightarrow> string \<Rightarrow> storage_config \<Rightarrow>
     (storage_error + secure_wallet_storage) res" where
  "new_storage cr dir_ok readable d random_id random_salt now path config =
     rbind (slice_to 16 (as_bytes (encryption_salt config))) (\<lambda>s.
       if \<not> dir_ok then Inr (Inl (Failed ''Failed to create storage directory''))
       else rbind (generate_encryption_key cr random_salt ''default'' s) (\<lambda>generated.
         Inr (case generated of
                Inl e \<Rightarrow> Inl e
              | Inr k \<Rightarrow>
                  Inr \<lparr> storage_path = path, storage_salt = s,
                        loaded_wallets =
                          wallets_on_disk cr (if readable then d (path_join path (wallet_filename config)) else None),
                        current_key = \<lparr> key_id = ''key-'' @ random_id, key_bytes = k, key_created_at = now \<rparr> \<rparr>)))"

section \<open>Storing, loading and deleting\<close>

definition derive_key :: "'c crypto \<Rightarrow> secure_wallet_storage \<Rightarrow> string \<Rightarrow> u8 list" where
  "derive_key cr st password = sha256 cr (as_bytes password @ storage_salt st)"

text \<open>
  What a write did: all of it, or a failure that left something else (or no file) at the path.
\<close>

datatype write_outcome = Written | Write_failed "u8 list option"

definition write_file :: "write_outcome \<Rightarrow> string \<Rightarrow> u8 list \<Rightarrow> disk \<Rightarrow> (storage_error + unit) \<times> disk" where
  "write_file out path content d =
     (case out of
        Written \<Rightarrow> (Inr (), d(path \<mapsto> content))
      | Write_failed left \<Rightarrow> (Inl (Failed ''Failed to write encrypted data''), d(path := left)))"

definition store_wallet ::
  "'c crypto \<Rightarrow> u8 list \<Rightarrow> write_outcome \<Rightarrow> wallet_info \<Rightarrow> string \<Rightarrow> secure_wallet_storage \<Rightarrow> disk \<Rightarrow>
     (storage_error + unit) \<times> disk" where
  "store_wallet cr nonce_bytes out w password st d =
     (case to_json cr w of
        None \<Rightarrow> (Inl (Failed ''serialisation''), d)
      | Some data \<Rightarrow>
          (case new_cipher cr (derive_key cr st password) of
             None \<Rightarrow> (Inl (Security_failed (EncryptionError ''Invalid Length'')), d)
           | Some cipher \<Rightarrow>
               (case seal cr cipher nonce_bytes (as_bytes (wi_address w)) data of
                  None \<Rightarrow> (Inl (Security_failed (EncryptionError ''aead::Error'')), d)
                | Some encrypted \<Rightarrow>
                    write_file out (get_file_path st (wi_address w)) (nonce_bytes @ encrypted) d)))"

definition load_wallet ::
  "'c crypto \<Rightarrow> bool \<Rightarrow> string \<Rightarrow> string \<Rightarrow> secure_wallet_storage \<Rightarrow> disk \<Rightarrow> storage_error + wallet_info" where
  "load_wallet cr readable address password st d =
     (case (if readable then d (get_file_path st address) else None) of
        None \<Rightarrow> Inl (Failed ''Failed to read encrypted data'')
      | Some file_content \<Rightarrow>
          if length file_content < 12 then Inl (Security_failed (FormatError ''Encrypted file is too short''))
          else
            (case new_cipher cr (derive_key cr st password) of
               None \<Rightarrow> Inl (Security_failed (DecryptionError ''Invalid Length''))
             | Some cipher \<Rightarrow>
                 (case unseal cr cipher (take 12 file_content) (as_bytes address) (drop 12 file_content) of
                    None \<Rightarrow> Inl (Security_failed (DecryptionError ''aead::Error''))
                  | Some decrypted \<Rightarrow>
                      (case from_json cr decrypted of
                         None \<Rightarrow> Inl (Failed ''deserialisation'')
                       | Some w \<Rightarrow> Inr w))))"

definition delete_wallet :: "bool \<Rightarrow> string \<Rightarrow> secure_wallet_storage \<Rightarrow> disk \<Rightarrow> (storage_error + unit) \<times> disk" where
  "delete_wallet removable address st d =
     (let path = get_file_path st address
      in if d path = None then (Inr (), d)
         else if removable then (Inr (), d(path := None))
         else (Inl (Failed ''Failed to delete file''), d))"

section \<open>Lemmas\<close>

lemma as_bytes_simps [simp]: "length (as_bytes s) = length s" "as_bytes (s @ t) = as_bytes s @ as_bytes t"
  by (simp_all add: as_bytes_def)

lemma slice_to_simps: "slice_to n xs = Inr ys \<longleftrightarrow> n \<le> length xs \<and> ys = take n xs"
  by (auto simp: slice_to_def)

lemma unsealD: "codec_laws cr \<Longrightarrow> unseal cr c n a x = Some m \<longleftrightarrow> seal cr c n a m = Some x"
  by (simp add: codec_laws_def)

lemma jsonD: "codec_laws cr \<Longrightarrow> to_json cr w = Some m \<Longrightarrow> from_json cr m = Some w"
  by (simp add: codec_laws_def)

lemma store_wallet_Inr:
  "store_wallet cr n out w p st d = (Inr (), d') \<longleftrightarrow>
     out = Written \<and>
     (\<exists>m c x. to_json cr w = Some m \<and> new_cipher cr (derive_key cr st p) = Some c \<and>
        seal cr c n (as_bytes (wi_address w)) m = Some x \<and> d' = d(get_file_path st (wi_address w) \<mapsto> n @ x))"
  unfolding store_wallet_def write_file_def by (auto split: option.splits write_outcome.splits)

lemma store_wallet_frame:
  "store_wallet cr n out w p st d = (r, d') \<Longrightarrow> path \<noteq> get_file_path st (wi_address w) \<Longrightarrow> d' path = d path"
  unfolding store_wallet_def write_file_def by (auto split: option.splits write_outcome.splits)

lemma load_wallet_Inr:
  "load_wallet cr True a p st d = Inr w \<longleftrightarrow>
     (\<exists>f c m. d (get_file_path st a) = Some f \<and> 12 \<le> length f \<and> new_cipher cr (derive_key cr st p) = Some c \<and>
        unseal cr c (take 12 f) (as_bytes a) (drop 12 f) = Some m \<and> from_json cr m = Some w)"
  unfolding load_wallet_def by (auto split: option.splits simp: not_less)

lemma split_file:
  "(\<exists>f. g = Some f \<and> k \<le> length f \<and> P (take k f) (drop k f)) \<longleftrightarrow>
     (\<exists>n x. g = Some (n @ x) \<and> length n = k \<and> P n x)"
proof
  assume "\<exists>f. g = Some f \<and> k \<le> length f \<and> P (take k f) (drop k f)"
  then obtain f where "g = Some f" "k \<le> length f" "P (take k f) (drop k f)" by blast
  then have "g = Some (take k f @ drop k f) \<and> length (take k f) = k \<and> P (take k f) (drop k f)" by simp
  then show "\<exists>n x. g = Some (n @ x) \<and> length n = k \<and> P n x" by blast
next
  assume "\<exists>n x. g = Some (n @ x) \<and> length n = k \<and> P n x"
  then show "\<exists>f. g = Some f \<and> k \<le> length f \<and> P (take k f) (drop k f)" by force
qed

text \<open>A concrete instance of the third-party code, for runs: the sealed text carries its key, nonce and
  associated data, and the codec knows one wallet.\<close>

definition demo_wallet :: wallet_info where
  "demo_wallet =
     \<lparr> wi_address = ''0xab'', encrypted_private_key = None, encrypted_mnemonic = None, wi_chain_id = 1,
       wi_created_at = 5, wi_last_used = 5, wi_balance = None, wi_name = Some ''main'', wi_tags = [],
       wi_is_hardware = False \<rparr>"

definition demo_crypto :: "u8 list crypto" where
  "demo_crypto =
     \<lparr> sha256 = (\<lambda>xs. take 32 (xs @ replicate 32 0)), new_cipher = Some,
       seal = (\<lambda>k n a m. Some (k @ n @ a @ m)),
       unseal = (\<lambda>k n a x. let pre = k @ n @ a
                           in if take (length pre) x = pre then Some (drop (length pre) x) else None),
       to_json = (\<lambda>w. if w = demo_wallet then Some [7] else None),
       from_json = (\<lambda>m. if m = [7] then Some demo_wallet else None),
       list_from_json = (\<lambda>m. if m = [7, 7] then Some [demo_wallet] else None),
       encode_b64 = (\<lambda>xs. Some (replicate 22 (CHR ''A''))),
       argon2id = (\<lambda>p s. Some (replicate 32 1)) \<rparr>"

lemma demo_crypto_laws: "codec_laws demo_crypto"
proof -
  have "(if take (length p) x = p then Some (drop (length p) x) else None) = Some m \<longleftrightarrow> Some (p @ m) = Some x"
    for p x m :: "u8 list"
    by (auto, metis append_take_drop_id)
  from this [of "_ @ _ @ _"] show ?thesis
    unfolding codec_laws_def demo_crypto_def by (simp add: Let_def del: length_append split del: if_split) simp
qed

definition demo_storage :: secure_wallet_storage where
  "demo_storage =
     \<lparr> storage_path = ''/w'', storage_salt = replicate 16 9, loaded_wallets = Map.empty,
       current_key = \<lparr> key_id = ''key-1'', key_bytes = replicate 32 1, key_created_at = 0 \<rparr> \<rparr>"

section \<open>Properties\<close>

text \<open>C29. A wallet that was stored is what loading returns, under the same password: the two agree on the
  key, the nonce at the head of the file and the binding to the address; no other file is touched.\<close>

theorem wallet_roundtrip:
  assumes "codec_laws cr" and "length nonce_bytes = 12"
    and "store_wallet cr nonce_bytes out w password st d = (Inr (), d')"
  shows "load_wallet cr True (wi_address w) password st d' = Inr w
         \<and> (\<forall>path. path \<noteq> get_file_path st (wi_address w) \<longrightarrow> d' path = d path)"
proof -
  from assms(3) obtain m c x where mcx: "to_json cr w = Some m" "new_cipher cr (derive_key cr st password) = Some c"
    "seal cr c nonce_bytes (as_bytes (wi_address w)) m = Some x"
    "d' = d(get_file_path st (wi_address w) \<mapsto> nonce_bytes @ x)"
    unfolding store_wallet_Inr by blast
  moreover from mcx have "unseal cr c nonce_bytes (as_bytes (wi_address w)) x = Some m" "from_json cr m = Some w"
    using unsealD [OF assms(1)] jsonD [OF assms(1)] by blast+
  ultimately show ?thesis using assms(2) by (simp add: load_wallet_Inr)
qed

theorem wallet_roundtrip_witness:
  "load_wallet demo_crypto True ''0xab'' ''pw'' demo_storage
     (snd (store_wallet demo_crypto (replicate 12 3) Written demo_wallet ''pw'' demo_storage Map.empty)) = Inr demo_wallet"
proof -
  have st: "store_wallet demo_crypto (replicate 12 3) Written demo_wallet ''pw'' demo_storage Map.empty
     = (Inr (), snd (store_wallet demo_crypto (replicate 12 3) Written demo_wallet ''pw'' demo_storage Map.empty))"
    by (simp add: store_wallet_def write_file_def demo_crypto_def)
  have a: "wi_address demo_wallet = ''0xab''" by (simp add: demo_wallet_def)
  from wallet_roundtrip [OF demo_crypto_laws _ st] show ?thesis unfolding a by simp
qed

text \<open>C28. Loading returns a wallet exactly when the file is a nonce followed by what encryption makes, under
  the key of this password and this storage's salt and bound to this address, of the wallet's text: a
  file of another wallet, another password or another salt is refused unless it is that very encryption.\<close>

theorem wallet_load_exact:
  assumes "codec_laws cr"
  shows "load_wallet cr True address password st d = Inr w \<longleftrightarrow>
     (\<exists>n x. d (get_file_path st address) = Some (n @ x) \<and> length n = 12 \<and>
        (\<exists>c m. new_cipher cr (derive_key cr st password) = Some c \<and> seal cr c n (as_bytes address) m = Some x
           \<and> from_json cr m = Some w))"
proof -
  have "load_wallet cr True address password st d = Inr w \<longleftrightarrow>
     (\<exists>f. d (get_file_path st address) = Some f \<and> 12 \<le> length f \<and>
        (\<exists>c m. new_cipher cr (derive_key cr st password) = Some c \<and>
           seal cr c (take 12 f) (as_bytes address) m = Some (drop 12 f) \<and> from_json cr m = Some w))"
    unfolding load_wallet_Inr unsealD [OF assms] by blast
  then show ?thesis
    unfolding split_file [of _ 12 "\<lambda>n x. \<exists>c m. new_cipher cr (derive_key cr st password) = Some c \<and>
      seal cr c n (as_bytes address) m = Some x \<and> from_json cr m = Some w"] .
qed

theorem wallet_load_exact_witness:
  "load_wallet demo_crypto True ''0xab'' ''pw'' demo_storage [''/w/0xab.bin'' \<mapsto> replicate 13 3] \<noteq> Inr demo_wallet"
proof
  assume "load_wallet demo_crypto True ''0xab'' ''pw'' demo_storage [''/w/0xab.bin'' \<mapsto> replicate 13 3] = Inr demo_wallet"
  then obtain n x where nx: "[''/w/0xab.bin'' \<mapsto> replicate 13 3] (get_file_path demo_storage ''0xab'') = Some (n @ x)"
    "length n = 12" "\<exists>c m. new_cipher demo_crypto (derive_key demo_crypto demo_storage ''pw'') = Some c \<and>
       seal demo_crypto c n (as_bytes ''0xab'') m = Some x \<and> from_json demo_crypto m = Some demo_wallet"
    unfolding wallet_load_exact [OF demo_crypto_laws] by blast
  have "get_file_path demo_storage ''0xab'' = ''/w/0xab.bin''"
    by (simp add: get_file_path_def path_join_def demo_storage_def)
  with nx(1) have "length (n @ x) = 13" by (simp del: length_append) (metis length_replicate)
  with nx(2) have "length x = 1" by simp
  with nx(3,2) show False by (auto simp: demo_crypto_def)
qed

text \<open>A storage cannot be made with the default configuration: its salt has seven bytes and the
  constructor takes the first sixteen. It panics before it touches the disk, whatever else holds.\<close>

lemma default_storage_panics:
  "new_storage cr dir_ok readable d random_id random_salt now path default_storage_config
     = Inl (PanicStr ''range end index 16 out of range for slice of length 7'')"
proof -
  have "show_nat 16 = ''16''" "show_nat 7 = ''7''"
    by (code_simp, code_simp)
  moreover have "length (encryption_salt default_storage_config) = 7"
    by (simp add: default_storage_config_def)
  ultimately show ?thesis by (simp add: new_storage_def slice_to_def)
qed

text \<open>A salt longer than sixteen bytes is cut: the rest of it does not enter any key.\<close>

lemma salt_is_cut:
  assumes "new_storage cr dir_ok readable d rid rs now path config = Inr (Inr st)"
  shows "storage_salt st = take 16 (as_bytes (encryption_salt config))"
  using assms unfolding new_storage_def
  by (cases "generate_encryption_key cr rs ''default'' (take 16 (as_bytes (encryption_salt config)))")
     (auto simp: slice_to_def split: if_splits sum.splits)

text \<open>The key is the digest of the password's bytes followed by the salt, without a separator: where the
  salt of one storage continues the password, two storages share a key.\<close>

lemma derive_key_concat:
  "as_bytes p @ storage_salt st = as_bytes q @ storage_salt st' \<Longrightarrow> derive_key cr st p = derive_key cr st' q"
  by (simp add: derive_key_def)

text \<open>Writing goes straight to the final path: a write that fails after truncating the file loses the
  wallet that was there.\<close>

lemma failed_store_loses_wallet:
  assumes "to_json cr w = Some m" and "new_cipher cr (derive_key cr st p) = Some c"
    and "seal cr c n (as_bytes (wi_address w)) m = Some x"
  shows "load_wallet cr True (wi_address w) q st (snd (store_wallet cr n (Write_failed (Some [])) w p st d))
         = Inl (Security_failed (FormatError ''Encrypted file is too short''))"
  using assms by (simp add: store_wallet_def write_file_def load_wallet_def)

lemma deleted_not_loaded:
  "delete_wallet removable a st d = (Inr (), d')
     \<Longrightarrow> load_wallet cr readable a p st d' = Inl (Failed ''Failed to read encrypted data'')"
  by (auto simp: delete_wallet_def Let_def load_wallet_def split: if_splits)

lemma delete_twice:
  "delete_wallet True a st (snd (delete_wallet True a st d)) = (Inr (), snd (delete_wallet True a st d))"
  by (auto simp: delete_wallet_def Let_def)

text \<open>An address that is an absolute path leaves the storage's directory.\<close>

lemma absolute_address_escapes: "take 1 a = ''/'' \<Longrightarrow> get_file_path st a = a @ ''.bin''"
  by (cases a) (auto simp: get_file_path_def path_join_def)

lemma file_path_inject:
  "take 1 a \<noteq> ''/'' \<Longrightarrow> take 1 b \<noteq> ''/'' \<Longrightarrow> get_file_path st a = get_file_path st b \<longleftrightarrow> a = b"
  by (cases a; cases b) (auto simp: get_file_path_def path_join_def)

text \<open>The view shown to users has no field for the key material, only whether it is there.\<close>

lemma safe_view_hides_keys:
  "to_safe_view (w\<lparr>encrypted_private_key := Some e, encrypted_mnemonic := Some f\<rparr>)
     = to_safe_view (w\<lparr>encrypted_private_key := Some e', encrypted_mnemonic := Some f'\<rparr>)"
  by (simp add: to_safe_view_def)

end
