(* ===== verification/TransactionModel.thy ===== *)
theory TransactionModel
  imports Prelude
begin

text \<open>
  The transaction and block models of \<^verbatim>\<open>common/src/models/transaction.rs\<close> and
  \<^verbatim>\<open>common/src/models/block.rs\<close>: their construction from what the ethers library delivers, their
  updates, and the fees they report. The library's own texts of hashes, addresses and logs are the
  parameter \<open>renderers\<close>; its records are here with the fields the code reads.
\<close>

section \<open>What the library delivers\<close>

type_synonym h256 = "256 word"
type_synonym h160 = "160 word"

record 'l renderers =
  show_h256 :: "h256 \<Rightarrow> string"
  show_address :: "h160 \<Rightarrow> string"
  show_log :: "'l \<Rightarrow> string"

record eth_transaction =
  et_hash :: h256
  et_nonce :: u256
  et_block_hash :: "h256 option"
  et_block_number :: "u64 option"
  et_transaction_index :: "u64 option"
  et_from :: h160
  et_to :: "h160 option"
  et_value :: u256
  et_gas_price :: "u256 option"
  et_gas :: u256
  et_input :: "u8 list"
  et_v :: u64
  et_r :: u256
  et_s :: u256
  et_transaction_type :: "u64 option"
  et_access_list :: "(h160 \<times> h256 list) list option"
  et_max_priority_fee :: "u256 option"
  et_max_fee :: "u256 option"
  et_chain_id :: "u256 option"

record 'l receipt =
  rc_transaction_hash :: h256
  rc_transaction_index :: u64
  rc_block_hash :: "h256 option"
  rc_block_number :: "u64 option"
  rc_cumulative_gas_used :: u256
  rc_gas_used :: "u256 option"
  rc_contract_address :: "h160 option"
  rc_logs :: "'l list"
  rc_status :: "u64 option"
  rc_root :: "h256 option"
  rc_transaction_type :: "u64 option"
  rc_effective_gas_price :: "u256 option"

text \<open>\<open>U256::as_u64\<close> and the product of two \<open>U256\<close> panic when the value does not fit.\<close>

definition as_u64 :: "u256 \<Rightarrow> u64 res" where
  "as_u64 x = (if unat x < 2 ^ 64 then Inr (ucast x) else Inl (PanicStr ''Integer overflow when casting to u64''))"

section \<open>Transactions\<close>

datatype transaction_status = Pending | Confirmed | Failed | Cancelled | Replaced

definition show_status :: "transaction_status \<Rightarrow> string" where
  "show_status st =
     (case st of Pending \<Rightarrow> ''Pending'' | Confirmed \<Rightarrow> ''Confirmed'' | Failed \<Rightarrow> ''Failed''
      | Cancelled \<Rightarrow> ''Cancelled'' | Replaced \<Rightarrow> ''Replaced'')"

datatype transaction_type = Transfer | Contract | Deploy

definition show_type :: "transaction_type \<Rightarrow> string" where
  "show_type t = (case t of Transfer \<Rightarrow> ''Transfer'' | Contract \<Rightarrow> ''Contract'' | Deploy \<Rightarrow> ''Deploy'')"

text \<open>Times of the system clock are integers.\<close>

record transaction =
  tx_id :: nat
  tx_hash :: string
  tx_from :: string
  tx_to :: "string option"
  tx_value :: u256
  tx_nonce :: u64
  tx_data :: "u8 list"
  tx_gas_price :: u256
  tx_gas_limit :: u256
  tx_gas_used :: "u256 option"
  tx_transaction_type :: "u64 option"
  tx_status :: transaction_status
  tx_block_number :: "u64 option"
  tx_block_hash :: "string option"
  tx_created_at :: int
  tx_updated_at :: int
  tx_transaction_index :: "u64 option"
  tx_access_list :: "(string \<times> string list) list option"
  tx_max_priority_fee_per_gas :: "u256 option"
  tx_max_fee_per_gas :: "u256 option"
  tx_chain_id :: "u64 option"
  tx_v :: u64
  tx_r :: u256
  tx_s :: u256
  tx_input :: "u8 list"
  tx_contract_address :: "string option"
  tx_logs :: "string list option"
  tx_cumulative_gas_used :: "u256 option"
  tx_effective_gas_price :: "u256 option"
  tx_root :: "string option"
  tx_type :: "u64 option"

definition new_transaction :: "'l renderers \<Rightarrow> nat \<Rightarrow> int \<Rightarrow> h256 \<Rightarrow> h160 \<Rightarrow> h160 option \<Rightarrow> u256 \<Rightarrow> transaction" where
  "new_transaction rn fresh now hash sender recipient amount =
     \<lparr> tx_id = fresh, tx_hash = show_h256 rn hash, tx_from = show_address rn sender,
       tx_to = map_option (show_address rn) recipient, tx_value = amount, tx_nonce = 0, tx_data = [],
       tx_gas_price = 0, tx_gas_limit = 0, tx_gas_used = None, tx_transaction_type = None,
       tx_status = Pending, tx_block_number = None, tx_block_hash = None, tx_created_at = now,
       tx_updated_at = now, tx_transaction_index = None, tx_access_list = None,
       tx_max_priority_fee_per_gas = None, tx_max_fee_per_gas = None, tx_chain_id = None, tx_v = 0,
       tx_r = 0, tx_s = 0, tx_input = [], tx_contract_address = None, tx_logs = None,
       tx_cumulative_gas_used = None, tx_effective_gas_price = None, tx_root = None, tx_type = None \<rparr>"

definition show_access_list :: "'l renderers \<Rightarrow> (h160 \<times> h256 list) list \<Rightarrow> (string \<times> string list) list" where
  "show_access_list rn = map (\<lambda>(address, keys). (show_address rn address, map (show_h256 rn) keys))"

definition from_eth_transaction :: "'l renderers \<Rightarrow> nat \<Rightarrow> int \<Rightarrow> eth_transaction \<Rightarrow> transaction res" where
  "from_eth_transaction rn fresh now tx =
     rbind (as_u64 (et_nonce tx)) (\<lambda>nonce.
     rbind (case et_chain_id tx of None \<Rightarrow> Inr None | Some i \<Rightarrow> rbind (as_u64 i) (\<lambda>c. Inr (Some c))) (\<lambda>chain.
       Inr \<lparr> tx_id = fresh, tx_hash = show_h256 rn (et_hash tx), tx_from = show_address rn (et_from tx),
             tx_to = map_option (show_address rn) (et_to tx), tx_value = et_value tx, tx_nonce = nonce,
             tx_data = et_input tx, tx_gas_price = (case et_gas_price tx of None \<Rightarrow> 0 | Some p \<Rightarrow> p),
             tx_gas_limit = et_gas tx, tx_gas_used = None, tx_transaction_type = et_transaction_type tx,
             tx_status = Pending, tx_block_number = et_block_number tx,
             tx_block_hash = map_option (show_h256 rn) (et_block_hash tx), tx_created_at = now,
             tx_updated_at = now, tx_transaction_index = et_transaction_index tx,
             tx_access_list = map_option (show_access_list rn) (et_access_list tx),
             tx_max_priority_fee_per_gas = et_max_priority_fee tx, tx_max_fee_per_gas = et_max_fee tx,
             tx_chain_id = chain, tx_v = et_v tx, tx_r = et_r tx, tx_s = et_s tx, tx_input = et_input tx,
             tx_contract_address = None, tx_logs = None, tx_cumulative_gas_used = None,
             tx_effective_gas_price = None, tx_root = None, tx_type = et_transaction_type tx \<rparr>))"

definition receipt_status :: "u64 \<Rightarrow> transaction_status" where
  "receipt_status st = (if st = 1 then Confirmed else Failed)"

text \<open>The assignments before the status is looked at stay when it is missing.\<close>

definition update_from_receipt ::
  "'l renderers \<Rightarrow> int \<Rightarrow> 'l receipt \<Rightarrow> transaction \<Rightarrow> (string + unit) \<times> transaction" where
  "update_from_receipt rn now rc t =
     (let t = t\<lparr> tx_gas_used := rc_gas_used rc, tx_block_number := rc_block_number rc,
                 tx_block_hash := map_option (show_h256 rn) (rc_block_hash rc),
                 tx_transaction_index := Some (rc_transaction_index rc),
                 tx_contract_address := map_option (show_address rn) (rc_contract_address rc),
                 tx_logs := Some (map (show_log rn) (rc_logs rc)),
                 tx_cumulative_gas_used := Some (rc_cumulative_gas_used rc),
                 tx_effective_gas_price := rc_effective_gas_price rc,
                 tx_root := map_option (show_h256 rn) (rc_root rc), tx_type := rc_transaction_type rc \<rparr>
      in case rc_status rc of
           None \<Rightarrow> (Inl ''No status in receipt'', t)
         | Some st \<Rightarrow> (Inr (), t\<lparr> tx_status := receipt_status st, tx_updated_at := now \<rparr>))"

definition from_receipt :: "'l renderers \<Rightarrow> nat \<Rightarrow> int \<Rightarrow> 'l receipt \<Rightarrow> transaction" where
  "from_receipt rn fresh now rc =
     \<lparr> tx_id = fresh, tx_hash = show_h256 rn (rc_transaction_hash rc), tx_from = show_address rn 0,
       tx_to = None, tx_value = 0, tx_nonce = 0, tx_data = [], tx_gas_price = 0, tx_gas_limit = 0,
       tx_gas_used = rc_gas_used rc, tx_transaction_type = rc_transaction_type rc,
       tx_status = (case rc_status rc of None \<Rightarrow> Pending | Some st \<Rightarrow> receipt_status st),
       tx_block_number = rc_block_number rc, tx_block_hash = map_option (show_h256 rn) (rc_block_hash rc),
       tx_created_at = now, tx_updated_at = now, tx_transaction_index = Some (rc_transaction_index rc),
       tx_access_list = None, tx_max_priority_fee_per_gas = None, tx_max_fee_per_gas = None,
       tx_chain_id = None, tx_v = 0, tx_r = 0, tx_s = 0, tx_input = [],
       tx_contract_address = map_option (show_address rn) (rc_contract_address rc),
       tx_logs = Some (map (show_log rn) (rc_logs rc)),
       tx_cumulative_gas_used = Some (rc_cumulative_gas_used rc),
       tx_effective_gas_price = rc_effective_gas_price rc,
       tx_root = map_option (show_h256 rn) (rc_root rc), tx_type = rc_transaction_type rc \<rparr>"

definition cancel :: "int \<Rightarrow> transaction \<Rightarrow> transaction" where
  "cancel now t = t\<lparr> tx_status := Cancelled, tx_updated_at := now \<rparr>"

definition replace :: "int \<Rightarrow> transaction \<Rightarrow> transaction" where
  "replace now t = t\<lparr> tx_status := Replaced, tx_updated_at := now \<rparr>"

definition calculate_fee :: "transaction \<Rightarrow> u256 option res" where
  "calculate_fee t =
     (case tx_gas_used t of None \<Rightarrow> Inr None | Some used \<Rightarrow> rbind (mul_ov used (tx_gas_price t)) (\<lambda>f. Inr (Some f)))"

definition is_completed :: "transaction \<Rightarrow> bool" where
  "is_completed t \<longleftrightarrow> tx_status t \<in> {Confirmed, Failed}"

definition update_nonce :: "int \<Rightarrow> u64 \<Rightarrow> transaction \<Rightarrow> transaction" where
  "update_nonce now n t = t\<lparr> tx_nonce := n, tx_updated_at := now \<rparr>"

definition update_data :: "int \<Rightarrow> u8 list \<Rightarrow> transaction \<Rightarrow> transaction" where
  "update_data now xs t = t\<lparr> tx_data := xs, tx_updated_at := now \<rparr>"

definition update_gas :: "int \<Rightarrow> u256 \<Rightarrow> u256 \<Rightarrow> transaction \<Rightarrow> transaction" where
  "update_gas now price limit t = t\<lparr> tx_gas_price := price, tx_gas_limit := limit, tx_updated_at := now \<rparr>"

definition update_status :: "int \<Rightarrow> transaction_status \<Rightarrow> transaction \<Rightarrow> transaction" where
  "update_status now st t = t\<lparr> tx_status := st, tx_updated_at := now \<rparr>"

section \<open>Blocks\<close>

datatype block_status = Block_pending | Block_confirmed | Block_failed | Block_skipped

definition show_block_status :: "block_status \<Rightarrow> string" where
  "show_block_status st =
     (case st of Block_pending \<Rightarrow> ''Pending'' | Block_confirmed \<Rightarrow> ''Confirmed''
      | Block_failed \<Rightarrow> ''Failed'' | Block_skipped \<Rightarrow> ''Skipped'')"

record block =
  bk_id :: nat
  bk_hash :: string
  bk_parent_hash :: string
  bk_number :: u64
  bk_timestamp :: u64
  bk_author :: string
  bk_base_fee_per_gas :: "u256 option"
  bk_created_at :: int
  bk_difficulty :: u256
  bk_extra_data :: "u8 list"
  bk_gas_limit :: u256
  bk_gas_used :: u256
  bk_logs_bloom :: "u8 list"
  bk_miner :: string
  bk_mix_hash :: string
  bk_nonce :: u64
  bk_receipts_root :: string
  bk_sha3_uncles :: string
  bk_size :: u64
  bk_state_root :: string
  bk_total_difficulty :: u256
  bk_transactions :: "string list"
  bk_transactions_root :: string
  bk_uncles :: "string list"
  bk_updated_at :: int
  bk_status :: block_status

record eth_block =
  eb_hash :: "h256 option"
  eb_parent_hash :: h256
  eb_uncles_hash :: h256
  eb_author :: "h160 option"
  eb_state_root :: h256
  eb_transactions_root :: h256
  eb_receipts_root :: h256
  eb_number :: "u64 option"
  eb_gas_used :: u256
  eb_gas_limit :: u256
  eb_extra_data :: "u8 list"
  eb_logs_bloom :: "u8 list option"
  eb_timestamp :: u256
  eb_difficulty :: u256
  eb_total_difficulty :: "u256 option"
  eb_uncles :: "h256 list"
  eb_transactions :: "string list"
  eb_size :: "u256 option"
  eb_mix_hash :: "h256 option"
  eb_nonce :: "u8 list option"
  eb_base_fee_per_gas :: "u256 option"

definition or_empty :: "('a \<Rightarrow> string) \<Rightarrow> 'a option \<Rightarrow> string" where
  "or_empty f x = (case x of None \<Rightarrow> [] | Some a \<Rightarrow> f a)"

definition new_block :: "'l renderers \<Rightarrow> nat \<Rightarrow> int \<Rightarrow> u64 \<Rightarrow> string \<Rightarrow> string \<Rightarrow> string list \<Rightarrow> block" where
  "new_block rn fresh now n hash parent txs =
     \<lparr> bk_id = fresh, bk_hash = hash, bk_parent_hash = parent, bk_number = n, bk_timestamp = 0,
       bk_author = [], bk_base_fee_per_gas = None, bk_created_at = now, bk_difficulty = 0,
       bk_extra_data = [], bk_gas_limit = 0, bk_gas_used = 0, bk_logs_bloom = [],
       bk_miner = show_address rn 0, bk_mix_hash = [], bk_nonce = 0, bk_receipts_root = [],
       bk_sha3_uncles = [], bk_size = 0, bk_state_root = [], bk_total_difficulty = 0,
       bk_transactions = txs, bk_transactions_root = [], bk_uncles = [], bk_updated_at = now,
       bk_status = Block_pending \<rparr>"

definition update_block_info ::
  "'l renderers \<Rightarrow> int \<Rightarrow> h160 \<Rightarrow> u256 \<Rightarrow> u256 \<Rightarrow> u64 \<Rightarrow> u256 \<Rightarrow> u256 \<Rightarrow> u64 \<Rightarrow> block \<Rightarrow> block" where
  "update_block_info rn now miner diff total_diff sz limit used stamp b =
     b\<lparr> bk_miner := show_address rn miner, bk_difficulty := diff, bk_total_difficulty := total_diff,
        bk_size := sz, bk_gas_limit := limit, bk_gas_used := used, bk_timestamp := stamp, bk_updated_at := now \<rparr>"

definition update_block_status :: "int \<Rightarrow> block_status \<Rightarrow> block \<Rightarrow> block" where
  "update_block_status now st b = b\<lparr> bk_status := st, bk_updated_at := now \<rparr>"

definition add_transaction :: "int \<Rightarrow> string \<Rightarrow> block \<Rightarrow> block" where
  "add_transaction now h b = b\<lparr> bk_transactions := bk_transactions b @ [h], bk_updated_at := now \<rparr>"

text \<open>The nonce is an array of eight bytes, of which the first is taken.\<close>

definition from_eth_block :: "'l renderers \<Rightarrow> nat \<Rightarrow> int \<Rightarrow> eth_block \<Rightarrow> block res" where
  "from_eth_block rn fresh now e =
     rbind (expect (eb_total_difficulty e) ''Total difficulty is required'') (\<lambda>total_diff.
     rbind (case eb_size e of None \<Rightarrow> Inr 0 | Some s \<Rightarrow> as_u64 s) (\<lambda>sz.
     rbind (as_u64 (eb_timestamp e)) (\<lambda>stamp.
       Inr \<lparr> bk_id = fresh, bk_hash = or_empty (show_h256 rn) (eb_hash e),
             bk_parent_hash = show_h256 rn (eb_parent_hash e),
             bk_number = (case eb_number e of None \<Rightarrow> 0 | Some n \<Rightarrow> n), bk_timestamp = stamp,
             bk_author = or_empty (show_address rn) (eb_author e), bk_base_fee_per_gas = eb_base_fee_per_gas e,
             bk_created_at = now, bk_difficulty = eb_difficulty e, bk_extra_data = eb_extra_data e,
             bk_gas_limit = eb_gas_limit e, bk_gas_used = eb_gas_used e,
             bk_logs_bloom = (case eb_logs_bloom e of None \<Rightarrow> [] | Some bs \<Rightarrow> bs),
             bk_miner = or_empty (show_address rn) (eb_author e), bk_mix_hash = or_empty (show_h256 rn) (eb_mix_hash e),
             bk_nonce = (case eb_nonce e of None \<Rightarrow> 0 | Some bs \<Rightarrow> ucast (hd bs)),
             bk_receipts_root = show_h256 rn (eb_receipts_root e), bk_sha3_uncles = show_h256 rn (eb_uncles_hash e),
             bk_size = sz, bk_state_root = show_h256 rn (eb_state_root e), bk_total_difficulty = total_diff,
             bk_transactions = eb_transactions e, bk_transactions_root = show_h256 rn (eb_transactions_root e),
             bk_uncles = map (show_h256 rn) (eb_uncles e), bk_updated_at = now, bk_status = Block_confirmed \<rparr>)))"

definition is_confirmed :: "block \<Rightarrow> bool" where
  "is_confirmed b \<longleftrightarrow> bk_status b = Block_confirmed"

definition calculate_total_gas_fee :: "block \<Rightarrow> u256 option res" where
  "calculate_total_gas_fee b = rbind (mul_ov (bk_gas_used b) (bk_difficulty b)) (\<lambda>f. Inr (Some f))"

section \<open>Events in the life of a transaction\<close>

datatype 'l event =
    Receipt_arrives "'l receipt" | Cancel | Replace | Set_nonce u64 | Set_data "u8 list"
  | Set_gas u256 u256 | Set_status transaction_status

fun happen :: "'l renderers \<Rightarrow> int \<times> 'l event \<Rightarrow> transaction \<Rightarrow> transaction" where
  "happen rn (now, Receipt_arrives rc) t = snd (update_from_receipt rn now rc t)"
| "happen rn (now, Cancel) t = cancel now t"
| "happen rn (now, Replace) t = replace now t"
| "happen rn (now, Set_nonce n) t = update_nonce now n t"
| "happen rn (now, Set_data xs) t = update_data now xs t"
| "happen rn (now, Set_gas price limit) t = update_gas now price limit t"
| "happen rn (now, Set_status st) t = update_status now st t"

lemmas updates = cancel_def replace_def update_nonce_def update_data_def update_gas_def update_status_def
  update_from_receipt_def Let_def

text \<open>What a receipt says of a transaction, and what was fixed when the transaction was made.\<close>

definition receipt_part where
  "receipt_part t =
     (tx_gas_used t, tx_block_number t, tx_block_hash t, tx_transaction_index t, tx_contract_address t, tx_logs t,
      tx_cumulative_gas_used t, tx_effective_gas_price t, tx_root t, tx_type t)"

definition fixed_part where
  "fixed_part t =
     (tx_id t, tx_hash t, tx_from t, tx_to t, tx_value t, tx_chain_id t, (tx_v t, tx_r t, tx_s t), tx_input t,
      tx_access_list t, tx_max_priority_fee_per_gas t, tx_max_fee_per_gas t, tx_transaction_type t, tx_created_at t)"

lemma happen_fixed: "fixed_part (happen rn e t) = fixed_part t"
  by (cases "(rn, e, t)" rule: happen.cases) (simp_all add: updates fixed_part_def split: option.split)

section \<open>Properties\<close>

text \<open>A receipt says the same of a transaction whether it updates one that is known or makes a new one:
  every field a receipt determines agrees, and the status does when the receipt has one. An update keeps
  everything that was fixed when the transaction was made.\<close>

lemma receipt_update_agrees:
  "receipt_part (snd (update_from_receipt rn now rc t)) = receipt_part (from_receipt rn fresh now' rc)
   \<and> fixed_part (snd (update_from_receipt rn now rc t)) = fixed_part t
   \<and> (fst (update_from_receipt rn now rc t) = Inr () \<longleftrightarrow> rc_status rc \<noteq> None)
   \<and> tx_status (snd (update_from_receipt rn now rc t))
      = (if rc_status rc = None then tx_status t else tx_status (from_receipt rn fresh now' rc))"
proof (cases "rc_status rc")
  case None
  then show ?thesis
    by (simp add: update_from_receipt_def Let_def from_receipt_def receipt_part_def fixed_part_def)
next
  case (Some st)
  then show ?thesis
    by (simp add: update_from_receipt_def Let_def from_receipt_def receipt_part_def fixed_part_def)
qed

text \<open>An update that fails is not undone: a receipt without a status reports an error and has replaced
  the block data all the same, while the time of the last update still shows the old value.\<close>

lemma failed_update_sticks:
  assumes "rc_status rc = None"
  shows "update_from_receipt rn now rc t = (Inl ''No status in receipt'', snd (update_from_receipt rn now rc t))"
    and "receipt_part (snd (update_from_receipt rn now rc t)) = receipt_part (from_receipt rn fresh now' rc)"
    and "tx_updated_at (snd (update_from_receipt rn now rc t)) = tx_updated_at t"
  using assms by (simp_all add: update_from_receipt_def Let_def from_receipt_def receipt_part_def)

text \<open>Whatever happens to a transaction, in any order, its identity, its value and its signature stay.\<close>

lemma identity_fixed: "fixed_part (fold (happen rn) es t) = fixed_part t"
  by (induction es arbitrary: t) (simp_all add: happen_fixed)

text \<open>No status is final: a confirmed transaction can be cancelled and replaced, and confirmed again.\<close>

lemma confirmed_not_final:
  "tx_status (cancel now t) = Cancelled" "tx_status (replace now t) = Replaced"
  "\<not> is_completed (cancel now (update_status now' Confirmed t))"
  by (simp_all add: updates is_completed_def)

lemma fee_exact:
  "calculate_fee t = Inr (Some f) \<longleftrightarrow>
     (\<exists>used. tx_gas_used t = Some used \<and> unat f = unat used * unat (tx_gas_price t))"
  by (auto simp: calculate_fee_def ovf split: option.splits)

text \<open>The fee of a transaction made from a receipt is always zero: the receipt's effective gas price
  is stored in one field and the fee is computed from another, which is zero.\<close>

lemma receipt_fee_is_zero:
  "calculate_fee (from_receipt rn fresh now rc) = Inr (map_option (\<lambda>_. 0) (rc_gas_used rc))"
  by (cases "rc_gas_used rc") (simp_all add: calculate_fee_def from_receipt_def mul_ov_def)

text \<open>The fee of a block is the product of its gas and its difficulty: zero on every chain without
  proof of work, whatever gas was used.\<close>

lemma block_fee_of_difficulty:
  "calculate_total_gas_fee b = Inr (Some f) \<Longrightarrow> unat f = unat (bk_gas_used b) * unat (bk_difficulty b)"
  by (auto simp: calculate_total_gas_fee_def ovf)

lemma block_fee_zero: "bk_difficulty b = 0 \<Longrightarrow> calculate_total_gas_fee b = Inr (Some 0)"
  by (simp add: calculate_total_gas_fee_def mul_ov_def)

lemma block_needs_total_difficulty:
  "eb_total_difficulty e = None \<Longrightarrow> from_eth_block rn fresh now e = Inl (Expect ''Total difficulty is required'')"
  by (simp add: from_eth_block_def)

lemma block_nonce_first_byte:
  assumes "from_eth_block rn fresh now e = Inr b" and "eb_nonce e = Some (x # xs)"
  shows "bk_nonce b = ucast x"
  using assms by (auto simp: from_eth_block_def)

lemma eth_transaction_fits:
  "from_eth_transaction rn fresh now tx = Inr t \<Longrightarrow> unat (tx_nonce t) = unat (et_nonce tx)"
  by (auto simp: from_eth_transaction_def as_u64_def unsigned_ucast_eq take_bit_nat_eq_self split: if_splits option.splits)

end
