(* ===== verification/AccountModels.thy ===== *)
theory AccountModels
  imports Prelude
begin

text \<open>
  The wallet, user and chain models of \<^verbatim>\<open>common/src/models\<close>. Wallets and chains are changed by
  setters that note the time; a user's password is hashed by the argon2 crate, which is the parameter
  \<open>argon\<close> with the laws \<open>argon_laws\<close>. What the three share (a time of the last change, free-form
  metadata) is the interface \<open>timed_entity\<close>.
\<close>

type_synonym h160 = "160 word"

section \<open>Wallets\<close>

datatype wallet_type = Standard | Multi_sig | Hardware

definition show_wallet_type :: "wallet_type \<Rightarrow> string" where
  "show_wallet_type t = (case t of Standard \<Rightarrow> ''Standard'' | Multi_sig \<Rightarrow> ''MultiSig'' | Hardware \<Rightarrow> ''Hardware'')"

datatype wallet_status = Active | Locked | Deleted

definition show_wallet_status :: "wallet_status \<Rightarrow> string" where
  "show_wallet_status st = (case st of Active \<Rightarrow> ''Active'' | Locked \<Rightarrow> ''Locked'' | Deleted \<Rightarrow> ''Deleted'')"

record wallet =
  w_id :: nat
  w_address :: h160
  w_type :: wallet_type
  w_status :: wallet_status
  w_balance :: u256
  w_nonce :: u256
  w_created_at :: int
  w_updated_at :: int
  w_encrypted_private_key :: "string option"
  w_name :: string
  w_description :: "string option"
  w_tokens :: "string \<rightharpoonup> u256"
  w_contracts :: "h160 list"
  w_metadata :: "string \<rightharpoonup> string"
  w_chain_id :: u64
  w_gas_price :: u256
  w_gas_limit :: u256

definition new_wallet ::
  "nat \<Rightarrow> int \<Rightarrow> h160 \<Rightarrow> wallet_type \<Rightarrow> string \<Rightarrow> string option \<Rightarrow> u64 \<Rightarrow> u256 \<Rightarrow> u256 \<Rightarrow> wallet" where
  "new_wallet fresh now address kind name description chain price limit =
     \<lparr> w_id = fresh, w_address = address, w_type = kind, w_status = Active, w_balance = 0, w_nonce = 0,
       w_created_at = now, w_updated_at = now, w_encrypted_private_key = None, w_name = name,
       w_description = description, w_tokens = Map.empty, w_contracts = [], w_metadata = Map.empty,
       w_chain_id = chain, w_gas_price = price, w_gas_limit = limit \<rparr>"

text \<open>\<open>parse_key\<close> is the library's parser of private keys, which yields the address.\<close>

definition from_private_key ::
  "(string \<Rightarrow> h160 option) \<Rightarrow> nat \<Rightarrow> int \<Rightarrow> string \<Rightarrow> string \<Rightarrow> string option \<Rightarrow> u64 \<Rightarrow> u256 \<Rightarrow> u256 \<Rightarrow> string + wallet" where
  "from_private_key parse_key fresh now key name description chain price limit =
     (case parse_key key of
        None \<Rightarrow> Inl ''Failed to create wallet from private key''
      | Some address \<Rightarrow> Inr (new_wallet fresh now address Standard name description chain price limit))"

definition update_balance :: "int \<Rightarrow> u256 \<Rightarrow> wallet \<Rightarrow> wallet" where
  "update_balance now x w = w\<lparr> w_balance := x, w_updated_at := now \<rparr>"

definition update_nonce :: "int \<Rightarrow> u256 \<Rightarrow> wallet \<Rightarrow> wallet" where
  "update_nonce now x w = w\<lparr> w_nonce := x, w_updated_at := now \<rparr>"

definition lock :: "int \<Rightarrow> wallet \<Rightarrow> wallet" where
  "lock now w = w\<lparr> w_status := Locked, w_updated_at := now \<rparr>"

definition unlock :: "int \<Rightarrow> wallet \<Rightarrow> wallet" where
  "unlock now w = w\<lparr> w_status := Active, w_updated_at := now \<rparr>"

definition delete :: "int \<Rightarrow> wallet \<Rightarrow> wallet" where
  "delete now w = w\<lparr> w_status := Deleted, w_updated_at := now \<rparr>"

definition is_active :: "wallet \<Rightarrow> bool" where
  "is_active w \<longleftrightarrow> w_status w = Active"

definition has_sufficient_balance :: "wallet \<Rightarrow> u256 \<Rightarrow> bool" where
  "has_sufficient_balance w amount \<longleftrightarrow> amount \<le> w_balance w"

definition add_token :: "int \<Rightarrow> string \<Rightarrow> u256 \<Rightarrow> wallet \<Rightarrow> wallet" where
  "add_token now symbol x w = w\<lparr> w_tokens := (w_tokens w)(symbol \<mapsto> x), w_updated_at := now \<rparr>"

definition remove_token :: "int \<Rightarrow> string \<Rightarrow> wallet \<Rightarrow> wallet" where
  "remove_token now symbol w = w\<lparr> w_tokens := (w_tokens w)(symbol := None), w_updated_at := now \<rparr>"

definition add_contract :: "int \<Rightarrow> h160 \<Rightarrow> wallet \<Rightarrow> wallet" where
  "add_contract now c w = w\<lparr> w_contracts := w_contracts w @ [c], w_updated_at := now \<rparr>"

definition remove_contract :: "int \<Rightarrow> h160 \<Rightarrow> wallet \<Rightarrow> wallet" where
  "remove_contract now c w = w\<lparr> w_contracts := filter (\<lambda>d. d \<noteq> c) (w_contracts w), w_updated_at := now \<rparr>"

definition add_metadata :: "int \<Rightarrow> string \<Rightarrow> string \<Rightarrow> wallet \<Rightarrow> wallet" where
  "add_metadata now key v w = w\<lparr> w_metadata := (w_metadata w)(key \<mapsto> v), w_updated_at := now \<rparr>"

definition remove_metadata :: "int \<Rightarrow> string \<Rightarrow> wallet \<Rightarrow> wallet" where
  "remove_metadata now key w = w\<lparr> w_metadata := (w_metadata w)(key := None), w_updated_at := now \<rparr>"

definition get_metadata :: "wallet \<Rightarrow> string \<Rightarrow> string option" where
  "get_metadata w key = w_metadata w key"

definition update_gas :: "int \<Rightarrow> u256 \<Rightarrow> u256 \<Rightarrow> wallet \<Rightarrow> wallet" where
  "update_gas now price limit w = w\<lparr> w_gas_price := price, w_gas_limit := limit, w_updated_at := now \<rparr>"

section \<open>Users\<close>

datatype user_role = Role_user | Role_admin

definition show_role :: "user_role \<Rightarrow> string" where
  "show_role r = (case r of Role_admin \<Rightarrow> ''Admin'' | Role_user \<Rightarrow> ''User'')"

datatype user_status = User_active | User_inactive | User_banned

definition show_user_status :: "user_status \<Rightarrow> string" where
  "show_user_status st =
     (case st of User_active \<Rightarrow> ''Active'' | User_inactive \<Rightarrow> ''Inactive'' | User_banned \<Rightarrow> ''Banned'')"

record user =
  u_id :: nat
  u_username :: string
  u_email :: string
  u_password_hash :: string
  u_role :: user_role
  u_status :: user_status
  u_created_at :: int
  u_updated_at :: int
  u_last_login :: "int option"
  u_metadata :: "string \<rightharpoonup> string"

text \<open>
  The argon2 crate: the printed hash of a password under a salt (or a failure), whether a printed hash
  can be parsed, and whether a password verifies against it.
\<close>

record argon =
  hash_password :: "string \<Rightarrow> string \<Rightarrow> string option"
  parses :: "string \<Rightarrow> bool"
  verifies :: "string \<Rightarrow> string \<Rightarrow> bool"

definition argon_laws :: "argon \<Rightarrow> bool" where
  "argon_laws a \<longleftrightarrow>
     (\<forall>p s h. hash_password a p s = Some h \<longrightarrow> h \<noteq> [] \<and> parses a h \<and> (\<forall>q. verifies a q h \<longleftrightarrow> q = p))"

definition new_user :: "argon \<Rightarrow> nat \<Rightarrow> string \<Rightarrow> int \<Rightarrow> string \<Rightarrow> string \<Rightarrow> user_role \<Rightarrow> user res" where
  "new_user a fresh salt now username email role =
     rbind (expect (hash_password a [] salt) ''called `Result::unwrap()` on an `Err` value'') (\<lambda>h.
       Inr \<lparr> u_id = fresh, u_username = username, u_email = email, u_password_hash = h, u_role = role,
             u_status = User_active, u_created_at = now, u_updated_at = now, u_last_login = None,
             u_metadata = Map.empty \<rparr>)"

definition set_password :: "argon \<Rightarrow> string \<Rightarrow> int \<Rightarrow> string \<Rightarrow> user \<Rightarrow> (string + unit) \<times> user" where
  "set_password a salt now password u =
     (case hash_password a password salt of
        Some h \<Rightarrow> (Inr (), u\<lparr> u_password_hash := h, u_updated_at := now \<rparr>)
      | None \<Rightarrow> (Inl ''Failed to hash password'', u))"

definition verify_password :: "argon \<Rightarrow> user \<Rightarrow> string \<Rightarrow> string + bool" where
  "verify_password a u password =
     (if u_password_hash u = [] then Inl ''No password hash set''
      else if parses a (u_password_hash u) then Inr (verifies a password (u_password_hash u))
      else Inl ''Failed to parse password hash'')"

definition update_last_login :: "int \<Rightarrow> int \<Rightarrow> user \<Rightarrow> user" where
  "update_last_login login now u = u\<lparr> u_last_login := Some login, u_updated_at := now \<rparr>"

definition update_user_status :: "int \<Rightarrow> user_status \<Rightarrow> user \<Rightarrow> user" where
  "update_user_status now st u = u\<lparr> u_status := st, u_updated_at := now \<rparr>"

definition update_role :: "int \<Rightarrow> user_role \<Rightarrow> user \<Rightarrow> user" where
  "update_role now r u = u\<lparr> u_role := r, u_updated_at := now \<rparr>"

definition add_user_metadata :: "int \<Rightarrow> string \<Rightarrow> string \<Rightarrow> user \<Rightarrow> user" where
  "add_user_metadata now key v u = u\<lparr> u_metadata := (u_metadata u)(key \<mapsto> v), u_updated_at := now \<rparr>"

definition remove_user_metadata :: "int \<Rightarrow> string \<Rightarrow> user \<Rightarrow> user" where
  "remove_user_metadata now key u = u\<lparr> u_metadata := (u_metadata u)(key := None), u_updated_at := now \<rparr>"

section \<open>Chains\<close>

datatype chain_type = Mainnet | Testnet | Private

definition show_chain_type :: "chain_type \<Rightarrow> string" where
  "show_chain_type t = (case t of Mainnet \<Rightarrow> ''Mainnet'' | Testnet \<Rightarrow> ''Testnet'' | Private \<Rightarrow> ''Private'')"

datatype chain_status = Running | Stopped | Maintenance | Chain_error

definition show_chain_status :: "chain_status \<Rightarrow> string" where
  "show_chain_status st =
     (case st of Running \<Rightarrow> ''Running'' | Stopped \<Rightarrow> ''Stopped'' | Maintenance \<Rightarrow> ''Maintenance''
      | Chain_error \<Rightarrow> ''Error'')"

text \<open>The settings \<open>update_info\<close> replaces together; durations are in nanoseconds.\<close>

record chain_settings =
  c_name :: string
  c_rpc_url :: string
  c_wss_url :: string
  c_gas_price :: u256
  c_gas_limit :: u256
  c_transaction_timeout :: nat
  c_block_timeout :: nat
  c_min_confirmations :: u64
  c_explorer_url :: string
  c_native_token_symbol :: string
  c_native_token_decimals :: u8
  c_block_time :: nat
  c_max_priority_fee_per_gas :: u256
  c_max_fee_per_gas :: u256

record chain =
  c_id :: nat
  c_chain_id :: u64
  c_settings :: chain_settings
  c_contracts :: "h160 list"
  c_status :: chain_status
  c_created_at :: int
  c_updated_at :: int
  c_type :: chain_type
  c_metadata :: "string \<rightharpoonup> string"

definition new_chain :: "nat \<Rightarrow> int \<Rightarrow> u64 \<Rightarrow> chain_settings \<Rightarrow> h160 list \<Rightarrow> chain_type \<Rightarrow> chain" where
  "new_chain fresh now chain settings contracts kind =
     \<lparr> c_id = fresh, c_chain_id = chain, c_settings = settings, c_contracts = contracts, c_status = Running,
       c_created_at = now, c_updated_at = now, c_type = kind, c_metadata = Map.empty \<rparr>"

definition update_info :: "int \<Rightarrow> chain_settings \<Rightarrow> chain \<Rightarrow> chain" where
  "update_info now settings c = c\<lparr> c_settings := settings, c_updated_at := now \<rparr>"

definition update_chain_status :: "int \<Rightarrow> chain_status \<Rightarrow> chain \<Rightarrow> chain" where
  "update_chain_status now st c = c\<lparr> c_status := st, c_updated_at := now \<rparr>"

definition add_chain_contract :: "int \<Rightarrow> h160 \<Rightarrow> chain \<Rightarrow> chain" where
  "add_chain_contract now a c = c\<lparr> c_contracts := c_contracts c @ [a], c_updated_at := now \<rparr>"

definition add_chain_metadata :: "int \<Rightarrow> string \<Rightarrow> string \<Rightarrow> chain \<Rightarrow> chain" where
  "add_chain_metadata now key v c = c\<lparr> c_metadata := (c_metadata c)(key \<mapsto> v), c_updated_at := now \<rparr>"

definition remove_chain_metadata :: "int \<Rightarrow> string \<Rightarrow> chain \<Rightarrow> chain" where
  "remove_chain_metadata now key c = c\<lparr> c_metadata := (c_metadata c)(key := None), c_updated_at := now \<rparr>"

definition get_chain_metadata :: "chain \<Rightarrow> string \<Rightarrow> string option" where
  "get_chain_metadata c key = c_metadata c key"

section \<open>What the models share\<close>

text \<open>
  An entity that notes the time of its changes: every operation keeps the time of creation, and sets
  the time of the last change to its own or, when it fails, leaves it.
\<close>

locale timed_entity =
  fixes run_op :: "int \<times> 'o \<Rightarrow> 's \<Rightarrow> 's"
    and created :: "'s \<Rightarrow> int"
    and updated :: "'s \<Rightarrow> int"
  assumes created_op: "created (run_op (now, op) s) = created s"
    and updated_op: "updated (run_op (now, op) s) \<in> {now, updated s}"
begin

lemma created_run: "created (fold run_op os s) = created s"
  by (induction os arbitrary: s) (auto simp: created_op)

lemma times_run:
  assumes "sorted (map fst os)" and "updated s \<le> lb" and "created s \<le> updated s" and "\<forall>t\<in>fst ` set os. lb \<le> t"
  shows "created s \<le> updated (fold run_op os s)
         \<and> updated (fold run_op os s) \<le> (if os = [] then lb else fst (last os))"
  using assms
proof (induction os arbitrary: s lb)
  case (Cons e os)
  obtain now op where e: "e = (now, op)" by fastforce
  have up: "updated (run_op e s) \<in> {now, updated s}" unfolding e by (rule updated_op)
  have le: "updated (run_op e s) \<le> now" "created (run_op e s) \<le> updated (run_op e s)"
    using up Cons.prems by (auto simp: e created_op)
  have "\<forall>t\<in>fst ` set os. now \<le> t" using Cons.prems(1) by (auto simp: e)
  with Cons.IH [of "run_op e s" now] le Cons.prems(1) show ?case by (auto simp: e created_op)
qed simp

end

text \<open>
  An entity with entries by key: every operation changes at most one of them. The last change a
  sequence of operations makes to a key decides what is found there.
\<close>

definition last_change :: "('o \<Rightarrow> ('k \<times> 'v option) option) \<Rightarrow> 'k \<Rightarrow> 'o list \<Rightarrow> 'v option \<Rightarrow> 'v option" where
  "last_change change k os start =
     fold (\<lambda>op acc. case change op of Some (k', v) \<Rightarrow> if k' = k then v else acc | None \<Rightarrow> acc) os start"

locale keyed_entries =
  fixes run_op :: "'o \<Rightarrow> 's \<Rightarrow> 's"
    and entries :: "'s \<Rightarrow> 'k \<rightharpoonup> 'v"
    and change :: "'o \<Rightarrow> ('k \<times> 'v option) option"
  assumes entries_op:
    "entries (run_op op s) = (case change op of None \<Rightarrow> entries s | Some (k, v) \<Rightarrow> (entries s)(k := v))"
begin

lemma entries_run: "entries (fold run_op os s) k = last_change change k os (entries s k)"
  unfolding last_change_def
  by (induction os arbitrary: s) (auto simp: entries_op split: option.split)

lemma untouched: "(\<forall>op\<in>set os. \<forall>v. change op \<noteq> Some (k, v)) \<Longrightarrow> entries (fold run_op os s) k = entries s k"
  by (induction os arbitrary: s) (auto simp: entries_op split: option.split)

end

section \<open>Operations as data\<close>

datatype wallet_op =
    W_balance u256 | W_nonce u256 | W_lock | W_unlock | W_delete | W_add_token string u256
  | W_remove_token string | W_add_contract h160 | W_remove_contract h160 | W_add_metadata string string
  | W_remove_metadata string | W_gas u256 u256

fun wallet_run :: "int \<times> wallet_op \<Rightarrow> wallet \<Rightarrow> wallet" where
  "wallet_run (now, W_balance x) w = update_balance now x w"
| "wallet_run (now, W_nonce x) w = update_nonce now x w"
| "wallet_run (now, W_lock) w = lock now w"
| "wallet_run (now, W_unlock) w = unlock now w"
| "wallet_run (now, W_delete) w = delete now w"
| "wallet_run (now, W_add_token s x) w = add_token now s x w"
| "wallet_run (now, W_remove_token s) w = remove_token now s w"
| "wallet_run (now, W_add_contract c) w = add_contract now c w"
| "wallet_run (now, W_remove_contract c) w = remove_contract now c w"
| "wallet_run (now, W_add_metadata k v) w = add_metadata now k v w"
| "wallet_run (now, W_remove_metadata k) w = remove_metadata now k w"
| "wallet_run (now, W_gas p l) w = update_gas now p l w"

datatype user_op =
    U_password string string | U_login int | U_status user_status | U_role user_role
  | U_add_metadata string string | U_remove_metadata string

fun user_run :: "argon \<Rightarrow> int \<times> user_op \<Rightarrow> user \<Rightarrow> user" where
  "user_run a (now, U_password salt p) u = snd (set_password a salt now p u)"
| "user_run a (now, U_login t) u = update_last_login t now u"
| "user_run a (now, U_status st) u = update_user_status now st u"
| "user_run a (now, U_role r) u = update_role now r u"
| "user_run a (now, U_add_metadata k v) u = add_user_metadata now k v u"
| "user_run a (now, U_remove_metadata k) u = remove_user_metadata now k u"

datatype chain_op =
    C_info chain_settings | C_status chain_status | C_contract h160 | C_add_metadata string string
  | C_remove_metadata string

fun chain_run :: "int \<times> chain_op \<Rightarrow> chain \<Rightarrow> chain" where
  "chain_run (now, C_info i) c = update_info now i c"
| "chain_run (now, C_status st) c = update_chain_status now st c"
| "chain_run (now, C_contract a) c = add_chain_contract now a c"
| "chain_run (now, C_add_metadata k v) c = add_chain_metadata now k v c"
| "chain_run (now, C_remove_metadata k) c = remove_chain_metadata now k c"

lemmas wallet_defs = update_balance_def update_nonce_def lock_def unlock_def delete_def add_token_def remove_token_def
  add_contract_def remove_contract_def add_metadata_def remove_metadata_def update_gas_def
lemmas user_defs = set_password_def update_last_login_def update_user_status_def update_role_def
  add_user_metadata_def remove_user_metadata_def
lemmas chain_defs = update_info_def update_chain_status_def add_chain_contract_def add_chain_metadata_def
  remove_chain_metadata_def

fun token_change :: "int \<times> wallet_op \<Rightarrow> (string \<times> u256 option) option" where
  "token_change (_, W_add_token s x) = Some (s, Some x)"
| "token_change (_, W_remove_token s) = Some (s, None)"
| "token_change _ = None"

fun wallet_meta_change :: "int \<times> wallet_op \<Rightarrow> (string \<times> string option) option" where
  "wallet_meta_change (_, W_add_metadata k v) = Some (k, Some v)"
| "wallet_meta_change (_, W_remove_metadata k) = Some (k, None)"
| "wallet_meta_change _ = None"

fun user_meta_change :: "int \<times> user_op \<Rightarrow> (string \<times> string option) option" where
  "user_meta_change (_, U_add_metadata k v) = Some (k, Some v)"
| "user_meta_change (_, U_remove_metadata k) = Some (k, None)"
| "user_meta_change _ = None"

fun chain_meta_change :: "int \<times> chain_op \<Rightarrow> (string \<times> string option) option" where
  "chain_meta_change (_, C_add_metadata k v) = Some (k, Some v)"
| "chain_meta_change (_, C_remove_metadata k) = Some (k, None)"
| "chain_meta_change _ = None"

lemma wallet_op_cases:
  "w_created_at (wallet_run (now, op) w) = w_created_at w"
  "w_updated_at (wallet_run (now, op) w) = now"
  by (cases op; simp add: wallet_defs)+

interpretation wt: timed_entity wallet_run w_created_at w_updated_at
  by unfold_locales (simp_all add: wallet_op_cases)

interpretation ut: timed_entity "user_run a" u_created_at u_updated_at for a
proof
  fix now op and u :: user
  show "u_created_at (user_run a (now, op) u) = u_created_at u"
    by (cases op) (simp_all add: user_defs split: option.split)
  show "u_updated_at (user_run a (now, op) u) \<in> {now, u_updated_at u}"
    by (cases op) (simp_all add: user_defs split: option.split)
qed

interpretation ct: timed_entity chain_run c_created_at c_updated_at
proof
  fix now op and c :: chain
  show "c_created_at (chain_run (now, op) c) = c_created_at c" by (cases op) (simp_all add: chain_defs)
  show "c_updated_at (chain_run (now, op) c) \<in> {now, c_updated_at c}" by (cases op) (simp_all add: chain_defs)
qed

interpretation wk: keyed_entries wallet_run w_tokens token_change
proof
  fix e and w :: wallet
  show "w_tokens (wallet_run e w) = (case token_change e of None \<Rightarrow> w_tokens w | Some (k, v) \<Rightarrow> (w_tokens w)(k := v))"
    by (cases e; cases "snd e") (simp_all add: wallet_defs)
qed

interpretation wm: keyed_entries wallet_run w_metadata wallet_meta_change
proof
  fix e and w :: wallet
  show "w_metadata (wallet_run e w) =
      (case wallet_meta_change e of None \<Rightarrow> w_metadata w | Some (k, v) \<Rightarrow> (w_metadata w)(k := v))"
    by (cases e; cases "snd e") (simp_all add: wallet_defs)
qed

interpretation um: keyed_entries "user_run a" u_metadata user_meta_change for a
proof
  fix e and u :: user
  show "u_metadata (user_run a e u) =
      (case user_meta_change e of None \<Rightarrow> u_metadata u | Some (k, v) \<Rightarrow> (u_metadata u)(k := v))"
    by (cases e; cases "snd e") (simp_all add: user_defs split: option.split)
qed

interpretation cm: keyed_entries chain_run c_metadata chain_meta_change
proof
  fix e and c :: chain
  show "c_metadata (chain_run e c) =
      (case chain_meta_change e of None \<Rightarrow> c_metadata c | Some (k, v) \<Rightarrow> (c_metadata c)(k := v))"
    by (cases e; cases "snd e") (simp_all add: chain_defs)
qed

section \<open>Properties\<close>

text \<open>After any operations a wallet holds of each token, and under each key of its metadata, what the
  last operation on that token or key left; operations on others, and on balance, nonce, status,
  contracts and gas, never show there.\<close>

lemma wallet_entries_last:
  "w_tokens (fold wallet_run os w) symbol = last_change token_change symbol os (w_tokens w symbol)
   \<and> get_metadata (fold wallet_run os w) key = last_change wallet_meta_change key os (get_metadata w key)"
  by (simp add: wk.entries_run wm.entries_run get_metadata_def)

lemma metadata_last:
  "u_metadata (fold (user_run a) os u) key = last_change user_meta_change key os (u_metadata u key)"
  "get_chain_metadata (fold chain_run os' c) key = last_change chain_meta_change key os' (get_chain_metadata c key)"
  by (simp_all add: um.entries_run cm.entries_run get_chain_metadata_def)

text \<open>What no operation of a wallet changes.\<close>

definition wallet_identity where
  "wallet_identity w =
     (w_id w, w_address w, w_type w, w_chain_id w, w_name w, w_description w, w_created_at w, w_encrypted_private_key w)"

lemma wallet_identity_run: "wallet_identity (fold wallet_run os w) = wallet_identity w"
proof (induction os arbitrary: w)
  case (Cons e os)
  have "wallet_identity (wallet_run e w) = wallet_identity w"
    by (cases e; cases "snd e") (simp_all add: wallet_defs wallet_identity_def)
  with Cons.IH show ?case by simp
qed simp

text \<open>The password that was set last, of those whose hash could be computed; the empty one at first.\<close>

definition last_password :: "argon \<Rightarrow> (int \<times> user_op) list \<Rightarrow> string \<Rightarrow> string" where
  "last_password a os start =
     fold (\<lambda>(now, op) p. case op of U_password salt q \<Rightarrow> if hash_password a q salt = None then p else q | _ \<Rightarrow> p) os start"

definition password_is :: "argon \<Rightarrow> user \<Rightarrow> string \<Rightarrow> bool" where
  "password_is a u p \<longleftrightarrow> (\<exists>salt. hash_password a p salt = Some (u_password_hash u))"

lemma password_is_verify: "argon_laws a \<Longrightarrow> password_is a u p \<Longrightarrow> verify_password a u q = Inr (q = p)"
  by (auto simp: argon_laws_def password_is_def verify_password_def)

lemma password_is_run:
  "password_is a u p \<Longrightarrow> password_is a (fold (user_run a) os u) (last_password a os p)"
proof (induction os arbitrary: u p)
  case (Cons e os)
  let ?p = "last_password a [e] p"
  from Cons.prems have "password_is a (user_run a e u) ?p"
    by (cases e; cases "snd e") (auto simp: user_defs password_is_def last_password_def split: option.splits)
  from Cons.IH [OF this] show ?case by (simp add: last_password_def)
qed (simp add: last_password_def)

text \<open>Of a user, whatever happened to it, exactly one password verifies: the one set last, or the empty
  one if none was set. A new user can therefore be logged in to with an empty password.\<close>

lemma account_password_exact:
  assumes "argon_laws a" and "new_user a fresh salt now username email role = Inr u"
  shows "verify_password a (fold (user_run a) os u) q = Inr (q = last_password a os [])"
proof -
  from assms(2) have "password_is a u []" by (auto simp: new_user_def password_is_def)
  from password_is_verify [OF assms(1) password_is_run [OF this]] show ?thesis .
qed

definition demo_argon :: argon where
  "demo_argon =
     \<lparr> hash_password = (\<lambda>p salt. Some (CHR ''$'' # p)), parses = (\<lambda>h. h \<noteq> [] \<and> hd h = CHR ''$''),
       verifies = (\<lambda>q h. h = CHR ''$'' # q) \<rparr>"

lemma demo_argon_laws: "argon_laws demo_argon"
  by (auto simp: argon_laws_def demo_argon_def)

definition demo_user :: user where
  "demo_user =
     \<lparr> u_id = 1, u_username = ''ann'', u_email = ''a@b'', u_password_hash = ''$'', u_role = Role_user,
       u_status = User_active, u_created_at = 5, u_updated_at = 5, u_last_login = None, u_metadata = Map.empty \<rparr>"

text \<open>Nothing guards the status of a wallet: one that was deleted is active again after \<open>unlock\<close>, with
  its holdings.\<close>

lemma deleted_wallet_revives:
  "is_active (unlock now' (delete now w))" "w_tokens (unlock now' (delete now w)) = w_tokens w"
  "w_balance (unlock now' (delete now w)) = w_balance w"
  by (simp_all add: is_active_def unlock_def delete_def)

text \<open>The private key a wallet is made from is not kept.\<close>

lemma key_dropped:
  "from_private_key parse_key fresh now key name description chain price limit = Inr w
     \<Longrightarrow> w_encrypted_private_key w = None"
  by (auto simp: from_private_key_def new_wallet_def split: option.splits)

lemma removed_contract_gone: "c \<notin> set (w_contracts (remove_contract now c w))"
  by (simp add: remove_contract_def)

lemma wallet_times:
  assumes "sorted (map fst os)" and "\<forall>t\<in>fst ` set os. now \<le> t" and "os \<noteq> []"
    and "w = new_wallet fresh now address kind name description chain price limit"
  shows "now \<le> w_updated_at (fold wallet_run os w) \<and> w_updated_at (fold wallet_run os w) \<le> fst (last os)"
  using wt.times_run [OF assms(1), of w now] assms by (simp add: new_wallet_def)

end
