(* ===== verification/Services.thy ===== *)
theory Services
  imports Float64
begin

text \<open>
  The basic services of the common library: the keyed stores of tasks, jobs and rules
  (\<^verbatim>\<open>task_manager.rs\<close>, \<^verbatim>\<open>executor.rs\<close>, \<^verbatim>\<open>scheduler.rs\<close>, \<^verbatim>\<open>validator.rs\<close>), which meet one interface; the
  typed state manager over the bincode crate (parameters \<open>encode\<close> and \<open>decode\<close>); worker, event log,
  equilibrium history and metrics; and the gateway server of \<^verbatim>\<open>server.rs\<close>, whose services are arbitrary
  implementations of its trait. The iteration order of a hash map is an argument.
\<close>

section \<open>Keyed stores\<close>

text \<open>All configurations have these fields; only the first is ever read.\<close>

record service_config =
  config_id :: string
  config_name :: string
  config_version :: string
  config_created_at :: int
  retention_period :: nat

datatype task_status = Task_pending | Task_running | Task_completed | Task_error

record task =
  task_id :: string
  task_name :: string
  task_description :: string
  task_status :: task_status
  task_created_at :: int
  task_updated_at :: int

record task_manager =
  tm_config :: service_config
  tm_tasks :: "string \<rightharpoonup> task"

definition new_task_manager :: "service_config \<Rightarrow> task_manager" where
  "new_task_manager config = \<lparr> tm_config = config, tm_tasks = Map.empty \<rparr>"

definition add_task :: "task \<Rightarrow> task_manager \<Rightarrow> task_manager" where
  "add_task t m = m\<lparr> tm_tasks := (tm_tasks m)(task_id t \<mapsto> t) \<rparr>"

definition get_task :: "string \<Rightarrow> task_manager \<Rightarrow> task option" where
  "get_task k m = tm_tasks m k"

text \<open>The values in the order \<open>ks\<close> in which the map delivers its keys.\<close>

definition values_in :: "string list \<Rightarrow> (string \<rightharpoonup> 'v) \<Rightarrow> 'v list" where
  "values_in ks m = List.map_filter m ks"

definition get_tasks :: "string list \<Rightarrow> task_manager \<Rightarrow> task list" where
  "get_tasks ks m = values_in ks (tm_tasks m)"

definition remove_task :: "string \<Rightarrow> task_manager \<Rightarrow> task_manager" where
  "remove_task k m = m\<lparr> tm_tasks := (tm_tasks m)(k := None) \<rparr>"

definition clear_tasks :: "task_manager \<Rightarrow> task_manager" where
  "clear_tasks m = m\<lparr> tm_tasks := Map.empty \<rparr>"

text \<open>The executor has a task type of its own, with the same fields.\<close>

datatype exec_status = Exec_pending | Exec_running | Exec_completed | Exec_error

record exec_task =
  et_id :: string
  et_name :: string
  et_description :: string
  et_status :: exec_status
  et_created_at :: int
  et_updated_at :: int

record executor =
  ex_config :: service_config
  ex_tasks :: "string \<rightharpoonup> exec_task"

definition new_executor :: "service_config \<Rightarrow> executor" where
  "new_executor config = \<lparr> ex_config = config, ex_tasks = Map.empty \<rparr>"

definition ex_add_task :: "exec_task \<Rightarrow> executor \<Rightarrow> executor" where
  "ex_add_task t m = m\<lparr> ex_tasks := (ex_tasks m)(et_id t \<mapsto> t) \<rparr>"

definition ex_get_task :: "string \<Rightarrow> executor \<Rightarrow> exec_task option" where
  "ex_get_task k m = ex_tasks m k"

definition ex_get_tasks :: "string list \<Rightarrow> executor \<Rightarrow> exec_task list" where
  "ex_get_tasks ks m = values_in ks (ex_tasks m)"

definition ex_remove_task :: "string \<Rightarrow> executor \<Rightarrow> executor" where
  "ex_remove_task k m = m\<lparr> ex_tasks := (ex_tasks m)(k := None) \<rparr>"

definition ex_clear_tasks :: "executor \<Rightarrow> executor" where
  "ex_clear_tasks m = m\<lparr> ex_tasks := Map.empty \<rparr>"

datatype job_status = Job_pending | Job_running | Job_completed | Job_error

record job =
  job_id :: string
  job_name :: string
  job_description :: string
  job_status :: job_status
  job_created_at :: int
  job_updated_at :: int

record scheduler =
  sc_config :: service_config
  sc_jobs :: "string \<rightharpoonup> job"

definition new_scheduler :: "service_config \<Rightarrow> scheduler" where
  "new_scheduler config = \<lparr> sc_config = config, sc_jobs = Map.empty \<rparr>"

definition add_job :: "job \<Rightarrow> scheduler \<Rightarrow> scheduler" where
  "add_job j m = m\<lparr> sc_jobs := (sc_jobs m)(job_id j \<mapsto> j) \<rparr>"

definition get_job :: "string \<Rightarrow> scheduler \<Rightarrow> job option" where
  "get_job k m = sc_jobs m k"

definition get_jobs :: "string list \<Rightarrow> scheduler \<Rightarrow> job list" where
  "get_jobs ks m = values_in ks (sc_jobs m)"

definition remove_job :: "string \<Rightarrow> scheduler \<Rightarrow> scheduler" where
  "remove_job k m = m\<lparr> sc_jobs := (sc_jobs m)(k := None) \<rparr>"

definition clear_jobs :: "scheduler \<Rightarrow> scheduler" where
  "clear_jobs m = m\<lparr> sc_jobs := Map.empty \<rparr>"

datatype rule_status = Rule_pending | Rule_running | Rule_completed | Rule_error

record rule =
  rule_id :: string
  rule_name :: string
  rule_description :: string
  rule_status :: rule_status
  rule_created_at :: int
  rule_updated_at :: int

record validator =
  va_config :: service_config
  va_rules :: "string \<rightharpoonup> rule"

definition new_validator :: "service_config \<Rightarrow> validator" where
  "new_validator config = \<lparr> va_config = config, va_rules = Map.empty \<rparr>"

definition add_rule :: "rule \<Rightarrow> validator \<Rightarrow> validator" where
  "add_rule r m = m\<lparr> va_rules := (va_rules m)(rule_id r \<mapsto> r) \<rparr>"

definition get_rule :: "string \<Rightarrow> validator \<Rightarrow> rule option" where
  "get_rule k m = va_rules m k"

definition get_rules :: "string list \<Rightarrow> validator \<Rightarrow> rule list" where
  "get_rules ks m = values_in ks (va_rules m)"

definition remove_rule :: "string \<Rightarrow> validator \<Rightarrow> validator" where
  "remove_rule k m = m\<lparr> va_rules := (va_rules m)(k := None) \<rparr>"

definition clear_rules :: "validator \<Rightarrow> validator" where
  "clear_rules m = m\<lparr> va_rules := Map.empty \<rparr>"

section \<open>State manager, worker, event log, equilibrium history\<close>

record 'v state =
  st_value :: 'v
  st_created_at :: int
  st_updated_at :: int

record state_manager =
  sm_config :: service_config
  sm_states :: "string \<rightharpoonup> u8 list"

definition new_state_manager :: "service_config \<Rightarrow> state_manager" where
  "new_state_manager config = \<lparr> sm_config = config, sm_states = Map.empty \<rparr>"

definition get_state :: "(u8 list \<Rightarrow> string + 'v state) \<Rightarrow> string \<Rightarrow> state_manager \<Rightarrow> string + 'v option" where
  "get_state decode k m =
     (case sm_states m k of
        Some data \<Rightarrow> rbind (decode data) (\<lambda>s. Inr (Some (st_value s)))
      | None \<Rightarrow> Inr None)"

definition set_state :: "('v state \<Rightarrow> string + u8 list) \<Rightarrow> int \<Rightarrow> string \<Rightarrow> 'v \<Rightarrow> state_manager \<Rightarrow> string + state_manager" where
  "set_state encode now k v m =
     rbind (encode \<lparr> st_value = v, st_created_at = now, st_updated_at = now \<rparr>) (\<lambda>data.
       Inr (m\<lparr> sm_states := (sm_states m)(k \<mapsto> data) \<rparr>))"

definition remove_state :: "string \<Rightarrow> state_manager \<Rightarrow> state_manager" where
  "remove_state k m = m\<lparr> sm_states := (sm_states m)(k := None) \<rparr>"

definition clear_state :: "state_manager \<Rightarrow> state_manager" where
  "clear_state m = m\<lparr> sm_states := Map.empty \<rparr>"

datatype worker_status = Worker_initialized | Worker_running | Worker_stopped | Worker_error

record worker_info =
  worker_id :: string
  worker_name :: string
  worker_description :: string
  worker_version :: string
  worker_created_at :: int
  worker_updated_at :: int

record worker =
  wk_config :: service_config
  wk_status :: worker_status
  wk_info :: worker_info

definition new_worker :: "int \<Rightarrow> service_config \<Rightarrow> worker" where
  "new_worker now config =
     \<lparr> wk_config = config, wk_status = Worker_initialized,
       wk_info = \<lparr> worker_id = config_id config, worker_name = config_name config,
                   worker_description = ''Basic worker'', worker_version = config_version config,
                   worker_created_at = now, worker_updated_at = now \<rparr> \<rparr>"

definition worker_init :: "worker \<Rightarrow> worker" where
  "worker_init w = w\<lparr> wk_status := Worker_running \<rparr>"

definition worker_stop :: "worker \<Rightarrow> worker" where
  "worker_stop w = w\<lparr> wk_status := Worker_stopped \<rparr>"

record event =
  event_id :: string
  event_type :: string
  event_data :: "u8 list"
  event_created_at :: int

record event_handler =
  eh_config :: service_config
  eh_events :: "event list"

definition new_event_handler :: "service_config \<Rightarrow> event_handler" where
  "new_event_handler config = \<lparr> eh_config = config, eh_events = [] \<rparr>"

definition handle_event :: "event \<Rightarrow> event_handler \<Rightarrow> event_handler" where
  "handle_event e h = h\<lparr> eh_events := eh_events h @ [e] \<rparr>"

definition get_event_history :: "event_handler \<Rightarrow> event list" where
  "get_event_history h = eh_events h"

definition clear_event_history :: "event_handler \<Rightarrow> event_handler" where
  "clear_event_history h = h\<lparr> eh_events := [] \<rparr>"

record equilibrium_point =
  ep_token :: "160 word"
  ep_price :: u256
  ep_volume :: u256
  ep_created_at :: int

type_synonym equilibrium_points = "160 word \<rightharpoonup> equilibrium_point list"

definition calculate_equilibrium :: "int \<Rightarrow> 160 word \<Rightarrow> equilibrium_point" where
  "calculate_equilibrium now t = \<lparr> ep_token = t, ep_price = 0, ep_volume = 0, ep_created_at = now \<rparr>"

definition get_equilibrium_history :: "160 word \<Rightarrow> equilibrium_points \<Rightarrow> equilibrium_point list" where
  "get_equilibrium_history t m = (case m t of None \<Rightarrow> [] | Some ps \<Rightarrow> ps)"

definition update_equilibrium :: "160 word \<Rightarrow> equilibrium_point \<Rightarrow> equilibrium_points \<Rightarrow> equilibrium_points" where
  "update_equilibrium t p m = m(t \<mapsto> (case m t of None \<Rightarrow> [] | Some ps \<Rightarrow> ps) @ [p])"

section \<open>Metrics\<close>

text \<open>
  \<open>f64::min\<close> and \<open>f64::max\<close> prefer the operand that is a number. \<open>f64_MAX\<close> is the largest finite
  value. The running average is computed in floating point: the expression
  \<^verbatim>\<open>(avg * (count - 1) as f64 + value) / count as f64\<close> is the argument \<open>mean\<close> of average, count and value.
\<close>

definition f64_MAX :: f64 where
  "f64_MAX = Fin ((2 - 1 / 2 ^ 52) * 2 ^ 1023)"

definition f64_MIN :: f64 where
  "f64_MIN = Fin (- ((2 - 1 / 2 ^ 52) * 2 ^ 1023))"

record metric_value =
  mv_value :: f64
  mv_count :: u64
  mv_min :: f64
  mv_max :: f64
  mv_avg :: f64
  mv_created_at :: int
  mv_updated_at :: int

type_synonym metrics = "string \<rightharpoonup> metric_value"

definition fresh_metric :: "int \<Rightarrow> f64 \<Rightarrow> metric_value" where
  "fresh_metric now v =
     \<lparr> mv_value = v, mv_count = 0, mv_min = f64_MAX, mv_max = f64_MIN, mv_avg = Fin 0,
       mv_created_at = now, mv_updated_at = now \<rparr>"

definition record_metric :: "(f64 \<Rightarrow> u64 \<Rightarrow> f64 \<Rightarrow> f64) \<Rightarrow> int \<Rightarrow> string \<Rightarrow> f64 \<Rightarrow> metrics \<Rightarrow> metrics" where
  "record_metric mean now name v m =
     (let x = (case m name of None \<Rightarrow> fresh_metric now v | Some x \<Rightarrow> x)
      in m(name \<mapsto> \<lparr> mv_value = v, mv_count = mv_count x + 1, mv_min = f64_min (mv_min x) v,
                     mv_max = f64_max (mv_max x) v, mv_avg = mean (mv_avg x) (mv_count x + 1) v,
                     mv_created_at = mv_created_at x, mv_updated_at = now \<rparr>))"

definition get_metric :: "string \<Rightarrow> metrics \<Rightarrow> metric_value option" where
  "get_metric name m = m name"

definition clear_metric :: "string \<Rightarrow> metrics \<Rightarrow> metrics" where
  "clear_metric name m = m(name := None)"

definition clear_metrics :: "metrics \<Rightarrow> metrics" where
  "clear_metrics m = Map.empty"

section \<open>The gateway\<close>

datatype gateway_error = Service_exists string | Already_running | Not_running | Service_failed string | Bind_failed

record 's gateway =
  gw_port :: "u16 option"
  gw_listening :: bool
  gw_running :: bool
  gw_services :: "string \<rightharpoonup> 's"

definition new_gateway :: "u16 option \<Rightarrow> 's gateway" where
  "new_gateway port = \<lparr> gw_port = port, gw_listening = False, gw_running = False, gw_services = Map.empty \<rparr>"

definition register_service :: "string \<Rightarrow> 's \<Rightarrow> 's gateway \<Rightarrow> gateway_error + 's gateway" where
  "register_service name service g =
     (if gw_services g name \<noteq> None then Inl (Service_exists name)
      else Inr (g\<lparr> gw_services := (gw_services g)(name \<mapsto> service) \<rparr>))"

definition get_service :: "string \<Rightarrow> 's gateway \<Rightarrow> 's option" where
  "get_service name g = gw_services g name"

text \<open>
  The loop over the services in the order of the map. \<open>act\<close> is \<open>start\<close> or \<open>stop\<close> of the trait: whether
  it succeeds, and the service afterwards. The first failure ends the loop.
\<close>

fun each_service :: "('s \<Rightarrow> bool \<times> 's) \<Rightarrow> string list \<Rightarrow> (string \<rightharpoonup> 's) \<Rightarrow> (gateway_error + unit) \<times> (string \<rightharpoonup> 's)" where
  "each_service act [] m = (Inr (), m)"
| "each_service act (k # ks) m =
     (case m k of
        None \<Rightarrow> each_service act ks m
      | Some s \<Rightarrow>
          (let (ok, s') = act s
           in if ok then each_service act ks (m(k \<mapsto> s')) else (Inl (Service_failed k), m(k \<mapsto> s'))))"

definition gateway_start :: "('s \<Rightarrow> bool \<times> 's) \<Rightarrow> string list \<Rightarrow> bool \<Rightarrow> 's gateway \<Rightarrow> (gateway_error + unit) \<times> 's gateway" where
  "gateway_start act ks bind_ok g =
     (if gw_running g then (Inl Already_running, g)
      else let (r, m) = each_service act ks (gw_services g); g = g\<lparr> gw_services := m \<rparr>
           in case r of
                Inl e \<Rightarrow> (Inl e, g)
              | Inr _ \<Rightarrow>
                  if gw_port g = None then (Inr (), g\<lparr> gw_running := True \<rparr>)
                  else if bind_ok then (Inr (), g\<lparr> gw_listening := True, gw_running := True \<rparr>)
                  else (Inl Bind_failed, g))"

definition gateway_stop :: "('s \<Rightarrow> bool \<times> 's) \<Rightarrow> string list \<Rightarrow> 's gateway \<Rightarrow> (gateway_error + unit) \<times> 's gateway" where
  "gateway_stop act ks g =
     (if \<not> gw_running g then (Inl Not_running, g)
      else let (r, m) = each_service act ks (gw_services g); g = g\<lparr> gw_services := m \<rparr>
           in case r of
                Inl e \<Rightarrow> (Inl e, g)
              | Inr _ \<Rightarrow> (Inr (), g\<lparr> gw_listening := False, gw_running := False \<rparr>))"

section \<open>The interface of the keyed stores\<close>

locale keyed_store =
  fixes add :: "'v \<Rightarrow> 's \<Rightarrow> 's"
    and find :: "string \<Rightarrow> 's \<Rightarrow> 'v option"
    and remove :: "string \<Rightarrow> 's \<Rightarrow> 's"
    and clear :: "'s \<Rightarrow> 's"
    and listing :: "string list \<Rightarrow> 's \<Rightarrow> 'v list"
    and key :: "'v \<Rightarrow> string"
  assumes find_add: "find k (add v s) = (if k = key v then Some v else find k s)"
    and find_remove: "find k (remove k' s) = (if k = k' then None else find k s)"
    and find_clear: "find k (clear s) = None"
    and listing_find: "listing ks s = List.map_filter (\<lambda>k. find k s) ks"
begin

lemma find_key: "(\<forall>k v. find k s = Some v \<longrightarrow> key v = k) \<Longrightarrow> find k (add v s) = Some w \<Longrightarrow> key w = k"
  by (auto simp: find_add split: if_splits)

lemma listing_complete:
  assumes "distinct ks" and "set ks = {k. find k s \<noteq> None}"
  shows "set (listing ks s) = {v. \<exists>k. find k s = Some v} \<and> length (listing ks s) = length ks"
proof -
  have "\<forall>k\<in>set ks. find k s \<noteq> None" using assms(2) by auto
  then have l: "listing ks s = map (\<lambda>k. the (find k s)) ks"
    unfolding listing_find by (induction ks) (auto simp: List.map_filter_def)
  have "{v. \<exists>k. find k s = Some v} = (\<lambda>k. the (find k s)) ` set ks"
    unfolding assms(2) by (auto simp: image_iff) force
  with l show ?thesis by simp
qed

end

interpretation tasks: keyed_store add_task get_task remove_task clear_tasks get_tasks task_id
  by unfold_locales (auto simp: add_task_def get_task_def remove_task_def clear_tasks_def get_tasks_def values_in_def)

interpretation exec: keyed_store ex_add_task ex_get_task ex_remove_task ex_clear_tasks ex_get_tasks et_id
  by unfold_locales
    (auto simp: ex_add_task_def ex_get_task_def ex_remove_task_def ex_clear_tasks_def ex_get_tasks_def values_in_def)

interpretation jobs: keyed_store add_job get_job remove_job clear_jobs get_jobs job_id
  by unfold_locales (auto simp: add_job_def get_job_def remove_job_def clear_jobs_def get_jobs_def values_in_def)

interpretation rules: keyed_store add_rule get_rule remove_rule clear_rules get_rules rule_id
  by unfold_locales (auto simp: add_rule_def get_rule_def remove_rule_def clear_rules_def get_rules_def values_in_def)

section \<open>Lemmas\<close>

lemma state_roundtrip:
  assumes "\<forall>x data. encode x = Inr data \<longrightarrow> decode data = Inr x"
    and "set_state encode now k v m = Inr m'"
  shows "get_state decode k m' = Inr (Some v)" and "k' \<noteq> k \<Longrightarrow> get_state decode k' m' = get_state decode k' m"
  using assms by (auto simp: set_state_def get_state_def)

text \<open>The loop of the gateway: what it leaves when every action succeeds, and where it stops otherwise.\<close>

definition acted :: "('s \<Rightarrow> bool \<times> 's) \<Rightarrow> string set \<Rightarrow> (string \<rightharpoonup> 's) \<Rightarrow> string \<rightharpoonup> 's" where
  "acted act K m = (\<lambda>k. if k \<in> K then map_option (snd \<circ> act) (m k) else m k)"

lemma acted_step:
  "k \<notin> K \<Longrightarrow> m k = Some s \<Longrightarrow> acted act K (m(k \<mapsto> snd (act s))) = acted act (insert k K) m"
  "m k = None \<Longrightarrow> acted act K m = acted act (insert k K) m"
  by (auto simp: acted_def fun_eq_iff)

lemma each_service_ok:
  "distinct ks \<Longrightarrow> \<forall>k\<in>set ks. \<forall>s. m k = Some s \<longrightarrow> fst (act s)
     \<Longrightarrow> each_service act ks m = (Inr (), acted act (set ks) m)"
proof (induction ks arbitrary: m)
  case Nil
  then show ?case by (simp add: acted_def)
next
  case (Cons k ks)
  show ?case
  proof (cases "m k")
    case None
    with Cons.IH [of m] Cons.prems acted_step(2) [of m k act "set ks"] None show ?thesis by simp
  next
    case (Some s)
    then have "fst (act s)" using Cons.prems(2) by simp
    moreover have "each_service act ks (m(k \<mapsto> snd (act s))) = (Inr (), acted act (set ks) (m(k \<mapsto> snd (act s))))"
      using Cons.prems by (intro Cons.IH) auto
    ultimately show ?thesis
      using acted_step(1) [of k "set ks" m s act] Some Cons.prems(1) by (simp add: case_prod_unfold Let_def)
  qed
qed

lemma each_service_fails:
  "distinct ks \<Longrightarrow> \<not> (\<forall>k\<in>set ks. \<forall>s. m k = Some s \<longrightarrow> fst (act s))
     \<Longrightarrow> \<exists>pre k post. ks = pre @ k # post \<and> (\<exists>s. m k = Some s \<and> \<not> fst (act s))
           \<and> each_service act ks m = (Inl (Service_failed k), acted act (set (pre @ [k])) m)"
proof (induction ks arbitrary: m)
  case (Cons k ks)
  show ?case
  proof (cases "\<exists>s. m k = Some s \<and> \<not> fst (act s)")
    case True
    then obtain s where s: "m k = Some s" "\<not> fst (act s)" by blast
    then have "m(k \<mapsto> snd (act s)) = acted act {k} m" by (auto simp: acted_def fun_eq_iff)
    with s have "each_service act (k # ks) m = (Inl (Service_failed k), acted act (set ([] @ [k])) m)"
      by (simp add: case_prod_unfold Let_def)
    with s show ?thesis by blast
  next
    case False
    obtain m' where m'_def: "m' = (case m k of None \<Rightarrow> m | Some s \<Rightarrow> m(k \<mapsto> snd (act s)))" by simp
    have e: "each_service act (k # ks) m = each_service act ks m'"
      using False by (auto simp: m'_def case_prod_unfold Let_def split: option.split)
    have same: "m' j = m j" if "j \<noteq> k" for j using that by (auto simp: m'_def split: option.split)
    have "\<not> (\<forall>j\<in>set ks. \<forall>s. m' j = Some s \<longrightarrow> fst (act s))"
      using Cons.prems False same by (metis distinct.simps(2) set_ConsD)
    from Cons.IH [OF _ this] Cons.prems(1) obtain pre j post s where p: "ks = pre @ j # post" "m' j = Some s" "\<not> fst (act s)"
      "each_service act ks m' = (Inl (Service_failed j), acted act (set (pre @ [j])) m')" by auto
    have k: "k \<notin> set (pre @ [j])" "j \<noteq> k" using p(1) Cons.prems(1) by auto
    have "acted act (set (pre @ [j])) m' = acted act (set ((k # pre) @ [j])) m"
      using acted_step(1) [of k "set (pre @ [j])" m _ act] acted_step(2) [of m k act "set (pre @ [j])"] k(1)
      by (cases "m k") (auto simp: m'_def)
    with p e same [OF k(2)] have "k # ks = (k # pre) @ j # post" "m j = Some s"
      "each_service act (k # ks) m = (Inl (Service_failed j), acted act (set ((k # pre) @ [j])) m)" by auto
    with p(3) show ?thesis by blast
  qed
qed simp

lemma record_metric_at:
  "m name = Some x \<Longrightarrow> record_metric mean now name v m name =
     Some \<lparr> mv_value = v, mv_count = mv_count x + 1, mv_min = f64_min (mv_min x) v, mv_max = f64_max (mv_max x) v,
            mv_avg = mean (mv_avg x) (mv_count x + 1) v, mv_created_at = mv_created_at x, mv_updated_at = now \<rparr>"
  by (simp add: record_metric_def)

text \<open>What the run of a metric establishes.\<close>

lemma metric_run:
  assumes "vs \<noteq> []" and "m name = None"
  shows "\<exists>x. fold (\<lambda>(now, v). record_metric mean now name v) vs m name = Some x
           \<and> mv_value x = snd (last vs) \<and> mv_count x = of_nat (length vs)
           \<and> mv_created_at x = fst (hd vs) \<and> mv_updated_at x = fst (last vs)
           \<and> mv_min x \<noteq> NaN \<and> mv_max x \<noteq> NaN
           \<and> (\<forall>v\<in>snd ` set vs. v \<noteq> NaN \<longrightarrow> f64_le (mv_min x) v \<and> f64_le v (mv_max x))"
  using assms
proof (induction vs rule: rev_induct)
  case (snoc e vs)
  obtain now v where e: "e = (now, v)" by fastforce
  show ?case
  proof (cases "vs = []")
    case True
    have "f64_MAX \<noteq> NaN" "f64_MIN \<noteq> NaN" by (simp_all add: f64_MAX_def f64_MIN_def)
    with True snoc.prems show ?thesis
      by (simp add: e record_metric_def fresh_metric_def f64_max_ge f64_min_le)
  next
    case False
    with snoc.IH snoc.prems obtain x where x: "fold (\<lambda>(now, v). record_metric mean now name v) vs m name = Some x"
      "mv_count x = of_nat (length vs)" "mv_created_at x = fst (hd vs)" "mv_min x \<noteq> NaN" "mv_max x \<noteq> NaN"
      "\<forall>v\<in>snd ` set vs. v \<noteq> NaN \<longrightarrow> f64_le (mv_min x) v \<and> f64_le v (mv_max x)" by blast
    have lo: "f64_le (f64_min (mv_min x) v) (mv_min x)" "f64_min (mv_min x) v \<noteq> NaN"
      using f64_min_le(2) [OF x(4), of v] by simp_all
    have hi: "f64_le (mv_max x) (f64_max (mv_max x) v)" "f64_max (mv_max x) v \<noteq> NaN"
      using f64_max_ge(2) [OF x(5), of v] by simp_all
    have "f64_le (f64_min (mv_min x) v) w \<and> f64_le w (f64_max (mv_max x) v)" if "w \<in> snd ` set (vs @ [e])" "w \<noteq> NaN" for w
    proof (cases "w \<in> snd ` set vs")
      case True
      with x(6) that(2) have "f64_le (mv_min x) w" "f64_le w (mv_max x)" by blast+
      then show ?thesis using lo(1) hi(1) f64_le_trans by blast
    next
      case False
      with that have "w = v" by (simp add: e)
      with that(2) show ?thesis by (simp add: f64_max_ge(1) f64_min_le(1))
    qed
    with False x(1-3) lo(2) hi(2)
      record_metric_at [of "fold (\<lambda>(now, v). record_metric mean now name v) vs m" name x mean now v]
    show ?thesis by (simp add: e)
  qed
qed simp

section \<open>Properties\<close>

text \<open>The gateway starts exactly when it is not running, every registered service starts and the port, if
  one is configured, can be bound; then it is running, and each service is what its own start made of
  it, whatever the order of the map.\<close>

lemma gateway_start_exact:
  assumes "distinct ks" and "set ks = dom (gw_services g)"
  shows "(fst (gateway_start act ks bind_ok g) = Inr () \<longleftrightarrow>
            \<not> gw_running g \<and> (\<forall>k s. gw_services g k = Some s \<longrightarrow> fst (act s)) \<and> (gw_port g = None \<or> bind_ok))
       \<and> (fst (gateway_start act ks bind_ok g) = Inr () \<longrightarrow>
            gw_running (snd (gateway_start act ks bind_ok g))
            \<and> gw_services (snd (gateway_start act ks bind_ok g)) = map_option (snd \<circ> act) \<circ> gw_services g)"
proof (cases "\<forall>k s. gw_services g k = Some s \<longrightarrow> fst (act s)")
  case True
  have e: "each_service act ks (gw_services g) = (Inr (), acted act (set ks) (gw_services g))"
    using each_service_ok [OF assms(1), of "gw_services g" act] True by blast
  have "acted act (set ks) (gw_services g) = map_option (snd \<circ> act) \<circ> gw_services g"
    by (auto simp: acted_def fun_eq_iff assms(2) domIff)
  with e True show ?thesis by (simp add: gateway_start_def Let_def)
next
  case False
  then have "\<not> (\<forall>k\<in>set ks. \<forall>s. gw_services g k = Some s \<longrightarrow> fst (act s))"
    unfolding assms(2) by (auto simp: dom_def)
  from each_service_fails [OF assms(1) this] obtain k m where
    "each_service act ks (gw_services g) = (Inl (Service_failed k), m)" by blast
  then have "fst (gateway_start act ks bind_ok g) \<noteq> Inr ()" by (simp add: gateway_start_def)
  with False show ?thesis by blast
qed

text \<open>After any sequence of values was recorded under a name that was new, the metric shows the last
  value and their number, and its minimum and maximum enclose every value that is a number.\<close>

lemma metric_encloses:
  assumes "vs \<noteq> []" and "m name = None"
  shows "\<exists>x. get_metric name (fold (\<lambda>(now, v). record_metric mean now name v) vs m) = Some x
           \<and> mv_value x = snd (last vs) \<and> mv_count x = of_nat (length vs)
           \<and> mv_created_at x = fst (hd vs) \<and> mv_updated_at x = fst (last vs)
           \<and> (\<forall>v\<in>snd ` set vs. v \<noteq> NaN \<longrightarrow> f64_le (mv_min x) v \<and> f64_le v (mv_max x))"
  using metric_run [where m = m and name = name, OF assms] by (auto simp: get_metric_def)

text \<open>A name under which only infinite values were recorded keeps a bound that was never recorded.\<close>

lemma metric_min_not_recorded:
  "mv_min (the (record_metric mean now name Pos_inf Map.empty name)) = f64_MAX"
  by (simp add: record_metric_def fresh_metric_def f64_min_def f64_MAX_def)

text \<open>A start that fails is not undone: the services before the failure stay started, the gateway does not
  count as running, and so \<open>stop\<close> refuses to stop them.\<close>

lemma failed_start_not_undone:
  assumes "distinct ks" and "\<not> gw_running g" and "fst (gateway_start act ks bind_ok g) = Inl e"
  shows "gateway_stop act' ks' (snd (gateway_start act ks bind_ok g)) = (Inl Not_running, snd (gateway_start act ks bind_ok g))"
    and "\<exists>K. gw_services (snd (gateway_start act ks bind_ok g)) = acted act K (gw_services g)
           \<and> (K = set ks \<or> (\<exists>pre k post. ks = pre @ k # post \<and> K = set (pre @ [k])))"
proof -
  obtain r m where e: "each_service act ks (gw_services g) = (r, m)" by fastforce
  show "gateway_stop act' ks' (snd (gateway_start act ks bind_ok g)) = (Inl Not_running, snd (gateway_start act ks bind_ok g))"
    using assms(2,3) e by (auto simp: gateway_start_def gateway_stop_def Let_def split: sum.splits if_splits)
  have m: "gw_services (snd (gateway_start act ks bind_ok g)) = m"
    using assms(2) e by (auto simp: gateway_start_def Let_def split: sum.split)
  show "\<exists>K. gw_services (snd (gateway_start act ks bind_ok g)) = acted act K (gw_services g)
           \<and> (K = set ks \<or> (\<exists>pre k post. ks = pre @ k # post \<and> K = set (pre @ [k])))"
  proof (cases "\<forall>k\<in>set ks. \<forall>s. gw_services g k = Some s \<longrightarrow> fst (act s)")
    case True
    from each_service_ok [OF assms(1) this] e m show ?thesis by auto
  next
    case False
    from each_service_fails [OF assms(1) this] e m show ?thesis by auto
  qed
qed

end
