(* ===== verification/BotUtils.thy ===== *)
theory BotUtils
  imports Texts Float64
begin

text \<open>
  The utilities of the bot: saturating \<open>U256\<close> arithmetic, clamping and the gas choice of
  \<^verbatim>\<open>snipebot/src/utils/math.rs\<close>, amounts, shortened texts and addresses of \<^verbatim>\<open>format.rs\<close>, durations
  of \<^verbatim>\<open>time.rs\<close>. Averages and deviations of floating-point numbers are left out. A slice outside its
  text panics; the bot is a release build, so \<open>usize\<close> and \<open>u64\<close> arithmetic wraps.
\<close>

section \<open>Numbers\<close>

definition safe_add_u256 :: "u256 \<Rightarrow> u256 \<Rightarrow> u256" where
  "safe_add_u256 a b = (case add_ov a b of Inr c \<Rightarrow> c | Inl _ \<Rightarrow> - 1)"

definition safe_sub_u256 :: "u256 \<Rightarrow> u256 \<Rightarrow> u256" where
  "safe_sub_u256 a b = (case sub_ov a b of Inr c \<Rightarrow> c | Inl _ \<Rightarrow> 0)"

definition average_u256 :: "u256 list \<Rightarrow> u256" where
  "average_u256 vs = (if vs = [] then 0 else foldl safe_add_u256 0 vs div of_nat (length vs))"

definition is_within_range :: "f64 \<Rightarrow> f64 \<Rightarrow> f64 \<Rightarrow> bool" where
  "is_within_range v lo hi \<longleftrightarrow> f64_le lo v \<and> f64_le v hi"

definition clamp :: "f64 \<Rightarrow> f64 \<Rightarrow> f64 \<Rightarrow> f64" where
  "clamp v lo hi = (if f64_lt v lo then lo else if f64_lt hi v then hi else v)"

text \<open>\<open>profit_in_gas\<close> is \<^verbatim>\<open>(expected_profit / gas_price) as u64\<close>.\<close>

definition optimize_gas :: "(f64 \<Rightarrow> f64 \<Rightarrow> u64) \<Rightarrow> f64 \<Rightarrow> u64 \<Rightarrow> f64 \<Rightarrow> u64" where
  "optimize_gas profit_in_gas expected_profit base_gas_cost gas_price =
     (if f64_le expected_profit (Fin 0) \<or> f64_le gas_price (Fin 0) then base_gas_cost
      else min (base_gas_cost + profit_in_gas expected_profit gas_price div 2) (base_gas_cost * 3))"

section \<open>Texts\<close>

definition slice :: "nat \<Rightarrow> nat \<Rightarrow> string \<Rightarrow> string res" where
  "slice a b s = (if a \<le> b \<and> b \<le> length s then Inr (drop a (take b s)) else Inl (PanicStr ''slice index out of range''))"

text \<open>Addresses and hashes come as their debug text.\<close>

definition short_address :: "string \<Rightarrow> string res" where
  "short_address s =
     (if length s < 10 then Inr s
      else rbind (slice 0 6 s) (\<lambda>a. rbind (slice (length s - 4) (length s) s) (\<lambda>b. Inr (a @ ''...'' @ b))))"

definition short_hash :: "string \<Rightarrow> string res" where
  "short_hash s =
     (if length s < 10 then Inr s
      else rbind (slice 0 10 s) (\<lambda>a. rbind (slice (length s - 6) (length s) s) (\<lambda>b. Inr (a @ ''...'' @ b))))"

definition format_token_amount :: "u256 \<Rightarrow> u8 \<Rightarrow> nat \<Rightarrow> string" where
  "format_token_amount amount decimals display_decimals =
     (if amount = 0 then ''0''
      else
        let amount_str = show_nat (unat amount); amount_len = length amount_str; d = unat decimals
        in if amount_len \<le> d then
             (let decimal_part = replicate (d - amount_len) (CHR ''0'') @ amount_str
              in ''0.'' @ (if display_decimals < length decimal_part then take display_decimals decimal_part else decimal_part))
           else
             (let integer_part = take (amount_len - d) amount_str; decimal_part = drop (amount_len - d) amount_str;
                  formatted = (if display_decimals < length decimal_part then take display_decimals decimal_part else decimal_part)
              in if 0 < display_decimals \<and> formatted \<noteq> [] \<and> formatted \<noteq> replicate (length formatted) (CHR ''0'')
                 then integer_part @ ''.'' @ formatted else integer_part))"

definition format_eth :: "u256 \<Rightarrow> nat \<Rightarrow> string" where
  "format_eth wei_amount display_decimals = format_token_amount wei_amount 18 display_decimals"

text \<open>The regular expression of addresses and hashes; \<open>from_str\<close> is the library's parser.\<close>

definition is_hex_digit :: "char \<Rightarrow> bool" where
  "is_hex_digit c \<longleftrightarrow> c \<in> set ''0123456789abcdefABCDEF''"

definition hex_of_length :: "nat \<Rightarrow> string \<Rightarrow> bool" where
  "hex_of_length n s \<longleftrightarrow> (let ds = (if take 2 s = ''0x'' then drop 2 s else s) in length ds = n \<and> list_all is_hex_digit ds)"

definition with_0x :: "string \<Rightarrow> string" where
  "with_0x s = (if take 2 s = ''0x'' then s else ''0x'' @ s)"

definition parse_address :: "(string \<Rightarrow> 'a option) \<Rightarrow> string \<Rightarrow> 'a option" where
  "parse_address from_str s = (if hex_of_length 40 s then from_str (with_0x s) else None)"

definition parse_hash :: "(string \<Rightarrow> 'a option) \<Rightarrow> string \<Rightarrow> 'a option" where
  "parse_hash from_str s = (if hex_of_length 64 s then from_str (with_0x s) else None)"

text \<open>\<open>str::rfind\<close>: the last position at which the pattern occurs.\<close>

fun rfind :: "string \<Rightarrow> string \<Rightarrow> nat option" where
  "rfind p [] = (if p = [] then Some 0 else None)"
| "rfind p (c # cs) =
     (case rfind p cs of
        Some i \<Rightarrow> Some (Suc i)
      | None \<Rightarrow> if take (length p) (c # cs) = p then Some 0 else None)"

definition format_error :: "string \<Rightarrow> string res" where
  "format_error e =
     (if length e \<le> 100 then Inr e
      else case rfind ''error:'' e of
             Some i \<Rightarrow>
               rbind (slice i (length e) e) (\<lambda>last_error.
                 if length last_error \<le> 100 then Inr last_error
                 else rbind (slice 0 97 last_error) (\<lambda>t. Inr (t @ ''...'')))
           | None \<Rightarrow> rbind (slice 0 97 e) (\<lambda>t. Inr (t @ ''...'')))"

text \<open>Lengths are 64-bit numbers here, because \<open>max_len - 3\<close> wraps.\<close>

definition truncate_string :: "string \<Rightarrow> u64 \<Rightarrow> string res" where
  "truncate_string s max_len =
     (if length s \<le> unat max_len then Inr s
      else
        let half_len = (max_len - 3) div 2
        in rbind (slice 0 (unat half_len) s) (\<lambda>a.
           rbind (slice (unat (of_nat (length s) - half_len)) (length s) s) (\<lambda>b. Inr (a @ ''...'' @ b))))"

definition format_duration_ms :: "u64 \<Rightarrow> string" where
  "format_duration_ms millis =
     (let seconds = millis div 1000; minutes = seconds div 60; hours = minutes div 60; days = hours div 24;
          num = (\<lambda>x. show_nat (unat x))
      in if 0 < days then num days @ ''d '' @ num (hours mod 24) @ ''h '' @ num (minutes mod 60) @ ''m '' @ num (seconds mod 60) @ ''s''
         else if 0 < hours then num hours @ ''h '' @ num (minutes mod 60) @ ''m '' @ num (seconds mod 60) @ ''s''
         else if 0 < minutes then num minutes @ ''m '' @ num (seconds mod 60) @ ''s''
         else if 0 < seconds then num seconds @ ''s''
         else num millis @ ''ms'')"

section \<open>Saturating sums and averages\<close>

lemma safe_add_unat: "unat (safe_add_u256 a b) = min (unat a + unat b) (2 ^ 256 - 1)"
proof (cases "unat a + unat b < 2 ^ 256")
  case True
  then have "add_ov a b = Inr (a + b)" by (simp add: add_ov_def)
  moreover from True have "unat (a + b) = unat a + unat b" by (subst unat_add_lem [THEN iffD1]) simp_all
  ultimately show ?thesis using True by (simp add: safe_add_u256_def)
next
  case False
  then have "add_ov a b = Inl Overflow" by (simp add: add_ov_def)
  with False show ?thesis by (simp add: safe_add_u256_def unsigned_minus_1_eq_mask mask_eq_exp_minus_1)
qed

lemma safe_sub_unat: "unat (safe_sub_u256 a b) = unat a - unat b"
  by (auto simp: safe_sub_u256_def sub_ov_def unat_sub word_le_nat_alt)

lemma sum_saturates:
  "unat (foldl safe_add_u256 s vs) = min (unat s + sum_list (map unat vs)) (2 ^ 256 - 1)"
proof (induction vs arbitrary: s)
  case Nil
  have "unat s < 2 ^ LENGTH(256)" by (rule unsigned_less)
  then show ?case by simp
next
  case (Cons v vs)
  then show ?case by (simp add: safe_add_unat)
qed

lemma sum_list_bound: "\<forall>v\<in>set vs. f v \<le> (b :: nat) \<Longrightarrow> sum_list (map f vs) \<le> length vs * b"
  by (induction vs) (auto intro: add_mono)

text \<open>The average is exact unless the sum does not fit, and never above the largest value.\<close>

lemma average_unat:
  assumes "vs \<noteq> []" and "length vs < 2 ^ 256"
  shows "unat (average_u256 vs) = min (sum_list (map unat vs)) (2 ^ 256 - 1) div length vs"
proof -
  have "unat (of_nat (length vs) :: u256) = length vs" using assms(2) by (simp add: unsigned_of_nat take_bit_nat_eq_self)
  then show ?thesis using assms(1) by (simp add: average_u256_def unat_div_distrib sum_saturates)
qed

lemma average_le_max:
  assumes "vs \<noteq> []" and "length vs < 2 ^ 256" and "\<forall>v\<in>set vs. v \<le> b"
  shows "average_u256 vs \<le> b"
proof -
  have "sum_list (map unat vs) \<le> length vs * unat b"
    using assms(3) by (intro sum_list_bound) (simp add: word_le_nat_alt)
  then have "min (sum_list (map unat vs)) (2 ^ 256 - 1) \<le> length vs * unat b" by linarith
  from div_le_mono [OF this, of "length vs"] show ?thesis
    using assms(1) by (simp add: word_le_nat_alt average_unat [OF assms(1,2)])
qed

lemma clamp_range:
  assumes "f64_le lo hi" and "v \<noteq> NaN"
  shows "is_within_range (clamp v lo hi) lo hi"
  using assms by (cases v; cases lo; cases hi; force simp: clamp_def is_within_range_def f64_le_def)

lemma clamp_nan: "clamp NaN lo hi = NaN"
  by (cases hi) (simp_all add: clamp_def)

lemma optimize_gas_bounds:
  assumes "unat base + 2 ^ 63 \<le> 2 ^ 64" and "3 * unat base < 2 ^ 64"
  shows "base \<le> optimize_gas f profit base price" and "optimize_gas f profit base price \<le> base * 3"
proof -
  have three: "unat (base * 3) = 3 * unat base" using assms(2) by (simp add: unat_word_ariths)
  have "unat (f profit price div 2) < 2 ^ 63"
    using less_mult_imp_div_less [of "unat (f profit price)" "2 ^ 63" 2] unat_less [of "f profit price"]
    by (simp add: unat_div_distrib)
  then have sum: "unat (base + f profit price div 2) = unat base + unat (f profit price div 2)"
    using assms(1) by (subst unat_add_lem [THEN iffD1]) simp_all
  have le: "base \<le> base * 3" "base \<le> base + f profit price div 2"
    by (simp_all only: word_le_nat_alt three sum)
  then show "base \<le> optimize_gas f profit base price" "optimize_gas f profit base price \<le> base * 3"
    by (auto simp: optimize_gas_def min_def)
qed

section \<open>Shortened texts\<close>

lemma slice_Inr: "slice a b s = Inr t \<longleftrightarrow> a \<le> b \<and> b \<le> length s \<and> t = drop a (take b s)"
  by (auto simp: slice_def)

lemma short_address_length: "10 \<le> length s \<Longrightarrow> short_address s = Inr (take 6 s @ ''...'' @ drop (length s - 4) s)"
  by (simp add: short_address_def slice_def)

lemma rfind_le: "rfind p s = Some i \<Longrightarrow> i \<le> length s"
  by (induction s arbitrary: i) (auto split: if_splits option.splits)

lemma format_error_short:
  "\<exists>t. format_error e = Inr t \<and> length t \<le> 100"
proof (cases "length e \<le> 100 \<or> rfind ''error:'' e = None")
  case True
  then show ?thesis by (auto simp: format_error_def slice_def)
next
  case False
  then obtain i where i: "rfind ''error:'' e = Some i" "\<not> length e \<le> 100" by auto
  then show ?thesis using rfind_le [OF i(1)] by (auto simp: format_error_def slice_def)
qed

section \<open>Decimal texts\<close>

lemma digits_value_foldl:
  "foldl (\<lambda>n c. 10 * n + (of_char c - 48)) a s = a * 10 ^ length s + digits_value s"
proof (induction s rule: rev_induct)
  case Nil
  then show ?case by (simp add: digits_value_def)
next
  case (snoc c s)
  then show ?case by (simp add: digits_value_def algebra_simps)
qed

lemma digits_value_append: "digits_value (s @ t) = digits_value s * 10 ^ length t + digits_value t"
proof -
  have "digits_value (s @ t) = foldl (\<lambda>n c. 10 * n + (of_char c - 48)) (digits_value s) t"
    by (simp add: digits_value_def)
  then show ?thesis by (simp only: digits_value_foldl)
qed

lemma digits_value_Nil [simp]: "digits_value [] = 0"
  by (simp add: digits_value_def)

lemma digits_value_zeros [simp]: "digits_value (replicate k (CHR ''0'')) = 0"
  by (induction k) (simp_all add: digits_value_def)

lemma digits_value_less: "list_all is_digit s \<Longrightarrow> digits_value s < 10 ^ length s"
proof (induction s rule: rev_induct)
  case (snoc c s)
  then have "digits_value s < 10 ^ length s" "of_char c - 48 < (10 :: nat)" by (auto simp: is_digit_def)
  then have "10 * digits_value s + (of_char c - 48) < 10 * 10 ^ length s" by linarith
  then show ?case by (simp add: digits_value_def)
qed (simp add: digits_value_def)

lemma digits_value_take:
  assumes "list_all is_digit s" and "m \<le> length s"
  shows "digits_value (take m s) = digits_value s div 10 ^ (length s - m)"
proof -
  have "digits_value s = digits_value (take m s) * 10 ^ (length s - m) + digits_value (drop m s)"
    using digits_value_append [of "take m s" "drop m s"] by simp
  moreover have "list_all is_digit (drop m s)"
    using assms(1) by (metis append_take_drop_id list_all_append)
  then have "digits_value (drop m s) < 10 ^ (length s - m)" using digits_value_less [of "drop m s"] by simp
  ultimately show ?thesis by simp
qed

text \<open>The number a text with an optional fraction shows.\<close>

definition shown_value :: "string \<Rightarrow> rat" where
  "shown_value t =
     (let ip = takeWhile (\<lambda>c. c \<noteq> CHR ''.'') t; fp = drop 1 (dropWhile (\<lambda>c. c \<noteq> CHR ''.'') t)
      in rat_of_nat (digits_value ip) + rat_of_nat (digits_value fp) / 10 ^ length fp)"

lemma takeWhile_digits:
  "list_all is_digit ip \<Longrightarrow> takeWhile (\<lambda>c. c \<noteq> CHR ''.'') (ip @ CHR ''.'' # fp) = ip
     \<and> dropWhile (\<lambda>c. c \<noteq> CHR ''.'') (ip @ CHR ''.'' # fp) = CHR ''.'' # fp"
  "list_all is_digit ip \<Longrightarrow> takeWhile (\<lambda>c. c \<noteq> CHR ''.'') ip = ip \<and> dropWhile (\<lambda>c. c \<noteq> CHR ''.'') ip = []"
  using is_digit_not(2) by (induction ip) auto

lemma shown_value_simps:
  assumes "list_all is_digit ip"
  shows "shown_value (ip @ ''.'' @ fp) = rat_of_nat (digits_value ip) + rat_of_nat (digits_value fp) / 10 ^ length fp"
    and "shown_value ip = rat_of_nat (digits_value ip)"
proof -
  note point = takeWhile_digits(1) [OF assms, of fp] and none = takeWhile_digits(2) [OF assms]
  show "shown_value (ip @ ''.'' @ fp) = rat_of_nat (digits_value ip) + rat_of_nat (digits_value fp) / 10 ^ length fp"
    unfolding shown_value_def Let_def append_Cons append_Nil point [THEN conjunct1] point [THEN conjunct2] by simp
  show "shown_value ip = rat_of_nat (digits_value ip)"
    unfolding shown_value_def Let_def none [THEN conjunct1] none [THEN conjunct2] by simp
qed

text \<open>Cutting the digits \<open>F\<close> of a number in front of its last \<open>d\<close>, and after \<open>disp\<close> more.\<close>

lemma cut_value:
  assumes F: "list_all is_digit F" and d: "d \<le> length F"
    and ip: "ip = take (length F - d) F" and fp: "fp = take disp (drop (length F - d) F)"
  shows "rat_of_nat (digits_value ip) + rat_of_nat (digits_value fp) / 10 ^ length fp
         = rat_of_nat (digits_value F * 10 ^ min disp d div 10 ^ d) / 10 ^ min disp d"
proof -
  let ?k = "min disp d"
  have len: "length fp = ?k" using d by (simp add: fp min_def)
  have "ip @ fp = take (length F - d + disp) F" unfolding ip fp by (simp add: take_add)
  also have "\<dots> = take (length F - d + ?k) F" using d by (auto simp: min_def)
  finally have "digits_value (ip @ fp) = digits_value F div 10 ^ (d - ?k)"
    using digits_value_take [OF F, of "length F - d + ?k"] d by simp
  also have "\<dots> = digits_value F * 10 ^ ?k div (10 ^ (d - ?k) * 10 ^ ?k)" by simp
  also have "(10 :: nat) ^ (d - ?k) * 10 ^ ?k = 10 ^ d" by (simp flip: power_add)
  finally have v: "digits_value ip * 10 ^ ?k + digits_value fp = digits_value F * 10 ^ ?k div 10 ^ d"
    by (simp add: digits_value_append len)
  have "rat_of_nat (digits_value ip) + rat_of_nat (digits_value fp) / 10 ^ length fp
      = rat_of_nat (digits_value ip * 10 ^ ?k + digits_value fp) / 10 ^ ?k"
    by (simp add: len add_divide_distrib)
  then show ?thesis by (simp only: v)
qed

section \<open>Properties\<close>

text \<open>A token amount is shown truncated, never rounded: the text denotes the amount in whole tokens, cut
  after the requested number of decimals (or all the token has), for every amount and every number of
  decimals of the token.\<close>

lemma token_amount_truncated:
  "shown_value (format_token_amount amount decimals display_decimals)
     = rat_of_nat (unat amount * 10 ^ min display_decimals (unat decimals) div 10 ^ unat decimals)
       / 10 ^ min display_decimals (unat decimals)"
proof (cases "amount = 0")
  case True
  have "list_all is_digit ''0''" by (simp add: is_digit_def)
  from shown_value_simps(2) [OF this] True show ?thesis
    by (simp add: format_token_amount_def digits_value_def)
next
  case False
  obtain s d where s: "s = show_nat (unat amount)" and d: "d = unat decimals" by simp
  have ds: "list_all is_digit s" "digits_value s = unat amount" using show_nat_digits by (simp_all add: s)
  have zeros: "list_all is_digit (replicate k (CHR ''0''))" for k by (induction k) (simp_all add: is_digit_def)
  have cut: "(if display_decimals < length p then take display_decimals p else p) = take display_decimals p" for p :: string
    by simp
  show ?thesis
  proof (cases "length s \<le> d")
    case True
    let ?F = "replicate (d - length s) (CHR ''0'') @ s"
    have t: "format_token_amount amount decimals display_decimals = ''0'' @ ''.'' @ take display_decimals ?F"
      using False True by (simp add: format_token_amount_def Let_def s [symmetric] d [symmetric] cut del: take_append)
    have F: "list_all is_digit ?F" "length ?F = d" "digits_value ?F = unat amount"
      using ds zeros True by (simp_all add: digits_value_append)
    have "list_all is_digit ''0''" "digits_value ''0'' = digits_value []" by (simp_all add: is_digit_def digits_value_def)
    with shown_value_simps(1) [of "''0''" "take display_decimals ?F"]
      cut_value [OF F(1), of d "[]" "take display_decimals ?F" display_decimals] F
    show ?thesis unfolding t by (simp add: d)
  next
    case False2: False
    let ?ip = "take (length s - d) s" and ?fp = "take display_decimals (drop (length s - d) s)"
    have ip: "list_all is_digit ?ip" using ds(1) by (metis append_take_drop_id list_all_append)
    have c: "rat_of_nat (digits_value ?ip) + rat_of_nat (digits_value ?fp) / 10 ^ length ?fp
        = rat_of_nat (unat amount * 10 ^ min display_decimals d div 10 ^ d) / 10 ^ min display_decimals d"
      using cut_value [OF ds(1), of d ?ip ?fp display_decimals] False2 ds(2) by simp
    have t: "format_token_amount amount decimals display_decimals =
        (if 0 < display_decimals \<and> ?fp \<noteq> [] \<and> ?fp \<noteq> replicate (length ?fp) (CHR ''0'') then ?ip @ ''.'' @ ?fp else ?ip)"
      using False False2 by (simp only: format_token_amount_def Let_def s [symmetric] d [symmetric] cut if_False)
    show ?thesis
    proof (cases "0 < display_decimals \<and> ?fp \<noteq> [] \<and> ?fp \<noteq> replicate (length ?fp) (CHR ''0'')")
      case True
      then show ?thesis unfolding t using shown_value_simps(1) [OF ip, of ?fp] c by (simp add: d)
    next
      case False
      then have "digits_value ?fp = 0"
        using digits_value_zeros [of "length ?fp"] by (auto simp del: digits_value_zeros)
      with c have "rat_of_nat (digits_value ?ip)
          = rat_of_nat (unat amount * 10 ^ min display_decimals d div 10 ^ d) / 10 ^ min display_decimals d" by simp
      moreover have "format_token_amount amount decimals display_decimals = ?ip" unfolding t using False by (rule if_not_P)
      ultimately show ?thesis using shown_value_simps(2) [OF ip] by (simp add: d)
    qed
  qed
qed

text \<open>Shortening a text (no text in memory has \<open>2 ^ 62\<close> bytes) to a length of at least three gives one no
  longer than that, made of the beginning and the end of the original; for a smaller length the
  subtraction of three wraps and the call panics.\<close>

lemma truncate_exact:
  assumes "length s < 2 ^ 62"
  shows "truncate_string s max_len =
     (if length s \<le> unat max_len then Inr s
      else if unat max_len < 3 then Inl (PanicStr ''slice index out of range'')
      else Inr (take ((unat max_len - 3) div 2) s @ ''...'' @ drop (length s - (unat max_len - 3) div 2) s))"
proof (cases "length s \<le> unat max_len")
  case True
  then show ?thesis by (simp add: truncate_string_def)
next
  case long: False
  let ?h = "(max_len - 3) div 2"
  show ?thesis
  proof (cases "unat max_len < 3")
    case True
    moreover have "unat (0 :: u64) = 0" "unat (1 :: u64) = 1" "unat (2 :: u64) = 2" by simp_all
    ultimately have "unat max_len = unat (0 :: u64) \<or> unat max_len = unat (1 :: u64) \<or> unat max_len = unat (2 :: u64)"
      by linarith
    then have "max_len = 0 \<or> max_len = 1 \<or> max_len = 2" unfolding word_unat_eq_iff [symmetric] by blast
    then have "2 ^ 62 \<le> unat ?h" by auto
    with assms have "\<not> unat ?h \<le> length s" by linarith
    with long True show ?thesis by (simp add: truncate_string_def Let_def slice_def)
  next
    case False
    then have "unat (max_len - 3) = unat max_len - 3" by (simp add: unat_sub word_le_nat_alt)
    then have h: "unat ?h = (unat max_len - 3) div 2" by (simp add: unat_div_distrib)
    have le: "unat ?h \<le> length s" using h long by linarith
    have l: "unat (of_nat (length s) :: u64) = length s"
      using assms by (simp add: unsigned_of_nat take_bit_nat_eq_self)
    then have "unat (of_nat (length s) - ?h) = length s - unat ?h"
      using le by (simp add: unat_sub word_le_nat_alt)
    with long False le h show ?thesis by (simp add: truncate_string_def Let_def slice_def)
  qed
qed

text \<open>A duration is shown in days, hours, minutes, seconds, with the larger units left out when they are
  zero: the parts are in range and add up to the whole seconds; below a second it is shown in
  milliseconds.\<close>

lemma duration_exact:
  "\<exists>d h m s. unat millis div 1000 = d * 86400 + h * 3600 + m * 60 + s \<and> h < 24 \<and> m < 60 \<and> s < 60
     \<and> format_duration_ms millis =
       (if 0 < d then show_nat d @ ''d '' @ show_nat h @ ''h '' @ show_nat m @ ''m '' @ show_nat s @ ''s''
        else if 0 < h then show_nat h @ ''h '' @ show_nat m @ ''m '' @ show_nat s @ ''s''
        else if 0 < m then show_nat m @ ''m '' @ show_nat s @ ''s''
        else if 0 < s then show_nat s @ ''s''
        else show_nat (unat millis) @ ''ms'')"
proof -
  obtain t where t: "t = unat millis div 1000" by simp
  let ?d = "t div 60 div 60 div 24" and ?h = "t div 60 div 60 mod 24" and ?m = "t div 60 mod 60" and ?s = "t mod 60"
  have "t = ?d * 86400 + ?h * 3600 + ?m * 60 + ?s"
    using div_mult_mod_eq [of t 60] div_mult_mod_eq [of "t div 60" 60] div_mult_mod_eq [of "t div 60 div 60" 24] by linarith
  moreover have "?h < 24" "?m < 60" "?s < 60" by simp_all
  moreover have "format_duration_ms millis =
       (if 0 < ?d then show_nat ?d @ ''d '' @ show_nat ?h @ ''h '' @ show_nat ?m @ ''m '' @ show_nat ?s @ ''s''
        else if 0 < ?h then show_nat ?h @ ''h '' @ show_nat ?m @ ''m '' @ show_nat ?s @ ''s''
        else if 0 < ?m then show_nat ?m @ ''m '' @ show_nat ?s @ ''s''
        else if 0 < ?s then show_nat ?s @ ''s''
        else show_nat (unat millis) @ ''ms'')"
  proof -
    have pos: "0 < x \<longleftrightarrow> 0 < unat x" for x :: u64 by (simp add: word_gt_0 unat_gt_0)
    have u: "unat (millis div 1000) = t" "unat (millis div 1000 div 60) = t div 60"
      "unat (millis div 1000 div 60 div 60) = t div 60 div 60" "unat (millis div 1000 div 60 div 60 div 24) = ?d"
      by (simp_all add: unat_div_distrib t)
    have v: "unat (millis div 1000 div 60 div 60 mod 24) = ?h" "unat (millis div 1000 div 60 mod 60) = ?m"
      "unat (millis div 1000 mod 60) = ?s"
      by (simp_all add: unat_mod_distrib u)
    show ?thesis
      unfolding format_duration_ms_def Let_def pos u v
      by (cases "0 < ?d"; cases "0 < t div 60 div 60"; cases "0 < t div 60"; cases "0 < t") (auto simp: div_eq_0_iff)
  qed
  ultimately show ?thesis unfolding t [symmetric] by blast
qed

end
