(* ===== verification/NetworkCore.thy ===== *)
theory NetworkCore
  imports Texts Float64
begin

text \<open>
  The core of the network layer, \<^verbatim>\<open>network/core\<close>: nodes, messages and connections with their updates,
  errors and their texts, and the check of addresses of \<^verbatim>\<open>utils.rs\<close>. Fresh ids and the clock are
  arguments; the JSON codec of a message is a parameter.
\<close>

unbundle bit_operations_syntax

section \<open>Nodes, messages and connections (models.rs)\<close>

datatype node_type = Master | Slave | Edge

datatype node_status = Online | Offline | Connecting | Node_error

record node =
  node_id :: nat
  node_address :: string
  node_type :: node_type
  node_status :: node_status
  node_connected_at :: int
  node_last_activity :: int

definition new_node :: "nat \<Rightarrow> int \<Rightarrow> string \<Rightarrow> node_type \<Rightarrow> node" where
  "new_node fresh now address kind =
     \<lparr> node_id = fresh, node_address = address, node_type = kind, node_status = Connecting,
       node_connected_at = now, node_last_activity = now \<rparr>"

definition update_activity :: "int \<Rightarrow> node \<Rightarrow> node" where
  "update_activity now n = n\<lparr> node_last_activity := now \<rparr>"

definition is_online :: "node \<Rightarrow> bool" where
  "is_online n \<longleftrightarrow> node_status n = Online"

datatype message_kind = Heartbeat | Command | Response | Data | Error_message

record node_message =
  nm_id :: nat
  nm_sender :: nat
  nm_recipient :: "nat option"
  nm_type :: message_kind
  nm_payload :: string
  nm_timestamp :: int

definition new_node_message :: "nat \<Rightarrow> int \<Rightarrow> nat \<Rightarrow> nat option \<Rightarrow> message_kind \<Rightarrow> string \<Rightarrow> node_message" where
  "new_node_message fresh now sender recipient kind payload =
     \<lparr> nm_id = fresh, nm_sender = sender, nm_recipient = recipient, nm_type = kind, nm_payload = payload,
       nm_timestamp = now \<rparr>"

definition nm_is_broadcast :: "node_message \<Rightarrow> bool" where
  "nm_is_broadcast m \<longleftrightarrow> nm_recipient m = None"

record network_stats =
  bytes_sent :: u64
  bytes_received :: u64
  packets_sent :: u64
  packets_received :: u64

definition default_network_stats :: network_stats where
  "default_network_stats = \<lparr> bytes_sent = 0, bytes_received = 0, packets_sent = 0, packets_received = 0 \<rparr>"

record network_state =
  ns_gas_price :: u64
  congestion_level :: u8
  ns_block_time :: f64
  pending_tx_count :: u32
  base_fee :: u256

definition default_network_state :: network_state where
  "default_network_state =
     \<lparr> ns_gas_price = 0, congestion_level = 0, ns_block_time = Fin 0, pending_tx_count = 0, base_fee = 0 \<rparr>"

section \<open>Messages (message.rs)\<close>

datatype message_type =
    Ping | Pong | Discovery | Discovery_response | Node_join | Node_leave | Subscribe | Unsubscribe
  | Data_message | Command_message | Response_message | Error_type

definition show_message_type :: "message_type \<Rightarrow> string" where
  "show_message_type t =
     (case t of
        Ping \<Rightarrow> ''Ping'' | Pong \<Rightarrow> ''Pong'' | Discovery \<Rightarrow> ''Discovery''
      | Discovery_response \<Rightarrow> ''DiscoveryResponse'' | Node_join \<Rightarrow> ''NodeJoin'' | Node_leave \<Rightarrow> ''NodeLeave''
      | Subscribe \<Rightarrow> ''Subscribe'' | Unsubscribe \<Rightarrow> ''Unsubscribe'' | Data_message \<Rightarrow> ''Data''
      | Command_message \<Rightarrow> ''Command'' | Response_message \<Rightarrow> ''Response'' | Error_type \<Rightarrow> ''Error'')"

record message =
  msg_id :: string
  msg_type :: message_type
  msg_sender :: string
  msg_receiver :: "string option"
  msg_timestamp :: int
  msg_data :: string
  msg_metadata :: "string \<rightharpoonup> string"

definition new_message :: "string \<Rightarrow> int \<Rightarrow> message_type \<Rightarrow> string \<Rightarrow> string \<Rightarrow> message" where
  "new_message fresh now kind sender data =
     \<lparr> msg_id = fresh, msg_type = kind, msg_sender = sender, msg_receiver = None, msg_timestamp = now,
       msg_data = data, msg_metadata = Map.empty \<rparr>"

definition with_receiver :: "string \<Rightarrow> message \<Rightarrow> message" where
  "with_receiver receiver m = m\<lparr> msg_receiver := Some receiver \<rparr>"

definition with_metadata :: "string \<Rightarrow> string \<Rightarrow> message \<Rightarrow> message" where
  "with_metadata key v m = m\<lparr> msg_metadata := (msg_metadata m)(key \<mapsto> v) \<rparr>"

definition is_broadcast :: "message \<Rightarrow> bool" where
  "is_broadcast m \<longleftrightarrow> msg_receiver m = None"

definition is_heartbeat :: "message \<Rightarrow> bool" where
  "is_heartbeat m \<longleftrightarrow> msg_type m \<in> {Ping, Pong}"

section \<open>Connections and errors (types.rs, error.rs)\<close>

datatype peer_type = Validator | Full_node | Light_node | Relayer | Api | Custom string

definition show_peer_type :: "peer_type \<Rightarrow> string" where
  "show_peer_type t =
     (case t of Validator \<Rightarrow> ''validator'' | Full_node \<Rightarrow> ''full_node'' | Light_node \<Rightarrow> ''light_node''
      | Relayer \<Rightarrow> ''relayer'' | Api \<Rightarrow> ''api'' | Custom name \<Rightarrow> ''custom_'' @ name)"

record connection_info =
  ci_node_id :: string
  ci_node_type :: peer_type
  ci_address :: string
  ci_port :: u16
  ci_version :: string
  supported_protocols :: "string list"
  last_seen :: int
  ci_is_active :: bool

definition new_connection_info :: "int \<Rightarrow> string \<Rightarrow> peer_type \<Rightarrow> string \<Rightarrow> u16 \<Rightarrow> string \<Rightarrow> connection_info" where
  "new_connection_info now i kind address port version =
     \<lparr> ci_node_id = i, ci_node_type = kind, ci_address = address, ci_port = port, ci_version = version,
       supported_protocols = [], last_seen = now, ci_is_active = True \<rparr>"

definition socket_text :: "connection_info \<Rightarrow> string" where
  "socket_text c = ci_address c @ '':'' @ show_nat (unat (ci_port c))"

definition update_last_seen :: "int \<Rightarrow> connection_info \<Rightarrow> connection_info" where
  "update_last_seen now c = c\<lparr> last_seen := now \<rparr>"

definition add_protocol :: "string \<Rightarrow> connection_info \<Rightarrow> connection_info" where
  "add_protocol p c =
     (if p \<in> set (supported_protocols c) then c else c\<lparr> supported_protocols := supported_protocols c @ [p] \<rparr>)"

datatype peer_error =
    Connection_failed string | Message_send_failed string | Message_receive_failed string
  | Discovery_failed string | Protocol_error string | Invalid_address string | Config_error string
  | Authentication_failed string | Timeout string | Unknown string

definition show_peer_error :: "peer_error \<Rightarrow> string" where
  "show_peer_error e =
     (case e of
        Connection_failed m \<Rightarrow> ''Connection failed: '' @ m
      | Message_send_failed m \<Rightarrow> ''Failed to send message: '' @ m
      | Message_receive_failed m \<Rightarrow> ''Failed to receive message: '' @ m
      | Discovery_failed m \<Rightarrow> ''Node discovery failed: '' @ m
      | Protocol_error m \<Rightarrow> ''Protocol error: '' @ m
      | Invalid_address m \<Rightarrow> ''Invalid address: '' @ m
      | Config_error m \<Rightarrow> ''Configuration error: '' @ m
      | Authentication_failed m \<Rightarrow> ''Authentication failed: '' @ m
      | Timeout m \<Rightarrow> ''Operation timed out: '' @ m
      | Unknown m \<Rightarrow> ''Unknown error: '' @ m)"

section \<open>Addresses and liveness (utils.rs)\<close>

text \<open>
  \<open>IpAddr::from_str\<close> on a text without colon, which can only be an IPv4 address: four octets of at most
  three digits, without leading zeros.
\<close>

definition parse_octet :: "string \<Rightarrow> nat option" where
  "parse_octet s =
     (if s \<noteq> [] \<and> list_all is_digit s \<and> (length s = 1 \<or> hd s \<noteq> CHR ''0'') \<and> length s \<le> 3 \<and> digits_value s < 256
      then Some (digits_value s) else None)"

definition parse_ipv4 :: "string \<Rightarrow> nat list option" where
  "parse_ipv4 s =
     (let ps = split_on (CHR ''.'') s
      in if length ps = 4 \<and> list_all (\<lambda>p. parse_octet p \<noteq> None) ps then Some (map (\<lambda>p. the (parse_octet p)) ps) else None)"

definition is_valid_address :: "string \<Rightarrow> bool" where
  "is_valid_address address =
     (let parts = split_on (CHR '':'') address
      in if CHR '':'' \<notin> set address \<or> length parts \<noteq> 2 then False
         else if parse_ipv4 (parts ! 0) = None then False
         else (case parse_uint 65536 (parts ! 1) of Some port \<Rightarrow> 0 < port \<and> port \<le> 65535 | None \<Rightarrow> False))"

definition is_node_online :: "u64 \<Rightarrow> u64 \<Rightarrow> u64 \<Rightarrow> bool" where
  "is_node_online now last_heartbeat timeout_seconds \<longleftrightarrow> now - last_heartbeat < timeout_seconds"

text \<open>\<open>zip\<close> with a cycled key: an empty key cycles to nothing, and the result is empty.\<close>

definition xor_encrypt_decrypt :: "u8 list \<Rightarrow> u8 list \<Rightarrow> u8 list" where
  "xor_encrypt_decrypt data key =
     (if key = [] then [] else map (\<lambda>(i, d). d XOR key ! (i mod length key)) (List.enumerate 0 data))"

section \<open>Lemmas\<close>

lemma show_nat_length: "n < 1000 \<Longrightarrow> length (show_nat n) \<le> 3"
proof -
  assume n: "n < 1000"
  have one: "k < 10 \<Longrightarrow> length (show_nat k) = 1" for k by (subst show_nat.simps) simp
  have two: "k < 100 \<Longrightarrow> length (show_nat k) \<le> 2" for k
    using one [of "k div 10"] by (subst show_nat.simps) auto
  show ?thesis using two [of "n div 10"] n by (subst show_nat.simps) auto
qed

lemma parse_octet_iff: "parse_octet s = Some n \<longleftrightarrow> n < 256 \<and> s = show_nat n"
proof
  assume "parse_octet s = Some n"
  then show "n < 256 \<and> s = show_nat n"
    unfolding parse_octet_def using show_digits [of s] by (metis option.discI option.inject)
next
  assume n: "n < 256 \<and> s = show_nat n"
  then show "parse_octet s = Some n"
    using show_nat_digits [of n] show_nat_head [of n] show_nat_length [of n] by (auto simp: parse_octet_def)
qed

lemma parse_ipv4_iff:
  "parse_ipv4 s = Some ns \<longleftrightarrow> length ns = 4 \<and> (\<forall>n\<in>set ns. n < 256) \<and> s = join_with (CHR ''.'') (map show_nat ns)"
proof
  assume p: "parse_ipv4 s = Some ns"
  let ?ps = "split_on (CHR ''.'') s"
  from p have l: "length ?ps = 4" and all: "list_all (\<lambda>p. parse_octet p \<noteq> None) ?ps"
    and ns: "ns = map (\<lambda>p. the (parse_octet p)) ?ps"
    by (simp_all add: parse_ipv4_def Let_def split: if_splits)
  have o: "the (parse_octet q) < 256 \<and> show_nat (the (parse_octet q)) = q" if q: "q \<in> set ?ps" for q
  proof -
    from all q obtain n where "parse_octet q = Some n" unfolding list_all_iff by blast
    with parse_octet_iff [of q n] show ?thesis by simp
  qed
  then have "map show_nat ns = ?ps" unfolding ns by (simp add: map_idI)
  then have "s = join_with (CHR ''.'') (map show_nat ns)" by (simp add: join_split)
  with o l show "length ns = 4 \<and> (\<forall>n\<in>set ns. n < 256) \<and> s = join_with (CHR ''.'') (map show_nat ns)"
    unfolding ns by simp
next
  assume a: "length ns = 4 \<and> (\<forall>n\<in>set ns. n < 256) \<and> s = join_with (CHR ''.'') (map show_nat ns)"
  have "split_on (CHR ''.'') s = map show_nat ns"
    unfolding split_on_iff using a digits_no is_digit_not(2) by auto
  moreover have "parse_octet (show_nat n) = Some n" if "n \<in> set ns" for n
    using a that by (simp add: parse_octet_iff)
  ultimately show "parse_ipv4 s = Some ns"
    using a by (auto simp: parse_ipv4_def list_all_iff intro!: map_idI)
qed

lemma length_4: "length xs = 4 \<Longrightarrow> \<exists>a b c d. xs = [a, b, c, d]"
  by (auto simp: numeral_eq_Suc length_Suc_conv)

lemma split_colon: "split_on (CHR '':'') s = [p, q] \<longleftrightarrow> s = p @ '':'' @ q \<and> CHR '':'' \<notin> set p \<and> CHR '':'' \<notin> set q"
  unfolding split_on_iff by auto

lemma ipv4_no_colon: "parse_ipv4 p \<noteq> None \<Longrightarrow> CHR '':'' \<notin> set p"
proof -
  assume "parse_ipv4 p \<noteq> None"
  then obtain ns where "parse_ipv4 p = Some ns" by blast
  then obtain a b c d where "p = join_with (CHR ''.'') (map show_nat [a, b, c, d])"
    unfolding parse_ipv4_iff using length_4 by metis
  moreover have "\<not> is_digit (CHR '':'')" by (simp add: is_digit_def)
  ultimately show "CHR '':'' \<notin> set p" using digits_no by auto
qed

lemma xor_twice: "key \<noteq> [] \<Longrightarrow> xor_encrypt_decrypt (xor_encrypt_decrypt data key) key = data"
  by (rule nth_equalityI) (simp_all add: xor_encrypt_decrypt_def nth_enumerate_eq xor.assoc)

text \<open>With an empty key everything is lost.\<close>

lemma xor_empty_key: "xor_encrypt_decrypt data [] = []"
  by (simp add: xor_encrypt_decrypt_def)

text \<open>A heartbeat with a time in the future makes the node count as offline, unless the timeout is huge:
  the difference wraps.\<close>

lemma future_heartbeat_offline:
  assumes "now < hb" and "unat hb - unat now \<le> 2 ^ 63" and "unat timeout \<le> 2 ^ 63"
  shows "\<not> is_node_online now hb timeout"
proof -
  have "unat (now - hb) = unat now + 2 ^ 64 - unat hb"
    using assms(1) by (simp add: unat_sub_if_size size_word_def word_less_nat_alt)
  with assms show ?thesis by (simp add: is_node_online_def word_less_nat_alt)
qed

lemma protocols_distinct: "distinct (supported_protocols c) \<Longrightarrow> distinct (supported_protocols (add_protocol p c))"
  by (simp add: add_protocol_def)

lemma valid_addressI:
  assumes h: "a < 256" "b < 256" "c < 256" "d < 256"
    "s = show_nat a @ ''.'' @ show_nat b @ ''.'' @ show_nat c @ ''.'' @ show_nat d @ '':'' @ port"
    "CHR '':'' \<notin> set port" "parse_uint 65536 port = Some n" "0 < n"
  shows "is_valid_address s"
proof -
  let ?p = "show_nat a @ ''.'' @ show_nat b @ ''.'' @ show_nat c @ ''.'' @ show_nat d"
  have p: "parse_ipv4 ?p = Some [a, b, c, d]" unfolding parse_ipv4_iff using h(1-4) by simp
  then have "split_on (CHR '':'') s = [?p, port]" unfolding split_colon using ipv4_no_colon [of ?p] h(5,6) by simp
  moreover have "n \<le> 65535" using h(7) by (auto simp: parse_uint_def Let_def split: if_splits)
  moreover have "CHR '':'' \<in> set s" using h(5) by simp
  ultimately show ?thesis using p h(7,8) by (simp add: is_valid_address_def)
qed

section \<open>Properties\<close>

text \<open>The address check accepts exactly an IPv4 address in canonical notation, a colon and a port between 1
  and 65535 (as the number parser reads it): no IPv6 address and no host name passes.\<close>

lemma valid_address_exact:
  "is_valid_address s \<longleftrightarrow>
     (\<exists>a b c d port n. a < 256 \<and> b < 256 \<and> c < 256 \<and> d < 256
        \<and> s = show_nat a @ ''.'' @ show_nat b @ ''.'' @ show_nat c @ ''.'' @ show_nat d @ '':'' @ port
        \<and> CHR '':'' \<notin> set port \<and> parse_uint 65536 port = Some n \<and> 0 < n)"
proof
  assume v: "is_valid_address s"
  then have "length (split_on (CHR '':'') s) = 2" by (simp add: is_valid_address_def Let_def split: if_splits)
  then obtain p q where pq: "split_on (CHR '':'') s = [p, q]" by (auto simp: numeral_eq_Suc length_Suc_conv)
  with v obtain ns n where ns: "parse_ipv4 p = Some ns" and n: "parse_uint 65536 q = Some n" "0 < n"
    by (auto simp: is_valid_address_def Let_def split: if_splits option.splits)
  from ns obtain a b c d where "ns = [a, b, c, d]"
    unfolding parse_ipv4_iff using length_4 by metis
  with ns have "p = show_nat a @ ''.'' @ show_nat b @ ''.'' @ show_nat c @ ''.'' @ show_nat d"
    "a < 256" "b < 256" "c < 256" "d < 256" unfolding parse_ipv4_iff by simp_all
  moreover from pq have "s = p @ '':'' @ q" "CHR '':'' \<notin> set q" unfolding split_colon by simp_all
  ultimately have "s = show_nat a @ ''.'' @ show_nat b @ ''.'' @ show_nat c @ ''.'' @ show_nat d @ '':'' @ q"
    "a < 256" "b < 256" "c < 256" "d < 256" "CHR '':'' \<notin> set q" by simp_all
  with n show "\<exists>a b c d port n. a < 256 \<and> b < 256 \<and> c < 256 \<and> d < 256
        \<and> s = show_nat a @ ''.'' @ show_nat b @ ''.'' @ show_nat c @ ''.'' @ show_nat d @ '':'' @ port
        \<and> CHR '':'' \<notin> set port \<and> parse_uint 65536 port = Some n \<and> 0 < n" by blast
next
  assume "\<exists>a b c d port n. a < 256 \<and> b < 256 \<and> c < 256 \<and> d < 256
        \<and> s = show_nat a @ ''.'' @ show_nat b @ ''.'' @ show_nat c @ ''.'' @ show_nat d @ '':'' @ port
        \<and> CHR '':'' \<notin> set port \<and> parse_uint 65536 port = Some n \<and> 0 < n"
  then show "is_valid_address s" using valid_addressI by blast
qed

text \<open>The rendering of every IPv4 socket with a port other than zero is accepted.\<close>

lemma rendered_address_valid:
  assumes "a < 256" "b < 256" "c < 256" "d < 256" and "ci_port i \<noteq> 0"
    and "ci_address i = show_nat a @ ''.'' @ show_nat b @ ''.'' @ show_nat c @ ''.'' @ show_nat d"
  shows "is_valid_address (socket_text i)"
proof -
  have "unat (ci_port i) < 65536" using unat_less [of "ci_port i"] by simp
  from parse_show [OF this] have n: "parse_uint 65536 (show_nat (unat (ci_port i))) = Some (unat (ci_port i))" .
  have "\<not> is_digit (CHR '':'')" by (simp add: is_digit_def)
  then have c: "CHR '':'' \<notin> set (show_nat (unat (ci_port i)))" using digits_no by blast
  have "0 < unat (ci_port i)" using assms(5) by (simp add: unat_gt_0)
  from valid_addressI [OF assms(1-4) _ c n this] show ?thesis by (simp add: socket_text_def assms(6))
qed

end
