(* ===== verification/ChainServices.thy ===== *)
theory ChainServices
  imports TransactionModel Texts
begin

text \<open>
  The blockchain core: what a transaction's state is concluded from (\<^verbatim>\<open>core/transaction.rs\<close>), the
  monitor that waits for transactions and reads tokens (\<^verbatim>\<open>core/mod.rs\<close>, \<^verbatim>\<open>core/token_info.rs\<close>), the
  contract manager with its two locks (\<^verbatim>\<open>core/contract_manager.rs\<close>), and the bot's own list of contracts
  (\<^verbatim>\<open>snipebot/src/blockchain.rs\<close>). The answers of the provider are arguments. An operation that never
  returns is \<open>None\<close>.
\<close>

section \<open>Transaction information\<close>

datatype info_status = Info_pending | Info_confirmed | Info_failed | Info_timeout | Info_not_found

record 'l transaction_info =
  ti_hash :: h256
  ti_receipt :: "'l receipt option"
  ti_confirmations :: u64
  ti_wait_time :: u64
  ti_status :: info_status

definition new_info :: "h256 \<Rightarrow> 'l transaction_info" where
  "new_info h = \<lparr> ti_hash = h, ti_receipt = None, ti_confirmations = 0, ti_wait_time = 0, ti_status = Info_pending \<rparr>"

definition is_success :: "'l transaction_info \<Rightarrow> bool" where
  "is_success i =
     (case ti_receipt i of
        Some rc \<Rightarrow> (case rc_status rc of Some st \<Rightarrow> st = 1 | None \<Rightarrow> False)
      | None \<Rightarrow> False)"

definition is_failed :: "'l transaction_info \<Rightarrow> bool" where
  "is_failed i =
     (case ti_receipt i of
        Some rc \<Rightarrow> (case rc_status rc of Some st \<Rightarrow> st = 0 | None \<Rightarrow> ti_status i = Info_failed)
      | None \<Rightarrow> ti_status i = Info_failed)"

definition is_timeout :: "'l transaction_info \<Rightarrow> bool" where
  "is_timeout i \<longleftrightarrow> ti_status i = Info_timeout"

definition info_completed :: "'l transaction_info \<Rightarrow> bool" where
  "info_completed i \<longleftrightarrow> ti_status i = Info_confirmed \<or> ti_status i = Info_failed"

definition info_gas_used :: "'l transaction_info \<Rightarrow> u256 option" where
  "info_gas_used i = Option.bind (ti_receipt i) rc_gas_used"

definition info_block_hash :: "'l transaction_info \<Rightarrow> h256 option" where
  "info_block_hash i = Option.bind (ti_receipt i) rc_block_hash"

text \<open>\<open>wait\<close> is the trait's \<open>wait_for_transaction\<close>: an error's text, or the receipt if there is one.\<close>

definition get_transaction_info ::
  "(string \<Rightarrow> h256 option) \<Rightarrow> (string \<Rightarrow> u64 \<Rightarrow> string + 'l receipt option) \<Rightarrow> string \<Rightarrow> u64 \<Rightarrow> string + 'l transaction_info" where
  "get_transaction_info parse_hash wait tx_text timeout_secs =
     (case parse_hash tx_text of
        None \<Rightarrow> Inl ''transaction hash''
      | Some h \<Rightarrow>
          let i = new_info h
          in Inr (case wait tx_text timeout_secs of
               Inr (Some rc) \<Rightarrow>
                 (let i = i\<lparr> ti_receipt := Some rc \<rparr>
                  in if is_success i then i\<lparr> ti_status := Info_confirmed \<rparr> else i\<lparr> ti_status := Info_failed \<rparr>)
             | Inr None \<Rightarrow> i\<lparr> ti_status := Info_not_found \<rparr>
             | Inl e \<Rightarrow>
                 if contains_str e ''timed out'' then i\<lparr> ti_status := Info_timeout \<rparr>
                 else i\<lparr> ti_status := Info_failed \<rparr>))"

section \<open>The monitor\<close>

text \<open>What waiting for one confirmation comes to: a receipt or none, an error, or the time is up.\<close>

datatype 'l wait_answer = Receipt "'l receipt option" | Wait_error string | Elapsed

definition effective_timeout :: "u64 \<Rightarrow> u64" where
  "effective_timeout secs = (if secs = 0 \<or> 3600 < secs then 60 else secs)"

text \<open>The two messages, in UTF-8.\<close>

definition wait_failed_text :: "string \<Rightarrow> string" where
  "wait_failed_text e =
     ''L'' @ [CHR 0xE1, CHR 0xBB, CHR 0x97] @ ''i khi '' @ [CHR 0xC4, CHR 0x91, CHR 0xE1, CHR 0xBB, CHR 0xA3]
     @ ''i giao d'' @ [CHR 0xE1, CHR 0xBB, CHR 0x8B] @ ''ch: '' @ e"

definition elapsed_text :: "u64 \<Rightarrow> string" where
  "elapsed_text secs =
     ''Giao d'' @ [CHR 0xE1, CHR 0xBB, CHR 0x8B] @ ''ch kh'' @ [CHR 0xC3, CHR 0xB4] @ ''ng ''
     @ [CHR 0xC4, CHR 0x91, CHR 0xC6, CHR 0xB0, CHR 0xE1, CHR 0xBB, CHR 0xA3] @ ''c x'' @ [CHR 0xC3, CHR 0xA1]
     @ ''c nh'' @ [CHR 0xE1, CHR 0xBA, CHR 0xAD] @ ''n sau '' @ show_nat (unat secs)
     @ '' gi'' @ [CHR 0xC3, CHR 0xA2] @ ''y''"

definition wait_for_transaction ::
  "(string \<Rightarrow> h256 option) \<Rightarrow> (u64 \<Rightarrow> 'l wait_answer) \<Rightarrow> string \<Rightarrow> u64 \<Rightarrow> string + 'l receipt option" where
  "wait_for_transaction parse_hash answer tx_text timeout_secs =
     (case parse_hash tx_text of
        None \<Rightarrow> Inl ''transaction hash''
      | Some h \<Rightarrow>
          (case answer (effective_timeout timeout_secs) of
             Receipt rc \<Rightarrow> Inr rc
           | Wait_error e \<Rightarrow> Inl (wait_failed_text e)
           | Elapsed \<Rightarrow> Inl (elapsed_text timeout_secs)))"

record token_info =
  tk_address :: string
  tk_name :: string
  tk_symbol :: string
  tk_decimals :: u8
  tk_total_supply :: u256

definition new_token_info :: "string \<Rightarrow> string \<Rightarrow> string \<Rightarrow> u8 \<Rightarrow> u256 \<Rightarrow> token_info" where
  "new_token_info address name symbol decimals supply =
     \<lparr> tk_address = address, tk_name = name, tk_symbol = symbol, tk_decimals = decimals, tk_total_supply = supply \<rparr>"

definition default_with_address :: "string \<Rightarrow> token_info" where
  "default_with_address address =
     \<lparr> tk_address = address, tk_name = ''Unknown'', tk_symbol = ''UNK'', tk_decimals = 18, tk_total_supply = 0 \<rparr>"

definition cache_key :: "string \<Rightarrow> string" where
  "cache_key address = ''token_info_'' @ address"

text \<open>A call to the token contract: it cannot be prepared, it fails, or it answers.\<close>

datatype 'a answer = Unprepared string | Call_failed string | Answered 'a

definition asked :: "'a \<Rightarrow> 'a answer \<Rightarrow> string + 'a" where
  "asked dflt ans = (case ans of Unprepared e \<Rightarrow> Inl e | Call_failed _ \<Rightarrow> Inr dflt | Answered a \<Rightarrow> Inr a)"

text \<open>The result, and what is stored in the cache under which key for how many seconds.\<close>

definition monitor_token_info ::
  "token_info option \<Rightarrow> (string \<Rightarrow> h160 option) \<Rightarrow> string answer \<Rightarrow> string answer \<Rightarrow> u8 answer \<Rightarrow> u256 answer \<Rightarrow> string \<Rightarrow>
     (string + token_info) \<times> (string \<times> token_info \<times> u64) option" where
  "monitor_token_info cached parse_address name symbol decimals supply address =
     (case cached of
        Some t \<Rightarrow> (Inr t, None)
      | None \<Rightarrow>
          (case parse_address address of
             None \<Rightarrow> (Inl ''token address'', None)
           | Some a \<Rightarrow>
               (case rbind (asked ''Unknown'' name) (\<lambda>n. rbind (asked ''UNK'' symbol) (\<lambda>s.
                     rbind (asked 18 decimals) (\<lambda>d. rbind (asked 0 supply) (\<lambda>t.
                     Inr (new_token_info address n s d t))))) of
                  Inl e \<Rightarrow> (Inl e, None)
                | Inr t \<Rightarrow> (Inr t, Some (cache_key address, t, 300)))))"

text \<open>Which ABI a call uses.\<close>

datatype abi_name = Erc20_abi | Factory_abi | Pair_abi | Router_abi

definition abi_of_path :: "string \<Rightarrow> string + abi_name" where
  "abi_of_path path =
     (if path = ''erc20'' then Inr Erc20_abi else if path = ''factory'' then Inr Factory_abi
      else if path = ''pair'' then Inr Pair_abi else if path = ''router'' then Inr Router_abi
      else Inl (''unsupported ABI: '' @ path))"

section \<open>The contract manager\<close>

datatype contract_type = ERC20 | ERC721 | DEX_pair | DEX_factory | DEX_router | Multi_sig | Unknown_type

datatype contract_error = Initialization_error string | Call_error string | Abi_error string | Address_error string | Provider_error string

record 'v timed_entry =
  te_value :: 'v
  te_expires_at :: int

definition new_entry :: "int \<Rightarrow> 'v \<Rightarrow> nat \<Rightarrow> 'v timed_entry" where
  "new_entry now v ttl = \<lparr> te_value = v, te_expires_at = now + int ttl \<rparr>"

definition entry_expired :: "int \<Rightarrow> 'v timed_entry \<Rightarrow> bool" where
  "entry_expired now e \<longleftrightarrow> te_expires_at e < now"

record contract_info =
  co_address :: h160
  co_name :: string
  co_symbol :: "string option"
  co_decimals :: "u8 option"
  co_type :: contract_type
  co_verified :: bool
  co_chain_id :: u64
  co_created_at :: u64
  co_bytecode_hash :: "h256 option"

text \<open>A contract object is its address and its ABI.\<close>

record 'abi contract_manager =
  contract_cache :: "h160 \<rightharpoonup> (h160 \<times> 'abi) timed_entry"
  abi_cache :: "string \<rightharpoonup> 'abi timed_entry"
  contracts_info :: "h160 \<rightharpoonup> contract_info"

definition new_contract_manager :: "'abi contract_manager" where
  "new_contract_manager = \<lparr> contract_cache = Map.empty, abi_cache = Map.empty, contracts_info = Map.empty \<rparr>"

text \<open>
  The write lock of the ABI cache can be taken only when the caller does not hold its read lock: with
  the read guard alive, the call never returns.
\<close>

definition parse_and_cache_abi ::
  "(string \<Rightarrow> string + 'abi) \<Rightarrow> int \<Rightarrow> bool \<Rightarrow> string \<Rightarrow> string \<Rightarrow> 'abi contract_manager \<Rightarrow>
     ((contract_error + 'abi) \<times> 'abi contract_manager) option" where
  "parse_and_cache_abi parse now reading abi_key abi_json m =
     (case parse abi_json of
        Inl e \<Rightarrow> Some (Inl (Abi_error e), m)
      | Inr abi \<Rightarrow>
          if reading then None
          else Some (Inr abi, m\<lparr> abi_cache := (abi_cache m)(abi_key \<mapsto> new_entry now abi 86400) \<rparr>))"

text \<open>The \<open>if let\<close> on the read guard of the ABI cache keeps it alive in both of its branches.\<close>

definition cached_abi ::
  "(string \<Rightarrow> string + 'abi) \<Rightarrow> int \<Rightarrow> string \<Rightarrow> string \<Rightarrow> 'abi contract_manager \<Rightarrow>
     ((contract_error + 'abi) \<times> 'abi contract_manager) option" where
  "cached_abi parse now abi_key abi_json m =
     (case abi_cache m abi_key of
        Some e \<Rightarrow> if \<not> entry_expired now e then Some (Inr (te_value e), m)
                  else parse_and_cache_abi parse now True abi_key abi_json m
      | None \<Rightarrow> parse_and_cache_abi parse now True abi_key abi_json m)"

definition make_contract ::
  "(string \<Rightarrow> string + 'abi) \<Rightarrow> int \<Rightarrow> h160 \<Rightarrow> string \<Rightarrow> string \<Rightarrow> 'abi contract_manager \<Rightarrow>
     ((contract_error + h160 \<times> 'abi) \<times> 'abi contract_manager) option" where
  "make_contract parse now address abi_key abi_json m =
     (case cached_abi parse now abi_key abi_json m of
        None \<Rightarrow> None
      | Some (Inl e, m) \<Rightarrow> Some (Inl e, m)
      | Some (Inr abi, m) \<Rightarrow>
          Some (Inr (address, abi),
                m\<lparr> contract_cache := (contract_cache m)(address \<mapsto> new_entry now (address, abi) 3600) \<rparr>))"

definition get_contract_with_abi ::
  "(string \<Rightarrow> string + 'abi) \<Rightarrow> int \<Rightarrow> h160 \<Rightarrow> string \<Rightarrow> string \<Rightarrow> 'abi contract_manager \<Rightarrow>
     ((contract_error + h160 \<times> 'abi) \<times> 'abi contract_manager) option" where
  "get_contract_with_abi parse now address abi_key abi_json m =
     (case contract_cache m address of
        Some e \<Rightarrow> if \<not> entry_expired now e then Some (Inr (te_value e), m)
                  else make_contract parse now address abi_key abi_json m
      | None \<Rightarrow> make_contract parse now address abi_key abi_json m)"

text \<open>\<open>abis\<close> are the ABI texts of the crate.\<close>

definition get_erc20 where
  "get_erc20 parse abis now address m = get_contract_with_abi parse now address ''erc20'' (abis Erc20_abi) m"

definition get_pair where
  "get_pair parse abis now address m = get_contract_with_abi parse now address ''pair'' (abis Pair_abi) m"

definition get_factory where
  "get_factory parse abis now address m = get_contract_with_abi parse now address ''factory'' (abis Factory_abi) m"

definition get_router where
  "get_router parse abis now address m = get_contract_with_abi parse now address ''router'' (abis Router_abi) m"

text \<open>The calls of the token contract and of the provider may fail; what fails keeps its default.\<close>

definition get_token_info ::
  "(string \<Rightarrow> string + 'abi) \<Rightarrow> (abi_name \<Rightarrow> string) \<Rightarrow> int \<Rightarrow> string option \<Rightarrow> string option \<Rightarrow> u8 option \<Rightarrow> u64 option \<Rightarrow> h160 \<Rightarrow>
     'abi contract_manager \<Rightarrow> ((contract_error + contract_info) \<times> 'abi contract_manager) option" where
  "get_token_info parse abis now name symbol decimals chain address m =
     (case contracts_info m address of
        Some i \<Rightarrow> Some (Inr i, m)
      | None \<Rightarrow>
          (case get_erc20 parse abis now address m of
             None \<Rightarrow> None
           | Some (Inl e, m) \<Rightarrow> Some (Inl e, m)
           | Some (Inr c, m) \<Rightarrow>
               (let i = \<lparr> co_address = address, co_name = (case name of None \<Rightarrow> ''Unknown'' | Some n \<Rightarrow> n),
                          co_symbol = symbol, co_decimals = decimals,
                          co_type = (if symbol \<noteq> None \<and> decimals \<noteq> None then ERC20 else Unknown_type),
                          co_verified = False, co_chain_id = (case chain of None \<Rightarrow> 0 | Some c \<Rightarrow> c),
                          co_created_at = 0, co_bytecode_hash = None \<rparr>
                in Some (Inr i, m\<lparr> contracts_info := (contracts_info m)(address \<mapsto> i) \<rparr>))))"

definition drop_expired :: "int \<Rightarrow> ('k \<rightharpoonup> 'v timed_entry) \<Rightarrow> 'k \<rightharpoonup> 'v timed_entry" where
  "drop_expired now c = (\<lambda>k. case c k of None \<Rightarrow> None | Some e \<Rightarrow> if entry_expired now e then None else Some e)"

definition cleanup_cache :: "int \<Rightarrow> 'abi contract_manager \<Rightarrow> 'abi contract_manager" where
  "cleanup_cache now m =
     m\<lparr> contract_cache := drop_expired now (contract_cache m), abi_cache := drop_expired now (abi_cache m) \<rparr>"

section \<open>The bot's list of contracts\<close>

record bot_contract =
  bc_address :: string
  bc_name :: string
  bc_abi :: string
  bc_chain_id :: u64
  bc_created_at :: u64
  bc_last_used :: u64
  bc_verified :: bool

type_synonym bot_contracts = "bot_contract list"

definition same_contract :: "string \<Rightarrow> u64 \<Rightarrow> bot_contract \<Rightarrow> bool" where
  "same_contract address chain c \<longleftrightarrow> lower (bc_address c) = lower address \<and> bc_chain_id c = chain"

definition add_contract :: "bot_contract \<Rightarrow> bot_contracts \<Rightarrow> string + bot_contracts" where
  "add_contract c cs =
     (if list_ex (same_contract (bc_address c) (bc_chain_id c)) cs then Inl ''Contract already exists'' else Inr (cs @ [c]))"

definition get_contract :: "string \<Rightarrow> u64 \<Rightarrow> bot_contracts \<Rightarrow> bot_contract option" where
  "get_contract address chain cs = find (same_contract address chain) cs"

definition get_contracts_by_chain :: "u64 \<Rightarrow> bot_contracts \<Rightarrow> bot_contracts" where
  "get_contracts_by_chain chain cs = filter (\<lambda>c. bc_chain_id c = chain) cs"

text \<open>\<open>call\<close> is the call of the contract with an address and an ABI.\<close>

definition interact ::
  "string + u64 \<Rightarrow> (string \<Rightarrow> h160 option) \<Rightarrow> (string \<Rightarrow> string + 'abi) \<Rightarrow> (h160 \<Rightarrow> 'abi \<Rightarrow> string + 'r) \<Rightarrow> string \<Rightarrow> bot_contracts \<Rightarrow> string + 'r" where
  "interact chain parse_address parse call address cs =
     rbind chain (\<lambda>c.
       (case get_contract address c cs of
          None \<Rightarrow> Inl ''Contract not found''
        | Some info \<Rightarrow>
            (case parse_address address of
               None \<Rightarrow> Inl ''address''
             | Some a \<Rightarrow> rbind (parse (bc_abi info)) (call a))))"

section \<open>Lemmas\<close>

lemma success_not_failed: "\<not> (is_success i \<and> is_failed i)"
  by (auto simp: is_success_def is_failed_def split: option.splits)

text \<open>A message without the letter t contains no text that has one.\<close>

lemma contains_letter: "contains_str s p \<Longrightarrow> c \<in> set p \<Longrightarrow> c \<in> set s"
  unfolding contains_str_iff by auto

lemma show_nat_no_letter: "CHR ''t'' \<notin> set (show_nat n)"
  using digits_no [of "CHR ''t''" n] by (auto simp: is_digit_def)

lemma elapsed_not_timed_out: "\<not> contains_str (elapsed_text secs) ''timed out''"
proof
  assume "contains_str (elapsed_text secs) ''timed out''"
  from contains_letter [OF this, of "CHR ''t''"] have "CHR ''t'' \<in> set (elapsed_text secs)" by simp
  then show False using show_nat_no_letter by (auto simp: elapsed_text_def)
qed

text \<open>A failing call of a token is remembered for five minutes like an answer.\<close>

lemma failed_calls_cached:
  "parse_address address = Some a \<Longrightarrow>
   monitor_token_info None parse_address (Call_failed e1) (Call_failed e2) (Call_failed e3) (Call_failed e4) address
     = (Inr (default_with_address address), Some (cache_key address, default_with_address address, 300))"
  by (simp add: monitor_token_info_def asked_def new_token_info_def default_with_address_def)

lemma effective_timeout_bounds: "1 \<le> effective_timeout secs \<and> effective_timeout secs \<le> 3600"
  by (auto simp: effective_timeout_def word_le_nat_alt word_less_nat_alt not_less)
    (metis One_nat_def Suc_leI unat_gt_0)

text \<open>The contracts of the bot's list differ in address (up to case) or chain, and are found under any
  spelling of their address.\<close>

definition contracts_ok :: "bot_contracts \<Rightarrow> bool" where
  "contracts_ok cs \<longleftrightarrow> distinct (map (\<lambda>c. (lower (bc_address c), bc_chain_id c)) cs)"

lemma add_contract_ok: "contracts_ok cs \<Longrightarrow> add_contract c cs = Inr cs' \<Longrightarrow> contracts_ok cs'"
  by (fastforce simp: contracts_ok_def add_contract_def same_contract_def list_ex_iff split: if_splits)

lemma added_contract_found:
  assumes "add_contract c cs = Inr cs'" and "lower address = lower (bc_address c)"
  shows "get_contract address (bc_chain_id c) cs' = Some c"
proof -
  from assms(1) have "cs' = cs @ [c]" "\<forall>d\<in>set cs. \<not> same_contract (bc_address c) (bc_chain_id c) d"
    by (auto simp: add_contract_def same_contract_def list_ex_iff split: if_splits)
  moreover have "same_contract address (bc_chain_id c) c" by (simp add: same_contract_def assms(2))
  moreover have "same_contract address (bc_chain_id c) = same_contract (bc_address c) (bc_chain_id c)"
    by (simp add: same_contract_def fun_eq_iff assms(2))
  moreover have "\<forall>d\<in>set ds. \<not> P d \<Longrightarrow> P c \<Longrightarrow> find P (ds @ [c]) = Some c" for P and ds :: bot_contracts
    by (induction ds) auto
  ultimately show ?thesis by (metis get_contract_def)
qed

section \<open>What the contract manager can do\<close>

text \<open>The states the manager can be in; a call that does not return leaves the state as it was.\<close>

inductive cm_reachable :: "(string \<Rightarrow> string + 'abi) \<Rightarrow> 'abi contract_manager \<Rightarrow> bool" for parse where
  cm_new: "cm_reachable parse new_contract_manager"
| cm_get: "cm_reachable parse m \<Longrightarrow> get_contract_with_abi parse now address key json m = Some (r, m') \<Longrightarrow> cm_reachable parse m'"
| cm_info: "cm_reachable parse m \<Longrightarrow> get_token_info parse abis now nm sy de ch address m = Some (r', m') \<Longrightarrow> cm_reachable parse m'"
| cm_cleanup: "cm_reachable parse m \<Longrightarrow> cm_reachable parse (cleanup_cache now m)"

lemma empty_manager_get:
  "get_contract_with_abi parse now address key json new_contract_manager
     = (case parse json of Inl e \<Rightarrow> Some (Inl (Abi_error e), new_contract_manager) | Inr _ \<Rightarrow> None)"
  by (simp add: get_contract_with_abi_def make_contract_def cached_abi_def parse_and_cache_abi_def
      new_contract_manager_def split: sum.split)

lemma empty_manager_info:
  "get_token_info parse abis now nm sy de ch address new_contract_manager
     = (case parse (abis Erc20_abi) of Inl e \<Rightarrow> Some (Inl (Abi_error e), new_contract_manager) | Inr _ \<Rightarrow> None)"
  unfolding get_token_info_def get_erc20_def empty_manager_get
  by (cases "parse (abis Erc20_abi)") (simp_all add: new_contract_manager_def)

lemma cm_reachable_empty: "cm_reachable parse m \<Longrightarrow> m = new_contract_manager"
proof (induction rule: cm_reachable.induct)
  case (cm_get m now address key json r m')
  then show ?case by (simp add: empty_manager_get split: sum.splits)
next
  case (cm_info m abis now nm sy de ch address r' m')
  then show ?case by (simp add: empty_manager_info split: sum.splits)
qed (simp_all add: cleanup_cache_def drop_expired_def new_contract_manager_def)

section \<open>Properties\<close>

text \<open>C30. The contract manager never hands out a contract: in every state it can reach, a request for a
  contract with a well-formed ABI does not return, because the ABI is stored under the write lock of a
  cache whose read lock the same call still holds; one with a malformed ABI is an error.\<close>

theorem contract_manager_never_serves:
  assumes "cm_reachable parse m"
  shows "get_contract_with_abi parse now address key json m
     = (case parse json of Inl e \<Rightarrow> Some (Inl (Abi_error e), m) | Inr _ \<Rightarrow> None)"
  unfolding cm_reachable_empty [OF assms] by (rule empty_manager_get)

theorem contract_manager_never_serves_witness:
  "get_contract_with_abi (\<lambda>j. if j = [] then Inl ''empty'' else Inr j) 5 7 ''erc20'' ''[]''
     (cleanup_cache 3 new_contract_manager) = None"
  using contract_manager_never_serves [OF cm_cleanup [OF cm_new], of "\<lambda>j. if j = [] then Inl ''empty'' else Inr j" 5 7 "''erc20''" "''[]''" 3]
  by simp

text \<open>A transaction whose confirmation does not come in time is reported as failed, never as timed out:
  the waiting reports the elapsed time in words that do not contain the text the status is concluded
  from.\<close>

lemma timeout_reported_failed:
  "get_transaction_info parse_hash (wait_for_transaction parse_hash (\<lambda>_. Elapsed)) h secs
     = (case parse_hash h of None \<Rightarrow> Inl ''transaction hash''
        | Some x \<Rightarrow> Inr ((new_info x)\<lparr> ti_status := Info_failed \<rparr>))"
  using elapsed_not_timed_out [of secs]
  by (simp add: get_transaction_info_def wait_for_transaction_def Let_def split: option.split)

text \<open>The status says confirmed exactly for a receipt with status one, and then the queries agree.\<close>

lemma confirmed_exact:
  assumes "get_transaction_info parse_hash wait h secs = Inr i"
  shows "ti_status i = Info_confirmed \<longleftrightarrow> (\<exists>rc. wait h secs = Inr (Some rc) \<and> rc_status rc = Some 1)"
    and "ti_status i = Info_confirmed \<longleftrightarrow> is_success i"
    and "is_success i \<Longrightarrow> info_completed i \<and> \<not> is_failed i \<and> \<not> is_timeout i"
  using assms
  by (auto simp: get_transaction_info_def Let_def is_success_def is_failed_def is_timeout_def info_completed_def new_info_def
      split: option.splits sum.splits if_splits)

end
