(* ===== verification/DepinBridge.thy ===== *)
theory DepinBridge
  imports Prelude
begin

text \<open>
  The DePIN node network of \<^verbatim>\<open>blockchain/src/depin/mod.rs\<close>, a contract, and the cross-chain bridge of
  \<^verbatim>\<open>blockchain/src/crosschain/cross_chain.rs\<close>. The modules \<open>node_info\<close>, \<open>network_stats\<close>,
  \<open>chain_config\<close> and \<open>bridge_contract\<close> are missing from the repository: what the code uses of them (a
  node's id and whether it is active, the increment of the node count, the calls of a bridge contract)
  is a parameter.
\<close>

section \<open>The node network\<close>

record ('n, 'i, 's) node_network =
  nodes :: "'n list"
  connections :: "'i \<rightharpoonup> 'i list"
  stats :: 's
  nn_owner_id :: account
  nn_last_update :: u64
  nn_id :: string
  nn_created_at :: u64

definition new_network :: "'s \<Rightarrow> near_env \<Rightarrow> account \<Rightarrow> ('n, 'i, 's) node_network" where
  "new_network fresh_stats env owner =
     \<lparr> nodes = [], connections = Map.empty, stats = fresh_stats, nn_owner_id = owner,
       nn_last_update = unix_secs env, nn_id = ''node_network_'' @ show_nat (unat (unix_secs env)),
       nn_created_at = unix_secs env \<rparr>"

definition assert_owner :: "near_env \<Rightarrow> ('n, 'i, 's) node_network \<Rightarrow> unit res" where
  "assert_owner env self = require (predecessor env = nn_owner_id self) ''Only owner can call this method''"

text \<open>\<open>id_of\<close> is the field \<open>id\<close> of a node, \<open>count\<close> the increment of \<open>total_nodes\<close>, which may overflow.\<close>

definition register_node ::
  "('n \<Rightarrow> 'i) \<Rightarrow> ('s \<Rightarrow> 's res) \<Rightarrow> near_env \<Rightarrow> 'n \<Rightarrow> ('n, 'i, 's) node_network \<Rightarrow>
     (('n, 'i, 's) node_network \<times> (string + 'i)) res" where
  "register_node id_of bump env node self =
     rbind (not_payable env) (\<lambda>_.
     rbind (assert_owner env self) (\<lambda>_.
       if list_ex (\<lambda>n. id_of n = id_of node) (nodes self) then Inr (self, Inl ''Node already exists'')
       else rbind (bump (stats self)) (\<lambda>s.
         Inr (self\<lparr> nodes := nodes self @ [node], connections := (connections self)(id_of node \<mapsto> []), stats := s,
                    nn_last_update := unix_secs env \<rparr>, Inr (id_of node)))))"

definition verify_node :: "('n \<Rightarrow> 'i) \<Rightarrow> ('n \<Rightarrow> bool) \<Rightarrow> ('n, 'i, 's) node_network \<Rightarrow> 'i \<Rightarrow> string + bool" where
  "verify_node id_of active self i =
     (case find (\<lambda>n. id_of n = i) (nodes self) of None \<Rightarrow> Inl ''Node not found'' | Some n \<Rightarrow> Inr (active n))"

definition get_network_stats :: "('n, 'i, 's) node_network \<Rightarrow> 's" where
  "get_network_stats self = stats self"

text \<open>The contract's calls: the only method that changes state is the registration.\<close>

definition exec_network ::
  "('n \<Rightarrow> 'i) \<Rightarrow> ('s \<Rightarrow> 's res) \<Rightarrow> near_env \<times> 'n \<Rightarrow> ('n, 'i, 's) node_network \<Rightarrow>
     (('n, 'i, 's) node_network \<times> (string + 'i)) res" where
  "exec_network id_of bump c self = register_node id_of bump (fst c) (snd c) self"

section \<open>The cross-chain bridge\<close>

text \<open>Supported chains by id, and bridge contracts by pair of chains.\<close>

record ('c, 'g, 'b) cross_chain_bridge =
  supported_chains :: "'c \<rightharpoonup> 'g"
  bridge_contracts :: "'c \<times> 'c \<rightharpoonup> 'b"
  br_owner_id :: string
  br_last_update :: u64
  br_id :: string
  br_created_at :: u64

definition new_bridge :: "u64 \<Rightarrow> string \<Rightarrow> ('c, 'g, 'b) cross_chain_bridge" where
  "new_bridge now owner =
     \<lparr> supported_chains = Map.empty, bridge_contracts = Map.empty, br_owner_id = owner, br_last_update = now,
       br_id = ''bridge_'' @ show_nat (unat now), br_created_at = now \<rparr>"

definition add_chain :: "u64 \<Rightarrow> 'c \<Rightarrow> 'g \<Rightarrow> ('c, 'g, 'b) cross_chain_bridge \<Rightarrow> ('c, 'g, 'b) cross_chain_bridge" where
  "add_chain now c config b = b\<lparr> supported_chains := (supported_chains b)(c \<mapsto> config), br_last_update := now \<rparr>"

definition add_bridge_contract :: "'c \<Rightarrow> 'c \<Rightarrow> 'b \<Rightarrow> ('c, 'g, 'b) cross_chain_bridge \<Rightarrow> ('c, 'g, 'b) cross_chain_bridge" where
  "add_bridge_contract from_chain to_chain k b =
     b\<lparr> bridge_contracts := (bridge_contracts b)((from_chain, to_chain) \<mapsto> k) \<rparr>"

text \<open>\<open>send\<close> and \<open>ask\<close> are the contract's calls: an error's text, or the transaction hash or the fee.\<close>

definition bridge_token ::
  "('b \<Rightarrow> string \<Rightarrow> u256 \<Rightarrow> string \<Rightarrow> string + 256 word) \<Rightarrow> string \<Rightarrow> 'c \<Rightarrow> 'c \<Rightarrow> u256 \<Rightarrow> string \<Rightarrow>
     ('c, 'g, 'b) cross_chain_bridge \<Rightarrow> string + 256 word" where
  "bridge_token send tok from_chain to_chain amount recipient b =
     (if supported_chains b from_chain = None \<or> supported_chains b to_chain = None then Inl ''Chain not supported''
      else case bridge_contracts b (from_chain, to_chain) of
             None \<Rightarrow> Inl ''Bridge contract not found''
           | Some k \<Rightarrow> send k tok amount recipient)"

definition get_bridge_fee ::
  "('b \<Rightarrow> string + u256) \<Rightarrow> 'c \<Rightarrow> 'c \<Rightarrow> ('c, 'g, 'b) cross_chain_bridge \<Rightarrow> string + u256" where
  "get_bridge_fee ask from_chain to_chain b =
     (if supported_chains b from_chain = None \<or> supported_chains b to_chain = None then Inl ''Chain not supported''
      else case bridge_contracts b (from_chain, to_chain) of
             None \<Rightarrow> Inl ''Bridge contract not found''
           | Some k \<Rightarrow> ask k)"

section \<open>The network is an owned contract\<close>

definition network_ok :: "('n \<Rightarrow> 'i) \<Rightarrow> ('n, 'i, 's) node_network \<Rightarrow> bool" where
  "network_ok id_of self \<longleftrightarrow>
     distinct (map id_of (nodes self)) \<and> dom (connections self) = id_of ` set (nodes self)
     \<and> (\<forall>i ns. connections self i = Some ns \<longrightarrow> ns = [])"

lemma register_node_Inr:
  "register_node id_of bump env node self = Inr (self', out) \<longleftrightarrow>
     attached_deposit env = 0 \<and> predecessor env = nn_owner_id self \<and>
     (if \<exists>n\<in>set (nodes self). id_of n = id_of node then self' = self \<and> out = Inl ''Node already exists''
      else \<exists>s. bump (stats self) = Inr s \<and> out = Inr (id_of node) \<and>
        self' = self\<lparr> nodes := nodes self @ [node], connections := (connections self)(id_of node \<mapsto> []), stats := s,
                      nn_last_update := unix_secs env \<rparr>)"
  by (auto simp: register_node_def not_payable_def assert_owner_def list_ex_iff split: if_splits)

lemma exec_network_ok:
  assumes "exec_network id_of bump c self = Inr (self', out)" and "network_ok id_of self"
  shows "network_ok id_of self'"
proof (cases "\<exists>n\<in>set (nodes self). id_of n = id_of (snd c)")
  case True
  with assms show ?thesis by (simp add: exec_network_def register_node_Inr)
next
  case False
  then have "id_of (snd c) \<notin> id_of ` set (nodes self)" by auto
  moreover from False assms(1) obtain s where "self' = self\<lparr> nodes := nodes self @ [snd c],
      connections := (connections self)(id_of (snd c) \<mapsto> []), stats := s, nn_last_update := unix_secs (fst c) \<rparr>"
    unfolding exec_network_def register_node_Inr by auto
  ultimately show ?thesis using assms(2) by (auto simp: network_ok_def)
qed

lemma exec_network_owner: "exec_network id_of bump c self = Inr (self', out) \<Longrightarrow> nn_owner_id self' = nn_owner_id self"
  unfolding exec_network_def register_node_Inr by (auto split: if_splits)

interpretation depin: owned_contract "exec_network id_of bump" "network_ok id_of" nn_owner_id "\<lambda>c. predecessor (fst c)" "\<lambda>_. True"
  for id_of bump
proof
  fix c self self' out
  show "exec_network id_of bump c self = Inr (self', out) \<Longrightarrow> network_ok id_of self \<Longrightarrow> network_ok id_of self'"
    by (rule exec_network_ok)
  show "exec_network id_of bump c self = Inr (self', out) \<Longrightarrow> network_ok id_of self \<Longrightarrow>
      predecessor (fst c) \<noteq> nn_owner_id self \<Longrightarrow> nn_owner_id self' = nn_owner_id self" by (rule exec_network_owner)
  show "True \<Longrightarrow> network_ok id_of self \<Longrightarrow> predecessor (fst c) \<noteq> nn_owner_id self \<Longrightarrow> \<exists>e. exec_network id_of bump c self = Inl e"
    by (cases "attached_deposit (fst c) = 0")
      (simp_all add: exec_network_def register_node_def not_payable_def assert_owner_def require_def)
qed

lemma network_ok_new: "network_ok id_of (new_network s env owner)"
  by (simp add: network_ok_def new_network_def)

section \<open>Properties\<close>

text \<open>After any calls of a new network the registered nodes have different ids, exactly they have a list
  of connections (an empty one, since nothing ever connects two nodes), and without a call of the owner
  nothing is registered at all.\<close>

lemma network_registry_sound:
  fixes id_of :: "'n \<Rightarrow> 'i"
  shows "network_ok id_of (run_calls (exec_network id_of bump) (new_network s env owner) cs)
     \<and> nn_owner_id (run_calls (exec_network id_of bump) (new_network s env owner) cs) = owner
     \<and> (nodes (run_calls (exec_network id_of bump) (new_network s env owner) cs) = []
        \<or> owner \<in> (\<lambda>c. predecessor (fst c)) ` set cs)"
proof -
  let ?s = "new_network s env owner :: ('n, 'i, 'a) node_network"
  have own: "nn_owner_id (run_calls (exec_network id_of bump) t cs) = nn_owner_id t" for t :: "('n, 'i, 'a) node_network"
    by (induction cs arbitrary: t) (auto simp: after_def split: sum.split dest: exec_network_owner)
  have "nodes (run_calls (exec_network id_of bump) ?s cs) = []" if "owner \<notin> (\<lambda>c. predecessor (fst c)) ` set cs"
  proof -
    have "\<forall>c\<in>set cs. True \<and> predecessor (fst c) \<noteq> nn_owner_id ?s" using that by (auto simp: new_network_def)
    from depin.run_privileged [OF network_ok_new this] show ?thesis by (simp add: new_network_def)
  qed
  then show ?thesis using depin.run_inv [OF network_ok_new] own [of ?s] by (auto simp: new_network_def)
qed

text \<open>A transfer reaches a bridge contract exactly when both chains are supported and a contract is registered
  for the pair in that direction; the fee is asked under the same conditions.\<close>

lemma bridge_token_Inr:
  "bridge_token send tok f t amount recipient b = Inr h \<longleftrightarrow>
     supported_chains b f \<noteq> None \<and> supported_chains b t \<noteq> None \<and>
     (\<exists>k. bridge_contracts b (f, t) = Some k \<and> send k tok amount recipient = Inr h)"
  by (auto simp: bridge_token_def split: option.splits)

lemma fee_iff_bridge:
  "(\<exists>x. get_bridge_fee (\<lambda>k. Inr 0) f t b = Inr x) \<longleftrightarrow> (\<exists>h. bridge_token (\<lambda>_ _ _ _. Inr 0) tok f t amount recipient b = Inr h)"
  by (auto simp: bridge_token_def get_bridge_fee_def split: option.splits)

end
