(* ===== verification/ErrorHandling.thy ===== *)
theory ErrorHandling
  imports Services Texts "HOL-Library.Char_ord" "HOL-Library.List_Lexorder"
begin

text \<open>
  The handling of transaction errors in \<^verbatim>\<open>common/error_handling.rs\<close>: the classification of an error by its
  text, what each class recommends, the store of errors behind the trait \<open>ErrorHandler\<close> with its basic
  implementation, and the operations over any such store. Texts are UTF-8; times are nanoseconds.
  The JSON text of a recommendation is the argument \<open>json\<close>; locks are not poisoned.
\<close>

section \<open>Classes of errors\<close>

datatype transaction_error =
    Connection_error string | Insufficient_gas string | Slippage_error string | Low_liquidity string
  | Token_revert string | Transaction_timeout string | Insufficient_balance string | Approval_failed string
  | Honeypot_token string | Withdrawal_failed string | Unknown_error string

fun show_transaction_error :: "transaction_error \<Rightarrow> string" where
  "show_transaction_error (Connection_error s) =
     ''L'' @ [CHR 0xE1, CHR 0xBB, CHR 0x97] @ ''i k'' @ [CHR 0xE1, CHR 0xBA, CHR 0xBF] @ ''t n''
     @ [CHR 0xE1, CHR 0xBB, CHR 0x91] @ ''i blockchain: '' @ s"
| "show_transaction_error (Insufficient_gas s) =
     ''L'' @ [CHR 0xE1, CHR 0xBB, CHR 0x97] @ ''i gas kh'' @ [CHR 0xC3, CHR 0xB4] @ ''ng ''
     @ [CHR 0xC4, CHR 0x91, CHR 0xE1, CHR 0xBB, CHR 0xA7] @ '': '' @ s"
| "show_transaction_error (Slippage_error s) =
     ''L'' @ [CHR 0xE1, CHR 0xBB, CHR 0x97] @ ''i slippage qu'' @ [CHR 0xC3, CHR 0xA1] @ '' th''
     @ [CHR 0xE1, CHR 0xBA, CHR 0xA5] @ ''p: '' @ s"
| "show_transaction_error (Low_liquidity s) =
     ''L'' @ [CHR 0xE1, CHR 0xBB, CHR 0x97] @ ''i thanh kho'' @ [CHR 0xE1, CHR 0xBA, CHR 0xA3] @ ''n kh''
     @ [CHR 0xC3, CHR 0xB4] @ ''ng '' @ [CHR 0xC4, CHR 0x91, CHR 0xE1, CHR 0xBB, CHR 0xA7] @ '': '' @ s"
| "show_transaction_error (Token_revert s) =
     ''L'' @ [CHR 0xE1, CHR 0xBB, CHR 0x97] @ ''i token b'' @ [CHR 0xE1, CHR 0xBB, CHR 0x8B] @ '' revert: '' @ s"
| "show_transaction_error (Transaction_timeout s) =
     ''L'' @ [CHR 0xE1, CHR 0xBB, CHR 0x97] @ ''i ch'' @ [CHR 0xE1, CHR 0xBB, CHR 0x9D] @ '' giao d''
     @ [CHR 0xE1, CHR 0xBB, CHR 0x8B] @ ''ch qu'' @ [CHR 0xC3, CHR 0xA1] @ '' l'' @ [CHR 0xC3, CHR 0xA2]
     @ ''u (timeout): '' @ s"
| "show_transaction_error (Insufficient_balance s) =
     ''L'' @ [CHR 0xE1, CHR 0xBB, CHR 0x97] @ ''i wallet kh'' @ [CHR 0xC3, CHR 0xB4] @ ''ng ''
     @ [CHR 0xC4, CHR 0x91, CHR 0xE1, CHR 0xBB, CHR 0xA7] @ '' s'' @ [CHR 0xE1, CHR 0xBB, CHR 0x91] @ '' d''
     @ [CHR 0xC6, CHR 0xB0] @ '': '' @ s"
| "show_transaction_error (Approval_failed s) =
     ''L'' @ [CHR 0xE1, CHR 0xBB, CHR 0x97] @ ''i approve token th'' @ [CHR 0xE1, CHR 0xBA, CHR 0xA5] @ ''t b''
     @ [CHR 0xE1, CHR 0xBA, CHR 0xA1] @ ''i: '' @ s"
| "show_transaction_error (Honeypot_token s) =
     ''L'' @ [CHR 0xE1, CHR 0xBB, CHR 0x97] @ ''i honeypot token: '' @ s"
| "show_transaction_error (Withdrawal_failed s) =
     ''L'' @ [CHR 0xE1, CHR 0xBB, CHR 0x97] @ ''i r'' @ [CHR 0xC3, CHR 0xBA] @ ''t token th''
     @ [CHR 0xE1, CHR 0xBA, CHR 0xA5] @ ''t b'' @ [CHR 0xE1, CHR 0xBA, CHR 0xA1] @ ''i: '' @ s"
| "show_transaction_error (Unknown_error s) =
     ''L'' @ [CHR 0xE1, CHR 0xBB, CHR 0x97] @ ''i kh'' @ [CHR 0xC3, CHR 0xB4] @ ''ng x'' @ [CHR 0xC3, CHR 0xA1]
     @ ''c '' @ [CHR 0xC4, CHR 0x91, CHR 0xE1, CHR 0xBB, CHR 0x8B] @ ''nh: '' @ s"

definition classify_blockchain_error :: "string \<Rightarrow> transaction_error" where
  "classify_blockchain_error msg =
     (let l = lower msg; has = contains_str l
      in if has ''gas'' \<and> (has ''low'' \<or> has ''insufficient'') then Insufficient_gas msg
         else if has ''slippage'' \<or> has ''k'' \<or> has ''amount out'' \<or> has ''output amount'' then Slippage_error msg
         else if has ''liquidity'' then Low_liquidity msg
         else if has ''revert'' \<or> has ''execution reverted'' then Token_revert msg
         else if has ''timeout'' \<or> has ''not mined'' then Transaction_timeout msg
         else if has ''balance'' \<and> has ''insufficient'' then Insufficient_balance msg
         else if has ''approve'' \<or> has ''allowance'' then Approval_failed msg
         else if has ''cannot estimate'' \<or> has ''transfer'' then Honeypot_token msg
         else if has ''withdraw'' then Withdrawal_failed msg
         else if has ''connect'' \<or> has ''rpc'' \<or> has ''timeout'' \<or> has ''unavailable'' then Connection_error msg
         else Unknown_error msg)"

datatype recovery_action = Retry | Increase_gas | Reduce_amount | Abort_transaction | Wait_and_retry | Emergency_sell

record recovery_info =
  should_retry :: bool
  increase_gas :: bool
  increase_gas_percent :: u8
  decrease_slippage :: bool
  wait_time_before_retry_ms :: u64
  suggested_action :: recovery_action

fun get_recovery_info :: "transaction_error \<Rightarrow> recovery_info" where
  "get_recovery_info (Insufficient_gas _) =
     \<lparr> should_retry = True, increase_gas = True, increase_gas_percent = 30, decrease_slippage = False,
       wait_time_before_retry_ms = 2000, suggested_action = Increase_gas \<rparr>"
| "get_recovery_info (Slippage_error _) =
     \<lparr> should_retry = True, increase_gas = False, increase_gas_percent = 0, decrease_slippage = True,
       wait_time_before_retry_ms = 1000, suggested_action = Retry \<rparr>"
| "get_recovery_info (Low_liquidity _) =
     \<lparr> should_retry = False, increase_gas = False, increase_gas_percent = 0, decrease_slippage = False,
       wait_time_before_retry_ms = 0, suggested_action = Abort_transaction \<rparr>"
| "get_recovery_info (Token_revert _) =
     \<lparr> should_retry = True, increase_gas = True, increase_gas_percent = 20, decrease_slippage = True,
       wait_time_before_retry_ms = 3000, suggested_action = Retry \<rparr>"
| "get_recovery_info (Transaction_timeout _) =
     \<lparr> should_retry = True, increase_gas = True, increase_gas_percent = 50, decrease_slippage = False,
       wait_time_before_retry_ms = 5000, suggested_action = Increase_gas \<rparr>"
| "get_recovery_info (Insufficient_balance _) =
     \<lparr> should_retry = False, increase_gas = False, increase_gas_percent = 0, decrease_slippage = False,
       wait_time_before_retry_ms = 0, suggested_action = Abort_transaction \<rparr>"
| "get_recovery_info (Approval_failed _) =
     \<lparr> should_retry = True, increase_gas = True, increase_gas_percent = 30, decrease_slippage = False,
       wait_time_before_retry_ms = 2000, suggested_action = Retry \<rparr>"
| "get_recovery_info (Honeypot_token _) =
     \<lparr> should_retry = False, increase_gas = False, increase_gas_percent = 0, decrease_slippage = False,
       wait_time_before_retry_ms = 0, suggested_action = Emergency_sell \<rparr>"
| "get_recovery_info (Connection_error _) =
     \<lparr> should_retry = True, increase_gas = False, increase_gas_percent = 0, decrease_slippage = False,
       wait_time_before_retry_ms = 5000, suggested_action = Wait_and_retry \<rparr>"
| "get_recovery_info _ =
     \<lparr> should_retry = True, increase_gas = True, increase_gas_percent = 10, decrease_slippage = True,
       wait_time_before_retry_ms = 2000, suggested_action = Retry \<rparr>"

section \<open>Stored errors\<close>

datatype error_status = Error_pending | Error_processing | Error_resolved | Error_error

record blockchain_error =
  error_id :: string
  error_name :: string
  error_description :: string
  error_status :: error_status
  error_transaction :: "string option"
  error_recovery :: "string option"
  error_created_at :: int
  error_updated_at :: int

fun name_of_error :: "transaction_error \<Rightarrow> string" where
  "name_of_error (Connection_error _) = ''CONNECTION_ERROR''"
| "name_of_error (Insufficient_gas _) = ''INSUFFICIENT_GAS''"
| "name_of_error (Slippage_error _) = ''SLIPPAGE_ERROR''"
| "name_of_error (Low_liquidity _) = ''LOW_LIQUIDITY''"
| "name_of_error (Token_revert _) = ''TOKEN_REVERT''"
| "name_of_error (Transaction_timeout _) = ''TRANSACTION_TIMEOUT''"
| "name_of_error (Insufficient_balance _) = ''INSUFFICIENT_BALANCE''"
| "name_of_error (Approval_failed _) = ''APPROVAL_FAILED''"
| "name_of_error (Honeypot_token _) = ''HONEYPOT_TOKEN''"
| "name_of_error (Withdrawal_failed _) = ''WITHDRAWAL_FAILED''"
| "name_of_error (Unknown_error _) = ''UNKNOWN_ERROR''"

text \<open>The clock is after 1970, so the seconds show without a sign.\<close>

definition blockchain_error_of :: "(recovery_info \<Rightarrow> string) \<Rightarrow> nat \<Rightarrow> transaction_error \<Rightarrow> blockchain_error" where
  "blockchain_error_of json now e =
     \<lparr> error_id = name_of_error e @ ''_'' @ show_nat (now div 1000000000),
       error_name = name_of_error e, error_description = show_transaction_error e, error_status = Error_pending,
       error_transaction = Some (show_transaction_error e), error_recovery = Some (json (get_recovery_info e)),
       error_created_at = int now, error_updated_at = int now \<rparr>"

text \<open>The trait \<open>ErrorHandler\<close>: every method may fail.\<close>

record 'h error_api =
  api_add :: "blockchain_error \<Rightarrow> 'h \<Rightarrow> (string + unit) \<times> 'h"
  api_get :: "string \<Rightarrow> 'h \<Rightarrow> string + blockchain_error option"
  api_all :: "'h \<Rightarrow> string + blockchain_error list"
  api_remove :: "string \<Rightarrow> 'h \<Rightarrow> (string + unit) \<times> 'h"
  api_clear :: "'h \<Rightarrow> (string + unit) \<times> 'h"

record error_handler =
  eh_config :: service_config
  eh_errors :: "string \<rightharpoonup> blockchain_error"

definition default_error_config :: "int \<Rightarrow> service_config" where
  "default_error_config now =
     \<lparr> config_id = ''default'', config_name = ''Default Error Handler'', config_version = ''1.0.0'',
       config_created_at = now, retention_period = 86400 \<rparr>"

definition new_error_handler :: "service_config \<Rightarrow> error_handler" where
  "new_error_handler config = \<lparr> eh_config = config, eh_errors = Map.empty \<rparr>"

definition default_error_handler :: "int \<Rightarrow> error_handler" where
  "default_error_handler now = new_error_handler (default_error_config now)"

definition get_error_config :: "error_handler \<Rightarrow> string + service_config" where
  "get_error_config h = Inr (eh_config h)"

definition update_error_config :: "service_config \<Rightarrow> error_handler \<Rightarrow> error_handler" where
  "update_error_config config h = h\<lparr> eh_config := config \<rparr>"

definition add_error :: "blockchain_error \<Rightarrow> error_handler \<Rightarrow> error_handler" where
  "add_error e h = h\<lparr> eh_errors := (eh_errors h)(error_id e \<mapsto> e) \<rparr>"

definition get_error :: "string \<Rightarrow> error_handler \<Rightarrow> blockchain_error option" where
  "get_error k h = eh_errors h k"

text \<open>\<open>order\<close> gives the order in which a hash map delivers its keys.\<close>

definition get_errors :: "((string \<rightharpoonup> blockchain_error) \<Rightarrow> string list) \<Rightarrow> error_handler \<Rightarrow> blockchain_error list" where
  "get_errors order h = values_in (order (eh_errors h)) (eh_errors h)"

definition remove_error :: "string \<Rightarrow> error_handler \<Rightarrow> error_handler" where
  "remove_error k h = h\<lparr> eh_errors := (eh_errors h)(k := None) \<rparr>"

definition clear_errors :: "error_handler \<Rightarrow> error_handler" where
  "clear_errors h = h\<lparr> eh_errors := Map.empty \<rparr>"

definition basic_api :: "((string \<rightharpoonup> blockchain_error) \<Rightarrow> string list) \<Rightarrow> error_handler error_api" where
  "basic_api order =
     \<lparr> api_add = (\<lambda>e h. (Inr (), add_error e h)), api_get = (\<lambda>k h. Inr (get_error k h)),
       api_all = (\<lambda>h. Inr (get_errors order h)), api_remove = (\<lambda>k h. (Inr (), remove_error k h)),
       api_clear = (\<lambda>h. (Inr (), clear_errors h)) \<rparr>"

section \<open>Operations over any store\<close>

definition handle_transaction_error ::
  "'h error_api \<Rightarrow> (recovery_info \<Rightarrow> string) \<Rightarrow> nat \<Rightarrow> string \<Rightarrow> 'h \<Rightarrow> (string + recovery_info) \<times> 'h" where
  "handle_transaction_error api json now msg h =
     (let e = classify_blockchain_error msg; r = get_recovery_info e
      in case api_add api (blockchain_error_of json now e) h of
           (Inl err, h) \<Rightarrow> (Inl err, h)
         | (Inr _, h) \<Rightarrow> (Inr r, h))"

definition update_error_status ::
  "'h error_api \<Rightarrow> int \<Rightarrow> string \<Rightarrow> error_status \<Rightarrow> 'h \<Rightarrow> (string + unit) \<times> 'h" where
  "update_error_status api now k new_status h =
     (case api_get api k h of
        Inl err \<Rightarrow> (Inl err, h)
      | Inr (Some e) \<Rightarrow> api_add api (e\<lparr> error_status := new_status, error_updated_at := now \<rparr>) h
      | Inr None \<Rightarrow> (Inl (''error not found: '' @ k), h))"

definition filter_errors_by_status :: "'h error_api \<Rightarrow> error_status \<Rightarrow> 'h \<Rightarrow> string + blockchain_error list" where
  "filter_errors_by_status api status h =
     rbind (api_all api h) (\<lambda>es. Inr (filter (\<lambda>e. error_status e = status) es))"

text \<open>An error is old when its age, where the clock did not go back, exceeds the maximum; the number of
  seconds wraps in 64 bits.\<close>

definition is_old :: "int \<Rightarrow> u64 \<Rightarrow> blockchain_error \<Rightarrow> bool" where
  "is_old now max_age_hours e \<longleftrightarrow>
     error_created_at e \<le> now \<and> int (unat (max_age_hours * 3600)) * 1000000000 < now - error_created_at e"

fun remove_old :: "'h error_api \<Rightarrow> int \<Rightarrow> u64 \<Rightarrow> blockchain_error list \<Rightarrow> u64 \<Rightarrow> 'h \<Rightarrow> (string + u64) \<times> 'h" where
  "remove_old api now max_age_hours [] n h = (Inr n, h)"
| "remove_old api now max_age_hours (e # es) n h =
     (if is_old now max_age_hours e then
        (case api_remove api (error_id e) h of
           (Inl err, h) \<Rightarrow> (Inl err, h)
         | (Inr _, h) \<Rightarrow> remove_old api now max_age_hours es (n + 1) h)
      else remove_old api now max_age_hours es n h)"

definition cleanup_old_errors :: "'h error_api \<Rightarrow> int \<Rightarrow> u64 \<Rightarrow> 'h \<Rightarrow> (string + u64) \<times> 'h" where
  "cleanup_old_errors api now max_age_hours h =
     (case api_all api h of
        Inl err \<Rightarrow> (Inl err, h)
      | Inr es \<Rightarrow> remove_old api now max_age_hours es 0 h)"

section \<open>The classification\<close>

lemma contains_single: "contains_str s [c] \<longleftrightarrow> c \<in> set s"
  by (induction s) auto

text \<open>Whatever is not about gas and has the letter k, in any case, counts as a slippage error.\<close>

lemma letter_k_is_slippage:
  assumes "CHR ''k'' \<in> set (lower msg)" and "\<not> contains_str (lower msg) ''gas''"
  shows "classify_blockchain_error msg = Slippage_error msg"
  using assms by (simp add: classify_blockchain_error_def Let_def contains_single)

text \<open>So the text of a connection error, classified again, is a slippage error to be retried at once.\<close>

lemma connection_error_lost:
  "classify_blockchain_error (show_transaction_error (Connection_error ''refused'')) =
     Slippage_error (show_transaction_error (Connection_error ''refused''))"
  by (rule letter_k_is_slippage) (simp_all add: lower_def)

lemma recovery_frame:
  "should_retry (get_recovery_info e) \<longleftrightarrow> suggested_action (get_recovery_info e) \<notin> {Abort_transaction, Emergency_sell}"
  "increase_gas (get_recovery_info e) \<longleftrightarrow> increase_gas_percent (get_recovery_info e) \<noteq> 0"
  "increase_gas (get_recovery_info e) \<or> decrease_slippage (get_recovery_info e) \<Longrightarrow> should_retry (get_recovery_info e)"
  "increase_gas_percent (get_recovery_info e) \<le> 50"
  by (cases e; simp)+

lemma emergency_only_honeypot: "suggested_action (get_recovery_info e) = Emergency_sell \<longleftrightarrow> (\<exists>s. e = Honeypot_token s)"
  by (cases e) simp_all

section \<open>Stores of errors\<close>

text \<open>
  What the operations rely on: the store keeps errors by their id, lists all of them once, and its
  calls succeed. \<open>ok\<close> is the invariant of the store and \<open>entries\<close> what it holds.
\<close>

locale error_store =
  fixes api :: "'h error_api" and ok :: "'h \<Rightarrow> bool" and entries :: "'h \<Rightarrow> string \<rightharpoonup> blockchain_error"
  assumes keyed: "ok h \<Longrightarrow> entries h k = Some e \<Longrightarrow> error_id e = k"
    and add: "\<lbrakk> ok h; api_add api e h = r \<rbrakk> \<Longrightarrow> fst r = Inr () \<and> ok (snd r) \<and> entries (snd r) = (entries h)(error_id e \<mapsto> e)"
    and look: "ok h \<Longrightarrow> api_get api k h = Inr (entries h k)"
    and all: "ok h \<Longrightarrow> \<exists>es. api_all api h = Inr es \<and> distinct (map error_id es) \<and> set es = ran (entries h)"
    and remove: "\<lbrakk> ok h; api_remove api k h = r \<rbrakk> \<Longrightarrow> fst r = Inr () \<and> ok (snd r) \<and> entries (snd r) = (entries h)(k := None)"
begin

lemma handle_stores:
  assumes "ok h"
  shows "fst (handle_transaction_error api json now msg h) = Inr (get_recovery_info (classify_blockchain_error msg))"
    and "ok (snd (handle_transaction_error api json now msg h))"
    and "entries (snd (handle_transaction_error api json now msg h)) =
      (let e = blockchain_error_of json now (classify_blockchain_error msg) in (entries h)(error_id e \<mapsto> e))"
  using add [OF assms refl, of "blockchain_error_of json now (classify_blockchain_error msg)"]
  by (auto simp: handle_transaction_error_def Let_def split: prod.splits sum.splits)

lemma status_update:
  assumes "ok h"
  shows "ok (snd (update_error_status api now k st h))"
    and "entries (snd (update_error_status api now k st h)) =
      (entries h)(k := map_option (\<lambda>e. e\<lparr> error_status := st, error_updated_at := now \<rparr>) (entries h k))"
proof -
  have "error_id (e\<lparr> error_status := st, error_updated_at := now \<rparr>) = k" if "entries h k = Some e" for e
    using keyed [OF assms that] by simp
  then show "ok (snd (update_error_status api now k st h))"
    and "entries (snd (update_error_status api now k st h)) =
      (entries h)(k := map_option (\<lambda>e. e\<lparr> error_status := st, error_updated_at := now \<rparr>) (entries h k))"
    using add [OF assms refl, of "(the (entries h k))\<lparr> error_status := st, error_updated_at := now \<rparr>"] look [OF assms, of k] assms
    by (auto simp: update_error_status_def split: option.splits)
qed

lemma removes_old:
  assumes "ok h" and "distinct (map error_id es)" and "\<forall>e\<in>set es. entries h (error_id e) = Some e"
  shows "\<exists>h'. remove_old api now hours es n h = (Inr (n + of_nat (length (filter (is_old now hours) es))), h') \<and> ok h'
    \<and> entries h' = (\<lambda>k. if k \<in> error_id ` set (filter (is_old now hours) es) then None else entries h k)"
  using assms
proof (induction es arbitrary: n h)
  case Nil
  then show ?case by simp
next
  case (Cons e es)
  show ?case
  proof (cases "is_old now hours e")
    case True
    obtain r h1 where r: "api_remove api (error_id e) h = (r, h1)" by fastforce
    from remove [OF Cons.prems(1) this] have h1: "r = Inr ()" "ok h1" "entries h1 = (entries h)(error_id e := None)"
      by simp_all
    from Cons.prems(2,3) h1(3) have "\<forall>x\<in>set es. entries h1 (error_id x) = Some x" by (auto simp: image_iff)
    moreover from Cons.prems(2) have "distinct (map error_id es)" by simp
    ultimately obtain h' where h':
      "remove_old api now hours es (n + 1) h1 = (Inr (n + 1 + of_nat (length (filter (is_old now hours) es))), h')" "ok h'"
      "entries h' = (\<lambda>k. if k \<in> error_id ` set (filter (is_old now hours) es) then None else entries h1 k)"
      using Cons.IH [OF h1(2), of "n + 1"] by blast
    have "entries h' = (\<lambda>k. if k \<in> error_id ` set (filter (is_old now hours) (e # es)) then None else entries h k)"
      unfolding h'(3) h1(3) using True by (intro ext) simp
    moreover have "remove_old api now hours (e # es) n h = (Inr (n + of_nat (length (filter (is_old now hours) (e # es)))), h')"
      using True r h1(1) h'(1) by (simp add: add.assoc)
    ultimately show ?thesis using h'(2) by blast
  next
    case False
    from Cons.prems have "\<forall>x\<in>set es. entries h (error_id x) = Some x" "distinct (map error_id es)" by simp_all
    from Cons.IH [OF Cons.prems(1) this(2,1)] False show ?thesis by simp
  qed
qed

text \<open>The cleanup removes exactly the old errors and counts them.\<close>

lemma cleanup_exact:
  assumes "ok h"
  shows "\<exists>h' n. cleanup_old_errors api now hours h = (Inr (of_nat n), h') \<and> ok h'
    \<and> n = card {k. \<exists>e. entries h k = Some e \<and> is_old now hours e}
    \<and> entries h' = (\<lambda>k. case entries h k of Some e \<Rightarrow> if is_old now hours e then None else Some e | None \<Rightarrow> None)"
proof -
  from all [OF assms] obtain es where es: "api_all api h = Inr es" "distinct (map error_id es)" "set es = ran (entries h)"
    by blast
  from es(3) keyed [OF assms] have held: "entries h (error_id e) = Some e" if "e \<in> set es" for e
    using that by (fastforce simp: ran_def)
  let ?old = "filter (is_old now hours) es"
  have ids: "error_id ` set ?old = {k. \<exists>e. entries h k = Some e \<and> is_old now hours e}" (is "_ = ?K")
  proof
    show "error_id ` set ?old \<subseteq> ?K" using held by auto
    show "?K \<subseteq> error_id ` set ?old"
    proof
      fix k assume "k \<in> ?K"
      then obtain e where e: "entries h k = Some e" "is_old now hours e" by blast
      with es(3) keyed [OF assms e(1)] show "k \<in> error_id ` set ?old" by (force intro: ranI)
    qed
  qed
  have "card (error_id ` set ?old) = length ?old"
    using distinct_card [of "map error_id ?old"] distinct_map_filter [OF es(2), of "is_old now hours"] by simp
  with ids have n: "length ?old = card ?K" by simp
  from removes_old [OF assms es(2), of now hours 0] held obtain h' where
    h': "remove_old api now hours es 0 h = (Inr (of_nat (length ?old)), h')" "ok h'"
      "entries h' = (\<lambda>k. if k \<in> error_id ` set ?old then None else entries h k)" by auto
  have "entries h' = (\<lambda>k. case entries h k of Some e \<Rightarrow> if is_old now hours e then None else Some e | None \<Rightarrow> None)"
    unfolding h'(3) ids by (auto simp: fun_eq_iff split: option.splits)
  with h'(1,2) n es(1) show ?thesis by (auto simp: cleanup_old_errors_def)
qed

end

text \<open>The basic store meets the interface for every order in which the map delivers its keys.\<close>

definition delivers :: "((string \<rightharpoonup> 'v) \<Rightarrow> string list) \<Rightarrow> bool" where
  "delivers order \<longleftrightarrow> (\<forall>m. finite (dom m) \<longrightarrow> distinct (order m) \<and> set (order m) = dom m)"

definition errors_ok :: "error_handler \<Rightarrow> bool" where
  "errors_ok h \<longleftrightarrow> finite (dom (eh_errors h)) \<and> (\<forall>k e. eh_errors h k = Some e \<longrightarrow> error_id e = k)"

lemma values_in_keyed:
  assumes "\<forall>k e. m k = Some e \<longrightarrow> error_id e = k" and "distinct ks" and "set ks = dom m"
  shows "distinct (map error_id (values_in ks m)) \<and> set (values_in ks m) = ran m"
proof -
  have "map error_id (values_in ks' m) = ks'" if "set ks' \<subseteq> dom m" for ks'
    using that assms(1) by (induction ks') (auto simp: values_in_def List.map_filter_simps)
  moreover have "set (values_in ks m) = ran m"
    using assms(3) by (force simp: values_in_def List.map_filter_def ran_def)
  ultimately show ?thesis using assms(2,3) by simp
qed

lemma basic_api_store:
  assumes "delivers order"
  shows "error_store (basic_api order) errors_ok eh_errors"
proof
  fix h assume ok: "errors_ok h"
  then have "distinct (order (eh_errors h))" "set (order (eh_errors h)) = dom (eh_errors h)"
    using assms by (simp_all add: delivers_def errors_ok_def)
  with ok values_in_keyed [of "eh_errors h" "order (eh_errors h)"]
  show "\<exists>es. api_all (basic_api order) h = Inr es \<and> distinct (map error_id es) \<and> set es = ran (eh_errors h)"
    by (simp add: basic_api_def get_errors_def errors_ok_def)
qed (auto simp: basic_api_def errors_ok_def add_error_def get_error_def remove_error_def split: if_splits)

definition sorted_keys :: "(string \<rightharpoonup> 'v) \<Rightarrow> string list" where
  "sorted_keys m = sorted_list_of_set (dom m)"

lemma delivers_sorted: "delivers sorted_keys"
  by (simp add: delivers_def sorted_keys_def)

interpretation basic: error_store "basic_api sorted_keys" errors_ok eh_errors
  by (rule basic_api_store [OF delivers_sorted])

text \<open>The states a store comes to through its methods and the operations over it.\<close>

inductive eh_reachable :: "((string \<rightharpoonup> blockchain_error) \<Rightarrow> string list) \<Rightarrow> error_handler \<Rightarrow> bool" for order where
  eh_new: "eh_reachable order (new_error_handler config)"
| eh_configure: "eh_reachable order h \<Longrightarrow> eh_reachable order (update_error_config config h)"
| eh_add: "eh_reachable order h \<Longrightarrow> eh_reachable order (add_error e h)"
| eh_remove: "eh_reachable order h \<Longrightarrow> eh_reachable order (remove_error k h)"
| eh_clear: "eh_reachable order h \<Longrightarrow> eh_reachable order (clear_errors h)"
| eh_handle: "eh_reachable order h \<Longrightarrow> eh_reachable order (snd (handle_transaction_error (basic_api order) json now msg h))"
| eh_status: "eh_reachable order h \<Longrightarrow> eh_reachable order (snd (update_error_status (basic_api order) t k st h))"
| eh_cleanup: "eh_reachable order h \<Longrightarrow> eh_reachable order (snd (cleanup_old_errors (basic_api order) t hours h))"

lemma eh_reachable_ok:
  assumes "delivers order"
  shows "eh_reachable order h \<Longrightarrow> errors_ok h"
proof (induction rule: eh_reachable.induct)
  note store = basic_api_store [OF assms]
  { case eh_handle show ?case by (rule error_store.handle_stores(2) [OF store eh_handle.IH]) }
  { case eh_status show ?case by (rule error_store.status_update(1) [OF store eh_status.IH]) }
  { case (eh_cleanup h t hours) then show ?case
      using error_store.cleanup_exact [OF store, of h t hours] by auto }
qed (auto simp: errors_ok_def new_error_handler_def update_error_config_def add_error_def remove_error_def clear_errors_def
    split: if_splits)

text \<open>Two errors of one class in one second have the same id, and only the later one is kept.\<close>

lemma same_second_replaces:
  assumes "name_of_error (classify_blockchain_error msg) = name_of_error (classify_blockchain_error msg')"
    and "now div 1000000000 = now' div 1000000000"
  shows "eh_errors (snd (handle_transaction_error (basic_api order) json now' msg'
           (snd (handle_transaction_error (basic_api order) json now msg h)))) =
         eh_errors (snd (handle_transaction_error (basic_api order) json now' msg' h))"
  using assms by (simp add: handle_transaction_error_def basic_api_def Let_def add_error_def blockchain_error_of_def)

section \<open>Properties\<close>

text \<open>The recommendation is an emergency sale exactly for a text that speaks of a failed estimate or of a
  transfer and has none of the words of the classes tried before: above all not the single letter k.\<close>

lemma emergency_sale_exact:
  "suggested_action (get_recovery_info (classify_blockchain_error msg)) = Emergency_sell \<longleftrightarrow>
     (contains_str (lower msg) ''cannot estimate'' \<or> contains_str (lower msg) ''transfer'')
     \<and> CHR ''k'' \<notin> set (lower msg)
     \<and> list_all (\<lambda>w. \<not> contains_str (lower msg) w)
         [''slippage'', ''amount out'', ''output amount'', ''liquidity'', ''revert'', ''timeout'', ''not mined'', ''approve'', ''allowance'']
     \<and> \<not> (contains_str (lower msg) ''gas'' \<and> (contains_str (lower msg) ''low'' \<or> contains_str (lower msg) ''insufficient''))
     \<and> \<not> (contains_str (lower msg) ''balance'' \<and> contains_str (lower msg) ''insufficient'')"
proof -
  have "contains_str (lower msg) ''execution reverted'' \<Longrightarrow> contains_str (lower msg) ''revert''"
    unfolding contains_str_iff
    by (metis append.assoc append_Cons append_Nil list.inject)
  then show ?thesis
    unfolding emergency_only_honeypot classify_blockchain_error_def Let_def by (auto simp: contains_single)
qed

text \<open>C15. In every state a store of errors can come to, the cleanup removes exactly the errors older than the
  given hours (the seconds taken modulo \<open>2 ^ 64\<close>), keeps the others unchanged, and reports how many it removed.\<close>

theorem error_cleanup_exact:
  assumes "delivers order" and "eh_reachable order h"
  shows "\<exists>h'. cleanup_old_errors (basic_api order) now hours h
        = (Inr (of_nat (card {k. \<exists>e. get_error k h = Some e \<and> is_old now hours e})), h')
    \<and> (\<forall>k. get_error k h' = (case get_error k h of Some e \<Rightarrow> if is_old now hours e then None else Some e | None \<Rightarrow> None))"
  using error_store.cleanup_exact [OF basic_api_store [OF assms(1)] eh_reachable_ok [OF assms], of now hours]
  by (auto simp: get_error_def)

definition demo_error :: blockchain_error where
  "demo_error = blockchain_error_of (\<lambda>_. ''{}'') 1000000000 (Unknown_error ''x'')"

theorem error_cleanup_exact_witness:
  "\<exists>h'. cleanup_old_errors (basic_api sorted_keys) 7201000000001 1 (add_error demo_error (new_error_handler (default_error_config 0)))
        = (Inr (of_nat (card {k. \<exists>e. get_error k (add_error demo_error (new_error_handler (default_error_config 0))) = Some e
              \<and> is_old 7201000000001 1 e})), h')
    \<and> get_error (error_id demo_error) h' = None"
proof -
  have "is_old 7201000000001 1 demo_error" by (simp add: is_old_def demo_error_def blockchain_error_of_def)
  with error_cleanup_exact [OF delivers_sorted eh_add [OF eh_new], of 7201000000001 1 demo_error "default_error_config 0"]
  show ?thesis by (auto simp: get_error_def add_error_def split: option.splits)
qed

end
