(* ===== verification/RiskAnalyzer.thy ===== *)
theory RiskAnalyzer
  imports TransactionModel Float64
begin

text \<open>
  The risk analyzer of \<^verbatim>\<open>snipebot/src/trade/risk_analyzer.rs\<close>: the search of bytecode for function
  signatures, the analyses (stubs with fixed results, modelled as they stand), the cache of verdicts
  in front of them, the advanced analyzer, and the global instance. Byte strings are lists of \<open>u8\<close>,
  texts UTF-8; \<open>now\<close> is the clock in nanoseconds, \<open>secs\<close> in seconds.
\<close>

section \<open>Data\<close>

record function_signatures =
  sig_transfer :: "u8 list"
  sig_transfer_from :: "u8 list"
  sig_approve :: "u8 list"
  sig_mint :: "u8 list"
  sig_burn :: "u8 list"
  sig_set_fees :: "u8 list"
  sig_add_liquidity :: "u8 list"
  sig_remove_liquidity :: "u8 list"
  sig_add_blacklist :: "u8 list"
  sig_remove_blacklist :: "u8 list"

definition default_signatures :: function_signatures where
  "default_signatures =
     \<lparr> sig_transfer = [0xa9, 0x05, 0x9c, 0xbb], sig_transfer_from = [0x23, 0xb8, 0x72, 0xdd],
       sig_approve = [0x09, 0x5e, 0xa7, 0xb3], sig_mint = [0x40, 0xc1, 0x0f, 0x19],
       sig_burn = [0x42, 0x96, 0x6c, 0x68], sig_set_fees = [0x8a, 0x72, 0x34, 0xc6],
       sig_add_liquidity = [0xe8, 0xe3, 0x37, 0x00], sig_remove_liquidity = [0xba, 0xf1, 0xa5, 0x71],
       sig_add_blacklist = [0x0c, 0x53, 0xc5, 0x1c], sig_remove_blacklist = [0x1a, 0x76, 0x97, 0x95] \<rparr>"

record risk_factor =
  rf_name :: string
  rf_score :: f64
  rf_description :: string

record risk_analysis =
  ra_score :: f64
  ra_factors :: "risk_factor list"
  ra_timestamp :: u64

definition new_analysis :: "u64 \<Rightarrow> risk_analysis" where
  "new_analysis secs = \<lparr> ra_score = Fin 0, ra_factors = [], ra_timestamp = secs \<rparr>"

record token_issue =
  ti_code :: string
  ti_severity :: string
  ti_description :: string

record token_result =
  tr_address :: string
  tr_is_honeypot :: bool
  tr_is_mintable :: bool
  tr_has_blacklist :: bool
  tr_has_whitelist :: bool
  tr_has_trading_cooldown :: bool
  tr_has_anti_whale :: bool
  tr_has_high_fee :: bool
  tr_risk_score :: u8
  tr_notes :: "string list"

record security_info =
  si_address :: h160
  si_name :: "string option"
  si_symbol :: "string option"
  si_decimals :: "u8 option"
  si_total_supply :: "u256 option"
  si_has_mint_function :: bool
  si_has_blacklist :: bool
  si_has_whitelist :: bool
  si_has_high_fees :: bool
  si_has_owner :: bool
  si_fee_percentage :: "f64 option"
  si_is_proxy :: bool
  si_creation_tx :: "h256 option"
  si_source_verified :: bool
  si_functions :: "string list"
  si_risk_factors :: "string list"

record token_risk =
  tk_base :: risk_analysis
  tk_token :: h160
  tk_symbol :: string
  tk_name :: string
  tk_total_issues :: u32
  tk_critical_issues :: u32
  tk_high_issues :: u32
  tk_medium_issues :: u32
  tk_low_issues :: u32
  tk_issues :: "token_issue list"
  tk_risks :: "string list"
  tk_created_at :: int
  tk_is_verified :: bool
  tk_liquidity_ratio :: f64
  tk_holder_count :: u64
  tk_ownership_issues :: "string list"
  tk_dangerous_functions :: "string list"

record transaction_risk =
  tx_base :: risk_analysis
  tx_hash_of :: h256
  tx_sender :: h160
  tx_recipient :: h160
  tx_value_of :: u256
  tx_gas_price_of :: u256
  tx_gas_limit_of :: u256
  tx_bytes :: "u8 list"
  tx_analysed_at :: int

record contract_risk =
  cr_base :: risk_analysis
  cr_contract :: h160
  cr_name :: string
  cr_verified :: bool
  cr_dangerous_functions :: "string list"
  cr_blocked_for_eoa :: "string list"
  cr_ownership_info :: "string \<rightharpoonup> string"
  cr_created_at :: int

record asset_impact =
  ai_asset :: string
  ai_initial_value :: f64
  ai_final_value :: f64
  ai_percent_change :: f64

record stress_scenario =
  ss_name :: string
  ss_description :: string
  ss_timestamp :: u64
  ss_asset_impacts :: "asset_impact list"
  ss_overall_impact :: f64

record stress_results =
  sr_scenarios :: "stress_scenario list"
  sr_created_at :: u64

record risk_config =
  rc_config_id :: string
  rc_name :: string
  rc_version :: string
  rc_created_at :: int
  rc_max_allocation :: f64
  rc_max_tokens :: u32
  rc_offline_mode :: bool

record risk_analyzer =
  an_config :: risk_config
  an_analysis_cache :: "h160 \<rightharpoonup> token_risk"
  an_contract_cache :: "h160 \<rightharpoonup> contract_risk"
  an_signatures :: function_signatures
  an_safety_cache :: "h160 \<rightharpoonup> bool"

definition new_analyzer :: "risk_config \<Rightarrow> risk_analyzer" where
  "new_analyzer config =
     \<lparr> an_config = config, an_analysis_cache = Map.empty, an_contract_cache = Map.empty,
       an_signatures = default_signatures, an_safety_cache = Map.empty \<rparr>"

section \<open>Bytecode\<close>

text \<open>\<open>windows(length w).any(== w)\<close>: \<open>w\<close> is not empty here.\<close>

fun has_window :: "u8 list \<Rightarrow> u8 list \<Rightarrow> bool" where
  "has_window [] w = False"
| "has_window (b # bs) w \<longleftrightarrow> (length w \<le> length (b # bs) \<and> take (length w) (b # bs) = w) \<or> has_window bs w"

definition analyze_bytecode :: "risk_analyzer \<Rightarrow> u8 list \<Rightarrow> security_info \<Rightarrow> security_info" where
  "analyze_bytecode an code i =
     (let i = (if has_window code (sig_mint (an_signatures an))
               then i\<lparr> si_has_mint_function := True, si_functions := si_functions i @ [''mint''] \<rparr> else i);
          i = (if has_window code (sig_add_blacklist (an_signatures an))
               then i\<lparr> si_has_blacklist := True, si_functions := si_functions i @ [''addToBlacklist''] \<rparr> else i)
      in if has_window code [0xf4, 0x5f]
         then i\<lparr> si_is_proxy := True,
                 si_risk_factors := si_risk_factors i @
                   [''Contract l'' @ [CHR 0xC3, CHR 0xA0] @ '' proxy, c'' @ [CHR 0xC3, CHR 0xB3] @ '' th''
                    @ [CHR 0xE1, CHR 0xBB, CHR 0x83] @ '' c'' @ [CHR 0xE1, CHR 0xBA, CHR 0xAD] @ ''p nh''
                    @ [CHR 0xE1, CHR 0xBA, CHR 0xAD] @ ''t logic''] \<rparr>
         else i)"

section \<open>Analyses\<close>

definition no_connection_issue :: string where
  "no_connection_issue =
     ''Kh'' @ [CHR 0xC3, CHR 0xB4] @ ''ng th'' @ [CHR 0xE1, CHR 0xBB, CHR 0x83] @ '' ph'' @ [CHR 0xC3, CHR 0xA2]
     @ ''n t'' @ [CHR 0xC3, CHR 0xAD] @ ''ch token do thi'' @ [CHR 0xE1, CHR 0xBA, CHR 0xBF] @ ''u k''
     @ [CHR 0xE1, CHR 0xBA, CHR 0xBF] @ ''t n'' @ [CHR 0xE1, CHR 0xBB, CHR 0x91] @ ''i blockchain''"

definition no_connection_risk :: string where
  "no_connection_risk =
     ''Kh'' @ [CHR 0xC3, CHR 0xB4] @ ''ng th'' @ [CHR 0xE1, CHR 0xBB, CHR 0x83] @ '' ph'' @ [CHR 0xC3, CHR 0xA2]
     @ ''n t'' @ [CHR 0xC3, CHR 0xAD] @ ''ch do thi'' @ [CHR 0xE1, CHR 0xBA, CHR 0xBF] @ ''u k''
     @ [CHR 0xE1, CHR 0xBA, CHR 0xBF] @ ''t n'' @ [CHR 0xE1, CHR 0xBB, CHR 0x91] @ ''i blockchain''"

definition analyze_token :: "int \<Rightarrow> u64 \<Rightarrow> h160 \<Rightarrow> risk_analyzer \<Rightarrow> token_risk" where
  "analyze_token now secs token an =
     (if rc_offline_mode (an_config an) then
        \<lparr> tk_base = (new_analysis secs)\<lparr> ra_score := Fin 50 \<rparr>, tk_token = token, tk_symbol = ''UNKNOWN'', tk_name = ''Unknown Token'',
          tk_total_issues = 1, tk_critical_issues = 0, tk_high_issues = 1, tk_medium_issues = 0, tk_low_issues = 0,
          tk_issues = [\<lparr> ti_code = ''C001'', ti_severity = ''High'', ti_description = no_connection_issue \<rparr>],
          tk_risks = [no_connection_risk], tk_created_at = now, tk_is_verified = False, tk_liquidity_ratio = Fin 0,
          tk_holder_count = 0, tk_ownership_issues = [], tk_dangerous_functions = [] \<rparr>
      else
        \<lparr> tk_base = \<lparr> ra_score = Fin 50,
                     ra_factors = [\<lparr> rf_name = ''Test Risk'', rf_score = Fin 5, rf_description = ''This is a test risk factor'' \<rparr>],
                     ra_timestamp = secs \<rparr>,
          tk_token = token, tk_symbol = ''TEST'', tk_name = ''Test Token'',
          tk_total_issues = 1, tk_critical_issues = 0, tk_high_issues = 1, tk_medium_issues = 0, tk_low_issues = 0,
          tk_issues = [\<lparr> ti_code = ''R001'', ti_severity = ''High'', ti_description = ''Test'' \<rparr>],
          tk_risks = [''Test risk''], tk_created_at = now, tk_is_verified = False, tk_liquidity_ratio = Fin 0,
          tk_holder_count = 0, tk_ownership_issues = [], tk_dangerous_functions = [] \<rparr>)"

definition analyze_transaction :: "int \<Rightarrow> u64 \<Rightarrow> u8 list \<Rightarrow> transaction_risk" where
  "analyze_transaction now secs tx =
     \<lparr> tx_base = new_analysis secs, tx_hash_of = 0, tx_sender = 0, tx_recipient = 0, tx_value_of = 0,
       tx_gas_price_of = 0, tx_gas_limit_of = 0, tx_bytes = [], tx_analysed_at = now \<rparr>"

definition analyze_contract :: "int \<Rightarrow> u64 \<Rightarrow> h160 \<Rightarrow> contract_risk" where
  "analyze_contract now secs a =
     \<lparr> cr_base = new_analysis secs, cr_contract = a, cr_name = ''Unknown Contract'', cr_verified = False,
       cr_dangerous_functions = [], cr_blocked_for_eoa = [], cr_ownership_info = Map.empty, cr_created_at = now \<rparr>"

definition cached_result :: "string \<Rightarrow> bool \<Rightarrow> token_result" where
  "cached_result token_address safe =
     \<lparr> tr_address = token_address, tr_is_honeypot = (\<not> safe), tr_is_mintable = False, tr_has_blacklist = False,
       tr_has_whitelist = False, tr_has_trading_cooldown = False, tr_has_anti_whale = False, tr_has_high_fee = False,
       tr_risk_score = (if safe then 0 else 100), tr_notes = [] \<rparr>"

definition result_of :: "string \<Rightarrow> token_risk \<Rightarrow> token_result" where
  "result_of token_address a =
     \<lparr> tr_address = token_address, tr_is_honeypot = f64_lt (Fin 80) (ra_score (tk_base a)),
       tr_is_mintable = (''mint'' \<in> set (tk_dangerous_functions a)),
       tr_has_blacklist = (''blacklist'' \<in> set (tk_dangerous_functions a)),
       tr_has_whitelist = (''whitelist'' \<in> set (tk_dangerous_functions a)),
       tr_has_trading_cooldown = list_ex (\<lambda>r. contains_str r ''cooldown'') (tk_risks a),
       tr_has_anti_whale = list_ex (\<lambda>r. contains_str r ''anti-whale'') (tk_risks a),
       tr_has_high_fee = list_ex (\<lambda>r. contains_str r ''high fee'') (tk_risks a),
       tr_risk_score = of_nat (f64_as_uint 256 (ra_score (tk_base a))), tr_notes = tk_risks a \<rparr>"

definition analyze_token_by_address ::
  "(string \<Rightarrow> h160 option) \<Rightarrow> int \<Rightarrow> u64 \<Rightarrow> string \<Rightarrow> risk_analyzer \<Rightarrow> (string + token_result) \<times> risk_analyzer" where
  "analyze_token_by_address parse_address now secs token_address an =
     (case parse_address token_address of
        None \<Rightarrow> (Inl ''token address'', an)
      | Some a \<Rightarrow>
          (case an_safety_cache an a of
             Some safe \<Rightarrow> (Inr (cached_result token_address safe), an)
           | None \<Rightarrow>
               (let t = analyze_token now secs a an;
                    safe = f64_lt (ra_score (tk_base t)) (Fin 50)
                in (Inr (result_of token_address t), an\<lparr> an_safety_cache := (an_safety_cache an)(a \<mapsto> safe) \<rparr>))))"

definition is_token_safe ::
  "(string \<Rightarrow> h160 option) \<Rightarrow> int \<Rightarrow> u64 \<Rightarrow> string \<Rightarrow> risk_analyzer \<Rightarrow> (string + bool) \<times> risk_analyzer" where
  "is_token_safe parse_address now secs token_address an =
     (case parse_address token_address of
        None \<Rightarrow> (Inl ''token address'', an)
      | Some a \<Rightarrow>
          (case an_safety_cache an a of
             Some safe \<Rightarrow> (Inr safe, an)
           | None \<Rightarrow>
               (case analyze_token_by_address parse_address now secs token_address an of
                  (Inl e, an) \<Rightarrow> (Inl e, an)
                | (Inr r, an) \<Rightarrow>
                    (let safe = tr_risk_score r < 50
                     in (Inr safe, an\<lparr> an_safety_cache := (an_safety_cache an)(a \<mapsto> safe) \<rparr>)))))"

section \<open>The advanced analyzer\<close>

record advanced_analyzer =
  ad_basic :: risk_analyzer
  ad_stress_test :: bool

definition new_advanced :: "risk_config \<Rightarrow> advanced_analyzer" where
  "new_advanced config = \<lparr> ad_basic = new_analyzer config, ad_stress_test = False \<rparr>"

definition enable_stress_test :: "advanced_analyzer \<Rightarrow> advanced_analyzer" where
  "enable_stress_test an = an\<lparr> ad_stress_test := True \<rparr>"

definition run_stress_test :: "(h160 \<Rightarrow> string) \<Rightarrow> u64 \<Rightarrow> u64 \<Rightarrow> h160 \<Rightarrow> stress_results" where
  "run_stress_test debug_address secs secs' token =
     \<lparr> sr_scenarios =
         [\<lparr> ss_name = ''K'' @ [CHR 0xE1, CHR 0xBB, CHR 0x8B] @ ''ch b'' @ [CHR 0xE1, CHR 0xBA, CHR 0xA3] @ ''n ''
              @ [CHR 0xC4, CHR 0x91, CHR 0xC6, CHR 0xA1] @ ''n gi'' @ [CHR 0xE1, CHR 0xBA, CHR 0xA3] @ ''n'',
            ss_description = ''Ki'' @ [CHR 0xE1, CHR 0xBB, CHR 0x83] @ ''m tra '' @ [CHR 0xE1, CHR 0xBA, CHR 0xA3]
              @ ''nh h'' @ [CHR 0xC6, CHR 0xB0, CHR 0xE1, CHR 0xBB, CHR 0x9F] @ ''ng c'' @ [CHR 0xE1, CHR 0xBB, CHR 0xA7]
              @ ''a bi'' @ [CHR 0xE1, CHR 0xBA, CHR 0xBF] @ ''n '' @ [CHR 0xC4, CHR 0x91, CHR 0xE1, CHR 0xBB, CHR 0x99]
              @ ''ng th'' @ [CHR 0xE1, CHR 0xBB, CHR 0x8B] @ '' tr'' @ [CHR 0xC6, CHR 0xB0, CHR 0xE1, CHR 0xBB, CHR 0x9D]
              @ ''ng'',
            ss_timestamp = secs',
            ss_asset_impacts =
              [\<lparr> ai_asset = debug_address token, ai_initial_value = Fin 100, ai_final_value = Fin 80, ai_percent_change = Fin (-20) \<rparr>],
            ss_overall_impact = Fin (-10) \<rparr>],
       sr_created_at = secs \<rparr>"

definition advanced_analyze_token :: "int \<Rightarrow> u64 \<Rightarrow> h160 \<Rightarrow> advanced_analyzer \<Rightarrow> token_risk" where
  "advanced_analyze_token now secs token an =
     (let a = analyze_token now secs token (ad_basic an)
      in if ad_stress_test an
         then a\<lparr> tk_risks := tk_risks a @ [[CHR 0xC4, CHR 0x90, CHR 0xC3, CHR 0xA3] @ '' th'' @ [CHR 0xE1, CHR 0xBB, CHR 0xB1]
                 @ ''c hi'' @ [CHR 0xE1, CHR 0xBB, CHR 0x87] @ ''n stress test''] \<rparr>
         else a)"

section \<open>The global instance\<close>

text \<open>\<open>reached\<close> says whether a provider can be made from the configured URL.\<close>

definition init_risk_analyzer :: "string + unit \<Rightarrow> int \<Rightarrow> risk_analyzer option \<Rightarrow> (string + unit) \<times> risk_analyzer option" where
  "init_risk_analyzer reached now global =
     (case global of
        Some an \<Rightarrow> (Inr (), global)
      | None \<Rightarrow>
          (case reached of
             Inl e \<Rightarrow> (Inl e, global)
           | Inr _ \<Rightarrow>
               (Inr (), Some (new_analyzer
                  \<lparr> rc_config_id = ''default'', rc_name = ''Standard Risk Analysis'', rc_version = ''1.0.0'', rc_created_at = now,
                    rc_max_allocation = Fin (3602879701896397 / 36028797018963968), rc_max_tokens = 20, rc_offline_mode = False \<rparr>))))"

definition get_risk_analyzer :: "risk_analyzer option \<Rightarrow> string + risk_analyzer" where
  "get_risk_analyzer global = (case global of None \<Rightarrow> Inl ''RiskAnalyzer not initialised'' | Some an \<Rightarrow> Inr an)"

section \<open>Lemmas\<close>

lemma has_window_iff: "w \<noteq> [] \<Longrightarrow> has_window code w \<longleftrightarrow> (\<exists>u v. code = u @ w @ v)"
proof (induction code)
  case (Cons b bs)
  have "(length w \<le> length (b # bs) \<and> take (length w) (b # bs) = w) \<longleftrightarrow> (\<exists>v. b # bs = w @ v)"
    by (metis append_eq_conv_conj append_take_drop_id length_append le_add1)
  moreover have "(\<exists>u v. b # bs = u @ w @ v) \<longleftrightarrow> (\<exists>v. b # bs = w @ v) \<or> (\<exists>u v. bs = u @ w @ v)"
    by (metis append_Cons append_Nil list.exhaust list.inject)
  ultimately show ?case using Cons by simp
qed simp

text \<open>What the scan of a contract's code finds, and that it only adds to what was known.\<close>

lemma analyze_bytecode_exact:
  fixes an code i
  defines "j \<equiv> analyze_bytecode an code i"
  shows "si_has_mint_function j \<longleftrightarrow> si_has_mint_function i \<or> has_window code (sig_mint (an_signatures an))"
    and "si_has_blacklist j \<longleftrightarrow> si_has_blacklist i \<or> has_window code (sig_add_blacklist (an_signatures an))"
    and "si_is_proxy j \<longleftrightarrow> si_is_proxy i \<or> has_window code [0xf4, 0x5f]"
    and "set (si_functions i) \<subseteq> set (si_functions j)"
  by (auto simp: j_def analyze_bytecode_def Let_def)

text \<open>A delegate call not followed by the byte \<open>0x5f\<close> is not seen.\<close>

lemma delegatecall_missed: "\<not> si_is_proxy i \<Longrightarrow> \<not> si_is_proxy (analyze_bytecode an [0x36, 0xf4, 0x3d] i)"
  by (simp add: analyze_bytecode_def Let_def)

text \<open>The states of an analyzer.\<close>

inductive an_reachable :: "(string \<Rightarrow> h160 option) \<Rightarrow> risk_analyzer \<Rightarrow> bool" for parse where
  an_new: "an_reachable parse (new_analyzer config)"
| an_analyse: "an_reachable parse an \<Longrightarrow> an_reachable parse (snd (analyze_token_by_address parse now secs t an))"
| an_safe: "an_reachable parse an \<Longrightarrow> an_reachable parse (snd (is_token_safe parse now secs t an))"

lemma stub_score: "ra_score (tk_base (analyze_token now secs a an)) = Fin 50"
  by (simp add: analyze_token_def new_analysis_def)

lemma analyse_Inr:
  "analyze_token_by_address parse now secs t an = (r, an') \<Longrightarrow>
     (case parse t of None \<Rightarrow> r = Inl ''token address'' \<and> an' = an
      | Some a \<Rightarrow> (case an_safety_cache an a of
            Some safe \<Rightarrow> r = Inr (cached_result t safe) \<and> an' = an
          | None \<Rightarrow> r = Inr (result_of t (analyze_token now secs a an))
                    \<and> an' = an\<lparr> an_safety_cache := (an_safety_cache an)(a \<mapsto> False) \<rparr>))"
  by (auto simp: analyze_token_by_address_def Let_def stub_score split: option.splits)

lemma safe_Inr:
  "is_token_safe parse now secs t an = (r, an') \<Longrightarrow>
     (case parse t of None \<Rightarrow> r = Inl ''token address'' \<and> an' = an
      | Some a \<Rightarrow> (case an_safety_cache an a of
            Some safe \<Rightarrow> r = Inr safe \<and> an' = an
          | None \<Rightarrow> r = Inr False \<and> an' = an\<lparr> an_safety_cache := (an_safety_cache an)(a \<mapsto> False) \<rparr>))"
proof -
  have fifty: "tr_risk_score (result_of t (analyze_token now secs a an)) = 50" for a
    by (simp add: result_of_def stub_score f64_as_uint_def)
  assume "is_token_safe parse now secs t an = (r, an')"
  then show ?thesis
    using analyse_Inr [OF surjective_pairing, of parse now secs t an]
    by (auto simp: is_token_safe_def fifty split: option.splits prod.splits)
qed

lemma reachable_unsafe: "an_reachable parse an \<Longrightarrow> ran (an_safety_cache an) \<subseteq> {False}"
proof (induction rule: an_reachable.induct)
  case (an_analyse an now secs t)
  with analyse_Inr [OF surjective_pairing, of parse now secs t an] show ?case
    by (auto simp: ran_def split: option.splits if_splits)
next
  case (an_safe an now secs t)
  with safe_Inr [OF surjective_pairing, of parse now secs t an] show ?case
    by (auto simp: ran_def split: option.splits if_splits)
qed (simp add: new_analyzer_def)

text \<open>The first analysis of a token says it is no honeypot and has score 50, the next one that it is one, with
  score 100.\<close>

lemma analysis_answers_change:
  assumes "parse t = Some a" and "an_safety_cache an a = None"
    and "analyze_token_by_address parse now secs t an = (Inr r, an1)"
    and "analyze_token_by_address parse now' secs' t an1 = (Inr r', an2)"
  shows "\<not> tr_is_honeypot r \<and> tr_risk_score r = 50 \<and> tr_is_honeypot r' \<and> tr_risk_score r' = 100 \<and> an2 = an1"
  using analyse_Inr [OF assms(3)] analyse_Inr [OF assms(4)] assms(1,2)
  by (auto simp: result_of_def stub_score cached_result_def f64_as_uint_def)

section \<open>Properties\<close>

text \<open>C14. Over all sequences of analyses, the analyzer never calls a token safe: every address that parses is
  answered with no.\<close>

theorem no_token_is_safe:
  assumes "an_reachable parse an"
  shows "fst (is_token_safe parse now secs t an) = (case parse t of None \<Rightarrow> Inl ''token address'' | Some a \<Rightarrow> Inr False)"
  using safe_Inr [OF surjective_pairing, of parse now secs t an] reachable_unsafe [OF assms]
  by (auto simp: ran_def split: option.splits)

definition demo_config :: risk_config where
  "demo_config =
     \<lparr> rc_config_id = ''c'', rc_name = ''n'', rc_version = ''1'', rc_created_at = 0, rc_max_allocation = Fin 1,
       rc_max_tokens = 20, rc_offline_mode = True \<rparr>"

theorem no_token_is_safe_witness:
  "fst (is_token_safe (\<lambda>_. Some 7) 5 5 ''0x07'' (snd (analyze_token_by_address (\<lambda>_. Some 7) 3 3 ''0x07'' (new_analyzer demo_config)))) = Inr False"
  using no_token_is_safe [OF an_analyse [OF an_new], of "\<lambda>_. Some 7" 5 5 "''0x07''" 3 3 "''0x07''" demo_config] by simp

end
