(* ===== verification/FloatArith.thy ===== *)
theory FloatArith
  imports Float64
begin

text \<open>
  IEEE 754 double precision on rationals: a result is rounded to 53 significant bits (to even in a tie),
  gradually below \<open>2 ^ -1022\<close>, and to an infinity from \<open>2 ^ 1024\<close> on. The sign of a zero is not kept, so a
  quotient by zero takes its sign from the dividend; the modelled code tests its divisors.
\<close>

section \<open>Rounding\<close>

definition round_even :: "rat \<Rightarrow> int" where
  "round_even x =
     (let f = \<lfloor>x\<rfloor>; d = x - of_int f
      in if d < 1 / 2 then f else if 1 / 2 < d then f + 1 else if even f then f else f + 1)"

fun log2_nat :: "nat \<Rightarrow> nat" where
  "log2_nat n = (if n \<le> 1 then 0 else Suc (log2_nat (n div 2)))"

declare log2_nat.simps [simp del]

text \<open>The exponent of a positive number: the largest power of two not above it.\<close>

definition exponent :: "rat \<Rightarrow> int" where
  "exponent x =
     (if 1 \<le> x then int (log2_nat (nat \<lfloor>x\<rfloor>)) else - int (log2_nat (nat (\<lceil>1 / x\<rceil> - 1)) + 1))"

definition quantum :: "rat \<Rightarrow> int" where
  "quantum x = max (exponent \<bar>x\<bar> - 52) (-1074)"

definition rounded :: "rat \<Rightarrow> rat" where
  "rounded x = (if x = 0 then 0 else of_int (round_even (x / 2 powi quantum x)) * 2 powi quantum x)"

definition overflow_bound :: rat where
  "overflow_bound = 2 ^ 1024"

definition rnd :: "rat \<Rightarrow> f64" where
  "rnd x =
     (let r = rounded x
      in if overflow_bound \<le> r then Pos_inf else if r \<le> - overflow_bound then Neg_inf else Fin r)"

lemma round_even_of_int [simp]: "round_even (of_int k) = k"
  by (simp add: round_even_def)

lemma round_even_bounds: "x - 1 / 2 \<le> of_int (round_even x)" "of_int (round_even x) \<le> x + 1 / 2"
  unfolding round_even_def Let_def by (auto simp: floor_less_iff not_less) linarith+

lemma round_even_minus: "round_even (- x) = - round_even x"
proof (cases "x = of_int \<lfloor>x\<rfloor>")
  case True
  then show ?thesis by (metis of_int_minus round_even_of_int)
next
  case False
  then have "\<lfloor>- x\<rfloor> = - \<lfloor>x\<rfloor> - 1" by linarith
  then show ?thesis by (auto simp: round_even_def Let_def)
qed

lemma round_even_mono: "x \<le> y \<Longrightarrow> round_even x \<le> round_even y"
proof -
  assume le: "x \<le> y"
  then have fl: "\<lfloor>x\<rfloor> \<le> \<lfloor>y\<rfloor>" by (rule floor_mono)
  have b: "\<lfloor>z\<rfloor> \<le> round_even z" "round_even z \<le> \<lfloor>z\<rfloor> + 1" for z by (auto simp: round_even_def Let_def)
  show ?thesis
  proof (cases "\<lfloor>x\<rfloor> = \<lfloor>y\<rfloor>")
    case True
    with le show ?thesis by (auto simp: round_even_def Let_def)
  next
    case False
    with fl have "\<lfloor>x\<rfloor> + 1 \<le> \<lfloor>y\<rfloor>" by simp
    with b(2) [of x] b(1) [of y] show ?thesis by linarith
  qed
qed

lemma log2_nat_bounds: "0 < n \<Longrightarrow> 2 ^ log2_nat n \<le> n \<and> n < 2 ^ Suc (log2_nat n)"
proof (induction n rule: less_induct)
  case (less n)
  show ?case
  proof (cases "n \<le> 1")
    case True
    with less.prems show ?thesis by (simp add: log2_nat.simps)
  next
    case False
    then have "n div 2 < n" "0 < n div 2" by simp_all
    from less.IH [OF this] have "2 ^ log2_nat (n div 2) \<le> n div 2" "n div 2 < 2 ^ Suc (log2_nat (n div 2))" by simp_all
    moreover from False have "log2_nat n = Suc (log2_nat (n div 2))" by (subst log2_nat.simps) simp
    ultimately show ?thesis by auto
  qed
qed

lemma exponent_bounds:
  assumes "0 < x"
  shows "2 powi exponent x \<le> x \<and> x < 2 powi (exponent x + 1)"
proof (cases "1 \<le> x")
  case True
  let ?n = "nat \<lfloor>x\<rfloor>"
  from True have "0 < ?n" by simp
  note b = log2_nat_bounds [OF this]
  have "(2 :: rat) ^ log2_nat ?n \<le> of_nat ?n" using b by (metis of_nat_le_iff of_nat_numeral of_nat_power)
  also have "of_nat ?n \<le> x" using True by (simp add: of_nat_nat)
  finally have lo: "2 ^ log2_nat ?n \<le> x" .
  have "x < of_nat ?n + 1" using True floor_correct [of x] by (simp add: of_nat_nat)
  also have "of_nat ?n + 1 \<le> (2 :: rat) ^ Suc (log2_nat ?n)"
    using b by (metis Suc_leI of_nat_Suc of_nat_le_iff of_nat_numeral of_nat_power add.commute)
  finally show ?thesis using lo True by (simp add: exponent_def power_int_add)
next
  case False
  let ?m = "nat (\<lceil>1 / x\<rceil> - 1)"
  from False assms have "1 < 1 / x" by simp
  then have m: "0 < ?m" "of_nat ?m < 1 / x" "1 / x \<le> of_nat ?m + 1"
    using ceiling_correct [of "1 / x"] by (auto simp: of_nat_nat) linarith+
  note b = log2_nat_bounds [OF m(1)]
  have "(2 :: rat) ^ log2_nat ?m \<le> of_nat ?m" using b by (metis of_nat_le_iff of_nat_numeral of_nat_power)
  from this m(2) have "2 ^ log2_nat ?m < 1 / x" by (rule le_less_trans)
  then have hi: "x < 1 / 2 ^ log2_nat ?m" using assms by (simp add: field_simps)
  have "of_nat ?m + 1 \<le> (2 :: rat) ^ Suc (log2_nat ?m)"
    using b by (metis Suc_leI of_nat_Suc of_nat_le_iff of_nat_numeral of_nat_power add.commute)
  with m(3) have "1 / x \<le> 2 ^ Suc (log2_nat ?m)" by simp
  then have "1 / 2 ^ Suc (log2_nat ?m) \<le> x" using assms by (simp add: field_simps)
  with hi False show ?thesis
    by (simp add: exponent_def power_int_minus power_int_diff field_simps power_int_add)
qed

lemma powi_mono: "a \<le> b \<Longrightarrow> (2 :: rat) powi a \<le> 2 powi b"
  by (simp add: power_int_increasing)

lemma powi_pos [simp]: "(0 :: rat) < 2 powi k"
  by (simp add: zero_less_power_int)

lemma exponent_mono:
  assumes "0 < x" and "x \<le> y"
  shows "exponent x \<le> exponent y"
proof (rule ccontr)
  assume "\<not> exponent x \<le> exponent y"
  then have "exponent y + 1 \<le> exponent x" by simp
  with powi_mono have "(2 :: rat) powi (exponent y + 1) \<le> 2 powi exponent x" .
  with exponent_bounds [of x] exponent_bounds [of y] assms show False by linarith
qed

lemma powi_nat: "0 \<le> k \<Longrightarrow> (2 :: rat) powi k = of_int (2 ^ nat k)"
  by (simp add: power_int_def)

lemma powi_shift: "b \<le> a \<Longrightarrow> (2 :: rat) powi a / 2 powi b = of_int (2 ^ nat (a - b))"
  using powi_nat [of "a - b"] by (simp add: power_int_diff)

lemma quantum_minus [simp]: "quantum (- x) = quantum x"
  by (simp add: quantum_def)

lemma rounded_minus: "rounded (- x) = - rounded x"
  using round_even_minus [of "x / 2 powi quantum x"] by (simp add: rounded_def)

lemma rounded_0 [simp]: "rounded 0 = 0"
  by (simp add: rounded_def)

lemma rounded_nonneg: "0 \<le> x \<Longrightarrow> 0 \<le> rounded x"
  using round_even_mono [of 0 "x / 2 powi quantum x"] round_even_of_int [of 0]
  by (simp add: rounded_def zero_le_divide_iff)

text \<open>Numbers with at most 53 significant bits are kept.\<close>

lemma rounded_exact:
  assumes "x = of_int m * 2 powi k" and "\<bar>m\<bar> < 2 ^ 53" and "- 1074 \<le> k"
  shows "rounded x = x"
proof (cases "x = 0")
  case False
  then have pos: "0 < \<bar>x\<bar>" by simp
  have "\<bar>m\<bar> \<le> 2 ^ 53 - 1" using assms(2) by simp
  then have "(of_int \<bar>m\<bar> :: rat) < of_int (2 ^ 53)" unfolding of_int_less_iff by simp
  then have "\<bar>x\<bar> < of_int (2 ^ 53) * 2 powi k"
    unfolding assms(1) abs_mult by simp
  also have "\<dots> = 2 powi (53 + k)" using powi_nat [of 53] by (simp add: power_int_add)
  finally have hi: "\<bar>x\<bar> < 2 powi (53 + k)" .
  have "exponent \<bar>x\<bar> \<le> 52 + k"
  proof (rule ccontr)
    assume "\<not> exponent \<bar>x\<bar> \<le> 52 + k"
    then have "(2 :: rat) powi (53 + k) \<le> 2 powi exponent \<bar>x\<bar>" by (intro powi_mono) simp
    with exponent_bounds [OF pos] hi show False by linarith
  qed
  with assms(3) have q: "quantum x \<le> k" by (simp add: quantum_def)
  have "x / 2 powi quantum x = of_int m * (2 powi k / 2 powi quantum x)" by (subst assms(1)) simp
  also have "\<dots> = of_int (m * 2 ^ nat (k - quantum x))" unfolding powi_shift [OF q] by simp
  finally have "of_int (round_even (x / 2 powi quantum x)) = x / 2 powi quantum x" by (metis round_even_of_int)
  then show ?thesis by (simp add: rounded_def)
qed simp

lemma rounded_of_int: "\<bar>m\<bar> < 2 ^ 53 \<Longrightarrow> rounded (of_int m) = of_int m"
  by (rule rounded_exact [of _ m 0]) simp_all

lemma rounded_mono_pos:
  assumes "0 < x" and "x \<le> y"
  shows "rounded x \<le> rounded y"
proof -
  let ?gx = "quantum x" and ?gy = "quantum y" and ?e = "exponent y"
  from assms have y: "0 < y" by simp
  have gy: "?gx \<le> ?gy" using exponent_mono [OF assms] assms y by (simp add: quantum_def)
  show ?thesis
  proof (cases "?gx = ?gy")
    case True
    have "x / 2 powi ?gx \<le> y / 2 powi ?gy" unfolding True using assms(2) by (simp add: divide_right_mono)
    from round_even_mono [OF this] assms y show ?thesis by (simp add: rounded_def True)
  next
    case False
    with gy have lt: "?gx < ?gy" by simp
    then have e: "?gy = ?e - 52" "exponent x + 1 \<le> ?e" using assms y by (auto simp: quantum_def max_def split: if_splits)
    have gx: "?gx \<le> ?e" using lt e(1) by simp
    from exponent_bounds [OF assms(1)] powi_mono [OF e(2)] have "x \<le> 2 powi ?e" by linarith
    then have "x / 2 powi ?gx \<le> of_int (2 ^ nat (?e - ?gx))" unfolding powi_shift [OF gx, symmetric] by (simp add: divide_right_mono)
    from round_even_mono [OF this] have "round_even (x / 2 powi ?gx) \<le> 2 ^ nat (?e - ?gx)" by (metis round_even_of_int)
    then have "(of_int (round_even (x / 2 powi ?gx)) :: rat) \<le> 2 powi ?e / 2 powi ?gx"
      unfolding powi_shift [OF gx] by (simp only: of_int_le_iff)
    then have up: "rounded x \<le> 2 powi ?e" using assms(1) by (simp add: rounded_def pos_le_divide_eq)
    have gy: "?gy \<le> ?e" using e(1) by simp
    from exponent_bounds [OF y] have "2 powi ?e \<le> y" by simp
    then have "of_int (2 ^ nat (?e - ?gy)) \<le> y / 2 powi ?gy" unfolding powi_shift [OF gy, symmetric] by (simp add: divide_right_mono)
    from round_even_mono [OF this] have "2 ^ nat (?e - ?gy) \<le> round_even (y / 2 powi ?gy)" by (metis round_even_of_int)
    then have "2 powi ?e / 2 powi ?gy \<le> (of_int (round_even (y / 2 powi ?gy)) :: rat)"
      unfolding powi_shift [OF gy] by (simp only: of_int_le_iff)
    then have "2 powi ?e \<le> rounded y" using y by (simp add: rounded_def pos_divide_le_eq)
    with up show ?thesis by simp
  qed
qed

lemma rounded_mono: "x \<le> y \<Longrightarrow> rounded x \<le> rounded y"
proof (cases "0 < x")
  case False
  assume le: "x \<le> y"
  show ?thesis
  proof (cases "0 \<le> y")
    case True
    from False have "0 \<le> - x" by simp
    from rounded_nonneg [OF this] rounded_nonneg [OF True] show ?thesis by (simp add: rounded_minus)
  next
    case False
    with le rounded_mono_pos [of "- y" "- x"] show ?thesis by (simp add: rounded_minus)
  qed
qed (rule rounded_mono_pos)

lemma overflow_bound_pos: "0 < overflow_bound"
  unfolding overflow_bound_def by (rule zero_less_power) simp

lemma rnd_mono: "x \<le> y \<Longrightarrow> f64_le (rnd x) (rnd y)"
  using rounded_mono [of x y] overflow_bound_pos by (auto simp: rnd_def Let_def f64_le_def)

text \<open>A number in the grid that is not too large is its own value.\<close>

lemma rnd_exact:
  assumes "x = of_int m * 2 powi k" and "\<bar>m\<bar> < 2 ^ 53" and "- 1074 \<le> k" and "k \<le> 900"
  shows "rnd x = Fin x"
proof -
  have "\<bar>m\<bar> \<le> 2 ^ 53 - 1" using assms(2) by simp
  then have "(of_int \<bar>m\<bar> :: rat) < of_int (2 ^ 53)" unfolding of_int_less_iff by simp
  then have "\<bar>x\<bar> < of_int (2 ^ 53) * 2 powi k" unfolding assms(1) abs_mult by simp
  also have "\<dots> \<le> 2 powi 53 * 2 powi 900" using powi_nat [of 53] powi_mono [OF assms(4)] by simp
  also have "\<dots> = 2 powi 953" using power_int_add [of "2 :: rat" 53 900] by simp
  also have "\<dots> \<le> 2 powi 1024" by (rule powi_mono) simp
  also have "\<dots> = overflow_bound" by (simp only: overflow_bound_def power_int_of_nat [of 2 1024, symmetric] of_nat_numeral)
  finally show ?thesis using rounded_exact [OF assms(1-3)] by (auto simp: rnd_def)
qed

lemma rnd_of_int: "\<bar>m\<bar> < 2 ^ 53 \<Longrightarrow> rnd (of_int m) = Fin (of_int m)"
  by (rule rnd_exact [of _ m 0]) simp_all

section \<open>Operations\<close>

fun f64_neg :: "f64 \<Rightarrow> f64" where
  "f64_neg NaN = NaN"
| "f64_neg Neg_inf = Pos_inf"
| "f64_neg Pos_inf = Neg_inf"
| "f64_neg (Fin x) = Fin (- x)"

fun f64_add :: "f64 \<Rightarrow> f64 \<Rightarrow> f64" where
  "f64_add (Fin x) (Fin y) = rnd (x + y)"
| "f64_add NaN b = NaN"
| "f64_add a NaN = NaN"
| "f64_add (Fin x) b = b"
| "f64_add a (Fin y) = a"
| "f64_add a b = (if a = b then a else NaN)"

definition f64_sub :: "f64 \<Rightarrow> f64 \<Rightarrow> f64" where
  "f64_sub a b = f64_add a (f64_neg b)"

fun f64_sgn :: "f64 \<Rightarrow> rat" where
  "f64_sgn NaN = 0"
| "f64_sgn Neg_inf = -1"
| "f64_sgn Pos_inf = 1"
| "f64_sgn (Fin x) = sgn x"

definition signed_inf :: "rat \<Rightarrow> f64" where
  "signed_inf s = (if s = 0 then NaN else if 0 < s then Pos_inf else Neg_inf)"

fun f64_mul :: "f64 \<Rightarrow> f64 \<Rightarrow> f64" where
  "f64_mul (Fin x) (Fin y) = rnd (x * y)"
| "f64_mul NaN b = NaN"
| "f64_mul a NaN = NaN"
| "f64_mul a b = signed_inf (f64_sgn a * f64_sgn b)"

fun f64_div :: "f64 \<Rightarrow> f64 \<Rightarrow> f64" where
  "f64_div (Fin x) (Fin y) = (if y = 0 then signed_inf x else rnd (x / y))"
| "f64_div NaN b = NaN"
| "f64_div a NaN = NaN"
| "f64_div (Fin x) b = Fin 0"
| "f64_div a (Fin y) = (if y < 0 then f64_neg a else a)"
| "f64_div a b = NaN"

definition f64_eq :: "f64 \<Rightarrow> f64 \<Rightarrow> bool" where
  "f64_eq a b \<longleftrightarrow> a = b \<and> a \<noteq> NaN"

text \<open>\<open>n as f64\<close> of an unsigned integer.\<close>

definition f64_of_nat :: "nat \<Rightarrow> f64" where
  "f64_of_nat n = rnd (of_nat n)"

text \<open>\<open>f64::round\<close>: ties away from zero. A number of \<open>2 ^ 52\<close> or more is an integer already.\<close>

definition round_away :: "rat \<Rightarrow> int" where
  "round_away x = (if 0 \<le> x then \<lfloor>x + 1 / 2\<rfloor> else - \<lfloor>1 / 2 - x\<rfloor>)"

fun f64_round :: "f64 \<Rightarrow> f64" where
  "f64_round (Fin x) = Fin (of_int (round_away x))"
| "f64_round a = a"

lemma f64_of_nat_small: "n < 2 ^ 53 \<Longrightarrow> f64_of_nat n = Fin (of_nat n)"
  using rnd_of_int [of "int n"] by (simp add: f64_of_nat_def)

lemma f64_le_Fin [simp]: "f64_le (Fin x) (Fin y) \<longleftrightarrow> x \<le> y"
  by (auto simp: f64_le_def)

lemma not_NaN_total: "a \<noteq> NaN \<Longrightarrow> b \<noteq> NaN \<Longrightarrow> f64_le a b \<or> f64_lt b a"
  by (cases a; cases b) (auto simp: f64_le_def)

text \<open>Clamping, \<open>x.min(hi).max(lo)\<close>, ends in the interval for every value, \<open>NaN\<close> included.\<close>

lemma f64_clamped:
  assumes "lo \<le> hi"
  shows "\<exists>q. f64_max (f64_min x (Fin hi)) (Fin lo) = Fin q \<and> lo \<le> q \<and> q \<le> hi"
  using assms by (cases x) (auto simp: f64_max_def f64_min_def)

text \<open>Rounding stays between numbers of the grid.\<close>

lemma rnd_between:
  assumes "a \<le> x" and "x \<le> b" and "rnd a = Fin a" and "rnd b = Fin b"
  shows "\<exists>r. rnd x = Fin r \<and> a \<le> r \<and> r \<le> b"
  using rnd_mono [OF assms(1)] rnd_mono [OF assms(2)] assms(3,4)
  by (cases "rnd x") (auto simp: f64_le_def)

lemma rnd_small: "rnd 0 = Fin 0" "rnd 1 = Fin 1" "rnd (1 / 2) = Fin (1 / 2)"
  using rnd_of_int [of 0] rnd_of_int [of 1] rnd_exact [of "1 / 2" 1 "- 1"] by simp_all

lemma round_even_nearest: "of_int m - 1 / 2 < x \<Longrightarrow> x < of_int m + 1 / 2 \<Longrightarrow> round_even x = m"
  using round_even_bounds [of x] by linarith

lemma exponent_unique:
  assumes "2 powi k \<le> x" and "x < 2 powi (k + 1)"
  shows "exponent x = k"
proof -
  have "0 < x" using assms(1) powi_pos [of k] by linarith
  note b = exponent_bounds [OF this]
  then have "\<not> k + 1 \<le> exponent x" using powi_mono [of "k + 1" "exponent x"] assms(2) by linarith
  moreover have "\<not> exponent x + 1 \<le> k" using powi_mono [of "exponent x + 1" k] assms(1) b by linarith
  ultimately show ?thesis by simp
qed

text \<open>A number rounds to the nearest point of the grid of its binade.\<close>

lemma rnd_nearest:
  assumes x: "2 powi k \<le> x" "x < 2 powi (k + 1)" and k: "- 1022 \<le> k" "k \<le> 900"
    and m: "of_int m - 1 / 2 < x / 2 powi (k - 52)" "x / 2 powi (k - 52) < of_int m + 1 / 2" "\<bar>m\<bar> < 2 ^ 53"
  shows "rnd x = Fin (of_int m * 2 powi (k - 52))"
proof -
  have pos: "0 < x" using x(1) powi_pos [of k] by linarith
  then have "quantum x = k - 52" using exponent_unique [OF x] k by (simp add: quantum_def)
  then have r: "rounded x = of_int m * 2 powi (k - 52)"
    using round_even_nearest [OF m(1,2)] pos by (simp add: rounded_def)
  have "rnd (rounded x) = Fin (rounded x)" using m(3) k by (intro rnd_exact [OF r]) auto
  then have "- overflow_bound < rounded x \<and> rounded x < overflow_bound"
    by (auto simp: rnd_def Let_def split: if_splits)
  then show ?thesis by (simp add: rnd_def Let_def r)
qed

section \<open>Square roots\<close>

text \<open>\<open>nat_sqrt n\<close>: the root rounded down, two binary digits of \<open>n\<close> at a time.\<close>

fun nat_sqrt :: "nat \<Rightarrow> nat" where
  "nat_sqrt n =
     (if n = 0 then 0
      else let r = 2 * nat_sqrt (n div 4) in if (r + 1) ^ 2 \<le> n then r + 1 else r)"

declare nat_sqrt.simps [simp del]

lemma nat_sqrt_bounds: "(nat_sqrt n)\<^sup>2 \<le> n \<and> n < (nat_sqrt n + 1)\<^sup>2"
proof (induction n rule: less_induct)
  case (less n)
  show ?case
  proof (cases "n = 0")
    case False
    let ?r = "nat_sqrt (n div 4)"
    from False have "n div 4 < n" by simp
    from less.IH [OF this] have "?r\<^sup>2 \<le> n div 4" "n div 4 + 1 \<le> (?r + 1)\<^sup>2" by auto
    then have "4 * ?r\<^sup>2 \<le> n" "n < 4 * (?r + 1)\<^sup>2" by linarith+
    then have "(2 * ?r)\<^sup>2 \<le> n" "n < (2 * ?r + 2)\<^sup>2" by (simp_all add: power2_eq_square algebra_simps)
    with False show ?thesis by (subst (1 2) nat_sqrt.simps) (simp add: Let_def)
  qed (simp add: nat_sqrt.simps)
qed

text \<open>
  The root of a positive number, to the nearest number with 53 bits: \<open>x\<close> is scaled by an even power of
  two to 105 or 106 bits, whose root has 53. Half-way cases do not occur for values of \<open>f64\<close>.
\<close>

definition sqrt_nearest :: "rat \<Rightarrow> rat" where
  "sqrt_nearest x =
     (let k = exponent x div 2 - 52;
          s = x / 2 powi (2 * k);
          n = nat_sqrt (nat \<lfloor>s\<rfloor>)
      in of_nat (if (of_nat n + 1 / 2)\<^sup>2 < s then n + 1 else n) * 2 powi k)"

fun f64_sqrt :: "f64 \<Rightarrow> f64" where
  "f64_sqrt (Fin x) = (if x < 0 then NaN else if x = 0 then Fin 0 else Fin (sqrt_nearest x))"
| "f64_sqrt Pos_inf = Pos_inf"
| "f64_sqrt a = NaN"

text \<open>The root of a square number of the grid is exact, and no root is negative.\<close>

lemma nat_sqrt_square [simp]: "nat_sqrt (n\<^sup>2) = n"
proof -
  from nat_sqrt_bounds [of "n\<^sup>2"] have "nat_sqrt (n\<^sup>2) \<le> n" "n < nat_sqrt (n\<^sup>2) + 1"
    by (simp_all add: power2_nat_le_eq_le) (metis power2_less_imp_less le0 add_leD1)
  then show ?thesis by simp
qed

lemma f64_sqrt_not_negative: "\<not> f64_lt (f64_sqrt a) (Fin 0)"
  by (cases a) (simp_all add: sqrt_nearest_def Let_def not_less zero_le_mult_iff)

section \<open>The error of rounding\<close>

lemma rnd_error:
  assumes "2 powi (- 1000) \<le> \<bar>x\<bar>" and "\<bar>x\<bar> \<le> 2 powi 1000"
  shows "\<exists>r. rnd x = Fin r \<and> \<bar>r - x\<bar> \<le> \<bar>x\<bar> / 1000"
proof -
  have pos: "0 < \<bar>x\<bar>" using assms(1) powi_pos [of "- 1000"] by linarith
  note e = exponent_bounds [OF pos]
  have "\<not> exponent \<bar>x\<bar> + 1 \<le> - 1000" using powi_mono [of "exponent \<bar>x\<bar> + 1" "- 1000"] e assms(1) by linarith
  then have q: "quantum x = exponent \<bar>x\<bar> - 52" by (simp add: quantum_def)
  let ?g = "2 powi quantum x :: rat"
  have g: "0 < ?g" by simp
  have "\<bar>of_int (round_even (x / ?g)) - x / ?g\<bar> \<le> 1 / 2" using round_even_bounds [of "x / ?g"] by linarith
  then have "\<bar>of_int (round_even (x / ?g)) - x / ?g\<bar> * ?g \<le> 1 / 2 * ?g" using g by (intro mult_right_mono) simp_all
  moreover have "rounded x - x = (of_int (round_even (x / ?g)) - x / ?g) * ?g"
    using pos g by (simp add: rounded_def left_diff_distrib)
  ultimately have d: "\<bar>rounded x - x\<bar> \<le> ?g / 2" using g by (simp add: abs_mult)
  have "?g = 2 powi exponent \<bar>x\<bar> / 2 ^ 52" unfolding q by (simp add: power_int_diff)
  with e have "?g \<le> \<bar>x\<bar> / 2 ^ 52" by (simp add: divide_right_mono)
  also have "\<bar>x\<bar> / 2 ^ 52 \<le> \<bar>x\<bar> / 1000" by (rule divide_left_mono) simp_all
  finally have err: "\<bar>rounded x - x\<bar> \<le> \<bar>x\<bar> / 1000" using d g by linarith
  have "(2 :: rat) powi 1000 * 2 \<le> 2 powi 1024" using powi_mono [of 1001 1024] power_int_add [of "2 :: rat" 1000 1] by simp
  moreover have "2 powi 1024 = overflow_bound"
    by (simp only: overflow_bound_def power_int_of_nat [of 2 1024, symmetric] of_nat_numeral)
  ultimately have "\<bar>rounded x\<bar> < overflow_bound" using err assms(2) pos by linarith
  with err show ?thesis by (auto simp: rnd_def Let_def)
qed

end
