(* ===== verification/Equilibrium.thy ===== *)
theory Equilibrium
  imports FloatArith TransactionModel
begin

text \<open>
  The game-theoretic analyzer of \<^verbatim>\<open>ai_modules/equilibrium.rs\<close>: players, their strategies and the actions these
  predict, utilities, one run of the game, and the answers about equilibria. \<open>ks\<close> is the order in which a
  hash map delivers its keys; the draw of a random number in \<open>[0, 1)\<close> is an argument. The configuration
  has the two fields the code reads (its type is missing from the repository).
\<close>

section \<open>Players\<close>

datatype strategy = Always_cooperate | Always_defect | Tit_for_tat | Random | Profit_maximizing | Custom string

datatype action = Cooperate | Defect | No_action

record player =
  pl_address :: h160
  pl_strategy :: strategy
  pl_action_history :: "action list"
  pl_utility :: f64

record game_outcome =
  go_success :: bool
  go_profit :: f64
  go_gas_cost :: f64
  go_actions :: "h160 \<rightharpoonup> action"
  go_utilities :: "h160 \<rightharpoonup> f64"

record game_config =
  min_utility_threshold :: f64
  base_gas_cost :: f64

record equilibrium_analyzer =
  eq_players :: "h160 \<rightharpoonup> player"
  eq_payoff_matrix :: "f64 list list"
  eq_config :: game_config

definition new_analyzer :: "game_config \<Rightarrow> equilibrium_analyzer" where
  "new_analyzer config = \<lparr> eq_players = Map.empty, eq_payoff_matrix = [], eq_config = config \<rparr>"

definition add_player :: "h160 \<Rightarrow> strategy \<Rightarrow> equilibrium_analyzer \<Rightarrow> equilibrium_analyzer" where
  "add_player a s an =
     an\<lparr> eq_players := (eq_players an)(a \<mapsto>
        \<lparr> pl_address = a, pl_strategy = s, pl_action_history = [], pl_utility = Fin 0 \<rparr>) \<rparr>"

definition remove_player :: "h160 \<Rightarrow> equilibrium_analyzer \<Rightarrow> (string + unit) \<times> equilibrium_analyzer" where
  "remove_player a an =
     (case eq_players an a of
        None \<Rightarrow> (Inl ''Player not found'', an)
      | Some _ \<Rightarrow> (Inr (), an\<lparr> eq_players := (eq_players an)(a := None) \<rparr>))"

text \<open>\<open>matrix[i][j] = v\<close>, with indices in range.\<close>

definition put :: "nat \<Rightarrow> nat \<Rightarrow> rat \<Rightarrow> f64 list list \<Rightarrow> f64 list list" where
  "put i j v m = m[i := (m ! i)[j := Fin v]]"

definition initialize_payoff_matrix ::
  "h160 list \<Rightarrow> equilibrium_analyzer \<Rightarrow> (string + unit) \<times> equilibrium_analyzer" where
  "initialize_payoff_matrix ks an =
     (let n = length ks; m = replicate n (replicate n (Fin 0))
      in if n = 0 then (Inl ''No players in the system'', an)
         else
           let m = (if n = 2 then
                      (let m = put 0 0 3 m; m = put 1 1 3 m; m = put 0 1 5 m; m = put 1 0 0 m;
                           m = put 0 1 0 m; m = put 1 0 5 m; m = put 0 1 1 m; m = put 1 0 1 m
                       in m)
                    else map (\<lambda>i. map (\<lambda>j. Fin (if i = j then 2 else 1)) [0..<n]) [0..<n])
           in (Inr (), an\<lparr> eq_payoff_matrix := m \<rparr>))"

section \<open>One game\<close>

definition predict_action :: "h160 list \<Rightarrow> f64 \<Rightarrow> player \<Rightarrow> (h160 \<rightharpoonup> action list) \<Rightarrow> action" where
  "predict_action ks draw p histories =
     (let hs = List.map_filter histories ks
      in case pl_strategy p of
           Always_cooperate \<Rightarrow> Cooperate
         | Always_defect \<Rightarrow> Defect
         | Tit_for_tat \<Rightarrow> if list_ex (\<lambda>h. h \<noteq> [] \<and> last h = Defect) hs then Defect else Cooperate
         | Random \<Rightarrow> if f64_lt draw (Fin (1 / 2)) then Cooperate else Defect
         | Profit_maximizing \<Rightarrow>
             (let defections = length (filter (\<lambda>a. a = Defect) (concat hs)); n = length (concat hs)
              in if n = 0 \<or> f64_lt (f64_div (f64_of_nat defections) (f64_of_nat n)) (rnd (3 / 10)) then Cooperate else Defect)
         | Custom _ \<Rightarrow> Cooperate)"

text \<open>\<open>ks\<close> are the players in the order of their map, \<open>acting\<close> the keys of \<open>actions\<close>.\<close>

definition calculate_utility :: "h160 list \<Rightarrow> nat \<Rightarrow> h160 list \<Rightarrow> (h160 \<rightharpoonup> action) \<Rightarrow> f64" where
  "calculate_utility ks player_index acting actions =
     (if length ks \<le> 1 \<or> length ks \<le> player_index then Fin 0
      else
        let cooperate_count = length (filter (\<lambda>a. actions a = Some Cooperate) acting)
        in case actions (ks ! player_index) of
             Some Cooperate \<Rightarrow> f64_mul (f64_of_nat cooperate_count) (Fin 2)
           | Some Defect \<Rightarrow>
               (let utility = f64_mul (f64_of_nat cooperate_count) (Fin 3);
                    defect_count = length acting - cooperate_count
                in if 1 < defect_count then f64_sub utility (f64_mul (f64_of_nat defect_count) (Fin (3 / 2))) else utility)
           | _ \<Rightarrow> Fin 0)"

definition actions_of :: "h160 list \<Rightarrow> (h160 \<Rightarrow> f64) \<Rightarrow> equilibrium_analyzer \<Rightarrow> h160 \<rightharpoonup> action" where
  "actions_of ks draw an =
     (let histories = (\<lambda>a. map_option pl_action_history (eq_players an a))
      in (\<lambda>a. map_option (\<lambda>p. predict_action ks (draw a) p histories) (eq_players an a)))"

definition f64_sum :: "f64 list \<Rightarrow> f64" where
  "f64_sum = foldl f64_add (Fin 0)"

text \<open>\<open>us\<close> is the order in which the map of utilities delivers its keys.\<close>

definition run_game ::
  "h160 list \<Rightarrow> h160 list \<Rightarrow> (h160 \<Rightarrow> f64) \<Rightarrow> equilibrium_analyzer \<Rightarrow> string + game_outcome" where
  "run_game ks us draw an =
     (if ks = [] then Inl ''No players in the system''
      else
        let actions = actions_of ks draw an;
            utilities = map_of (map (\<lambda>i. (ks ! i, calculate_utility ks i ks actions)) [0..<length ks]);
            total_utility = f64_sum (List.map_filter utilities us);
            average_utility = f64_div total_utility (f64_of_nat (length ks));
            success = f64_lt (min_utility_threshold (eq_config an)) average_utility;
            gas_cost = f64_mul (base_gas_cost (eq_config an)) (f64_of_nat (length ks))
        in Inr \<lparr> go_success = success, go_profit = (if success then f64_sub total_utility gas_cost else f64_neg gas_cost),
                 go_gas_cost = gas_cost, go_actions = actions, go_utilities = utilities \<rparr>)"

section \<open>Answers about equilibria\<close>

definition find_nash_equilibrium :: "h160 list \<Rightarrow> string + (h160 \<times> strategy) list" where
  "find_nash_equilibrium ks =
     (if ks = [] then Inl ''No players in the system'' else Inr (map (\<lambda>a. (a, Always_defect)) ks))"

definition find_pareto_optimal :: "h160 list \<Rightarrow> string + (h160 \<times> strategy) list" where
  "find_pareto_optimal ks =
     (if ks = [] then Inl ''No players in the system'' else Inr (map (\<lambda>a. (a, Always_cooperate)) ks))"

definition suggest_optimal_strategy :: "h160 \<Rightarrow> equilibrium_analyzer \<Rightarrow> string + strategy" where
  "suggest_optimal_strategy a an =
     (if eq_players an a = None then Inl ''Player not found'' else Inr Tit_for_tat)"

definition analyze_equilibrium ::
  "h160 list \<Rightarrow> h160 list \<Rightarrow> (h160 \<Rightarrow> f64) \<Rightarrow> string \<Rightarrow> h160 list \<Rightarrow> equilibrium_analyzer \<Rightarrow> string + game_outcome" where
  "analyze_equilibrium ks us draw token_address players an = run_game ks us draw an"

definition suggest_strategy :: "string \<Rightarrow> h160 \<Rightarrow> equilibrium_analyzer \<Rightarrow> string + strategy" where
  "suggest_strategy token_address a an = suggest_optimal_strategy a an"

section \<open>Lemmas\<close>

text \<open>The actions of players who follow the strategies of a profile.\<close>

definition profile_actions :: "h160 list \<Rightarrow> f64 \<Rightarrow> (h160 \<rightharpoonup> action list) \<Rightarrow> (h160 \<rightharpoonup> strategy) \<Rightarrow> h160 \<rightharpoonup> action" where
  "profile_actions ks draw histories profile =
     (\<lambda>a. map_option (\<lambda>s. predict_action ks draw \<lparr> pl_address = a, pl_strategy = s, pl_action_history = [], pl_utility = Fin 0 \<rparr> histories)
            (profile a))"

lemma one_deviates:
  assumes "distinct ks" and "i < length ks" and "\<And>a. a \<in> set ks \<Longrightarrow> P a \<longleftrightarrow> a \<noteq> ks ! i"
  shows "length (filter P ks) = length ks - 1"
proof -
  have "set (filter P ks) = set ks - {ks ! i}" using assms(3) by auto
  then have "card (set (filter P ks)) = card (set ks) - 1" using assms(2) by (simp add: card_Diff_singleton)
  then show ?thesis using assms(1) distinct_card [of ks] distinct_card [of "filter P ks"] by simp
qed

lemma one_keeps:
  assumes "distinct ks" and "i < length ks" and "\<And>a. a \<in> set ks \<Longrightarrow> P a \<longleftrightarrow> a = ks ! i"
  shows "length (filter P ks) = 1"
proof -
  have "filter (\<lambda>a. \<not> P a) ks = filter (\<lambda>a. a \<noteq> ks ! i) ks" using assms(3) by (intro filter_cong) auto
  with one_deviates [OF assms(1,2), of "\<lambda>a. a \<noteq> ks ! i"] have "length (filter (\<lambda>a. \<not> P a) ks) = length ks - 1" by simp
  with sum_length_filter_compl [of P ks] assms(2) show ?thesis by linarith
qed

lemma half_multiple: "n < 2 ^ 50 \<Longrightarrow> rnd (of_int (3 * int n) / 2) = Fin (of_int (3 * int n) / 2)"
  by (rule rnd_exact [of _ "3 * int n" "- 1"]) simp_all

lemma neg_half_multiple: "n < 2 ^ 50 \<Longrightarrow> rnd (- (of_int (3 * int n) / 2)) = Fin (- (of_int (3 * int n) / 2))"
  by (rule rnd_exact [of _ "- (3 * int n)" "- 1"]) simp_all

text \<open>The utility of a cooperating and of a defecting player, computed without rounding.\<close>

lemma utility_cooperate:
  assumes "1 < length ks" and "length ks < 2 ^ 50" and "i < length ks" and "actions (ks ! i) = Some Cooperate"
  shows "calculate_utility ks i ks actions = Fin (2 * of_nat (length (filter (\<lambda>a. actions a = Some Cooperate) ks)))"
proof -
  let ?c = "length (filter (\<lambda>a. actions a = Some Cooperate) ks)"
  have c: "?c < 2 ^ 50" using assms(2) length_filter_le [of _ ks] by (rule le_less_trans [rotated])
  then have "f64_of_nat ?c = Fin (of_nat ?c)" by (intro f64_of_nat_small) simp
  moreover have "rnd (of_nat ?c * 2) = Fin (of_nat ?c * 2)" using rnd_of_int [of "int ?c * 2"] c by simp
  ultimately show ?thesis using assms by (simp add: calculate_utility_def Let_def mult.commute)
qed

lemma utility_defect:
  assumes "1 < length ks" and "length ks < 2 ^ 50" and "i < length ks" and "actions (ks ! i) = Some Defect"
    and "length (filter (\<lambda>a. actions a = Some Cooperate) ks) = c"
  shows "length ks - c \<le> 1 \<Longrightarrow> calculate_utility ks i ks actions = Fin (3 * of_nat c)"
    and "c = 0 \<Longrightarrow> calculate_utility ks i ks actions = Fin (- (of_int (3 * int (length ks)) / 2))"
proof -
  have c: "c < 2 ^ 50" using assms(2,5) length_filter_le [of "\<lambda>a. actions a = Some Cooperate" ks] by linarith
  then have cf: "f64_of_nat c = Fin (of_nat c)" by (intro f64_of_nat_small) simp
  have "rnd (of_nat c * 3) = Fin (of_nat c * 3)" using rnd_of_int [of "int c * 3"] c by simp
  with cf show "length ks - c \<le> 1 \<Longrightarrow> calculate_utility ks i ks actions = Fin (3 * of_nat c)"
    using assms by (simp add: calculate_utility_def Let_def mult.commute)
  have nf: "f64_of_nat (length ks) = Fin (of_nat (length ks))" using assms(2) by (intro f64_of_nat_small) simp
  have "rnd (of_nat (length ks) * (3 / 2)) = Fin (of_int (3 * int (length ks)) / 2)"
    using half_multiple [OF assms(2)] by (simp add: ac_simps)
  moreover have "rnd 0 = Fin 0" using rnd_of_int [of 0] by simp
  ultimately show "c = 0 \<Longrightarrow> calculate_utility ks i ks actions = Fin (- (of_int (3 * int (length ks)) / 2))"
    using assms nf cf neg_half_multiple [OF assms(2)] by (simp add: calculate_utility_def Let_def f64_sub_def)
qed

lemma profile_all:
  "a \<in> set ks \<Longrightarrow> profile_actions ks draw hs (map_of (map (\<lambda>a. (a, s)) ks)) a =
     Some (predict_action ks draw \<lparr> pl_address = a, pl_strategy = s, pl_action_history = [], pl_utility = Fin 0 \<rparr> hs)"
  by (simp add: profile_actions_def map_of_map_restrict)

section \<open>Properties\<close>

text \<open>C13. The profile answered as the Nash equilibrium, that all players defect, is none: under the utilities of
  the game itself every player gains by cooperating instead, however many players there are from two on (and
  below \<open>2\<^sup>50\<close>, where counts are exact as \<open>f64\<close>). A player alone has the utility 0 either way.\<close>

theorem nash_answer_refuted:
  assumes "distinct ks" and "1 < length ks" and "length ks < 2 ^ 50" and "i < length ks"
    and "find_nash_equilibrium ks = Inr profile"
  shows "f64_lt (calculate_utility ks i ks (profile_actions ks draw hs (map_of profile)))
                (calculate_utility ks i ks (profile_actions ks draw hs ((map_of profile)(ks ! i \<mapsto> Always_cooperate))))"
proof -
  let ?all = "profile_actions ks draw hs (map_of profile)"
  let ?dev = "profile_actions ks draw hs ((map_of profile)(ks ! i \<mapsto> Always_cooperate))"
  from assms(5) have pr: "profile = map (\<lambda>a. (a, Always_defect)) ks" by (simp add: find_nash_equilibrium_def split: if_splits)
  have all: "?all a = Some Defect" if "a \<in> set ks" for a
    unfolding pr using profile_all [OF that] by (simp add: predict_action_def Let_def)
  have dev: "?dev a = Some (if a = ks ! i then Cooperate else Defect)" if "a \<in> set ks" for a
    using all [OF that] by (simp add: profile_actions_def predict_action_def Let_def)
  have "filter (\<lambda>a. ?all a = Some Cooperate) ks = []" using all by (simp add: filter_empty_conv)
  then have "calculate_utility ks i ks ?all = Fin (- (of_int (3 * int (length ks)) / 2))"
    using utility_defect(2) [OF assms(2-4) all refl] assms(4) by simp
  moreover have "length (filter (\<lambda>a. ?dev a = Some Cooperate) ks) = 1"
    by (rule one_keeps [OF assms(1,4)]) (simp add: dev)
  then have "calculate_utility ks i ks ?dev = Fin 2"
    using utility_cooperate [OF assms(2-4), of ?dev] dev assms(4) by simp
  ultimately show ?thesis using assms(2) by simp
qed

theorem nash_answer_refuted_witness:
  "f64_lt (calculate_utility [7, 8] 1 [7, 8] (profile_actions [7, 8] NaN Map.empty (map_of [(7, Always_defect), (8, Always_defect)])))
          (calculate_utility [7, 8] 1 [7, 8]
             (profile_actions [7, 8] NaN Map.empty ((map_of [(7, Always_defect), (8, Always_defect)])(8 \<mapsto> Always_cooperate))))"
  using nash_answer_refuted [of "[7, 8]" 1 "[(7, Always_defect), (8, Always_defect)]" NaN Map.empty]
  by (simp add: find_nash_equilibrium_def)

text \<open>The profile answered as Pareto optimal, that all cooperate, is an equilibrium for two and three players only:
  a player gains by defecting exactly from four players on.\<close>

lemma cooperation_stable:
  assumes "distinct ks" and "1 < length ks" and "length ks < 2 ^ 50" and "i < length ks"
    and "find_pareto_optimal ks = Inr profile"
  shows "f64_lt (calculate_utility ks i ks (profile_actions ks draw hs (map_of profile)))
                (calculate_utility ks i ks (profile_actions ks draw hs ((map_of profile)(ks ! i \<mapsto> Always_defect))))
         \<longleftrightarrow> 3 < length ks"
proof -
  let ?all = "profile_actions ks draw hs (map_of profile)"
  let ?dev = "profile_actions ks draw hs ((map_of profile)(ks ! i \<mapsto> Always_defect))"
  from assms(5) have pr: "profile = map (\<lambda>a. (a, Always_cooperate)) ks" by (simp add: find_pareto_optimal_def split: if_splits)
  have all: "?all a = Some Cooperate" if "a \<in> set ks" for a
    unfolding pr using profile_all [OF that] by (simp add: predict_action_def Let_def)
  have dev: "?dev a = Some (if a = ks ! i then Defect else Cooperate)" if "a \<in> set ks" for a
    using all [OF that] by (simp add: profile_actions_def predict_action_def Let_def)
  have "filter (\<lambda>a. ?all a = Some Cooperate) ks = ks" using all by (simp add: filter_id_conv)
  then have "calculate_utility ks i ks ?all = Fin (2 * of_nat (length ks))"
    using utility_cooperate [OF assms(2-4), of ?all] all assms(4) by simp
  moreover have n: "length (filter (\<lambda>a. ?dev a = Some Cooperate) ks) = length ks - 1"
    by (rule one_deviates [OF assms(1,4)]) (simp add: dev)
  then have "calculate_utility ks i ks ?dev = Fin (3 * of_nat (length ks - 1))"
    using utility_defect(1) [OF assms(2-4) _ n] dev assms(2,4) by simp
  moreover have "(2 * rat_of_nat (length ks) < 3 * rat_of_nat (length ks - 1)) \<longleftrightarrow> 2 * length ks < 3 * (length ks - 1)"
    by (metis (mono_tags, lifting) of_nat_less_iff of_nat_mult of_nat_numeral)
  ultimately show ?thesis using assms(2) by (simp only: f64_lt.simps) linarith
qed

text \<open>For two players the three situations written into the payoff matrix overwrite each other, and the matrix
  says neither that a defector gains nor that a cooperator loses.\<close>

lemma two_player_matrix:
  assumes "length ks = 2"
  shows "eq_payoff_matrix (snd (initialize_payoff_matrix ks an)) = [[Fin 3, Fin 1], [Fin 1, Fin 3]]"
  using assms by (simp add: initialize_payoff_matrix_def Let_def put_def numeral_2_eq_2)

text \<open>Tit for tat looks at the histories of all players, its own included: after one own defection a player
  defects for ever.\<close>

lemma tit_for_tat_own_history:
  assumes "a \<in> set ks" and "eq_players an a = Some p" and "pl_strategy p = Tit_for_tat"
    and "pl_action_history p = h @ [Defect]"
  shows "actions_of ks draw an a = Some Defect"
  using assms
  by (auto simp: actions_of_def predict_action_def Let_def list_ex_iff List.map_filter_def image_iff intro!: bexI [of _ a])

text \<open>A game pays its gas whatever happens, and one that does not succeed pays nothing else.\<close>

lemma failed_game_costs_gas:
  "run_game ks us draw an = Inr g \<Longrightarrow> \<not> go_success g \<Longrightarrow> go_profit g = f64_neg (go_gas_cost g)"
  by (auto simp: run_game_def Let_def split: if_splits)

end
