(* ===== verification/AutoTuning.thy ===== *)
theory AutoTuning
  imports Equilibrium
begin

text \<open>
  The self-tuning of \<^verbatim>\<open>snipebot/src/trade/auto_tuning.rs\<close>, with the results of trades it reads
  (\<^verbatim>\<open>trade_logic.rs\<close>) and the settings of the simulation engine it sets (\<^verbatim>\<open>ai_modules/monte_carlo.rs\<close>).
  What the provider and the clocks answer is an argument: block number, gas prices, the success rate of
  retries, milliseconds for instants and seconds for the wall clock. \<open>parse_f64\<close> is the library's
  parser. The static average block time is a field of the state. The arithmetic is that of a release
  build; a panic, which ends the service, is \<open>Inl\<close>.
\<close>

section \<open>Data\<close>

datatype trade_kind = Sandwich | Other_kind string

record trade_result =
  tr_success :: bool
  tr_tx_hash :: "string option"
  tr_amount_in :: string
  tr_amount_out :: "string option"
  tr_price_per_token :: "f64 option"
  tr_gas_used :: "u64 option"
  tr_gas_price :: u64
  tr_timestamp :: u64
  tr_error :: "string option"
  tr_trade_type :: trade_kind
  tr_token_address :: string
  tr_victim_tx_hash :: "string option"
  tr_profit_usd :: "f64 option"
  tr_gas_cost_usd :: "f64 option"

record sandwich_result =
  sw_token_address :: string
  sw_victim_tx_hash :: string
  sw_front_tx_hash :: "string option"
  sw_back_tx_hash :: "string option"
  sw_success :: bool
  sw_profit_usd :: f64
  sw_front_run_confirmation_time :: u64
  sw_total_execution_time :: u64
  sw_timestamp :: u64
  sw_profit :: f64
  sw_front_run_gas_cost :: f64
  sw_back_run_gas_cost :: f64
  sw_execution_time :: u64

record preferred_params =
  pp_front_run_amount :: f64
  pp_front_run_gas :: f64
  pp_back_run_gas :: f64
  pp_use_flashbots :: bool

record retry_config =
  rt_max_attempts :: u32
  rt_initial_backoff_ms :: u64
  rt_max_backoff_ms :: u64
  rt_backoff_multiplier :: f64
  rt_jitter_factor :: f64

record tuning_config =
  tc_enabled :: bool
  tc_update_interval :: u64
  tc_max_adjustment :: f64
  tc_min_adjustment :: f64
  tc_learning_rate :: f64

record tuning_stats =
  ts_total :: u64
  ts_successful :: u64
  ts_failed :: u64
  ts_average_performance :: f64
  ts_timestamp :: u64

record tuner_config =
  uc_min_results :: nat
  uc_max_history :: nat
  uc_min_ai_accuracy :: f64
  uc_min_sandwich_profit_usd :: f64
  uc_min_sandwich_victim_usd :: f64

text \<open>The engine's settings: the number of simulations and named parameters.\<close>

record monte_carlo =
  mc_simulations :: u64
  mc_params :: "string \<rightharpoonup> f64"
  mc_preferred :: "preferred_params option"

definition new_monte_carlo :: monte_carlo where
  "new_monte_carlo = \<lparr> mc_simulations = 1000, mc_params = Map.empty, mc_preferred = None \<rparr>"

definition set_simulation_count :: "u32 \<Rightarrow> monte_carlo \<Rightarrow> monte_carlo" where
  "set_simulation_count n e = e\<lparr> mc_simulations := ucast n \<rparr>"

definition get_simulation_count :: "monte_carlo \<Rightarrow> u32" where
  "get_simulation_count e = ucast (mc_simulations e)"

definition add_param :: "string \<Rightarrow> f64 \<Rightarrow> monte_carlo \<Rightarrow> monte_carlo" where
  "add_param k v e = e\<lparr> mc_params := (mc_params e)(k \<mapsto> v) \<rparr>"

definition get_param :: "string \<Rightarrow> monte_carlo \<Rightarrow> f64 option" where
  "get_param k e = mc_params e k"

text \<open>A pending swap is whether it buys and its amount in USD; the tracker keeps them by token.\<close>

record tuner =
  tu_avg_block_time :: u64
  tu_last_check :: int
  tu_last_block_number :: u64
  tu_last_block_time :: int
  tu_trade_results :: "trade_result list"
  tu_config :: tuner_config
  tu_congestion :: u64
  tu_ai_threshold :: "f64 option"
  tu_mempool :: "(string \<rightharpoonup> (bool \<times> f64) list) option"
  tu_monte :: "monte_carlo option"
  tu_equilibrium :: "equilibrium_analyzer option"
  tu_retry :: retry_config
  tu_tuning :: tuning_config
  tu_stats :: tuning_stats

record network_conditions =
  nc_avg_block_time :: u64
  nc_congestion_level :: u64
  nc_gas_price :: u64
  nc_retry_success_rate :: f64

definition default_conditions :: network_conditions where
  "default_conditions = \<lparr> nc_avg_block_time = 0, nc_congestion_level = 0, nc_gas_price = 0, nc_retry_success_rate = Fin 0 \<rparr>"

definition default_tuner_config :: tuner_config where
  "default_tuner_config =
     \<lparr> uc_min_results = 5, uc_max_history = 50, uc_min_ai_accuracy = rnd (6 / 10), uc_min_sandwich_profit_usd = Fin 5,
       uc_min_sandwich_victim_usd = Fin 10 \<rparr>"

definition default_tuning_config :: tuning_config where
  "default_tuning_config =
     \<lparr> tc_enabled = True, tc_update_interval = 3600, tc_max_adjustment = rnd (15 / 100), tc_min_adjustment = rnd (1 / 100),
       tc_learning_rate = rnd (5 / 100) \<rparr>"

definition default_stats :: "u64 \<Rightarrow> tuning_stats" where
  "default_stats secs =
     \<lparr> ts_total = 0, ts_successful = 0, ts_failed = 0, ts_average_performance = Fin 0, ts_timestamp = secs \<rparr>"

definition new_tuner :: "retry_config \<Rightarrow> int \<Rightarrow> u64 \<Rightarrow> tuner" where
  "new_tuner default_retry now secs =
     \<lparr> tu_avg_block_time = 12000, tu_last_check = now, tu_last_block_number = 0, tu_last_block_time = now,
       tu_trade_results = [], tu_config = default_tuner_config, tu_congestion = 50, tu_ai_threshold = None,
       tu_mempool = None, tu_monte = None, tu_equilibrium = None, tu_retry = default_retry,
       tu_tuning = default_tuning_config, tu_stats = default_stats secs \<rparr>"

definition with_monte_carlo_engine :: "monte_carlo \<Rightarrow> tuner \<Rightarrow> tuner" where
  "with_monte_carlo_engine e tu = tu\<lparr> tu_monte := Some e \<rparr>"

definition with_equilibrium_analyzer :: "equilibrium_analyzer \<Rightarrow> tuner \<Rightarrow> tuner" where
  "with_equilibrium_analyzer an tu = tu\<lparr> tu_equilibrium := Some an \<rparr>"

definition get_tuning_stats :: "tuner \<Rightarrow> tuning_stats" where
  "get_tuning_stats tu = tu_stats tu"

definition update_tuning_config :: "tuning_config \<Rightarrow> tuner \<Rightarrow> tuner" where
  "update_tuning_config c tu = tu\<lparr> tu_tuning := c \<rparr>"

section \<open>Congestion and retries\<close>

text \<open>\<open>price\<close> is the answer to the question for the gas price.\<close>

definition estimate_congestion_level :: "u256 option \<Rightarrow> f64 \<Rightarrow> u64 \<Rightarrow> u64 res" where
  "estimate_congestion_level price success_rate avg_block_time_ms =
     rbind (case price of Some p \<Rightarrow> as_u64 p | None \<Rightarrow> Inr 0) (\<lambda>gas_price.
       let block_time_factor =
             (if 12000 < avg_block_time_ms
              then f64_mul (f64_sub (f64_min (f64_div (f64_of_nat (unat avg_block_time_ms)) (Fin 12000)) (Fin 3)) (Fin 1)) (Fin 5)
              else Fin 0);
           gas_price_factor =
             (if 0 < gas_price
              then f64_mul (f64_max (f64_sub (f64_min (f64_div (f64_of_nat (unat gas_price)) (Fin 50000000000)) (Fin 5)) (Fin 1)) (Fin 0)) (Fin 2)
              else Fin 0);
           success_factor =
             (if f64_lt success_rate (Fin 80) then f64_div (f64_sub (Fin 80) success_rate) (Fin 8) else Fin 0);
           congestion = f64_min (f64_add (f64_add block_time_factor gas_price_factor) success_factor) (Fin 10)
       in Inr (of_nat (f64_as_uint (2 ^ 64) (f64_round congestion))))"

definition check_network_conditions ::
  "u64 option \<Rightarrow> int \<Rightarrow> u256 option \<Rightarrow> u256 option \<Rightarrow> f64 \<Rightarrow> tuner \<Rightarrow> (network_conditions \<times> tuner) res" where
  "check_network_conditions block now price price' success_rate tu =
     rbind
       (case block of
          None \<Rightarrow> Inr (default_conditions, tu)
        | Some bn \<Rightarrow>
            let passed = bn - tu_last_block_number tu
            in rbind
                 (if tu_last_block_number tu \<noteq> 0 \<and> 0 < passed then
                    let avg_time = of_int (now - tu_last_block_time tu) div passed;
                        new_avg = (tu_avg_block_time tu * 9 + avg_time) div 10
                    in rbind (estimate_congestion_level price success_rate new_avg) (\<lambda>level.
                         Inr (default_conditions\<lparr> nc_avg_block_time := new_avg, nc_congestion_level := level \<rparr>,
                              tu\<lparr> tu_avg_block_time := new_avg, tu_congestion := level \<rparr>))
                  else Inr (default_conditions, tu))
                 (\<lambda>(c, tu). Inr (c, tu\<lparr> tu_last_block_number := bn, tu_last_block_time := now \<rparr>)))
       (\<lambda>(c, tu).
          rbind (case price' of Some p \<Rightarrow> rbind (as_u64 p) (\<lambda>g. Inr (c\<lparr> nc_gas_price := g \<rparr>)) | None \<Rightarrow> Inr c)
            (\<lambda>c. Inr (c\<lparr> nc_retry_success_rate := success_rate \<rparr>, tu)))"

definition retry_for_level :: "u64 \<Rightarrow> retry_config \<Rightarrow> retry_config" where
  "retry_for_level level current =
     (if 1 \<le> level \<and> level \<le> 3 then
        \<lparr> rt_max_attempts = 3, rt_initial_backoff_ms = 1000, rt_max_backoff_ms = 30000, rt_backoff_multiplier = Fin 2,
          rt_jitter_factor = rnd (1 / 10) \<rparr>
      else if 4 \<le> level \<and> level \<le> 6 then
        \<lparr> rt_max_attempts = 5, rt_initial_backoff_ms = 2000, rt_max_backoff_ms = 60000, rt_backoff_multiplier = Fin 2,
          rt_jitter_factor = rnd (2 / 10) \<rparr>
      else if 7 \<le> level \<and> level \<le> 8 then
        \<lparr> rt_max_attempts = 8, rt_initial_backoff_ms = 3000, rt_max_backoff_ms = 120000, rt_backoff_multiplier = Fin (5 / 2),
          rt_jitter_factor = rnd (3 / 10) \<rparr>
      else if 9 \<le> level \<and> level \<le> 10 then
        \<lparr> rt_max_attempts = 10, rt_initial_backoff_ms = 5000, rt_max_backoff_ms = 180000, rt_backoff_multiplier = Fin 3,
          rt_jitter_factor = rnd (4 / 10) \<rparr>
      else current)"

definition adjust_retry_config :: "tuner \<Rightarrow> tuner" where
  "adjust_retry_config tu =
     (let c = tu_retry tu; n = retry_for_level (tu_congestion tu) c
      in if rt_max_attempts n \<noteq> rt_max_attempts c \<or> rt_initial_backoff_ms n \<noteq> rt_initial_backoff_ms c
            \<or> rt_max_backoff_ms n \<noteq> rt_max_backoff_ms c
            \<or> \<not> f64_eq (rt_backoff_multiplier n) (rt_backoff_multiplier c)
         then tu\<lparr> tu_retry := n \<rparr> else tu)"

section \<open>Performance and parameters\<close>

definition get_profit_usd :: "(string \<Rightarrow> f64 option) \<Rightarrow> trade_result \<Rightarrow> f64" where
  "get_profit_usd parse_f64 r =
     (case (tr_amount_out r, tr_price_per_token r) of
        (Some out, Some price) \<Rightarrow> (case parse_f64 out of Some amount \<Rightarrow> f64_mul amount price | None \<Rightarrow> Fin 0)
      | _ \<Rightarrow> Fin 0)"

definition get_gas_cost_usd :: "trade_result \<Rightarrow> f64" where
  "get_gas_cost_usd r =
     (case tr_gas_used r of
        None \<Rightarrow> Fin 0
      | Some g \<Rightarrow>
          let gas_price_gwei = f64_div (f64_of_nat (unat (tr_gas_price r))) (Fin 1000000000);
              gas_cost_eth = f64_div (f64_mul (f64_of_nat (unat g)) gas_price_gwei) (Fin 1000000000)
          in f64_mul gas_cost_eth (Fin 3000))"

definition analyze_current_performance :: "(string \<Rightarrow> f64 option) \<Rightarrow> tuner \<Rightarrow> string + f64" where
  "analyze_current_performance parse_f64 tu =
     (if length (tu_trade_results tu) < uc_min_results (tu_config tu) then Inl ''not enough trades''
      else
        let won = filter tr_success (tu_trade_results tu);
            total_profit = f64_sum (map (get_profit_usd parse_f64) won)
        in if won = [] then Inr (Fin 0)
           else Inr (f64_mul (f64_div total_profit (f64_of_nat (length won)))
                       (f64_add (Fin 1) (f64_div (f64_of_nat (unat (tu_congestion tu))) (Fin 10)))))"

definition new_threshold :: "tuning_config \<Rightarrow> f64 \<Rightarrow> f64 \<Rightarrow> f64" where
  "new_threshold c performance current =
     (let performance_factor = f64_max (f64_min performance (Fin 1)) (Fin 0);
          adjustment = f64_mul (tc_learning_rate c) performance_factor;
          clamped = f64_max (f64_min adjustment (tc_max_adjustment c)) (tc_min_adjustment c)
      in f64_max (f64_min (f64_mul current (f64_add (Fin 1) clamped)) (rnd (95 / 100))) (Fin (1 / 2)))"

definition new_simulations :: "f64 \<Rightarrow> u32 \<Rightarrow> u32" where
  "new_simulations performance current =
     (let performance_factor = f64_max (f64_min performance (Fin 1)) (Fin 0);
          factor = (if f64_lt (rnd (8 / 10)) performance_factor then rnd (9 / 10)
                    else if f64_lt performance_factor (rnd (3 / 10)) then rnd (12 / 10) else Fin 1);
          sims = of_nat (f64_as_uint (2 ^ 32) (f64_mul (f64_of_nat (unat current)) factor))
      in max (min sims 10000) 1000)"

text \<open>\<open>ai_ok\<close>: whether the AI module accepts a new threshold.\<close>

definition adjust_parameters :: "bool \<Rightarrow> f64 \<Rightarrow> tuner \<Rightarrow> bool \<times> tuner" where
  "adjust_parameters ai_ok performance tu =
     (if f64_lt performance (rnd (1 / 100)) then (False, tu)
      else if tu_ai_threshold tu \<noteq> None \<and> \<not> ai_ok then (False, tu)
      else
        let tu = tu\<lparr> tu_ai_threshold := map_option (new_threshold (tu_tuning tu) performance) (tu_ai_threshold tu) \<rparr>
        in (True, tu\<lparr> tu_monte := map_option (\<lambda>e. set_simulation_count (new_simulations performance (get_simulation_count e)) e)
                                   (tu_monte tu) \<rparr>))"

definition analyze_and_adjust ::
  "(string \<Rightarrow> f64 option) \<Rightarrow> bool \<Rightarrow> u64 \<Rightarrow> tuner \<Rightarrow> (string + unit) \<times> tuner" where
  "analyze_and_adjust parse_f64 ai_ok current_time tu =
     (if current_time - ts_timestamp (tu_stats tu) < tc_update_interval (tu_tuning tu) then (Inr (), tu)
      else
        (case analyze_current_performance parse_f64 tu of
           Inl e \<Rightarrow> (Inl e, tu)
         | Inr performance \<Rightarrow>
             (let (success, tu) = adjust_parameters ai_ok performance tu;
                  s = tu_stats tu;
                  s = s\<lparr> ts_total := ts_total s + 1 \<rparr>;
                  s = (if success then s\<lparr> ts_successful := ts_successful s + 1 \<rparr> else s\<lparr> ts_failed := ts_failed s + 1 \<rparr>);
                  average = f64_div (f64_add (f64_mul (ts_average_performance s) (f64_of_nat (unat (ts_total s - 1)))) performance)
                              (f64_of_nat (unat (ts_total s)))
              in (Inr (), tu\<lparr> tu_stats := s\<lparr> ts_average_performance := average, ts_timestamp := current_time \<rparr> \<rparr>))))"

section \<open>Results of trades\<close>

definition convert_trade_to_sandwich_result :: "trade_result \<Rightarrow> sandwich_result" where
  "convert_trade_to_sandwich_result r =
     \<lparr> sw_token_address = tr_token_address r,
       sw_victim_tx_hash = (case tr_victim_tx_hash r of None \<Rightarrow> [] | Some h \<Rightarrow> h),
       sw_front_tx_hash = tr_tx_hash r, sw_back_tx_hash = None, sw_success = tr_success r,
       sw_profit_usd = (case tr_profit_usd r of None \<Rightarrow> Fin 0 | Some p \<Rightarrow> p),
       sw_front_run_confirmation_time = 0, sw_total_execution_time = 0, sw_timestamp = tr_timestamp r,
       sw_profit = Fin 0, sw_front_run_gas_cost = Fin 0, sw_back_run_gas_cost = Fin 0, sw_execution_time = 0 \<rparr>"

definition adjust_sandwich_params :: "sandwich_result \<Rightarrow> tuner \<Rightarrow> preferred_params" where
  "adjust_sandwich_params r tu =
     \<lparr> pp_front_run_amount =
         (if f64_lt (f64_mul (Fin 2) (uc_min_sandwich_profit_usd (tu_config tu))) (sw_profit_usd r) then rnd (11 / 10) else Fin 1),
       pp_front_run_gas = (if 15000 < sw_front_run_confirmation_time r then rnd (115 / 100) else Fin 1),
       pp_back_run_gas = Fin 1, pp_use_flashbots = (7 < tu_congestion tu) \<rparr>"

definition monitor_ongoing :: "sandwich_result \<Rightarrow> tuner \<Rightarrow> tuner" where
  "monitor_ongoing r tu =
     (if sw_success r \<and> f64_lt (uc_min_sandwich_profit_usd (tu_config tu)) (sw_profit_usd r) then
        (case tu_mempool tu of
           None \<Rightarrow> tu
         | Some pending_swaps \<Rightarrow>
             (case pending_swaps (sw_token_address r) of
                None \<Rightarrow> tu
              | Some swaps \<Rightarrow>
                  if list_ex (\<lambda>(is_buy, usd). is_buy \<and> f64_le (uc_min_sandwich_victim_usd (tu_config tu)) usd) swaps
                  then tu\<lparr> tu_monte := map_option (\<lambda>e. e\<lparr> mc_preferred := Some (adjust_sandwich_params r tu) \<rparr>) (tu_monte tu) \<rparr>
                  else tu))
      else tu)"

definition report_trade_result ::
  "(string \<Rightarrow> f64 option) \<Rightarrow> bool \<Rightarrow> u64 \<Rightarrow> trade_result \<Rightarrow> tuner \<Rightarrow> (string + unit) \<times> tuner" where
  "report_trade_result parse_f64 ai_ok current_time r tu =
     (let results = tu_trade_results tu @ [r];
          tu = tu\<lparr> tu_trade_results := drop (length results - uc_max_history (tu_config tu)) results \<rparr>
      in case (if uc_min_results (tu_config tu) \<le> length (tu_trade_results tu)
               then analyze_and_adjust parse_f64 ai_ok current_time tu else (Inr (), tu)) of
           (Inl e, tu) \<Rightarrow> (Inl e, tu)
         | (Inr _, tu) \<Rightarrow>
             (Inr (), if tr_trade_type r = Sandwich then monitor_ongoing (convert_trade_to_sandwich_result r) tu else tu))"

record performance_metrics =
  pm_success_rate :: f64
  pm_avg_profit :: f64
  pm_ai_accuracy :: f64
  pm_avg_gas_cost :: f64
  pm_avg_execution_time :: f64
  pm_revert_rate :: f64

definition analyze_trade_performance :: "(string \<Rightarrow> f64 option) \<Rightarrow> tuner \<Rightarrow> performance_metrics" where
  "analyze_trade_performance parse_f64 tu =
     (let zero = \<lparr> pm_success_rate = Fin 0, pm_avg_profit = Fin 0, pm_ai_accuracy = Fin 0, pm_avg_gas_cost = Fin 0,
                   pm_avg_execution_time = Fin 0, pm_revert_rate = Fin 0 \<rparr>;
          rs = tu_trade_results tu
      in if rs = [] then zero
         else
           let won = filter tr_success rs; n = f64_of_nat (length rs)
           in zero\<lparr> pm_success_rate := f64_div (f64_of_nat (length won)) n,
                    pm_avg_profit := (if 0 < length won
                       then f64_div (f64_sum (map (get_profit_usd parse_f64) won)) (f64_of_nat (length won)) else Fin 0),
                    pm_ai_accuracy := f64_div (f64_of_nat (length won)) n,
                    pm_avg_gas_cost := f64_div (f64_sum (map get_gas_cost_usd rs)) n \<rparr>)"

section \<open>The service\<close>

text \<open>One turn of the service's loop, five seconds after the last one: at most once a minute it looks at the
  network, adjusts the retries, and, when enabled, tunes; a failure to tune is only logged.\<close>

definition tick ::
  "u64 option \<Rightarrow> u256 option \<Rightarrow> u256 option \<Rightarrow> f64 \<Rightarrow> (string \<Rightarrow> f64 option) \<Rightarrow> bool \<Rightarrow> int \<Rightarrow> u64 \<Rightarrow> tuner \<Rightarrow> tuner res" where
  "tick block price price' success_rate parse_f64 ai_ok now secs tu =
     (if 60000 \<le> now - tu_last_check tu then
        rbind (check_network_conditions block now price price' success_rate tu) (\<lambda>(_, tu).
          let tu = (adjust_retry_config tu)\<lparr> tu_last_check := now \<rparr>
          in Inr (if tc_enabled (tu_tuning tu) then snd (analyze_and_adjust parse_f64 ai_ok secs tu) else tu))
      else Inr tu)"

definition tuner_analyze_equilibrium ::
  "h160 list \<Rightarrow> h160 list \<Rightarrow> (h160 \<Rightarrow> f64) \<Rightarrow> (string \<Rightarrow> h160 option) \<Rightarrow> string \<Rightarrow> tuner \<Rightarrow> string + game_outcome" where
  "tuner_analyze_equilibrium ks us draw parse_address token_address tu =
     (case tu_equilibrium tu of
        None \<Rightarrow> Inl ''Equilibrium analyzer not configured''
      | Some an \<Rightarrow>
          (case parse_address token_address of
             None \<Rightarrow> Inl ''token address''
           | Some a \<Rightarrow> analyze_equilibrium ks us draw token_address [a] an))"

definition suggest_game_strategy :: "(string \<Rightarrow> h160 option) \<Rightarrow> string \<Rightarrow> string \<Rightarrow> tuner \<Rightarrow> string + strategy" where
  "suggest_game_strategy parse_address token_address player_address tu =
     (case tu_equilibrium tu of
        None \<Rightarrow> Inl ''Equilibrium analyzer not configured''
      | Some an \<Rightarrow>
          (case parse_address player_address of
             None \<Rightarrow> Inl ''player address''
           | Some a \<Rightarrow> suggest_strategy token_address a an))"

section \<open>Lemmas\<close>

lemma round_away_mono_le: "q \<le> of_int k \<Longrightarrow> round_away q \<le> k"
  by (auto simp: round_away_def) linarith+

text \<open>The estimate is at most ten, whatever the provider answers, \<open>NaN\<close> included.\<close>

lemma congestion_bounded:
  assumes "estimate_congestion_level price s avg = Inr level"
  shows "level \<le> 10"
proof -
  have "f64_as_uint (2 ^ 64) (f64_round (Fin q)) \<le> 10" if "q \<le> 10" for q
    using round_away_mono_le [of q 10] that by (simp add: f64_as_uint_def min_le_iff_disj nat_le_iff)
  moreover have "f64_as_uint (2 ^ 64) (f64_round Neg_inf) \<le> 10" by (simp add: f64_as_uint_def)
  ultimately have "f64_as_uint (2 ^ 64) (f64_round (f64_min x (Fin 10))) \<le> 10" for x
    by (cases x) (simp_all add: f64_min_def del: f64_round.simps)
  with assms obtain n where "n \<le> 10" "level = of_nat n"
    by (auto simp: estimate_congestion_level_def Let_def rbind_eq_Inr)
  then show ?thesis by (simp add: word_le_nat_alt unsigned_of_nat take_bit_nat_eq_self)
qed

lemma calm_level:
  assumes "avg \<le> 12000" and "\<forall>p. price = Some p \<longrightarrow> p \<le> 50000000000" and "f64_le (Fin 80) s"
  shows "estimate_congestion_level price s avg = Inr 0"
proof -
  obtain g :: u64 where g: "(case price of Some p \<Rightarrow> as_u64 p | None \<Rightarrow> Inr 0) = Inr g" "unat g \<le> 50000000000"
  proof (cases price)
    case None
    then show ?thesis using that by simp
  next
    case (Some p)
    with assms(2) have le: "unat p \<le> 50000000000" by (simp add: word_le_nat_alt)
    then have "as_u64 p = Inr (ucast p)" "unat (ucast p :: u64) = unat p"
      by (simp_all add: as_u64_def unsigned_ucast_eq take_bit_nat_eq_self)
    with Some le show ?thesis using that [of "ucast p"] by simp
  qed
  define q where "q = rat_of_nat (unat g) / 50000000000"
  have "rat_of_nat (unat g) \<le> 50000000000" using g(2) by (metis of_nat_le_iff of_nat_numeral)
  then have "q \<le> 1" unfolding q_def by simp
  moreover have "0 \<le> q" unfolding q_def by (rule divide_nonneg_nonneg [OF of_nat_0_le_iff]) simp
  ultimately have "0 \<le> q" "q \<le> 1" by simp_all
  from rnd_between [OF this] rnd_small obtain r where r: "rnd q = Fin r" "0 \<le> r" "r \<le> 1" by blast
  have "f64_of_nat (unat g) = Fin (of_nat (unat g))" using g(2) by (intro f64_of_nat_small) simp
  then have ratio: "f64_div (f64_of_nat (unat g)) (Fin 50000000000) = Fin r" using r(1) by (simp add: q_def)
  have one: "rnd (- 1) = Fin (- 1)" using rnd_of_int [of "- 1"] by simp
  from rnd_between [of "- 1" "r - 1" 0] r(2,3) one rnd_small(1) obtain t where t: "rnd (r - 1) = Fin t" "t \<le> 0" by auto
  have zero: "f64_mul (f64_max (f64_sub (f64_min (f64_div (f64_of_nat (unat g)) (Fin 50000000000)) (Fin 5)) (Fin 1)) (Fin 0)) (Fin 2) = Fin 0"
    unfolding ratio using t r(3) by (auto simp: f64_min_def f64_sub_def f64_max_def rnd_small)
  have s: "\<not> f64_lt s (Fin 80)" using assms(3) by (cases s) (auto simp: f64_le_def)
  have avg: "\<not> 12000 < avg" using assms(1) by simp
  have "f64_round (f64_min (f64_add (f64_add (Fin 0) (Fin 0)) (Fin 0)) (Fin 10)) = Fin 0"
    by (simp add: rnd_small f64_min_def round_away_def floor_eq_iff)
  moreover have "f64_as_uint (2 ^ 64) (Fin 0) = 0" by (simp add: f64_as_uint_def)
  moreover have "(if 0 < g then f64_mul (f64_max (f64_sub (f64_min (f64_div (f64_of_nat (unat g)) (Fin 50000000000)) (Fin 5)) (Fin 1)) (Fin 0)) (Fin 2)
      else Fin 0) = Fin 0" using zero by (simp only: if_cancel)
  ultimately show ?thesis
    unfolding estimate_congestion_level_def g(1) Let_def rbind_simps if_not_P [OF avg] if_not_P [OF s] by simp
qed

lemma new_simulations_bounds: "1000 \<le> new_simulations p n \<and> new_simulations p n \<le> 10000"
  by (auto simp: new_simulations_def Let_def max_def min_def)

lemma new_threshold_bounds:
  "\<exists>t. new_threshold c p current = Fin t \<and> 1 / 2 \<le> t \<and> t \<le> 1"
proof -
  from rnd_between [of "1 / 2" "95 / 100" 1] rnd_small(2,3) obtain hi where hi: "rnd (95 / 100) = Fin hi" "1 / 2 \<le> hi" "hi \<le> 1" by auto
  from f64_clamped [OF hi(2)] hi(3) show ?thesis
    unfolding new_threshold_def Let_def hi(1) by (metis order_trans)
qed

text \<open>The retry settings a tuner can come to.\<close>

definition retry_settings :: "retry_config \<Rightarrow> retry_config set" where
  "retry_settings d = insert d ((\<lambda>l. retry_for_level l d) ` {1, 4, 7, 9})"

lemma retry_for_level_settings: "c \<in> retry_settings d \<Longrightarrow> retry_for_level l c \<in> retry_settings d"
  unfolding retry_settings_def by (auto simp: retry_for_level_def)

lemma adjust_retry_frame:
  "tu_retry tu \<in> retry_settings d \<Longrightarrow> tu_retry (adjust_retry_config tu) \<in> retry_settings d"
  "adjust_retry_config tu = tu\<lparr> tu_retry := tu_retry (adjust_retry_config tu) \<rparr>"
  using retry_for_level_settings [of "tu_retry tu" d "tu_congestion tu"] by (simp_all add: adjust_retry_config_def Let_def)

lemma check_frame:
  assumes "check_network_conditions block now price price' s tu = Inr (c, tu')"
  shows "tu' = tu\<lparr> tu_avg_block_time := tu_avg_block_time tu', tu_congestion := tu_congestion tu',
      tu_last_block_number := tu_last_block_number tu', tu_last_block_time := tu_last_block_time tu' \<rparr>
    \<and> (tu_congestion tu' \<le> 10 \<or> tu_congestion tu' = tu_congestion tu)"
  using assms congestion_bounded
  by (auto simp: check_network_conditions_def rbind_eq_Inr Let_def split: option.splits if_splits)

lemma adjust_parameters_frame:
  "adjust_parameters ok p tu = (b, tu') \<Longrightarrow>
     tu' = tu\<lparr> tu_ai_threshold := tu_ai_threshold tu', tu_monte := tu_monte tu' \<rparr>
     \<and> (tu_ai_threshold tu = None \<longrightarrow> tu_ai_threshold tu' = None) \<and> tu_stats tu' = tu_stats tu"
  by (auto simp: adjust_parameters_def Let_def split: if_splits)

lemma analyze_frame:
  fixes tu parse ok secs
  defines "tu' \<equiv> snd (analyze_and_adjust parse ok secs tu)"
  shows "tu' = tu\<lparr> tu_ai_threshold := tu_ai_threshold tu', tu_monte := tu_monte tu', tu_stats := tu_stats tu' \<rparr>
     \<and> (tu_ai_threshold tu = None \<longrightarrow> tu_ai_threshold tu' = None)
     \<and> (ts_total (tu_stats tu) = ts_successful (tu_stats tu) + ts_failed (tu_stats tu) \<longrightarrow>
        ts_total (tu_stats tu') = ts_successful (tu_stats tu') + ts_failed (tu_stats tu'))"
proof (cases "secs - ts_timestamp (tu_stats tu) < tc_update_interval (tu_tuning tu)
    \<or> (\<exists>e. analyze_current_performance parse tu = Inl e)")
  case True
  then show ?thesis by (auto simp: tu'_def analyze_and_adjust_def)
next
  case False
  then obtain p where p: "analyze_current_performance parse tu = Inr p" by (cases "analyze_current_performance parse tu") auto
  obtain b tu1 where b: "adjust_parameters ok p tu = (b, tu1)" by fastforce
  from adjust_parameters_frame [OF this] obtain a m where t: "tu1 = tu\<lparr> tu_ai_threshold := a, tu_monte := m \<rparr>"
    "tu_ai_threshold tu = None \<longrightarrow> a = None" by metis
  show ?thesis
    using False t(2) unfolding tu'_def by (simp add: analyze_and_adjust_def p b t(1) Let_def)
qed

text \<open>The states of a tuner. No method sets its AI module or its mempool tracker.\<close>

inductive tuner_reachable :: "retry_config \<Rightarrow> tuner \<Rightarrow> bool" for d where
  tuner_new: "tuner_reachable d (new_tuner d now secs)"
| tuner_tick: "tuner_reachable d tu \<Longrightarrow> tick block price price' s parse ok now secs tu = Inr tu' \<Longrightarrow> tuner_reachable d tu'"
| tuner_report: "tuner_reachable d tu \<Longrightarrow> tuner_reachable d (snd (report_trade_result parse ok secs r tu))"
| tuner_engine: "tuner_reachable d tu \<Longrightarrow> tuner_reachable d (with_monte_carlo_engine e tu)"
| tuner_analyzer: "tuner_reachable d tu \<Longrightarrow> tuner_reachable d (with_equilibrium_analyzer an tu)"
| tuner_configure: "tuner_reachable d tu \<Longrightarrow> tuner_reachable d (update_tuning_config c tu)"

definition tuner_ok :: "retry_config \<Rightarrow> tuner \<Rightarrow> bool" where
  "tuner_ok d tu \<longleftrightarrow>
     ts_total (tu_stats tu) = ts_successful (tu_stats tu) + ts_failed (tu_stats tu)
     \<and> tu_config tu = default_tuner_config \<and> length (tu_trade_results tu) \<le> 50
     \<and> (tu_congestion tu \<le> 10 \<or> tu_congestion tu = 50) \<and> tu_retry tu \<in> retry_settings d
     \<and> tu_ai_threshold tu = None \<and> tu_mempool tu = None"

lemma analyze_ok: "tuner_ok d tu \<Longrightarrow> tuner_ok d (snd (analyze_and_adjust parse ok secs tu))"
  using analyze_frame [of parse ok secs tu] unfolding tuner_ok_def
  by (cases "snd (analyze_and_adjust parse ok secs tu)", cases tu) simp

lemma monitor_ok: "tuner_ok d tu \<Longrightarrow> monitor_ongoing r tu = tu"
  by (simp add: tuner_ok_def monitor_ongoing_def)

lemma report_ok:
  assumes "tuner_ok d tu"
  shows "tuner_ok d (snd (report_trade_result parse ok secs r tu))"
proof -
  let ?rs = "tu_trade_results tu @ [r]"
  let ?tu = "tu\<lparr> tu_trade_results := drop (length ?rs - uc_max_history (tu_config tu)) ?rs \<rparr>"
  from assms have ok: "tuner_ok d ?tu" by (auto simp: tuner_ok_def default_tuner_config_def)
  from analyze_ok [OF this, of parse ok secs] monitor_ok ok show ?thesis
    by (auto simp: report_trade_result_def Let_def split: prod.splits sum.splits if_splits)
qed

lemma tick_ok:
  assumes "tuner_ok d tu" and "tick block price price' s parse ok now secs tu = Inr tu'"
  shows "tuner_ok d tu'"
proof (cases "60000 \<le> now - tu_last_check tu")
  case True
  with assms(2) obtain c tu1 where c: "check_network_conditions block now price price' s tu = Inr (c, tu1)"
    and tu': "tu' = (let t = (adjust_retry_config tu1)\<lparr> tu_last_check := now \<rparr>
                     in if tc_enabled (tu_tuning t) then snd (analyze_and_adjust parse ok secs t) else t)"
    by (auto simp: tick_def rbind_eq_Inr Let_def)
  from check_frame [OF c] assms(1) have "tuner_ok d tu1" unfolding tuner_ok_def by (cases tu1, cases tu) auto
  with adjust_retry_frame(1) [of tu1 d] adjust_retry_frame(2) [of tu1] have "tuner_ok d ((adjust_retry_config tu1)\<lparr> tu_last_check := now \<rparr>)"
    unfolding tuner_ok_def by (cases "adjust_retry_config tu1", cases tu1) auto
  with analyze_ok tu' show ?thesis by (simp add: Let_def)
next
  case False
  with assms show ?thesis by (simp add: tick_def)
qed

lemma tuner_reachable_ok: "tuner_reachable d tu \<Longrightarrow> tuner_ok d tu"
proof (induction rule: tuner_reachable.induct)
  case tuner_new
  show ?case
    by (simp add: tuner_ok_def new_tuner_def default_stats_def retry_settings_def)
next
  case tuner_tick then show ?case by (blast intro: tick_ok)
next
  case tuner_report then show ?case by (blast intro: report_ok)
qed (simp_all add: tuner_ok_def with_monte_carlo_engine_def with_equilibrium_analyzer_def update_tuning_config_def)

lemma calm_check:
  assumes "check_network_conditions (Some bn) now price price' s tu = Inr (c, tu')"
    and "tu_last_block_number tu \<noteq> 0" and "bn \<noteq> tu_last_block_number tu"
  shows "estimate_congestion_level price s (nc_avg_block_time c) = Inr (tu_congestion tu')"
proof -
  from assms(3) have "0 < bn - tu_last_block_number tu" by (simp add: word_gt_0)
  with assms(1,2) show ?thesis
    by (auto simp: check_network_conditions_def rbind_eq_Inr Let_def split: option.splits)
qed

section \<open>Properties\<close>

text \<open>C12. In every state a tuner can come to, its counts of adjustments add up, at most 50 results are kept, the
  congestion is on its scale of ten (or the initial 50, which is not), and the retry settings are the
  default or one of the four presets. The AI module and the mempool tracker are never there, so neither
  the threshold nor a follow-up sandwich is ever tuned.\<close>

theorem tuner_invariant:
  assumes "tuner_reachable d tu"
  shows "ts_total (tu_stats tu) = ts_successful (tu_stats tu) + ts_failed (tu_stats tu)
    \<and> length (tu_trade_results tu) \<le> 50 \<and> (tu_congestion tu \<le> 10 \<or> tu_congestion tu = 50)
    \<and> tu_retry tu \<in> insert d ((\<lambda>l. retry_for_level l d) ` {1, 4, 7, 9})
    \<and> tu_ai_threshold tu = None \<and> monitor_ongoing r tu = tu"
  using tuner_reachable_ok [OF assms] monitor_ok [OF tuner_reachable_ok [OF assms]]
  by (simp add: tuner_ok_def retry_settings_def)

definition demo_retry :: retry_config where
  "demo_retry =
     \<lparr> rt_max_attempts = 4, rt_initial_backoff_ms = 100, rt_max_backoff_ms = 1000, rt_backoff_multiplier = Fin 2, rt_jitter_factor = Fin 0 \<rparr>"

definition demo_trade :: trade_result where
  "demo_trade =
     \<lparr> tr_success = True, tr_tx_hash = None, tr_amount_in = ''1'', tr_amount_out = None, tr_price_per_token = None,
       tr_gas_used = None, tr_gas_price = 0, tr_timestamp = 0, tr_error = None, tr_trade_type = Sandwich,
       tr_token_address = ''t'', tr_victim_tx_hash = None, tr_profit_usd = Some (Fin 100), tr_gas_cost_usd = None \<rparr>"

theorem tuner_invariant_witness:
  "monitor_ongoing (convert_trade_to_sandwich_result demo_trade)
     (snd (report_trade_result (\<lambda>_. None) True 7200 demo_trade (with_monte_carlo_engine new_monte_carlo (new_tuner demo_retry 0 0)))) =
   snd (report_trade_result (\<lambda>_. None) True 7200 demo_trade (with_monte_carlo_engine new_monte_carlo (new_tuner demo_retry 0 0)))"
proof -
  have "tuner_reachable demo_retry (snd (report_trade_result (\<lambda>_. None) True 7200 demo_trade
          (with_monte_carlo_engine new_monte_carlo (new_tuner demo_retry 0 0))))"
    by (intro tuner_report tuner_engine tuner_new)
  from tuner_invariant [OF this, of "convert_trade_to_sandwich_result demo_trade"] show ?thesis by blast
qed

text \<open>When the network is calm (blocks in at most 12 seconds on average, gas at most 50 gwei, at least 80
  percent of the retries successful) the level is zero, for which there is no preset: the retry settings
  stay what they were, be it those of a severe congestion.\<close>

lemma calm_keeps_retry_settings:
  assumes "check_network_conditions (Some bn) now price price' s tu = Inr (c, tu')"
    and "tu_last_block_number tu \<noteq> 0" and "bn \<noteq> tu_last_block_number tu"
    and "nc_avg_block_time c \<le> 12000" and "\<forall>p. price = Some p \<longrightarrow> p \<le> 50000000000" and "f64_le (Fin 80) s"
  shows "tu_congestion tu' = 0 \<and> tu_retry (adjust_retry_config tu') = tu_retry tu"
proof -
  from calm_check [OF assms(1-3)] calm_level [OF assms(4-6)] have "tu_congestion tu' = 0" by simp
  moreover from check_frame [OF assms(1)] have "tu_retry tu' = tu_retry tu" by (cases tu', cases tu) auto
  ultimately show ?thesis by (simp add: adjust_retry_config_def retry_for_level_def Let_def)
qed

definition congested_tuner :: tuner where
  "congested_tuner = (new_tuner demo_retry 0 0)\<lparr> tu_last_block_number := 100, tu_retry := retry_for_level 9 demo_retry \<rparr>"

end
