(* ===== verification/ChainConfigs.thy ===== *)
theory ChainConfigs
  imports FloatArith NonceManager Texts
begin

text \<open>
  The configurations of the EVM chains: \<open>ChainConfig\<close> of \<^verbatim>\<open>snipebot/src/chain_adapters/base.rs\<close> and the
  tables of \<^verbatim>\<open>configs.rs\<close>. A decimal literal is the double nearest to it.
\<close>

record evm_config =
  cf_name :: string
  cf_chain_id :: u64
  cf_rpc_url :: string
  cf_native_symbol :: string
  cf_wrapped_native_token :: string
  cf_router_address :: string
  cf_factory_address :: string
  cf_explorer_url :: string
  cf_block_time :: u64
  cf_default_gas_limit :: u64
  cf_default_gas_price :: f64
  cf_eip1559_supported :: bool
  cf_max_priority_fee :: "f64 option"
  cf_eth_to_token_swap_fn :: string
  cf_token_to_eth_swap_fn :: string

section \<open>The table\<close>

definition ethereum_config :: evm_config where
  "ethereum_config =
     \<lparr> cf_name = ''Ethereum'', cf_chain_id = 1,
       cf_rpc_url = ''https://mainnet.infura.io/v3/9aa3d95b3bc440fa88ea12eaa4456161'',
       cf_native_symbol = ''ETH'',
       cf_wrapped_native_token = ''0xC02aaA39b223FE8D0A0e5C4F27eAD9083C756Cc2'',
       cf_router_address = ''0x7a250d5630B4cF539739dF2C5dAcb4c659F2488D'',
       cf_factory_address = ''0x5C69bEe701ef814a2B6a3EDD4B1652CB9cc5aA6f'',
       cf_explorer_url = ''https://etherscan.io'', cf_block_time = 12000,
       cf_default_gas_limit = 250000, cf_default_gas_price = Fin 20, cf_eip1559_supported = True,
       cf_max_priority_fee = Some (rnd (15 / 10)),
       cf_eth_to_token_swap_fn = ''swapExactETHForTokens'',
       cf_token_to_eth_swap_fn = ''swapExactTokensForETH'' \<rparr>"

definition bsc_config :: evm_config where
  "bsc_config =
     \<lparr> cf_name = ''Binance Smart Chain'', cf_chain_id = 56,
       cf_rpc_url = ''https://bsc-dataseed.binance.org'', cf_native_symbol = ''BNB'',
       cf_wrapped_native_token = ''0xbb4CdB9CBd36B01bD1cBaEBF2De08d9173bc095c'',
       cf_router_address = ''0x10ED43C718714eb63d5aA57B78B54704E256024E'',
       cf_factory_address = ''0xcA143Ce32Fe78f1f7019d7d551a6402fC5350c73'',
       cf_explorer_url = ''https://bscscan.com'', cf_block_time = 3000,
       cf_default_gas_limit = 300000, cf_default_gas_price = Fin 5, cf_eip1559_supported = False,
       cf_max_priority_fee = None, cf_eth_to_token_swap_fn = ''swapExactETHForTokens'',
       cf_token_to_eth_swap_fn = ''swapExactTokensForETH'' \<rparr>"

definition avalanche_config :: evm_config where
  "avalanche_config =
     \<lparr> cf_name = ''Avalanche'', cf_chain_id = 43114,
       cf_rpc_url = ''https://api.avax.network/ext/bc/C/rpc'', cf_native_symbol = ''AVAX'',
       cf_wrapped_native_token = ''0xB31f66AA3C1e785363F0875A1B74E27b85FD66c7'',
       cf_router_address = ''0x60aE616a2155Ee3d9A68541Ba4544862310933d4'',
       cf_factory_address = ''0x9Ad6C38BE94206cA50bb0d90783181662f0Cfa10'',
       cf_explorer_url = ''https://snowtrace.io'', cf_block_time = 2000,
       cf_default_gas_limit = 300000, cf_default_gas_price = Fin 25, cf_eip1559_supported = True,
       cf_max_priority_fee = Some (Fin 2), cf_eth_to_token_swap_fn = ''swapExactAVAXForTokens'',
       cf_token_to_eth_swap_fn = ''swapExactTokensForAVAX'' \<rparr>"

definition base_config :: evm_config where
  "base_config =
     \<lparr> cf_name = ''Base'', cf_chain_id = 8453, cf_rpc_url = ''https://mainnet.base.org'',
       cf_native_symbol = ''ETH'',
       cf_wrapped_native_token = ''0x4200000000000000000000000000000000000006'',
       cf_router_address = ''0xfCA736a42EE6f1BF35afDeFa3B262a4B0C4D3E6e'',
       cf_factory_address = ''0xFDa619b6d20975be80A10332cD39b9a4b0FAa8BB'',
       cf_explorer_url = ''https://basescan.org'', cf_block_time = 2000,
       cf_default_gas_limit = 300000, cf_default_gas_price = Fin 1, cf_eip1559_supported = True,
       cf_max_priority_fee = Some (rnd (5 / 10)),
       cf_eth_to_token_swap_fn = ''swapExactETHForTokens'',
       cf_token_to_eth_swap_fn = ''swapExactTokensForETH'' \<rparr>"

definition arbitrum_config :: evm_config where
  "arbitrum_config =
     \<lparr> cf_name = ''Arbitrum'', cf_chain_id = 42161, cf_rpc_url = ''https://arb1.arbitrum.io/rpc'',
       cf_native_symbol = ''ETH'',
       cf_wrapped_native_token = ''0x82aF49447D8a07e3bd95BD0d56f35241523fBab1'',
       cf_router_address = ''0x1b02dA8Cb0d097eB8D57A175b88c7D8b47997506'',
       cf_factory_address = ''0xc35DADB65012eC5796536bD9864eD8773aBc74C4'',
       cf_explorer_url = ''https://arbiscan.io'', cf_block_time = 500,
       cf_default_gas_limit = 1000000, cf_default_gas_price = rnd (1 / 10),
       cf_eip1559_supported = True, cf_max_priority_fee = Some (rnd (5 / 100)),
       cf_eth_to_token_swap_fn = ''swapExactETHForTokens'',
       cf_token_to_eth_swap_fn = ''swapExactTokensForETH'' \<rparr>"

definition optimism_config :: evm_config where
  "optimism_config =
     \<lparr> cf_name = ''Optimism'', cf_chain_id = 10, cf_rpc_url = ''https://mainnet.optimism.io'',
       cf_native_symbol = ''ETH'',
       cf_wrapped_native_token = ''0x4200000000000000000000000000000000000006'',
       cf_router_address = ''0x9c12939390052919aF3155f41Bf4160Fd3666A6f'',
       cf_factory_address = ''0x25CbdDb98b35ab1FF77413456B31EC81A6B6B746'',
       cf_explorer_url = ''https://optimistic.etherscan.io'', cf_block_time = 2000,
       cf_default_gas_limit = 1000000, cf_default_gas_price = rnd (1 / 1000),
       cf_eip1559_supported = True, cf_max_priority_fee = Some (rnd (5 / 10000)),
       cf_eth_to_token_swap_fn = ''swapExactETHForTokens'',
       cf_token_to_eth_swap_fn = ''swapExactTokensForETH'' \<rparr>"

definition polygon_config :: evm_config where
  "polygon_config =
     \<lparr> cf_name = ''Polygon'', cf_chain_id = 137, cf_rpc_url = ''https://polygon-rpc.com'',
       cf_native_symbol = ''MATIC'',
       cf_wrapped_native_token = ''0x0d500B1d8E8eF31E21C99d1Db9A6444d3ADf1270'',
       cf_router_address = ''0xa5E0829CaCEd8fFDD4De3c43696c57F7D7A678ff'',
       cf_factory_address = ''0x5757371414417b8C6CAad45bAeF941aBc7d3Ab32'',
       cf_explorer_url = ''https://polygonscan.com'', cf_block_time = 2000,
       cf_default_gas_limit = 500000, cf_default_gas_price = Fin 50, cf_eip1559_supported = True,
       cf_max_priority_fee = Some (Fin 30), cf_eth_to_token_swap_fn = ''swapExactETHForTokens'',
       cf_token_to_eth_swap_fn = ''swapExactTokensForETH'' \<rparr>"

definition monad_config :: evm_config where
  "monad_config =
     \<lparr> cf_name = ''Monad'', cf_chain_id = 1284, cf_rpc_url = ''https://rpc.monad.xyz'',
       cf_native_symbol = ''MONAD'',
       cf_wrapped_native_token = ''0x2C1b868d6596a18e32E61B901E4060C872647b6C'',
       cf_router_address = ''0x7a250d5630B4cF539739dF2C5dAcb4c659F2488D'',
       cf_factory_address = ''0x5C69bEe701ef814a2B6a3EDD4B1652CB9cc5aA6f'',
       cf_explorer_url = ''https://explorer.monad.xyz'', cf_block_time = 1000,
       cf_default_gas_limit = 300000, cf_default_gas_price = rnd (1 / 10),
       cf_eip1559_supported = True, cf_max_priority_fee = Some (rnd (5 / 100)),
       cf_eth_to_token_swap_fn = ''swapExactETHForTokens'',
       cf_token_to_eth_swap_fn = ''swapExactTokensForETH'' \<rparr>"

text \<open>The hash map the table is stored in; its keys are distinct.\<close>

definition CHAIN_CONFIGS :: "(string \<times> evm_config) list" where
  "CHAIN_CONFIGS =
     [(''ethereum'', ethereum_config),
      (''bsc'', bsc_config),
      (''avalanche'', avalanche_config),
      (''base'', base_config),
      (''arbitrum'', arbitrum_config),
      (''optimism'', optimism_config),
      (''polygon'', polygon_config),
      (''monad'', monad_config)]"

definition get_chain_config :: "string \<Rightarrow> evm_config option" where
  "get_chain_config chain_name = map_of CHAIN_CONFIGS (lower chain_name)"

text \<open>The keys, in an order the hash map does not fix.\<close>

definition get_supported_chains :: "string set" where
  "get_supported_chains = fst ` set CHAIN_CONFIGS"

definition create_custom_chain_config ::
  "string \<Rightarrow> u64 \<Rightarrow> string \<Rightarrow> string \<Rightarrow> string \<Rightarrow> string \<Rightarrow> string \<Rightarrow> string \<Rightarrow> bool \<Rightarrow> string \<Rightarrow> string \<Rightarrow> evm_config" where
  "create_custom_chain_config name chain_id rpc_url native_symbol wrapped_native_token router_address
     factory_address explorer_url eip1559_supported eth_to_token_swap_fn token_to_eth_swap_fn =
     \<lparr> cf_name = name, cf_chain_id = chain_id, cf_rpc_url = rpc_url, cf_native_symbol = native_symbol,
       cf_wrapped_native_token = wrapped_native_token, cf_router_address = router_address,
       cf_factory_address = factory_address, cf_explorer_url = explorer_url, cf_block_time = 12000,
       cf_default_gas_limit = 300000, cf_default_gas_price = Fin 10,
       cf_eip1559_supported = eip1559_supported,
       cf_max_priority_fee = (if eip1559_supported then Some (Fin 1) else None),
       cf_eth_to_token_swap_fn = eth_to_token_swap_fn, cf_token_to_eth_swap_fn = token_to_eth_swap_fn \<rparr>"

section \<open>Lemmas\<close>

lemmas chain_config_defs = ethereum_config_def bsc_config_def avalanche_config_def base_config_def arbitrum_config_def optimism_config_def polygon_config_def monad_config_def

lemma chain_table_keys:
  "get_chain_config name = Some c \<Longrightarrow> lower name \<in> get_supported_chains"
  by (force simp: get_chain_config_def get_supported_chains_def dest: map_of_SomeD)

text \<open>The chain ids of the table are pairwise distinct.\<close>

lemma chain_ids_distinct: "distinct (map (cf_chain_id \<circ> snd) CHAIN_CONFIGS)"
  by (simp add: CHAIN_CONFIGS_def chain_config_defs)

text \<open>A chain with EIP-1559 has a priority fee, and only such a chain has one.\<close>

definition fees_ok :: "evm_config \<Rightarrow> bool" where
  "fees_ok c \<longleftrightarrow> (cf_max_priority_fee c \<noteq> None) = cf_eip1559_supported c"

lemma custom_fees_ok:
  "fees_ok (create_custom_chain_config a b c d e f g h i j k)"
  by (simp add: fees_ok_def create_custom_chain_config_def)

lemma table_fees_ok: "list_all (fees_ok \<circ> snd) CHAIN_CONFIGS"
  by (simp add: fees_ok_def CHAIN_CONFIGS_def chain_config_defs)

text \<open>No configuration has a name that selects the relay of the Binance chain.\<close>

lemma no_bsc_name: "list_all (\<lambda>(k, c). cf_name c \<noteq> ''BSC'') CHAIN_CONFIGS"
  by (simp add: CHAIN_CONFIGS_def chain_config_defs)

end
