(* ===== verification/EvmAdapters.thy ===== *)
theory EvmAdapters
  imports ChainConfigs Retry Caches
begin

text \<open>
  The adapter shared by the EVM chains, \<^verbatim>\<open>snipebot/src/chain_adapters/base.rs\<close>, over the contract
  interfaces of \<^verbatim>\<open>blockchain/src/abi/\<close>. The ethers library and the node are parameters: how an
  address is read and printed, whether a call can be encoded, and what the node answers.
\<close>

section \<open>Contract interfaces\<close>

datatype abi_type = Uint256 | Address_type | Address_array

type_synonym abi_function = "string \<times> abi_type list"
type_synonym abi = "abi_function list"

text \<open>The functions of \<^verbatim>\<open>router.json\<close>, \<^verbatim>\<open>erc20.json\<close>, \<^verbatim>\<open>factory.json\<close> and \<^verbatim>\<open>pair.json\<close> with the types of their inputs.\<close>

definition router_json :: abi where
  "router_json =
     [(''WETH'', []),
      (''addLiquidity'', [Address_type, Address_type, Uint256, Uint256, Uint256, Uint256, Address_type, Uint256]),
      (''swapExactETHForTokens'', [Uint256, Address_array, Address_type, Uint256]),
      (''swapExactETHForTokensSupportingFeeOnTransferTokens'', [Uint256, Address_array, Address_type, Uint256]),
      (''getAmountsOut'', [Uint256, Address_array])]"

definition erc20_json :: abi where
  "erc20_json =
     [(''name'', []), (''symbol'', []), (''decimals'', []), (''totalSupply'', []),
      (''balanceOf'', [Address_type]), (''transfer'', [Address_type, Uint256]),
      (''allowance'', [Address_type, Address_type]), (''approve'', [Address_type, Uint256])]"

definition factory_json :: abi where
  "factory_json =
     [(''allPairs'', [Uint256]), (''allPairsLength'', []), (''createPair'', [Address_type, Address_type]),
      (''feeTo'', []), (''feeToSetter'', []), (''getPair'', [Address_type, Address_type]),
      (''setFeeTo'', [Address_type]), (''setFeeToSetter'', [Address_type])]"

definition pair_json :: abi where
  "pair_json = [(''getReserves'', []), (''token0'', []), (''token1'', [])]"

datatype abi_file = Router_file | Factory_file | Erc20_file | Pair_file

fun file_abi :: "abi_file \<Rightarrow> abi" where
  "file_abi Router_file = router_json"
| "file_abi Factory_file = factory_json"
| "file_abi Erc20_file = erc20_json"
| "file_abi Pair_file = pair_json"

section \<open>Calls\<close>

datatype abi_value = Uint u256 | Addr address | Addrs "address list"

text \<open>A contract call as it is built, and the chain id it is signed for (a view is not signed).\<close>

record eth_call =
  call_to :: address
  call_fn :: string
  call_args :: "abi_value list"
  call_value :: "u256 option"
  call_gas :: "u64 option"
  call_gas_price :: "u256 option"
  call_priority_fee :: "u256 option"
  call_max_fee :: "u256 option"
  call_signer :: "(address \<times> u64) option"

text \<open>
  The ethers library: \<open>Address::from_str\<close>, the debug and display texts of an address, whether a URL
  makes an HTTP provider, whether a file of the four parses, whether \<open>Contract::method\<close> encodes a call,
  and \<open>U256::from\<close> on a configured price.
\<close>

record ethers =
  from_str :: "string \<Rightarrow> address option"
  debug_address :: "address \<Rightarrow> string"
  display_address :: "address \<Rightarrow> string"
  http_url :: "string \<Rightarrow> bool"
  parses :: "abi_file \<Rightarrow> bool"
  encodes :: "abi \<Rightarrow> string \<Rightarrow> abi_value list \<Rightarrow> bool"
  u256_of_f64 :: "f64 \<Rightarrow> u256"

text \<open>
  The documented behaviour of \<open>Contract::method\<close> the adapters depend on: a function the ABI does not
  name is an error.
\<close>

definition methods_of_abi :: "ethers \<Rightarrow> bool" where
  "methods_of_abi eth \<longleftrightarrow> (\<forall>abi fn args. encodes eth abi fn args \<longrightarrow> fn \<in> fst ` set abi)"

text \<open>The node, at the time of an operation: a transaction is accepted with a hash or refused; its
  receipt arrives, is missing, or waiting for it fails; views answer a value.\<close>

record ('h, 'r) node =
  accept :: "eth_call \<Rightarrow> string + 'h"
  receipt_of :: "'h \<Rightarrow> string + 'r option"
  view_uint :: "eth_call \<Rightarrow> string + u256"
  view_uints :: "eth_call \<Rightarrow> string + u256 list"
  view_address :: "eth_call \<Rightarrow> string + address"

section \<open>The adapter\<close>

text \<open>The errors, by the context the code attaches; the cause follows where the library gives one.\<close>

datatype evm_error =
    Bad_address string string | No_rpc string | Bad_abi abi_file | No_wallet | No_abi string
  | No_method string | Send_failed string | Receipt_failed string | View_failed string string
  | Bad_path | Unsupported_swap string | Bundle_failed string | Relay_unsupported
  | Sequence_failed | Cache_locked | Undecodable | Node_failed string | Gave_up blockchain_error
  | Pool_failed

record local_wallet =
  lw_address :: address
  lw_chain_id :: u64

record evm_adapter =
  ad_provider :: string
  ad_wallet :: "local_wallet option"
  ad_config :: evm_config
  ad_abis :: "string \<rightharpoonup> abi"
  ad_rpc_pool :: "rpc_pool option"
  ad_nonces :: nonce_manager
  ad_cache :: hash_cache

text \<open>The five methods of the \<open>Cache\<close> trait pass on to the adapter's own cache.\<close>

definition ad_get_from_cache :: "'v entry_codec \<Rightarrow> u64 \<Rightarrow> string \<Rightarrow> evm_adapter \<Rightarrow> unit + 'v option" where
  "ad_get_from_cache cd now key self = hc_get cd now key (ad_cache self)"

definition ad_store_in_cache :: "'v entry_codec \<Rightarrow> u64 \<Rightarrow> string \<Rightarrow> 'v \<Rightarrow> u64 \<Rightarrow> evm_adapter \<Rightarrow> evm_adapter \<times> (unit + unit)" where
  "ad_store_in_cache cd now key v ttl self =
     map_prod (\<lambda>c. self\<lparr>ad_cache := c\<rparr>) id (hc_store cd now key v ttl (ad_cache self))"

definition ad_remove :: "string \<Rightarrow> evm_adapter \<Rightarrow> evm_adapter" where
  "ad_remove key self = self\<lparr>ad_cache := hc_remove key (ad_cache self)\<rparr>"

definition ad_clear :: "evm_adapter \<Rightarrow> evm_adapter" where
  "ad_clear self = self\<lparr>ad_cache := hc_clear (ad_cache self)\<rparr>"

definition ad_cleanup_cache :: "'v entry_codec \<Rightarrow> u64 \<Rightarrow> evm_adapter \<Rightarrow> evm_adapter" where
  "ad_cleanup_cache cd now self = self\<lparr>ad_cache := hc_cleanup cd now (ad_cache self)\<rparr>"

definition load_abi :: "ethers \<Rightarrow> abi_file \<Rightarrow> evm_error + abi" where
  "load_abi eth f = (if parses eth f then Inr (file_abi f) else Inl (Bad_abi f))"

definition new_evm_adapter :: "ethers \<Rightarrow> evm_config \<Rightarrow> evm_error + evm_adapter" where
  "new_evm_adapter eth config =
     (if \<not> http_url eth (cf_rpc_url config) then Inl (No_rpc (cf_rpc_url config)) else
      rbind (load_abi eth Router_file) (\<lambda>router_abi.
      rbind (load_abi eth Factory_file) (\<lambda>factory_abi.
      rbind (load_abi eth Erc20_file) (\<lambda>erc20_abi.
      rbind (load_abi eth Pair_file) (\<lambda>pair_abi.
      Inr \<lparr> ad_provider = cf_rpc_url config, ad_wallet = None, ad_config = config,
            ad_abis = [''router'' \<mapsto> router_abi, ''factory'' \<mapsto> factory_abi, ''erc20'' \<mapsto> erc20_abi,
                       ''pair'' \<mapsto> pair_abi],
            ad_rpc_pool = None, ad_nonces = new_nonce_manager 60, ad_cache = \<lparr>hc_entries = []\<rparr> \<rparr>)))))"

definition set_wallet :: "local_wallet \<Rightarrow> evm_adapter \<Rightarrow> evm_adapter" where
  "set_wallet w self = self\<lparr>ad_wallet := Some w\<rparr>"

definition get_wallet_with_chain_id :: "evm_adapter \<Rightarrow> evm_error + local_wallet" where
  "get_wallet_with_chain_id self =
     (case ad_wallet self of
        None \<Rightarrow> Inl No_wallet
      | Some w \<Rightarrow> Inr (w\<lparr>lw_chain_id := cf_chain_id (ad_config self)\<rparr>))"

text \<open>The client is the provider and the wallet that signs.\<close>

definition get_client :: "evm_adapter \<Rightarrow> evm_error + local_wallet" where
  "get_client self = get_wallet_with_chain_id self"

definition parse_addr :: "ethers \<Rightarrow> string \<Rightarrow> string \<Rightarrow> evm_error + address" where
  "parse_addr eth what s = (case from_str eth s of None \<Rightarrow> Inl (Bad_address what s) | Some a \<Rightarrow> Inr a)"

definition get_abi :: "string \<Rightarrow> evm_adapter \<Rightarrow> evm_error + abi" where
  "get_abi name self = (case ad_abis self name of None \<Rightarrow> Inl (No_abi name) | Some abi \<Rightarrow> Inr abi)"

text \<open>\<open>contract.method(fn, args)\<close>, for the contract at an address.\<close>

definition contract_method ::
  "ethers \<Rightarrow> abi \<Rightarrow> address \<Rightarrow> local_wallet option \<Rightarrow> string \<Rightarrow> abi_value list \<Rightarrow> evm_error + eth_call" where
  "contract_method eth abi to wallet fn args =
     (if encodes eth abi fn args
      then Inr \<lparr> call_to = to, call_fn = fn, call_args = args, call_value = None, call_gas = None,
                 call_gas_price = None, call_priority_fee = None, call_max_fee = None,
                 call_signer = map_option (\<lambda>w. (lw_address w, lw_chain_id w)) wallet \<rparr>
      else Inl (No_method fn))"

text \<open>
  Sending a call and waiting for its receipt: the result, and the calls that reached the node. What
  the wait yields is itself optional, and the code wraps it once more.
\<close>

definition send_and_wait ::
  "('h, 'r) node \<Rightarrow> evm_error + eth_call \<Rightarrow> (evm_error + 'r option option) \<times> eth_call list" where
  "send_and_wait nd built =
     (case built of
        Inl e \<Rightarrow> (Inl e, [])
      | Inr c \<Rightarrow>
          (case accept nd c of
             Inl e \<Rightarrow> (Inl (Send_failed e), [c])
           | Inr h \<Rightarrow> (case receipt_of nd h of
                         Inl e \<Rightarrow> (Inl (Receipt_failed e), [c])
                       | Inr r \<Rightarrow> (Inr (Some r), [c]))))"

definition view :: "string \<Rightarrow> ('c \<Rightarrow> string + 'a) \<Rightarrow> evm_error + 'c \<Rightarrow> evm_error + 'a" where
  "view what ask built =
     rbind built (\<lambda>c. case ask c of Inl e \<Rightarrow> Inl (View_failed what e) | Inr a \<Rightarrow> Inr a)"

section \<open>Balances, approval and swaps\<close>

text \<open>
  \<open>cached\<close> is what the cache holds for the key, \<open>balance\<close> the answer of the node after the retries
  of \<open>retry_async\<close>. The answer is handed to \<open>store_in_cache\<close>, an async function whose future is
  dropped without being awaited: it never runs, so nothing is stored.
\<close>

definition balance_key :: "evm_adapter \<Rightarrow> string \<Rightarrow> string" where
  "balance_key self addr = ''balance_'' @ cf_name (ad_config self) @ ''_'' @ addr"

definition get_native_balance ::
  "ethers \<Rightarrow> u256 entry_codec \<Rightarrow> u64 \<Rightarrow> (address \<Rightarrow> string + u256) \<Rightarrow> string \<Rightarrow> evm_adapter \<Rightarrow> evm_error + u256" where
  "get_native_balance eth cd now balance addr self =
     (case answer (ad_get_from_cache cd now (balance_key self addr) self) of
        Some b \<Rightarrow> Inr b
      | None \<Rightarrow>
          rbind (parse_addr eth ''wallet'' addr) (\<lambda>a.
            case balance a of Inl e \<Rightarrow> Inl (Node_failed e) | Inr b \<Rightarrow> Inr b))"

definition get_token_balance ::
  "ethers \<Rightarrow> ('h, 'r) node \<Rightarrow> string \<Rightarrow> string \<Rightarrow> evm_adapter \<Rightarrow> evm_error + u256" where
  "get_token_balance eth nd token_address wallet_address self =
     rbind (parse_addr eth ''token'' token_address) (\<lambda>token_addr.
     rbind (parse_addr eth ''wallet'' wallet_address) (\<lambda>wallet_addr.
     rbind (get_abi ''erc20'' self) (\<lambda>token_abi.
     view ''balanceOf'' (view_uint nd)
       (contract_method eth token_abi token_addr None ''balanceOf'' [Addr wallet_addr]))))"

definition approve_token ::
  "ethers \<Rightarrow> ('h, 'r) node \<Rightarrow> string \<Rightarrow> string \<Rightarrow> u256 \<Rightarrow> evm_adapter
     \<Rightarrow> (evm_error + 'r option option) \<times> eth_call list" where
  "approve_token eth nd token_address spender_address amount self =
     send_and_wait nd
       (rbind (parse_addr eth ''token'' token_address) (\<lambda>token_addr.
        rbind (parse_addr eth ''spender'' spender_address) (\<lambda>spender_addr.
        rbind (get_client self) (\<lambda>client.
        rbind (get_abi ''erc20'' self) (\<lambda>token_abi.
        contract_method eth token_abi token_addr (Some client) ''approve'' [Addr spender_addr, Uint amount])))))"

text \<open>\<open>set_gas\<close> and \<open>set_gas_price\<close> when a value is given.\<close>

definition with_gas :: "u64 option \<Rightarrow> u64 option \<Rightarrow> eth_call \<Rightarrow> eth_call" where
  "with_gas gas_limit gas_price c =
     (let c = (case gas_limit of Some l \<Rightarrow> c\<lparr>call_gas := Some l\<rparr> | None \<Rightarrow> c) in
      case gas_price of Some p \<Rightarrow> c\<lparr>call_gas_price := Some (ucast p)\<rparr> | None \<Rightarrow> c)"

definition swap_exact_eth_for_tokens ::
  "ethers \<Rightarrow> ('h, 'r) node \<Rightarrow> string \<Rightarrow> u256 \<Rightarrow> u256 \<Rightarrow> string \<Rightarrow> u64 \<Rightarrow> u64 option \<Rightarrow> u64 option \<Rightarrow> evm_adapter
     \<Rightarrow> (evm_error + 'r option option) \<times> eth_call list" where
  "swap_exact_eth_for_tokens eth nd token_address amount_in min_amount_out recipient deadline gas_limit gas_price self =
     send_and_wait nd
       (rbind (parse_addr eth ''token'' token_address) (\<lambda>token_addr.
        rbind (parse_addr eth ''recipient'' recipient) (\<lambda>recipient_addr.
        rbind (get_client self) (\<lambda>client.
        rbind (parse_addr eth ''router'' (cf_router_address (ad_config self))) (\<lambda>router_addr.
        rbind (get_abi ''router'' self) (\<lambda>router_abi.
        rbind (parse_addr eth ''wrapped'' (cf_wrapped_native_token (ad_config self))) (\<lambda>weth_addr.
        rbind (contract_method eth router_abi router_addr (Some client)
                 (cf_eth_to_token_swap_fn (ad_config self))
                 [Uint min_amount_out, Addrs [weth_addr, token_addr], Addr recipient_addr, Uint (ucast deadline)])
          (\<lambda>tx. Inr (with_gas gas_limit gas_price (tx\<lparr>call_value := Some amount_in\<rparr>))))))))))"

definition swap_exact_tokens_for_eth ::
  "ethers \<Rightarrow> ('h, 'r) node \<Rightarrow> string \<Rightarrow> u256 \<Rightarrow> u256 \<Rightarrow> string \<Rightarrow> u64 \<Rightarrow> u64 option \<Rightarrow> u64 option \<Rightarrow> evm_adapter
     \<Rightarrow> (evm_error + 'r option option) \<times> eth_call list" where
  "swap_exact_tokens_for_eth eth nd token_address amount_in min_amount_out recipient deadline gas_limit gas_price self =
     send_and_wait nd
       (rbind (parse_addr eth ''token'' token_address) (\<lambda>token_addr.
        rbind (parse_addr eth ''recipient'' recipient) (\<lambda>recipient_addr.
        rbind (get_client self) (\<lambda>client.
        rbind (parse_addr eth ''router'' (cf_router_address (ad_config self))) (\<lambda>router_addr.
        rbind (get_abi ''router'' self) (\<lambda>router_abi.
        rbind (parse_addr eth ''wrapped'' (cf_wrapped_native_token (ad_config self))) (\<lambda>weth_addr.
        rbind (contract_method eth router_abi router_addr (Some client)
                 (cf_token_to_eth_swap_fn (ad_config self))
                 [Uint amount_in, Uint min_amount_out, Addrs [token_addr, weth_addr], Addr recipient_addr,
                  Uint (ucast deadline)])
          (\<lambda>tx. Inr (with_gas gas_limit gas_price tx)))))))))"

definition get_amounts_out ::
  "ethers \<Rightarrow> ('h, 'r) node \<Rightarrow> u256 \<Rightarrow> address list \<Rightarrow> evm_adapter \<Rightarrow> evm_error + u256 list" where
  "get_amounts_out eth nd amount_in path self =
     rbind (parse_addr eth ''router'' (cf_router_address (ad_config self))) (\<lambda>router_addr.
     rbind (get_abi ''router'' self) (\<lambda>router_abi.
     view ''getAmountsOut'' (view_uints nd)
       (contract_method eth router_abi router_addr None ''getAmountsOut'' [Uint amount_in, Addrs path])))"

definition get_pair ::
  "ethers \<Rightarrow> ('h, 'r) node \<Rightarrow> string \<Rightarrow> string \<Rightarrow> evm_adapter \<Rightarrow> evm_error + string option" where
  "get_pair eth nd token_a token_b self =
     rbind (parse_addr eth ''token A'' token_a) (\<lambda>token_a_addr.
     rbind (parse_addr eth ''token B'' token_b) (\<lambda>token_b_addr.
     rbind (parse_addr eth ''factory'' (cf_factory_address (ad_config self))) (\<lambda>factory_addr.
     rbind (get_abi ''factory'' self) (\<lambda>factory_abi.
     rbind (view ''getPair'' (view_address nd)
              (contract_method eth factory_abi factory_addr None ''getPair'' [Addr token_a_addr, Addr token_b_addr]))
       (\<lambda>pair_addr. Inr (if pair_addr = 0 then None else Some (debug_address eth pair_addr)))))))"

definition get_native_to_token_path :: "ethers \<Rightarrow> string \<Rightarrow> evm_adapter \<Rightarrow> evm_error + address list" where
  "get_native_to_token_path eth token_address self =
     rbind (parse_addr eth ''token'' token_address) (\<lambda>token_addr.
     rbind (parse_addr eth ''wrapped'' (cf_wrapped_native_token (ad_config self))) (\<lambda>weth_addr.
     Inr [weth_addr, token_addr]))"

definition get_token_to_native_path :: "ethers \<Rightarrow> string \<Rightarrow> evm_adapter \<Rightarrow> evm_error + address list" where
  "get_token_to_native_path eth token_address self =
     rbind (parse_addr eth ''token'' token_address) (\<lambda>token_addr.
     rbind (parse_addr eth ''wrapped'' (cf_wrapped_native_token (ad_config self))) (\<lambda>weth_addr.
     Inr [token_addr, weth_addr]))"

section \<open>Lemmas\<close>

lemma send_and_wait_Inl [simp]: "send_and_wait nd (Inl e) = (Inl e, [])"
  by (simp add: send_and_wait_def)

lemma send_and_wait_le: "length (snd (send_and_wait nd b)) \<le> 1"
  by (auto simp: send_and_wait_def split: sum.splits)

lemma missing_method:
  "methods_of_abi eth \<Longrightarrow> fn \<notin> fst ` set abi \<Longrightarrow> contract_method eth abi to w fn args = Inl (No_method fn)"
  by (auto simp: methods_of_abi_def contract_method_def)

lemma get_client_wallet:
  "get_client (set_wallet w self) = Inr (w\<lparr>lw_chain_id := cf_chain_id (ad_config self)\<rparr>)"
  by (simp add: get_client_def get_wallet_with_chain_id_def set_wallet_def)

lemma get_client_none: "ad_wallet self = None \<Longrightarrow> get_client self = Inl No_wallet"
  by (simp add: get_client_def get_wallet_with_chain_id_def)

lemma set_wallet_simps [simp]:
  "ad_config (set_wallet w self) = ad_config self" "ad_abis (set_wallet w self) = ad_abis self"
  "get_abi name (set_wallet w self) = get_abi name self"
  by (simp_all add: set_wallet_def get_abi_def)

text \<open>A new adapter has its configuration, the four interfaces, and no wallet.\<close>

lemma new_adapter:
  assumes "new_evm_adapter eth config = Inr self"
  shows "ad_config self = config" "ad_wallet self = None"
    "get_abi ''router'' self = Inr router_json" "get_abi ''erc20'' self = Inr erc20_json"
    "get_abi ''factory'' self = Inr factory_json"
  using assms by (auto simp: new_evm_adapter_def load_abi_def get_abi_def split: if_splits)

text \<open>No configuration of the table names a sale the router interface has, and only that of Avalanche
  names a purchase it has not.\<close>

lemma sale_not_in_abi: "list_all (\<lambda>(k, c). cf_token_to_eth_swap_fn c \<notin> fst ` set router_json) CHAIN_CONFIGS"
  by (simp add: CHAIN_CONFIGS_def chain_config_defs router_json_def)

lemma purchase_in_abi:
  "list_all (\<lambda>(k, c). (cf_eth_to_token_swap_fn c \<in> fst ` set router_json) = (k \<noteq> ''avalanche'')) CHAIN_CONFIGS"
  by (simp add: CHAIN_CONFIGS_def chain_config_defs router_json_def)

lemma table_entry: "get_chain_config name = Some c \<Longrightarrow> (lower name, c) \<in> set CHAIN_CONFIGS"
  by (auto simp: get_chain_config_def dest: map_of_SomeD)

text \<open>Sending nothing, with an error.\<close>

lemma no_call: "\<exists>e. b = Inl e \<Longrightarrow> \<exists>e. send_and_wait nd b = (Inl e, [])"
  by auto

lemma rbind_no_call: "(\<And>x. \<exists>e. f x = Inl e) \<Longrightarrow> \<exists>e. rbind m f = Inl e"
  by (cases m) auto

lemma purchase_call:
  assumes "new_evm_adapter eth config = Inr ad" and "from_str eth token = Some t" and "from_str eth recipient = Some r"
    and "from_str eth (cf_router_address config) = Some router" and "from_str eth (cf_wrapped_native_token config) = Some weth"
    and "encodes eth router_json (cf_eth_to_token_swap_fn config) [Uint min_out, Addrs [weth, t], Addr r, Uint (ucast deadline)]"
  shows "swap_exact_eth_for_tokens eth nd token amount min_out recipient deadline gas_limit gas_price (set_wallet w ad)
     = send_and_wait nd (Inr
         \<lparr> call_to = router, call_fn = cf_eth_to_token_swap_fn config,
           call_args = [Uint min_out, Addrs [weth, t], Addr r, Uint (ucast deadline)], call_value = Some amount,
           call_gas = gas_limit, call_gas_price = map_option ucast gas_price, call_priority_fee = None, call_max_fee = None,
           call_signer = Some (lw_address w, cf_chain_id config) \<rparr>)"
  using assms(2-) new_adapter [OF assms(1)]
  by (simp add: swap_exact_eth_for_tokens_def parse_addr_def get_client_wallet contract_method_def with_gas_def
      Let_def split: option.split)

section \<open>Properties\<close>

text \<open>C7. No adapter made from the table of chains ever sells a token: the router interface the code loads
  has no function for it, so \<open>swap_exact_tokens_for_eth\<close> is an error whatever the wallet, the node and the
  arguments, and no transaction is sent.\<close>

theorem tokens_never_sold:
  assumes "methods_of_abi eth" and "get_chain_config name = Some config"
    and "new_evm_adapter eth config = Inr ad"
  shows "\<exists>e. swap_exact_tokens_for_eth eth nd token amount min_out recipient deadline gas_limit gas_price
               (set_wallet w ad) = (Inl e, [])"
proof -
  have "cf_token_to_eth_swap_fn config \<notin> fst ` set router_json"
    using table_entry [OF assms(2)] sale_not_in_abi by (auto simp: list_all_iff)
  note missing = missing_method [OF assms(1) this]
  show ?thesis
    unfolding swap_exact_tokens_for_eth_def
    by (rule no_call) (simp add: new_adapter [OF assms(3)] missing rbind_def split: sum.split)
qed

text \<open>A library that takes every address and URL for good, and encodes what the interface names.\<close>

definition demo_ethers :: ethers where
  "demo_ethers =
     \<lparr> from_str = (\<lambda>s. Some (of_nat (length s))), debug_address = (\<lambda>a. ''0x''),
       display_address = (\<lambda>a. ''0x0000'' @ [CHR 0xE2, CHR 0x80, CHR 0xA6] @ ''0000''), http_url = (\<lambda>u. True),
       parses = (\<lambda>f. True), encodes = (\<lambda>abi fn args. fn \<in> fst ` set abi), u256_of_f64 = (\<lambda>x. 5) \<rparr>"

definition demo_adapter :: "evm_config \<Rightarrow> evm_adapter" where
  "demo_adapter config =
     \<lparr> ad_provider = cf_rpc_url config, ad_wallet = None, ad_config = config,
       ad_abis = [''router'' \<mapsto> router_json, ''factory'' \<mapsto> factory_json, ''erc20'' \<mapsto> erc20_json,
                  ''pair'' \<mapsto> pair_json],
       ad_rpc_pool = None, ad_nonces = new_nonce_manager 60, ad_cache = \<lparr>hc_entries = []\<rparr> \<rparr>"

lemma demo_methods: "methods_of_abi demo_ethers"
  by (simp add: methods_of_abi_def demo_ethers_def)

lemma demo_new: "new_evm_adapter demo_ethers config = Inr (demo_adapter config)"
  by (simp add: new_evm_adapter_def demo_ethers_def load_abi_def demo_adapter_def)

definition demo_node :: "(nat, nat) node" where
  "demo_node = \<lparr> accept = (\<lambda>c. Inr 1), receipt_of = (\<lambda>h. Inr (Some h)), view_uint = (\<lambda>c. Inr 0),
                 view_uints = (\<lambda>c. Inr [1, 2]), view_address = (\<lambda>c. Inr 0) \<rparr>"

theorem tokens_never_sold_witness:
  "\<exists>e. swap_exact_tokens_for_eth demo_ethers demo_node ''0xaa'' 7 5 ''0xbb'' 100 None None
         (set_wallet \<lparr>lw_address = 9, lw_chain_id = 0\<rparr> (demo_adapter ethereum_config)) = (Inl e, [])"
proof -
  have "lower ''Ethereum'' = ''ethereum''" by code_simp
  then have "get_chain_config ''Ethereum'' = Some ethereum_config"
    by (simp add: get_chain_config_def CHAIN_CONFIGS_def)
  from tokens_never_sold [OF demo_methods this demo_new, of demo_node "''0xaa''" 7 5 "''0xbb''" 100 None None]
  show ?thesis by simp
qed

text \<open>Purchases: the same library sends one on Ethereum, and Avalanche's are as impossible as sales.\<close>

lemma avalanche_never_buys:
  assumes "methods_of_abi eth" and "new_evm_adapter eth avalanche_config = Inr ad"
  shows "\<exists>e. swap_exact_eth_for_tokens eth nd token amount min_out recipient deadline gas_limit gas_price
               (set_wallet w ad) = (Inl e, [])"
proof -
  have "cf_eth_to_token_swap_fn avalanche_config \<notin> fst ` set router_json"
    by (simp add: avalanche_config_def router_json_def)
  note missing = missing_method [OF assms(1) this]
  show ?thesis
    unfolding swap_exact_eth_for_tokens_def
    by (rule no_call) (simp add: new_adapter [OF assms(2)] missing rbind_def split: sum.split)
qed

lemma ethereum_buys:
  "fst (swap_exact_eth_for_tokens demo_ethers demo_node ''0xaa'' 7 5 ''0xbb'' 100 None None
      (set_wallet \<lparr>lw_address = 9, lw_chain_id = 0\<rparr> (demo_adapter ethereum_config))) = Inr (Some (Some 1))"
  by (subst purchase_call [OF demo_new])
    (simp_all add: demo_ethers_def ethereum_config_def router_json_def send_and_wait_def demo_node_def)

end
