(* ===== verification/EvmWatch.thy ===== *)
theory EvmWatch
  imports EvmAdapters
begin

text \<open>
  Bundles and the watching of transactions by the shared EVM adapter, \<^verbatim>\<open>snipebot/src/chain_adapters/base.rs\<close>:
  the dispatch to a relay or to plain sending in order, the filter on transactions that concern a
  token, the polling of blocks, and the search for swaps of a token.
\<close>

section \<open>Sending in order\<close>

text \<open>A transaction request: its body, and the two prices the bundle clears.\<close>

record 'd tx_request =
  req_body :: 'd
  req_gas_price :: "u256 option"
  req_max_fee :: "u256 option"

text \<open>
  What the node answers to the \<open>i\<close>-th transaction: \<open>sq_send\<close> its hash or an error, \<open>sq_receipt\<close> the
  status of its receipt, no receipt, or an error of the wait.
\<close>

record ('d, 'h) seq_node =
  sq_send :: "nat \<Rightarrow> 'd tx_request \<Rightarrow> string + 'h"
  sq_receipt :: "nat \<Rightarrow> 'h \<Rightarrow> string + u64 option option"

fun send_from ::
  "('d, 'h) seq_node \<Rightarrow> nat \<Rightarrow> 'd tx_request list \<Rightarrow> (evm_error + unit) \<times> 'd tx_request list" where
  "send_from nd i [] = (Inr (), [])"
| "send_from nd i (tx # txs) =
     (case sq_send nd i tx of
        Inl e \<Rightarrow> (Inl (Node_failed e), [tx])
      | Inr h \<Rightarrow>
          (case sq_receipt nd i h of
             Inl e \<Rightarrow> (Inl (Node_failed e), [tx])
           | Inr (Some status) \<Rightarrow>
               (if status = Some 1 then map_prod id (Cons tx) (send_from nd (i + 1) txs)
                else (Inl Sequence_failed, [tx]))
           | Inr None \<Rightarrow> map_prod id (Cons tx) (send_from nd (i + 1) txs)))"

definition send_transactions_sequentially ::
  "('d, 'h) seq_node \<Rightarrow> 'd tx_request list \<Rightarrow> evm_adapter \<Rightarrow> (evm_error + unit) \<times> 'd tx_request list" where
  "send_transactions_sequentially nd txs self =
     (case get_client self of Inl e \<Rightarrow> (Inl e, []) | Inr _ \<Rightarrow> send_from nd 0 txs)"

definition send_bundle_to_bsc_mev_relay :: "'d tx_request list \<Rightarrow> evm_error + unit" where
  "send_bundle_to_bsc_mev_relay txs = Inl Relay_unsupported"

definition send_bundle_to_avalanche_subnet :: "'d tx_request list \<Rightarrow> evm_error + unit" where
  "send_bundle_to_avalanche_subnet txs = Inl Relay_unsupported"

section \<open>Bundles\<close>

record 's flashbots_bundle =
  fb_transactions :: "'s list"
  fb_target_block :: u64
  fb_min_block :: u64
  fb_max_block :: u64
  fb_revert_on_fail :: bool

record 'b bundle_info =
  bi_bundle_hash :: 'b
  bi_transaction_hashes :: "string list"
  bi_target_block :: u64
  bi_created_at :: u64

text \<open>
  The relay and the wallet's signing: whether the middleware can be made, the block number, the
  signature of a transaction, sending a bundle, the statistics of one, and the hash of a signed
  transaction, if it has one. Block numbers are far below the width of their type.
\<close>

record ('d, 's, 'b) relay =
  rl_middleware :: "string + unit"
  rl_block_number :: "string + u64"
  rl_sign :: "local_wallet \<Rightarrow> 'd tx_request \<Rightarrow> string + 's"
  rl_send :: "'s flashbots_bundle \<Rightarrow> string + 'b"
  rl_stats :: "'b \<Rightarrow> string + unit"
  rl_tx_hash :: "'s \<Rightarrow> string option"
  rl_debug :: "'b \<Rightarrow> string"

definition node_result :: "string + 'a \<Rightarrow> evm_error + 'a" where
  "node_result r = (case r of Inl e \<Rightarrow> Inl (Node_failed e) | Inr a \<Rightarrow> Inr a)"

fun sign_all :: "('d, 's, 'b) relay \<Rightarrow> local_wallet \<Rightarrow> 'd tx_request list \<Rightarrow> evm_error + 's list" where
  "sign_all rl w [] = Inr []"
| "sign_all rl w (tx # txs) =
     rbind (node_result (rl_sign rl w (tx\<lparr>req_gas_price := None, req_max_fee := None\<rparr>))) (\<lambda>s.
     rbind (sign_all rl w txs) (\<lambda>ss. Inr (s # ss)))"

text \<open>
  \<open>free\<close>: the write lock of the cache is free. The entries of bundles are kept apart from the other
  entries of the cache, under their keys.
\<close>

definition cache_bundle_info ::
  "('d, 's, 'b) relay \<Rightarrow> bool \<Rightarrow> u64 \<Rightarrow> 'b \<Rightarrow> u64 \<Rightarrow> 's list \<Rightarrow> (string \<rightharpoonup> 'b bundle_info)
     \<Rightarrow> evm_error + (string \<rightharpoonup> 'b bundle_info)" where
  "cache_bundle_info rl free now bundle_hash target_block txs cache =
     (if free
      then Inr (cache(''bundle_'' @ rl_debug rl bundle_hash \<mapsto>
             \<lparr> bi_bundle_hash = bundle_hash, bi_transaction_hashes = List.map_filter (rl_tx_hash rl) txs,
               bi_target_block = target_block, bi_created_at = now \<rparr>))
      else Inl Cache_locked)"

text \<open>What a call does: the bundle it hands to the relay, if it gets there, or the transactions it sends.\<close>

datatype ('d, 's) bundle_effect = Relayed "'s flashbots_bundle option" | Sent_plain "'d tx_request list"

definition ethereum_bundle ::
  "('d, 's, 'b) relay \<Rightarrow> bool \<Rightarrow> u64 \<Rightarrow> 'd tx_request list \<Rightarrow> evm_adapter \<Rightarrow> (string \<rightharpoonup> 'b bundle_info)
     \<Rightarrow> (evm_error + (string \<rightharpoonup> 'b bundle_info)) \<times> 's flashbots_bundle option" where
  "ethereum_bundle rl free now txs self cache =
     (case rbind (get_wallet_with_chain_id self) (\<lambda>wallet.
           rbind (case rl_middleware rl of Inl e \<Rightarrow> Inl (Bundle_failed e) | Inr u \<Rightarrow> Inr u) (\<lambda>_.
           rbind (node_result (rl_block_number rl)) (\<lambda>n.
           rbind (sign_all rl wallet txs) (\<lambda>signed.
           Inr \<lparr> fb_transactions = signed, fb_target_block = n + 1, fb_min_block = n + 1,
                 fb_max_block = n + 1 + 3, fb_revert_on_fail = True \<rparr>)))) of
        Inl e \<Rightarrow> (Inl e, None)
      | Inr bundle \<Rightarrow>
          ((case rl_send rl bundle of
              Inl e \<Rightarrow> Inl (Bundle_failed e)
            | Inr h \<Rightarrow>
                rbind (node_result (rl_stats rl h)) (\<lambda>_.
                cache_bundle_info rl free now h (fb_target_block bundle) (fb_transactions bundle) cache)),
           Some bundle))"

definition create_flashbots_bundle ::
  "('d, 's, 'b) relay \<Rightarrow> ('d, 'h) seq_node \<Rightarrow> bool \<Rightarrow> u64 \<Rightarrow> 'd tx_request list \<Rightarrow> evm_adapter
     \<Rightarrow> (string \<rightharpoonup> 'b bundle_info) \<Rightarrow> (evm_error + (string \<rightharpoonup> 'b bundle_info)) \<times> ('d, 's) bundle_effect" where
  "create_flashbots_bundle rl nd free now txs self cache =
     (let name = cf_name (ad_config self) in
      if name = ''Ethereum'' then map_prod id Relayed (ethereum_bundle rl free now txs self cache)
      else if name = ''BSC'' then (rbind (send_bundle_to_bsc_mev_relay txs) (\<lambda>_. Inr cache), Relayed None)
      else if name = ''Avalanche'' then (rbind (send_bundle_to_avalanche_subnet txs) (\<lambda>_. Inr cache), Relayed None)
      else map_prod (\<lambda>r. rbind r (\<lambda>_. Inr cache)) Sent_plain (send_transactions_sequentially nd txs self))"

section \<open>Watching a token\<close>

text \<open>\<open>watch_pending_transactions\<close> only logs: the callback is never called.\<close>

definition watch_pending_transactions :: "('t \<Rightarrow> 'e) \<Rightarrow> evm_adapter \<Rightarrow> (evm_error + unit) \<times> 'e list" where
  "watch_pending_transactions f self = (Inr (), [])"

record chain_tx =
  tx_to :: "address option"
  tx_value :: u256
  tx_input :: "u8 list"

text \<open>\<open>hex::encode\<close>.\<close>

definition hex_digit :: "nat \<Rightarrow> char" where
  "hex_digit n = (''0123456789abcdef'' ! (n mod 16))"

definition hex_encode :: "u8 list \<Rightarrow> string" where
  "hex_encode bs = concat (map (\<lambda>b. [hex_digit (unat b div 16), hex_digit (unat b)]) bs)"

text \<open>
  The filter of the two watchers. The needle is the display text of the address without its first
  two bytes, in lower case.
\<close>

definition concerns_token :: "ethers \<Rightarrow> address \<Rightarrow> address \<Rightarrow> chain_tx \<Rightarrow> bool" where
  "concerns_token eth router token tx \<longleftrightarrow>
     (if tx_to tx = Some router
      then contains_str (hex_encode (tx_input tx)) (lower (drop 2 (display_address eth token)))
      else tx_to tx = Some token)"

text \<open>The stream of hashes of the mempool; \<open>get_tx\<close> is what the node answers for a hash.\<close>

definition watch_stream ::
  "ethers \<Rightarrow> address \<Rightarrow> address \<Rightarrow> ('h \<Rightarrow> string + chain_tx option) \<Rightarrow> 'h list \<Rightarrow> chain_tx list" where
  "watch_stream eth router token get_tx hashes =
     concat (map (\<lambda>h. case get_tx h of
                        Inr (Some tx) \<Rightarrow> if concerns_token eth router token tx then [tx] else []
                      | _ \<Rightarrow> []) hashes)"

text \<open>One round of the polling loop: the number of the newest block, if the node tells it, and the
  blocks it answers. All of them are behind the watcher afterwards, fetched or not.\<close>

definition poll_wait :: "u64 \<Rightarrow> nat" where
  "poll_wait block_time = (if block_time < 1000 then 1 else unat block_time div 1000)"

definition poll_round ::
  "ethers \<Rightarrow> address \<Rightarrow> address \<Rightarrow> (string + nat) \<times> (nat \<Rightarrow> chain_tx list option) \<Rightarrow> nat \<Rightarrow> nat \<times> chain_tx list" where
  "poll_round eth router token = (\<lambda>(newest, block) last_block.
     (case newest of
        Inl e \<Rightarrow> (last_block, [])
      | Inr current \<Rightarrow>
          if last_block < current
          then (current, concat (map (\<lambda>n. case block n of
                                            None \<Rightarrow> []
                                          | Some txs \<Rightarrow> filter (concerns_token eth router token) txs)
                                   [last_block + 1 ..< current + 1]))
          else (last_block, [])))"

fun poll_from ::
  "ethers \<Rightarrow> address \<Rightarrow> address \<Rightarrow> ((string + nat) \<times> (nat \<Rightarrow> chain_tx list option)) list \<Rightarrow> nat
     \<Rightarrow> nat \<times> chain_tx list" where
  "poll_from eth router token [] last_block = (last_block, [])"
| "poll_from eth router token (r # rs) last_block =
     (let (l, out) = poll_round eth router token r last_block in
      map_prod id ((@) out) (poll_from eth router token rs l))"

text \<open>
  \<open>watch_token_transactions_with_polling\<close> over the rounds it runs: the callbacks it makes. The other
  watcher falls back to it when the web socket cannot be opened or refuses the subscription.
\<close>

definition watch_with_polling ::
  "ethers \<Rightarrow> string \<Rightarrow> ((string + nat) \<times> (nat \<Rightarrow> chain_tx list option)) list \<Rightarrow> evm_adapter
     \<Rightarrow> evm_error + chain_tx list" where
  "watch_with_polling eth token_address rounds self =
     rbind (parse_addr eth ''token'' token_address) (\<lambda>token.
     rbind (parse_addr eth ''router'' (cf_router_address (ad_config self))) (\<lambda>router.
     Inr (snd (poll_from eth router token rounds 0))))"

definition watch_token_transactions ::
  "ethers \<Rightarrow> string \<Rightarrow> bool \<Rightarrow> bool \<Rightarrow> ('h \<Rightarrow> string + chain_tx option) \<Rightarrow> 'h list
     \<Rightarrow> ((string + nat) \<times> (nat \<Rightarrow> chain_tx list option)) list \<Rightarrow> evm_adapter \<Rightarrow> evm_error + chain_tx list" where
  "watch_token_transactions eth token_address connects subscribes get_tx hashes rounds self =
     rbind (parse_addr eth ''token'' token_address) (\<lambda>token.
       if \<not> connects \<or> \<not> subscribes then watch_with_polling eth token_address rounds self
       else rbind (parse_addr eth ''router'' (cf_router_address (ad_config self))) (\<lambda>router.
            Inr (watch_stream eth router token get_tx hashes)))"

section \<open>Swaps of a token\<close>

text \<open>
  The selector of an ABI function and the decoding of the bytes after it, by the ABI library: a value
  that is an array lists its elements, those that are addresses as such.
\<close>

datatype abi_token = Token_address address | Token_array "abi_token list" | Token_other string

record abi_codec =
  selector_of :: "abi_function \<Rightarrow> u8 list"
  decode_input :: "abi_function \<Rightarrow> u8 list \<Rightarrow> abi_token list option"

definition selected :: "abi_codec \<Rightarrow> abi \<Rightarrow> u8 list \<Rightarrow> abi_function option" where
  "selected cd abi input = List.find (\<lambda>f. take 4 input = selector_of cd f) abi"

text \<open>The addresses of a path are searched up to the first that is the token; every array of the
  parameters is searched.\<close>

definition path_has :: "address \<Rightarrow> abi_token \<Rightarrow> bool" where
  "path_has token param = (case param of Token_array es \<Rightarrow> list_ex (\<lambda>e. e = Token_address token) es | _ \<Rightarrow> False)"

definition sandwich_callbacks ::
  "abi_codec \<Rightarrow> abi \<Rightarrow> address \<Rightarrow> address \<Rightarrow> u256 \<Rightarrow> chain_tx \<Rightarrow> (chain_tx \<times> u256) list" where
  "sandwich_callbacks cd abi router token min_amount tx =
     (if tx_to tx = Some router \<and> min_amount \<le> tx_value tx \<and> 4 < length (tx_input tx)
      then (case selected cd abi (tx_input tx) of
              None \<Rightarrow> []
            | Some f \<Rightarrow>
                if contains_str (fst f) ''swap''
                then (case decode_input cd f (drop 4 (tx_input tx)) of
                        None \<Rightarrow> []
                      | Some params \<Rightarrow>
                          map (\<lambda>_. (tx, tx_value tx)) (filter (path_has token) params))
                else [])
      else [])"

definition watch_for_sandwich_opportunities ::
  "ethers \<Rightarrow> abi_codec \<Rightarrow> string \<Rightarrow> u256 \<Rightarrow> string + unit \<Rightarrow> string + unit \<Rightarrow> ('h \<Rightarrow> string + chain_tx option)
     \<Rightarrow> 'h list \<Rightarrow> evm_adapter \<Rightarrow> evm_error + (chain_tx \<times> u256) list" where
  "watch_for_sandwich_opportunities eth cd token_address min_amount connect subscribe get_tx hashes self =
     rbind (parse_addr eth ''token'' token_address) (\<lambda>token.
     rbind (node_result connect) (\<lambda>_.
     rbind (node_result subscribe) (\<lambda>_.
     rbind (parse_addr eth ''router'' (cf_router_address (ad_config self))) (\<lambda>router.
     rbind (get_abi ''router'' self) (\<lambda>abi.
     Inr (concat (map (\<lambda>h. case get_tx h of
                             Inr (Some tx) \<Rightarrow> sandwich_callbacks cd abi router token min_amount tx
                           | _ \<Rightarrow> []) hashes)))))))"

definition decode_router_input :: "abi_codec \<Rightarrow> u8 list \<Rightarrow> evm_adapter \<Rightarrow> evm_error + abi_token list" where
  "decode_router_input cd input self =
     rbind (get_abi ''router'' self) (\<lambda>abi.
       if 4 < length input
       then (case selected cd abi input of
               Some f \<Rightarrow> (case decode_input cd f (drop 4 input) of
                            Some ts \<Rightarrow> Inr ts
                          | None \<Rightarrow> Inl (Node_failed ''decode''))
             | None \<Rightarrow> Inl Undecodable)
       else Inl Undecodable)"

section \<open>Lemmas\<close>

text \<open>What is sent in order is a prefix of what was asked for, and all of it when the result is good.\<close>

lemma send_from_prefix:
  "send_from nd i txs = (r, sent) \<Longrightarrow>
     sent = take (length sent) txs \<and> (r = Inr () \<longleftrightarrow> sent = txs \<and> (\<exists>s. r = Inr s))"
proof (induction txs arbitrary: i r sent)
  case (Cons tx txs)
  then show ?case
    by (cases "send_from nd (i + 1) txs")
      (fastforce split: sum.splits option.splits if_splits)
qed simp

lemma bsc_sent_plainly:
  "ad_config self = bsc_config \<Longrightarrow>
   create_flashbots_bundle rl nd free now txs self cache
     = map_prod (\<lambda>r. rbind r (\<lambda>_. Inr cache)) Sent_plain (send_transactions_sequentially nd txs self)"
  by (simp add: create_flashbots_bundle_def bsc_config_def Let_def)

text \<open>The texts of \<open>hex::encode\<close> are ASCII, so nothing else is part of one.\<close>

lemma hex_digit_ascii: "of_char (hex_digit n) < (128 :: nat)"
proof -
  have "n mod 16 < 16" by simp
  then have "n mod 16 \<in> set [0..<16]" by simp
  then show ?thesis by (auto simp: hex_digit_def upt_rec)
qed

lemma hex_encode_ascii: "c \<in> set (hex_encode bs) \<Longrightarrow> of_char c < (128 :: nat)"
  by (auto simp: hex_encode_def hex_digit_ascii)

lemma lower_keeps: "c \<in> set s \<Longrightarrow> 128 \<le> (of_char c :: nat) \<Longrightarrow> c \<in> set (lower s)"
  unfolding lower_def by (force simp: Let_def image_iff)

lemma needle_not_hex:
  assumes "c \<in> set (drop 2 s)" and "128 \<le> (of_char c :: nat)"
  shows "\<not> contains_str (hex_encode bs) (lower (drop 2 s))"
proof
  assume "contains_str (hex_encode bs) (lower (drop 2 s))"
  then have "c \<in> set (hex_encode bs)" using lower_keeps [OF assms] by (auto simp: contains_str_iff)
  with hex_encode_ascii assms(2) show False by fastforce
qed

lemma concerns_token_direct:
  assumes "c \<in> set (drop 2 (display_address eth token))" and "128 \<le> (of_char c :: nat)"
  shows "concerns_token eth router token tx \<longleftrightarrow> tx_to tx = Some token \<and> token \<noteq> router"
  using needle_not_hex [OF assms] by (auto simp: concerns_token_def)

text \<open>The newest block the rounds have told.\<close>

fun newest :: "((string + nat) \<times> 'b) list \<Rightarrow> nat \<Rightarrow> nat" where
  "newest [] l = l"
| "newest ((Inl e, b) # rs) l = newest rs l"
| "newest ((Inr n, b) # rs) l = newest rs (max l n)"

lemma newest_le: "l \<le> newest rs l"
  by (induction rs l rule: newest.induct) auto

lemma upt_split: "l \<le> m \<Longrightarrow> m \<le> n \<Longrightarrow> [l + 1 ..< n + 1] = [l + 1 ..< m + 1] @ [m + 1 ..< n + 1]"
  using upt_add_eq_append [of "l + 1" "m + 1" "n - m"] by simp

definition block_txs :: "(nat \<Rightarrow> chain_tx list option) \<Rightarrow> nat \<Rightarrow> chain_tx list" where
  "block_txs ch n = (case ch n of None \<Rightarrow> [] | Some txs \<Rightarrow> txs)"

lemma poll_from_exact:
  "\<forall>r\<in>set rounds. snd r = ch \<Longrightarrow>
   poll_from eth router token rounds l
     = (newest rounds l,
        concat (map (\<lambda>n. filter (concerns_token eth router token) (block_txs ch n)) [l + 1 ..< newest rounds l + 1]))"
proof (induction rounds arbitrary: l)
  case (Cons r rounds)
  then obtain h where r: "r = (h, ch)" by (metis list.set_intros(1) surjective_pairing)
  have eq: "(case ch n of None \<Rightarrow> [] | Some txs \<Rightarrow> filter P txs) = filter P (block_txs ch n)" for n P
    by (simp add: block_txs_def split: option.split)
  show ?case
  proof (cases h)
    case (Inl e)
    with Cons r show ?thesis by (simp add: poll_round_def)
  next
    case (Inr n)
    show ?thesis
    proof (cases "l < n")
      case True
      then have "[l + 1 ..< newest rounds n + 1] = [l + 1 ..< n + 1] @ [n + 1 ..< newest rounds n + 1]"
        by (intro upt_split) (simp_all add: newest_le)
      with Cons r Inr True show ?thesis by (simp add: poll_round_def eq max_def del: upt_Suc)
    next
      case False
      with Cons r Inr show ?thesis by (simp add: poll_round_def max_def)
    qed
  qed
qed simp

text \<open>A block the node does not answer when it is first asked for is never asked for again.\<close>

lemma poll_round_skipped:
  "n \<le> l \<Longrightarrow> poll_round eth router token (h, b(n := x)) l = poll_round eth router token (h, b) l"
  by (auto simp: poll_round_def split: sum.split intro!: arg_cong [where f = concat] map_cong)

lemma missed_block_skipped:
  "n \<le> l \<Longrightarrow> poll_from eth router token (map (\<lambda>(h, b). (h, b(n := x))) rounds) l = poll_from eth router token rounds l"
proof (induction rounds arbitrary: l)
  case (Cons r rounds)
  obtain h b where r: "r = (h, b)" by (cases r)
  obtain l' out where out: "poll_round eth router token (h, b) l = (l', out)" by fastforce
  then have "l \<le> l'" by (auto simp: poll_round_def split: sum.splits if_splits)
  with Cons r out show ?case by (simp add: poll_round_skipped del: fun_upd_apply)
qed simp

section \<open>Properties\<close>

text \<open>C9. The polling watcher reports exactly the transactions sent to the token's own contract, each once
  and in the order of the blocks, from block 1 to the newest the node has told; a swap of the token, sent
  to the router, is never reported, since the displayed address it is searched for is abbreviated.\<close>

theorem watcher_reports_exact:
  assumes "from_str eth s = Some token" and "from_str eth (cf_router_address (ad_config self)) = Some router"
    and "c \<in> set (drop 2 (display_address eth token))" and "128 \<le> (of_char c :: nat)"
    and "\<forall>r\<in>set rounds. snd r = ch"
  shows "watch_with_polling eth s rounds self
     = Inr (filter (\<lambda>tx. tx_to tx = Some token \<and> token \<noteq> router)
              (concat (map (block_txs ch) [1 ..< newest rounds 0 + 1])))"
proof -
  have "concerns_token eth router token = (\<lambda>tx. tx_to tx = Some token \<and> token \<noteq> router)"
    by (rule ext) (rule concerns_token_direct [OF assms(3,4)])
  with assms(1,2) show ?thesis
    by (simp add: watch_with_polling_def parse_addr_def poll_from_exact [OF assms(5)] filter_concat comp_def
        del: upt_Suc)
qed

definition demo_blocks :: "nat \<Rightarrow> chain_tx list option" where
  "demo_blocks n = (if n \<le> 2 then Some [\<lparr>tx_to = Some 4, tx_value = 1, tx_input = []\<rparr>,
                                         \<lparr>tx_to = Some 42, tx_value = 1, tx_input = [1]\<rparr>] else None)"

theorem watcher_reports_exact_witness:
  "watch_with_polling demo_ethers ''0xaa'' [(Inr 1, demo_blocks), (Inl ''down'', demo_blocks), (Inr 3, demo_blocks)]
     (demo_adapter ethereum_config)
   = Inr [\<lparr>tx_to = Some 4, tx_value = 1, tx_input = []\<rparr>, \<lparr>tx_to = Some 4, tx_value = 1, tx_input = []\<rparr>]"
proof -
  have "from_str demo_ethers ''0xaa'' = Some 4"
    and router: "from_str demo_ethers (cf_router_address (ad_config (demo_adapter ethereum_config))) = Some 42"
    and "CHR 0xE2 \<in> set (drop 2 (display_address demo_ethers 4))"
    by (simp_all add: demo_ethers_def demo_adapter_def ethereum_config_def)
  from watcher_reports_exact [OF this, of "[(Inr 1, demo_blocks), (Inl ''down'', demo_blocks), (Inr 3, demo_blocks)]" demo_blocks]
  show ?thesis by (simp add: block_txs_def demo_blocks_def upt_rec)
qed

end
