(* ===== verification/EvmSending.thy ===== *)
theory EvmSending
  imports EvmAdapters
begin

text \<open>
  Sending with retries by the shared EVM adapter of \<^verbatim>\<open>snipebot/src/chain_adapters/base.rs\<close>: nonces from
  the nonce manager, gas prices from the retry loop, the purchase of a token with a bound on the
  slippage; and the enumeration, the registry and the factory of the chains' adapters.
\<close>

section \<open>The retry loop around a stateful operation\<close>

text \<open>
  \<open>retry_blockchain_operation\<close> for an operation that changes a state: the nonce manager, and what has
  been sent. An operation may panic.
\<close>

function retry_with_state ::
    "(nat \<Rightarrow> u256 option \<Rightarrow> 's \<Rightarrow> ('s \<times> (string + 'v)) res) \<Rightarrow> nat \<Rightarrow> nat \<Rightarrow> u256 option \<Rightarrow> 's
       \<Rightarrow> ('s \<times> (blockchain_error + 'v)) res" where
  "retry_with_state f max_retries retries g s =
     rbind (f retries g s) (\<lambda>(s, r).
       case r of
         Inr v \<Rightarrow> Inr (s, Inr v)
       | Inl msg \<Rightarrow>
           let err = classify_error msg; retries = retries + 1 in
           if max_retries \<le> retries \<or> \<not> is_retryable err then Inr (s, Inl err)
           else rbind (case g of None \<Rightarrow> Inr None
                       | Some p \<Rightarrow> rbind (adjust_gas_for_retry err p) (\<lambda>p. Inr (Some p))) (\<lambda>g'.
                retry_with_state f max_retries retries g' s))"
  by pat_completeness auto
termination by (relation "measure (\<lambda>(f, m, r, g, s). m - r)") auto

declare retry_with_state.simps [simp del]

text \<open>Over an operation without a state it is the loop of \<open>Retry\<close>.\<close>

lemma retry_with_state_pure:
  assumes "\<And>k g. f k g s = Inr (s, f0 k g)"
  shows "retry_with_state f m k g s = rbind (retry_blockchain_loop f0 m k g) (\<lambda>(r, gs). Inr (s, r))"
  using assms
proof (induction f0 m k g rule: retry_blockchain_loop.induct)
  case (1 f0 m k g)
  note step = retry_with_state.simps [of f m k g s] retry_blockchain_loop.simps [of f0 m k g]
  show ?case
  proof (cases "f0 k g")
    case (Inl msg)
    let ?err = "classify_error msg"
    show ?thesis
    proof (cases "m \<le> k + 1 \<or> \<not> is_retryable ?err")
      case True
      with Inl "1.prems" show ?thesis by (auto simp: step Let_def)
    next
      case False
      have "retry_with_state f m (k + 1) g' s = rbind (retry_blockchain_loop f0 m (k + 1) g') (\<lambda>(r, gs). Inr (s, r))"
        if "(case g of None \<Rightarrow> Inr None | Some p \<Rightarrow> rbind (adjust_gas_for_retry ?err p) (\<lambda>p. Inr (Some p))) = Inr g'" for g'
        using "1.IH" [OF Inl refl refl False that "1.prems"] .
      with Inl "1.prems" False show ?thesis
        by (auto simp: step Let_def rbind_def split: sum.splits option.splits)
    qed
  qed (simp add: step "1.prems")
qed

text \<open>An invariant of the state that may depend on the number of attempts made; there are at most
  \<open>max_retries\<close> of them.\<close>

lemma retry_with_state_inv:
  assumes "\<And>k g s s' r. I k s \<Longrightarrow> f k g s = Inr (s', r) \<Longrightarrow> I (k + 1) s'"
    and "retry_with_state f m k g s = Inr (s', r)" and "I k s" and "k < m"
  shows "\<exists>n. k < n \<and> n \<le> m \<and> I n s'"
  using assms
proof (induction f m k g s arbitrary: s' r rule: retry_with_state.induct)
  case (1 f m k g s)
  from "1.prems"(2) obtain s1 r1 where f: "f k g s = Inr (s1, r1)"
    by (auto simp: retry_with_state.simps [of f m k g s])
  note eq = "1.prems"(2) [unfolded retry_with_state.simps [of f m k g s] f rbind_simps prod.case]
  from "1.prems"(1) [OF "1.prems"(3) f] have one: "I (k + 1) s1" .
  show ?case
  proof (cases r1)
    case (Inr v)
    with eq one "1.prems"(4) show ?thesis by (intro exI [of _ "k + 1"]) simp
  next
    case (Inl msg)
    show ?thesis
    proof (cases "m \<le> k + 1 \<or> \<not> is_retryable (classify_error msg)")
      case True
      with eq Inl one "1.prems"(4) show ?thesis by (intro exI [of _ "k + 1"]) (auto simp: Let_def)
    next
      case False
      with eq Inl obtain g' where
        g': "(case g of None \<Rightarrow> Inr None | Some p \<Rightarrow>
               rbind (adjust_gas_for_retry (classify_error msg) p) (\<lambda>p. Inr (Some p))) = Inr g'"
        and rest: "retry_with_state f m (k + 1) g' s1 = Inr (s', r)"
        by (auto simp: Let_def)
      have "\<exists>n. k + 1 < n \<and> n \<le> m \<and> I n s'"
        by (rule "1.IH" [OF f refl Inl refl refl False g' _ rest one]) (use "1.prems"(1) False in auto)
      then obtain n where "k + 1 < n \<and> n \<le> m \<and> I n s'" by blast
      then show ?thesis by (intro exI [of _ n]) simp
    qed
  qed
qed

section \<open>Sending a transaction\<close>

record 'd typed_tx =
  tt_body :: 'd
  tt_gas :: "u64 option"
  tt_gas_price :: "u256 option"
  tt_nonce :: "u256 option"

record 'd mined_receipt =
  mr_nonce :: "u256 option"
  mr_body :: 'd

text \<open>
  The surroundings of attempt \<open>k\<close>: the clock when the nonce is asked for and when it is updated or
  reset, the transaction count the provider answers at both times and the text of its error, and what
  the node answers to the transaction and to the wait for its receipt.
\<close>

record ('d, 'h) attempts =
  at_clock :: "nat \<Rightarrow> nat"
  at_count :: "nat \<Rightarrow> chain_view"
  at_count_error :: "nat \<Rightarrow> string"
  at_later :: "nat \<Rightarrow> nat"
  at_later_count :: "nat \<Rightarrow> chain_view"
  at_send :: "nat \<Rightarrow> 'd typed_tx \<Rightarrow> string + 'h"
  at_receipt :: "nat \<Rightarrow> 'h \<Rightarrow> string + 'd mined_receipt option"

definition no_receipt_text :: string where
  "no_receipt_text = ''Kh'' @ [CHR 0xC3, CHR 0xB4] @ ''ng c'' @ [CHR 0xC3, CHR 0xB3] @ '' transaction receipt''"

definition resets_on :: "string \<Rightarrow> bool" where
  "resets_on e \<longleftrightarrow> contains_str e ''nonce too low'' \<or> contains_str e ''already known''
     \<or> contains_str e ''replacement transaction underpriced''"

text \<open>The closure that is retried. Its state is the nonce manager and the transactions the node was handed.\<close>

definition send_attempt ::
  "ethers \<Rightarrow> ('d, 'h) attempts \<Rightarrow> evm_config \<Rightarrow> address \<Rightarrow> u64 option \<Rightarrow> 'd typed_tx \<Rightarrow> nat \<Rightarrow> u256 option
     \<Rightarrow> nonce_manager \<times> 'd typed_tx list
     \<Rightarrow> ((nonce_manager \<times> 'd typed_tx list) \<times> (string + 'd mined_receipt)) res" where
  "send_attempt eth env config wallet gas_price modified_tx k gas_override = (\<lambda>(nm, sent).
     rbind (get_next_nonce (at_clock env k) (at_count env k) wallet nm) (\<lambda>(nm, next_nonce).
       case next_nonce of
         None \<Rightarrow> Inr ((nm, sent), Inl (at_count_error env k))
       | Some nonce \<Rightarrow>
           (let gas_to_use = (case gas_override of
                                Some g \<Rightarrow> g
                              | None \<Rightarrow> (case gas_price of
                                           Some gp \<Rightarrow> ucast gp
                                         | None \<Rightarrow> u256_of_f64 eth (cf_default_gas_price config)));
                tx_to_send = modified_tx\<lparr>tt_nonce := Some nonce, tt_gas_price := Some gas_to_use\<rparr>;
                sent = sent @ [tx_to_send]
            in case at_send env k tx_to_send of
                 Inl e \<Rightarrow>
                   Inr ((if resets_on e then fst (reset_nonce (at_later env k) (at_later_count env k) wallet nm) else nm,
                         sent), Inl e)
               | Inr pending_tx \<Rightarrow>
                   (case at_receipt env k pending_tx of
                      Inl e \<Rightarrow> Inr ((nm, sent), Inl e)
                    | Inr None \<Rightarrow> Inr ((nm, sent), Inl no_receipt_text)
                    | Inr (Some receipt) \<Rightarrow>
                        (case mr_nonce receipt of
                           None \<Rightarrow> Inr ((nm, sent), Inr receipt)
                         | Some tx_nonce \<Rightarrow>
                             rbind (add_ov tx_nonce 1) (\<lambda>n.
                             Inr ((update_nonce (at_later env k) wallet n nm, sent), Inr receipt)))))))"

text \<open>The operation: its result, the adapter afterwards, and the transactions the node was handed.\<close>

definition send_transaction_with_retry ::
  "ethers \<Rightarrow> ('d, 'h) attempts \<Rightarrow> 'd typed_tx \<Rightarrow> u64 option \<Rightarrow> u64 option \<Rightarrow> evm_adapter
     \<Rightarrow> ((evm_error + 'd mined_receipt) \<times> evm_adapter \<times> 'd typed_tx list) res" where
  "send_transaction_with_retry eth env tx gas_limit gas_price self =
     (case get_client self of
        Inl e \<Rightarrow> Inr (Inl e, self, [])
      | Inr client \<Rightarrow>
          let wallet_address = (case ad_wallet self of Some w \<Rightarrow> lw_address w | None \<Rightarrow> 0);
              modified_tx = (case gas_limit of Some l \<Rightarrow> tx\<lparr>tt_gas := Some l\<rparr> | None \<Rightarrow> tx)
          in rbind (retry_with_state
                      (send_attempt eth env (ad_config self) wallet_address gas_price modified_tx)
                      3 0 (map_option ucast gas_price) (ad_nonces self, [])) (\<lambda>((nm, sent), r).
             Inr (case r of Inl err \<Rightarrow> Inl (Gave_up err) | Inr receipt \<Rightarrow> Inr receipt,
                  self\<lparr>ad_nonces := nm\<rparr>, sent)))"

text \<open>The provider to use: the best of the pool, if there is one.\<close>

definition get_provider_with_rotation ::
  "ethers \<Rightarrow> int \<Rightarrow> (string \<Rightarrow> bool \<times> u128) \<Rightarrow> evm_adapter \<Rightarrow> evm_adapter \<times> (evm_error + string)" where
  "get_provider_with_rotation eth now probe self =
     (case ad_rpc_pool self of
        Some pool \<Rightarrow>
          (let (pool, best) = get_best_url now probe pool in
           (self\<lparr>ad_rpc_pool := Some pool\<rparr>,
            case best of
              None \<Rightarrow> Inl Pool_failed
            | Some url \<Rightarrow> if http_url eth url then Inr url else Inl (No_rpc url)))
      | None \<Rightarrow> (self, Inr (ad_provider self)))"

section \<open>Buying with a bound on the slippage\<close>

text \<open>\<open>(slippage * 100.0) as u64\<close> hundredths of a percent are taken off.\<close>

definition slippage_points :: "f64 \<Rightarrow> u256" where
  "slippage_points slippage = of_nat (f64_as_uint (2 ^ 64) (f64_mul slippage (Fin 100)))"

definition min_out :: "u256 \<Rightarrow> f64 \<Rightarrow> u256 res" where
  "min_out amount_out slippage =
     rbind (mul_ov amount_out (slippage_points slippage)) (\<lambda>p.
     rbind (div_ov p 10000) (\<lambda>q. sub_ov amount_out q))"

definition unsupported_swap_text :: "string \<Rightarrow> string" where
  "unsupported_swap_text swap_fn =
     ''H'' @ [CHR 0xC3, CHR 0xA0] @ ''m swap kh'' @ [CHR 0xC3, CHR 0xB4] @ ''ng ''
     @ [CHR 0xC4, CHR 0x91, CHR 0xC6, CHR 0xB0, CHR 0xE1, CHR 0xBB, CHR 0xA3] @ ''c h''
     @ [CHR 0xE1, CHR 0xBB, CHR 0x97] @ '' tr'' @ [CHR 0xE1, CHR 0xBB, CHR 0xA3] @ '': '' @ swap_fn"

text \<open>
  What the retried closure depends on: \<open>bt_send\<close> the answer of the node to attempt \<open>k\<close>, \<open>bt_no_method\<close>
  the library's text for a call it cannot encode, \<open>bt_units\<close> its \<open>parse_units(fee, "gwei")\<close>, and
  \<open>bt_hash\<close> the debug text of a hash.
\<close>

record 'h buy_env =
  bt_send :: "nat \<Rightarrow> eth_call \<Rightarrow> string + 'h"
  bt_no_method :: "string \<Rightarrow> string"
  bt_units :: "f64 \<Rightarrow> u256 option"
  bt_hash :: "'h \<Rightarrow> string"

definition priority_fee :: "'h buy_env \<Rightarrow> evm_config \<Rightarrow> u256" where
  "priority_fee bt config =
     (case cf_max_priority_fee config of
        Some fee \<Rightarrow> (case bt_units bt fee of Some u \<Rightarrow> u | None \<Rightarrow> 1500000000)
      | None \<Rightarrow> 1500000000)"

definition buy_attempt ::
  "ethers \<Rightarrow> 'h buy_env \<Rightarrow> evm_config \<Rightarrow> abi \<Rightarrow> address \<Rightarrow> local_wallet \<Rightarrow> address \<Rightarrow> u256 \<Rightarrow> address list \<Rightarrow> u64 \<Rightarrow> u256
     \<Rightarrow> nat \<Rightarrow> u256 option \<Rightarrow> eth_call list \<Rightarrow> (eth_call list \<times> (string + string)) res" where
  "buy_attempt eth bt config router_abi router_addr client addr min_amount_out path deadline amount k gas_price sent =
     (let swap_fn = cf_eth_to_token_swap_fn config in
      if swap_fn \<noteq> ''swapExactETHForTokens'' \<and> swap_fn \<noteq> ''swapExactAVAXForTokens''
      then Inr (sent, Inl (unsupported_swap_text swap_fn))
      else (case contract_method eth router_abi router_addr (Some client) swap_fn
                   [Uint min_amount_out, Addrs path, Addr addr, Uint (ucast deadline)] of
              Inl e \<Rightarrow> Inr (sent, Inl (bt_no_method bt swap_fn))
            | Inr c \<Rightarrow>
                let c = c\<lparr>call_value := Some amount\<rparr>;
                    c = (case gas_price of
                           None \<Rightarrow> c
                         | Some gp \<Rightarrow>
                             if cf_eip1559_supported config
                             then c\<lparr>call_gas_price := Some gp, call_priority_fee := Some (priority_fee bt config)\<rparr>
                             else c\<lparr>call_gas_price := Some gp\<rparr>)
                in Inr (sent @ [c],
                        case bt_send bt k c of Inl e \<Rightarrow> Inl e | Inr h \<Rightarrow> Inr (bt_hash bt h))))"

text \<open>\<open>secs\<close> is the time in seconds, \<open>None\<close> before the epoch.\<close>

definition swap_eth_for_tokens ::
  "ethers \<Rightarrow> ('h, 'r) node \<Rightarrow> 'h buy_env \<Rightarrow> u64 option \<Rightarrow> u256 \<Rightarrow> string \<Rightarrow> f64 \<Rightarrow> evm_adapter
     \<Rightarrow> ((evm_error + string) \<times> eth_call list) res" where
  "swap_eth_for_tokens eth nd bt secs amount token_address slippage self =
     (case rbind (parse_addr eth ''token'' token_address) (\<lambda>token_addr.
           rbind (get_native_to_token_path eth token_address self) (\<lambda>path.
           rbind (get_client self) (\<lambda>client.
           rbind (parse_addr eth ''router'' (cf_router_address (ad_config self))) (\<lambda>router_addr.
           rbind (get_abi ''router'' self) (\<lambda>router_abi.
           rbind (get_amounts_out eth nd amount path self) (\<lambda>amounts.
           Inr (path, client, router_addr, router_abi, amounts))))))) of
        Inl e \<Rightarrow> Inr (Inl e, [])
      | Inr (path, client, router_addr, router_abi, amounts) \<Rightarrow>
          if 1 < length amounts
          then rbind (min_out (amounts ! (length amounts - 1)) slippage) (\<lambda>min_amount_out.
            case ad_wallet self of
              None \<Rightarrow> Inr (Inl No_wallet, [])
            | Some wallet \<Rightarrow>
                (case secs of
                   None \<Rightarrow> Inr (Inl (Node_failed ''clock''), [])
                 | Some s \<Rightarrow>
                     let deadline = s + 1200 in
                     rbind (retry_with_state
                              (buy_attempt eth bt (ad_config self) router_abi router_addr client (lw_address wallet)
                                 min_amount_out path deadline amount)
                              3 0 (Some (u256_of_f64 eth (cf_default_gas_price (ad_config self)))) []) (\<lambda>(sent, r).
                     Inr (case r of Inl err \<Rightarrow> Inl (Gave_up err) | Inr h \<Rightarrow> Inr h, sent))))
          else Inr (Inl Bad_path, []))"

section \<open>The chains\<close>

datatype chain_adapter =
    Ethereum evm_adapter | BSC evm_adapter | Avalanche evm_adapter | Base evm_adapter | Monad evm_adapter
  | Arbitrum evm_adapter | Optimism evm_adapter | Polygon evm_adapter | Custom string evm_adapter

text \<open>The macro \<open>chain_variant_match\<close>: every method of the enumeration is the adapter's own.\<close>

fun chain_variant_match :: "chain_adapter \<Rightarrow> (evm_adapter \<Rightarrow> 'a) \<Rightarrow> 'a" where
  "chain_variant_match (Ethereum a) body = body a"
| "chain_variant_match (BSC a) body = body a"
| "chain_variant_match (Avalanche a) body = body a"
| "chain_variant_match (Base a) body = body a"
| "chain_variant_match (Monad a) body = body a"
| "chain_variant_match (Arbitrum a) body = body a"
| "chain_variant_match (Optimism a) body = body a"
| "chain_variant_match (Polygon a) body = body a"
| "chain_variant_match (Custom n a) body = body a"

definition enum_get_config :: "chain_adapter \<Rightarrow> evm_config" where
  "enum_get_config c = chain_variant_match c ad_config"

definition get_chain_name :: "chain_adapter \<Rightarrow> string" where
  "get_chain_name c = cf_name (enum_get_config c)"

definition enum_display :: "chain_adapter \<Rightarrow> string" where
  "enum_display c = ''ChainAdapter('' @ get_chain_name c @ '')''"

text \<open>\<open>PartialEq\<close> and \<open>Hash\<close> read nothing but the name.\<close>

definition enum_eq :: "chain_adapter \<Rightarrow> chain_adapter \<Rightarrow> bool" where
  "enum_eq c d \<longleftrightarrow> get_chain_name c = get_chain_name d"

definition enum_hash :: "(string \<Rightarrow> u64) \<Rightarrow> chain_adapter \<Rightarrow> u64" where
  "enum_hash hash c = hash (get_chain_name c)"

type_synonym evm_registry = "string \<rightharpoonup> chain_adapter"

definition new_evm_registry :: evm_registry where
  "new_evm_registry = Map.empty"

definition registry_register :: "string \<Rightarrow> chain_adapter \<Rightarrow> evm_registry \<Rightarrow> evm_registry" where
  "registry_register name adapter r = r(lower name \<mapsto> adapter)"

definition registry_get :: "string \<Rightarrow> evm_registry \<Rightarrow> chain_adapter option" where
  "registry_get name r = r (lower name)"

text \<open>The constructors of the five chains the factory knows are parameters here; they fail or answer an adapter.\<close>

definition create_chain_adapter ::
  "evm_error + evm_adapter \<Rightarrow> evm_error + evm_adapter \<Rightarrow> evm_error + evm_adapter \<Rightarrow> evm_error + evm_adapter
     \<Rightarrow> evm_error + evm_adapter \<Rightarrow> string \<Rightarrow> (evm_error option + chain_adapter)" where
  "create_chain_adapter eth bsc base avalanche monad chain_name =
     (let make = (\<lambda>con r. case r of Inl e \<Rightarrow> Inl (Some e) | Inr a \<Rightarrow> Inr (con a)); n = lower chain_name in
      if n = ''ethereum'' then make Ethereum eth
      else if n = ''bsc'' then make BSC bsc
      else if n = ''base'' then make Base base
      else if n = ''avalanche'' then make Avalanche avalanche
      else if n = ''monad'' then make Monad monad
      else Inl None)"

text \<open>
  The handling of a failed transaction, by the class the (unavailable) module of errors gives it:
  \<open>Inr ()\<close> asks for another try.
\<close>

datatype tx_error_class =
    Tx_timeout | Tx_underpriced | Tx_insufficient_funds | Tx_nonce_too_low | Tx_reverted string
  | Tx_other string | Tx_unknown string

datatype tx_failure =
    Retries_used_up tx_error_class | No_funds | Reverted string

definition handle_transaction_error :: "tx_error_class \<Rightarrow> u8 \<Rightarrow> u8 \<Rightarrow> tx_failure + unit" where
  "handle_transaction_error c retry_count max_retries =
     (case c of
        Tx_insufficient_funds \<Rightarrow> Inl No_funds
      | Tx_reverted reason \<Rightarrow> Inl (Reverted reason)
      | _ \<Rightarrow> if retry_count < max_retries then Inr () else Inl (Retries_used_up c))"

section \<open>Lemmas\<close>

lemma register_get: "registry_get n (registry_register m a r) = (if lower n = lower m then Some a else registry_get n r)"
  by (simp add: registry_get_def registry_register_def)

text \<open>The amount asked for: the quoted one less the slippage, rounded up; a slippage of more than the
  whole, or a product beyond the width, panics.\<close>

lemma slippage_points_nat: "unat (slippage_points s) = f64_as_uint (2 ^ 64) (f64_mul s (Fin 100))"
proof -
  have "f64_as_uint (2 ^ 64) (f64_mul s (Fin 100)) < (2 :: nat) ^ 64" by (rule f64_as_uint_less) simp
  then show ?thesis by (simp add: slippage_points_def unsigned_of_nat take_bit_nat_eq_self)
qed

lemma min_out_exact:
  "min_out out s = Inr m \<longleftrightarrow>
     unat out * unat (slippage_points s) < 2 ^ 256
     \<and> unat out = unat m + unat out * unat (slippage_points s) div 10000"
  (is "_ \<longleftrightarrow> ?fits \<and> _")
proof (cases ?fits)
  case True
  then have p: "mul_ov out (slippage_points s) = Inr (out * slippage_points s)" by (simp add: mul_ov_def)
  then have u: "unat (out * slippage_points s) = unat out * unat (slippage_points s)" by (simp add: ovf)
  have "unat (out * slippage_points s div 10000) = unat out * unat (slippage_points s) div 10000"
    by (simp only: unat_div u) simp
  with True p show ?thesis by (simp add: min_out_def div_ov_def sub_ov_Inr)
next
  case False
  then have "mul_ov out (slippage_points s) = Inl Overflow" by (simp add: mul_ov_Inl)
  with False show ?thesis by (simp add: min_out_def)
qed

lemma min_out_le: "min_out out s = Inr m \<Longrightarrow> m \<le> out"
  by (simp add: min_out_exact word_le_nat_alt)

lemma too_much_slippage:
  assumes "10000 < unat (slippage_points s)" and "10000 \<le> unat out"
  shows "min_out out s = Inl Overflow"
proof -
  have "unat out * 10001 \<le> unat out * unat (slippage_points s)" using assms(1) by (intro mult_left_mono) auto
  then have "unat out * 10001 div 10000 \<le> unat out * unat (slippage_points s) div 10000" by (rule div_le_mono)
  moreover have "unat out < unat out * 10001 div 10000" using assms(2) by simp
  ultimately have "min_out out s \<noteq> Inr m" for m by (simp add: min_out_exact)
  moreover have "min_out out s = Inl e \<Longrightarrow> e = Overflow" for e
    by (auto simp: min_out_def rbind_eq_Inl ovf div_ov_def)
  ultimately show ?thesis by (cases "min_out out s") auto
qed

text \<open>A cached nonce that has not expired is handed out and counted on, and stays so.\<close>

lemma next_cached:
  "nonces nm a = Some n \<Longrightarrow> \<not> expired now nm a \<Longrightarrow> unat n + 1 < 2 ^ 256 \<Longrightarrow>
   get_next_nonce now chain a nm = Inr (nm\<lparr>nonces := (nonces nm)(a \<mapsto> n + 1)\<rparr>, Some n)"
  by (simp add: get_next_nonce_def add_ov_def)

lemma expired_nonces [simp]: "expired now (nm\<lparr>nonces := x\<rparr>) a = expired now nm a"
  by (simp add: expired_def split: option.split)

text \<open>Every attempt hands the node at most one transaction, with the body it was given.\<close>

lemma send_attempt_sent:
  assumes "send_attempt eth env config w gas_price tx k g (nm, sent) = Inr ((nm', sent'), r)"
  shows "sent' = sent \<or> (\<exists>n p. sent' = sent @ [tx\<lparr>tt_nonce := Some n, tt_gas_price := Some p\<rparr>])"
proof -
  obtain price where price: "(case g of Some p \<Rightarrow> p | None \<Rightarrow>
      (case gas_price of Some gp \<Rightarrow> ucast gp | None \<Rightarrow> u256_of_f64 eth (cf_default_gas_price config))) = price"
    by blast
  note eq = assms [unfolded send_attempt_def prod.case price Let_def]
  then obtain nm1 next_nonce where nn: "get_next_nonce (at_clock env k) (at_count env k) w nm = Inr (nm1, next_nonce)"
    by auto
  show ?thesis
  proof (cases next_nonce)
    case (Some n)
    let ?t = "tx\<lparr>tt_nonce := Some n, tt_gas_price := Some price\<rparr>"
    have "sent' = sent @ [?t]"
    proof (cases "at_send env k ?t")
      case (Inr h)
      with eq nn Some show ?thesis
        by (cases "at_receipt env k h") (auto split: option.splits)
    qed (use eq nn Some in auto)
    then show ?thesis by blast
  qed (use eq nn in auto)
qed

lemma send_attempt_inv:
  assumes "send_attempt eth env config w gas_price tx k g s = Inr (s', r)"
    and "length (snd s) \<le> k \<and> (\<forall>t\<in>set (snd s). tt_body t = tt_body tx \<and> tt_gas t = tt_gas tx)"
  shows "length (snd s') \<le> k + 1 \<and> (\<forall>t\<in>set (snd s'). tt_body t = tt_body tx \<and> tt_gas t = tt_gas tx)"
  using send_attempt_sent [of eth env config w gas_price tx k g "fst s" "snd s" "fst s'" "snd s'" r] assms by auto

lemma send_bounded:
  assumes "send_transaction_with_retry eth env tx gas_limit gas_price self = Inr (r, self', sent)"
  shows "length sent \<le> 3 \<and> (\<forall>t\<in>set sent. tt_body t = tt_body tx)"
proof (cases "get_client self")
  case (Inr client)
  let ?w = "case ad_wallet self of Some w \<Rightarrow> lw_address w | None \<Rightarrow> 0"
  let ?tx = "case gas_limit of Some l \<Rightarrow> tx\<lparr>tt_gas := Some l\<rparr> | None \<Rightarrow> tx"
  let ?I = "\<lambda>k (s :: nonce_manager \<times> 'a typed_tx list). length (snd s) \<le> k \<and> (\<forall>t\<in>set (snd s). tt_body t = tt_body ?tx \<and> tt_gas t = tt_gas ?tx)"
  from assms Inr obtain nm r' where
    run: "retry_with_state (send_attempt eth env (ad_config self) ?w gas_price ?tx) 3 0
            (map_option ucast gas_price) (ad_nonces self, []) = Inr ((nm, sent), r')"
    by (auto simp: send_transaction_with_retry_def Let_def)
  have "\<exists>n. 0 < n \<and> n \<le> 3 \<and> ?I n (nm, sent)"
    by (rule retry_with_state_inv [where I = ?I, OF _ run]) (erule (1) send_attempt_inv [rotated], simp_all)
  moreover have "tt_body ?tx = tt_body tx" by (simp split: option.split)
  ultimately show ?thesis by auto
qed (use assms in \<open>simp add: send_transaction_with_retry_def\<close>)

text \<open>An attempt whose transaction is accepted and whose receipt is lost leaves nothing but a used nonce.\<close>

lemma lost_attempt:
  assumes "nonces nm w = Some n" and "\<not> expired (at_clock env k) nm w" and "unat n + 1 < 2 ^ 256"
    and "\<And>t. at_send env k t = Inr (h k)" and "at_receipt env k (h k) = Inl e"
  shows "send_attempt eth env config w gas_price tx k g (nm, sent)
     = Inr ((nm\<lparr>nonces := (nonces nm)(w \<mapsto> n + 1)\<rparr>,
             sent @ [tx\<lparr>tt_nonce := Some n,
                        tt_gas_price := Some (case g of Some p \<Rightarrow> p | None \<Rightarrow>
                          (case gas_price of Some gp \<Rightarrow> ucast gp | None \<Rightarrow> u256_of_f64 eth (cf_default_gas_price config)))\<rparr>]),
            Inl e)"
  using assms by (simp add: send_attempt_def next_cached Let_def)

lemma retry_connection_error:
  assumes "f k g s = Inr (s', Inl e)" and "classify_error e = RPCConnection e" and "k + 1 < m"
  shows "retry_with_state f m k g s = retry_with_state f m (k + 1) g s'"
  using assms by (subst retry_with_state.simps) (cases g; simp add: Let_def adjust_gas_for_retry_def)

lemma retry_last_error:
  assumes "f k g s = Inr (s', Inl e)" and "m \<le> k + 1"
  shows "retry_with_state f m k g s = Inr (s', Inl (classify_error e))"
  using assms by (simp add: retry_with_state.simps [of f m k g s] Let_def)

text \<open>Every purchase sent carries the quoted amount less the slippage.\<close>

lemma buy_attempt_inv:
  assumes "buy_attempt eth bt config abi router client a m path d amount k g s = Inr (s', r)"
    and "length s \<le> k \<and> (\<forall>c\<in>set s. call_args c = [Uint m, Addrs path, Addr a, Uint (ucast d)] \<and> call_value c = Some amount)"
  shows "length s' \<le> k + 1 \<and> (\<forall>c\<in>set s'. call_args c = [Uint m, Addrs path, Addr a, Uint (ucast d)] \<and> call_value c = Some amount)"
  using assms by (auto simp: buy_attempt_def contract_method_def Let_def split: if_splits option.splits)

lemma prepared:
  "(case m of Inl e \<Rightarrow> Inr (Inl e, []) | Inr x \<Rightarrow> F x) = Inr (r, sent) \<Longrightarrow> c \<in> set sent \<Longrightarrow>
   \<exists>x. m = Inr x \<and> F x = Inr (r, sent)"
  by (cases m) auto

lemma purchases_sent:
  assumes "swap_eth_for_tokens eth nd bt secs amount token slippage self = Inr (r, sent)" and "c \<in> set sent"
  shows "length sent \<le> 3 \<and> call_value c = Some amount
    \<and> (\<exists>path amounts m a d. get_amounts_out eth nd amount path self = Inr amounts
         \<and> min_out (amounts ! (length amounts - 1)) slippage = Inr m
         \<and> call_args c = [Uint m, Addrs path, Addr a, Uint d])"
proof -
  from assms obtain path client router abi amounts m a d r' where
    quote: "get_amounts_out eth nd amount path self = Inr amounts"
    and m: "min_out (amounts ! (length amounts - 1)) slippage = Inr m"
    and run: "retry_with_state (buy_attempt eth bt (ad_config self) abi router client a m path d amount)
        3 0 (Some (u256_of_f64 eth (cf_default_gas_price (ad_config self)))) [] = Inr (sent, r')"
    by (cases "ad_wallet self"; cases secs)
      (auto simp: swap_eth_for_tokens_def Let_def dest!: prepared split: if_splits)
  let ?I = "\<lambda>k s. length s \<le> k \<and> (\<forall>c\<in>set s. call_args c = [Uint m, Addrs path, Addr a, Uint (ucast d)]
                    \<and> call_value c = Some amount)"
  have "\<exists>n. 0 < n \<and> n \<le> 3 \<and> ?I n sent"
    by (rule retry_with_state_inv [where I = ?I, OF _ run]) (erule (1) buy_attempt_inv [rotated], simp_all)
  with quote m assms(2) show ?thesis by (metis (no_types, lifting) le_trans)
qed

section \<open>Properties\<close>

text \<open>C8. A receipt that is lost means the transaction is sent again. The conditions: a wallet is set, its
  nonce is cached, unexpired at every attempt and at least three below the largest \<open>u256\<close>, and the caller
  gives a gas price. When then the node accepts every transaction and each wait for a receipt fails with a
  connection error, the same transaction is handed to the node three times, under three consecutive nonces,
  so that all three can be mined. (After an expiry the nonce is asked of the node again.)\<close>

theorem lost_receipt_resends:
  assumes "ad_wallet self = Some w" and "nonces (ad_nonces self) (lw_address w) = Some n" and "unat n + 3 < 2 ^ 256"
    and "\<And>k. \<not> expired (at_clock env k) (ad_nonces self) (lw_address w)"
    and "\<And>k t. at_send env k t = Inr (h k)" and "\<And>k. at_receipt env k (h k) = Inl e"
    and "classify_error e = RPCConnection e"
  shows "send_transaction_with_retry eth env tx None (Some price) self
     = Inr (Inl (Gave_up (RPCConnection e)),
            self\<lparr>ad_nonces := (ad_nonces self)\<lparr>nonces := (nonces (ad_nonces self))(lw_address w \<mapsto> n + 3)\<rparr>\<rparr>,
            [tx\<lparr>tt_nonce := Some n, tt_gas_price := Some (ucast price)\<rparr>,
             tx\<lparr>tt_nonce := Some (n + 1), tt_gas_price := Some (ucast price)\<rparr>,
             tx\<lparr>tt_nonce := Some (n + 2), tt_gas_price := Some (ucast price)\<rparr>])"
proof -
  let ?a = "lw_address w" and ?nm = "ad_nonces self" and ?g = "Some (ucast price) :: u256 option"
  let ?f = "send_attempt eth env (ad_config self) ?a (Some price) tx"
  let ?nm' = "\<lambda>i. ?nm\<lparr>nonces := (nonces ?nm)(?a \<mapsto> n + i)\<rparr>"
  let ?t = "\<lambda>i. tx\<lparr>tt_nonce := Some (n + i), tt_gas_price := Some (ucast price)\<rparr>"
  have small: "unat (n + 1) = unat n + 1" "unat (n + 2) = unat n + 2"
    using assms(3) by (simp_all add: unat_word_ariths)
  have "?f 0 ?g (?nm, []) = Inr ((?nm' 1, [?t 0]), Inl e)"
    by (subst lost_attempt [OF assms(2,4) _ assms(5,6)]) (use assms(3) in simp_all)
  moreover have "?f 1 ?g (?nm' 1, [?t 0]) = Inr ((?nm' 2, [?t 0, ?t 1]), Inl e)"
    by (subst lost_attempt [where n = "n + 1", OF _ _ _ assms(5,6)]) (use assms(3,4) small in \<open>simp_all add: add.assoc\<close>)
  moreover have "?f 2 ?g (?nm' 2, [?t 0, ?t 1]) = Inr ((?nm' 3, [?t 0, ?t 1, ?t 2]), Inl e)"
    by (subst lost_attempt [where n = "n + 2", OF _ _ _ assms(5,6)]) (use assms(3,4) small in \<open>simp_all add: add.assoc\<close>)
  ultimately have "retry_with_state ?f 3 0 ?g (?nm, []) = Inr ((?nm' 3, [?t 0, ?t 1, ?t 2]), Inl (RPCConnection e))"
    using assms(7) by (simp add: retry_connection_error retry_last_error numeral_2_eq_2)
  with assms(1) show ?thesis
    by (simp add: send_transaction_with_retry_def get_client_def get_wallet_with_chain_id_def Let_def)
qed

definition demo_attempts :: "(nat, nat) attempts" where
  "demo_attempts =
     \<lparr> at_clock = (\<lambda>k. 2000), at_count = (\<lambda>k. Map.empty), at_count_error = (\<lambda>k. ''down''), at_later = (\<lambda>k. 3000),
       at_later_count = (\<lambda>k. Map.empty), at_send = (\<lambda>k t. Inr k),
       at_receipt = (\<lambda>k h. Inl ''connection closed'') \<rparr>"

definition demo_wallet :: local_wallet where
  "demo_wallet = \<lparr>lw_address = 9, lw_chain_id = 1\<rparr>"

definition demo_sender :: evm_adapter where
  "demo_sender = (set_wallet demo_wallet (demo_adapter ethereum_config))
     \<lparr>ad_nonces := \<lparr>nonces = [9 \<mapsto> 41], cache_duration = 60000, last_updates = [9 \<mapsto> 1000]\<rparr>\<rparr>"

definition demo_tx :: "nat \<Rightarrow> u256 \<Rightarrow> nat typed_tx" where
  "demo_tx body nonce = \<lparr>tt_body = body, tt_gas = None, tt_gas_price = Some 20, tt_nonce = Some nonce\<rparr>"

theorem lost_receipt_resends_witness:
  "\<exists>self'. send_transaction_with_retry demo_ethers demo_attempts (demo_tx 5 0) None (Some 20) demo_sender
   = Inr (Inl (Gave_up (RPCConnection ''connection closed'')), self', [demo_tx 5 41, demo_tx 5 42, demo_tx 5 43])"
proof -
  have "ad_wallet demo_sender = Some demo_wallet" by (simp add: demo_sender_def set_wallet_def)
  moreover have "nonces (ad_nonces demo_sender) (lw_address demo_wallet) = Some 41"
    by (simp add: demo_sender_def demo_wallet_def)
  moreover have "unat (41 :: u256) + 3 < 2 ^ 256" by simp
  moreover have "\<not> expired (at_clock demo_attempts k) (ad_nonces demo_sender) (lw_address demo_wallet)" for k
    by (simp add: demo_sender_def demo_attempts_def expired_def demo_wallet_def)
  moreover have "at_send demo_attempts k t = Inr k" "at_receipt demo_attempts k k = Inl ''connection closed''" for k t
    by (simp_all add: demo_attempts_def)
  moreover have "classify_error ''connection closed'' = RPCConnection ''connection closed''" by code_simp
  ultimately show ?thesis
    using lost_receipt_resends [of demo_sender demo_wallet 41 demo_attempts "\<lambda>k. k" "''connection closed''" demo_ethers "demo_tx 5 0" 20]
    by (simp add: demo_tx_def)
qed

end
