(* ===== verification/LegacyAdapters.thy ===== *)
theory LegacyAdapters
  imports EvmAdapters
begin

text \<open>
  The adapters with a file each: \<^verbatim>\<open>ethereum.rs\<close>, \<^verbatim>\<open>bsc.rs\<close>, \<^verbatim>\<open>avalanche.rs\<close>, \<^verbatim>\<open>monad.rs\<close> and
  \<^verbatim>\<open>base_adapter.rs\<close> of \<^verbatim>\<open>snipebot/src/chain_adapters/\<close>. The first four have the same methods over their
  own configuration, and Avalanche's swaps have other names: the methods are written once, for
  Ethereum, and each of the other three files is an instance.
\<close>

section \<open>The four adapters\<close>

text \<open>The fields these files give to \<open>ChainConfig\<close>; the names of the swaps are not among them.\<close>

record legacy_config =
  lc_name :: string
  lc_chain_id :: u64
  lc_rpc_url :: string
  lc_native_symbol :: string
  lc_wrapped_native_token :: string
  lc_router_address :: string
  lc_factory_address :: string
  lc_explorer_url :: string
  lc_block_time :: u64
  lc_default_gas_limit :: u64
  lc_default_gas_price :: f64
  lc_eip1559_supported :: bool
  lc_max_priority_fee :: "f64 option"

record legacy_adapter =
  la_provider :: string
  la_wallet :: "local_wallet option"
  la_config :: legacy_config

definition make_legacy :: "ethers \<Rightarrow> legacy_config \<Rightarrow> evm_error + legacy_adapter" where
  "make_legacy eth config =
     (if http_url eth (lc_rpc_url config)
      then Inr \<lparr> la_provider = lc_rpc_url config, la_wallet = None, la_config = config \<rparr>
      else Inl (No_rpc (lc_rpc_url config)))"

definition la_set_wallet :: "local_wallet \<Rightarrow> legacy_adapter \<Rightarrow> legacy_adapter" where
  "la_set_wallet w self = self\<lparr>la_wallet := Some w\<rparr>"

text \<open>The client with the wallet, if there is one, for the chain of the configuration.\<close>

definition la_client :: "legacy_adapter \<Rightarrow> evm_error + local_wallet" where
  "la_client self =
     (case la_wallet self of
        None \<Rightarrow> Inl No_wallet
      | Some w \<Rightarrow> Inr (w\<lparr>lw_chain_id := lc_chain_id (la_config self)\<rparr>))"

definition eth_get_native_balance ::
  "ethers \<Rightarrow> (address \<Rightarrow> string + u256) \<Rightarrow> string \<Rightarrow> legacy_adapter \<Rightarrow> evm_error + u256" where
  "eth_get_native_balance eth balance addr self =
     rbind (parse_addr eth ''wallet'' addr) (\<lambda>a. case balance a of Inl e \<Rightarrow> Inl (Node_failed e) | Inr b \<Rightarrow> Inr b)"

definition eth_get_token_balance ::
  "ethers \<Rightarrow> ('h, 'r) node \<Rightarrow> string \<Rightarrow> string \<Rightarrow> legacy_adapter \<Rightarrow> evm_error + u256" where
  "eth_get_token_balance eth nd token_address wallet_address self =
     rbind (parse_addr eth ''token'' token_address) (\<lambda>token_addr.
     rbind (parse_addr eth ''wallet'' wallet_address) (\<lambda>wallet_addr.
     rbind (load_abi eth Erc20_file) (\<lambda>token_abi.
     view ''balanceOf'' (view_uint nd)
       (contract_method eth token_abi token_addr None ''balanceOf'' [Addr wallet_addr]))))"

definition eth_approve_token ::
  "ethers \<Rightarrow> ('h, 'r) node \<Rightarrow> string \<Rightarrow> string \<Rightarrow> u256 \<Rightarrow> legacy_adapter
     \<Rightarrow> (evm_error + 'r option option) \<times> eth_call list" where
  "eth_approve_token eth nd token_address spender_address amount self =
     send_and_wait nd
       (rbind (parse_addr eth ''token'' token_address) (\<lambda>token_addr.
        rbind (parse_addr eth ''spender'' spender_address) (\<lambda>spender_addr.
        rbind (la_client self) (\<lambda>client.
        rbind (load_abi eth Erc20_file) (\<lambda>token_abi.
        contract_method eth token_abi token_addr (Some client) ''approve'' [Addr spender_addr, Uint amount])))))"

text \<open>The swaps, over the name of the router's function.\<close>

definition swap_eth_via ::
  "string \<Rightarrow> ethers \<Rightarrow> ('h, 'r) node \<Rightarrow> string \<Rightarrow> u256 \<Rightarrow> u256 \<Rightarrow> string \<Rightarrow> u64 \<Rightarrow> u64 option \<Rightarrow> u64 option
     \<Rightarrow> legacy_adapter \<Rightarrow> (evm_error + 'r option option) \<times> eth_call list" where
  "swap_eth_via fn eth nd token_address amount_in min_amount_out recipient deadline gas_limit gas_price self =
     send_and_wait nd
       (rbind (parse_addr eth ''token'' token_address) (\<lambda>token_addr.
        rbind (parse_addr eth ''recipient'' recipient) (\<lambda>recipient_addr.
        rbind (la_client self) (\<lambda>client.
        rbind (parse_addr eth ''router'' (lc_router_address (la_config self))) (\<lambda>router_addr.
        rbind (load_abi eth Router_file) (\<lambda>router_abi.
        rbind (parse_addr eth ''wrapped'' (lc_wrapped_native_token (la_config self))) (\<lambda>weth_addr.
        rbind (contract_method eth router_abi router_addr (Some client) fn
                 [Uint min_amount_out, Addrs [weth_addr, token_addr], Addr recipient_addr, Uint (ucast deadline)])
          (\<lambda>tx. Inr (with_gas gas_limit gas_price (tx\<lparr>call_value := Some amount_in\<rparr>))))))))))"

definition swap_tokens_via ::
  "string \<Rightarrow> ethers \<Rightarrow> ('h, 'r) node \<Rightarrow> string \<Rightarrow> u256 \<Rightarrow> u256 \<Rightarrow> string \<Rightarrow> u64 \<Rightarrow> u64 option \<Rightarrow> u64 option
     \<Rightarrow> legacy_adapter \<Rightarrow> (evm_error + 'r option option) \<times> eth_call list" where
  "swap_tokens_via fn eth nd token_address amount_in min_amount_out recipient deadline gas_limit gas_price self =
     send_and_wait nd
       (rbind (parse_addr eth ''token'' token_address) (\<lambda>token_addr.
        rbind (parse_addr eth ''recipient'' recipient) (\<lambda>recipient_addr.
        rbind (la_client self) (\<lambda>client.
        rbind (parse_addr eth ''router'' (lc_router_address (la_config self))) (\<lambda>router_addr.
        rbind (load_abi eth Router_file) (\<lambda>router_abi.
        rbind (parse_addr eth ''wrapped'' (lc_wrapped_native_token (la_config self))) (\<lambda>weth_addr.
        rbind (contract_method eth router_abi router_addr (Some client) fn
                 [Uint amount_in, Uint min_amount_out, Addrs [token_addr, weth_addr], Addr recipient_addr,
                  Uint (ucast deadline)])
          (\<lambda>tx. Inr (with_gas gas_limit gas_price tx)))))))))"

definition eth_swap_exact_eth_for_tokens where
  "eth_swap_exact_eth_for_tokens = swap_eth_via ''swapExactETHForTokens''"

definition eth_swap_exact_tokens_for_eth where
  "eth_swap_exact_tokens_for_eth = swap_tokens_via ''swapExactTokensForETH''"

definition eth_get_amounts_out ::
  "ethers \<Rightarrow> ('h, 'r) node \<Rightarrow> u256 \<Rightarrow> address list \<Rightarrow> legacy_adapter \<Rightarrow> evm_error + u256 list" where
  "eth_get_amounts_out eth nd amount_in path self =
     rbind (parse_addr eth ''router'' (lc_router_address (la_config self))) (\<lambda>router_addr.
     rbind (load_abi eth Router_file) (\<lambda>router_abi.
     view ''getAmountsOut'' (view_uints nd)
       (contract_method eth router_abi router_addr None ''getAmountsOut'' [Uint amount_in, Addrs path])))"

definition eth_get_pair ::
  "ethers \<Rightarrow> ('h, 'r) node \<Rightarrow> string \<Rightarrow> string \<Rightarrow> legacy_adapter \<Rightarrow> evm_error + string option" where
  "eth_get_pair eth nd token_a token_b self =
     rbind (parse_addr eth ''token A'' token_a) (\<lambda>token_a_addr.
     rbind (parse_addr eth ''token B'' token_b) (\<lambda>token_b_addr.
     rbind (parse_addr eth ''factory'' (lc_factory_address (la_config self))) (\<lambda>factory_addr.
     rbind (load_abi eth Factory_file) (\<lambda>factory_abi.
     rbind (view ''getPair'' (view_address nd)
              (contract_method eth factory_abi factory_addr None ''getPair'' [Addr token_a_addr, Addr token_b_addr]))
       (\<lambda>pair_addr. Inr (if pair_addr = 0 then None else Some (debug_address eth pair_addr)))))))"

definition eth_get_native_to_token_path :: "ethers \<Rightarrow> string \<Rightarrow> legacy_adapter \<Rightarrow> address list" where
  "eth_get_native_to_token_path eth token_address self =
     (case from_str eth token_address of
        None \<Rightarrow> []
      | Some token_addr \<Rightarrow> (case from_str eth (lc_wrapped_native_token (la_config self)) of
                               None \<Rightarrow> [] | Some weth_addr \<Rightarrow> [weth_addr, token_addr]))"

definition eth_get_token_to_native_path :: "ethers \<Rightarrow> string \<Rightarrow> legacy_adapter \<Rightarrow> address list" where
  "eth_get_token_to_native_path eth token_address self =
     (case from_str eth token_address of
        None \<Rightarrow> []
      | Some token_addr \<Rightarrow> (case from_str eth (lc_wrapped_native_token (la_config self)) of
                               None \<Rightarrow> [] | Some weth_addr \<Rightarrow> [token_addr, weth_addr]))"

text \<open>Bundles and the watching of the mempool only log: nothing is sent, no callback is called.\<close>

definition eth_create_flashbots_bundle :: "'t list \<Rightarrow> legacy_adapter \<Rightarrow> (evm_error + unit) \<times> 't list" where
  "eth_create_flashbots_bundle txs self = (Inr (), [])"

definition eth_watch_pending_transactions :: "('t \<Rightarrow> 'e) \<Rightarrow> legacy_adapter \<Rightarrow> (evm_error + unit) \<times> 'e list" where
  "eth_watch_pending_transactions f self = (Inr (), [])"

text \<open>
  The methods with a retry in their name send once. A transaction is a request of which the gas limit
  and the price may be set; \<open>Tx_timed_out\<close> is the error of a missing receipt.
\<close>

record 'd raw_tx =
  rt_body :: 'd
  rt_gas :: "u64 option"
  rt_gas_price :: "u256 option"

datatype tx_send_error = Tx_timed_out | Tx_failed evm_error

definition send_raw ::
  "('d raw_tx \<Rightarrow> string + 'h) \<Rightarrow> ('h \<Rightarrow> string + 'r option) \<Rightarrow> 'd raw_tx \<Rightarrow> (tx_send_error + 'r) \<times> 'd raw_tx list" where
  "send_raw send receipt tx =
     (case send tx of
        Inl e \<Rightarrow> (Inl (Tx_failed (Send_failed e)), [tx])
      | Inr h \<Rightarrow> (case receipt h of
                    Inr (Some r) \<Rightarrow> (Inr r, [tx])
                  | Inr None \<Rightarrow> (Inl Tx_timed_out, [tx])
                  | Inl e \<Rightarrow> (Inl (Tx_failed (Receipt_failed e)), [tx])))"

definition eth_send_transaction_with_retry ::
  "('d raw_tx \<Rightarrow> string + 'h) \<Rightarrow> ('h \<Rightarrow> string + 'r option) \<Rightarrow> 'd raw_tx \<Rightarrow> u64 option \<Rightarrow> u64 option \<Rightarrow> legacy_adapter
     \<Rightarrow> (tx_send_error + 'r) \<times> 'd raw_tx list" where
  "eth_send_transaction_with_retry send receipt tx gas_limit gas_price self =
     (case la_client self of
        Inl e \<Rightarrow> (Inl (Tx_failed e), [])
      | Inr client \<Rightarrow>
          let tx = (case gas_limit of Some l \<Rightarrow> tx\<lparr>rt_gas := Some l\<rparr> | None \<Rightarrow> tx);
              tx = (case gas_price of Some p \<Rightarrow> tx\<lparr>rt_gas_price := Some (ucast p)\<rparr> | None \<Rightarrow> tx)
          in send_raw send receipt tx)"

definition eth_approve_token_with_retry ::
  "ethers \<Rightarrow> ('h, 'r) node \<Rightarrow> string \<Rightarrow> string \<Rightarrow> u256 \<Rightarrow> legacy_adapter
     \<Rightarrow> (tx_send_error + 'r option) \<times> eth_call list" where
  "eth_approve_token_with_retry eth nd token_address spender_address amount self =
     (case send_and_wait nd
        (rbind (parse_addr eth ''token'' token_address) (\<lambda>token_addr.
         rbind (parse_addr eth ''spender'' spender_address) (\<lambda>spender_addr.
         rbind (la_client self) (\<lambda>client.
         rbind (load_abi eth Erc20_file) (\<lambda>token_abi.
         contract_method eth token_abi token_addr (Some client) ''approve'' [Addr spender_addr, Uint amount]))))) of
        (Inl e, sent) \<Rightarrow> (Inl (Tx_failed e), sent)
      | (Inr r, sent) \<Rightarrow> (Inr (Option.bind r id), sent))"

definition new_ethereum_adapter :: "ethers \<Rightarrow> evm_error + legacy_adapter" where
  "new_ethereum_adapter eth = make_legacy eth
     \<lparr> lc_name = ''Ethereum'', lc_chain_id = 1, lc_rpc_url = ''https://eth.llamarpc.com'',
       lc_native_symbol = ''ETH'',
       lc_wrapped_native_token = ''0xC02aaA39b223FE8D0A0e5C4F27eAD9083C756Cc2'',
       lc_router_address = ''0x7a250d5630B4cF539739dF2C5dAcb4c659F2488D'',
       lc_factory_address = ''0x5C69bEe701ef814a2B6a3EDD4B1652CB9cc5aA6f'',
       lc_explorer_url = ''https://etherscan.io'', lc_block_time = 12000,
       lc_default_gas_limit = 21000, lc_default_gas_price = Fin 20, lc_eip1559_supported = True,
       lc_max_priority_fee = Some (Fin 2) \<rparr>"

section \<open>Binance Smart Chain\<close>

definition new_bsc_adapter :: "ethers \<Rightarrow> evm_error + legacy_adapter" where
  "new_bsc_adapter eth = make_legacy eth
     \<lparr> lc_name = ''Binance Smart Chain'', lc_chain_id = 56,
       lc_rpc_url = ''https://bsc-dataseed.binance.org'', lc_native_symbol = ''BNB'',
       lc_wrapped_native_token = ''0xbb4CdB9CBd36B01bD1cBaEBF2De08d9173bc095c'',
       lc_router_address = ''0x10ED43C718714eb63d5aA57B78B54704E256024E'',
       lc_factory_address = ''0xcA143Ce32Fe78f1f7019d7d551a6402fC5350c73'',
       lc_explorer_url = ''https://bscscan.com'', lc_block_time = 3000,
       lc_default_gas_limit = 21000, lc_default_gas_price = Fin 5, lc_eip1559_supported = False,
       lc_max_priority_fee = None \<rparr>"

definition bsc_get_native_balance where
  "bsc_get_native_balance = eth_get_native_balance"

definition bsc_get_token_balance where
  "bsc_get_token_balance = eth_get_token_balance"

definition bsc_approve_token where
  "bsc_approve_token = eth_approve_token"

definition bsc_swap_exact_eth_for_tokens where
  "bsc_swap_exact_eth_for_tokens = swap_eth_via ''swapExactETHForTokens''"

definition bsc_swap_exact_tokens_for_eth where
  "bsc_swap_exact_tokens_for_eth = swap_tokens_via ''swapExactTokensForETH''"

definition bsc_get_amounts_out where
  "bsc_get_amounts_out = eth_get_amounts_out"

definition bsc_get_pair where
  "bsc_get_pair = eth_get_pair"

definition bsc_get_native_to_token_path where
  "bsc_get_native_to_token_path = eth_get_native_to_token_path"

definition bsc_get_token_to_native_path where
  "bsc_get_token_to_native_path = eth_get_token_to_native_path"

definition bsc_create_flashbots_bundle where
  "bsc_create_flashbots_bundle = eth_create_flashbots_bundle"

definition bsc_watch_pending_transactions where
  "bsc_watch_pending_transactions = eth_watch_pending_transactions"

definition bsc_send_transaction_with_retry where
  "bsc_send_transaction_with_retry = eth_send_transaction_with_retry"

definition bsc_approve_token_with_retry where
  "bsc_approve_token_with_retry = eth_approve_token_with_retry"

section \<open>Avalanche\<close>

definition new_avalanche_adapter :: "ethers \<Rightarrow> evm_error + legacy_adapter" where
  "new_avalanche_adapter eth = make_legacy eth
     \<lparr> lc_name = ''Avalanche'', lc_chain_id = 43114,
       lc_rpc_url = ''https://api.avax.network/ext/bc/C/rpc'', lc_native_symbol = ''AVAX'',
       lc_wrapped_native_token = ''0xB31f66AA3C1e785363F0875A1B74E27b85FD66c7'',
       lc_router_address = ''0x60aE616a2155Ee3d9A68541Ba4544862310933d4'',
       lc_factory_address = ''0x9Ad6C38BE94206cA50bb0d90783181662f0Cfa10'',
       lc_explorer_url = ''https://snowtrace.io'', lc_block_time = 2000,
       lc_default_gas_limit = 21000, lc_default_gas_price = Fin 25, lc_eip1559_supported = False,
       lc_max_priority_fee = None \<rparr>"

definition avax_get_native_balance where
  "avax_get_native_balance = eth_get_native_balance"

definition avax_get_token_balance where
  "avax_get_token_balance = eth_get_token_balance"

definition avax_approve_token where
  "avax_approve_token = eth_approve_token"

definition avax_swap_exact_eth_for_tokens where
  "avax_swap_exact_eth_for_tokens = swap_eth_via ''swapExactAVAXForTokens''"

definition avax_swap_exact_tokens_for_eth where
  "avax_swap_exact_tokens_for_eth = swap_tokens_via ''swapExactTokensForAVAX''"

definition avax_get_amounts_out where
  "avax_get_amounts_out = eth_get_amounts_out"

definition avax_get_pair where
  "avax_get_pair = eth_get_pair"

definition avax_get_native_to_token_path where
  "avax_get_native_to_token_path = eth_get_native_to_token_path"

definition avax_get_token_to_native_path where
  "avax_get_token_to_native_path = eth_get_token_to_native_path"

definition avax_create_flashbots_bundle where
  "avax_create_flashbots_bundle = eth_create_flashbots_bundle"

definition avax_watch_pending_transactions where
  "avax_watch_pending_transactions = eth_watch_pending_transactions"

definition avax_send_transaction_with_retry where
  "avax_send_transaction_with_retry = eth_send_transaction_with_retry"

definition avax_approve_token_with_retry where
  "avax_approve_token_with_retry = eth_approve_token_with_retry"

section \<open>Monad\<close>

definition new_monad_adapter :: "ethers \<Rightarrow> evm_error + legacy_adapter" where
  "new_monad_adapter eth = make_legacy eth
     \<lparr> lc_name = ''Monad'', lc_chain_id = 1284, lc_rpc_url = ''https://rpc.monad.xyz'',
       lc_native_symbol = ''MONAD'',
       lc_wrapped_native_token = ''0x2C1b868d6596a18e32E61B901E4060C872647b6C'',
       lc_router_address = ''0x7a250d5630B4cF539739dF2C5dAcb4c659F2488D'',
       lc_factory_address = ''0x5C69bEe701ef814a2B6a3EDD4B1652CB9cc5aA6f'',
       lc_explorer_url = ''https://explorer.monad.xyz'', lc_block_time = 1000,
       lc_default_gas_limit = 21000, lc_default_gas_price = rnd (1 / 10),
       lc_eip1559_supported = True, lc_max_priority_fee = Some (rnd (5 / 100)) \<rparr>"

definition monad_get_native_balance where
  "monad_get_native_balance = eth_get_native_balance"

definition monad_get_token_balance where
  "monad_get_token_balance = eth_get_token_balance"

definition monad_approve_token where
  "monad_approve_token = eth_approve_token"

definition monad_swap_exact_eth_for_tokens where
  "monad_swap_exact_eth_for_tokens = swap_eth_via ''swapExactETHForTokens''"

definition monad_swap_exact_tokens_for_eth where
  "monad_swap_exact_tokens_for_eth = swap_tokens_via ''swapExactTokensForETH''"

definition monad_get_amounts_out where
  "monad_get_amounts_out = eth_get_amounts_out"

definition monad_get_pair where
  "monad_get_pair = eth_get_pair"

definition monad_get_native_to_token_path where
  "monad_get_native_to_token_path = eth_get_native_to_token_path"

definition monad_get_token_to_native_path where
  "monad_get_token_to_native_path = eth_get_token_to_native_path"

definition monad_create_flashbots_bundle where
  "monad_create_flashbots_bundle = eth_create_flashbots_bundle"

definition monad_watch_pending_transactions where
  "monad_watch_pending_transactions = eth_watch_pending_transactions"

definition monad_send_transaction_with_retry where
  "monad_send_transaction_with_retry = eth_send_transaction_with_retry"

definition monad_approve_token_with_retry where
  "monad_approve_token_with_retry = eth_approve_token_with_retry"

section \<open>Base\<close>

record base_adapter =
  ba_config :: legacy_config
  ba_provider :: string
  ba_wallet :: "local_wallet option"
  ba_router_abi :: abi
  ba_token_abi :: abi

definition new_base_adapter :: "ethers \<Rightarrow> evm_error + base_adapter" where
  "new_base_adapter eth =
     (let config =
     \<lparr> lc_name = ''Base'', lc_chain_id = 8453, lc_rpc_url = ''https://mainnet.base.org'',
       lc_native_symbol = ''ETH'',
       lc_wrapped_native_token = ''0x4200000000000000000000000000000000000006'',
       lc_router_address = ''0xfCA736a42EE6f1BF35afDeFa3B262a4B0C4D3E6e'',
       lc_factory_address = ''0xFDa619b6d20975be80A10332cD39b9a4b0FAa8BB'',
       lc_explorer_url = ''https://basescan.org'', lc_block_time = 2000,
       lc_default_gas_limit = 21000, lc_default_gas_price = Fin 1, lc_eip1559_supported = True,
       lc_max_priority_fee = Some (Fin 2) \<rparr> in
      if \<not> http_url eth (lc_rpc_url config) then Inl (No_rpc (lc_rpc_url config)) else
      rbind (load_abi eth Router_file) (\<lambda>router_abi.
      rbind (load_abi eth Erc20_file) (\<lambda>token_abi.
      Inr \<lparr> ba_config = config, ba_provider = lc_rpc_url config, ba_wallet = None, ba_router_abi = router_abi,
            ba_token_abi = token_abi \<rparr>)))"

text \<open>The wallet is kept for the chain of the adapter, and used as it is.\<close>

definition base_set_wallet :: "local_wallet \<Rightarrow> base_adapter \<Rightarrow> base_adapter" where
  "base_set_wallet w self = self\<lparr>ba_wallet := Some (w\<lparr>lw_chain_id := lc_chain_id (ba_config self)\<rparr>)\<rparr>"

definition base_client :: "base_adapter \<Rightarrow> evm_error + local_wallet" where
  "base_client self = (case ba_wallet self of None \<Rightarrow> Inl No_wallet | Some w \<Rightarrow> Inr w)"

definition base_get_native_balance ::
  "ethers \<Rightarrow> (address \<Rightarrow> string + u256) \<Rightarrow> string \<Rightarrow> base_adapter \<Rightarrow> evm_error + u256" where
  "base_get_native_balance eth balance addr self =
     rbind (parse_addr eth ''wallet'' addr) (\<lambda>a. case balance a of Inl e \<Rightarrow> Inl (Node_failed e) | Inr b \<Rightarrow> Inr b)"

definition base_get_token_balance ::
  "ethers \<Rightarrow> ('h, 'r) node \<Rightarrow> string \<Rightarrow> string \<Rightarrow> base_adapter \<Rightarrow> evm_error + u256" where
  "base_get_token_balance eth nd token_address wallet_address self =
     rbind (parse_addr eth ''token'' token_address) (\<lambda>token_addr.
     rbind (parse_addr eth ''wallet'' wallet_address) (\<lambda>wallet_addr.
     view ''balanceOf'' (view_uint nd)
       (contract_method eth (ba_token_abi self) token_addr None ''balanceOf'' [Addr wallet_addr])))"

text \<open>
  What the awaiting of a receipt yields is passed on as it is. \<open>fees\<close> is the answer to
  \<open>estimate_eip1559_fees\<close>: the fee per gas at most, and its priority part.
\<close>

definition base_submit ::
  "('h, 'r) node \<Rightarrow> evm_error + eth_call \<Rightarrow> (evm_error + 'r option) \<times> eth_call list" where
  "base_submit nd built =
     map_prod (\<lambda>r. rbind r (\<lambda>x. Inr (Option.bind x id))) id (send_and_wait nd built)"

definition with_estimate :: "string + u256 \<times> u256 \<Rightarrow> eth_call \<Rightarrow> evm_error + eth_call" where
  "with_estimate fees c =
     (case fees of
        Inl e \<Rightarrow> Inl (Node_failed e)
      | Inr (max_fee, priority) \<Rightarrow> Inr (c\<lparr>call_max_fee := Some max_fee, call_priority_fee := Some priority\<rparr>))"

definition base_approve_token ::
  "ethers \<Rightarrow> ('h, 'r) node \<Rightarrow> string + u256 \<times> u256 \<Rightarrow> string \<Rightarrow> string \<Rightarrow> u256 \<Rightarrow> base_adapter
     \<Rightarrow> (evm_error + 'r option) \<times> eth_call list" where
  "base_approve_token eth nd fees token_address spender_address amount self =
     base_submit nd
       (rbind (base_client self) (\<lambda>client.
        rbind (parse_addr eth ''token'' token_address) (\<lambda>token_addr.
        rbind (parse_addr eth ''spender'' spender_address) (\<lambda>spender_addr.
        rbind (contract_method eth (ba_token_abi self) token_addr (Some client) ''approve''
                 [Addr spender_addr, Uint amount]) (\<lambda>tx.
        with_estimate fees (tx\<lparr>call_gas := Some 100000\<rparr>))))))"

text \<open>The paths unwrap both addresses: one that does not parse panics.\<close>

definition base_get_native_to_token_path :: "ethers \<Rightarrow> string \<Rightarrow> base_adapter \<Rightarrow> address list res" where
  "base_get_native_to_token_path eth token_address self =
     rbind (expect (from_str eth (lc_wrapped_native_token (ba_config self))) ''unwrap'') (\<lambda>wrapped_native.
     rbind (expect (from_str eth token_address) ''unwrap'') (\<lambda>token. Inr [wrapped_native, token]))"

definition base_get_token_to_native_path :: "ethers \<Rightarrow> string \<Rightarrow> base_adapter \<Rightarrow> address list res" where
  "base_get_token_to_native_path eth token_address self =
     rbind (expect (from_str eth (lc_wrapped_native_token (ba_config self))) ''unwrap'') (\<lambda>wrapped_native.
     rbind (expect (from_str eth token_address) ''unwrap'') (\<lambda>token. Inr [token, wrapped_native]))"

text \<open>The gas limit given or the default, and the price given or the estimate.\<close>

definition base_gas ::
  "string + u256 \<times> u256 \<Rightarrow> u64 option \<Rightarrow> u64 option \<Rightarrow> base_adapter \<Rightarrow> eth_call \<Rightarrow> evm_error + eth_call" where
  "base_gas fees gas_limit gas_price self c =
     (let c = c\<lparr>call_gas := Some (case gas_limit of Some l \<Rightarrow> l | None \<Rightarrow> lc_default_gas_limit (ba_config self))\<rparr> in
      case gas_price of
        None \<Rightarrow> with_estimate fees c
      | Some p \<Rightarrow> Inr (c\<lparr>call_gas_price := Some (ucast p)\<rparr>))"

definition base_swap_exact_eth_for_tokens ::
  "ethers \<Rightarrow> ('h, 'r) node \<Rightarrow> string + u256 \<times> u256 \<Rightarrow> string \<Rightarrow> u256 \<Rightarrow> u256 \<Rightarrow> string \<Rightarrow> u64 \<Rightarrow> u64 option
     \<Rightarrow> u64 option \<Rightarrow> base_adapter \<Rightarrow> ((evm_error + 'r option) \<times> eth_call list) res" where
  "base_swap_exact_eth_for_tokens eth nd fees token_address amount_in min_amount_out recipient deadline gas_limit gas_price self =
     (case rbind (base_client self) (\<lambda>client.
           rbind (parse_addr eth ''router'' (lc_router_address (ba_config self))) (\<lambda>router_addr.
           rbind (parse_addr eth ''recipient'' recipient) (\<lambda>recipient_addr.
           Inr (client, router_addr, recipient_addr)))) of
        Inl e \<Rightarrow> Inr (Inl e, [])
      | Inr (client, router_addr, recipient_addr) \<Rightarrow>
          rbind (base_get_native_to_token_path eth token_address self) (\<lambda>path.
          Inr (base_submit nd
            (rbind (contract_method eth (ba_router_abi self) router_addr (Some client)
                      ''swapExactETHForTokensSupportingFeeOnTransferTokens''
                      [Uint min_amount_out, Addrs path, Addr recipient_addr, Uint (ucast deadline)]) (\<lambda>tx.
             base_gas fees gas_limit gas_price self (tx\<lparr>call_value := Some amount_in\<rparr>))))))"

definition base_swap_exact_tokens_for_eth ::
  "ethers \<Rightarrow> ('h, 'r) node \<Rightarrow> string + u256 \<times> u256 \<Rightarrow> string \<Rightarrow> u256 \<Rightarrow> u256 \<Rightarrow> string \<Rightarrow> u64 \<Rightarrow> u64 option
     \<Rightarrow> u64 option \<Rightarrow> base_adapter \<Rightarrow> ((evm_error + 'r option) \<times> eth_call list) res" where
  "base_swap_exact_tokens_for_eth eth nd fees token_address amount_in min_amount_out recipient deadline gas_limit gas_price self =
     (case rbind (base_client self) (\<lambda>client.
           rbind (parse_addr eth ''router'' (lc_router_address (ba_config self))) (\<lambda>router_addr.
           rbind (parse_addr eth ''recipient'' recipient) (\<lambda>recipient_addr.
           Inr (client, router_addr, recipient_addr)))) of
        Inl e \<Rightarrow> Inr (Inl e, [])
      | Inr (client, router_addr, recipient_addr) \<Rightarrow>
          rbind (base_get_token_to_native_path eth token_address self) (\<lambda>path.
          Inr (base_submit nd
            (rbind (contract_method eth (ba_router_abi self) router_addr (Some client)
                      ''swapExactTokensForETHSupportingFeeOnTransferTokens''
                      [Uint amount_in, Uint min_amount_out, Addrs path, Addr recipient_addr, Uint (ucast deadline)]) (\<lambda>tx.
             base_gas fees gas_limit gas_price self tx)))))"

definition base_get_amounts_out ::
  "ethers \<Rightarrow> ('h, 'r) node \<Rightarrow> u256 \<Rightarrow> address list \<Rightarrow> base_adapter \<Rightarrow> evm_error + u256 list" where
  "base_get_amounts_out eth nd amount_in path self =
     rbind (parse_addr eth ''router'' (lc_router_address (ba_config self))) (\<lambda>router_addr.
     view ''getAmountsOut'' (view_uints nd)
       (contract_method eth (ba_router_abi self) router_addr None ''getAmountsOut'' [Uint amount_in, Addrs path]))"

text \<open>The factory interface is a text in the code: the one function.\<close>

definition base_factory_abi :: abi where
  "base_factory_abi = [(''getPair'', [Address_type, Address_type])]"

definition base_get_pair ::
  "ethers \<Rightarrow> ('h, 'r) node \<Rightarrow> bool \<Rightarrow> string \<Rightarrow> string \<Rightarrow> base_adapter \<Rightarrow> evm_error + string option" where
  "base_get_pair eth nd parsed token_a token_b self =
     rbind (parse_addr eth ''factory'' (lc_factory_address (ba_config self))) (\<lambda>factory_addr.
     rbind (parse_addr eth ''token A'' token_a) (\<lambda>token_a_addr.
     rbind (parse_addr eth ''token B'' token_b) (\<lambda>token_b_addr.
     if \<not> parsed then Inl (Bad_abi Factory_file) else
     rbind (view ''getPair'' (view_address nd)
              (contract_method eth base_factory_abi factory_addr None ''getPair'' [Addr token_a_addr, Addr token_b_addr]))
       (\<lambda>pair. Inr (if pair = 0 then None else Some (debug_address eth pair))))))"

definition base_create_flashbots_bundle :: "'t list \<Rightarrow> base_adapter \<Rightarrow> evm_error + unit" where
  "base_create_flashbots_bundle txs self = Inl Relay_unsupported"

text \<open>Every transaction of the subscription goes to the callback; the errors of the stream are logged.\<close>

definition base_watch_pending_transactions ::
  "string + unit \<Rightarrow> string + unit \<Rightarrow> (string + 't) list \<Rightarrow> base_adapter \<Rightarrow> evm_error + 't list" where
  "base_watch_pending_transactions connect subscribe stream self =
     (case connect of
        Inl e \<Rightarrow> Inl (Node_failed e)
      | Inr _ \<Rightarrow> (case subscribe of
                     Inl e \<Rightarrow> Inl (Node_failed e)
                   | Inr _ \<Rightarrow> Inr (List.map_filter (\<lambda>x. case x of Inl e \<Rightarrow> None | Inr tx \<Rightarrow> Some tx) stream)))"

text \<open>There is never a gas optimizer, and setting one has no effect; so \<open>send_transaction\<close> never runs
  \<open>optimize_transaction_gas\<close>. \<open>receipt\<close> is the outcome of the wait, \<open>None\<close> when a minute has passed.\<close>

definition base_get_gas_optimizer :: "base_adapter \<Rightarrow> 'g option" where
  "base_get_gas_optimizer self = None"

definition base_set_gas_optimizer :: "'g \<Rightarrow> base_adapter \<Rightarrow> base_adapter" where
  "base_set_gas_optimizer optimizer self = self"

definition base_send_transaction ::
  "('g \<Rightarrow> 'd raw_tx \<Rightarrow> string + 'd raw_tx) \<Rightarrow> ('d raw_tx \<Rightarrow> string + 'h) \<Rightarrow> ('h \<Rightarrow> (string + 'r) option) \<Rightarrow> 'd raw_tx \<Rightarrow> base_adapter
     \<Rightarrow> (evm_error + 'r option) \<times> 'd raw_tx list" where
  "base_send_transaction optimize send receipt tx self =
     (case (case base_get_gas_optimizer self of Some g \<Rightarrow> optimize g tx | None \<Rightarrow> Inr tx) of
        Inl e \<Rightarrow> (Inl (Node_failed e), [])
      | Inr tx \<Rightarrow>
          (case base_client self of
             Inl e \<Rightarrow> (Inl e, [])
           | Inr client \<Rightarrow>
               (case send tx of
                  Inl e \<Rightarrow> (Inl (Send_failed e), [tx])
                | Inr h \<Rightarrow> ((case receipt h of
                               Some (Inr r) \<Rightarrow> Inr (Some r)
                             | Some (Inl e) \<Rightarrow> Inl (Receipt_failed e)
                             | None \<Rightarrow> Inl (Receipt_failed ''Timeout'')), [tx]))))"

definition base_send_transaction_with_retry ::
  "('d raw_tx \<Rightarrow> string + 'h) \<Rightarrow> ('h \<Rightarrow> string + 'r option) \<Rightarrow> 'd raw_tx \<Rightarrow> u64 option \<Rightarrow> u64 option \<Rightarrow> base_adapter
     \<Rightarrow> (tx_send_error + 'r) \<times> 'd raw_tx list" where
  "base_send_transaction_with_retry send receipt tx gas_limit gas_price self =
     (case base_client self of
        Inl e \<Rightarrow> (Inl (Tx_failed e), [])
      | Inr client \<Rightarrow>
          let tx = (case gas_limit of Some l \<Rightarrow> tx\<lparr>rt_gas := Some l\<rparr> | None \<Rightarrow> tx);
              tx = (case gas_price of Some p \<Rightarrow> tx\<lparr>rt_gas_price := Some (ucast p)\<rparr> | None \<Rightarrow> tx)
          in send_raw send receipt tx)"

definition base_approve_token_with_retry ::
  "ethers \<Rightarrow> ('h, 'r) node \<Rightarrow> string \<Rightarrow> string \<Rightarrow> u256 \<Rightarrow> base_adapter \<Rightarrow> (tx_send_error + 'r option) \<times> eth_call list" where
  "base_approve_token_with_retry eth nd token_address spender_address amount self =
     (case base_submit nd
        (rbind (parse_addr eth ''token'' token_address) (\<lambda>token_addr.
         rbind (parse_addr eth ''spender'' spender_address) (\<lambda>spender_addr.
         rbind (base_client self) (\<lambda>client.
         rbind (load_abi eth Erc20_file) (\<lambda>token_abi.
         contract_method eth token_abi token_addr (Some client) ''approve'' [Addr spender_addr, Uint amount]))))) of
        (Inl e, sent) \<Rightarrow> (Inl (Tx_failed e), sent)
      | (Inr r, sent) \<Rightarrow> (Inr r, sent))"

section \<open>Lemmas\<close>

text \<open>None of the five sells, and Avalanche's adapter does not buy: the router interface lacks the functions.\<close>

lemma legacy_missing:
  assumes "methods_of_abi eth" and "fn \<notin> fst ` set router_json"
  shows "\<exists>e. swap_eth_via fn eth nd t a m r d gl gp self = (Inl e, [])"
    and "\<exists>e. swap_tokens_via fn eth nd t a m r d gl gp self = (Inl e, [])"
  unfolding swap_eth_via_def swap_tokens_via_def
  by (rule no_call, simp add: missing_method [OF assms] load_abi_def rbind_def split: sum.split)+

lemma legacy_never_sells:
  assumes "methods_of_abi eth"
  shows "\<exists>e. eth_swap_exact_tokens_for_eth eth nd t a m r d gl gp self = (Inl e, [])"
    and "\<exists>e. bsc_swap_exact_tokens_for_eth eth nd t a m r d gl gp self = (Inl e, [])"
    and "\<exists>e. avax_swap_exact_tokens_for_eth eth nd t a m r d gl gp self = (Inl e, [])"
    and "\<exists>e. monad_swap_exact_tokens_for_eth eth nd t a m r d gl gp self = (Inl e, [])"
    and "\<exists>e. avax_swap_exact_eth_for_tokens eth nd t a m r d gl gp self = (Inl e, [])"
  unfolding eth_swap_exact_tokens_for_eth_def bsc_swap_exact_tokens_for_eth_def avax_swap_exact_tokens_for_eth_def
    monad_swap_exact_tokens_for_eth_def avax_swap_exact_eth_for_tokens_def
  by (rule legacy_missing [OF assms]; simp add: router_json_def)+

lemma base_never_sells:
  assumes "methods_of_abi eth" and "new_base_adapter eth = Inr self"
    and "base_swap_exact_tokens_for_eth eth nd fees t a m r d gl gp (base_set_wallet w self) = Inr (res, sent)"
  shows "sent = [] \<and> (\<exists>e. res = Inl e)"
proof -
  have "ba_router_abi self = router_json"
    using assms(2) by (auto simp: new_base_adapter_def load_abi_def Let_def split: if_splits)
  moreover have "''swapExactTokensForETHSupportingFeeOnTransferTokens'' \<notin> fst ` set router_json"
    by (simp add: router_json_def)
  ultimately show ?thesis
    using assms(3) missing_method [OF assms(1)]
    by (auto simp: base_swap_exact_tokens_for_eth_def base_set_wallet_def base_submit_def split: sum.splits)
qed

text \<open>A method with a retry in its name sends at most once.\<close>

lemma legacy_sends_once: "length (snd (eth_send_transaction_with_retry send receipt tx gl gp self)) \<le> 1"
  by (auto simp: eth_send_transaction_with_retry_def send_raw_def Let_def split: sum.splits option.splits)

end
