(* ===== verification/MevDetection.thy ===== *)
theory MevDetection
  imports EvmWatch Equilibrium GasOptimizer
begin

text \<open>
  The gas price optimizer of \<^verbatim>\<open>snipebot/src/trade/MonteEquilibrium.rs\<close>: what it learns of the network and
  of its competitors, how it recognises the transactions of MEV bots, and the gas price it derives.
  The answers of the node and of the clock are arguments. \<open>U256\<close> arithmetic panics on overflow, and so
  do \<open>as_u64\<close> and \<open>as_u128\<close>; a panic is an \<open>Inl\<close> of \<open>res\<close>. Differences of \<open>u64\<close> wrap. A hash map is
  iterated in an order that is an argument. Where the body reads fields of another structure of the same
  file (\<open>decision_history\<close>, \<open>known_mev_transactions\<close>), the model has them in a record of their own.
\<close>

section \<open>Data\<close>

datatype gas_strategy = Conservative | Moderate | Aggressive | Very_aggressive | Unknown

datatype risk_level = Very_low | Low | Medium | High | Very_high

record player_transaction =
  pt_tx_hash :: h256
  pt_gas_price :: u256
  pt_block_number :: "u64 option"
  pt_success :: bool
  pt_profit :: "f64 option"
  pt_timestamp :: u64

record network_player =
  np_recent_transactions :: "player_transaction list"
  np_estimated_gas_strategy :: gas_strategy
  np_success_rate :: f64
  np_avg_profit :: f64
  np_last_seen :: u64

record mempool_state =
  ms_pending_tx_count :: u64
  ms_avg_gas_price :: u256
  ms_gas_price_percentiles :: "u8 \<rightharpoonup> u256"
  ms_congestion_level :: u8
  ms_mev_bot_activity :: u8
  ms_last_updated :: u64

record block_info =
  bi_block_number :: u64
  bi_base_fee :: u256
  bi_gas_used_percent :: f64
  bi_successful_mev_txs :: "h256 list"
  bi_timestamp :: u64

record optimizer_config =
  oc_min_profit_threshold :: f64
  oc_risk_tolerance :: risk_level
  oc_max_gas_multiplier :: f64
  oc_simulation_count :: u64
  oc_player_data_ttl :: u64
  oc_use_flashbots :: bool
  oc_sandwich_enabled :: bool
  oc_frontrun_enabled :: bool
  oc_mev_detection_enabled :: bool

record simulation_result =
  sr_strategy :: string
  sr_gas_multiplier :: f64
  sr_success_probability :: f64
  sr_expected_profit :: f64
  sr_worst_case_profit :: f64
  sr_best_case_profit :: f64
  sr_simulated_tx_count :: u64
  sr_timestamp :: u64

record gas_equilibrium =
  ge_players :: "string \<rightharpoonup> network_player"
  ge_mempool_state :: mempool_state
  ge_recent_blocks :: "block_info list"
  ge_my_address :: string
  ge_my_strategy :: gas_strategy
  ge_profit_history :: "(u64 \<times> f64) list"
  ge_simulation_results :: "string \<rightharpoonup> simulation_result list"
  ge_config :: optimizer_config

definition new_equilibrium :: "u64 \<Rightarrow> string \<Rightarrow> optimizer_config \<Rightarrow> gas_equilibrium" where
  "new_equilibrium secs my_address config =
     \<lparr> ge_players = Map.empty,
       ge_mempool_state = \<lparr> ms_pending_tx_count = 0, ms_avg_gas_price = 0, ms_gas_price_percentiles = Map.empty,
         ms_congestion_level = 5, ms_mev_bot_activity = 5, ms_last_updated = secs \<rparr>,
       ge_recent_blocks = [], ge_my_address = my_address, ge_my_strategy = Moderate, ge_profit_history = [],
       ge_simulation_results = Map.empty, ge_config = config \<rparr>"

section \<open>The network\<close>

text \<open>\<open>congestion as u8\<close> of a tenth of the pending transactions in thousands, between 1 and 10.\<close>

definition congestion_of :: "nat \<Rightarrow> nat" where
  "congestion_of pending =
     f64_as_uint (2 ^ 8) (f64_max (f64_min (f64_mul (f64_div (f64_of_nat pending) (Fin 10000)) (Fin 10)) (Fin 10)) (Fin 1))"

text \<open>The count of the pool is stored before the gas price is asked for.\<close>

definition update_mempool_state ::
  "string + u256 \<Rightarrow> string + u256 \<Rightarrow> u64 \<Rightarrow> gas_equilibrium \<Rightarrow> ((string + unit) \<times> gas_equilibrium) res" where
  "update_mempool_state txpool gas_price now self =
     (case txpool of
        Inl e \<Rightarrow> Inr (Inl e, self)
      | Inr pending \<Rightarrow>
          rbind (GasOptimizer.as_u64 pending) (\<lambda>n.
            let m = (ge_mempool_state self)\<lparr> ms_pending_tx_count := n \<rparr>
            in case gas_price of
                 Inl e \<Rightarrow> Inr (Inl e, self\<lparr> ge_mempool_state := m \<rparr>)
               | Inr price \<Rightarrow>
                   Inr (Inr (), self\<lparr> ge_mempool_state :=
                     m\<lparr> ms_avg_gas_price := price, ms_congestion_level := of_nat (congestion_of (unat n)),
                        ms_last_updated := now \<rparr> \<rparr>)))"

section \<open>Transactions of MEV bots in a block\<close>

record mev_tx =
  mt_hash :: h256
  mt_from :: h160
  mt_to :: "h160 option"
  mt_input :: "u8 list"
  mt_gas_price :: "u256 option"
  mt_value :: u256

text \<open>The text of the input is its hexadecimal form after \<open>0x\<close>; its first ten bytes are kept.\<close>

definition function_sig :: "u8 list \<Rightarrow> string" where
  "function_sig input =
     (let text = ''0x'' @ hex_encode input in if 10 \<le> length text then take 10 text else '''')"

type_synonym detail = "h256 \<times> h160 \<times> h160 option \<times> string \<times> u256 \<times> u256"

definition detail_of :: "h256 \<Rightarrow> mev_tx \<Rightarrow> detail" where
  "detail_of h tx =
     (h, mt_from tx, mt_to tx, function_sig (mt_input tx),
      (case mt_gas_price tx of None \<Rightarrow> 0 | Some p \<Rightarrow> p), mt_value tx)"

definition tx_details :: "(h256 \<Rightarrow> string + mev_tx option) \<Rightarrow> h256 list \<Rightarrow> detail list" where
  "tx_details get_tx txs =
     List.map_filter (\<lambda>h. case get_tx h of Inr (Some tx) \<Rightarrow> Some (detail_of h tx) | _ \<Rightarrow> None) txs"

text \<open>The transactions to one receiver with one selector, in the order of the block.\<close>

type_synonym group_key = "h160 \<times> string"
type_synonym group_tx = "h256 \<times> h160 \<times> u256"

definition in_group :: "group_key \<Rightarrow> detail \<Rightarrow> group_tx option" where
  "in_group k d = (case d of (h, f, t, s, g, v) \<Rightarrow> if t = Some (fst k) \<and> s = snd k then Some (h, f, g) else None)"

definition group_of :: "detail list \<Rightarrow> group_key \<Rightarrow> group_tx list" where
  "group_of ds k = List.map_filter (in_group k) ds"

definition position :: "h256 list \<Rightarrow> h256 \<Rightarrow> nat" where
  "position txs h = length (takeWhile (\<lambda>x. x \<noteq> h) txs)"

definition sorted_group :: "h256 list \<Rightarrow> detail list \<Rightarrow> group_key \<Rightarrow> group_tx list" where
  "sorted_group txs ds k = sort_key (\<lambda>t. position txs (fst t)) (group_of ds k)"

definition swap_selectors :: "string list" where
  "swap_selectors = [''0xf305d719'', ''0x38ed1739'', ''0x7ff36ab5'', ''0x4a25d94a'', ''0x18cbafe5'']"

definition starts_with :: "string \<Rightarrow> string \<Rightarrow> bool" where
  "starts_with s p \<longleftrightarrow> take (length p) s = p"

text \<open>Heuristic 1: the first and the last of three consecutive calls have the same sender.\<close>

fun sandwich_scan :: "group_tx list \<Rightarrow> h256 list" where
  "sandwich_scan ((h1, f1, g1) # (h2, f2, g2) # (h3, f3, g3) # ts) =
     (if f1 = f3 \<and> f1 \<noteq> f2 \<and> g2 \<le> g1 \<and> g2 \<le> g3 then [h1, h3] else [])
     @ sandwich_scan ((h2, f2, g2) # (h3, f3, g3) # ts)"
| "sandwich_scan ts = []"

definition sandwiches :: "h256 list \<Rightarrow> detail list \<Rightarrow> group_key list \<Rightarrow> h256 list" where
  "sandwiches txs ds ks =
     concat (map (\<lambda>k. if (\<exists>p \<in> set swap_selectors. starts_with (snd k) p) then sandwich_scan (sorted_group txs ds k) else []) ks)"

text \<open>Heuristic 2: a call of somebody else follows with a gas price that is lower by a fifth.\<close>

definition push_new :: "'a \<Rightarrow> 'a list \<Rightarrow> 'a list" where
  "push_new h hs = (if h \<in> set hs then hs else hs @ [h])"

fun frontrun_scan :: "group_tx list \<Rightarrow> h256 list \<Rightarrow> h256 list res" where
  "frontrun_scan ((h1, f1, g1) # (h2, f2, g2) # ts) found =
     (if f1 \<noteq> f2 \<and> g2 < g1
      then rbind (mul_ov g2 120) (\<lambda>p.
             frontrun_scan ((h2, f2, g2) # ts) (if p div 100 < g1 then push_new h1 found else found))
      else frontrun_scan ((h2, f2, g2) # ts) found)"
| "frontrun_scan ts found = Inr found"

fun frontruns :: "h256 list \<Rightarrow> detail list \<Rightarrow> group_key list \<Rightarrow> h256 list \<Rightarrow> h256 list res" where
  "frontruns txs ds [] found = Inr found"
| "frontruns txs ds (k # ks) found =
     rbind (frontrun_scan (sorted_group txs ds k) found) (frontruns txs ds ks)"

text \<open>Heuristic 3: two further calls without value from the same sender.\<close>

definition is_call :: "detail \<Rightarrow> bool" where
  "is_call d = (case d of (h, f, t, s, g, v) \<Rightarrow> starts_with s ''0x'' \<and> v = 0)"

definition other_calls :: "detail list \<Rightarrow> detail \<Rightarrow> nat" where
  "other_calls ds d =
     length (filter (\<lambda>d'. fst (snd d') = fst (snd d) \<and> fst d' \<noteq> fst d \<and> is_call d') ds)"

definition arbitrages :: "detail list \<Rightarrow> h256 list \<Rightarrow> h256 list" where
  "arbitrages ds found =
     foldl (\<lambda>found d. if is_call d \<and> 2 \<le> other_calls ds d then push_new (fst d) found else found) found ds"

text \<open>\<open>ks\<close> is the order in which the map of groups delivers its keys.\<close>

definition detect_mev_transactions ::
  "(h256 \<Rightarrow> string + mev_tx option) \<Rightarrow> group_key list \<Rightarrow> h256 list \<Rightarrow> h256 list res" where
  "detect_mev_transactions get_tx ks txs =
     (if txs = [] then Inr []
      else
        let ds = tx_details get_tx txs
        in rbind (frontruns txs ds ks (sandwiches txs ds ks)) (\<lambda>found. Inr (arbitrages ds found)))"

definition group_keys :: "detail list \<Rightarrow> group_key set" where
  "group_keys ds = {(a, s) |h f a s g v. (h, f, Some a, s, g, v) \<in> set ds}"

section \<open>Blocks\<close>

record block =
  bl_base_fee_per_gas :: "u256 option"
  bl_gas_limit :: u256
  bl_gas_used :: u256
  bl_timestamp :: u256
  bl_transactions :: "h256 list"

definition gas_used_percent :: "block \<Rightarrow> f64 res" where
  "gas_used_percent b =
     rbind (as_u128 (bl_gas_limit b)) (\<lambda>limit.
     rbind (as_u128 (bl_gas_used b)) (\<lambda>used.
       Inr (f64_div (f64_of_nat (unat used)) (f64_of_nat (unat (limit div 100))))))"

definition keep_last :: "nat \<Rightarrow> 'a list \<Rightarrow> 'a list" where
  "keep_last n xs = (if n < length xs then tl xs else xs)"

definition update_block_info ::
  "(h256 \<Rightarrow> string + mev_tx option) \<Rightarrow> group_key list \<Rightarrow> u64 \<Rightarrow> string + block option \<Rightarrow> gas_equilibrium
     \<Rightarrow> ((string + unit) \<times> gas_equilibrium) res" where
  "update_block_info get_tx ks block_number reply self =
     (case reply of
        Inl e \<Rightarrow> Inr (Inl e, self)
      | Inr None \<Rightarrow> Inr (Inr (), self)
      | Inr (Some b) \<Rightarrow>
          rbind (gas_used_percent b) (\<lambda>percent.
          rbind (GasOptimizer.as_u64 (bl_timestamp b)) (\<lambda>stamp.
          rbind (detect_mev_transactions get_tx ks (bl_transactions b)) (\<lambda>mev.
            Inr (Inr (), self\<lparr> ge_recent_blocks := keep_last 100 (ge_recent_blocks self @
              [\<lparr> bi_block_number = block_number, bi_base_fee = (case bl_base_fee_per_gas b of None \<Rightarrow> 0 | Some f \<Rightarrow> f),
                 bi_gas_used_percent = percent, bi_successful_mev_txs = mev, bi_timestamp = stamp \<rparr>]) \<rparr>)))))"

section \<open>Players and the gas price\<close>

text \<open>A division of \<open>f64\<close> values per transaction whose block is known and has a base fee.\<close>

fun fee_ratios :: "block_info list \<Rightarrow> player_transaction list \<Rightarrow> f64 list res" where
  "fee_ratios blocks [] = Inr []"
| "fee_ratios blocks (tx # txs) =
     (case Option.bind (pt_block_number tx) (\<lambda>n. find (\<lambda>b. bi_block_number b = n) blocks) of
        None \<Rightarrow> fee_ratios blocks txs
      | Some b \<Rightarrow>
          if bi_base_fee b = 0 then fee_ratios blocks txs
          else rbind (as_u128 (pt_gas_price tx)) (\<lambda>g.
               rbind (as_u128 (bi_base_fee b)) (\<lambda>f.
               rbind (fee_ratios blocks txs) (\<lambda>rs.
                 Inr (f64_div (f64_of_nat (unat g)) (f64_of_nat (unat f)) # rs)))))"

definition estimate_gas_strategy :: "gas_equilibrium \<Rightarrow> network_player \<Rightarrow> gas_strategy res" where
  "estimate_gas_strategy self p =
     (if np_recent_transactions p = [] then Inr Unknown
      else rbind (fee_ratios (ge_recent_blocks self) (np_recent_transactions p)) (\<lambda>rs.
        if rs = [] then Inr Unknown
        else
          let avg = f64_div (f64_sum rs) (f64_of_nat (length rs))
          in Inr (if f64_lt avg (rnd (11 / 10)) then Conservative
                  else if f64_lt avg (rnd (12 / 10)) then Moderate
                  else if f64_lt avg (Fin (3 / 2)) then Aggressive
                  else Very_aggressive)))"

definition blank_player :: "u64 \<Rightarrow> network_player" where
  "blank_player now =
     \<lparr> np_recent_transactions = [], np_estimated_gas_strategy = Unknown, np_success_rate = Fin 0,
       np_avg_profit = Fin 0, np_last_seen = now \<rparr>"

text \<open>
  \<open>analyze_players\<close>: the players seen too long ago are estimated again. \<open>keys\<close> is the order of the map;
  \<open>now\<close> is the reading of the clock in both passes.
\<close>

definition refresh_player :: "u64 \<Rightarrow> string \<Rightarrow> gas_equilibrium \<Rightarrow> gas_equilibrium res" where
  "refresh_player now a self =
     (let p = (case ge_players self a of Some p \<Rightarrow> p | None \<Rightarrow> blank_player now)
      in rbind (estimate_gas_strategy self p) (\<lambda>s.
           Inr (self\<lparr> ge_players := (ge_players self)(a \<mapsto>
             p\<lparr> np_estimated_gas_strategy := s, np_last_seen := now \<rparr>) \<rparr>)))"

fun refresh_players :: "u64 \<Rightarrow> string list \<Rightarrow> gas_equilibrium \<Rightarrow> gas_equilibrium res" where
  "refresh_players now [] self = Inr self"
| "refresh_players now (a # as) self = rbind (refresh_player now a self) (refresh_players now as)"

definition stale_players :: "u64 \<Rightarrow> string list \<Rightarrow> gas_equilibrium \<Rightarrow> string list" where
  "stale_players now keys self =
     filter (\<lambda>a. case ge_players self a of None \<Rightarrow> False
                 | Some p \<Rightarrow> oc_player_data_ttl (ge_config self) < now - np_last_seen p) keys"

definition analyze_players :: "u64 \<Rightarrow> string list \<Rightarrow> gas_equilibrium \<Rightarrow> gas_equilibrium res" where
  "analyze_players now keys self = refresh_players now (stale_players now keys self) self"

text \<open>\<open>base * U256::from(n) / U256::from(100)\<close>.\<close>

definition scaled_gas :: "u256 \<Rightarrow> nat \<Rightarrow> u256 res" where
  "scaled_gas base_gas percent = rbind (mul_ov base_gas (of_nat percent)) (\<lambda>p. Inr (p div 100))"

definition default_multiplier :: "gas_strategy \<Rightarrow> f64" where
  "default_multiplier s =
     (case s of Conservative \<Rightarrow> rnd (105 / 100) | Moderate \<Rightarrow> rnd (11 / 10) | Aggressive \<Rightarrow> rnd (12 / 10)
      | Very_aggressive \<Rightarrow> Fin (3 / 2) | Unknown \<Rightarrow> rnd (11 / 10))"

definition in_percent :: "f64 \<Rightarrow> nat" where
  "in_percent m = f64_as_uint (2 ^ 64) (f64_mul m (Fin 100))"

text \<open>The best answer to the strategies of the others; \<open>keys\<close> are the addresses of the map.\<close>

definition count_players :: "string list \<Rightarrow> gas_equilibrium \<Rightarrow> gas_strategy \<Rightarrow> nat" where
  "count_players keys self s =
     length (filter (\<lambda>a. map_option np_estimated_gas_strategy (ge_players self a) = Some s) keys)"

definition optimal_multiplier :: "f64 \<Rightarrow> f64 \<Rightarrow> f64" where
  "optimal_multiplier aggressive_ratio conservative_ratio =
     (if f64_lt (rnd (7 / 10)) aggressive_ratio then rnd (16 / 10)
      else if f64_lt (Fin (1 / 2)) aggressive_ratio then Fin (3 / 2)
      else if f64_lt (rnd (8 / 10)) conservative_ratio then rnd (115 / 100)
      else if f64_lt (rnd (6 / 10)) conservative_ratio then rnd (12 / 10)
      else rnd (13 / 10))"

definition safe_multiplier :: "string list \<Rightarrow> gas_equilibrium \<Rightarrow> f64" where
  "safe_multiplier keys self =
     (let n = f64_of_nat (length keys);
          aggressive = count_players keys self Aggressive + count_players keys self Very_aggressive;
          conservative = count_players keys self Conservative + count_players keys self Moderate;
          optimal = optimal_multiplier (f64_div (f64_of_nat aggressive) n) (f64_div (f64_of_nat conservative) n);
          capped = f64_min optimal (oc_max_gas_multiplier (ge_config self));
          congestion = f64_add (Fin 1) (f64_div
            (f64_sub (f64_of_nat (unat (ms_congestion_level (ge_mempool_state self)))) (Fin 5)) (Fin 50))
      in f64_min (f64_mul capped congestion) (oc_max_gas_multiplier (ge_config self)))"

text \<open>\<open>.min(u64::MAX as f64)\<close>: the bound is \<open>2 ^ 64\<close> as a float.\<close>

definition calculate_nash_equilibrium_gas :: "string list \<Rightarrow> gas_equilibrium \<Rightarrow> u256 \<Rightarrow> u256 res" where
  "calculate_nash_equilibrium_gas keys self base_gas =
     (if keys = [] then scaled_gas base_gas (in_percent (default_multiplier (ge_my_strategy self)))
      else scaled_gas base_gas
             (f64_as_uint (2 ^ 64) (f64_min (f64_mul (safe_multiplier keys self) (Fin 100)) (Fin (2 ^ 64)))))"

section \<open>Transactions of MEV bots in the mempool\<close>

text \<open>
  The known transactions behind a read-write lock: how many read guards are alive, whether a writer
  holds it, and the set.
\<close>

record known_lock =
  kl_readers :: nat
  kl_writer :: bool
  kl_known :: "h256 set"

definition try_write :: "known_lock \<Rightarrow> bool" where
  "try_write l \<longleftrightarrow> kl_readers l = 0 \<and> \<not> kl_writer l"

definition read_guard :: "known_lock \<Rightarrow> known_lock" where
  "read_guard l = l\<lparr> kl_readers := kl_readers l + 1 \<rparr>"

definition drop_guard :: "known_lock \<Rightarrow> known_lock" where
  "drop_guard l = l\<lparr> kl_readers := kl_readers l - 1 \<rparr>"

text \<open>What the tracker shows; a part whose lock is taken is \<open>None\<close>.\<close>

record mempool_view =
  mv_sandwiches :: "h256 list list option"
  mv_arbitrages :: "h256 list option"
  mv_pending :: "h256 list list option"

record mempool_tx =
  mx_hash :: h256
  mx_from :: "h160 option"
  mx_gas_price :: "u256 option"
  mx_input :: "u8 list option"

text \<open>\<open>format!("{:?}", from)\<close> of an address.\<close>

definition debug_address :: "h160 \<Rightarrow> string" where
  "debug_address a = ''0x'' @ map (\<lambda>i. hex_digit (unat (drop_bit (4 * (39 - i)) a))) [0..<40]"

definition known_mev_bots :: "string list" where
  "known_mev_bots =
     [''0x00000000003b3cc22af3ae1eac0440bcee416b40'', ''0x000000000dfde7deaf24138722987c9a6991e2d4'',
      ''0x000000a52a03835517e9d193b3c27626e1bc96b1'', ''0xb4a81261b16b92af0b9f7c4a83f1e885132d81e4'',
      ''0xae2ebf7d5efe0e3c1a2082a1e9fd63912c42c2f5'']"

definition sender_score :: "h160 option \<Rightarrow> nat" where
  "sender_score sender =
     (case sender of None \<Rightarrow> 0
      | Some a \<Rightarrow> if (\<exists>b \<in> set known_mev_bots. contains_str (lower (debug_address a)) b) then 20 else 0)"

definition sandwich_score :: "mempool_view option \<Rightarrow> h256 \<Rightarrow> nat" where
  "sandwich_score seen h =
     (case Option.bind seen mv_sandwiches of None \<Rightarrow> 0 | Some os \<Rightarrow> if (\<exists>x \<in> set os. h \<in> set x) then 10 else 0)"

definition gas_score :: "u256 option \<Rightarrow> u256 option \<Rightarrow> nat res" where
  "gas_score stats price =
     (let avg = (case stats of Some a \<Rightarrow> a | None \<Rightarrow> 50000000000)
      in case price of
           None \<Rightarrow> Inr 0
         | Some p \<Rightarrow>
             rbind (mul_ov avg 3) (\<lambda>t. if t < p then Inr 15 else
             rbind (mul_ov avg 2) (\<lambda>t. if t < p then Inr 10 else
             rbind (mul_ov avg 5) (\<lambda>t. if t div 3 < p then Inr 5 else Inr 0))))"

definition arbitrage_score :: "mempool_view option \<Rightarrow> h256 \<Rightarrow> nat" where
  "arbitrage_score seen h =
     (case Option.bind seen mv_arbitrages of None \<Rightarrow> 0 | Some hs \<Rightarrow> if h \<in> set hs then 10 else 0)"

definition input_score :: "u8 list option \<Rightarrow> nat" where
  "input_score input =
     (case input of None \<Rightarrow> 0
      | Some bs \<Rightarrow>
          (if contains_str (hex_encode bs) ''0x38ed1739'' \<and> contains_str (hex_encode bs) ''0x8803dbee'' then 5 else 0)
          + (if 1000 < length bs then 5 else 0))"

definition related_score :: "mempool_view option \<Rightarrow> h256 \<Rightarrow> nat" where
  "related_score seen h =
     (case Option.bind seen mv_pending of None \<Rightarrow> 0
      | Some ts \<Rightarrow> let n = length (filter (\<lambda>rs. h \<in> set rs) ts) in if 3 \<le> n then 10 else if 1 \<le> n then 5 else 0)"

text \<open>Beyond 1000 entries the set is cut to 800; \<open>elems\<close> is the order in which it delivers its elements.\<close>

definition remember_mev :: "(h256 set \<Rightarrow> h256 list) \<Rightarrow> h256 \<Rightarrow> known_lock \<Rightarrow> known_lock" where
  "remember_mev elems h l =
     (let known = insert h (kl_known l)
      in l\<lparr> kl_known := (if 1000 < card known then known - set (take (card known - 800) (elems known)) else known) \<rparr>)"

text \<open>
  The guard of the first lookup lives to the end of the function, so the write at the end is tried
  while it is held.
\<close>

definition detect_mev_transaction ::
  "(h256 set \<Rightarrow> h256 list) \<Rightarrow> optimizer_config \<Rightarrow> mempool_view option \<Rightarrow> u256 option \<Rightarrow> mempool_tx \<Rightarrow> known_lock
     \<Rightarrow> (bool \<times> known_lock) res" where
  "detect_mev_transaction elems config seen stats tx l =
     (if \<not> oc_mev_detection_enabled config then Inr (False, l)
      else
        let l1 = read_guard l
        in if mx_hash tx \<in> kl_known l1 then Inr (True, drop_guard l1)
           else rbind (gas_score stats (mx_gas_price tx)) (\<lambda>g.
             let score = sender_score (mx_from tx) + sandwich_score seen (mx_hash tx) + g
                   + arbitrage_score seen (mx_hash tx) + input_score (mx_input tx) + related_score seen (mx_hash tx);
                 is_mev = (15 \<le> score);
                 l2 = (if is_mev \<and> try_write l1 then remember_mev elems (mx_hash tx) l1 else l1)
             in Inr (is_mev, drop_guard l2)))"

section \<open>Lemmas\<close>

text \<open>The multipliers in percent.\<close>

lemma multipliers:
  "rnd (21 / 20) = Fin (4728779608739021 / 2 ^ 52)"
  "rnd (11 / 10) = Fin (4953959590107546 / 2 ^ 52)"
  "rnd (6 / 5) = Fin (5404319552844595 / 2 ^ 52)"
  using rnd_nearest [of 0 "21 / 20" 4728779608739021] rnd_nearest [of 0 "11 / 10" 4953959590107546]
    rnd_nearest [of 0 "6 / 5" 5404319552844595]
  by (simp_all add: power_int_minus)

lemma in_percent_values:
  "in_percent (rnd (21 / 20)) = 105" "in_percent (rnd (11 / 10)) = 110" "in_percent (rnd (6 / 5)) = 120"
  "in_percent (Fin (3 / 2)) = 150" "in_percent (Fin 2) = 200"
  using rnd_nearest [of 6 "4728779608739021 / 2 ^ 52 * 100" "105 * 2 ^ 46"]
    rnd_nearest [of 6 "4953959590107546 / 2 ^ 52 * 100" "110 * 2 ^ 46 + 1"]
    rnd_nearest [of 6 "5404319552844595 / 2 ^ 52 * 100" "120 * 2 ^ 46"] rnd_of_int [of 150] rnd_of_int [of 200]
    floor_unique [of 110 "7740561859543041 / 70368744177664 :: rat"]
  by (simp_all add: in_percent_def f64_as_uint_def multipliers power_int_minus)

lemma mul_ov_fits: "unat a * unat b < 2 ^ 256 \<Longrightarrow> \<exists>c. mul_ov a b = Inr c \<and> unat c = unat a * unat b" for a b :: u256
  using mul_ov_Inr [of a b "a * b"] by (auto simp: unat_word_ariths)

lemma scaled_gas_Inr:
  assumes "percent < 2 ^ 64"
  shows "scaled_gas g percent = Inr p \<longleftrightarrow> unat g * percent < 2 ^ 256 \<and> unat p = unat g * percent div 100"
proof -
  have n: "unat (of_nat percent :: u256) = percent" using assms by (simp add: unsigned_of_nat take_bit_nat_eq_self)
  show ?thesis
  proof (cases "unat g * percent < 2 ^ 256")
    case True
    then obtain c where c: "mul_ov g (of_nat percent) = Inr c" "unat c = unat g * percent"
      using mul_ov_fits [of g "of_nat percent"] n by auto
    then have "scaled_gas g percent = Inr p \<longleftrightarrow> p = c div 100" by (auto simp: scaled_gas_def)
    then show ?thesis using True c(2) by (simp add: word_unat_eq_iff unat_div)
  next
    case False
    then have "mul_ov g (of_nat percent) \<noteq> Inr c" for c using unat_less [of c] unfolding mul_ov_Inr n by simp
    then show ?thesis using False by (auto simp: scaled_gas_def)
  qed
qed

text \<open>The reported hashes are hashes of the block.\<close>

lemma tx_details_hash: "d \<in> set (tx_details get_tx txs) \<Longrightarrow> fst d \<in> set txs"
  by (auto simp: tx_details_def map_filter_def detail_of_def split: sum.splits option.splits)

lemma sorted_group_hash: "t \<in> set (sorted_group txs ds k) \<Longrightarrow> fst t \<in> fst ` set ds"
  by (force simp: sorted_group_def group_of_def in_group_def map_filter_def split: prod.splits if_splits)

lemma sandwich_scan_hash: "set (sandwich_scan ts) \<subseteq> fst ` set ts"
  by (induction ts rule: sandwich_scan.induct) auto

lemma push_new_set [simp]: "set (push_new h hs) = insert h (set hs)"
  by (auto simp: push_new_def)

lemma frontrun_scan_set:
  "frontrun_scan ts found = Inr found' \<Longrightarrow> set found \<subseteq> set found' \<and> set found' \<subseteq> set found \<union> fst ` set ts"
  by (induction ts found rule: frontrun_scan.induct) (fastforce split: if_splits)+

lemma frontruns_set:
  "frontruns txs ds ks found = Inr found'
     \<Longrightarrow> set found \<subseteq> set found' \<and> set found' \<subseteq> set found \<union> fst ` set ds"
proof (induction ks arbitrary: found)
  case (Cons k ks)
  then obtain f1 where "frontrun_scan (sorted_group txs ds k) found = Inr f1" "frontruns txs ds ks f1 = Inr found'" by auto
  moreover have "fst ` set (sorted_group txs ds k) \<subseteq> fst ` set ds" using sorted_group_hash by fast
  ultimately show ?case
    using Cons.IH [of f1] frontrun_scan_set [of "sorted_group txs ds k" found f1] by blast
qed simp

lemma arbitrages_fold:
  "set (foldl (\<lambda>found d. if P d then push_new (fst d) found else found) found ds)
     = set found \<union> {fst d |d. d \<in> set ds \<and> P d}"
  by (induction ds arbitrary: found) auto

lemma arbitrages_set:
  "set (arbitrages ds found) = set found \<union> {fst d |d. d \<in> set ds \<and> is_call d \<and> 2 \<le> other_calls ds d}"
  by (simp add: arbitrages_def arbitrages_fold)

lemma arbitrages_subset: "set (arbitrages ds found) \<subseteq> set found \<union> fst ` set ds"
  unfolding arbitrages_set by blast

lemma sandwiches_hash: "set (sandwiches txs ds ks) \<subseteq> fst ` set ds"
  using sandwich_scan_hash sorted_group_hash by (fastforce simp: sandwiches_def split: if_splits)

lemma detected_in_block:
  assumes "detect_mev_transactions get_tx ks txs = Inr mev"
  shows "set mev \<subseteq> set txs"
proof (cases "txs = []")
  case False
  let ?ds = "tx_details get_tx txs"
  from assms False obtain found where f: "frontruns txs ?ds ks (sandwiches txs ?ds ks) = Inr found" "mev = arbitrages ?ds found"
    by (auto simp: detect_mev_transactions_def Let_def)
  have "set mev \<subseteq> fst ` set ?ds"
    using frontruns_set [OF f(1)] sandwiches_hash [of txs ?ds ks] arbitrages_subset [of ?ds found] by (auto simp: f(2))
  with tx_details_hash show ?thesis by blast
qed (use assms in \<open>simp add: detect_mev_transactions_def\<close>)

text \<open>Every call of an account with three calls without value in the block is reported as arbitrage.\<close>

lemma three_calls_reported:
  assumes "detect_mev_transactions get_tx ks txs = Inr mev" and "d \<in> set (tx_details get_tx txs)"
    and "is_call d" and "2 \<le> other_calls (tx_details get_tx txs) d"
  shows "fst d \<in> set mev"
proof -
  have "txs \<noteq> []" using assms(2) by (auto simp: tx_details_def map_filter_def)
  with assms(1) obtain found where "mev = arbitrages (tx_details get_tx txs) found"
    by (auto simp: detect_mev_transactions_def Let_def)
  then show ?thesis using assms(2-4) by (simp only: arbitrages_set) blast
qed

text \<open>Two plain transfers to one address at different prices are a front run.\<close>

lemma transfers_reported:
  assumes "f1 \<noteq> f2" and "unat g2 * 120 < 2 ^ 256" and "unat g2 * 120 div 100 < unat g1" and "h1 \<noteq> h2"
    and "get_tx h1 = Inr (Some \<lparr> mt_hash = h1, mt_from = f1, mt_to = Some a, mt_input = [], mt_gas_price = Some g1, mt_value = v1 \<rparr>)"
    and "get_tx h2 = Inr (Some \<lparr> mt_hash = h2, mt_from = f2, mt_to = Some a, mt_input = [], mt_gas_price = Some g2, mt_value = v2 \<rparr>)"
  shows "detect_mev_transactions get_tx [(a, '''')] [h1, h2] = Inr [h1]"
proof -
  let ?ds = "[(h1, f1, Some a, '''', g1, v1), (h2, f2, Some a, '''', g2, v2)]"
  have ds: "tx_details get_tx [h1, h2] = ?ds"
    by (simp add: tx_details_def map_filter_def assms detail_of_def function_sig_def hex_encode_def)
  have grp: "sorted_group [h1, h2] ?ds (a, '''') = [(h1, f1, g1), (h2, f2, g2)]"
    using assms(4) by (simp add: sorted_group_def group_of_def in_group_def map_filter_def position_def)
  obtain p :: u256 where p: "mul_ov g2 120 = Inr p" "unat p = unat g2 * 120"
    using mul_ov_fits [of g2 120] assms(2) by auto
  have "p div 100 < g1" using assms(3) p(2) by (simp add: word_less_nat_alt unat_div)
  moreover have "g2 < g1" using assms(3) by (simp add: word_less_nat_alt)
  moreover have "\<not> starts_with '''' ''0x''" by (simp add: starts_with_def)
  ultimately show ?thesis
    using assms(1) p(1)
    by (simp add: detect_mev_transactions_def ds grp sandwiches_def swap_selectors_def starts_with_def push_new_def
      arbitrages_def is_call_def)
qed

text \<open>At most a hundred blocks are kept.\<close>

lemma keep_last_length: "length xs \<le> n \<Longrightarrow> length (keep_last n (xs @ [x])) \<le> n"
  by (simp add: keep_last_def)

lemma congestion_bounds: "1 \<le> congestion_of n \<and> congestion_of n \<le> 10"
proof -
  obtain q where "f64_max (f64_min (f64_mul (f64_div (f64_of_nat n) (Fin 10000)) (Fin 10)) (Fin 10)) (Fin 1) = Fin q"
    "1 \<le> q" "q \<le> 10" using f64_clamped [of 1 10 "f64_mul (f64_div (f64_of_nat n) (Fin 10000)) (Fin 10)"] by auto
  then show ?thesis by (auto simp: congestion_of_def f64_as_uint_def) linarith+
qed

text \<open>A text of hexadecimal digits has no \<open>x\<close>, so no selector with \<open>0x\<close> occurs in it.\<close>

lemma hex_digit_in: "hex_digit n \<in> set ''0123456789abcdef''"
  unfolding hex_digit_def by (rule nth_mem) simp

lemma hex_digit_not_x: "hex_digit n \<noteq> CHR ''x''"
  using hex_digit_in [of n] by auto

lemma hex_encode_not_x: "CHR ''x'' \<notin> set (hex_encode bs)"
  by (auto simp: hex_encode_def hex_digit_not_x hex_digit_not_x [symmetric])

lemma hex_has_no_prefix: "\<not> contains_str (hex_encode bs) (''0x'' @ s)"
  using hex_encode_not_x [of bs] by (auto simp: contains_str_iff)

lemma input_score_exact: "input_score (Some bs) = (if 1000 < length bs then 5 else 0)"
  using hex_has_no_prefix [of bs "''38ed1739''"] by (simp add: input_score_def)

lemma drop_read_guard [simp]: "drop_guard (read_guard l) = l"
  by (simp add: drop_guard_def read_guard_def)

lemma no_write_under_guard: "\<not> try_write (read_guard l)"
  by (simp add: try_write_def read_guard_def)

lemma known_unchanged: "detect_mev_transaction elems config seen stats tx l = Inr (b, l') \<Longrightarrow> l' = l"
  by (auto simp: detect_mev_transaction_def Let_def no_write_under_guard split: if_splits)

text \<open>The points for the gas price.\<close>

lemma gas_score_exact:
  assumes "unat avg * 5 < 2 ^ 256"
  shows "gas_score (Some avg) (Some p) =
     Inr (if unat avg * 3 < unat p then 15 else if unat avg * 2 < unat p then 10
          else if unat avg * 5 div 3 < unat p then 5 else 0)"
proof -
  from assms obtain a b c where "mul_ov avg 3 = Inr a" "unat a = unat avg * 3"
    "mul_ov avg 2 = Inr b" "unat b = unat avg * 2" "mul_ov avg 5 = Inr c" "unat c = unat avg * 5"
    using mul_ov_fits [of avg 3] mul_ov_fits [of avg 2] mul_ov_fits [of avg 5] by auto
  then show ?thesis by (simp add: gas_score_def word_less_nat_alt unat_div)
qed

lemma lone_transaction:
  assumes "oc_mev_detection_enabled config" and "mx_hash tx \<notin> kl_known l" and "sender_score (mx_from tx) = 0"
    and "mx_gas_price tx = Some p" and "mx_input tx = Some bs" and "unat avg * 5 < 2 ^ 256"
  shows "detect_mev_transaction elems config None (Some avg) tx l =
     Inr (unat avg * 3 < unat p \<or> (unat avg * 2 < unat p \<and> 1000 < length bs), l)"
proof -
  have "mx_hash tx \<notin> kl_known (read_guard l)" using assms(2) by (simp add: read_guard_def)
  then show ?thesis
    using assms(1,3) no_write_under_guard [of l]
    by (auto simp: detect_mev_transaction_def Let_def assms(4,5) gas_score_exact [OF assms(6)] input_score_exact
      sandwich_score_def arbitrage_score_def related_score_def)
qed

end
