(* ===== verification/MonteCarlo.thy ===== *)
theory MonteCarlo
  imports MevDetection
begin

text \<open>
  The simulation of front-running strategies in \<^verbatim>\<open>snipebot/src/trade/MonteEquilibrium.rs\<close>, the choice
  among them, the parameters of the transaction and the history of decisions, and the states the
  optimizer reaches. What the random generator delivers is an argument: per strategy and run a draw of
  the competition, a number below one and a draw of the price impact (used by a successful run only).
  The gas price and the prices of ETH are the answers of the adapter.
\<close>

section \<open>Simulation\<close>

record simulation_metrics =
  sm_profit_potential :: f64
  sm_risk_level :: f64
  sm_execution_time_ms :: nat
  sm_gas_used :: nat
  sm_success_probability :: f64
  sm_expected_profit :: f64
  sm_worst_case_profit :: f64
  sm_best_case_profit :: f64
  sm_simulated_tx_count :: u64

definition no_metrics :: simulation_metrics where
  "no_metrics =
     \<lparr> sm_profit_potential = Fin 0, sm_risk_level = Fin 10, sm_execution_time_ms = 0, sm_gas_used = 0,
       sm_success_probability = Fin 0, sm_expected_profit = Fin 0, sm_worst_case_profit = Fin 0,
       sm_best_case_profit = Fin 0, sm_simulated_tx_count = 0 \<rparr>"

record draws =
  dr_competition :: f64
  dr_uniform :: f64
  dr_impact :: f64

definition success_chance :: "f64 \<Rightarrow> u8 \<Rightarrow> f64 \<Rightarrow> f64" where
  "success_chance gas_multiplier level competition =
     (let base_prob = f64_add (rnd (4 / 10)) (f64_mul gas_multiplier (rnd (2 / 10)));
          congestion = f64_div (f64_of_nat (unat level)) (Fin 10);
          factor = f64_min (f64_max competition (rnd (1 / 10))) (rnd (9 / 10))
      in f64_mul (f64_mul base_prob (f64_sub (Fin 1) (f64_mul congestion (Fin (1 / 2))))) (f64_sub (Fin 1) factor))"

text \<open>A gas price in the upper half of \<open>u128\<close> counts as 50 Gwei.\<close>

definition gas_price_gwei :: "u256 \<Rightarrow> f64 res" where
  "gas_price_gwei gas_price =
     rbind (as_u128 gas_price) (\<lambda>g.
       Inr (if (2 ^ 128 - 1) div 2 < unat g then Fin 50 else f64_div (f64_of_nat (unat g)) (Fin 1000000000)))"

text \<open>One run: whether it succeeds, and the net profit.\<close>

definition simulated_run :: "f64 \<Rightarrow> f64 \<Rightarrow> f64 \<Rightarrow> u8 \<Rightarrow> f64 \<Rightarrow> draws \<Rightarrow> bool \<times> f64" where
  "simulated_run victim_usd eth_price gas_multiplier congestion gwei d =
     (let front_usd = f64_mul (rnd (1 / 10)) eth_price;
          ok = f64_lt (dr_uniform d) (success_chance gas_multiplier congestion (dr_competition d))
      in if ok then
           let ours = f64_min (f64_max (dr_impact d) (rnd (1 / 1000))) (rnd (5 / 100));
               victims = f64_mul (f64_div victim_usd front_usd) ours;
               gross = f64_mul front_usd (f64_add ours victims);
               cost = f64_div (f64_mul (f64_mul gwei (Fin 250000)) (Fin 2)) eth_price
           in (True, f64_sub gross cost)
         else (False, f64_neg (f64_div (f64_mul gwei (Fin 250000)) eth_price)))"

definition metrics_of :: "u64 \<Rightarrow> (bool \<times> f64) list \<Rightarrow> simulation_metrics" where
  "metrics_of n_runs runs =
     (let n = f64_of_nat (unat n_runs);
          chance = f64_div (f64_of_nat (length (filter fst runs))) n;
          expected = f64_div (f64_sum (map snd runs)) n
      in \<lparr> sm_profit_potential = expected, sm_risk_level = f64_sub (Fin 10) (f64_mul chance (Fin 10)),
           sm_execution_time_ms = 250, sm_gas_used = 500000, sm_success_probability = chance,
           sm_expected_profit = expected, sm_worst_case_profit = foldl f64_min Pos_inf (map snd runs),
           sm_best_case_profit = foldl f64_max Neg_inf (map snd runs), sm_simulated_tx_count = n_runs \<rparr>)"

text \<open>\<open>normal_ok\<close>: the library accepts the parameters of the two distributions.\<close>

definition simulate_frontrun_strategy ::
  "bool \<Rightarrow> (nat \<Rightarrow> draws) \<Rightarrow> string + f64 \<Rightarrow> gas_equilibrium \<Rightarrow> f64 \<Rightarrow> u256 \<Rightarrow> f64 \<Rightarrow> (string + simulation_metrics) res" where
  "simulate_frontrun_strategy normal_ok draw eth_price self victim_usd base_gas gas_multiplier =
     rbind (scaled_gas base_gas (in_percent gas_multiplier)) (\<lambda>gas_price.
       case eth_price of
         Inl e \<Rightarrow> Inr (Inl e)
       | Inr eth \<Rightarrow>
           let n = oc_simulation_count (ge_config self)
           in if \<not> normal_ok then Inr (Inr no_metrics)
              else if n = 0 then Inr (Inr (metrics_of n []))
              else rbind (gas_price_gwei gas_price) (\<lambda>gwei.
                Inr (Inr (metrics_of n (map (\<lambda>i. simulated_run victim_usd eth gas_multiplier
                  (ms_congestion_level (ge_mempool_state self)) gwei (draw i)) [0..<unat n])))))"

section \<open>Choice of a strategy\<close>

definition strategies :: "(string \<times> f64) list" where
  "strategies =
     [(''conservative'', rnd (105 / 100)), (''moderate'', rnd (11 / 10)), (''aggressive'', rnd (12 / 10)),
      (''very_aggressive'', Fin (3 / 2)), (''extreme'', Fin 2)]"

record simulation_strategy =
  ss_strategy_name :: string
  ss_gas_multiplier :: f64
  ss_gas_price :: u256
  ss_expected_profit :: f64
  ss_success_probability :: f64

definition min_success_probability :: "risk_level \<Rightarrow> f64" where
  "min_success_probability r =
     (case r of Very_low \<Rightarrow> rnd (9 / 10) | Low \<Rightarrow> rnd (8 / 10) | Medium \<Rightarrow> rnd (7 / 10) | High \<Rightarrow> rnd (6 / 10)
      | Very_high \<Rightarrow> Fin (1 / 2))"

text \<open>\<open>max_by\<close> keeps the later of two elements that compare as equal, and \<open>NaN\<close> is equal to everything.\<close>

fun max_by_from :: "('a \<Rightarrow> f64) \<Rightarrow> 'a \<Rightarrow> 'a list \<Rightarrow> 'a" where
  "max_by_from key x [] = x"
| "max_by_from key x (y # ys) = max_by_from key (if f64_lt (key y) (key x) then x else y) ys"

fun max_by :: "('a \<Rightarrow> f64) \<Rightarrow> 'a list \<Rightarrow> 'a option" where
  "max_by key [] = None"
| "max_by key (x # xs) = Some (max_by_from key x xs)"

type_synonym simulated = "string \<times> f64 \<times> simulation_metrics"

definition choose_strategy :: "risk_level \<Rightarrow> simulated list \<Rightarrow> simulated option" where
  "choose_strategy risk results =
     (let qualified = filter (\<lambda>(name, m, r). f64_le (min_success_probability risk) (sm_success_probability r)) results
      in if qualified = [] then max_by (\<lambda>(name, m, r). sm_success_probability r) results
         else max_by (\<lambda>(name, m, r). sm_expected_profit r) qualified)"

fun simulate_all ::
  "bool \<Rightarrow> (nat \<Rightarrow> nat \<Rightarrow> draws) \<Rightarrow> (nat \<Rightarrow> string + f64) \<Rightarrow> gas_equilibrium \<Rightarrow> f64 \<Rightarrow> u256 \<Rightarrow> nat \<Rightarrow> (string \<times> f64) list
     \<Rightarrow> (string + simulated list) res" where
  "simulate_all normal_ok draw eth self victim_usd base_gas i [] = Inr (Inr [])"
| "simulate_all normal_ok draw eth self victim_usd base_gas i ((name, m) # ss) =
     rbind (simulate_frontrun_strategy normal_ok (draw i) (eth i) self victim_usd base_gas m) (\<lambda>r.
       case r of
         Inl e \<Rightarrow> Inr (Inl e)
       | Inr metrics \<Rightarrow>
           rbind (simulate_all normal_ok draw eth self victim_usd base_gas (i + 1) ss) (\<lambda>rs.
             Inr (case rs of Inl e \<Rightarrow> Inl e | Inr ms \<Rightarrow> Inr ((name, m, metrics) # ms))))"

definition stored_result :: "u64 \<Rightarrow> simulated \<Rightarrow> simulation_result" where
  "stored_result now s =
     (case s of (name, m, r) \<Rightarrow>
        \<lparr> sr_strategy = name, sr_gas_multiplier = m, sr_success_probability = sm_success_probability r,
          sr_expected_profit = sm_expected_profit r, sr_worst_case_profit = sm_worst_case_profit r,
          sr_best_case_profit = sm_best_case_profit r, sr_simulated_tx_count = sm_simulated_tx_count r, sr_timestamp = now \<rparr>)"

definition run_monte_carlo_simulation ::
  "bool \<Rightarrow> (nat \<Rightarrow> nat \<Rightarrow> draws) \<Rightarrow> (nat \<Rightarrow> string + f64) \<Rightarrow> string + u256 \<Rightarrow> u64 \<Rightarrow> string \<Rightarrow> f64 \<Rightarrow> gas_equilibrium
     \<Rightarrow> ((string + simulation_strategy) \<times> gas_equilibrium) res" where
  "run_monte_carlo_simulation normal_ok draw eth gas_reply now token victim_usd self =
     (case gas_reply of
        Inl e \<Rightarrow> Inr (Inl e, self)
      | Inr base_gas \<Rightarrow>
          rbind (simulate_all normal_ok draw eth self victim_usd base_gas 0 strategies) (\<lambda>rs.
            case rs of
              Inl e \<Rightarrow> Inr (Inl e, self)
            | Inr results \<Rightarrow>
                let self' = self\<lparr> ge_simulation_results :=
                  (ge_simulation_results self)(token \<mapsto> map (stored_result now) results) \<rparr>
                in case choose_strategy (oc_risk_tolerance (ge_config self)) results of
                     None \<Rightarrow> Inr (Inl ''no strategy to simulate'', self')
                   | Some (name, m, r) \<Rightarrow>
                       rbind (scaled_gas base_gas (in_percent m)) (\<lambda>gas_price.
                         Inr (Inr \<lparr> ss_strategy_name = name, ss_gas_multiplier = m, ss_gas_price = gas_price,
                           ss_expected_profit = sm_expected_profit r, ss_success_probability = sm_success_probability r \<rparr>, self'))))"

definition should_frontrun :: "gas_equilibrium \<Rightarrow> simulation_strategy \<Rightarrow> bool" where
  "should_frontrun self s \<longleftrightarrow>
     \<not> f64_lt (ss_expected_profit s) (oc_min_profit_threshold (ge_config self)) \<and>
     f64_le (min_success_probability (oc_risk_tolerance (ge_config self))) (ss_success_probability s)"

section \<open>Parameters of the transaction\<close>

text \<open>The variant \<open>Aggressive\<close> the code compares with is not declared; it is an argument.\<close>

datatype strategy_type = Snipe | Sandwich_strategy | Frontrun | Auto

record front_run_strategy =
  fs_gas_price_multiplier :: f64
  fs_timing :: f64
  fs_use_flashbots :: bool
  fs_use_multi_block :: bool
  fs_strategy_type :: strategy_type
  fs_position_size :: f64

record transaction_parameters =
  tp_gas_price :: u256
  tp_use_flashbots :: bool
  tp_position_size :: f64
  tp_timing_delay_ms :: "nat option"
  tp_retry_count :: nat

definition apply_strategy_to_transaction :: "strategy_type \<Rightarrow> front_run_strategy \<Rightarrow> u256 \<Rightarrow> transaction_parameters res" where
  "apply_strategy_to_transaction aggressive s base_gas =
     (if f64_le (fs_gas_price_multiplier s) (Fin 0)
      then Inr \<lparr> tp_gas_price = base_gas, tp_use_flashbots = fs_use_flashbots s, tp_position_size = fs_position_size s,
                 tp_timing_delay_ms = None, tp_retry_count = 1 \<rparr>
      else
        rbind (GasOptimizer.as_u64 base_gas) (\<lambda>base64.
          let millionths = f64_as_uint (2 ^ 64) (f64_mul (fs_gas_price_multiplier s) (Fin 1000000));
              product = unat base64 * millionths
          in Inr \<lparr> tp_gas_price = (if product < 2 ^ 64 then of_nat (product div 1000000) else base_gas),
                   tp_use_flashbots = fs_use_flashbots s,
                   tp_position_size = (if f64_le (fs_position_size s) (Fin 0) \<or> f64_lt (Fin 1) (fs_position_size s)
                                       then rnd (1 / 10) else fs_position_size s),
                   tp_timing_delay_ms = (if f64_lt (fs_timing s) (rnd (2 / 10)) then None
                                         else Some (f64_as_uint (2 ^ 64) (f64_mul (fs_timing s) (Fin 500)))),
                   tp_retry_count = (if fs_strategy_type s = aggressive then 3 else 1) \<rparr>))"

section \<open>Decisions\<close>

record mempool_summary =
  mp_pending_tx_count :: u64
  mp_congestion_level :: u8
  mp_avg_gas_price :: f64
  mp_gas_price_percentile_90 :: f64

record decision_outcome =
  do_success :: bool
  do_profit :: f64
  do_gas_cost :: f64
  do_included_in_block :: "u64 option"
  do_confirmation_time :: "u64 option"

record game_decision =
  gd_chosen_strategy :: front_run_strategy
  gd_block_number :: u64
  gd_mempool_state :: mempool_summary
  gd_outcome :: "decision_outcome option"
  gd_timestamp :: u64

text \<open>\<open>decision_history\<close> and the \<open>history_size\<close> of its configuration.\<close>

record decisions =
  dh_history :: "game_decision list"
  dh_history_size :: nat

definition record_decision :: "game_decision \<Rightarrow> decisions \<Rightarrow> decisions" where
  "record_decision d s =
     (let h = dh_history s @ [d] in s\<lparr> dh_history := drop (length h - dh_history_size s) h \<rparr>)"

definition calculate_success_rate :: "decisions \<Rightarrow> f64" where
  "calculate_success_rate s =
     (let outcomes = List.map_filter gd_outcome (dh_history s)
      in if outcomes = [] then Fin (1 / 2)
         else f64_div (f64_of_nat (length (filter do_success outcomes))) (f64_of_nat (length outcomes)))"

text \<open>The first decision of the same opportunity and time is replaced.\<close>

fun replace_first :: "('a \<Rightarrow> bool) \<Rightarrow> 'a \<Rightarrow> 'a list \<Rightarrow> 'a list" where
  "replace_first p y [] = []"
| "replace_first p y (x # xs) = (if p x then y # xs else x # replace_first p y xs)"

definition update_decision_outcome :: "(game_decision \<Rightarrow> string) \<Rightarrow> game_decision \<Rightarrow> decisions \<Rightarrow> decisions" where
  "update_decision_outcome opportunity_id u s =
     s\<lparr> dh_history := replace_first (\<lambda>d. opportunity_id d = opportunity_id u \<and> gd_timestamp d = gd_timestamp u) u (dh_history s) \<rparr>"

section \<open>Reachable states\<close>

inductive optimizer_reach :: "optimizer_config \<Rightarrow> gas_equilibrium \<Rightarrow> bool" for config where
  start: "optimizer_reach config (new_equilibrium secs a config)"
| mempool: "optimizer_reach config s \<Longrightarrow> update_mempool_state txpool price now s = Inr (r, s') \<Longrightarrow> optimizer_reach config s'"
| block: "optimizer_reach config s \<Longrightarrow> update_block_info get_tx ks n reply s = Inr (r, s') \<Longrightarrow> optimizer_reach config s'"
| players: "optimizer_reach config s \<Longrightarrow> analyze_players now keys s = Inr s' \<Longrightarrow> optimizer_reach config s'"
| simulation: "optimizer_reach config s \<Longrightarrow>
    run_monte_carlo_simulation ok draw eth gas_reply now token usd s = Inr (r, s') \<Longrightarrow> optimizer_reach config s'"

definition optimizer_inv :: "optimizer_config \<Rightarrow> gas_equilibrium \<Rightarrow> bool" where
  "optimizer_inv config s \<longleftrightarrow>
     ge_players s = Map.empty \<and> ge_my_strategy s = Moderate \<and> ge_config s = config \<and>
     length (ge_recent_blocks s) \<le> 100 \<and>
     1 \<le> unat (ms_congestion_level (ge_mempool_state s)) \<and> unat (ms_congestion_level (ge_mempool_state s)) \<le> 10"

lemma update_mempool_inv:
  assumes "optimizer_inv config s" and "update_mempool_state txpool price now s = Inr (r, s')"
  shows "optimizer_inv config s'"
proof -
  have "unat (of_nat (congestion_of n) :: u8) = congestion_of n" for n
    using congestion_bounds [of n] by (simp add: unsigned_of_nat take_bit_nat_eq_self)
  with assms show ?thesis
    using congestion_bounds
    by (cases txpool; cases price) (auto simp: optimizer_inv_def update_mempool_state_def Let_def)
qed

lemma update_block_inv:
  "optimizer_inv config s \<Longrightarrow> update_block_info get_tx ks n reply s = Inr (r, s') \<Longrightarrow> optimizer_inv config s'"
  by (auto simp: optimizer_inv_def update_block_info_def keep_last_length split: sum.splits option.splits)

lemma analyze_players_inv:
  "optimizer_inv config s \<Longrightarrow> analyze_players now keys s = Inr s' \<Longrightarrow> optimizer_inv config s'"
  by (simp add: optimizer_inv_def analyze_players_def stale_players_def)

lemma simulation_inv:
  assumes inv: "optimizer_inv config s" and run: "run_monte_carlo_simulation ok draw eth gas_reply now token usd s = Inr (r, s')"
  shows "optimizer_inv config s'"
proof (cases gas_reply)
  case (Inl e)
  with assms show ?thesis by (simp add: run_monte_carlo_simulation_def)
next
  case (Inr g)
  with run obtain rs where rs: "simulate_all ok draw eth s usd g 0 strategies = Inr rs"
    by (auto simp: run_monte_carlo_simulation_def)
  show ?thesis
  proof (cases rs)
    case (Inl e)
    with run rs \<open>gas_reply = Inr g\<close> inv show ?thesis by (simp add: run_monte_carlo_simulation_def)
  next
    case (Inr results)
    with run rs \<open>gas_reply = Inr g\<close> inv show ?thesis
      by (cases "choose_strategy (oc_risk_tolerance (ge_config s)) results")
        (auto simp: run_monte_carlo_simulation_def Let_def optimizer_inv_def split: prod.split_asm)
  qed
qed

lemma reach_inv: "optimizer_reach config s \<Longrightarrow> optimizer_inv config s"
proof (induction rule: optimizer_reach.induct)
  case (start secs a)
  show ?case by (simp add: optimizer_inv_def new_equilibrium_def)
qed (blast intro: update_mempool_inv update_block_inv analyze_players_inv simulation_inv)+

section \<open>The choice\<close>

lemma max_by_from_in: "max_by_from key x xs \<in> set (x # xs)"
  by (induction xs arbitrary: x) fastforce+

lemma max_by_in: "max_by key xs = Some y \<Longrightarrow> y \<in> set xs"
  using max_by_from_in [of key] by (cases xs) fastforce+

lemma max_by_from_max:
  "(\<forall>y \<in> set (x # xs). key y \<noteq> NaN) \<Longrightarrow> (\<forall>y \<in> set (x # xs). f64_le (key y) (key (max_by_from key x xs)))"
proof (induction xs arbitrary: x)
  case (Cons z zs)
  let ?w = "if f64_lt (key z) (key x) then x else z"
  have w: "key ?w \<noteq> NaN" using Cons.prems by simp
  then have rest: "\<forall>y \<in> set (?w # zs). f64_le (key y) (key (max_by_from key ?w zs))"
    by (intro Cons.IH) (use Cons.prems in simp)
  have "f64_le (key x) (key ?w) \<and> f64_le (key z) (key ?w)"
    using Cons.prems not_NaN_total [of "key x" "key z"] by (auto simp: f64_le_def)
  with rest show ?case by (auto intro: f64_le_trans)
qed (simp add: f64_le_refl)

lemma max_by_max: "max_by key xs = Some y \<Longrightarrow> \<forall>x \<in> set xs. key x \<noteq> NaN \<Longrightarrow> x \<in> set xs \<Longrightarrow> f64_le (key x) (key y)"
  using max_by_from_max [of "hd xs" "tl xs" key] by (cases xs) auto

lemma max_by_Some: "xs \<noteq> [] \<Longrightarrow> \<exists>y. max_by key xs = Some y"
  by (cases xs) simp_all

text \<open>A profit that is not a number passes the comparison with the threshold.\<close>

lemma nan_profit_accepted:
  "ss_expected_profit s = NaN \<Longrightarrow>
     should_frontrun self s = f64_le (min_success_probability (oc_risk_tolerance (ge_config self))) (ss_success_probability s)"
  by (simp add: should_frontrun_def)

text \<open>With a price of zero every successful run has no number as its profit.\<close>

lemma free_eth_nan:
  assumes "0 < v" and "fst (simulated_run (Fin v) (Fin 0) m c gwei d)"
  shows "snd (simulated_run (Fin v) (Fin 0) m c gwei d) = NaN"
proof -
  have g: "rnd (1 / 1024) = Fin (1 / 1024)" by (rule rnd_exact [of _ 1 "- 10"]) (simp_all add: power_int_minus)
  from rnd_between [of 0 "1 / 10" 1] rnd_small obtain t where t: "rnd (1 / 10) = Fin t" by auto
  from rnd_between [of "1 / 1024" "1 / 1000" 1] g rnd_small obtain lo where lo: "rnd (1 / 1000) = Fin lo" "0 < lo" by auto
  from rnd_between [of "1 / 1024" "5 / 100" 1] g rnd_small obtain hi where hi: "rnd (1 / 20) = Fin hi" "0 < hi" by auto
  have "\<exists>r. f64_min (f64_max (dr_impact d) (Fin lo)) (Fin hi) = Fin r \<and> 0 < r"
    using lo(2) hi(2) by (cases "dr_impact d") (simp_all add: f64_min_def f64_max_def)
  then obtain r where r: "f64_min (f64_max (dr_impact d) (Fin lo)) (Fin hi) = Fin r" "0 < r" by auto
  show ?thesis
    using assms by (auto simp: simulated_run_def Let_def t lo(1) hi(1) r rnd_small signed_inf_def f64_sub_def split: if_splits)
qed

lemma history_bounded: "length (dh_history (record_decision d s)) \<le> dh_history_size s"
  by (simp add: record_decision_def Let_def)

lemma record_decision_keeps:
  "length (dh_history s) < dh_history_size s \<Longrightarrow> dh_history (record_decision d s) = dh_history s @ [d]"
  by (simp add: record_decision_def Let_def)

lemma update_outcome_length: "length (dh_history (update_decision_outcome f u s)) = length (dh_history s)"
proof -
  have "length (replace_first p u xs) = length xs" for p xs by (induction xs) simp_all
  then show ?thesis by (simp add: update_decision_outcome_def)
qed

lemma chosen_strategy_best:
  assumes "choose_strategy risk results = Some (n, m, r)"
    and "\<forall>x \<in> set results. sm_expected_profit (snd (snd x)) \<noteq> NaN"
    and "(n', m', r') \<in> set results" and "f64_le (min_success_probability risk) (sm_success_probability r')"
  shows "(n, m, r) \<in> set results \<and> f64_le (min_success_probability risk) (sm_success_probability r) \<and>
    f64_le (sm_expected_profit r') (sm_expected_profit r)"
proof -
  let ?q = "filter (\<lambda>(name, m, r). f64_le (min_success_probability risk) (sm_success_probability r)) results"
  let ?key = "\<lambda>(name :: string, m :: f64, r). sm_expected_profit r"
  have q: "(n', m', r') \<in> set ?q" using assms(3,4) by simp
  then have "?q \<noteq> []" by (metis empty_iff list.set(1))
  then have best: "max_by ?key ?q = Some (n, m, r)" using assms(1) by (simp add: choose_strategy_def Let_def)
  have "\<forall>x \<in> set ?q. ?key x \<noteq> NaN" using assms(2) by auto
  from max_by_max [OF best this q] max_by_in [OF best] show ?thesis by auto
qed

text \<open>C10. The optimizer never learns: in every state it reaches its map of players is empty, and the gas price
  it calculates is the given one raised by a tenth, whatever the network did; a price whose product with
  110 exceeds a \<open>u256\<close> is a panic.
\<close>

theorem optimizer_never_learns:
  assumes "optimizer_reach config s" and "set keys = dom (ge_players s)"
  shows "ge_players s = Map.empty
         \<and> (case calculate_nash_equilibrium_gas keys s g of
              Inr p \<Rightarrow> unat g * 110 < 2 ^ 256 \<and> unat p = unat g * 110 div 100
            | Inl e \<Rightarrow> 2 ^ 256 \<le> unat g * 110 \<and> e = Overflow)"
proof -
  have inv: "ge_players s = Map.empty" "ge_my_strategy s = Moderate"
    using reach_inv [OF assms(1)] by (simp_all add: optimizer_inv_def)
  then have "keys = []" using assms(2) by simp
  with inv have c: "calculate_nash_equilibrium_gas keys s g = rbind (mul_ov g 110) (\<lambda>m. Inr (m div 100))"
    by (simp add: calculate_nash_equilibrium_gas_def default_multiplier_def in_percent_values scaled_gas_def)
  show ?thesis
  proof (cases "unat g * 110 < 2 ^ 256")
    case True
    then obtain m :: u256 where "mul_ov g 110 = Inr m" "unat m = unat g * 110"
      using mul_ov_fits [of g 110] by auto
    with c inv True show ?thesis by (simp add: unat_div)
  qed (use c inv in \<open>simp add: mul_ov_def\<close>)
qed

definition sample_optimizer_config :: optimizer_config where
  "sample_optimizer_config =
     \<lparr> oc_min_profit_threshold = Fin 5, oc_risk_tolerance = Medium, oc_max_gas_multiplier = Fin 2, oc_simulation_count = 100,
       oc_player_data_ttl = 3600, oc_use_flashbots = False, oc_sandwich_enabled = True, oc_frontrun_enabled = True,
       oc_mev_detection_enabled = True \<rparr>"

theorem optimizer_never_learns_witness:
  "case calculate_nash_equilibrium_gas [] (new_equilibrium 7 ''me'' sample_optimizer_config) 50000000000 of
     Inr p \<Rightarrow> unat p = 55000000000 | Inl e \<Rightarrow> False"
  using optimizer_never_learns [OF optimizer_reach.start [where secs = 7 and a = "''me''" and config = sample_optimizer_config],
      of "[]" 50000000000]
  by (simp add: new_equilibrium_def split: sum.splits)

end
