(* ===== verification/ProfitDecisions.thy ===== *)
theory ProfitDecisions
  imports MevDetection Mempool "HOL-Library.Multiset"
begin

text \<open>
  Taking profits in \<^verbatim>\<open>snipebot/src/trade/MonteEquilibrium.rs\<close> with the models of
  \<^verbatim>\<open>snipebot/src/trade/profit_models.rs\<close>: the activity in the mempool and of the competitors, the
  scenarios and their scores, the chance to reach a price, the decision and its execution. Market,
  position, estimated price, the chance of a sandwich, the history of sandwiches and that of prices
  come from functions and modules no file declares; their answers are arguments (\<open>decision_env\<close>), and so
  are the normal distribution of the \<^verbatim>\<open>statrs\<close> library and the trade manager's answers. The text of the reasoning
  is an argument as well.
\<close>

section \<open>Data\<close>

datatype profit_action =
    Take_profit
  | Hold_for_price_target f64 u64
  | Continue_sandwich u32 u64
  | DCA_buy u32 u32 u64

record profit_scenario =
  ps_action :: profit_action
  ps_expected_profit :: f64
  ps_probability_success :: f64
  ps_risk_factor :: f64
  ps_time_horizon :: u64
  ps_score :: f64

record profit_decision =
  pd_token_address :: string
  pd_recommended_action :: profit_action
  pd_expected_profit :: f64
  pd_reasoning :: string
  pd_all_scenarios :: "profit_scenario list"
  pd_current_token_price :: f64
  pd_current_profit_usd :: f64
  pd_decision_time :: u64

record execution_result =
  er_action_executed :: profit_action
  er_success :: bool
  er_transaction_hash :: "string option"
  er_profit_usd :: f64
  er_execution_time :: u64
  er_error_message :: "string option"

record potential_victim =
  pv_tx_hash :: string
  pv_amount_usd :: f64
  pv_gas_price :: u256
  pv_timestamp :: u64

record mempool_token_activity =
  ma_token_address :: string
  ma_pending_buy_count :: nat
  ma_pending_sell_count :: nat
  ma_average_buy_size_usd :: f64
  ma_average_sell_size_usd :: f64
  ma_potential_victims :: "potential_victim list"
  ma_last_analyzed :: u64

record competitor_analysis =
  ca_token_address :: string
  ca_active_mev_bots :: nat
  ca_sandwich_bot_count :: nat
  ca_frontrun_bot_count :: nat
  ca_arbitrage_bot_count :: nat
  ca_average_gas_multiplier :: f64
  ca_competitors_aggression :: f64
  ca_last_analyzed :: u64

datatype market_trend = Uptrend | Downtrend | Sideways

section \<open>Activity in the mempool\<close>

definition victim_of :: "pending_swap \<Rightarrow> potential_victim" where
  "victim_of s =
     \<lparr> pv_tx_hash = swap_hash s, pv_amount_usd = amount_usd s, pv_gas_price = swap_gas_price s, pv_timestamp = swap_timestamp s \<rparr>"

definition average_size :: "pending_swap list \<Rightarrow> f64" where
  "average_size ss = (if ss = [] then Fin 0 else f64_div (f64_sum (map amount_usd ss)) (f64_of_nat (length ss)))"

definition activity_of :: "u64 \<Rightarrow> string \<Rightarrow> pending_swap list \<Rightarrow> mempool_token_activity" where
  "activity_of now token swaps =
     (let buys = filter is_buy swaps; sells = filter (\<lambda>s. \<not> is_buy s) swaps
      in \<lparr> ma_token_address = token, ma_pending_buy_count = length buys, ma_pending_sell_count = length sells,
           ma_average_buy_size_usd = average_size buys, ma_average_sell_size_usd = average_size sells,
           ma_potential_victims = map victim_of (filter (\<lambda>s. f64_lt (Fin 100) (amount_usd s)) buys),
           ma_last_analyzed = now \<rparr>)"

text \<open>
  \<open>analyze_token_mempool_activity\<close>: without a tracker, or while its lock is taken, there is nothing to
  analyze. \<open>tracker\<close> is \<open>None\<close> without a tracker and \<open>Some None\<close> when the lock is taken.
\<close>

definition analyze_token_mempool_activity :: "u64 \<Rightarrow> mempool_tracker option option \<Rightarrow> string \<Rightarrow> mempool_token_activity" where
  "analyze_token_mempool_activity now tracker token =
     (case tracker of
        Some (Some t) \<Rightarrow> activity_of now token (case pending_swaps t token of Some ss \<Rightarrow> ss | None \<Rightarrow> [])
      | _ \<Rightarrow> activity_of now token [])"

section \<open>Competitors\<close>

definition strategy_index :: "gas_strategy \<Rightarrow> int" where
  "strategy_index s =
     (case s of Conservative \<Rightarrow> 0 | Moderate \<Rightarrow> 1 | Aggressive \<Rightarrow> 2 | Very_aggressive \<Rightarrow> 3 | Unknown \<Rightarrow> -1)"

text \<open>The players whose key is the text of a MEV transaction's hash (\<open>debug_hash\<close>), as the tasks send them.\<close>

definition player_reports :: "(h256 \<Rightarrow> string) \<Rightarrow> gas_equilibrium \<Rightarrow> (network_player \<times> int) list" where
  "player_reports debug_hash self =
     List.map_filter (\<lambda>h. map_option (\<lambda>p. (p, strategy_index (np_estimated_gas_strategy p))) (ge_players self (debug_hash h)))
       (concat (map bi_successful_mev_txs (ge_recent_blocks self)))"

fun gas_values :: "player_transaction list \<Rightarrow> f64 list res" where
  "gas_values [] = Inr []"
| "gas_values (tx # txs) =
     (if pt_gas_price tx = 0 then gas_values txs
      else rbind (as_u128 (pt_gas_price tx)) (\<lambda>g.
           rbind (gas_values txs) (\<lambda>vs.
             Inr ((if 2 ^ 64 - 1 < unat g then Fin 0 else f64_of_nat (unat g)) # vs))))"

definition average_gas :: "network_player \<Rightarrow> f64 res" where
  "average_gas p =
     rbind (gas_values (np_recent_transactions p)) (\<lambda>vs.
       Inr (f64_div (f64_sum vs) (f64_of_nat (max (length (np_recent_transactions p)) 1))))"

text \<open>The sets of hashes, the sum of the averages and their number.\<close>

record bot_counts =
  bc_mev :: "h256 set"
  bc_sandwich :: "h256 set"
  bc_frontrun :: "h256 set"
  bc_arbitrage :: "h256 set"
  bc_total_gas :: f64
  bc_gas_count :: nat

definition no_bots :: bot_counts where
  "no_bots = \<lparr> bc_mev = {}, bc_sandwich = {}, bc_frontrun = {}, bc_arbitrage = {}, bc_total_gas = Fin 0, bc_gas_count = 0 \<rparr>"

definition saturating_diff :: "u64 \<Rightarrow> u64 \<Rightarrow> u64" where
  "saturating_diff a b = (if a < b then 0 else a - b)"

definition classify_bot :: "h256 \<Rightarrow> int \<Rightarrow> bot_counts \<Rightarrow> bot_counts" where
  "classify_bot h i c =
     (if i = 0 \<or> i = 1 then c\<lparr> bc_arbitrage := insert h (bc_arbitrage c) \<rparr>
      else if i = 2 then c\<lparr> bc_frontrun := insert h (bc_frontrun c) \<rparr>
      else if i = 3 then c\<lparr> bc_sandwich := insert h (bc_sandwich c) \<rparr> else c)"

definition count_bot :: "u64 \<Rightarrow> network_player \<times> int \<Rightarrow> bot_counts \<Rightarrow> bot_counts res" where
  "count_bot now r c =
     (case np_recent_transactions (fst r) of
        [] \<Rightarrow> Inr c
      | tx # txs \<Rightarrow>
          if saturating_diff now (np_last_seen (fst r)) < 7 * 24 * 60 * 60
          then rbind (average_gas (fst r)) (\<lambda>avg.
            let c1 = classify_bot (pt_tx_hash tx) (snd r) (c\<lparr> bc_mev := insert (pt_tx_hash tx) (bc_mev c) \<rparr>)
            in Inr (case avg of
                 Fin q \<Rightarrow> c1\<lparr> bc_total_gas := f64_add (bc_total_gas c1) avg, bc_gas_count := bc_gas_count c1 + 1 \<rparr>
               | _ \<Rightarrow> c1))
          else Inr c)"

fun count_bots :: "u64 \<Rightarrow> (network_player \<times> int) list \<Rightarrow> bot_counts \<Rightarrow> bot_counts res" where
  "count_bots now [] c = Inr c"
| "count_bots now (r # rs) c = rbind (count_bot now r c) (count_bots now rs)"

definition aggression :: "nat \<Rightarrow> nat \<Rightarrow> nat \<Rightarrow> f64 \<Rightarrow> f64" where
  "aggression mev sandwich frontrun gas_multiplier =
     (let n = f64_of_nat (max mev 1);
          s = f64_div (f64_of_nat sandwich) n;
          f = f64_div (f64_of_nat frontrun) n
      in f64_mul (f64_mul
           (f64_add (f64_mul s (rnd (7 / 10))) (f64_mul f (rnd (3 / 10))))
           (f64_add (Fin 1) (f64_min (f64_div gas_multiplier (Fin 100)) (Fin 5))))
           (f64_add (Fin 1) (f64_min (f64_div (f64_of_nat mev) (Fin 10)) (Fin 1))))"

text \<open>\<open>arrive\<close>: the order in which the reports of the tasks come out of the channel.\<close>

definition analyze_competitor_activity ::
  "(h256 \<Rightarrow> string) \<Rightarrow> ((network_player \<times> int) list \<Rightarrow> (network_player \<times> int) list) \<Rightarrow> u64 \<Rightarrow> string \<Rightarrow> gas_equilibrium
     \<Rightarrow> competitor_analysis res" where
  "analyze_competitor_activity debug_hash arrive now token self =
     rbind (count_bots now (arrive (player_reports debug_hash self)) no_bots) (\<lambda>c.
       let mev = card (bc_mev c); sandwich = card (bc_sandwich c); frontrun = card (bc_frontrun c);
           multiplier = (if bc_gas_count c = 0 then Fin 1 else f64_div (bc_total_gas c) (f64_of_nat (bc_gas_count c)))
       in Inr \<lparr> ca_token_address = token, ca_active_mev_bots = mev, ca_sandwich_bot_count = sandwich,
                ca_frontrun_bot_count = frontrun, ca_arbitrage_bot_count = card (bc_arbitrage c),
                ca_average_gas_multiplier = multiplier, ca_competitors_aggression = aggression mev sandwich frontrun multiplier,
                ca_last_analyzed = now \<rparr>)"

section \<open>Scenarios\<close>

record position_metrics =
  po_current_profit_usd :: f64
  po_current_price :: f64
  po_holding_time_seconds :: u64
  po_token_score :: nat

record market_state =
  mk_trend :: market_trend
  mk_volatility :: f64

record ai_analysis =
  ai_price_change_prediction :: f64
  ai_prediction_type :: string
  ai_buy_confidence :: f64

definition take_profit_now :: "position_metrics \<Rightarrow> profit_scenario" where
  "take_profit_now pos =
     \<lparr> ps_action = Take_profit, ps_expected_profit = po_current_profit_usd pos, ps_probability_success = Fin 1,
       ps_risk_factor = Fin 0, ps_time_horizon = 0, ps_score = Fin 0 \<rparr>"

definition wait_scenario :: "market_state \<Rightarrow> position_metrics \<Rightarrow> f64 \<Rightarrow> f64 \<Rightarrow> profit_scenario" where
  "wait_scenario market pos future_price probability =
     \<lparr> ps_action = Hold_for_price_target (f64_mul future_price (rnd (11 / 10))) (4 * 3600),
       ps_expected_profit = f64_mul (po_current_profit_usd pos) (rnd (11 / 10)), ps_probability_success = probability,
       ps_risk_factor = f64_mul (mk_volatility market) (Fin (1 / 2)), ps_time_horizon = 4 * 3600, ps_score = Fin 0 \<rparr>"

text \<open>
  \<open>estimate_continued_sandwich_profit\<close>: \<open>history\<close> are the sandwiches of the token in the performance
  tracker, as success, profit and investment.
\<close>

definition sandwich_multipliers :: "(bool \<times> f64 \<times> f64) list \<Rightarrow> f64 list" where
  "sandwich_multipliers history =
     map (\<lambda>(ok, profit, investment). f64_div profit investment) (filter (\<lambda>(ok, profit, investment). ok \<and> f64_lt (Fin 0) profit) history)"

definition estimate_continued_sandwich_profit :: "(bool \<times> f64 \<times> f64) list \<Rightarrow> f64 \<Rightarrow> nat \<Rightarrow> nat \<Rightarrow> f64" where
  "estimate_continued_sandwich_profit history current_profit victim_count competitor_count =
     (if victim_count = 0 then current_profit
      else
        let ms = sandwich_multipliers history;
            avg = (if ms = [] then rnd (5 / 100) else f64_div (f64_sum ms) (f64_of_nat (length ms)));
            competitor_factor = f64_div (Fin 1) (f64_add (Fin 1) (f64_mul (f64_of_nat competitor_count) (rnd (2 / 10))));
            additional = f64_mul (f64_mul (f64_mul current_profit avg) competitor_factor) (f64_min (f64_of_nat victim_count) (Fin 3))
        in f64_add current_profit additional)"

definition sandwich_scenario ::
  "market_state \<Rightarrow> position_metrics \<Rightarrow> (bool \<times> f64 \<times> f64) list \<Rightarrow> nat \<Rightarrow> nat \<Rightarrow> f64 \<Rightarrow> profit_scenario" where
  "sandwich_scenario market pos history victims bots probability =
     \<lparr> ps_action = Continue_sandwich (of_nat victims) (12 * 3600),
       ps_expected_profit = estimate_continued_sandwich_profit history (po_current_profit_usd pos) victims bots,
       ps_probability_success = probability,
       ps_risk_factor = f64_add (f64_mul (mk_volatility market) (rnd (8 / 10))) (f64_mul (f64_of_nat bots) (rnd (5 / 100))),
       ps_time_horizon = 12 * 3600, ps_score = Fin 0 \<rparr>"

definition dca_scenario :: "market_state \<Rightarrow> position_metrics \<Rightarrow> profit_scenario" where
  "dca_scenario market pos =
     \<lparr> ps_action = DCA_buy 50 3 (72 * 3600), ps_expected_profit = f64_mul (po_current_profit_usd pos) (Fin (3 / 2)),
       ps_probability_success = rnd (65 / 100), ps_risk_factor = f64_mul (mk_volatility market) (rnd (12 / 10)),
       ps_time_horizon = 72 * 3600, ps_score = Fin 0 \<rparr>"

definition sandwich_considered :: "mempool_token_activity \<Rightarrow> position_metrics \<Rightarrow> bool" where
  "sandwich_considered activity pos \<longleftrightarrow> 0 < ma_pending_buy_count activity \<and> po_holding_time_seconds pos < 24 * 3600"

definition scenarios_of ::
  "market_state \<Rightarrow> mempool_token_activity \<Rightarrow> competitor_analysis \<Rightarrow> position_metrics \<Rightarrow> (bool \<times> f64 \<times> f64) list
     \<Rightarrow> f64 \<Rightarrow> f64 \<Rightarrow> f64 \<Rightarrow> profit_scenario list" where
  "scenarios_of market activity competitors pos history future_price target_probability sandwich_probability =
     [take_profit_now pos, wait_scenario market pos future_price target_probability]
     @ (if sandwich_considered activity pos
        then [sandwich_scenario market pos history (length (ma_potential_victims activity)) (ca_sandwich_bot_count competitors)
                sandwich_probability]
        else [])
     @ (if 70 < po_token_score pos \<and> mk_trend market = Uptrend then [dca_scenario market pos] else [])"

text \<open>
  \<open>calculate_price_target_probability\<close> over the prices of the last 48 hours, pairs of a time and a price
  that is no negative zero; \<open>cdf\<close> is the distribution function of the standard normal distribution.
\<close>

definition price_changes :: "(u64 \<times> f64) list \<Rightarrow> f64 list" where
  "price_changes history =
     (let prices = map snd history
      in map (\<lambda>(previous, current). f64_div (f64_sub current previous) previous)
           (filter (\<lambda>(previous, current). f64_lt (Fin 0) previous) (zip prices (tl prices))))"

definition mean_of :: "f64 list \<Rightarrow> f64" where
  "mean_of xs = f64_div (f64_sum xs) (f64_of_nat (length xs))"

definition variance_of :: "f64 list \<Rightarrow> f64" where
  "variance_of xs = mean_of (map (\<lambda>x. f64_mul (f64_sub x (mean_of xs)) (f64_sub x (mean_of xs))) xs)"

definition target_z_score :: "(u64 \<times> f64) list \<Rightarrow> f64 \<Rightarrow> u64 \<Rightarrow> f64" where
  "target_z_score history target_price time_horizon =
     (let changes = price_changes history;
          std_dev = f64_sqrt (variance_of changes);
          hours = f64_div (f64_of_nat (unat time_horizon)) (Fin 3600);
          change_needed = f64_sub (f64_div target_price (snd (last history))) (Fin 1);
          adjusted_std_dev = f64_mul std_dev (f64_sqrt (f64_div hours (Fin 24)))
      in f64_div (f64_sub change_needed (f64_mul (mean_of changes) (f64_div hours (Fin 24)))) adjusted_std_dev)"

definition calculate_price_target_probability ::
  "(f64 \<Rightarrow> f64) \<Rightarrow> string + (u64 \<times> f64) list \<Rightarrow> f64 \<Rightarrow> u64 \<Rightarrow> string + f64" where
  "calculate_price_target_probability cdf history target_price time_horizon =
     rbind history (\<lambda>h.
       Inr (if h = [] \<or> price_changes h = [] then Fin (1 / 2)
            else f64_sub (Fin 1) (cdf (target_z_score h target_price time_horizon))))"

text \<open>The adjustment by the prediction of the AI module.\<close>

definition confidence_bonus :: "ai_analysis \<Rightarrow> f64" where
  "confidence_bonus a = f64_max (f64_sub (f64_min (ai_buy_confidence a) (rnd (95 / 100))) (Fin (1 / 2))) (Fin 0)"

definition adjust_scenario :: "ai_analysis \<Rightarrow> profit_scenario \<Rightarrow> profit_scenario" where
  "adjust_scenario a s =
     (case ps_action s of
        Take_profit \<Rightarrow>
          if f64_lt (ai_price_change_prediction a) (Fin 0)
          then s\<lparr> ps_probability_success := f64_mul (ps_probability_success s) (rnd (11 / 10)),
                  ps_expected_profit := f64_mul (ps_expected_profit s) (rnd (105 / 100)) \<rparr>
          else s
      | Hold_for_price_target t l \<Rightarrow>
          if f64_lt (Fin 0) (ai_price_change_prediction a)
          then let c = f64_min (ai_price_change_prediction a) (Fin 30)
               in s\<lparr> ps_probability_success := f64_mul (ps_probability_success s) (f64_add (Fin 1) (f64_div c (Fin 100))),
                     ps_expected_profit := f64_mul (ps_expected_profit s) (f64_add (Fin 1) (f64_div c (Fin 200))) \<rparr>
          else s\<lparr> ps_probability_success := f64_mul (ps_probability_success s) (rnd (9 / 10)),
                  ps_risk_factor := f64_mul (ps_risk_factor s) (rnd (11 / 10)) \<rparr>
      | Continue_sandwich n l \<Rightarrow>
          if ai_prediction_type a = ''sandwich_opportunity''
          then s\<lparr> ps_probability_success := f64_mul (ps_probability_success s) (f64_add (Fin 1) (confidence_bonus a)),
                  ps_expected_profit := f64_mul (ps_expected_profit s) (f64_add (Fin 1) (f64_div (confidence_bonus a) (Fin 2))) \<rparr>
          else s
      | DCA_buy p n l \<Rightarrow>
          if ai_prediction_type a = ''pump_potential''
          then s\<lparr> ps_probability_success := f64_mul (ps_probability_success s) (f64_add (Fin 1) (confidence_bonus a)),
                  ps_expected_profit := f64_mul (ps_expected_profit s) (f64_add (Fin 1) (confidence_bonus a)),
                  ps_risk_factor := f64_mul (ps_risk_factor s) (rnd (9 / 10)) \<rparr>
          else s)"

text \<open>\<open>analysis\<close> is \<open>None\<close> without an AI module or without an analysis of the token.\<close>

definition apply_ai_adjustment_to_scenarios :: "ai_analysis option \<Rightarrow> profit_scenario list \<Rightarrow> profit_scenario list" where
  "apply_ai_adjustment_to_scenarios analysis ss = (case analysis of None \<Rightarrow> ss | Some a \<Rightarrow> map (adjust_scenario a) ss)"

definition time_factor :: "u64 \<Rightarrow> f64" where
  "time_factor held =
     (if held < 3600 then rnd (8 / 10) else if held < 24 * 3600 then Fin 1 else if held < 72 * 3600 then rnd (12 / 10) else Fin (3 / 2))"

definition scenario_score :: "u64 \<Rightarrow> profit_scenario \<Rightarrow> f64" where
  "scenario_score held s =
     f64_div
       (f64_mul (f64_mul (f64_mul (ps_expected_profit s) (ps_probability_success s))
          (f64_sub (Fin 1) (f64_mul (ps_risk_factor s) (Fin (1 / 2))))) (time_factor held))
       (f64_add (Fin 1) (f64_div (f64_of_nat (unat (ps_time_horizon s))) (Fin 86400)))"

text \<open>
  \<open>sort_by\<close> on a short list is an insertion sort: an element moves to the left past the elements it
  precedes. A comparison with \<open>NaN\<close> counts as equal.
\<close>

definition insert_scenario :: "profit_scenario list \<Rightarrow> profit_scenario \<Rightarrow> profit_scenario list" where
  "insert_scenario xs y =
     (let better = (\<lambda>x. f64_lt (ps_score x) (ps_score y))
      in rev (dropWhile better (rev xs)) @ [y] @ rev (takeWhile better (rev xs)))"

definition sort_scenarios :: "profit_scenario list \<Rightarrow> profit_scenario list" where
  "sort_scenarios = foldl insert_scenario []"

section \<open>The decision\<close>

record decision_env =
  de_market :: "string + market_state"
  de_position :: "string + position_metrics"
  de_future_price :: "string + f64"
  de_price_history :: "string + (u64 \<times> f64) list"
  de_normal_cdf :: "f64 \<Rightarrow> f64"
  de_sandwich_probability :: "string + f64"
  de_history :: "(bool \<times> f64 \<times> f64) list"
  de_analysis :: "ai_analysis option"
  de_record :: "string + unit"
  de_now :: u64

definition target_probability :: "decision_env \<Rightarrow> f64 \<Rightarrow> string + f64" where
  "target_probability env future =
     calculate_price_target_probability (de_normal_cdf env) (de_price_history env) (f64_mul future (rnd (11 / 10))) (4 * 3600)"

definition ranked_scenarios :: "decision_env \<Rightarrow> position_metrics \<Rightarrow> profit_scenario list \<Rightarrow> profit_scenario list" where
  "ranked_scenarios env pos ss =
     sort_scenarios (map (\<lambda>s. s\<lparr> ps_score := scenario_score (po_holding_time_seconds pos) s \<rparr>)
       (apply_ai_adjustment_to_scenarios (de_analysis env) ss))"

definition conclude ::
  "decision_env \<Rightarrow> (profit_scenario \<Rightarrow> string) \<Rightarrow> string \<Rightarrow> position_metrics \<Rightarrow> profit_scenario list \<Rightarrow> string + profit_decision" where
  "conclude env reason token pos ranked =
     (case ranked of
        [] \<Rightarrow> Inl ''no decision''
      | best # others \<Rightarrow>
          rbind (de_record env) (\<lambda>_.
            Inr \<lparr> pd_token_address = token, pd_recommended_action = ps_action best, pd_expected_profit = ps_expected_profit best,
                  pd_reasoning = reason best, pd_all_scenarios = ranked, pd_current_token_price = po_current_price pos,
                  pd_current_profit_usd = po_current_profit_usd pos, pd_decision_time = de_now env \<rparr>))"

text \<open>The steps in the order of the code; the first error ends the function.\<close>

definition decide_profit_taking ::
  "decision_env \<Rightarrow> (profit_scenario \<Rightarrow> string) \<Rightarrow> mempool_token_activity \<Rightarrow> competitor_analysis \<Rightarrow> string
     \<Rightarrow> string + profit_decision" where
  "decide_profit_taking env reason activity competitors token =
     rbind (de_market env) (\<lambda>market.
     rbind (de_position env) (\<lambda>pos.
     rbind (de_future_price env) (\<lambda>future.
     rbind (target_probability env future) (\<lambda>probability.
     rbind (if sandwich_considered activity pos then de_sandwich_probability env else Inr (Fin 0)) (\<lambda>sandwich_probability.
       conclude env reason token pos (ranked_scenarios env pos
         (scenarios_of market activity competitors pos (de_history env) future probability sandwich_probability)))))))"

section \<open>Execution\<close>

text \<open>
  The calls of the trade manager and its answers; \<open>None\<close> for the manager when the optimizer has none. The
  result is the call that was made last and the outcome.
\<close>

datatype manager_call =
    Sell_all string
  | Create_limit_order string f64 nat u64
  | Enable_auto_sandwich string u32 u64
  | Create_dca_schedule string f64 u32 u64

record trade_manager =
  tm_sell_all :: "string \<Rightarrow> string + (bool \<times> string \<times> f64)"
  tm_limit_order :: "string \<Rightarrow> f64 \<Rightarrow> nat \<Rightarrow> u64 \<Rightarrow> string + string"
  tm_enable_sandwich :: "string \<Rightarrow> u32 \<Rightarrow> u64 \<Rightarrow> string + unit"
  tm_position_value :: "string \<Rightarrow> string + f64"
  tm_dca_schedule :: "string \<Rightarrow> f64 \<Rightarrow> u32 \<Rightarrow> u64 \<Rightarrow> string + unit"

definition pending_result :: "u64 \<Rightarrow> profit_action \<Rightarrow> execution_result" where
  "pending_result now chosen =
     \<lparr> er_action_executed = chosen, er_success = True, er_transaction_hash = None, er_profit_usd = Fin 0,
       er_execution_time = now, er_error_message = None \<rparr>"

definition execute_profit_decision ::
  "trade_manager option \<Rightarrow> u64 \<Rightarrow> profit_decision \<Rightarrow> manager_call list \<times> (string + execution_result)" where
  "execute_profit_decision manager now d =
     (let token = pd_token_address d; chosen = pd_recommended_action d
      in case manager of
           None \<Rightarrow> ([], Inl ''no trade manager'')
         | Some m \<Rightarrow>
             (case chosen of
                Take_profit \<Rightarrow>
                  ([Sell_all token],
                   case tm_sell_all m token of
                     Inl e \<Rightarrow> Inl e
                   | Inr (ok, hash, profit) \<Rightarrow>
                       Inr \<lparr> er_action_executed = Take_profit, er_success = ok, er_transaction_hash = Some hash, er_profit_usd = profit,
                             er_execution_time = now, er_error_message = None \<rparr>)
              | Hold_for_price_target t l \<Rightarrow>
                  ([Create_limit_order token t 100 l],
                   case tm_limit_order m token t 100 l of Inl e \<Rightarrow> Inl e | Inr _ \<Rightarrow> Inr (pending_result now chosen))
              | Continue_sandwich n l \<Rightarrow>
                  ([Enable_auto_sandwich token n l],
                   case tm_enable_sandwich m token n l of Inl e \<Rightarrow> Inl e | Inr _ \<Rightarrow> Inr (pending_result now chosen))
              | DCA_buy percent n l \<Rightarrow>
                  (case tm_position_value m token of
                     Inl e \<Rightarrow> ([], Inl e)
                   | Inr v \<Rightarrow>
                       let extra = f64_mul v (f64_div (f64_of_nat (unat percent)) (Fin 100))
                       in ([Create_dca_schedule token extra n l],
                           case tm_dca_schedule m token extra n l of Inl e \<Rightarrow> Inl e | Inr _ \<Rightarrow> Inr (pending_result now chosen)))))"

section \<open>The order of the scenarios\<close>

lemma takeWhile_dropWhile_rev: "rev (dropWhile p (rev xs)) @ rev (takeWhile p (rev xs)) = xs"
  by (metis rev_append rev_rev_ident takeWhile_dropWhile_id)

lemma insert_scenario_mset: "mset (insert_scenario xs y) = add_mset y (mset xs)"
proof -
  let ?p = "\<lambda>x. f64_lt (ps_score x) (ps_score y)"
  have "mset xs = mset (rev (dropWhile ?p (rev xs)) @ rev (takeWhile ?p (rev xs)))"
    by (simp only: takeWhile_dropWhile_rev)
  then show ?thesis by (simp add: insert_scenario_def Let_def)
qed

lemma foldl_insert_mset: "mset (foldl insert_scenario xs ys) = mset xs + mset ys"
  by (induction ys arbitrary: xs) (simp_all add: insert_scenario_mset)

lemma sort_scenarios_mset: "mset (sort_scenarios xs) = mset xs"
  by (simp add: sort_scenarios_def foldl_insert_mset)

abbreviation scores_at_most :: "profit_scenario \<Rightarrow> profit_scenario \<Rightarrow> bool" where
  "scores_at_most x y \<equiv> f64_le (ps_score y) (ps_score x)"

lemma insert_scenario_sorted:
  assumes "sorted_wrt scores_at_most xs" and "\<forall>x \<in> set xs. ps_score x \<noteq> NaN" and "ps_score y \<noteq> NaN"
  shows "sorted_wrt scores_at_most (insert_scenario xs y)"
proof -
  let ?p = "\<lambda>x. f64_lt (ps_score x) (ps_score y)"
  define l r where "l = rev (dropWhile ?p (rev xs))" and "r = rev (takeWhile ?p (rev xs))"
  have xs: "xs = l @ r" unfolding l_def r_def by (rule takeWhile_dropWhile_rev [symmetric])
  have r: "f64_lt (ps_score x) (ps_score y)" if "x \<in> set r" for x
    using that by (auto simp: l_def r_def dest: set_takeWhileD)
  have l: "f64_le (ps_score y) (ps_score x)" if x: "x \<in> set l" for x
  proof -
    obtain l0 z where lz: "l = l0 @ [z]" using x by (cases l rule: rev_cases) auto
    then have "dropWhile ?p (rev xs) = z # rev l0" by (simp add: l_def r_def rev_swap)
    then have "\<not> ?p z" by (simp add: dropWhile_eq_Cons_conv)
    moreover have z: "z \<in> set xs" by (simp add: xs lz)
    ultimately have yz: "f64_le (ps_score y) (ps_score z)"
      using not_NaN_total [of "ps_score y" "ps_score z"] assms(2,3) by auto
    have "f64_le (ps_score z) (ps_score x)"
    proof (cases "x = z")
      case True
      then show ?thesis using z assms(2) by (simp add: f64_le_refl)
    next
      case False
      then have "x \<in> set l0" using x lz by auto
      then show ?thesis using assms(1) by (auto simp: xs lz sorted_wrt_append)
    qed
    with yz show ?thesis by (rule f64_le_trans)
  qed
  have "sorted_wrt scores_at_most (l @ [y] @ r)"
    using assms(1) l r unfolding xs by (auto simp: sorted_wrt_append f64_le_def)
  then show ?thesis by (simp add: insert_scenario_def Let_def l_def r_def)
qed

lemma foldl_insert_sorted:
  "sorted_wrt scores_at_most xs \<Longrightarrow> \<forall>x \<in> set xs \<union> set ys. ps_score x \<noteq> NaN
     \<Longrightarrow> sorted_wrt scores_at_most (foldl insert_scenario xs ys)"
proof (induction ys arbitrary: xs)
  case (Cons y ys)
  have "set (insert_scenario xs y) = insert y (set xs)"
    using arg_cong [OF insert_scenario_mset, of set_mset xs y] by simp
  then show ?case using Cons.prems insert_scenario_sorted [of xs y] by (auto intro!: Cons.IH)
qed simp

lemma sort_scenarios_sorted: "\<forall>x \<in> set xs. ps_score x \<noteq> NaN \<Longrightarrow> sorted_wrt scores_at_most (sort_scenarios xs)"
  unfolding sort_scenarios_def by (rule foldl_insert_sorted) simp_all

lemma sort_scenarios_set [simp]: "set (sort_scenarios xs) = set xs"
  using arg_cong [OF sort_scenarios_mset, of set_mset xs] by simp

lemma ranked_scenarios_set:
  "set (ranked_scenarios env pos ss) =
     (\<lambda>s. s\<lparr> ps_score := scenario_score (po_holding_time_seconds pos) s \<rparr>) ` set (apply_ai_adjustment_to_scenarios (de_analysis env) ss)"
  by (simp add: ranked_scenarios_def)

section \<open>A position at a loss\<close>

text \<open>The factor of the holding time as a number.\<close>

lemma time_factor_number:
  "\<exists>q. time_factor held = Fin q \<and> ((3 / 4 \<le> q \<and> q \<le> 1) \<or> (1 \<le> q \<and> q \<le> 3 / 2))"
proof -
  have "rnd (3 / 4) = Fin (3 / 4)" "rnd (5 / 4) = Fin (5 / 4)"
    by (rule rnd_exact [of _ 3 "- 2"], simp_all add: power_int_minus, rule rnd_exact [of _ 5 "- 2"], simp_all add: power_int_minus)
  with rnd_between [of "3 / 4" "8 / 10" 1] rnd_between [of 1 "12 / 10" "5 / 4"] rnd_small(2)
  obtain a b where "rnd (8 / 10) = Fin a" "3 / 4 \<le> a" "a \<le> 1" "rnd (12 / 10) = Fin b" "1 \<le> b" "b \<le> 5 / 4" by auto
  then show ?thesis by (simp add: time_factor_def) (intro impI exI [of _ "3 / 2"], simp)
qed

text \<open>
  The scores are compared up to the relative error of rounding; \<open>y\<close> is the loss, far from the ends of
  the range of \<open>f64\<close>.
\<close>

abbreviation loss_in_range :: "rat \<Rightarrow> bool" where
  "loss_in_range y \<equiv> 2 powi (- 900) \<le> y \<and> y \<le> 2 powi 900"

lemma scaled_range:
  assumes "loss_in_range y" and "1 / 4 \<le> c" and "c \<le> 4"
  shows "0 < y \<and> 2 powi (- 1000) \<le> c * y \<and> c * y \<le> 2 powi 1000"
proof -
  have y: "0 < y" using assms(1) powi_pos [of "- 900"] by linarith
  have "1 / 4 * y \<le> c * y" "c * y \<le> 4 * y" using assms(2,3) y by (intro mult_right_mono; simp)+
  moreover have "(2 :: rat) powi (- 1000) * 4 \<le> 2 powi (- 900)" "(2 :: rat) powi 900 * 4 \<le> 2 powi 1000"
    using powi_mono [of "- 998" "- 900"] power_int_add [of "2 :: rat" "- 1000" 2]
      powi_mono [of 902 1000] power_int_add [of "2 :: rat" 900 2] by simp_all
  ultimately show ?thesis using y assms(1) by linarith
qed

lemma rnd_low:
  assumes "loss_in_range y" and "- (c * y) \<le> x" and "x \<le> 0" and "1 / 4 \<le> c" and "c \<le> 4"
  shows "\<exists>r. rnd x = Fin r \<and> - (c * (1001 / 1000) * y) \<le> r \<and> r \<le> 0"
proof -
  from scaled_range [OF assms(1,4,5)] have "\<bar>- (c * y)\<bar> = c * y" "2 powi (- 1000) \<le> c * y" "c * y \<le> 2 powi 1000"
    using assms(4) by simp_all
  with rnd_error [of "- (c * y)"] obtain l where l: "rnd (- (c * y)) = Fin l" "\<bar>l - - (c * y)\<bar> \<le> c * y / 1000" by auto
  moreover have "c * (1001 / 1000) * y = c * y + c * y / 1000" by (simp add: field_simps)
  ultimately have "- (c * (1001 / 1000) * y) \<le> l" by linarith
  with l(1) rnd_mono [OF assms(2)] rnd_mono [OF assms(3)] rnd_small(1) show ?thesis
    by (cases "rnd x") (auto simp: f64_le_def)
qed

lemma rnd_high:
  assumes "loss_in_range y" and "x \<le> - (c * y)" and "- (d * y) \<le> x" and "1 / 4 \<le> c" and "d \<le> 4"
  shows "\<exists>r. rnd x = Fin r \<and> r \<le> - (c * (999 / 1000) * y) \<and> - (d * (1001 / 1000) * y) \<le> r"
proof -
  have y: "0 < y" using scaled_range [OF assms(1), of 1] by simp
  have cd: "c * y \<le> d * y" using assms(2,3) by linarith
  then have "c \<le> d" using y by simp
  with scaled_range [OF assms(1), of c] scaled_range [OF assms(1), of d] assms(4,5)
  have r: "2 powi (- 1000) \<le> c * y" "d * y \<le> 2 powi 1000" by simp_all
  have neg: "x < 0" using assms(2,4) y mult_pos_pos [of c y] by linarith
  then have "\<bar>x\<bar> = - x" by simp
  with rnd_error [of x] r assms(2,3) obtain z where z: "rnd x = Fin z" "\<bar>z - x\<bar> \<le> - x / 1000" by auto
  then have "z \<le> x * (999 / 1000)" "x * (1001 / 1000) \<le> z" by (simp_all add: abs_le_iff field_simps)
  with z(1) assms(2,3) show ?thesis by (intro exI [of _ z]) (auto simp: field_simps)
qed

lemma take_profit_score:
  assumes "po_current_profit_usd pos = Fin (- y)" and "loss_in_range y" and "time_factor held = Fin q"
    and "3 / 4 \<le> q" and "q \<le> 3 / 2"
  shows "\<exists>t. scenario_score held (take_profit_now pos) = Fin t \<and> t \<le> - (q * (995 / 1000) * y)"
proof -
  have y: "0 < y" using scaled_range [OF assms(2), of 1] by simp
  from rnd_high [OF assms(2), of "- y" 1 1] obtain a where
    a: "rnd (- y) = Fin a" "a \<le> - ((999 / 1000) * y)" "- ((1001 / 1000) * y) \<le> a" by auto
  from rnd_high [OF assms(2) a(2,3)] obtain b where
    b: "rnd a = Fin b" "b \<le> - ((998 / 1000) * y)" "- ((1003 / 1000) * y) \<le> b" using y by fastforce
  have "b * q \<le> - ((998 / 1000) * y) * q" "- ((1003 / 1000) * y) * q \<le> b * q"
    using b(2,3) assms(4) by (intro mult_right_mono; simp)+
  then have "b * q \<le> - (q * (998 / 1000) * y)" "- (q * (1003 / 1000) * y) \<le> b * q" by (simp_all add: mult_ac)
  from rnd_high [OF assms(2) this] assms(4,5) obtain c where
    c: "rnd (b * q) = Fin c" "c \<le> - (q * (998 / 1000) * (999 / 1000) * y)" "- (q * (1003 / 1000) * (1001 / 1000) * y) \<le> c" by auto
  from rnd_high [OF assms(2) c(2,3)] assms(4,5) obtain d where
    d: "rnd c = Fin d" "d \<le> - (q * (998 / 1000) * (999 / 1000) * (999 / 1000) * y)" by auto
  have "q * (995 / 1000) * y \<le> q * (998 / 1000) * (999 / 1000) * (999 / 1000) * y"
    using y assms(4) by (intro mult_right_mono) simp_all
  with d(2) have "d \<le> - (q * (995 / 1000) * y)" by linarith
  then show ?thesis
    using a(1) b(1) c(1) d(1)
    by (simp add: scenario_score_def take_profit_now_def assms(1,3) f64_sub_def f64_of_nat_def rnd_small)
qed

text \<open>A score that is not negative: the factor of the risk is negative.\<close>

lemma rnd_nonneg: "0 \<le> x \<Longrightarrow> f64_le (Fin 0) (rnd x)"
  using rnd_mono [of 0 x] rnd_small(1) by simp

lemma zero_le_cases: "f64_le (Fin 0) a \<Longrightarrow> a = Pos_inf \<or> (\<exists>x. a = Fin x \<and> 0 \<le> x)"
  by (cases a) (auto simp: f64_le_def)

lemma zero_le_Pos_inf [simp]: "f64_le (Fin x) Pos_inf"
  by (simp add: f64_le_def)

lemma mul_nonneg:
  assumes "f64_le (Fin 0) a" and "0 < q"
  shows "f64_le (Fin 0) (f64_mul a (Fin q))"
  using zero_le_cases [OF assms(1)] assms(2) by (auto simp: signed_inf_def rnd_nonneg)

lemma div_nonneg:
  assumes "f64_le (Fin 0) a" and "0 < q"
  shows "f64_le (Fin 0) (f64_div a (Fin q))"
  using zero_le_cases [OF assms(1)] assms(2) by (auto simp: rnd_nonneg)

text \<open>The factor of the horizon of four hours, and the raised profit.\<close>

lemma horizon_factor: "\<exists>g. f64_add (Fin 1) (f64_div (Fin 14400) (Fin 86400)) = Fin g \<and> 1165 / 1000 \<le> g"
proof -
  have "\<bar>1 / 6\<bar> = (1 / 6 :: rat)" by simp
  have r: "2 powi (- 1000) \<le> (1 / 6 :: rat)" "(2 :: rat) \<le> 2 powi 1000"
    using powi_mono [of "- 1000" "- 3"] powi_mono [of 1 1000] by (simp_all add: power_int_minus)
  from rnd_error [of "1 / 6"] r obtain h where h: "rnd (1 / 6) = Fin h" "\<bar>h - 1 / 6\<bar> \<le> 1 / 6 / 1000" by auto
  then have "11665 / 10000 \<le> 1 + h" "1 + h \<le> 2" "\<bar>1 + h\<bar> = 1 + h" by linarith+
  with rnd_error [of "1 + h"] r obtain g where "rnd (1 + h) = Fin g" "\<bar>g - (1 + h)\<bar> \<le> (1 + h) / 1000" by auto
  then have "1 + h - (1 + h) / 1000 \<le> g" by linarith
  moreover have "1165 / 1000 \<le> 1 + h - (1 + h) / 1000" using \<open>11665 / 10000 \<le> 1 + h\<close> by (simp add: field_simps)
  ultimately have "1165 / 1000 \<le> g" by (rule order_trans [rotated])
  with h(1) \<open>rnd (1 + h) = Fin g\<close> show ?thesis by simp
qed

lemma risk_factor_bound:
  assumes "0 \<le> v" and "v \<le> 2 powi 900"
  shows "\<exists>f. f64_sub (Fin 1) (f64_mul (f64_mul (Fin v) (Fin (1 / 2))) (Fin (1 / 2))) = Fin f \<and> f \<le> 1"
proof -
  have top: "rnd (2 powi 900) = Fin (2 powi 900)" "rnd (- (2 powi 900)) = Fin (- (2 powi 900))"
    by (rule rnd_exact [of _ 1 900], simp_all, rule rnd_exact [of _ "- 1" 900], simp_all)
  from rnd_between [of 0 "v * (1 / 2)" "2 powi 900"] assms rnd_small(1) top(1) obtain r where
    r: "rnd (v * (1 / 2)) = Fin r" "0 \<le> r" "r \<le> 2 powi 900" by auto
  from rnd_between [of 0 "r * (1 / 2)" "2 powi 900"] r(2,3) rnd_small(1) top(1) obtain r' where
    r': "rnd (r * (1 / 2)) = Fin r'" "0 \<le> r'" "r' \<le> 2 powi 900" by auto
  from rnd_between [of "- (2 powi 900)" "1 + - r'" 1] r'(2,3) rnd_small(2) top(2) obtain f where
    "rnd (1 + - r') = Fin f" "f \<le> 1" by auto
  with r(1) r'(1) show ?thesis by (simp add: f64_sub_def)
qed

lemma wait_score:
  assumes "po_current_profit_usd pos = Fin (- y)" and "loss_in_range y" and "time_factor held = Fin q"
    and "3 / 4 \<le> q" and "q \<le> 3 / 2"
    and "mk_volatility market = Fin v" and "0 \<le> v" and "v \<le> 2 powi 900" and "0 \<le> p" and "p \<le> 1"
  shows "f64_le (Fin (- (q * (96 / 100) * y))) (scenario_score held (wait_scenario market pos future (Fin p)))"
proof -
  have y: "0 < y" using scaled_range [OF assms(2), of 1] by simp
  obtain m where m: "rnd (11 / 10) = Fin m" "1 \<le> m" "m \<le> 1101 / 1000"
    using multipliers(2) by (intro that [of "4953959590107546 / 2 ^ 52"]) simp_all
  have "- (1101 / 1000 * y) \<le> - y * m" "- y * m \<le> 0" using y m(2,3) by (simp_all add: field_simps)
  from rnd_low [OF assms(2) this] obtain e where
    e: "rnd (- y * m) = Fin e" "- (1101 / 1000 * (1001 / 1000) * y) \<le> e" "e \<le> 0" by auto
  have "e \<le> e * p" "e * p \<le> 0"
    using e(3) assms(9,10) mult_left_mono_neg [of p 1 e] by (auto simp: mult_le_0_iff)
  with e(2) have "- (1101 / 1000 * (1001 / 1000) * y) \<le> e * p" "e * p \<le> 0" by linarith+
  from rnd_low [OF assms(2) this] obtain x where
    x: "rnd (e * p) = Fin x" "- (1101 / 1000 * (1001 / 1000) * (1001 / 1000) * y) \<le> x" "x \<le> 0" by auto
  from risk_factor_bound [OF assms(7,8)] obtain f where
    f: "f64_sub (Fin 1) (f64_mul (f64_mul (Fin v) (Fin (1 / 2))) (Fin (1 / 2))) = Fin f" "f \<le> 1" by blast
  from horizon_factor obtain g where
    g: "f64_add (Fin 1) (f64_div (Fin 14400) (Fin 86400)) = Fin g" "1165 / 1000 \<le> g" by blast
  have n: "f64_of_nat 14400 = Fin 14400" using f64_of_nat_small [of 14400] by simp
  have score: "scenario_score held (wait_scenario market pos future (Fin p))
      = f64_div (f64_mul (f64_mul (Fin x) (Fin f)) (Fin q)) (Fin g)"
    unfolding scenario_score_def wait_scenario_def
    using m(1) e(1) x(1) by (simp add: assms(1,3,6) n f(1) g(1) del: f64_div.simps f64_mul.simps) simp
  show ?thesis
  proof (cases "0 \<le> f")
    case False
    then have "f64_le (Fin 0) (f64_mul (Fin x) (Fin f))"
      using x(3) by (simp add: rnd_nonneg mult_nonpos_nonpos)
    then have "f64_le (Fin 0) (scenario_score held (wait_scenario market pos future (Fin p)))"
      unfolding score using div_nonneg [OF mul_nonneg [OF \<open>f64_le (Fin 0) (f64_mul (Fin x) (Fin f))\<close>, of q], of g]
        assms(4) g(2) by simp
    moreover have "f64_le (Fin (- (q * (96 / 100) * y))) (Fin 0)" using y assms(4) by simp
    ultimately show ?thesis by (meson f64_le_trans)
  next
    case True
    have "x \<le> x * f" "x * f \<le> 0"
      using x(3) f(2) True mult_left_mono_neg [of f 1 x] by (auto simp: mult_le_0_iff)
    with x(2) have "- (1101 / 1000 * (1001 / 1000) * (1001 / 1000) * y) \<le> x * f" "x * f \<le> 0" by linarith+
    from rnd_low [OF assms(2) this] obtain a where
      a: "rnd (x * f) = Fin a" "- (1101 / 1000 * (1001 / 1000) * (1001 / 1000) * (1001 / 1000) * y) \<le> a" "a \<le> 0" by auto
    have "- (1105 / 1000 * y) \<le> a" using a(2) y by simp
    then have "- (1105 / 1000 * y) * q \<le> a * q" using assms(4) by (intro mult_right_mono) simp_all
    then have "- (q * (1105 / 1000) * y) \<le> a * q" "a * q \<le> 0" using a(3) assms(4) by (simp_all add: mult_ac mult_le_0_iff)
    from rnd_low [OF assms(2) this] assms(4,5) obtain b where
      b: "rnd (a * q) = Fin b" "- (q * (1105 / 1000) * (1001 / 1000) * y) \<le> b" "b \<le> 0" by auto
    have "b / (1165 / 1000) \<le> b / g" using b(3) g(2) by (intro divide_left_mono_neg) simp_all
    moreover have "- (q * (95 / 100) * y) \<le> b / (1165 / 1000)"
    proof -
      have "q * (1105 / 1000) * (1001 / 1000) * y \<le> q * (95 / 100) * y * (1165 / 1000)" using y assms(4) by simp
      with b(2) have "- (q * (95 / 100) * y * (1165 / 1000)) \<le> b" by linarith
      then show ?thesis by (simp add: field_simps)
    qed
    ultimately have "- (q * (95 / 100) * y) \<le> b / g" "b / g \<le> 0" using b(3) g(2) by (auto simp: divide_le_0_iff)
    from rnd_low [OF assms(2) this] assms(4,5) obtain t where
      t: "rnd (b / g) = Fin t" "- (q * (95 / 100) * (1001 / 1000) * y) \<le> t" by auto
    have "q * (95 / 100) * (1001 / 1000) * y \<le> q * (96 / 100) * y" using y assms(4) by simp
    with t(2) have "- (q * (96 / 100) * y) \<le> t" by linarith
    then show ?thesis unfolding score using a(1) b(1) t(1) g(2) by simp
  qed
qed

lemma scenarios_split:
  "\<exists>rest. scenarios_of market activity competitors pos history future a b
       = take_profit_now pos # wait_scenario market pos future a # rest
     \<and> (\<forall>s\<in>set rest. ps_action s \<noteq> Take_profit)
     \<and> (ma_pending_buy_count activity = 0 \<and> po_token_score pos \<le> 70 \<longrightarrow> rest = [])"
  unfolding scenarios_of_def append.simps
  by (rule exI, rule conjI, rule refl) (auto simp: sandwich_considered_def sandwich_scenario_def dca_scenario_def)

lemma loss_ranks_last:
  assumes "po_current_profit_usd pos = Fin (- y)" and "loss_in_range y"
    and "mk_volatility market = Fin v" and "0 \<le> v" and "v \<le> 2 powi 900" and "0 \<le> p" and "p \<le> 1"
  shows "f64_lt (scenario_score held (take_profit_now pos)) (scenario_score held (wait_scenario market pos future (Fin p)))"
proof -
  obtain q where q: "time_factor held = Fin q" "3 / 4 \<le> q" "q \<le> 3 / 2"
    using time_factor_number [of held] by fastforce
  from take_profit_score [OF assms(1,2) q] obtain t where
    t: "scenario_score held (take_profit_now pos) = Fin t" "t \<le> - (q * (995 / 1000) * y)" by blast
  have "0 < y" using scaled_range [OF assms(2), of 1] by simp
  then have "q * (96 / 100) * y < q * (995 / 1000) * y" using q(2) by simp
  with t(2) have "f64_lt (Fin t) (Fin (- (q * (96 / 100) * y)))" by simp
  with wait_score [OF assms(1,2) q assms(3-7), of future] t(1) show ?thesis
    by (metis f64_le_def f64_lt_trans)
qed

text \<open>An insertion never brings a scenario to the front that was not there and is not inserted.\<close>

lemma insert_scenario_front:
  assumes "xs \<noteq> []" and "P (hd xs)" and "P y"
  shows "insert_scenario xs y \<noteq> [] \<and> P (hd (insert_scenario xs y))"
proof -
  let ?p = "\<lambda>x. f64_lt (ps_score x) (ps_score y)"
  let ?l = "rev (dropWhile ?p (rev xs))" and ?r = "rev (takeWhile ?p (rev xs))"
  have i: "insert_scenario xs y = ?l @ y # ?r" by (simp add: insert_scenario_def Let_def)
  have xs: "?l @ ?r = xs" by (rule takeWhile_dropWhile_rev)
  show ?thesis
  proof (cases ?l)
    case Nil
    with i assms(3) show ?thesis by simp
  next
    case (Cons a l)
    then have "hd xs = a" using arg_cong [OF xs, of hd] by simp
    with i Cons assms(2) show ?thesis by simp
  qed
qed

lemma foldl_insert_front:
  "xs \<noteq> [] \<Longrightarrow> P (hd xs) \<Longrightarrow> \<forall>y\<in>set ys. P y \<Longrightarrow> foldl insert_scenario xs ys \<noteq> [] \<and> P (hd (foldl insert_scenario xs ys))"
proof (induction ys arbitrary: xs)
  case (Cons y ys)
  with insert_scenario_front [of xs P y] show ?case by simp
qed simp

lemma second_to_front:
  assumes "f64_lt (ps_score a) (ps_score b)" and "P b" and "\<forall>y\<in>set rest. P y"
  shows "sort_scenarios (a # b # rest) \<noteq> [] \<and> P (hd (sort_scenarios (a # b # rest)))"
proof -
  have "sort_scenarios (a # b # rest) = foldl insert_scenario [b, a] rest"
    using assms(1) by (simp add: sort_scenarios_def insert_scenario_def Let_def)
  with foldl_insert_front [of "[b, a]" P rest] assms(2,3) show ?thesis by simp
qed

text \<open>The chance to reach a price is a number of the unit interval whenever it is a number.\<close>

lemma target_probability_unit:
  assumes "\<forall>z. de_normal_cdf env z = NaN \<or> (\<exists>c. de_normal_cdf env z = Fin c \<and> 0 \<le> c \<and> c \<le> 1)"
    and "target_probability env future = Inr a" and "a \<noteq> NaN"
  shows "\<exists>p. a = Fin p \<and> 0 \<le> p \<and> p \<le> 1"
proof -
  from assms(2) have "a = Fin (1 / 2) \<or> (\<exists>z. a = f64_sub (Fin 1) (de_normal_cdf env z))"
    by (cases "de_price_history env")
      (auto simp: target_probability_def calculate_price_target_probability_def split: if_splits)
  then show ?thesis
  proof
    assume "\<exists>z. a = f64_sub (Fin 1) (de_normal_cdf env z)"
    then obtain z where z: "a = f64_sub (Fin 1) (de_normal_cdf env z)" ..
    with assms(3) have "de_normal_cdf env z \<noteq> NaN" by (auto simp: f64_sub_def)
    with assms(1) obtain c where "de_normal_cdf env z = Fin c" "0 \<le> c" "c \<le> 1" by blast
    with z rnd_between [of 0 "1 + - c" 1] rnd_small show ?thesis by (auto simp: f64_sub_def)
  qed (intro exI [of _ "1 / 2"], simp)
qed

lemma decision_made:
  assumes "de_record env = Inr ()" and "de_analysis env = None" and "ss \<noteq> []"
  shows "\<exists>d. conclude env reason token pos (ranked_scenarios env pos ss) = Inr d"
proof -
  have "set (ranked_scenarios env pos ss) \<noteq> {}"
    unfolding ranked_scenarios_set using assms(2,3) by (simp add: apply_ai_adjustment_to_scenarios_def)
  with assms(1) show ?thesis by (cases "ranked_scenarios env pos ss") (auto simp: conclude_def)
qed

text \<open>C11. A position at a loss is not sold. The conditions: the position has a loss between \<open>2\<^sup>-\<^sup>9\<^sup>0\<^sup>0\<close> and
  \<open>2\<^sup>9\<^sup>0\<^sup>0\<close> dollars, the volatility is a number between 0 and \<open>2\<^sup>9\<^sup>0\<^sup>0\<close>, the AI module has no analysis of the
  token, the chance to reach the target price is a number and the distribution function of the library
  has values of the unit interval. Whatever the decision then recommends, it is not to take the profit,
  however long the position was held, whatever is pending and whatever the score of the token; without
  pending purchases and with a score of at most 70 it is to hold the token for the target price.\<close>

theorem loss_is_held:
  assumes "decide_profit_taking env reason activity competitors token = Inr d"
    and "de_position env = Inr pos" and "po_current_profit_usd pos = Fin (- y)"
    and "2 powi (- 900) \<le> y" and "y \<le> 2 powi 900"
    and "de_market env = Inr market" and "mk_volatility market = Fin v" and "0 \<le> v" and "v \<le> 2 powi 900"
    and "de_future_price env = Inr future" and "target_probability env future \<noteq> Inr NaN"
    and "\<forall>z. de_normal_cdf env z = NaN \<or> (\<exists>c. de_normal_cdf env z = Fin c \<and> 0 \<le> c \<and> c \<le> 1)"
    and "de_analysis env = None"
  shows "pd_recommended_action d \<noteq> Take_profit
    \<and> (ma_pending_buy_count activity = 0 \<and> po_token_score pos \<le> 70 \<longrightarrow>
         pd_recommended_action d = Hold_for_price_target (f64_mul future (rnd (11 / 10))) (4 * 3600))"
proof -
  let ?held = "po_holding_time_seconds pos"
  let ?rate = "\<lambda>s. s\<lparr> ps_score := scenario_score ?held s \<rparr>"
  from assms(1,2,6,10) obtain a b where a: "target_probability env future = Inr a"
    and d: "conclude env reason token pos (ranked_scenarios env pos
         (scenarios_of market activity competitors pos (de_history env) future a b)) = Inr d"
    by (auto simp: decide_profit_taking_def)
  from target_probability_unit [OF assms(12) a] a assms(11) obtain p where p: "a = Fin p" "0 \<le> p" "p \<le> 1" by auto
  let ?t = "take_profit_now pos" and ?w = "wait_scenario market pos future (Fin p)"
  obtain rest where rest: "scenarios_of market activity competitors pos (de_history env) future a b = ?t # ?w # rest"
    and other: "\<forall>s\<in>set rest. ps_action s \<noteq> Take_profit"
    and none: "ma_pending_buy_count activity = 0 \<and> po_token_score pos \<le> 70 \<longrightarrow> rest = []"
    using scenarios_split [of market activity competitors pos "de_history env" future a b] p(1) by blast
  have less: "f64_lt (ps_score (?rate ?t)) (ps_score (?rate ?w))"
    using loss_ranks_last [OF assms(3) _ assms(7-9) p(2,3), of ?held future] assms(4,5) by simp
  let ?ranked = "sort_scenarios (?rate ?t # ?rate ?w # map ?rate rest)"
  have ranked: "ranked_scenarios env pos (?t # ?w # rest) = ?ranked"
    by (simp add: ranked_scenarios_def apply_ai_adjustment_to_scenarios_def assms(13))
  have w: "ps_action (?rate ?w) = Hold_for_price_target (f64_mul future (rnd (11 / 10))) (4 * 3600)"
    by (simp add: wait_scenario_def)
  have "?ranked \<noteq> []" "ps_action (hd ?ranked) \<noteq> Take_profit"
    using second_to_front [OF less, of "\<lambda>s. ps_action s \<noteq> Take_profit"] w other by auto
  moreover have "rest = [] \<Longrightarrow> ps_action (hd ?ranked) = ps_action (?rate ?w)"
    using second_to_front [OF less, of "\<lambda>s. ps_action s = ps_action (?rate ?w)" "[]"] by simp
  ultimately show ?thesis
    using d none unfolding rest ranked by (cases ?ranked) (auto simp: conclude_def w)
qed

definition sample_env :: decision_env where
  "sample_env =
     \<lparr> de_market = Inr \<lparr> mk_trend = Downtrend, mk_volatility = Fin 1 \<rparr>,
       de_position = Inr \<lparr> po_current_profit_usd = Fin (- of_int 500), po_current_price = Fin 1, po_holding_time_seconds = 500000,
         po_token_score = 10 \<rparr>,
       de_future_price = Inr (Fin 1), de_price_history = Inr [], de_normal_cdf = (\<lambda>z. Fin (1 / 2)), de_sandwich_probability = Inl ''unused'',
       de_history = [], de_analysis = None, de_record = Inr (), de_now = 0 \<rparr>"

definition sample_competitors :: competitor_analysis where
  "sample_competitors =
     \<lparr> ca_token_address = ''token'', ca_active_mev_bots = 0, ca_sandwich_bot_count = 0, ca_frontrun_bot_count = 0,
       ca_arbitrage_bot_count = 0, ca_average_gas_multiplier = Fin 1, ca_competitors_aggression = Fin 0, ca_last_analyzed = 0 \<rparr>"

theorem loss_is_held_witness:
  "case decide_profit_taking sample_env (\<lambda>s. ''hold'') (activity_of 0 ''token'' []) sample_competitors ''token'' of
     Inr d \<Rightarrow> pd_recommended_action d = Hold_for_price_target (f64_mul (Fin 1) (rnd (11 / 10))) (4 * 3600)
   | Inl e \<Rightarrow> False"
proof -
  have big: "(500 :: rat) \<le> 2 powi 900" "2 powi (- 900) \<le> (500 :: rat)" "(1 :: rat) \<le> 2 powi 900"
    using powi_mono [of 9 900] powi_mono [of "- 900" 0] powi_mono [of 0 900] by simp_all
  have p: "target_probability sample_env (Fin 1) = Inr (Fin (1 / 2))"
    by (simp add: sample_env_def target_probability_def calculate_price_target_probability_def)
  have law: "\<forall>z. de_normal_cdf sample_env z = NaN \<or> (\<exists>c. de_normal_cdf sample_env z = Fin c \<and> 0 \<le> c \<and> c \<le> 1)"
    by (rule allI, rule disjI2, rule exI [of _ "1 / 2"]) (simp add: sample_env_def)
  show ?thesis
  proof (cases "decide_profit_taking sample_env (\<lambda>s. ''hold'') (activity_of 0 ''token'' []) sample_competitors ''token''")
    case (Inr d)
    from loss_is_held [OF this, of "\<lparr> po_current_profit_usd = Fin (- of_int 500), po_current_price = Fin 1,
          po_holding_time_seconds = 500000, po_token_score = 10 \<rparr>" 500 "\<lparr> mk_trend = Downtrend, mk_volatility = Fin 1 \<rparr>" 1 "Fin 1",
        OF _ _ _ _ _ _ _ _ _ _ law] big p show ?thesis
      unfolding Inr by (simp add: p) (simp add: sample_env_def activity_of_def)
  next
    case (Inl e)
    have "de_record sample_env = Inr ()" "de_analysis sample_env = None" by (simp_all add: sample_env_def)
    note made = decision_made [OF this]
    have "\<not> sandwich_considered (activity_of 0 ''token'' []) pos" for pos
      by (simp add: sandwich_considered_def activity_of_def)
    moreover have "scenarios_of market activity competitors pos history a b c \<noteq> []"
      for market activity competitors pos history a b c by (simp add: scenarios_of_def)
    ultimately show ?thesis using Inl p made
      by (simp add: decide_profit_taking_def) (simp add: sample_env_def, metis sum.distinct(1))
  qed
qed

text \<open>The recommended action is that of a scenario with the highest score, when no score is \<open>NaN\<close>.\<close>

lemma decision_scores_best:
  assumes "decide_profit_taking env reason activity competitors token = Inr d"
    and "\<forall>s \<in> set (pd_all_scenarios d). ps_score s \<noteq> NaN" and "s \<in> set (pd_all_scenarios d)"
  shows "\<exists>b \<in> set (pd_all_scenarios d). pd_recommended_action d = ps_action b \<and> f64_le (ps_score s) (ps_score b)"
proof -
  from assms(1) obtain pos ss where "conclude env reason token pos (ranked_scenarios env pos ss) = Inr d"
    by (auto simp: decide_profit_taking_def)
  then obtain b others where
    r: "ranked_scenarios env pos ss = b # others" "pd_all_scenarios d = b # others" "pd_recommended_action d = ps_action b"
    by (cases "ranked_scenarios env pos ss") (auto simp: conclude_def)
  obtain xs where "b # others = sort_scenarios xs" using r(1) by (metis ranked_scenarios_def)
  then have "sorted_wrt scores_at_most (b # others)" using assms(2) r(2) by (metis sort_scenarios_set sort_scenarios_sorted)
  moreover have "ps_score b \<noteq> NaN" using assms(2) r(2) by simp
  ultimately show ?thesis using assms(3) r(2,3) by (auto simp: f64_le_refl)
qed

text \<open>An optimizer without players sees no competitor, so the competition never lowers a score.\<close>

lemma no_competitor_seen:
  assumes "ge_players self = Map.empty" and "arrive [] = []"
  shows "\<exists>a. analyze_competitor_activity debug_hash arrive now token self = Inr a \<and> ca_active_mev_bots a = 0 \<and>
    ca_sandwich_bot_count a = 0 \<and> ca_frontrun_bot_count a = 0 \<and> ca_arbitrage_bot_count a = 0 \<and> ca_average_gas_multiplier a = Fin 1"
proof -
  have "List.map_filter (\<lambda>h. None) xs = []" for xs :: "h256 list" by (induction xs) (simp_all add: map_filter_def)
  then have "player_reports debug_hash self = []" by (simp add: player_reports_def assms(1))
  then show ?thesis by (simp add: analyze_competitor_activity_def assms(2) no_bots_def Let_def)
qed

text \<open>The victims are the pending purchases above 100 dollars.\<close>

lemma victims_exact:
  assumes "pending_swaps t token = Some ss"
  shows "v \<in> set (ma_potential_victims (analyze_token_mempool_activity now (Some (Some t)) token)) \<longleftrightarrow>
    (\<exists>s \<in> set ss. is_buy s \<and> f64_lt (Fin 100) (amount_usd s) \<and> v = victim_of s)"
  using assms by (auto simp: analyze_token_mempool_activity_def activity_of_def Let_def)

text \<open>The sandwich is a scenario exactly while purchases are pending and the position is younger than a day.\<close>

lemma sandwich_offered:
  "(\<exists>s \<in> set (scenarios_of market activity competitors pos history f p q). \<exists>n l. ps_action s = Continue_sandwich n l)
     \<longleftrightarrow> sandwich_considered activity pos"
  by (auto simp: scenarios_of_def take_profit_now_def wait_scenario_def sandwich_scenario_def dca_scenario_def)

text \<open>At most one call of the manager, and none without a manager.\<close>

lemma one_manager_call:
  "length (fst (execute_profit_decision manager now d)) \<le> (if manager = None then 0 else 1)"
  by (cases manager; cases "pd_recommended_action d")
    (simp_all add: execute_profit_decision_def Let_def split: sum.split)

section \<open>Stress tests\<close>

record stressed_asset =
  sa_symbol :: string
  sa_daily_volatility :: f64
  sa_value_usd :: f64

record asset_impact =
  ai_token_symbol :: string
  ai_normal_var :: f64
  ai_stressed_var :: f64
  ai_loss_percentage :: f64

record stress_scenario =
  st_name :: string
  st_total_portfolio_loss :: f64
  st_loss_percentage :: f64
  st_asset_impacts :: "asset_impact list"

text \<open>The assets in the order of the map.\<close>

definition daily_var :: "stressed_asset \<Rightarrow> f64" where
  "daily_var a = f64_mul (sa_daily_volatility a) (rnd (165 / 100))"

definition impact_of :: "(f64 \<Rightarrow> f64) \<Rightarrow> stressed_asset \<Rightarrow> asset_impact" where
  "impact_of shock a =
     \<lparr> ai_token_symbol = sa_symbol a, ai_normal_var = f64_mul (daily_var a) (sa_value_usd a),
       ai_stressed_var = f64_mul (shock (daily_var a)) (sa_value_usd a),
       ai_loss_percentage = f64_mul (shock (daily_var a)) (Fin 100) \<rparr>"

definition simulate_scenario :: "string \<Rightarrow> (f64 \<Rightarrow> f64) \<Rightarrow> f64 \<Rightarrow> stressed_asset list \<Rightarrow> stress_scenario" where
  "simulate_scenario name shock total_value assets =
     (let loss = f64_sum (map (\<lambda>a. f64_mul (shock (daily_var a)) (sa_value_usd a)) assets)
      in \<lparr> st_name = name, st_total_portfolio_loss = loss,
           st_loss_percentage = (if f64_lt (Fin 0) total_value then f64_mul (f64_div loss total_value) (Fin 100) else Fin 0),
           st_asset_impacts = map (impact_of shock) assets \<rparr>)"

definition update_stress_test_results :: "f64 \<Rightarrow> stressed_asset list \<Rightarrow> stress_scenario list" where
  "update_stress_test_results total_value assets =
     [simulate_scenario ''Equity Crash'' (\<lambda>r. f64_mul r (Fin 3)) total_value assets,
      simulate_scenario ''Liquidity Crisis'' (\<lambda>r. f64_sub (f64_mul r (Fin (5 / 2))) (rnd (1 / 10))) total_value assets,
      simulate_scenario ''Crypto Winter'' (\<lambda>r. f64_sub (f64_mul r (Fin 2)) (rnd (2 / 10))) total_value assets]"

text \<open>
  The drop of prices is subtracted from the loss: an asset without volatility gains in the crisis that
  assumes a slide of a tenth.
\<close>

lemma crisis_gains:
  assumes "sa_daily_volatility a = Fin 0"
  shows "\<exists>q. ai_loss_percentage (impact_of (\<lambda>r. f64_sub (f64_mul r (Fin (5 / 2))) (rnd (1 / 10))) a) = Fin q \<and> q < 0"
proof -
  have sixteenth: "rnd (1 / 16) = Fin (1 / 16)" "rnd (- (1 / 16)) = Fin (- (1 / 16))" "rnd (- 1) = Fin (- 1)" "rnd (- (25 / 4)) = Fin (- (25 / 4))"
    "rnd (- 100) = Fin (- 100)"
    using rnd_exact [of "1 / 16" 1 "- 4"] rnd_exact [of "- (1 / 16)" "- 1" "- 4"] rnd_of_int [of "- 1"]
      rnd_exact [of "- (25 / 4)" "- 25" "- 2"] rnd_of_int [of "- 100"]
    by (simp_all add: power_int_minus)
  from rnd_between [of 1 "165 / 100" 2] rnd_small(2) rnd_of_int [of 2] obtain b where b: "rnd (33 / 20) = Fin b" by auto
  from rnd_between [of "1 / 16" "1 / 10" 1] sixteenth(1) rnd_small(2) obtain t where t: "rnd (1 / 10) = Fin t" "1 / 16 \<le> t" "t \<le> 1" by auto
  from rnd_between [of "- 1" "- t" "- (1 / 16)"] t(2,3) sixteenth obtain u where u: "rnd (- t) = Fin u" "- 1 \<le> u" "u \<le> - (1 / 16)" by auto
  from rnd_between [of "- 100" "u * 100" "- (25 / 4)"] u(2,3) sixteenth obtain v where "rnd (u * 100) = Fin v" "v \<le> - (25 / 4)" by auto
  then show ?thesis
    by (simp add: impact_of_def daily_var_def assms b t(1) u(1) f64_sub_def rnd_small)
qed

section \<open>Correlations\<close>

text \<open>
  The correlation matrix and the volatility of a portfolio. \<open>assets\<close> lists the map of assets in the
  order of its iteration, a symbol with its daily volatility and its prices, if it has any.
\<close>

type_synonym asset_series = "string \<times> f64 \<times> f64 list option"

definition centred :: "nat \<Rightarrow> f64 list \<Rightarrow> f64 list" where
  "centred n prices =
     (let mean = f64_div (f64_sum (take n prices)) (f64_of_nat n) in map (\<lambda>x. f64_sub x mean) (take n prices))"

definition sum_products :: "f64 list \<Rightarrow> f64 list \<Rightarrow> f64" where
  "sum_products xs ys = foldl f64_add (Fin 0) (map2 f64_mul xs ys)"

definition negligible :: "f64 \<Rightarrow> bool" where
  "negligible d \<longleftrightarrow> f64_lt d (rnd (1 / 10 ^ 10)) \<and> f64_lt (f64_neg d) (rnd (1 / 10 ^ 10))"

definition calculate_correlation :: "f64 list \<Rightarrow> f64 list \<Rightarrow> f64" where
  "calculate_correlation prices_a prices_b =
     (if length prices_a < 2 \<or> length prices_b < 2 then Fin 0
      else
        let n = min (length prices_a) (length prices_b);
            a = centred n prices_a; b = centred n prices_b;
            denom_a = sum_products a a; denom_b = sum_products b b
        in if negligible denom_a \<or> negligible denom_b then Fin 0
           else f64_div (sum_products a b) (f64_mul (f64_sqrt denom_a) (f64_sqrt denom_b)))"

definition correlation_of :: "asset_series \<Rightarrow> asset_series \<Rightarrow> f64" where
  "correlation_of i j =
     (case (snd (snd i), snd (snd j)) of
        (Some a, Some b) \<Rightarrow> calculate_correlation a b
      | _ \<Rightarrow> Fin (1 / 2))"

definition enter_correlation ::
  "asset_series \<Rightarrow> (string \<times> string \<rightharpoonup> f64) \<Rightarrow> asset_series \<Rightarrow> (string \<times> string \<rightharpoonup> f64)" where
  "enter_correlation i m j = m((fst i, fst j) \<mapsto> correlation_of i j, (fst j, fst i) \<mapsto> correlation_of i j)"

text \<open>The inner loop enters an asset against itself and all later ones, in both orders.\<close>

fun calculate_correlation_matrix :: "asset_series list \<Rightarrow> (string \<times> string \<rightharpoonup> f64) \<Rightarrow> (string \<times> string \<rightharpoonup> f64)" where
  "calculate_correlation_matrix [] m = m"
| "calculate_correlation_matrix (i # js) m =
     calculate_correlation_matrix js
       (foldl (enter_correlation i) (m((fst i, fst i) \<mapsto> Fin 1)) js)"

definition calculate_portfolio_volatility ::
  "asset_series list \<Rightarrow> (string \<times> string \<rightharpoonup> f64) \<Rightarrow> (string \<rightharpoonup> f64) \<Rightarrow> f64" where
  "calculate_portfolio_volatility assets matrix allocations =
     (let weight = (\<lambda>i. case allocations (fst i) of Some w \<Rightarrow> w | None \<Rightarrow> Fin 0);
          corr = (\<lambda>i j. case matrix (fst i, fst j) of Some c \<Rightarrow> c | None \<Rightarrow> Fin (1 / 2));
          term_of = (\<lambda>i j. f64_mul (f64_mul (f64_mul (f64_mul (weight i) (weight j)) (fst (snd i))) (fst (snd j))) (corr i j))
      in f64_sqrt (foldl f64_add (Fin 0) (concat (map (\<lambda>i. map (term_of i) assets) assets))))"

text \<open>The matrix is symmetric.\<close>

lemma if_swap:
  "z = w \<Longrightarrow> (if A \<and> B then c else if C \<and> D then c else z) = (if D \<and> C then c else if B \<and> A then c else w)"
  by auto

lemma enter_symmetric:
  assumes "\<forall>x y. m (x, y) = m (y, x)"
  shows "\<forall>x y. enter_correlation i m j (x, y) = enter_correlation i m j (y, x)"
proof (intro allI)
  fix x y
  from assms have "m (x, y) = m (y, x)" by blast
  then show "enter_correlation i m j (x, y) = enter_correlation i m j (y, x)"
    unfolding enter_correlation_def fun_upd_apply prod.inject by (rule if_swap)
qed

lemma enters_symmetric:
  "\<forall>x y. m (x, y) = m (y, x) \<Longrightarrow>
     \<forall>x y. foldl (enter_correlation i) m js (x, y) = foldl (enter_correlation i) m js (y, x)"
proof (induction js arbitrary: m)
  case (Cons j js)
  show ?case unfolding foldl_Cons by (rule Cons.IH, rule enter_symmetric, rule Cons.prems)
qed simp

lemma correlation_matrix_symmetric:
  "\<forall>x y. m (x, y) = m (y, x) \<Longrightarrow>
     \<forall>x y. calculate_correlation_matrix assets m (x, y) = calculate_correlation_matrix assets m (y, x)"
proof (induction assets arbitrary: m)
  case (Cons i js)
  have "\<forall>x y. (m((fst i, fst i) \<mapsto> Fin 1)) (x, y) = (m((fst i, fst i) \<mapsto> Fin 1)) (y, x)"
    using Cons.prems unfolding fun_upd_apply prod.inject by metis
  then show ?case unfolding calculate_correlation_matrix.simps by (intro Cons.IH enters_symmetric)
qed simp

lemma short_series_uncorrelated: "length a < 2 \<Longrightarrow> calculate_correlation a b = Fin 0"
  by (simp add: calculate_correlation_def)

definition current_network_state :: "nat \<times> nat \<times> f64 \<times> nat \<times> u256" where
  "current_network_state = (50000000000, 5, Fin 12, 100, 20000000000)"

end
