(* ===== verification/WalletDefi.thy ===== *)
theory WalletDefi
  imports Equilibrium GasOptimizer
begin

text \<open>
  The DeFi side of the wallet: the contract interfaces of \<^verbatim>\<open>blockchain/src/abi\<close> with the files they are
  read from, the exchanges, farms and lending platforms of \<^verbatim>\<open>wallet/src/defi.rs\<close>, and the farm
  contract of \<^verbatim>\<open>wallet/src/farm.rs\<close>. What the chain answers to a call, the parser of addresses and the
  JSON codec are arguments (\<open>chain_api\<close>, \<open>abi_codec\<close>). A panic (\<open>as_u128\<close>) is the \<open>Inl\<close> of the outer sum.
\<close>

section \<open>Contract interfaces\<close>

text \<open>The functions an interface names, with the types of their inputs.\<close>

type_synonym abi_table = "(string \<times> string list) list"

definition uniswap_v2_abi :: abi_table where
  "uniswap_v2_abi =
    []"

definition uniswap_v3_abi :: abi_table where
  "uniswap_v3_abi =
    []"

definition pancakeswap_abi :: abi_table where
  "pancakeswap_abi =
    []"

definition erc20_token_abi :: abi_table where
  "erc20_token_abi =
    [(''name'', [])]"

definition univ2factory_abi :: abi_table where
  "univ2factory_abi =
    [(''allPairs'', [''uint256'']), (''allPairsLength'', []), (''createPair'', [''address'', ''address'']),
     (''feeTo'', []), (''feeToSetter'', []), (''getPair'', [''address'', ''address'']),
     (''setFeeTo'', [''address'']), (''setFeeToSetter'', [''address''])]"

definition univ2pair_abi :: abi_table where
  "univ2pair_abi =
    [(''DOMAIN_SEPARATOR'', []), (''MINIMUM_LIQUIDITY'', []), (''PERMIT_TYPEHASH'', []),
     (''allowance'', [''address'', ''address'']), (''approve'', [''address'', ''uint256'']),
     (''balanceOf'', [''address'']), (''burn'', [''address'']), (''decimals'', []), (''factory'', []),
     (''getReserves'', []), (''initialize'', [''address'', ''address'']), (''kLast'', []),
     (''mint'', [''address'']), (''name'', []), (''nonces'', [''address'']),
     (''permit'', [''address'', ''address'', ''uint256'', ''uint256'', ''uint8'', ''bytes32'', ''bytes32'']),
     (''price0CumulativeLast'', []), (''price1CumulativeLast'', []), (''skim'', [''address'']),
     (''swap'', [''uint256'', ''uint256'', ''address'', ''bytes'']), (''symbol'', []), (''sync'', []),
     (''token0'', []), (''token1'', []), (''totalSupply'', []), (''transfer'', [''address'', ''uint256'']),
     (''transferFrom'', [''address'', ''address'', ''uint256''])]"

definition univ2router_abi :: abi_table where
  "univ2router_abi =
    [(''WETH'', []),
     (''addLiquidity'', [''address'', ''address'', ''uint256'', ''uint256'', ''uint256'', ''uint256'', ''address'', ''uint256'']),
     (''addLiquidityETH'', [''address'', ''uint256'', ''uint256'', ''uint256'', ''address'', ''uint256'']),
     (''factory'', []), (''getAmountIn'', [''uint256'', ''uint256'', ''uint256'']),
     (''getAmountOut'', [''uint256'', ''uint256'', ''uint256'']), (''getAmountsIn'', [''uint256'', ''address[]'']),
     (''getAmountsOut'', [''uint256'', ''address[]'']), (''quote'', [''uint256'', ''uint256'', ''uint256'']),
     (''removeLiquidity'', [''address'', ''address'', ''uint256'', ''uint256'', ''uint256'', ''address'', ''uint256'']),
     (''removeLiquidityETH'', [''address'', ''uint256'', ''uint256'', ''uint256'', ''address'', ''uint256'']),
     (''removeLiquidityETHSupportingFeeOnTransferTokens'', [''address'', ''uint256'', ''uint256'', ''uint256'', ''address'', ''uint256'']),
     (''removeLiquidityETHWithPermit'', [''address'', ''uint256'', ''uint256'', ''uint256'', ''address'', ''uint256'', ''bool'', ''uint8'', ''bytes32'', ''bytes32'']),
     (''removeLiquidityETHWithPermitSupportingFeeOnTransferTokens'', [''address'', ''uint256'', ''uint256'', ''uint256'', ''address'', ''uint256'', ''bool'', ''uint8'', ''bytes32'', ''bytes32'']),
     (''removeLiquidityWithPermit'', [''address'', ''address'', ''uint256'', ''uint256'', ''uint256'', ''address'', ''uint256'', ''bool'', ''uint8'', ''bytes32'', ''bytes32'']),
     (''swapETHForExactTokens'', [''uint256'', ''address[]'', ''address'', ''uint256'']),
     (''swapExactETHForTokens'', [''uint256'', ''address[]'', ''address'', ''uint256'']),
     (''swapExactETHForTokensSupportingFeeOnTransferTokens'', [''uint256'', ''address[]'', ''address'', ''uint256'']),
     (''swapExactTokensForETH'', [''uint256'', ''uint256'', ''address[]'', ''address'', ''uint256'']),
     (''swapExactTokensForETHSupportingFeeOnTransferTokens'', [''uint256'', ''uint256'', ''address[]'', ''address'', ''uint256'']),
     (''swapExactTokensForTokens'', [''uint256'', ''uint256'', ''address[]'', ''address'', ''uint256'']),
     (''swapExactTokensForTokensSupportingFeeOnTransferTokens'', [''uint256'', ''uint256'', ''address[]'', ''address'', ''uint256'']),
     (''swapTokensForExactETH'', [''uint256'', ''uint256'', ''address[]'', ''address'', ''uint256'']),
     (''swapTokensForExactTokens'', [''uint256'', ''uint256'', ''address[]'', ''address'', ''uint256''])]"

definition erc20_standard_abi :: abi_table where
  "erc20_standard_abi =
    [(''name'', []), (''approve'', [''address'', ''uint256'']), (''totalSupply'', []),
     (''transferFrom'', [''address'', ''address'', ''uint256'']), (''decimals'', []),
     (''balanceOf'', [''address'']), (''symbol'', []), (''transfer'', [''address'', ''uint256'']),
     (''allowance'', [''address'', ''address''])]"

text \<open>Files: a path to a content. The codec prints an interface and may fail to read one.\<close>

record abi_codec =
  print_abi :: "abi_table \<Rightarrow> string option"
  parse_abi :: "string \<Rightarrow> abi_table option"

definition codec_roundtrip :: "abi_codec \<Rightarrow> bool" where
  "codec_roundtrip cd \<longleftrightarrow> (\<forall>t s. print_abi cd t = Some s \<longrightarrow> parse_abi cd s = Some t)"

definition read_abi_from_file :: "abi_codec \<Rightarrow> (string \<rightharpoonup> string) \<Rightarrow> string \<Rightarrow> string + abi_table" where
  "read_abi_from_file cd files path =
     (case files path of
        None \<Rightarrow> Inl (''Failed to read ABI file: '' @ path)
      | Some content \<Rightarrow>
          (case parse_abi cd content of None \<Rightarrow> Inl (''Failed to parse ABI from file: '' @ path) | Some t \<Rightarrow> Inr t))"

text \<open>\<open>writable\<close>: whether the file system lets the path be written.\<close>

definition save_abi_to_file ::
  "abi_codec \<Rightarrow> (string \<Rightarrow> bool) \<Rightarrow> string \<Rightarrow> abi_table \<Rightarrow> (string \<rightharpoonup> string) \<Rightarrow> (string + unit) \<times> (string \<rightharpoonup> string)" where
  "save_abi_to_file cd writable path t files =
     (case print_abi cd t of
        None \<Rightarrow> (Inl ''Failed to serialize ABI to JSON'', files)
      | Some content \<Rightarrow>
          if writable path then (Inr (), files(path \<mapsto> content)) else (Inl (''Failed to write ABI to file: '' @ path), files))"

definition is_valid_abi_file :: "abi_codec \<Rightarrow> (string \<rightharpoonup> string) \<Rightarrow> string \<Rightarrow> string + bool" where
  "is_valid_abi_file cd files path =
     (case files path of
        None \<Rightarrow> Inl (''Failed to read ABI file: '' @ path)
      | Some content \<Rightarrow> Inr (parse_abi cd content \<noteq> None))"

lemma abi_file_roundtrip:
  assumes "codec_roundtrip cd" and "save_abi_to_file cd writable path t files = (Inr (), files')"
  shows "read_abi_from_file cd files' path = Inr t \<and> is_valid_abi_file cd files' path = Inr True"
  using assms
  by (auto simp: codec_roundtrip_def save_abi_to_file_def read_abi_from_file_def is_valid_abi_file_def split: option.splits if_splits)

section \<open>The chain\<close>

datatype call_arg = Num nat | Account h160

datatype call_reply = Address_reply h160 | Numbers_reply "u256 list" | Pool_reply h160 u256 u256 u256

text \<open>A call that is sent, with the account and chain id that sign it.\<close>

record sent_call =
  sc_contract :: h160
  sc_fn :: string
  sc_args :: "call_arg list"
  sc_signer :: "h160 \<times> u64"

record chain_api =
  parse_address :: "string \<Rightarrow> h160 option"
  call_view :: "h160 \<Rightarrow> string \<Rightarrow> call_arg list \<Rightarrow> string + call_reply"
  send_call :: "sent_call \<Rightarrow> string + h256 option"
  block_number :: "string + u64"

text \<open>\<open>Contract::method\<close> of a name the interface does not have is an error.\<close>

definition ask_view :: "chain_api \<Rightarrow> abi_table \<Rightarrow> h160 \<Rightarrow> string \<Rightarrow> call_arg list \<Rightarrow> string + call_reply" where
  "ask_view api table addr fn args =
     (if fn \<in> fst ` set table then call_view api addr fn args else Inl (''no such function: '' @ fn))"

definition as_address :: "call_reply \<Rightarrow> string + h160" where
  "as_address r = (case r of Address_reply a \<Rightarrow> Inr a | _ \<Rightarrow> Inl ''undecodable'')"

definition as_number :: "call_reply \<Rightarrow> string + u256" where
  "as_number r = (case r of Numbers_reply [n] \<Rightarrow> Inr n | _ \<Rightarrow> Inl ''undecodable'')"

definition parsed_address :: "chain_api \<Rightarrow> string \<Rightarrow> string + h160" where
  "parsed_address api s = (case parse_address api s of None \<Rightarrow> Inl ''bad address'' | Some a \<Rightarrow> Inr a)"

section \<open>Exchanges\<close>

record dex_manager =
  dm_routers :: "(string \<times> h160) list"
  dm_factories :: "(string \<times> h160) list"

definition new_dex_manager :: dex_manager where
  "new_dex_manager = \<lparr> dm_routers = [], dm_factories = [] \<rparr>"

definition add_router :: "chain_api \<Rightarrow> string \<Rightarrow> string \<Rightarrow> dex_manager \<Rightarrow> (string + unit) \<times> dex_manager" where
  "add_router api name a self =
     (case parsed_address api a of
        Inl e \<Rightarrow> (Inl e, self)
      | Inr x \<Rightarrow> (Inr (), self\<lparr> dm_routers := dm_routers self @ [(name, x)] \<rparr>))"

definition add_factory :: "chain_api \<Rightarrow> string \<Rightarrow> string \<Rightarrow> dex_manager \<Rightarrow> (string + unit) \<times> dex_manager" where
  "add_factory api name a self =
     (case parsed_address api a of
        Inl e \<Rightarrow> (Inl e, self)
      | Inr x \<Rightarrow> (Inr (), self\<lparr> dm_factories := dm_factories self @ [(name, x)] \<rparr>))"

definition get_router :: "string \<Rightarrow> dex_manager \<Rightarrow> h160 option" where
  "get_router name self = map_option snd (find (\<lambda>p. fst p = name) (dm_routers self))"

definition get_factory :: "string \<Rightarrow> dex_manager \<Rightarrow> h160 option" where
  "get_factory name self = map_option snd (find (\<lambda>p. fst p = name) (dm_factories self))"

definition get_pair :: "chain_api \<Rightarrow> h160 \<Rightarrow> h160 \<Rightarrow> string \<Rightarrow> dex_manager \<Rightarrow> string + h160 option" where
  "get_pair api token_a token_b factory_name self =
     (case get_factory factory_name self of
        None \<Rightarrow> Inl ''Factory not found''
      | Some f \<Rightarrow>
          rbind (ask_view api univ2factory_abi f ''getPair'' [Account token_a, Account token_b]) (\<lambda>r.
          rbind (as_address r) (\<lambda>pair. Inr (if pair = 0 then None else Some pair))))"

definition get_reserves :: "chain_api \<Rightarrow> h160 \<Rightarrow> string + u256 \<times> u256" where
  "get_reserves api pair =
     rbind (ask_view api univ2pair_abi pair ''getReserves'' []) (\<lambda>r.
       case r of Numbers_reply [r0, r1, t] \<Rightarrow> Inr (r0, r1) | _ \<Rightarrow> Inl ''undecodable'')"

definition price_of :: "u256 \<Rightarrow> u256 \<Rightarrow> f64 res" where
  "price_of reserve_a reserve_b =
     rbind (as_u128 reserve_b) (\<lambda>b.
     rbind (as_u128 reserve_a) (\<lambda>a. Inr (f64_div (f64_of_nat (unat b)) (f64_of_nat (unat a)))))"

definition calculate_price :: "chain_api \<Rightarrow> h160 \<Rightarrow> h160 \<Rightarrow> string \<Rightarrow> dex_manager \<Rightarrow> (string + f64 option) res" where
  "calculate_price api token_a token_b factory_name self =
     (case get_pair api token_a token_b factory_name self of
        Inl e \<Rightarrow> Inr (Inl e)
      | Inr None \<Rightarrow> Inr (Inr None)
      | Inr (Some pair) \<Rightarrow>
          (case rbind (get_reserves api pair) (\<lambda>rs.
                rbind (ask_view api univ2pair_abi pair ''token0'' []) (\<lambda>r. rbind (as_address r) (\<lambda>token0. Inr (rs, token0)))) of
             Inl e \<Rightarrow> Inr (Inl e)
           | Inr ((r0, r1), token0) \<Rightarrow>
               let (reserve_a, reserve_b) = (if token0 = token_a then (r0, r1) else (r1, r0))
               in if reserve_a = 0 then Inr (Inr (Some (Fin 0)))
                  else rbind (price_of reserve_a reserve_b) (\<lambda>p. Inr (Inr (Some p)))))"

section \<open>The aggregator\<close>

record dex_info =
  di_name :: string
  di_router_address :: h160
  di_factory_address :: h160
  di_chain_id :: u64
  di_fees :: "u32 list"
  di_supports_v3 :: bool

record lending_platform =
  lp_name :: string
  lp_address :: h160
  lp_chain_id :: u64
  lp_supported_tokens :: "h160 list"
  lp_lending_rates :: "h160 \<rightharpoonup> f64"
  lp_borrowing_rates :: "h160 \<rightharpoonup> f64"

record yield_farm =
  yf_name :: string
  yf_address :: h160
  yf_chain_id :: u64
  yf_staking_token :: h160
  yf_reward_token :: h160
  yf_apr :: f64
  yf_tvl :: u256
  yf_lock_period_days :: u64

record swap_route =
  rt_from_token :: h160
  rt_to_token :: h160
  rt_through_dexes :: "string list"
  rt_through_tokens :: "h160 list"
  rt_expected_output :: u256
  rt_price_impact :: f64
  rt_gas_estimate :: u64

record yield_opportunity =
  yo_platform :: string
  yo_token :: h160
  yo_apy :: f64
  yo_tvl :: u256
  yo_rewards :: "h160 list"
  yo_lock_period_days :: "u64 option"

record lending_opportunity =
  lo_platform :: string
  lo_token :: h160
  lo_lending_rate :: f64
  lo_borrowing_rate :: f64
  lo_available_liquidity :: u256

record defi_aggregator =
  da_dexes :: "dex_info list"
  da_lending_platforms :: "lending_platform list"
  da_yield_farms :: "yield_farm list"

definition new_aggregator :: defi_aggregator where
  "new_aggregator = \<lparr> da_dexes = [], da_lending_platforms = [], da_yield_farms = [] \<rparr>"

definition add_dex :: "dex_info \<Rightarrow> defi_aggregator \<Rightarrow> defi_aggregator" where
  "add_dex d self = self\<lparr> da_dexes := da_dexes self @ [d] \<rparr>"

definition add_lending_platform :: "lending_platform \<Rightarrow> defi_aggregator \<Rightarrow> defi_aggregator" where
  "add_lending_platform p self = self\<lparr> da_lending_platforms := da_lending_platforms self @ [p] \<rparr>"

definition add_yield_farm :: "yield_farm \<Rightarrow> defi_aggregator \<Rightarrow> defi_aggregator" where
  "add_yield_farm f self = self\<lparr> da_yield_farms := da_yield_farms self @ [f] \<rparr>"

text \<open>The loop over the exchanges: the best route, its output and its impact.\<close>

definition route_through :: "h160 \<Rightarrow> h160 \<Rightarrow> u256 \<Rightarrow> f64 \<Rightarrow> dex_info \<Rightarrow> swap_route" where
  "route_through source dest output impact dex =
     \<lparr> rt_from_token = source, rt_to_token = dest, rt_through_dexes = [di_name dex], rt_through_tokens = [],
       rt_expected_output = output, rt_price_impact = impact, rt_gas_estimate = 250000 \<rparr>"

fun best_route :: "h160 \<Rightarrow> h160 \<Rightarrow> dex_info list \<Rightarrow> swap_route option \<Rightarrow> u256 \<Rightarrow> f64 \<Rightarrow> swap_route option" where
  "best_route source dest [] route best_output lowest_impact = route"
| "best_route source dest (dex # dexes) route best_output lowest_impact =
     (let output = 98000000000000000000; impact = Fin 2
      in if f64_lt impact lowest_impact \<or> (f64_eq impact lowest_impact \<and> best_output < output)
         then best_route source dest dexes (Some (route_through source dest output impact dex)) output impact
         else best_route source dest dexes route best_output lowest_impact)"

definition find_best_swap_route :: "chain_api \<Rightarrow> string \<Rightarrow> string \<Rightarrow> u256 \<Rightarrow> defi_aggregator \<Rightarrow> string + swap_route" where
  "find_best_swap_route api source dest amount self =
     rbind (parsed_address api source) (\<lambda>f.
     rbind (parsed_address api dest) (\<lambda>t.
       if da_dexes self = [] then Inl ''no DEX configured''
       else (case best_route f t (da_dexes self) None 0 (Fin 100) of None \<Rightarrow> Inl ''no route'' | Some r \<Rightarrow> Inr r)))"

fun best_farm :: "h160 \<Rightarrow> yield_farm list \<Rightarrow> yield_farm option \<Rightarrow> f64 \<Rightarrow> yield_farm option" where
  "best_farm token [] best highest = best"
| "best_farm token (f # fs) best highest =
     (if yf_staking_token f = token \<and> f64_lt highest (yf_apr f)
      then best_farm token fs (Some f) (yf_apr f) else best_farm token fs best highest)"

definition find_best_yield :: "chain_api \<Rightarrow> string \<Rightarrow> defi_aggregator \<Rightarrow> string + yield_opportunity" where
  "find_best_yield api token self =
     rbind (parsed_address api token) (\<lambda>t.
       if da_yield_farms self = [] then Inl ''no farm configured''
       else (case best_farm t (da_yield_farms self) None (Fin 0) of
               None \<Rightarrow> Inl ''no farm for this token''
             | Some f \<Rightarrow>
                 Inr \<lparr> yo_platform = yf_name f, yo_token = t, yo_apy = yf_apr f, yo_tvl = yf_tvl f,
                       yo_rewards = [yf_reward_token f], yo_lock_period_days = Some (yf_lock_period_days f) \<rparr>))"

fun best_platform :: "h160 \<Rightarrow> lending_platform list \<Rightarrow> lending_platform option \<Rightarrow> f64 \<Rightarrow> lending_platform option" where
  "best_platform token [] best highest = best"
| "best_platform token (p # ps) best highest =
     (case (if token \<in> set (lp_supported_tokens p) then lp_lending_rates p token else None) of
        None \<Rightarrow> best_platform token ps best highest
      | Some rate \<Rightarrow>
          if f64_lt highest rate then best_platform token ps (Some p) rate else best_platform token ps best highest)"

definition rate_or_zero :: "f64 option \<Rightarrow> f64" where
  "rate_or_zero r = (case r of Some x \<Rightarrow> x | None \<Rightarrow> Fin 0)"

definition find_best_lending_rate :: "chain_api \<Rightarrow> string \<Rightarrow> defi_aggregator \<Rightarrow> string + lending_opportunity" where
  "find_best_lending_rate api token self =
     rbind (parsed_address api token) (\<lambda>t.
       if da_lending_platforms self = [] then Inl ''no lending platform configured''
       else (case best_platform t (da_lending_platforms self) None (Fin 0) of
               None \<Rightarrow> Inl ''no platform for this token''
             | Some p \<Rightarrow>
                 Inr \<lparr> lo_platform = lp_name p, lo_token = t, lo_lending_rate = rate_or_zero (lp_lending_rates p t),
                       lo_borrowing_rate = rate_or_zero (lp_borrowing_rates p t),
                       lo_available_liquidity = 1000000000000000000000 \<rparr>))"

section \<open>Farms\<close>

record farm_data =
  fd_pool_id :: u64
  fd_stake_token :: h160
  fd_reward_token :: h160
  fd_apr :: f64
  fd_tvl :: u256
  fd_total_staked :: u256
  fd_rewards_per_block :: u256
  fd_last_updated :: u64
  fd_end_block :: "u64 option"

record farm_manager =
  fm_contract_address :: h160
  fm_farm_data :: "u64 \<rightharpoonup> farm_data"

definition new_farm_manager :: "h160 \<Rightarrow> farm_manager" where
  "new_farm_manager a = \<lparr> fm_contract_address = a, fm_farm_data = Map.empty \<rparr>"

text \<open>
  What the farm manager asks of the wallet manager: the listed wallets, as the text of the address and
  the chain id, and whether it holds the key of an address.
\<close>

record wallet_view =
  wv_list :: "string + (string \<times> u64) list"
  wv_get :: "h160 \<Rightarrow> string + h160"

text \<open>The first wallet of the list and its signer.\<close>

definition first_wallet :: "wallet_view \<Rightarrow> string + string \<times> u64" where
  "first_wallet w =
     rbind (wv_list w) (\<lambda>ws. case ws of [] \<Rightarrow> Inl ''no wallet found'' | x # xs \<Rightarrow> Inr x)"

definition first_signer :: "chain_api \<Rightarrow> wallet_view \<Rightarrow> string + h160 \<times> u64" where
  "first_signer api w =
     rbind (first_wallet w) (\<lambda>(text, chain).
     rbind (parsed_address api text) (\<lambda>a.
     rbind (wv_get w a) (\<lambda>key. Inr (key, chain))))"

definition farm_transaction :: "chain_api \<Rightarrow> wallet_view \<Rightarrow> string \<Rightarrow> u64 \<Rightarrow> u256 \<Rightarrow> farm_manager \<Rightarrow> sent_call list \<times> (string + h256)" where
  "farm_transaction api w fn pool_id amount self =
     (case first_signer api w of
        Inl e \<Rightarrow> ([], Inl e)
      | Inr signer \<Rightarrow>
          let c = \<lparr> sc_contract = fm_contract_address self, sc_fn = fn, sc_args = [Num (unat pool_id), Num (unat amount)], sc_signer = signer \<rparr>
          in ([c], case send_call api c of Inl e \<Rightarrow> Inl e | Inr None \<Rightarrow> Inl ''no receipt'' | Inr (Some h) \<Rightarrow> Inr h))"

definition stake :: "chain_api \<Rightarrow> wallet_view \<Rightarrow> u64 \<Rightarrow> u256 \<Rightarrow> farm_manager \<Rightarrow> sent_call list \<times> (string + h256)" where
  "stake api w pool_id amount self = farm_transaction api w ''deposit'' pool_id amount self"

definition unstake :: "chain_api \<Rightarrow> wallet_view \<Rightarrow> u64 \<Rightarrow> u256 \<Rightarrow> farm_manager \<Rightarrow> sent_call list \<times> (string + h256)" where
  "unstake api w pool_id amount self = farm_transaction api w ''withdraw'' pool_id amount self"

definition claim_rewards :: "chain_api \<Rightarrow> wallet_view \<Rightarrow> u64 \<Rightarrow> farm_manager \<Rightarrow> sent_call list \<times> (string + h256)" where
  "claim_rewards api w pool_id self = unstake api w pool_id 0 self"

definition calculate_apr :: "u256 \<Rightarrow> u256 \<Rightarrow> f64 res" where
  "calculate_apr alloc_point total_staked =
     (if total_staked = 0 then Inr (Fin 0)
      else rbind (as_u128 alloc_point) (\<lambda>p.
           rbind (as_u128 total_staked) (\<lambda>t.
             Inr (f64_mul (f64_div (f64_mul (f64_of_nat (unat p)) (Fin 2102400)) (f64_of_nat (unat t))) (Fin 100)))))"

definition farm_abi :: abi_table where
  "farm_abi = [(''poolInfo'', [''uint256'']), (''rewardToken'', []), (''totalStaked'', [''uint256''])]"

definition fetch_pool :: "chain_api \<Rightarrow> u64 \<Rightarrow> farm_manager \<Rightarrow> string + (h160 \<times> u256) \<times> h160 \<times> u256 \<times> u64" where
  "fetch_pool api pool_id self =
     rbind (ask_view api farm_abi (fm_contract_address self) ''poolInfo'' [Num (unat pool_id)]) (\<lambda>info.
     rbind (case info of Pool_reply lp alloc b r \<Rightarrow> Inr (lp, alloc) | _ \<Rightarrow> Inl ''undecodable'') (\<lambda>pool.
     rbind (ask_view api farm_abi (fm_contract_address self) ''rewardToken'' []) (\<lambda>r.
     rbind (as_address r) (\<lambda>reward.
     rbind (ask_view api farm_abi (fm_contract_address self) ''totalStaked'' [Num (unat pool_id)]) (\<lambda>t.
     rbind (as_number t) (\<lambda>staked.
     rbind (block_number api) (\<lambda>b. Inr (pool, reward, staked, b))))))))"

definition update_pool_data_internal :: "chain_api \<Rightarrow> u64 \<Rightarrow> farm_manager \<Rightarrow> (string + farm_data) res" where
  "update_pool_data_internal api pool_id self =
     (case fetch_pool api pool_id self of
        Inl e \<Rightarrow> Inr (Inl e)
      | Inr ((lp, alloc), reward, staked, b) \<Rightarrow>
          rbind (calculate_apr alloc staked) (\<lambda>apr.
            Inr (Inr \<lparr> fd_pool_id = pool_id, fd_stake_token = lp, fd_reward_token = reward, fd_apr = apr, fd_tvl = staked,
                       fd_total_staked = staked, fd_rewards_per_block = 1000000000000000000, fd_last_updated = b,
                       fd_end_block = None \<rparr>)))"

definition pool_value :: "(farm_data \<Rightarrow> 'a) \<Rightarrow> chain_api \<Rightarrow> u64 \<Rightarrow> farm_manager \<Rightarrow> (string + 'a) res" where
  "pool_value field api pool_id self =
     (case fm_farm_data self pool_id of
        Some f \<Rightarrow> Inr (Inr (field f))
      | None \<Rightarrow> rbind (update_pool_data_internal api pool_id self) (\<lambda>r. Inr (map_sum id field r)))"

definition get_apr :: "chain_api \<Rightarrow> u64 \<Rightarrow> farm_manager \<Rightarrow> (string + f64) res" where
  "get_apr = pool_value fd_apr"

definition get_tvl :: "chain_api \<Rightarrow> u64 \<Rightarrow> farm_manager \<Rightarrow> (string + u256) res" where
  "get_tvl = pool_value fd_tvl"

definition update_pool_data :: "chain_api \<Rightarrow> u64 \<Rightarrow> farm_manager \<Rightarrow> ((string + farm_data) \<times> farm_manager) res" where
  "update_pool_data api pool_id self =
     rbind (update_pool_data_internal api pool_id self) (\<lambda>r.
       Inr (r, case r of Inl e \<Rightarrow> self | Inr f \<Rightarrow> self\<lparr> fm_farm_data := (fm_farm_data self)(pool_id \<mapsto> f) \<rparr>))"

definition first_account :: "chain_api \<Rightarrow> wallet_view \<Rightarrow> string + h160" where
  "first_account api w = rbind (first_wallet w) (\<lambda>(text, chain). parsed_address api text)"

definition get_user_stake :: "chain_api \<Rightarrow> wallet_view \<Rightarrow> u64 \<Rightarrow> farm_manager \<Rightarrow> string + u256" where
  "get_user_stake api w pool_id self =
     rbind (first_account api w) (\<lambda>a.
     rbind (ask_view api [(''userInfo'', [''uint256'', ''address''])] (fm_contract_address self) ''userInfo''
              [Num (unat pool_id), Account a]) (\<lambda>r.
       case r of Numbers_reply [amount, debt] \<Rightarrow> Inr amount | _ \<Rightarrow> Inl ''undecodable''))"

definition get_pending_rewards :: "chain_api \<Rightarrow> wallet_view \<Rightarrow> u64 \<Rightarrow> farm_manager \<Rightarrow> string + u256" where
  "get_pending_rewards api w pool_id self =
     rbind (first_account api w) (\<lambda>a.
     rbind (ask_view api [(''pendingReward'', [''uint256'', ''address''])] (fm_contract_address self) ''pendingReward''
              [Num (unat pool_id), Account a]) (\<lambda>r. as_number r))"

section \<open>Lemmas\<close>

text \<open>The names the managers call are functions of the interfaces, and the first three interfaces are empty.\<close>

lemma abi_functions:
  "''getPair'' \<in> fst ` set univ2factory_abi" "''getReserves'' \<in> fst ` set univ2pair_abi" "''token0'' \<in> fst ` set univ2pair_abi"
  by (simp_all add: univ2factory_abi_def univ2pair_abi_def)

lemma empty_interfaces: "uniswap_v2_abi = [] \<and> uniswap_v3_abi = [] \<and> pancakeswap_abi = []"
  by (simp add: uniswap_v2_abi_def uniswap_v3_abi_def pancakeswap_abi_def)

text \<open>A router that was added is found unless an older one has its name.\<close>

lemma added_router:
  assumes "add_router api name a self = (Inr (), self')"
  shows "\<exists>x. parse_address api a = Some x \<and>
    get_router n self' = (if n = name \<and> get_router n self = None then Some x else get_router n self)"
proof -
  from assms obtain x where x: "parse_address api a = Some x" "self' = self\<lparr> dm_routers := dm_routers self @ [(name, x)] \<rparr>"
    by (auto simp: add_router_def parsed_address_def split: option.splits)
  have "find P (xs @ [p]) = (case find P xs of None \<Rightarrow> if P p then Some p else None | Some q \<Rightarrow> Some q)"
    for P and xs :: "(string \<times> h160) list" and p by (induction xs) simp_all
  with x show ?thesis by (auto simp: get_router_def split: option.splits)
qed

text \<open>The route is the first exchange, and its output does not depend on the amount.\<close>

lemma best_route_kept: "best_route s t ds route 98000000000000000000 (Fin 2) = route"
  by (induction ds) (simp_all add: f64_eq_def)

lemma route_is_first:
  assumes "parse_address api a = Some x" and "parse_address api b = Some y" and "da_dexes self = d # ds"
  shows "find_best_swap_route api a b amount self = Inr (route_through x y 98000000000000000000 (Fin 2) d)"
  by (simp add: find_best_swap_route_def parsed_address_def assms best_route_kept)

text \<open>The best farm.\<close>

lemma f64_lt_irrefl [simp]: "\<not> f64_lt a a"
  by (cases a) simp_all

lemma best_farm_mono:
  "best_farm token fs best highest = Some f \<Longrightarrow> (best = Some f \<and> (\<forall>g \<in> set fs. yf_staking_token g = token \<longrightarrow> \<not> f64_lt highest (yf_apr g)))
     \<or> (f \<in> set fs \<and> yf_staking_token f = token \<and> f64_lt highest (yf_apr f) \<and>
        (\<forall>g \<in> set fs. yf_staking_token g = token \<longrightarrow> \<not> f64_lt (yf_apr f) (yf_apr g)))"
proof (induction fs arbitrary: best highest)
  case (Cons h fs)
  show ?case
  proof (cases "yf_staking_token h = token \<and> f64_lt highest (yf_apr h)")
    case True
    with Cons.prems have "best_farm token fs (Some h) (yf_apr h) = Some f" by simp
    from Cons.IH [OF this] True show ?thesis by (auto intro: f64_lt_trans dest: f64_lt_trans)
  next
    case False
    with Cons.prems have "best_farm token fs best highest = Some f" by simp
    from Cons.IH [OF this] False show ?thesis by (auto dest: f64_lt_trans)
  qed
qed simp

lemma best_farm_None:
  "best_farm token fs None highest = None \<Longrightarrow> g \<in> set fs \<Longrightarrow> yf_staking_token g = token \<Longrightarrow> \<not> f64_lt highest (yf_apr g)"
proof -
  have some: "best_farm token fs (Some h) r \<noteq> None" for fs h r by (induction fs arbitrary: h r) simp_all
  show "best_farm token fs None highest = None \<Longrightarrow> g \<in> set fs \<Longrightarrow> yf_staking_token g = token \<Longrightarrow> \<not> f64_lt highest (yf_apr g)"
    by (induction fs) (auto simp: some split: if_splits)
qed

lemma best_yield_exact:
  assumes "find_best_yield api token self = Inr r" and "parse_address api token = Some t"
  shows "\<exists>f \<in> set (da_yield_farms self). yf_staking_token f = t \<and> yo_apy r = yf_apr f \<and> f64_lt (Fin 0) (yf_apr f) \<and>
    (\<forall>g \<in> set (da_yield_farms self). yf_staking_token g = t \<longrightarrow> \<not> f64_lt (yf_apr f) (yf_apr g))"
proof -
  from assms obtain f where f: "best_farm t (da_yield_farms self) None (Fin 0) = Some f" "yo_apy r = yf_apr f"
    by (auto simp: find_best_yield_def parsed_address_def split: if_splits option.splits)
  from best_farm_mono [OF f(1)] f(2) show ?thesis by auto
qed

text \<open>Claiming sends one withdrawal of nothing, signed by the first wallet.\<close>

lemma claim_is_empty_withdrawal:
  "first_signer api w = Inr s \<Longrightarrow> fst (claim_rewards api w p self) =
     [\<lparr> sc_contract = fm_contract_address self, sc_fn = ''withdraw'', sc_args = [Num (unat p), Num 0], sc_signer = s \<rparr>]"
  by (simp add: claim_rewards_def unstake_def farm_transaction_def Let_def)

text \<open>A stored pool answers without the chain; only \<open>update_pool_data\<close> stores one.\<close>

lemma stored_pool_answers:
  assumes "update_pool_data api p self = Inr (Inr f, self')"
  shows "get_apr api' p self' = Inr (Inr (fd_apr f)) \<and> get_tvl api' p self' = Inr (Inr (fd_tvl f))"
  using assms by (auto simp: update_pool_data_def get_apr_def get_tvl_def pool_value_def)

text \<open>An allocation and a stake below \<open>2 ^ 128\<close> never make the rate panic.\<close>

lemma apr_no_panic:
  assumes "unat alloc < 2 ^ 128" and "unat staked < 2 ^ 128"
  shows "\<exists>r. calculate_apr alloc staked = Inr r"
  using assms by (simp add: calculate_apr_def as_u128_def)

end
