(* ===== verification/WalletKeys.thy ===== *)
theory WalletKeys
  imports WalletStorage Float64
begin

text \<open>
  The wallet manager of \<^verbatim>\<open>wallet/src/wallet.rs\<close> and the configuration file of
  \<^verbatim>\<open>wallet/src/config.rs\<close>. The manager calls methods its storage does not declare
  (\<open>create_with_private_key\<close>, \<open>save_to_file\<close>, \<open>get_wallet\<close> and others): the storage is the parameter
  \<open>key_store\<close>. The signing library is the parameter \<open>signing\<close>: how a key or a phrase makes a wallet, what
  the address of a wallet is, and how an address is printed and read. No lock is poisoned.
\<close>

section \<open>What the manager relies on\<close>

text \<open>\<open>'s\<close> is the storage, \<open>'w\<close> a wallet that can sign, \<open>'a\<close> an address.\<close>

record ('s, 'w) key_store =
  ks_create :: "string \<Rightarrow> u64 \<Rightarrow> string option \<Rightarrow> 's \<Rightarrow> (string + wallet_info) \<times> 's"
  ks_save :: "'s \<Rightarrow> string + unit"
  ks_find :: "string \<Rightarrow> 's \<Rightarrow> wallet_info option"
  ks_all :: "'s \<Rightarrow> safe_wallet_view list"
  ks_remove :: "string \<Rightarrow> 's \<Rightarrow> (string + unit) \<times> 's"
  ks_local :: "wallet_info \<Rightarrow> 's \<Rightarrow> string + 'w"

record ('w, 'a) signing =
  sg_wallet_of_key :: "string \<Rightarrow> string + 'w"
  sg_wallet_of_phrase :: "string \<Rightarrow> string \<Rightarrow> string \<Rightarrow> string + 'w"
  sg_key_text :: "'w \<Rightarrow> string"
  sg_address :: "'w \<Rightarrow> 'a"
  sg_display :: "'a \<Rightarrow> string"
  sg_parse :: "string \<Rightarrow> 'a option"
  sg_valid_phrase :: "string \<Rightarrow> bool"

section \<open>The manager\<close>

record wallet_manager_config =
  wc_default_chain_id :: u64
  wc_storage_config :: storage_config
  wc_wallet_encryption_seed :: string

definition default_manager_config :: wallet_manager_config where
  "default_manager_config =
     \<lparr> wc_default_chain_id = 1, wc_storage_config = default_storage_config, wc_wallet_encryption_seed = ''diamond_wallet'' \<rparr>"

record ('s, 'w, 'a) wallet_manager =
  wm_storage :: 's
  wm_wallets :: "'a \<rightharpoonup> 'w"
  wm_config :: wallet_manager_config
  wm_encryption_key :: string

text \<open>\<open>opened\<close>: what opening the storage with the configuration gives.\<close>

definition new_wallet_manager ::
  "(storage_config \<Rightarrow> string + 's) \<Rightarrow> wallet_manager_config \<Rightarrow> string + ('s, 'w, 'a) wallet_manager" where
  "new_wallet_manager opened config =
     rbind (opened (wc_storage_config config)) (\<lambda>s.
       Inr \<lparr> wm_storage = s, wm_wallets = Map.empty, wm_config = config, wm_encryption_key = wc_wallet_encryption_seed config \<rparr>)"

text \<open>A wallet is stored under its key, the storage is saved, and the wallet is kept in memory.\<close>

definition store_key ::
  "('s, 'w) key_store \<Rightarrow> 'a \<Rightarrow> 'w \<Rightarrow> string \<Rightarrow> string option \<Rightarrow> ('s, 'w, 'a) wallet_manager
     \<Rightarrow> (string + wallet_info) \<times> ('s, 'w, 'a) wallet_manager" where
  "store_key ks a w key name self =
     (case ks_create ks key (wc_default_chain_id (wm_config self)) name (wm_storage self) of
        (Inl e, s) \<Rightarrow> (Inl e, self\<lparr> wm_storage := s \<rparr>)
      | (Inr info, s) \<Rightarrow>
          (case ks_save ks s of
             Inl e \<Rightarrow> (Inl e, self\<lparr> wm_storage := s \<rparr>)
           | Inr _ \<Rightarrow> (Inr info, self\<lparr> wm_storage := s, wm_wallets := (wm_wallets self)(a \<mapsto> w) \<rparr>)))"

definition first_path :: string where
  "first_path = ''m/44'' @ [CHR 0x27] @ ''/60'' @ [CHR 0x27] @ ''/0'' @ [CHR 0x27] @ ''/0/0''"

text \<open>\<open>phrase\<close> is the random phrase of twelve words, or the error of the generator.\<close>

definition create_wallet ::
  "('w, 'a) signing \<Rightarrow> ('s, 'w) key_store \<Rightarrow> string + string \<Rightarrow> string option \<Rightarrow> ('s, 'w, 'a) wallet_manager
     \<Rightarrow> (string + string \<times> 'a) \<times> ('s, 'w, 'a) wallet_manager" where
  "create_wallet sg ks phrase passphrase self =
     (case rbind phrase (\<lambda>p. rbind (sg_wallet_of_phrase sg p (case passphrase of Some q \<Rightarrow> q | None \<Rightarrow> '''') first_path) (\<lambda>w. Inr (p, w))) of
        Inl e \<Rightarrow> (Inl e, self)
      | Inr (p, w) \<Rightarrow>
          (case store_key ks (sg_address sg w) w (sg_key_text sg w) None self of
             (Inl e, self') \<Rightarrow> (Inl e, self')
           | (Inr info, self') \<Rightarrow> (Inr (p, sg_address sg w), self')))"

text \<open>The wallet is looked up by the display text of its address.\<close>

definition stored_info :: "('w, 'a) signing \<Rightarrow> ('s, 'w) key_store \<Rightarrow> 'a \<Rightarrow> ('s, 'w, 'a) wallet_manager \<Rightarrow> string + wallet_info" where
  "stored_info sg ks a self =
     (case ks_find ks (sg_display sg a) (wm_storage self) of None \<Rightarrow> Inl ''Wallet not found'' | Some i \<Rightarrow> Inr i)"

definition create_new_wallet ::
  "('w, 'a) signing \<Rightarrow> ('s, 'w) key_store \<Rightarrow> string + string \<Rightarrow> string option \<Rightarrow> ('s, 'w, 'a) wallet_manager
     \<Rightarrow> (string + safe_wallet_view) \<times> ('s, 'w, 'a) wallet_manager" where
  "create_new_wallet sg ks phrase passphrase self =
     (case create_wallet sg ks phrase passphrase self of
        (Inl e, self') \<Rightarrow> (Inl e, self')
      | (Inr (p, a), self') \<Rightarrow> (rbind (stored_info sg ks a self') (\<lambda>i. Inr (to_safe_view i)), self'))"

definition import_private_key ::
  "('w, 'a) signing \<Rightarrow> ('s, 'w) key_store \<Rightarrow> string \<Rightarrow> string option \<Rightarrow> ('s, 'w, 'a) wallet_manager
     \<Rightarrow> (string + 'a) \<times> ('s, 'w, 'a) wallet_manager" where
  "import_private_key sg ks key name self =
     (case sg_wallet_of_key sg key of
        Inl e \<Rightarrow> (Inl e, self)
      | Inr w \<Rightarrow> map_prod (\<lambda>r. rbind r (\<lambda>i. Inr (sg_address sg w))) id (store_key ks (sg_address sg w) w key name self))"

definition validate_private_key :: "('w, 'a) signing \<Rightarrow> string \<Rightarrow> string + unit" where
  "validate_private_key sg key = rbind (sg_wallet_of_key sg key) (\<lambda>_. Inr ())"

definition validate_mnemonic :: "('w, 'a) signing \<Rightarrow> string \<Rightarrow> string + unit" where
  "validate_mnemonic sg phrase = (if sg_valid_phrase sg phrase then Inr () else Inl ''invalid mnemonic'')"

definition validate_wallet_address :: "('w, 'a) signing \<Rightarrow> string \<Rightarrow> string + unit" where
  "validate_wallet_address sg text = (case sg_parse sg text of None \<Rightarrow> Inl ''invalid address'' | Some a \<Rightarrow> Inr ())"

definition import_from_private_key ::
  "('w, 'a) signing \<Rightarrow> ('s, 'w) key_store \<Rightarrow> string \<Rightarrow> ('s, 'w, 'a) wallet_manager
     \<Rightarrow> (string + wallet_info) \<times> ('s, 'w, 'a) wallet_manager" where
  "import_from_private_key sg ks key self =
     (case validate_private_key sg key of
        Inl e \<Rightarrow> (Inl e, self)
      | Inr _ \<Rightarrow>
          (case import_private_key sg ks key None self of
             (Inl e, self') \<Rightarrow> (Inl e, self')
           | (Inr a, self') \<Rightarrow> (stored_info sg ks a self', self')))"

definition import_from_mnemonic ::
  "('w, 'a) signing \<Rightarrow> ('s, 'w) key_store \<Rightarrow> string \<Rightarrow> string option \<Rightarrow> ('s, 'w, 'a) wallet_manager
     \<Rightarrow> (string + wallet_info) \<times> ('s, 'w, 'a) wallet_manager" where
  "import_from_mnemonic sg ks phrase passphrase self =
     (case rbind (validate_mnemonic sg phrase) (\<lambda>_. sg_wallet_of_phrase sg phrase (case passphrase of Some q \<Rightarrow> q | None \<Rightarrow> '''') first_path) of
        Inl e \<Rightarrow> (Inl e, self)
      | Inr w \<Rightarrow> store_key ks (sg_address sg w) w (sg_key_text sg w) None self)"

definition hd_path :: "nat \<Rightarrow> string" where
  "hd_path i = butlast first_path @ show_nat i"

text \<open>The wallets of the first paths; the ones before a failure stay stored.\<close>

fun create_hd_from ::
  "('w, 'a) signing \<Rightarrow> ('s, 'w) key_store \<Rightarrow> string \<Rightarrow> string option \<Rightarrow> nat list \<Rightarrow> ('s, 'w, 'a) wallet_manager
     \<Rightarrow> (string + wallet_info list) \<times> ('s, 'w, 'a) wallet_manager" where
  "create_hd_from sg ks phrase passphrase [] self = (Inr [], self)"
| "create_hd_from sg ks phrase passphrase (i # is) self =
     (case sg_wallet_of_phrase sg phrase (case passphrase of Some q \<Rightarrow> q | None \<Rightarrow> '''') (hd_path i) of
        Inl e \<Rightarrow> (Inl e, self)
      | Inr w \<Rightarrow>
          (case store_key ks (sg_address sg w) w (sg_key_text sg w) (Some (''HD Wallet '' @ show_nat i)) self of
             (Inl e, self') \<Rightarrow> (Inl e, self')
           | (Inr info, self') \<Rightarrow>
               map_prod (\<lambda>r. rbind r (\<lambda>rest. Inr (info # rest))) id (create_hd_from sg ks phrase passphrase is self')))"

definition create_hd_wallets ::
  "('w, 'a) signing \<Rightarrow> ('s, 'w) key_store \<Rightarrow> string \<Rightarrow> nat \<Rightarrow> string option \<Rightarrow> ('s, 'w, 'a) wallet_manager
     \<Rightarrow> (string + wallet_info list) \<times> ('s, 'w, 'a) wallet_manager" where
  "create_hd_wallets sg ks phrase n passphrase self =
     (case validate_mnemonic sg phrase of
        Inl e \<Rightarrow> (Inl e, self)
      | Inr _ \<Rightarrow> create_hd_from sg ks phrase passphrase [0..<n] self)"

definition get_wallet ::
  "('w, 'a) signing \<Rightarrow> ('s, 'w) key_store \<Rightarrow> 'a \<Rightarrow> ('s, 'w, 'a) wallet_manager \<Rightarrow> (string + 'w) \<times> ('s, 'w, 'a) wallet_manager" where
  "get_wallet sg ks a self =
     (case wm_wallets self a of
        Some w \<Rightarrow> (Inr w, self)
      | None \<Rightarrow>
          (case rbind (stored_info sg ks a self) (\<lambda>i. ks_local ks i (wm_storage self)) of
             Inl e \<Rightarrow> (Inl e, self)
           | Inr w \<Rightarrow> (Inr w, self\<lparr> wm_wallets := (wm_wallets self)(a \<mapsto> w) \<rparr>)))"

text \<open>\<open>sign w chain\<close> and \<open>send w chain\<close> are the signature of, and the sending by, a wallet on a chain.\<close>

definition sign_transaction ::
  "('w, 'a) signing \<Rightarrow> ('s, 'w) key_store \<Rightarrow> ('w \<Rightarrow> u64 \<Rightarrow> string + 'b) \<Rightarrow> 'a \<Rightarrow> u64 \<Rightarrow> ('s, 'w, 'a) wallet_manager
     \<Rightarrow> (string + 'b) \<times> ('s, 'w, 'a) wallet_manager" where
  "sign_transaction sg ks sign a chain self =
     map_prod (\<lambda>r. rbind r (\<lambda>w. sign w chain)) id (get_wallet sg ks a self)"

definition send_transaction ::
  "('w, 'a) signing \<Rightarrow> ('s, 'w) key_store \<Rightarrow> string + u64 \<Rightarrow> ('w \<Rightarrow> u64 \<Rightarrow> string + 'h) \<Rightarrow> 'a \<Rightarrow> ('s, 'w, 'a) wallet_manager
     \<Rightarrow> (string + 'h) \<times> ('s, 'w, 'a) wallet_manager" where
  "send_transaction sg ks chain send a self =
     map_prod (\<lambda>r. rbind r (\<lambda>w. rbind chain (\<lambda>c. send w c))) id (get_wallet sg ks a self)"

definition list_wallets :: "('s, 'w) key_store \<Rightarrow> ('s, 'w, 'a) wallet_manager \<Rightarrow> string + safe_wallet_view list" where
  "list_wallets ks self = Inr (ks_all ks (wm_storage self))"

definition get_wallet_list :: "('s, 'w) key_store \<Rightarrow> ('s, 'w, 'a) wallet_manager \<Rightarrow> safe_wallet_view list" where
  "get_wallet_list ks self = (case list_wallets ks self of Inr ws \<Rightarrow> ws | Inl e \<Rightarrow> [])"

text \<open>The result of saving after a removal is ignored.\<close>

definition remove_wallet ::
  "('w, 'a) signing \<Rightarrow> ('s, 'w) key_store \<Rightarrow> string \<Rightarrow> ('s, 'w, 'a) wallet_manager \<Rightarrow> bool \<times> ('s, 'w, 'a) wallet_manager" where
  "remove_wallet sg ks text self =
     (case ks_remove ks text (wm_storage self) of
        (Inl e, s) \<Rightarrow> (False, self\<lparr> wm_storage := s \<rparr>)
      | (Inr _, s) \<Rightarrow>
          (True, self\<lparr> wm_storage := s,
                       wm_wallets := (case sg_parse sg text of Some a \<Rightarrow> (wm_wallets self)(a := None) | None \<Rightarrow> wm_wallets self) \<rparr>))"

definition save_wallets :: "('s, 'w) key_store \<Rightarrow> ('s, 'w, 'a) wallet_manager \<Rightarrow> string + unit" where
  "save_wallets ks self = ks_save ks (wm_storage self)"

section \<open>The configuration file\<close>

record wallet_file_config =
  cfg_chain_id :: u64
  cfg_rpc_url :: string
  cfg_wallet_folder :: string
  cfg_wallet_encryption_seed :: string
  cfg_gas_limit :: u64
  cfg_gas_price_multiplier :: f64
  cfg_max_gas_price :: "u64 option"
  cfg_transaction_timeout :: u64
  cfg_network_name :: string
  cfg_native_symbol :: string
  cfg_auto_balance_check :: bool
  cfg_balance_check_interval :: u64

text \<open>The multiplier is the float next to 1.1.\<close>

definition default_file_config :: wallet_file_config where
  "default_file_config =
     \<lparr> cfg_chain_id = 1, cfg_rpc_url = ''https://ethereum.publicnode.com'', cfg_wallet_folder = ''./data/wallets'',
       cfg_wallet_encryption_seed = ''default_encryption_seed_change_this'', cfg_gas_limit = 300000,
       cfg_gas_price_multiplier = Fin (4953959590107546 / 2 ^ 52), cfg_max_gas_price = Some 100000000000,
       cfg_transaction_timeout = 120, cfg_network_name = ''ethereum'', cfg_native_symbol = ''ETH'',
       cfg_auto_balance_check = True, cfg_balance_check_interval = 300 \<rparr>"

text \<open>The JSON codec and the files; \<open>writable\<close> tells whether the directory can be made and the file written.\<close>

record config_codec =
  print_config :: "wallet_file_config \<Rightarrow> string option"
  parse_config :: "string \<Rightarrow> wallet_file_config option"

definition save_config_to_file ::
  "config_codec \<Rightarrow> (string \<Rightarrow> bool) \<Rightarrow> string \<Rightarrow> wallet_file_config \<Rightarrow> (string \<rightharpoonup> string) \<Rightarrow> (string + unit) \<times> (string \<rightharpoonup> string)" where
  "save_config_to_file cd writable path c files =
     (case print_config cd c of
        None \<Rightarrow> (Inl ''serialize'', files)
      | Some content \<Rightarrow> if writable path then (Inr (), files(path \<mapsto> content)) else (Inl ''write'', files))"

definition config_from_file ::
  "config_codec \<Rightarrow> (string \<Rightarrow> bool) \<Rightarrow> string \<Rightarrow> (string \<rightharpoonup> string) \<Rightarrow> (string + wallet_file_config) \<times> (string \<rightharpoonup> string)" where
  "config_from_file cd writable path files =
     (case files path of
        None \<Rightarrow> (case save_config_to_file cd writable path default_file_config files of
                   (Inl e, fs) \<Rightarrow> (Inl e, fs)
                 | (Inr _, fs) \<Rightarrow> (Inr default_file_config, fs))
      | Some content \<Rightarrow> ((case parse_config cd content of None \<Rightarrow> Inl ''parse'' | Some c \<Rightarrow> Inr c), files))"

definition config_roundtrip :: "config_codec \<Rightarrow> bool" where
  "config_roundtrip cd \<longleftrightarrow> (\<forall>c s. print_config cd c = Some s \<longrightarrow> parse_config cd s = Some c)"

lemma saved_config_read:
  assumes "config_roundtrip cd" and "save_config_to_file cd w path c files = (Inr (), files')"
  shows "config_from_file cd w path files' = (Inr c, files')"
  using assms by (auto simp: config_roundtrip_def save_config_to_file_def config_from_file_def split: option.splits if_splits)

lemma first_read_settles:
  assumes "config_roundtrip cd" and "config_from_file cd w path files = (Inr c, files')"
  shows "config_from_file cd w path files' = (Inr c, files')"
proof (cases "files path")
  case None
  with assms(2) have "c = default_file_config" "save_config_to_file cd w path default_file_config files = (Inr (), files')"
    by (auto simp: config_from_file_def split: sum.split_asm prod.split_asm)
  with saved_config_read [OF assms(1)] show ?thesis by blast
next
  case (Some content)
  with assms(2) show ?thesis by (auto simp: config_from_file_def)
qed

section \<open>Which wallets can be used\<close>

text \<open>
  Nothing is assumed of the storage. A wallet in memory is used without it; any other one is asked of
  the storage under the display text of its address, and kept in memory once it was found.
\<close>

lemma store_key_Inr:
  "store_key ks a w key name self = (Inr i, self') \<Longrightarrow> wm_wallets self' = (wm_wallets self)(a \<mapsto> w)"
  by (auto simp: store_key_def split: sum.split_asm prod.split_asm)

lemma store_key_Inl: "store_key ks a w key name self = (Inl e, self') \<Longrightarrow> wm_wallets self' = wm_wallets self"
  by (auto simp: store_key_def split: sum.split_asm prod.split_asm)

text \<open>A new wallet is kept in memory, whatever the following look into the storage answers.\<close>

lemma new_wallet_kept:
  assumes "create_wallet sg ks phrase q self = (Inr (p, a), self')"
  shows "snd (create_new_wallet sg ks phrase q self) = self' \<and> (\<exists>w. wm_wallets self' = (wm_wallets self)(a \<mapsto> w))"
proof -
  from assms have "\<exists>w. wm_wallets self' = (wm_wallets self)(a \<mapsto> w)"
    by (auto simp: create_wallet_def dest: store_key_Inr split: sum.split_asm prod.split_asm)
  then show ?thesis using assms by (simp add: create_new_wallet_def)
qed

text \<open>A wallet in memory is used without the storage.\<close>

lemma wallet_in_memory: "wm_wallets self a = Some w \<Longrightarrow> get_wallet sg ks a self = (Inr w, self)"
  by (simp add: get_wallet_def)

text \<open>After a removal by the text of its address a wallet is asked of the storage again.\<close>

lemma removed_wallet_forgotten:
  assumes "remove_wallet sg ks text self = (True, self')" and "sg_parse sg text = Some a"
  shows "wm_wallets self' a = None"
  using assms by (auto simp: remove_wallet_def split: sum.split_asm prod.split_asm)

text \<open>A fresh manager signs for an address exactly with the wallet its storage has for the display text.\<close>

lemma fresh_manager_asks_storage:
  assumes "new_wallet_manager opened config = Inr self"
  shows "fst (get_wallet sg ks a self)
    = rbind (stored_info sg ks a self) (\<lambda>i. ks_local ks i (wm_storage self))"
proof -
  have "wm_wallets self = Map.empty" using assms by (auto simp: new_wallet_manager_def)
  then show ?thesis
    by (cases "rbind (stored_info sg ks a self) (\<lambda>i. ks_local ks i (wm_storage self))")
      (simp_all add: get_wallet_def del: rbind_eq_Inr rbind_eq_Inl)
qed

lemma hd_wallets_length:
  "create_hd_wallets sg ks phrase n q self = (Inr infos, self') \<Longrightarrow> length infos = n"
proof -
  have "create_hd_from sg ks phrase q is self = (Inr infos, self') \<Longrightarrow> length infos = length is" for "is" self infos self'
  proof (induction "is" arbitrary: self infos)
    case (Cons i "is")
    from Cons.prems obtain info self1 where
      "map_prod (\<lambda>r. rbind r (\<lambda>rest. Inr (info # rest))) id (create_hd_from sg ks phrase q is self1) = (Inr infos, self')"
      by (auto split: sum.split_asm prod.split_asm)
    then obtain rest where "create_hd_from sg ks phrase q is self1 = (Inr rest, self')" "infos = info # rest"
      by (cases "create_hd_from sg ks phrase q is self1") auto
    with Cons.IH show ?case by simp
  qed simp
  then show "create_hd_wallets sg ks phrase n q self = (Inr infos, self') \<Longrightarrow> length infos = n"
    by (auto simp: create_hd_wallets_def split: sum.split_asm)
qed

end
