(* ===== verification/Spec2Isabelle.thy ===== *)
theory Spec2Isabelle
  imports Prelude Farming Mining SupplyTracker ModuleManager BridgeMpc DiamondToken CircuitBreaker Retry RateLimit NonceManager GasOptimizer MessageQueue Subscription Users TokenTracker Mempool AutoTrade Caches ConnectionPool Auth Security Texts ChainErrors Extensions Registries WalletStorage TransactionModel AccountModels Services BotUtils NetworkCore ChainServices DepinBridge ErrorHandling RiskAnalyzer FloatArith Equilibrium AutoTuning ChainConfigs EvmAdapters EvmWatch EvmSending LegacyAdapters
    MevDetection MonteCarlo ProfitDecisions WalletDefi WalletKeys
begin

text \<open>
  A verification development of diamondBotV2, a trading bot written in Rust with its own token on
  the NEAR chain.

  The program. Under \<^verbatim>\<open>blockchain/src\<close> are the NEAR contracts: the token DMD
  (\<^verbatim>\<open>diamond_token/src/lib.rs\<close>) with the supply tracker it embeds (\<^verbatim>\<open>supply_tracker.rs\<close>: the
  circulating supply per chain), the module registry it embeds (\<^verbatim>\<open>module_manager.rs\<close>: modules,
  permissions, administrators) and the bridge (\<^verbatim>\<open>bridge.rs\<close>: LayerZero messages and a controller
  that collects signatures); the staking contract (\<^verbatim>\<open>farming/src/lib.rs\<close>) and the mining contract
  (\<^verbatim>\<open>mining/src/lib.rs\<close>), which pay their rewards through the token by promises with callbacks.
  \<^verbatim>\<open>snipebot/src\<close> is the bot: chain adapters (nonces, retries, circuit breakers, RPC pools) and
  trading (gas prices and more). \<^verbatim>\<open>common/src\<close> is shared infrastructure (rate limits, retries)
  and \<^verbatim>\<open>network/slave_node\<close> a node with a message queue over Redis.

  The theories, in the order they build on each other:

  \<^item> \<open>Prelude\<close>: results with panics, checked machine arithmetic (collection \<open>ovf\<close>), the environment
    of a contract call, promises, sums over maps, strings; the interfaces \<open>contract\<close> (every call
    keeps an invariant) and \<open>owned_contract\<close> (only the owner changes the owner; privileged calls of
    others panic).
  \<^item> \<open>Farming\<close>, \<open>Mining\<close>: the two reward contracts. A record per contract state, one definition per
    method, \<open>exec_farming\<close> and \<open>exec_mining\<close> as the dispatch the contract macro generates; then the
    asynchronous system (\<open>farming_step\<close>, \<open>mining_step\<close>): calls, the transfers and mints in flight,
    their outcomes and callbacks in any order. Lemmas: the effect of each method, the invariant of
    every step, reachability. Both interpret \<open>owned_contract\<close>.
  \<^item> \<open>SupplyTracker\<close>, \<open>ModuleManager\<close>, \<open>BridgeMpc\<close>: the parts of the token. The tracker interprets a
    ledger interface, the others interpret \<open>owned_contract\<close>.
  \<^item> \<open>DiamondToken\<close>: the token over these parts. The fungible-token core of
    \<open>near_contract_standards\<close> is a parameter with the laws \<open>ft_laws\<close>; \<open>ledger_ft\<close> is an instance.
  \<^item> \<open>CircuitBreaker\<close>: the interface \<open>breaker\<close> (an open breaker refuses until something unblocks it)
    and the per-endpoint breaker of \<^verbatim>\<open>retry_policy.rs\<close> with the guards of its locks explicit.
  \<^item> \<open>Retry\<close>: the retry loops of \<^verbatim>\<open>retry_policy.rs\<close>, \<^verbatim>\<open>retry.rs\<close> and \<^verbatim>\<open>common/src/retry_policy.rs\<close>, the
    RPC rotation and pool, the shared breaker (a second interpretation of \<open>breaker\<close>).
  \<^item> \<open>RateLimit\<close>: the interface \<open>window_limiter\<close> and the limiters of the common library and of the bot
    as its two interpretations.
  \<^item> \<open>NonceManager\<close>, \<open>GasOptimizer\<close>: nonces and gas prices of the bot.
  \<^item> \<open>MessageQueue\<close>: the priority queue; Redis is a parameter with the laws \<open>redis_laws\<close>, and
    \<open>list_redis\<close> an instance.
  \<^item> \<open>Subscription\<close>, \<open>Users\<close>: the subscription manager, refining a map from users, and the user
    table with its file; the password functions are parameters with the laws \<open>crypto_laws\<close>.
  \<^item> \<open>Float64\<close>: values of type \<open>f64\<close> that are compared, and the quotient of counts.
  \<^item> \<open>TokenTracker\<close>, \<open>Mempool\<close>: the classification and the cache of tracked tokens, and the
    watcher of pending transactions with the stubs it contains.
  \<^item> \<open>AutoTrade\<close>: the trading decisions of the bot as actions that emit orders, against an arbitrary
    world; the lemmas follow which orders an action can emit (collection \<open>stays_intros\<close>).
  \<^item> \<open>Caches\<close>: the interface \<open>ttl_cache\<close> (no answer is stale, proved once for every client), met by
    the bounded cache, the plain cache, the LRU cache and the token tracker.
  \<^item> \<open>ConnectionPool\<close>: the pool of RPC connections with its guards; \<open>exec_pool\<close> interleaves requests,
    returned guards, reports and health checks, \<open>exec_manager\<close> runs the manager of all pools.
  \<^item> \<open>Auth\<close>, \<open>Security\<close>: tokens, their revocation and the request middlewares over a token library that
    is a parameter (\<open>jwt_laws\<close>), the middleware chain, and the exclusive-or cipher of the basic service.
  \<^item> \<open>Texts\<close>, \<open>ChainErrors\<close>, \<open>Extensions\<close>: parsing of numbers and search in texts; the errors of the
    chain adapters and their two classifications by text; versions and the mempool monitor of a node.
  \<^item> \<open>Registries\<close>: the interface \<open>keyed_registry\<close> and the registry of chains as its interpretations for
    adapters and watchers (a configured adapter draws on \<open>ConnectionPool\<close>); the registry by name.
  \<^item> \<open>WalletStorage\<close>: encrypted wallet files over a map of the disk; cipher, digests and JSON codec are
    the parameter \<open>crypto\<close> with the laws \<open>codec_laws\<close>, and \<open>demo_crypto\<close> an instance.
  \<^item> \<open>TransactionModel\<close>, \<open>AccountModels\<close>: the shared models of transactions and blocks, and of wallets, users
    and chains; the latter meet the interfaces \<open>timed_entity\<close> and \<open>keyed_entries\<close>.
  \<^item> \<open>Services\<close>: the stores of tasks, jobs and rules (interface \<open>keyed_store\<close>), state manager, worker,
    event log, metrics, and the gateway that starts and stops arbitrary services.
  \<^item> \<open>BotUtils\<close>: saturating arithmetic, formatting of amounts, errors and durations, over the number texts of
    \<open>Texts\<close>. \<open>NetworkCore\<close>: nodes, messages, peers and the address check of the network.
  \<^item> \<open>ChainServices\<close>: transaction states, token information and the contract manager, whose operations are
    \<open>None\<close> when they never return. \<open>DepinBridge\<close>: the node network (an \<open>owned_contract\<close> of the prelude)
    and the cross-chain bridge.
  \<^item> \<open>ErrorHandling\<close>: classes of transaction errors and what they recommend; the interface \<open>error_store\<close> of
    the trait and its basic implementation. \<open>RiskAnalyzer\<close>: analyses, verdicts and their cache.
  \<^item> \<open>Float64\<close>, \<open>FloatArith\<close>: values of type \<open>f64\<close> and their comparison; rounding and arithmetic of IEEE
    double precision on rationals. \<open>Equilibrium\<close>: the games of the AI modules. \<open>AutoTuning\<close>: the tuner of
    retries and simulations as steps of its service.
  \<^item> \<open>ChainConfigs\<close>, \<open>EvmAdapters\<close>: the table of chains and the adapter they share, over the interfaces of
    the contracts; the ethers library (\<open>ethers\<close>) and the node (\<open>node\<close>) are parameters. \<open>EvmWatch\<close>: bundles and
    the watching of transactions. \<open>EvmSending\<close>: sending with nonces and retries, purchases with a bound
    on the slippage, and the enumeration of the chains. \<open>LegacyAdapters\<close>: the adapters with a file each.
  \<^item> \<open>MevDetection\<close>, \<open>MonteCarlo\<close> (\<^verbatim>\<open>trade/MonteEquilibrium.rs\<close>): the optimizer of gas prices, its view of
    the network and its competitors, the heuristics that find transactions of MEV bots, the simulation
    of strategies with the random draws as arguments, and the states it reaches (it never learns). \<open>ProfitDecisions\<close>:
    scenarios for a position, the chance to reach a price, the scores, the decision, its execution, and
    the stress tests.
  \<^item> \<open>WalletDefi\<close>: contract interfaces, exchanges, yields, lending rates and the farm contract.
    \<open>WalletKeys\<close>: the wallet manager over a storage (\<open>key_store\<close>) and a signing library (\<open>signing\<close>) that are
    parameters, and the configuration file.
  \<^item> This theory: the mining contract and the token together.

  Conventions. Machine integers are words: the contracts are built with overflow checks, so their
  arithmetic is \<open>add_ov\<close>, \<open>sub_ov\<close>, \<open>mul_ov\<close>, and a panic discards the call; \<open>U256\<close> operators
  panic as well; the bot is a release build, whose \<open>u64\<close> arithmetic wraps. Times are arguments, in
  the unit of the clock the code reads. A \<open>LookupMap\<close> or \<open>HashMap\<close> is a partial map, finite by the
  invariant where that matters. What the chain, an RPC provider, Redis or the token core answers is
  an argument. No loop needs fuel: the retry loops end by the measure
  \<open>max_retries - retries\<close>, the others recurse over a list.

  What the properties show: of the contracts, conservation and solvency over all interleavings,
  caps, quorums, ownership, exact rewards with their overflow, rollback of failed promises, round
  trips, and where the code departs from what it means to do (rewards lost at a top-up, principal
  locked by an overflow or paid twice, supply that is not tracked); of the bot, bounds on attempts,
  prices and accepted requests, freshness of nonces, delivery by priority, and the limits of each
  (a breaker that never recovers, nonces that come again, a retry limit that is never reached).

  Not modelled: the JSON and Borsh encodings, storage costs and gas accounting, logging and
  metrics, random simulations and most \<open>f64\<close> statistics, sockets, HTTP and gRPC
  glue, cryptography, and the parts of the repository that the manifest lists as not modelled.
  Several modules do not compile as they stand (missing fields, imports, or lock types); they are
  modelled by what their text says.
\<close>

section \<open>Mining rewards settled by the token\<close>

text \<open>
  A claim of mining rewards from its call to its callback: \<open>claim_rewards\<close> on the mining contract,
  the mint it schedules on the token, made by the mining contract, and \<open>claim_reward_callback\<close>
  with the mint's outcome. No other call intervenes. The environments are those of the user's
  call, of the mint and of the callback.
\<close>

definition settle_claim ::
    "'t ft_api \<Rightarrow> near_env \<Rightarrow> near_env \<Rightarrow> near_env \<Rightarrow> mining \<Rightarrow> 't diamond_token
       \<Rightarrow> (mining \<times> 't diamond_token) res" where
  "settle_claim api env env_mint env_cb m tok =
     rbind (Mining.claim_rewards env m) (\<lambda>(m, p).
       case call_method p of
         Mining.Mint u r \<Rightarrow>
           (case DiamondToken.mint api (env_mint\<lparr>predecessor := current_account env\<rparr>) tok u r of
              Inl _ \<Rightarrow> rbind (claim_reward_callback (env_cb\<lparr>promise_ok := False\<rparr>) m u r) (\<lambda>m. Inr (m, tok))
            | Inr tok \<Rightarrow> rbind (claim_reward_callback (env_cb\<lparr>promise_ok := True\<rparr>) m u r) (\<lambda>m. Inr (m, tok))))"

lemma mint_supply:
  assumes "token_inv api tok" and "DiamondToken.mint api env tok a v = Inr tok'"
  shows "unat (ft_supply api (token tok')) = unat (ft_supply api (token tok)) + unat v
         \<and> predecessor env = DiamondToken.owner_id tok"
proof -
  from mint_Inr [OF assms(2)] obtain t tok1 where e: "predecessor env = DiamondToken.owner_id tok"
    and d: "ft_deposit api a v (token tok) = Inr t"
    and adj: "adjust_near env (tok\<lparr>token := t\<rparr>) (\<lambda>s. add_ov s v) = Inr tok1"
    and tok': "tok' = tok1\<lparr>last_update := unix_secs env\<rparr>" by blast
  from adjust_near_frame [OF adj] tok' have "token tok' = t" by auto
  moreover have "unat (ft_supply api t) = unat (ft_supply api (token tok)) + unat v"
    using ft_lawsD [of api] assms(1) d by (simp add: token_inv_def)
  ultimately show ?thesis using e by simp
qed

text \<open>C1. Settling a mining claim conserves value: what the user could claim before is, afterwards,
  either new supply of the token or still claimable, to the last unit. Unless the mining contract
  owns the token (a granted permission does not count), the mint is refused and the token
  unchanged.\<close>

theorem mining_claim_conserves:
  assumes "token_inv api tok" and "Mining.get_pending_reward env m (predecessor env) = Inr pending"
    and "settle_claim api env env_mint env_cb m tok = Inr (m', tok')"
  shows "unat (ft_supply api (token tok')) + unat (reward_of m' (predecessor env))
           = unat (ft_supply api (token tok)) + unat pending
         \<and> (DiamondToken.owner_id tok \<noteq> current_account env \<longrightarrow> tok' = tok)"
proof -
  let ?u = "predecessor env" and ?env = "env_mint\<lparr>predecessor := current_account env\<rparr>"
  from assms(3) obtain m1 p where c: "Mining.claim_rewards env m = Inr (m1, p)"
    by (auto simp: settle_claim_def)
  from mining_claim_Inr [OF c] obtain mid r where mid: "update_rewards env m = Inr mid"
    and r: "r = reward_of mid ?u" and m1: "m1 = mid\<lparr>rewards := (rewards mid)(?u \<mapsto> 0)\<rparr>"
    and p: "call_method p = Mining.Mint ?u r" by blast
  from assms(2) mid r have pending: "pending = r" by (simp add: pending_matches_update)
  show ?thesis
  proof (cases "DiamondToken.mint api ?env tok ?u r")
    case (Inl e)
    with assms(3) c p have "tok' = tok"
      and "claim_reward_callback (env_cb\<lparr>promise_ok := False\<rparr>) m1 ?u r = Inr m'"
      by (auto simp: settle_claim_def)
    with m1 pending show ?thesis by (auto simp: claim_reward_callback_def add_ov_Inr)
  next
    case (Inr t)
    with assms(3) c p have "tok' = t" and m': "m' = m1"
      by (auto simp: settle_claim_def claim_reward_callback_def)
    with mint_supply [OF assms(1) Inr] m1 pending show ?thesis by auto
  qed
qed

theorem mining_claim_conserves_witness:
  "\<exists>m' tok'. settle_claim ledger_ft (demo_env ''alice'' 8) (env_at ''mine'' ''dmd'' 3 False)
       (env_at ''mine'' ''mine'' 4 False) (new_mining (demo_env ''owner'' 5) ''dmd'') bridged_token = Inr (m', tok')
     \<and> tok' = bridged_token \<and> unat (reward_of m' ''alice'') = 30 * 10 ^ 18"
proof -
  let ?m = "new_mining (demo_env ''owner'' 5) ''dmd''"
  have pend: "Mining.get_pending_reward (demo_env ''alice'' 8) ?m (predecessor (demo_env ''alice'' 8)) = Inr (30 * 10 ^ 18)"
    unfolding pending_matches_update
    by (simp add: update_rewards_def new_mining_def demo_env_def env_at_def Let_def
        sub_ov_def mul_ov_def add_ov_def)
  have own: "DiamondToken.owner_id bridged_token = ''owner''"
    by (simp add: bridged_token_def demo_token_simps)
  have "\<exists>m' tok'. settle_claim ledger_ft (demo_env ''alice'' 8) (env_at ''mine'' ''dmd'' 3 False)
       (env_at ''mine'' ''mine'' 4 False) ?m bridged_token = Inr (m', tok')"
    by (simp add: settle_claim_def Mining.claim_rewards_def update_rewards_def new_mining_def demo_env_def env_at_def
        Let_def sub_ov_def mul_ov_def add_ov_def DiamondToken.mint_def DiamondToken.assert_owner_def own
        claim_reward_callback_def)
  then obtain m' tok' where e: "settle_claim ledger_ft (demo_env ''alice'' 8) (env_at ''mine'' ''dmd'' 3 False)
       (env_at ''mine'' ''mine'' 4 False) ?m bridged_token = Inr (m', tok')" by blast
  from mining_claim_conserves [OF bridged_token_inv pend e] own e show ?thesis
    by (auto simp: demo_env_def env_at_def)
qed

end
